(* ===== verification/Prelude.thy ===== *)
theory Prelude
  imports Main "HOL-Library.Multiset"
begin

text \<open>
  What every component of the development shares: the results of fallible code, the
  actions of asynchronous code (state passing with an error channel) with the frame
  reasoning that carries invariants through them, the JavaScript string operations the
  sources use, stable sorting, de-duplication and keyset paging.

  JavaScript strings are sequences of code units. Here they are HOL strings, whose
  characters are the code units 0 to 255; every literal of the sources is in that range.
\<close>

named_theorems act_simps \<open>evaluation of actions\<close>
named_theorems js_simps \<open>evaluation of JavaScript string operations\<close>

section \<open>Fallible code\<close>

text \<open>Synchronous code that may throw: \<open>Inl\<close> the thrown error, \<open>Inr\<close> the value.\<close>

definition bindR :: "'e + 'a \<Rightarrow> ('a \<Rightarrow> 'e + 'b) \<Rightarrow> 'e + 'b" where
  "bindR r k = (case r of Inl e \<Rightarrow> Inl e | Inr x \<Rightarrow> k x)"

definition guardR :: "bool \<Rightarrow> 'e \<Rightarrow> 'e + unit" where
  "guardR b e = (if b then Inr () else Inl e)"

fun mapR :: "('a \<Rightarrow> 'e + 'b) \<Rightarrow> 'a list \<Rightarrow> 'e + 'b list" where
  "mapR f [] = Inr []"
| "mapR f (x # xs) = bindR (f x) (\<lambda>y. bindR (mapR f xs) (\<lambda>ys. Inr (y # ys)))"

lemma bindR_simps [simp]: "bindR (Inl e) k = Inl e" "bindR (Inr x) k = k x"
  by (simp_all add: bindR_def)

lemma bindR_Inr_iff: "bindR r k = Inr y \<longleftrightarrow> (\<exists>x. r = Inr x \<and> k x = Inr y)"
  by (cases r) auto

lemma bindR_Inl_iff: "bindR r k = Inl e \<longleftrightarrow> r = Inl e \<or> (\<exists>x. r = Inr x \<and> k x = Inl e)"
  by (cases r) auto

lemma guardR_iff [simp]:
  "guardR b e = Inr u \<longleftrightarrow> b" "guardR b e = Inl e' \<longleftrightarrow> \<not> b \<and> e' = e"
  by (auto simp: guardR_def)

lemma guardR_eval: "guardR True e = Inr ()" "guardR False e = Inl e"
  by (simp_all add: guardR_def)

lemma mapR_Inr_iff: "mapR f xs = Inr ys \<longleftrightarrow> list_all2 (\<lambda>x y. f x = Inr y) xs ys"
proof (induction xs arbitrary: ys)
  case Nil
  then show ?case by (cases ys) auto
next
  case (Cons x xs)
  then show ?case by (cases ys) (auto simp: bindR_Inr_iff)
qed

section \<open>Actions\<close>

text \<open>
  Asynchronous service code threads one state (the database, the clock, the source of
  random identifiers, the outside services) and may reject. An action returns the state
  after it, also when it rejects: what was written before the rejection stays written.
\<close>

type_synonym ('s, 'e, 'a) act = "'s \<Rightarrow> 's \<times> ('e + 'a)"

definition ret :: "'a \<Rightarrow> ('s, 'e, 'a) act" where
  "ret x = (\<lambda>s. (s, Inr x))"

definition raise :: "'e \<Rightarrow> ('s, 'e, 'a) act" where
  "raise e = (\<lambda>s. (s, Inl e))"

definition liftR :: "'e + 'a \<Rightarrow> ('s, 'e, 'a) act" where
  "liftR r = (\<lambda>s. (s, r))"

text \<open>Reading the process's own memory.\<close>

definition gets :: "('s \<Rightarrow> 'a) \<Rightarrow> ('s, 'e, 'a) act" where
  "gets f = (\<lambda>s. (s, Inr (f s)))"

definition bindA :: "('s, 'e, 'a) act \<Rightarrow> ('a \<Rightarrow> ('s, 'e, 'b) act) \<Rightarrow> ('s, 'e, 'b) act" where
  "bindA m k = (\<lambda>s. case m s of (t, Inl e) \<Rightarrow> (t, Inl e) | (t, Inr x) \<Rightarrow> k x t)"

definition catchA :: "('s, 'e, 'a) act \<Rightarrow> ('e \<Rightarrow> ('s, 'e, 'a) act) \<Rightarrow> ('s, 'e, 'a) act" where
  "catchA m h = (\<lambda>s. case m s of (t, Inl e) \<Rightarrow> h e t | (t, Inr x) \<Rightarrow> (t, Inr x))"

text \<open>The settled outcome of an action as a value, for code that inspects a rejection.\<close>

definition settle :: "('s, 'e, 'a) act \<Rightarrow> ('s, 'e, 'e + 'a) act" where
  "settle m = (\<lambda>s. case m s of (t, r) \<Rightarrow> (t, Inr r))"

fun mapA :: "('a \<Rightarrow> ('s, 'e, 'b) act) \<Rightarrow> 'a list \<Rightarrow> ('s, 'e, 'b list) act" where
  "mapA f [] = ret []"
| "mapA f (x # xs) = bindA (f x) (\<lambda>y. bindA (mapA f xs) (\<lambda>ys. ret (y # ys)))"

lemma act_eval [act_simps]:
  "ret x s = (s, Inr x)"
  "raise e s = (s, Inl e)"
  "liftR r s = (s, r)"
  "gets f s = (s, Inr (f s))"
  by (simp_all add: ret_def raise_def liftR_def gets_def)

lemma bindA_monad [simp]:
  "bindA (ret x) k = k x"
  "bindA (raise e) k = raise e"
  "bindA (liftR (Inr x)) k = k x"
  "bindA (liftR (Inl e)) k = raise e"
  by (simp_all add: bindA_def act_simps raise_def fun_eq_iff)

lemma bindA_Inr_iff:
  "bindA m k s = (t, Inr y) \<longleftrightarrow> (\<exists>u x. m s = (u, Inr x) \<and> k x u = (t, Inr y))"
  by (auto simp: bindA_def split: prod.splits sum.splits)

lemma bindA_Inl_iff:
  "bindA m k s = (t, Inl e) \<longleftrightarrow>
     m s = (t, Inl e) \<or> (\<exists>u x. m s = (u, Inr x) \<and> k x u = (t, Inl e))"
  by (auto simp: bindA_def split: prod.splits sum.splits)

lemma bindA_step: "m s = (t, Inr x) \<Longrightarrow> bindA m k s = k x t"
  by (simp add: bindA_def)

lemma bindA_fail: "m s = (t, Inl e) \<Longrightarrow> bindA m k s = (t, Inl e)"
  by (simp add: bindA_def)

lemma bindA_gets: "bindA (gets f) k s = k (f s) s"
  by (simp add: bindA_def gets_def)

lemma bindA_gets_const [simp]: "bindA (gets (\<lambda>s. x)) k = k x"
  by (simp add: bindA_def gets_def fun_eq_iff)

lemma bindA_settle: "m s = (t, r) \<Longrightarrow> bindA (settle m) k s = k r t"
  by (simp add: bindA_def settle_def)

lemma catchA_Inr_iff:
  "catchA m h s = (t, Inr y) \<longleftrightarrow>
     m s = (t, Inr y) \<or> (\<exists>u e. m s = (u, Inl e) \<and> h e u = (t, Inr y))"
  by (auto simp: catchA_def split: prod.splits sum.splits)

lemma catchA_Inl_iff:
  "catchA m h s = (t, Inl e) \<longleftrightarrow> (\<exists>u d. m s = (u, Inl d) \<and> h d u = (t, Inl e))"
  by (auto simp: catchA_def split: prod.splits sum.splits)

lemma settle_iff: "settle m s = (t, r) \<longleftrightarrow> (\<exists>q. m s = (t, q) \<and> r = Inr q)"
  by (auto simp: settle_def split: prod.splits)

lemma liftR_iff: "liftR r s = (t, q) \<longleftrightarrow> t = s \<and> r = q"
  by (auto simp: liftR_def)

lemmas act_inv = bindA_Inr_iff bindA_Inl_iff catchA_Inr_iff catchA_Inl_iff settle_iff liftR_iff

section \<open>Frame reasoning\<close>

text \<open>
  An action moves the state along \<open>R\<close>. For a preorder \<open>R\<close> the rules below push the
  statement through a composed action, so that a frame fact (a collection not written, an
  audit trail only extended) is proved by one application of \<open>frame_rules\<close>.
\<close>

definition moves :: "('s \<Rightarrow> 's \<Rightarrow> bool) \<Rightarrow> ('s, 'e, 'a) act \<Rightarrow> bool" where
  "moves R m \<longleftrightarrow> (\<forall>s. R s (fst (m s)))"

lemma movesD: "moves R m \<Longrightarrow> m s = (t, r) \<Longrightarrow> R s t"
  by (metis moves_def fst_conv)

lemma movesI: "(\<And>s t r. m s = (t, r) \<Longrightarrow> R s t) \<Longrightarrow> moves R m"
  by (metis moves_def surjective_pairing)

lemma moves_weaken: "moves R m \<Longrightarrow> (\<And>s t. R s t \<Longrightarrow> S s t) \<Longrightarrow> moves S m"
  by (auto simp: moves_def)

definition movesAt :: "('s \<Rightarrow> 's \<Rightarrow> bool) \<Rightarrow> ('s, 'e, 'a) act \<Rightarrow> 's \<Rightarrow> bool" where
  "movesAt R m s \<longleftrightarrow> R s (fst (m s))"

lemma moves_iff_At: "moves R m \<longleftrightarrow> (\<forall>s. movesAt R m s)"
  by (simp add: moves_def movesAt_def)

lemma movesAtI: "(\<And>t r. m s = (t, r) \<Longrightarrow> R s t) \<Longrightarrow> movesAt R m s"
  by (metis movesAt_def surjective_pairing)

lemma movesAtD: "movesAt R m s \<Longrightarrow> m s = (t, r) \<Longrightarrow> R s t"
  by (metis movesAt_def fst_conv)

locale frame =
  fixes R :: "'s \<Rightarrow> 's \<Rightarrow> bool"
  assumes R_refl: "R s s"
    and R_trans: "R s t \<Longrightarrow> R t u \<Longrightarrow> R s u"
begin

lemma moves_ret: "moves R (ret x)"
  by (simp add: moves_def act_simps R_refl)

lemma moves_raise: "moves R (raise e)"
  by (simp add: moves_def act_simps R_refl)

lemma moves_liftR: "moves R (liftR r)"
  by (simp add: moves_def act_simps R_refl)

lemma moves_gets: "moves R (gets f)"
  by (simp add: moves_def act_simps R_refl)

lemma moves_bindA:
  assumes "moves R m" and "\<And>x. moves R (k x)"
  shows "moves R (bindA m k)"
proof (rule movesI)
  fix s t r
  assume "bindA m k s = (t, r)"
  then show "R s t"
    using assms by (cases "m s"; cases "snd (m s)")
      (auto simp: bindA_def dest: movesD intro: R_trans)
qed

lemma moves_catchA:
  assumes "moves R m" and "\<And>e. moves R (h e)"
  shows "moves R (catchA m h)"
proof (rule movesI)
  fix s t r
  assume "catchA m h s = (t, r)"
  then show "R s t"
    using assms by (cases "m s"; cases "snd (m s)")
      (auto simp: catchA_def dest: movesD intro: R_trans)
qed

lemma moves_settle: "moves R m \<Longrightarrow> moves R (settle m)"
  by (rule movesI) (auto simp: settle_iff dest: movesD)

lemma moves_if: "(b \<Longrightarrow> moves R m) \<Longrightarrow> (\<not> b \<Longrightarrow> moves R n) \<Longrightarrow> moves R (if b then m else n)"
  by simp

lemma moves_option:
  "(x = None \<Longrightarrow> moves R m) \<Longrightarrow> (\<And>y. x = Some y \<Longrightarrow> moves R (k y)) \<Longrightarrow>
   moves R (case x of None \<Rightarrow> m | Some y \<Rightarrow> k y)"
  by (cases x) auto

lemma moves_sum:
  "(\<And>y. x = Inl y \<Longrightarrow> moves R (h y)) \<Longrightarrow> (\<And>y. x = Inr y \<Longrightarrow> moves R (k y)) \<Longrightarrow>
   moves R (case x of Inl y \<Rightarrow> h y | Inr y \<Rightarrow> k y)"
  by (cases x) auto

text \<open>Synchronous code before an action, whose value the action relies on.\<close>

lemma moves_lifted: "(\<And>x. r = Inr x \<Longrightarrow> moves R (k x)) \<Longrightarrow> moves R (bindA (liftR r) k)"
  by (cases r) (simp_all add: moves_raise)

lemma moves_mapA: "(\<And>x. moves R (f x)) \<Longrightarrow> moves R (mapA f xs)"
  by (induction xs) (auto intro: moves_ret moves_bindA)

lemmas frame_rules = moves_ret moves_raise moves_liftR moves_gets moves_bindA moves_catchA moves_settle
  moves_if moves_option moves_sum moves_mapA

text \<open>The same from one state, for a continuation that relies on what was read before it.\<close>

lemma movesAt_bindA:
  assumes "movesAt R m s" and "\<And>x t. m s = (t, Inr x) \<Longrightarrow> movesAt R (k x) t"
  shows "movesAt R (bindA m k) s"
  using assms by (cases "m s"; cases "snd (m s)") (auto simp: movesAt_def bindA_def intro: R_trans)

lemma movesAt_catchA:
  assumes "movesAt R m s" and "\<And>e t. m s = (t, Inl e) \<Longrightarrow> movesAt R (h e) t"
  shows "movesAt R (catchA m h) s"
  using assms by (cases "m s"; cases "snd (m s)") (auto simp: movesAt_def catchA_def intro: R_trans)

lemma movesAt_lifted: "(\<And>x. r = Inr x \<Longrightarrow> movesAt R (k x) s) \<Longrightarrow> movesAt R (bindA (liftR r) k) s"
  by (cases r) (simp_all add: movesAt_def act_simps R_refl)

lemma movesAt_settle: "movesAt R m s \<Longrightarrow> movesAt R (settle m) s"
  by (auto simp: movesAt_def settle_def split: prod.splits)

lemma movesAt_done: "movesAt R (ret x) s" "movesAt R (raise e) s" "movesAt R (liftR r) s"
  by (simp_all add: movesAt_def act_simps R_refl)

end

section \<open>JavaScript strings and truth values\<close>

text \<open>An optional string field is falsy when it is absent or empty.\<close>

definition truthy :: "string option \<Rightarrow> bool" where
  "truthy v = (case v of None \<Rightarrow> False | Some x \<Rightarrow> x \<noteq> [])"

text \<open>Spreading an optional field only when it is truthy: \<open>...(v ? { field: v } : {})\<close>.\<close>

definition keepTruthy :: "string option \<Rightarrow> string option" where
  "keepTruthy v = (if truthy v then v else None)"

definition orElse :: "'a option \<Rightarrow> 'a option \<Rightarrow> 'a option" where
  "orElse v w = (case v of None \<Rightarrow> w | Some x \<Rightarrow> Some x)"

fun startsWith :: "string \<Rightarrow> string \<Rightarrow> bool" where
  "startsWith xs [] = True"
| "startsWith [] (p # ps) = False"
| "startsWith (x # xs) (p # ps) = (x = p \<and> startsWith xs ps)"

definition isWhite :: "char \<Rightarrow> bool" where
  "isWhite c \<longleftrightarrow> (let n = (of_char c :: nat) in n = 32 \<or> (9 \<le> n \<and> n \<le> 13) \<or> n = 160)"

definition trim :: "string \<Rightarrow> string" where
  "trim xs = rev (dropWhile isWhite (rev (dropWhile isWhite xs)))"

text \<open>The relational operators on two strings compare code units.\<close>

fun strLess :: "string \<Rightarrow> string \<Rightarrow> bool" where
  "strLess xs [] = False"
| "strLess [] (y # ys) = True"
| "strLess (x # xs) (y # ys) =
     ((of_char x :: nat) < of_char y \<or> x = y \<and> strLess xs ys)"

definition strLeq :: "string \<Rightarrow> string \<Rightarrow> bool" where
  "strLeq xs ys \<longleftrightarrow> xs = ys \<or> strLess xs ys"

fun splitOn :: "char \<Rightarrow> string \<Rightarrow> string list" where
  "splitOn c [] = [[]]"
| "splitOn c (x # xs) =
     (if x = c then [] # splitOn c xs
      else case splitOn c xs of [] \<Rightarrow> [[x]] | w # ws \<Rightarrow> (x # w) # ws)"

definition digitChar :: "char \<Rightarrow> bool" where
  "digitChar c \<longleftrightarrow> (let n = (of_char c :: nat) in 48 \<le> n \<and> n \<le> 57)"

definition lowerChar :: "char \<Rightarrow> bool" where
  "lowerChar c \<longleftrightarrow> (let n = (of_char c :: nat) in 97 \<le> n \<and> n \<le> 122)"

definition upperChar :: "char \<Rightarrow> bool" where
  "upperChar c \<longleftrightarrow> (let n = (of_char c :: nat) in 65 \<le> n \<and> n \<le> 90)"

definition hexChar :: "char \<Rightarrow> bool" where
  "hexChar c \<longleftrightarrow> (let n = (of_char c :: nat) in (48 \<le> n \<and> n \<le> 57) \<or> (97 \<le> n \<and> n \<le> 102))"

lemma truthy_simps [simp]: "\<not> truthy None" "truthy (Some x) \<longleftrightarrow> x \<noteq> []"
  by (simp_all add: truthy_def)

lemma keepTruthy_simps [simp]: "keepTruthy None = None" "keepTruthy (Some (c # cs)) = Some (c # cs)"
  by (simp_all add: keepTruthy_def)

lemma truthy_keepTruthy [simp]: "truthy (keepTruthy v) = truthy v"
  by (simp add: keepTruthy_def)

lemma keepTruthy_eq_Some: "keepTruthy v = Some x \<longleftrightarrow> v = Some x \<and> x \<noteq> []"
  by (cases v) (auto simp: keepTruthy_def)

lemma orElse_simps [simp]: "orElse None w = w" "orElse (Some x) w = Some x"
  by (simp_all add: orElse_def)

lemma startsWith_iff: "startsWith xs ps \<longleftrightarrow> (\<exists>ys. xs = ps @ ys)"
  by (induction xs ps rule: startsWith.induct) auto

lemma startsWith_append [simp]: "startsWith (ps @ ys) ps"
  by (auto simp: startsWith_iff)

lemma trim_eq_Nil_iff: "trim xs = [] \<longleftrightarrow> (\<forall>c\<in>set xs. isWhite c)"
proof -
  have "trim xs = [] \<longleftrightarrow> (\<forall>c\<in>set (dropWhile isWhite xs). isWhite c)"
    by (simp add: trim_def dropWhile_eq_Nil_conv)
  also have "\<dots> \<longleftrightarrow> (\<forall>c\<in>set xs. isWhite c)"
    by (induction xs) auto
  finally show ?thesis .
qed

lemma strLess_irrefl [simp]: "\<not> strLess xs xs"
  by (induction xs) auto

lemma strLess_Nil [simp]: "strLess [] ys \<longleftrightarrow> ys \<noteq> []"
  by (cases ys) auto

lemma strLess_trans: "strLess xs ys \<Longrightarrow> strLess ys zs \<Longrightarrow> strLess xs zs"
proof (induction xs ys arbitrary: zs rule: strLess.induct)
  case (2 y ys)
  then show ?case by (cases zs) auto
next
  case (3 x xs y ys)
  then show ?case by (cases zs) auto
qed simp

lemma strLess_linear: "strLess xs ys \<or> xs = ys \<or> strLess ys xs"
proof (induction xs ys rule: strLess.induct)
  case (1 xs)
  then show ?case by simp
next
  case (3 x xs y ys)
  then show ?case
    by (metis strLess.simps(3) linorder_less_linear of_char_eq_iff)
qed simp

lemma strLess_asym: "strLess xs ys \<Longrightarrow> \<not> strLess ys xs"
  using strLess_trans strLess_irrefl by blast

lemma strLeq_iff_not_less: "strLeq xs ys \<longleftrightarrow> \<not> strLess ys xs"
  using strLess_linear strLess_asym by (auto simp: strLeq_def)

text \<open>Blocks of equal width compare before what follows them.\<close>

lemma strLess_append:
  "length xs = length ys \<Longrightarrow>
   strLess (xs @ us) (ys @ vs) \<longleftrightarrow> strLess xs ys \<or> xs = ys \<and> strLess us vs"
  by (induction xs ys rule: list_induct2) auto

lemma splitOn_Nil_iff [simp]: "splitOn c xs \<noteq> []"
  by (induction xs) (auto split: list.splits)

lemma splitOn_append:
  "c \<notin> set xs \<Longrightarrow> splitOn c (xs @ c # ys) = xs # splitOn c ys"
  by (induction xs) auto

lemma splitOn_single: "c \<notin> set xs \<Longrightarrow> splitOn c xs = [xs]"
  by (induction xs) auto

text \<open>A separator that occurs in neither head splits equal strings at the same place.\<close>

lemma separator_cancel:
  "c \<notin> set xs \<Longrightarrow> c \<notin> set ys \<Longrightarrow> xs @ c # us = ys @ c # vs \<longleftrightarrow> xs = ys \<and> us = vs"
proof (induction xs arbitrary: ys)
  case Nil
  then show ?case by (cases ys) auto
next
  case (Cons x xs)
  then show ?case by (cases ys) auto
qed

lemma of_char_less_256: "(of_char c :: nat) < 256"
  by (metis of_char_mod_256 mod_less_divisor zero_less_numeral)

section \<open>Arrays\<close>

text \<open>\<open>[...new Set(xs)]\<close>: the first occurrence of every element, in order.\<close>

fun uniq :: "'a list \<Rightarrow> 'a list" where
  "uniq [] = []"
| "uniq (x # xs) = x # uniq (filter (\<lambda>y. y \<noteq> x) xs)"

lemma set_uniq [simp]: "set (uniq xs) = set xs"
  by (induction xs rule: uniq.induct) auto

lemma distinct_uniq [simp]: "distinct (uniq xs)"
  by (induction xs rule: uniq.induct) auto

lemma uniq_distinct: "distinct xs \<Longrightarrow> uniq xs = xs"
proof (induction xs)
  case (Cons x xs)
  then have "filter (\<lambda>y. y \<noteq> x) xs = xs" by (auto simp: filter_id_conv)
  with Cons show ?case by simp
qed simp

lemma length_uniq: "length (uniq xs) \<le> length xs"
  by (metis card_length distinct_card distinct_uniq set_uniq)

text \<open>
  \<open>Array.prototype.sort\<close> with a comparator is a stable sort; \<open>leq\<close> is the comparator's
  "not greater". Insertion from the right keeps equal elements in order.
\<close>

fun insertBy :: "('a \<Rightarrow> 'a \<Rightarrow> bool) \<Rightarrow> 'a \<Rightarrow> 'a list \<Rightarrow> 'a list" where
  "insertBy leq x [] = [x]"
| "insertBy leq x (y # ys) = (if leq x y then x # y # ys else y # insertBy leq x ys)"

fun sortBy :: "('a \<Rightarrow> 'a \<Rightarrow> bool) \<Rightarrow> 'a list \<Rightarrow> 'a list" where
  "sortBy leq [] = []"
| "sortBy leq (x # xs) = insertBy leq x (sortBy leq xs)"

lemma mset_insertBy [simp]: "mset (insertBy leq x xs) = add_mset x (mset xs)"
  by (induction xs) auto

lemma mset_sortBy [simp]: "mset (sortBy leq xs) = mset xs"
  by (induction xs) auto

lemma set_insertBy [simp]: "set (insertBy leq x xs) = insert x (set xs)"
  by (induction xs) auto

lemma set_sortBy [simp]: "set (sortBy leq xs) = set xs"
  by (induction xs) auto

lemma length_sortBy [simp]: "length (sortBy leq xs) = length xs"
  by (metis mset_sortBy size_mset)

lemma distinct_sortBy [simp]: "distinct (sortBy leq xs) = distinct xs"
  by (metis mset_sortBy mset_eq_imp_distinct_iff)

lemma distinct_map_sortBy: "distinct (map f (sortBy leq xs)) = distinct (map f xs)"
  by (metis mset_map mset_sortBy mset_eq_imp_distinct_iff)

text \<open>What a comparator must satisfy for the sort to order its input.\<close>

locale comparator =
  fixes leq :: "'a \<Rightarrow> 'a \<Rightarrow> bool"
  assumes total: "leq x y \<or> leq y x"
    and trans: "leq x y \<Longrightarrow> leq y z \<Longrightarrow> leq x z"
begin

lemma sorted_insertBy: "sorted_wrt leq xs \<Longrightarrow> sorted_wrt leq (insertBy leq x xs)"
proof (induction xs)
  case (Cons y ys)
  then show ?case using total trans by (auto dest: trans)
qed simp

lemma sorted_sortBy: "sorted_wrt leq (sortBy leq xs)"
  by (induction xs) (auto simp: sorted_insertBy)

lemma sortBy_sorted: "sorted_wrt leq xs \<Longrightarrow> sortBy leq xs = xs"
proof (induction xs)
  case (Cons x xs)
  then show ?case by (cases xs) auto
qed simp

lemma sortBy_idem: "sortBy leq (sortBy leq xs) = sortBy leq xs"
  by (simp add: sortBy_sorted sorted_sortBy)

end

text \<open>\<open>a.x.localeCompare(b.x) || a.y.localeCompare(b.y)\<close> is not greater than zero.\<close>

definition byThen :: "('a \<Rightarrow> 'a \<Rightarrow> bool) \<Rightarrow> 'a \<Rightarrow> 'a \<Rightarrow> 'a \<Rightarrow> 'a \<Rightarrow> bool" where
  "byThen leq x x' y y' = (if leq x x' \<and> leq x' x then leq y y' else leq x x')"

lemma comparator_byThen:
  assumes "comparator leq"
  shows "comparator (\<lambda>a b. byThen leq (f a) (f b) (g a) (g b))"
proof -
  note total = comparator.total [OF assms] and trans = comparator.trans [OF assms]
  show ?thesis
    by (unfold_locales) (metis byThen_def total, metis (full_types) byThen_def trans)
qed

interpretation codeUnits: comparator strLeq
proof
  show "strLeq x y \<or> strLeq y x" for x y
    using strLess_linear by (auto simp: strLeq_def)
  show "strLeq x y \<Longrightarrow> strLeq y z \<Longrightarrow> strLeq x z" for x y z
    using strLess_trans by (auto simp: strLeq_def)
qed

end
