(* ===== verification/IsoTime.thy ===== *)
theory IsoTime
  imports Prelude
begin

text \<open>
  The part of the ECMAScript \<open>Date\<close> the services rely on: time values in milliseconds,
  \<open>toISOString\<close> and reading such a string back. Services store timestamps as ISO strings and
  compare them as strings, so the order of the strings is proved equal to the order of the
  times for the years 0 to 9999; outside that range the expanded-year form breaks it.
\<close>

section \<open>The proleptic Gregorian calendar\<close>

definition msPerDay :: int where
  "msPerDay = 86400000"

definition dayFromYear :: "int \<Rightarrow> int" where
  "dayFromYear y = 365 * (y - 1970) + (y - 1969) div 4 - (y - 1901) div 100 + (y - 1601) div 400"

text \<open>The year of a day number: an estimate from the mean year, corrected by one.\<close>

definition yearFromDay :: "int \<Rightarrow> int" where
  "yearFromDay d =
     (let e = 1970 + (400 * d) div 146097 in
      if d < dayFromYear e then e - 1
      else if dayFromYear (e + 1) \<le> d then e + 1 else e)"

definition leapShift :: "int \<Rightarrow> int" where
  "leapShift y = dayFromYear (y + 1) - dayFromYear y - 365"

text \<open>First day of a month within the year; \<open>l\<close> is 1 in a leap year.\<close>

definition monthStart :: "int \<Rightarrow> int \<Rightarrow> int" where
  "monthStart l m =
     (if m \<le> 1 then 0 else if m = 2 then 31 else if m = 3 then 59 + l else if m = 4 then 90 + l
      else if m = 5 then 120 + l else if m = 6 then 151 + l else if m = 7 then 181 + l
      else if m = 8 then 212 + l else if m = 9 then 243 + l else if m = 10 then 273 + l
      else if m = 11 then 304 + l else if m = 12 then 334 + l else 365 + l)"

definition monthOf :: "int \<Rightarrow> int \<Rightarrow> int" where
  "monthOf l d =
     (if d < 31 then 1 else if d < 59 + l then 2 else if d < 90 + l then 3 else if d < 120 + l then 4
      else if d < 151 + l then 5 else if d < 181 + l then 6 else if d < 212 + l then 7
      else if d < 243 + l then 8 else if d < 273 + l then 9 else if d < 304 + l then 10
      else if d < 334 + l then 11 else 12)"

lemma div_bounds: "0 < k \<Longrightarrow> k * (a div k) \<le> a \<and> a < k * (a div k) + k" for a k :: int
  using mult_div_mod_eq [of k a] pos_mod_sign [of k a] pos_mod_bound [of k a] by linarith

lemma dayFromYear_bounds:
  "400 * dayFromYear y \<le> 146097 * y - 287811090 + 1200"
  "146097 * y - 287811090 - 1200 \<le> 400 * dayFromYear y"
  using div_bounds [of 4 "y - 1969"] div_bounds [of 100 "y - 1901"] div_bounds [of 400 "y - 1601"]
  by (simp_all add: dayFromYear_def algebra_simps)

lemma div_step:
  fixes a k :: int
  assumes "0 < k"
  shows "a div k - (a - 1) div k = of_bool (k dvd a)"
proof -
  define b where "b = a - 1"
  have "(b + 1) mod k = (if (b mod k) + 1 = k then 0 else b mod k + 1)"
    using assms by (simp add: zmod_trivial_iff)
      (smt (verit) assms mod_add_left_eq mod_pos_pos_trivial mod_self pos_mod_bound pos_mod_sign)
  then have "(b + 1) div k - b div k = of_bool (k dvd b + 1)"
    using mult_div_mod_eq [of k b] mult_div_mod_eq [of k "b + 1"] assms
    by (smt (verit) dvd_eq_mod_eq_0 int_distrib(4) mult.commute mult_cancel_left
        mult_cancel_left1 pos_mod_sign of_bool_eq(1) of_bool_eq(2))
  then show ?thesis by (simp add: b_def)
qed

lemma leapShift_eq:
  "leapShift y = of_bool (4 dvd y - 1968) - of_bool (100 dvd y - 1900) + of_bool (400 dvd y - 1600)"
  using div_step [of 4 "y - 1968"] div_step [of 100 "y - 1900"] div_step [of 400 "y - 1600"]
  by (simp add: leapShift_def dayFromYear_def)

lemma leapShift_range: "leapShift y = 0 \<or> leapShift y = 1"
proof -
  have "400 dvd y - 1600 \<longrightarrow> 100 dvd y - 1900" "100 dvd y - 1900 \<longrightarrow> 4 dvd y - 1968"
    by presburger+
  then show ?thesis unfolding leapShift_eq
    by (cases "400 dvd y - 1600"; cases "100 dvd y - 1900"; cases "4 dvd y - 1968")
      (simp_all only: of_bool_eq, simp_all)
qed

lemma dayFromYear_step: "dayFromYear (y + 1) = dayFromYear y + 365 + leapShift y"
  by (simp add: leapShift_def)

lemma dayFromYear_strict: "x < y \<Longrightarrow> dayFromYear x < dayFromYear y"
proof (induction y rule: int_gr_induct)
  case base
  then show ?case using dayFromYear_step [of x] leapShift_range [of x] by auto
next
  case (step i)
  then show ?case using dayFromYear_step [of i] leapShift_range [of i] by auto
qed

lemma yearFromDay_bounds:
  "dayFromYear (yearFromDay d) \<le> d \<and> d < dayFromYear (yearFromDay d + 1)"
proof -
  define e where "e = 1970 + (400 * d) div 146097"
  have e: "146097 * e \<le> 400 * d + 287811090" "400 * d + 287811090 < 146097 * e + 146097"
    using div_bounds [of 146097 "400 * d"] by (simp_all add: e_def algebra_simps)
  have "dayFromYear (e - 1) \<le> d" using dayFromYear_bounds(1) [of "e - 1"] e by (simp add: algebra_simps)
  moreover have "d < dayFromYear (e + 2)" using dayFromYear_bounds(2) [of "e + 2"] e by (simp add: algebra_simps)
  ultimately show ?thesis
    by (auto simp: yearFromDay_def Let_def e_def [symmetric] add.assoc)
qed

lemma yearFromDay_mono: "c \<le> d \<Longrightarrow> yearFromDay c \<le> yearFromDay d"
proof (rule ccontr)
  assume "c \<le> d" "\<not> yearFromDay c \<le> yearFromDay d"
  then have "yearFromDay d + 1 = yearFromDay c \<or> yearFromDay d + 1 < yearFromDay c" by linarith
  then have "dayFromYear (yearFromDay d + 1) \<le> dayFromYear (yearFromDay c)"
    using dayFromYear_strict by (metis order_less_imp_le order_refl)
  then show False using \<open>c \<le> d\<close> yearFromDay_bounds [of c] yearFromDay_bounds [of d] by linarith
qed

lemma monthOf_bounds:
  assumes "l = 0 \<or> l = 1" and "0 \<le> d" and "d < 365 + l"
  shows "1 \<le> monthOf l d" "monthOf l d \<le> 12" "monthStart l (monthOf l d) \<le> d"
    "d < monthStart l (monthOf l d) + 31"
  using assms by (auto simp: monthOf_def monthStart_def)

lemma monthOf_mono: "l = 0 \<or> l = 1 \<Longrightarrow> c \<le> d \<Longrightarrow> monthOf l c \<le> monthOf l d"
  by (auto simp: monthOf_def)

section \<open>Decimal fields\<close>

definition digitOf :: "int \<Rightarrow> char" where
  "digitOf n = char_of (48 + nat n)"

definition digitVal :: "char \<Rightarrow> int" where
  "digitVal c = int (of_char c) - 48"

text \<open>The last \<open>n\<close> decimal digits of a number, zero-padded, and the number read back.\<close>

fun pad :: "nat \<Rightarrow> int \<Rightarrow> string" where
  "pad 0 x = []"
| "pad (Suc n) x = pad n (x div 10) @ [digitOf (x mod 10)]"

definition unpad :: "string \<Rightarrow> int" where
  "unpad xs = foldl (\<lambda>a c. 10 * a + digitVal c) 0 xs"

lemma of_char_digitOf: "0 \<le> n \<Longrightarrow> n < 10 \<Longrightarrow> of_char (digitOf n) = (48 + nat n :: nat)"
  by (simp add: digitOf_def of_char_of)

lemma digitVal_digitOf: "0 \<le> n \<Longrightarrow> n < 10 \<Longrightarrow> digitVal (digitOf n) = n"
  by (simp add: digitVal_def of_char_digitOf)

lemma length_pad [simp]: "length (pad n x) = n"
  by (induction n x rule: pad.induct) auto

lemma div10_less: "x < 10 ^ Suc n \<Longrightarrow> x div 10 < (10 :: int) ^ n"
  using div_bounds [of 10 x] by simp

lemma unpad_pad: "0 \<le> x \<Longrightarrow> x < 10 ^ n \<Longrightarrow> unpad (pad n x) = x"
proof (induction n x rule: pad.induct)
  case (2 n x)
  then have "x div 10 < 10 ^ n" by (blast intro: div10_less)
  with 2 show ?case by (simp add: unpad_def digitVal_digitOf)
qed (simp add: unpad_def)

lemma pad_eq_iff: "0 \<le> x \<Longrightarrow> x < 10 ^ n \<Longrightarrow> 0 \<le> y \<Longrightarrow> y < 10 ^ n \<Longrightarrow> pad n x = pad n y \<longleftrightarrow> x = y"
  by (metis unpad_pad)

lemma strLess_pad:
  "0 \<le> x \<Longrightarrow> x < 10 ^ n \<Longrightarrow> 0 \<le> y \<Longrightarrow> y < 10 ^ n \<Longrightarrow> strLess (pad n x) (pad n y) \<longleftrightarrow> x < y"
proof (induction n arbitrary: x y)
  case (Suc n)
  have q: "x div 10 < 10 ^ n" "y div 10 < 10 ^ n" using Suc.prems by (blast intro: div10_less)+
  have "strLess (pad n (x div 10)) (pad n (y div 10)) \<longleftrightarrow> x div 10 < y div 10"
    using Suc q by simp
  moreover have "pad n (x div 10) = pad n (y div 10) \<longleftrightarrow> x div 10 = y div 10"
    using Suc.prems q by (simp add: pad_eq_iff)
  moreover have "strLess [digitOf (x mod 10)] [digitOf (y mod 10)] \<longleftrightarrow> x mod 10 < y mod 10"
    using pos_mod_sign [of 10 x] pos_mod_sign [of 10 y] by (auto simp: of_char_digitOf)
  moreover have "x < y \<longleftrightarrow> x div 10 < y div 10 \<or> x div 10 = y div 10 \<and> x mod 10 < y mod 10"
    using mult_div_mod_eq [of 10 x] mult_div_mod_eq [of 10 y] pos_mod_bound [of 10 x]
      pos_mod_bound [of 10 y] pos_mod_sign [of 10 x] pos_mod_sign [of 10 y] by linarith
  ultimately show ?case by (simp add: strLess_append del: strLess.simps)
qed simp

section \<open>ISO strings\<close>

text \<open>A time value is a number of milliseconds within 100,000,000 days of the epoch.\<close>

definition timeValue :: "int \<Rightarrow> bool" where
  "timeValue t \<longleftrightarrow> \<bar>t\<bar> \<le> 8640000000000000"

definition dayOf :: "int \<Rightarrow> int" where "dayOf t = t div msPerDay"
definition yearOf :: "int \<Rightarrow> int" where "yearOf t = yearFromDay (dayOf t)"
definition dayInYear :: "int \<Rightarrow> int" where "dayInYear t = dayOf t - dayFromYear (yearOf t)"
definition monthField :: "int \<Rightarrow> int" where
  "monthField t = monthOf (leapShift (yearOf t)) (dayInYear t)"
definition dateField :: "int \<Rightarrow> int" where
  "dateField t = dayInYear t - monthStart (leapShift (yearOf t)) (monthField t) + 1"
definition inDay :: "int \<Rightarrow> int" where "inDay t = t mod msPerDay"
definition inHour :: "int \<Rightarrow> int" where "inHour t = inDay t mod 3600000"
definition inMinute :: "int \<Rightarrow> int" where "inMinute t = inHour t mod 60000"
definition hourField :: "int \<Rightarrow> int" where "hourField t = inDay t div 3600000"
definition minuteField :: "int \<Rightarrow> int" where "minuteField t = inHour t div 60000"
definition secondField :: "int \<Rightarrow> int" where "secondField t = inMinute t div 1000"
definition msField :: "int \<Rightarrow> int" where "msField t = inMinute t mod 1000"

definition yearString :: "int \<Rightarrow> string" where
  "yearString y =
     (if 0 \<le> y \<and> y \<le> 9999 then pad 4 y
      else (if y < 0 then CHR ''-'' else CHR ''+'') # pad 6 \<bar>y\<bar>)"

definition clockString :: "int \<Rightarrow> string" where
  "clockString t =
     ''-'' @ pad 2 (monthField t) @ ''-'' @ pad 2 (dateField t) @ ''T'' @ pad 2 (hourField t) @
     '':'' @ pad 2 (minuteField t) @ '':'' @ pad 2 (secondField t) @ ''.'' @ pad 3 (msField t) @ ''Z''"

definition isoString :: "int \<Rightarrow> string" where
  "isoString t = yearString (yearOf t) @ clockString t"

definition timeFromFields ::
  "int \<Rightarrow> int \<Rightarrow> int \<Rightarrow> int \<Rightarrow> int \<Rightarrow> int \<Rightarrow> int \<Rightarrow> int" where
  "timeFromFields y mo d h mi s ms =
     (dayFromYear y + monthStart (leapShift y) mo + d - 1) * msPerDay
       + h * 3600000 + mi * 60000 + s * 1000 + ms"

definition clockTime :: "int \<Rightarrow> string \<Rightarrow> int" where
  "clockTime y r =
     timeFromFields y (unpad (take 2 (drop 1 r))) (unpad (take 2 (drop 4 r)))
       (unpad (take 2 (drop 7 r))) (unpad (take 2 (drop 10 r))) (unpad (take 2 (drop 13 r)))
       (unpad (take 3 (drop 16 r)))"

text \<open>
  Reading a string that \<open>toISOString\<close> can produce. Other date strings are read by the
  engine's own rules, which are a parameter of the model.
\<close>

definition isoFields :: "string \<Rightarrow> int" where
  "isoFields s =
     (if s \<noteq> [] \<and> hd s = CHR ''+'' then clockTime (unpad (take 6 (tl s))) (drop 7 s)
      else if s \<noteq> [] \<and> hd s = CHR ''-'' then clockTime (- unpad (take 6 (tl s))) (drop 7 s)
      else clockTime (unpad (take 4 s)) (drop 4 s))"

definition parseIso :: "string \<Rightarrow> int option" where
  "parseIso s = (let t = isoFields s in if timeValue t \<and> isoString t = s then Some t else None)"

lemma dayInYear_range: "0 \<le> dayInYear t" "dayInYear t < 365 + leapShift (yearOf t)"
  using yearFromDay_bounds [of "dayOf t"] dayFromYear_step [of "yearOf t"]
  by (auto simp: dayInYear_def yearOf_def)

lemmas monthField_bounds = monthOf_bounds [OF leapShift_range dayInYear_range, folded monthField_def]

lemma div_range: "0 < k \<Longrightarrow> 0 \<le> a \<Longrightarrow> a < k * n \<Longrightarrow> 0 \<le> a div k \<and> a div k < n" for a k n :: int
  by (simp add: pos_imp_zdiv_nonneg_iff)
    (metis div_bounds mult_less_cancel_left_pos order_le_less_trans)

lemma clock_rest_range:
  "0 \<le> inDay t" "inDay t < 86400000" "0 \<le> inHour t" "inHour t < 3600000"
  "0 \<le> inMinute t" "inMinute t < 60000"
  by (simp_all add: inDay_def inHour_def inMinute_def msPerDay_def)

lemma clock_range:
  "0 \<le> hourField t" "hourField t < 24" "0 \<le> minuteField t" "minuteField t < 60"
  "0 \<le> secondField t" "secondField t < 60" "0 \<le> msField t" "msField t < 1000"
  using div_range [of 3600000 "inDay t" 24] div_range [of 60000 "inHour t" 60]
    div_range [of 1000 "inMinute t" 60] clock_rest_range [of t]
  by (simp_all add: hourField_def minuteField_def secondField_def msField_def)

lemma dateField_range: "1 \<le> dateField t" "dateField t \<le> 31"
  using monthField_bounds(3,4) [of t] by (simp_all add: dateField_def)

lemmas fields_range = monthField_bounds(1,2) dateField_range clock_range

lemma timeFromFields_id:
  "timeFromFields (yearOf t) (monthField t) (dateField t) (hourField t) (minuteField t)
     (secondField t) (msField t) = t"
proof -
  have "dayFromYear (yearOf t) + monthStart (leapShift (yearOf t)) (monthField t) + dateField t - 1 = dayOf t"
    by (simp add: dateField_def dayInYear_def)
  moreover have "hourField t * 3600000 + minuteField t * 60000 + secondField t * 1000 + msField t = inDay t"
    unfolding hourField_def minuteField_def secondField_def msField_def
    using div_mult_mod_eq [of "inDay t" 3600000] div_mult_mod_eq [of "inHour t" 60000]
      div_mult_mod_eq [of "inMinute t" 1000]
    by (simp only: inHour_def [symmetric] inMinute_def [symmetric])
  ultimately show ?thesis
    unfolding timeFromFields_def using div_mult_mod_eq [of t msPerDay]
    by (simp add: dayOf_def inDay_def) (simp add: add.assoc)
qed

lemma length_clockString: "length (clockString t) = 20"
  by (simp add: clockString_def)

lemma clockTime_clockString: "clockTime (yearOf t) (clockString t) = t"
  using fields_range [of t]
  by (simp add: clockTime_def clockString_def unpad_pad timeFromFields_id)

lemma yearOf_range: "timeValue t \<Longrightarrow> \<bar>yearOf t\<bar> < 10 ^ 6"
proof -
  assume "timeValue t"
  then have "- 100000001 \<le> dayOf t" "dayOf t \<le> 100000001"
    using div_bounds [of msPerDay t] by (auto simp: timeValue_def dayOf_def msPerDay_def)
  then show ?thesis
    using yearFromDay_bounds [of "dayOf t"] dayFromYear_bounds(2) [of "yearOf t"]
      dayFromYear_bounds(1) [of "yearOf t + 1"] by (auto simp: yearOf_def)
qed

lemma pad_4_hd: "0 \<le> y \<Longrightarrow> y \<le> 9999 \<Longrightarrow> hd (pad 4 y) \<noteq> CHR ''+'' \<and> hd (pad 4 y) \<noteq> CHR ''-''"
proof -
  assume y: "0 \<le> y" "y \<le> 9999"
  define q where "q = y div 10 div 10 div 10 mod 10"
  have "hd (pad 4 y) = digitOf q" by (simp add: numeral_eq_Suc q_def)
  moreover have "(of_char (digitOf q) :: nat) \<ge> 48" by (simp add: of_char_digitOf q_def)
  ultimately show ?thesis by auto
qed

lemma isoFields_isoString: "timeValue t \<Longrightarrow> isoFields (isoString t) = t"
proof -
  assume t: "timeValue t"
  note y = yearOf_range [OF t]
  show ?thesis
  proof (cases "0 \<le> yearOf t \<and> yearOf t \<le> 9999")
    case True
    then have "pad 4 (yearOf t) \<noteq> []" by (metis length_pad list.size(3) zero_neq_numeral)
    then show ?thesis using True pad_4_hd [of "yearOf t"]
      by (simp add: isoFields_def isoString_def yearString_def clockTime_clockString unpad_pad)
  next
    case False
    then show ?thesis using y
      by (auto simp: isoFields_def isoString_def yearString_def clockTime_clockString unpad_pad)
  qed
qed

lemma parseIso_isoString: "timeValue t \<Longrightarrow> parseIso (isoString t) = Some t"
  by (simp add: parseIso_def isoFields_isoString)

lemma parseIso_eq_Some: "parseIso s = Some t \<longleftrightarrow> timeValue t \<and> isoString t = s"
  by (auto simp: parseIso_def Let_def isoFields_isoString split: if_splits)

lemma isoString_inj: "timeValue s \<Longrightarrow> timeValue t \<Longrightarrow> isoString s = isoString t \<longleftrightarrow> s = t"
  by (metis isoFields_isoString)

section \<open>The order of ISO strings\<close>

definition commonYear :: "int \<Rightarrow> bool" where
  "commonYear t \<longleftrightarrow> 0 \<le> yearOf t \<and> yearOf t \<le> 9999"

lemma strLeq_pad_block:
  assumes "0 \<le> x" "x < 10 ^ n" "0 \<le> y" "y < 10 ^ n" "x \<le> y" and "x = y \<Longrightarrow> strLeq us vs"
  shows "strLeq (pad n x @ us) (pad n y @ vs)"
  using assms by (auto simp: strLeq_def strLess_append strLess_pad pad_eq_iff)

lemma strLeq_Cons: "strLeq us vs \<Longrightarrow> strLeq (c # us) (c # vs)"
  by (auto simp: strLeq_def)

lemma div_mod_mono: "0 < k \<Longrightarrow> a \<le> b \<Longrightarrow> a div k \<le> b div k \<and> (a div k = b div k \<longrightarrow> a mod k \<le> b mod k)"
  for a b k :: int
  using mult_div_mod_eq [of k a] mult_div_mod_eq [of k b] zdiv_mono1 [of a b k]
  by (metis add_le_cancel_left)

lemma fields_mono:
  assumes "s \<le> t"
  shows "yearOf s \<le> yearOf t"
    and "yearOf s = yearOf t \<Longrightarrow> monthField s \<le> monthField t"
    and "yearOf s = yearOf t \<Longrightarrow> monthField s = monthField t \<Longrightarrow> dateField s \<le> dateField t"
    and "yearOf s = yearOf t \<Longrightarrow> monthField s = monthField t \<Longrightarrow> dateField s = dateField t
           \<Longrightarrow> inDay s \<le> inDay t"
proof -
  have d: "dayOf s \<le> dayOf t" "dayOf s = dayOf t \<longrightarrow> inDay s \<le> inDay t"
    using div_mod_mono [of msPerDay s t] assms by (simp_all add: dayOf_def inDay_def msPerDay_def)
  then show y: "yearOf s \<le> yearOf t" by (simp add: yearOf_def yearFromDay_mono)
  show "yearOf s = yearOf t \<Longrightarrow> monthField s \<le> monthField t"
    using d monthOf_mono [OF leapShift_range] by (simp add: monthField_def dayInYear_def)
  show "yearOf s = yearOf t \<Longrightarrow> monthField s = monthField t \<Longrightarrow> dateField s \<le> dateField t"
    using d by (simp add: dateField_def dayInYear_def)
  show "yearOf s = yearOf t \<Longrightarrow> monthField s = monthField t \<Longrightarrow> dateField s = dateField t
           \<Longrightarrow> inDay s \<le> inDay t"
    using d by (simp add: dateField_def dayInYear_def)
qed

lemma clock_mono:
  assumes "inDay s \<le> inDay t"
  shows "hourField s \<le> hourField t"
    and "hourField s = hourField t \<Longrightarrow> minuteField s \<le> minuteField t"
    and "hourField s = hourField t \<Longrightarrow> minuteField s = minuteField t \<Longrightarrow> secondField s \<le> secondField t"
    and "hourField s = hourField t \<Longrightarrow> minuteField s = minuteField t \<Longrightarrow> secondField s = secondField t
           \<Longrightarrow> msField s \<le> msField t"
  using assms div_mod_mono [of 3600000 "inDay s" "inDay t"] div_mod_mono [of 60000 "inHour s" "inHour t"]
    div_mod_mono [of 1000 "inMinute s" "inMinute t"]
  unfolding hourField_def minuteField_def secondField_def msField_def
    inHour_def [symmetric] inMinute_def [symmetric]
  by simp_all

lemma isoString_mono:
  assumes "commonYear s" "commonYear t" "s \<le> t"
  shows "strLeq (isoString s) (isoString t)"
proof -
  have "strLeq (pad 4 (yearOf s) @ clockString s) (pad 4 (yearOf t) @ clockString t)"
    using assms fields_range [of s] fields_range [of t] fields_mono [OF assms(3)] clock_mono [of s t]
    unfolding clockString_def append.simps commonYear_def
    by (intro strLeq_pad_block strLeq_Cons) (simp_all add: strLeq_def)
  then show ?thesis using assms by (simp add: isoString_def yearString_def commonYear_def)
qed

lemma dayFromYear_mono: "x \<le> y \<Longrightarrow> dayFromYear x \<le> dayFromYear y"
  using dayFromYear_strict [of x y] by (cases "x = y") auto

lemma commonYear_timeValue: "commonYear t \<Longrightarrow> timeValue t"
proof -
  assume "commonYear t"
  then have "dayFromYear 0 \<le> dayOf t" "dayOf t < dayFromYear 10000"
    using yearFromDay_bounds [of "dayOf t"] dayFromYear_mono [of 0 "yearOf t"]
      dayFromYear_mono [of "yearOf t + 1" 10000]
    unfolding commonYear_def yearOf_def by linarith+
  then show ?thesis using div_bounds [of msPerDay t]
    by (simp add: timeValue_def dayOf_def msPerDay_def dayFromYear_def)
qed

lemma isoString_less_iff:
  assumes "commonYear s" "commonYear t"
  shows "strLess (isoString s) (isoString t) \<longleftrightarrow> s < t"
proof -
  have inj: "isoString s = isoString t \<longleftrightarrow> s = t"
    using assms by (simp add: isoString_inj commonYear_timeValue)
  show ?thesis
  proof (cases "s \<le> t")
    case True
    then show ?thesis using isoString_mono [of s t] assms inj by (auto simp: strLeq_def)
  next
    case False
    then show ?thesis using isoString_mono [of t s] assms by (simp add: strLeq_iff_not_less)
  qed
qed

lemma isoString_le_iff:
  assumes "commonYear s" "commonYear t"
  shows "strLeq (isoString s) (isoString t) \<longleftrightarrow> s \<le> t"
  using isoString_less_iff [OF assms(2,1)] by (simp add: strLeq_iff_not_less linorder_not_less)

lemma isoString_nonempty: "isoString t \<noteq> []"
  by (simp add: isoString_def clockString_def)

end
