(* ===== verification/Models.thy ===== *)
theory Models
  imports IsoTime
begin

text \<open>
  The data of the services: values supplied by callers (\<open>jsval\<close>), the errors that service code
  throws, and the stored records of \<open>authority/\<close>, \<open>api-keys/models.ts\<close> and
  \<open>jobs/models.ts\<close>, one \<open>record\<close> per interface with its fields in source order. Optional
  fields are \<open>option\<close>s; a field stored as \<open>null\<close> and an absent field are both \<open>None\<close>, which
  the code never tells apart.
\<close>

section \<open>Values of unknown type\<close>

text \<open>
  What a caller may pass where the code checks at run time. \<open>JNum\<close> is a number with an integer
  value, \<open>JFrac\<close> any other number with its printed form, \<open>JDate None\<close> an invalid \<open>Date\<close>.
\<close>

datatype jsval =
    JUndef
  | JNull
  | JBool bool
  | JNum int
  | JFrac string
  | JStr string
  | JDate "int option"
  | JArr "jsval list"
  | JObj "(string \<times> jsval) list"

text \<open>An object's own properties in insertion order, and property access.\<close>

type_synonym jsobj = "(string \<times> jsval) list"

definition propOf :: "jsobj \<Rightarrow> string \<Rightarrow> jsval" where
  "propOf ob k = (case map_of ob k of None \<Rightarrow> JUndef | Some v \<Rightarrow> v)"

definition asString :: "jsval \<Rightarrow> string option" where
  "asString v = (case v of JStr x \<Rightarrow> Some x | _ \<Rightarrow> None)"

lemma asString_eq_Some [simp]: "asString v = Some x \<longleftrightarrow> v = JStr x"
  by (cases v) (auto simp: asString_def)

text \<open>\<open>String(n)\<close> for an integer.\<close>

fun natDigits :: "nat \<Rightarrow> string" where
  "natDigits n = (if n < 10 then [char_of (48 + n)] else natDigits (n div 10) @ [char_of (48 + n mod 10)])"

declare natDigits.simps [simp del]

definition intString :: "int \<Rightarrow> string" where
  "intString n = (if n < 0 then CHR ''-'' # natDigits (nat (- n)) else natDigits (nat n))"

fun joinWith :: "string \<Rightarrow> string list \<Rightarrow> string" where
  "joinWith sep [] = []"
| "joinWith sep [x] = x"
| "joinWith sep (x # y # ys) = x @ sep @ joinWith sep (y # ys)"

text \<open>\<open>String(v)\<close>; a valid date prints in a locale form, for which the ISO form stands.\<close>

fun jsString :: "jsval \<Rightarrow> string" where
  "jsString JUndef = ''undefined''"
| "jsString JNull = ''null''"
| "jsString (JBool b) = (if b then ''true'' else ''false'')"
| "jsString (JNum n) = intString n"
| "jsString (JFrac x) = x"
| "jsString (JStr x) = x"
| "jsString (JDate t) = (case t of None \<Rightarrow> ''Invalid Date'' | Some u \<Rightarrow> isoString u)"
| "jsString (JArr vs) = joinWith '','' (map (\<lambda>v. if v = JUndef \<or> v = JNull then [] else jsString v) vs)"
| "jsString (JObj ob) = ''[object Object]''"

section \<open>Errors\<close>

datatype failure_code =
    DENIED
  | AUTHORITY_UNAVAILABLE
  | AUTHORIZATION_TIMEOUT
  | INVALID_REQUEST
  | PROVIDER_ERROR
  | UNAUTHENTICATED
  | NOT_FOUND
  | CUSTODY_READ_ONLY

definition codeName :: "failure_code \<Rightarrow> string" where
  "codeName c = (case c of
      DENIED \<Rightarrow> ''DENIED''
    | AUTHORITY_UNAVAILABLE \<Rightarrow> ''AUTHORITY_UNAVAILABLE''
    | AUTHORIZATION_TIMEOUT \<Rightarrow> ''AUTHORIZATION_TIMEOUT''
    | INVALID_REQUEST \<Rightarrow> ''INVALID_REQUEST''
    | PROVIDER_ERROR \<Rightarrow> ''PROVIDER_ERROR''
    | UNAUTHENTICATED \<Rightarrow> ''UNAUTHENTICATED''
    | NOT_FOUND \<Rightarrow> ''NOT_FOUND''
    | CUSTODY_READ_ONLY \<Rightarrow> ''CUSTODY_READ_ONLY'')"

text \<open>The HTTP status of a failure code (the table \<open>STATUS\<close>).\<close>

definition failureStatus :: "failure_code \<Rightarrow> int" where
  "failureStatus c = (case c of
      DENIED \<Rightarrow> 403
    | AUTHORITY_UNAVAILABLE \<Rightarrow> 503
    | AUTHORIZATION_TIMEOUT \<Rightarrow> 504
    | INVALID_REQUEST \<Rightarrow> 400
    | PROVIDER_ERROR \<Rightarrow> 502
    | UNAUTHENTICATED \<Rightarrow> 401
    | NOT_FOUND \<Rightarrow> 404
    | CUSTODY_READ_ONLY \<Rightarrow> 409)"

text \<open>The outcome of one webhook delivery (\<open>WebhookDeliveryResult\<close>), which an error may carry.\<close>

record delivery_result =
  dr_success :: bool
  dr_statusCode :: "int option"
  dr_error :: "string option"
  dr_code :: "failure_code option"

record error_details =
  ed_capability :: "string option"
  ed_decisionId :: "string option"
  ed_reason :: "string option"
  ed_outcome :: "delivery_result option"

definition noDetails :: error_details where
  "noDetails = \<lparr>ed_capability = None, ed_decisionId = None, ed_reason = None, ed_outcome = None\<rparr>"

text \<open>
  What service code can catch: the authority error (its migration subclass is the same error
  with a fixed code), the database's conditional conflict, the custody's errors, the
  language's own errors, values thrown by host code that are not errors at all, and the error
  classes of a single service, by class name.
\<close>

datatype exn =
    ServiceAuthorityError failure_code string error_details
  | ConditionalConflictError string
  | SecretError string string
  | PlainError string
  | TypeError string
  | RangeError string
  | ThrownValue string
  | DomainError string string

definition ServiceMigrationError :: "string \<Rightarrow> exn" where
  "ServiceMigrationError msg =
     ServiceAuthorityError INVALID_REQUEST (msg @ '' See docs/AUTHORITY.md#migration.'') noDetails"

definition denied :: "string \<Rightarrow> error_details \<Rightarrow> exn" where
  "denied msg d = ServiceAuthorityError DENIED msg d"

definition invalidRequest :: "string \<Rightarrow> exn" where
  "invalidRequest msg = ServiceAuthorityError INVALID_REQUEST msg noDetails"

definition isServiceAuthorityError :: "exn \<Rightarrow> bool" where
  "isServiceAuthorityError e = (case e of ServiceAuthorityError _ _ _ \<Rightarrow> True | _ \<Rightarrow> False)"

definition isConditionalConflict :: "exn \<Rightarrow> bool" where
  "isConditionalConflict e = (case e of ConditionalConflictError _ \<Rightarrow> True | _ \<Rightarrow> False)"

definition failureCode :: "exn \<Rightarrow> failure_code option" where
  "failureCode e = (case e of ServiceAuthorityError c _ _ \<Rightarrow> Some c | _ \<Rightarrow> None)"

text \<open>\<open>error instanceof Error ? error.message : String(error)\<close>\<close>

definition errorMessage :: "exn \<Rightarrow> string" where
  "errorMessage e = (case e of
      ServiceAuthorityError _ m _ \<Rightarrow> m
    | ConditionalConflictError m \<Rightarrow> m
    | SecretError m _ \<Rightarrow> m
    | PlainError m \<Rightarrow> m
    | TypeError m \<Rightarrow> m
    | RangeError m \<Rightarrow> m
    | ThrownValue m \<Rightarrow> m
    | DomainError _ m \<Rightarrow> m)"

lemma isServiceAuthorityError_iff: "isServiceAuthorityError e \<longleftrightarrow> (\<exists>c m d. e = ServiceAuthorityError c m d)"
  by (auto simp: isServiceAuthorityError_def split: exn.splits)

lemma isServiceAuthorityError_code: "isServiceAuthorityError e \<longleftrightarrow> failureCode e \<noteq> None"
  by (auto simp: isServiceAuthorityError_def failureCode_def split: exn.splits)

lemma error_simps [simp]:
  "isServiceAuthorityError (ServiceAuthorityError c m d)"
  "failureCode (ServiceAuthorityError c m d) = Some c"
  "failureCode (ServiceMigrationError m) = Some INVALID_REQUEST"
  "isConditionalConflict (ConditionalConflictError m)"
  "\<not> isConditionalConflict (ServiceAuthorityError c m d)"
  by (simp_all add: isServiceAuthorityError_def failureCode_def isConditionalConflict_def
      ServiceMigrationError_def)

text \<open>\<open>Date.prototype.toISOString\<close> throws for a date that is no time value.\<close>

definition toISOString :: "int \<Rightarrow> exn + string" where
  "toISOString t = (if timeValue t then Inr (isoString t) else Inl (RangeError ''Invalid time value''))"

lemma toISOString_Inr_iff: "toISOString t = Inr s \<longleftrightarrow> timeValue t \<and> s = isoString t"
  by (auto simp: toISOString_def)

section \<open>Authority records\<close>

text \<open>\<open>authority/context.ts\<close>: the resource an operation is about.\<close>

record resource =
  rs_type :: string
  rs_tenantId :: string
  rs_id :: "string option"
  rs_attributes :: "(string \<times> string) list option"

definition attribute :: "resource \<Rightarrow> string \<Rightarrow> string option" where
  "attribute r k = (case rs_attributes r of None \<Rightarrow> None | Some as \<Rightarrow> map_of as k)"

text \<open>\<open>authority/principal.ts\<close>: the identity a durable record runs as.\<close>

record durable_principal =
  dp_principalId :: string
  dp_principalType :: string
  dp_tenantId :: string
  dp_applicationId :: "string option"
  dp_delegationId :: "string option"
  dp_credentialId :: "string option"
  dp_authorizedBy :: "string option"

datatype principal_verification = ByApiKey | ByHost | ByJob | ByDelivery | ByIntegration

definition verificationName :: "principal_verification \<Rightarrow> string" where
  "verificationName v = (case v of ByApiKey \<Rightarrow> ''api_key'' | ByHost \<Rightarrow> ''host'' | ByJob \<Rightarrow> ''job''
     | ByDelivery \<Rightarrow> ''delivery'' | ByIntegration \<Rightarrow> ''integration'')"

text \<open>\<open>authority/authorizer.ts\<close>: what is asked of AuthBoundry and what it answers.\<close>

record auth_request =
  aq_request_id :: string
  aq_subject_kind :: string
  aq_subject_id :: string
  aq_tenant_id :: string
  aq_application_id :: string
  aq_capability :: string
  aq_capability_version :: int
  aq_resource_uri :: string
  aq_resource_attributes :: "(string \<times> string) list option"
  aq_timestamp :: int
  aq_execution_id :: string
  aq_verified_by :: string
  aq_delegation_id :: "string option"
  aq_run_id :: "string option"
  aq_credential_id :: "string option"

text \<open>
  A decision as received: a field is \<open>None\<close> when the host's answer lacks it or has a value of
  another type there.
\<close>

record auth_decision =
  ad_decision_id :: "string option"
  ad_allowed :: "bool option"
  ad_capability :: "string option"
  ad_tenant_id :: "string option"
  ad_application_id :: "string option"
  ad_subject_id :: "string option"
  ad_resource_uri :: "string option"
  ad_reason :: "string option"
  ad_policy_version :: "string option"

text \<open>
  How asking AuthBoundry settles: an answer (possibly no object at all), a rejection of the
  client, or no settlement before the gateway's own timer.
\<close>

datatype auth_answer = Answered "auth_decision option" | Rejected exn | TimedOut

text \<open>\<open>authority/evidence.ts\<close>\<close>

datatype effect_outcome = Started | Succeeded | Failed | ProviderFailed | OutcomeDenied

datatype evidence_decision = DecisionAllow | DecisionDeny | DecisionNone

record effect_evidence =
  ev_id :: string
  ev_application :: string
  ev_tenantId :: string
  ev_principalId :: string
  ev_principalType :: string
  ev_delegationId :: "string option"
  ev_runId :: "string option"
  ev_capability :: string
  ev_capabilityVersion :: int
  ev_resource :: string
  ev_decision :: evidence_decision
  ev_decisionId :: "string option"
  ev_credentialRef :: "string option"
  ev_credentialVersion :: "int option"
  ev_service :: string
  ev_provider :: "string option"
  ev_requestId :: string
  ev_startedAt :: string
  ev_completedAt :: "string option"
  ev_outcome :: effect_outcome
  ev_failureCode :: "string option"
  ev_version :: "int option"

text \<open>\<open>secrets/models.ts\<close> and \<open>secrets/protocol.ts\<close>, as far as the gateway uses them.\<close>

record secret_reference =
  sr_secretId :: string
  sr_tenantId :: string
  sr_provider :: "string option"
  sr_accountId :: "string option"
  sr_kind :: "string option"

record secret_access =
  sa_tenantId :: string
  sa_principalId :: string
  sa_purpose :: string
  sa_authorizationRef :: string

record custody_status =
  cs_state :: "string option"
  cs_version :: "int option"
  cs_updatedAt :: "string option"
  cs_location :: "string option"
  cs_writable :: bool

record custody_result =
  cr_version :: "int option"
  cr_storedAt :: "string option"

record resolved_secret =
  rv_value :: jsval
  rv_secretId :: string
  rv_version :: int
  rv_provider :: "string option"
  rv_accountId :: "string option"
  rv_kind :: "string option"

section \<open>API key records\<close>

record resource_rule =
  rl_type :: "string option"
  rl_id :: "string option"
  rl_attributes :: "(string \<times> string) list option"

record key_restrictions =
  kr_capabilities :: "string list"
  kr_resources :: "resource_rule list option"

record api_key =
  ak_id :: string
  ak_tenantId :: string
  ak_applicationId :: "string option"
  ak_name :: string
  ak_keyPrefix :: string
  ak_secretHash :: string
  ak_scopes :: "string list"
  ak_restrictions :: "key_restrictions option"
  ak_createdAt :: string
  ak_expiresAt :: "string option"
  ak_revokedAt :: "string option"
  ak_revokedBy :: "string option"
  ak_lastUsedAt :: "string option"
  ak_updatedAt :: "string option"
  ak_updatedBy :: "string option"
  ak_rotatedFrom :: "string option"
  ak_rotatedTo :: "string option"
  ak_rotatedAt :: "string option"
  ak_createdBy :: string
  ak_version :: int

datatype key_status = KeyActive | KeyExpired | KeyRevoked

text \<open>The read model: the record without its verifier and its version.\<close>

record api_key_view =
  av_id :: string
  av_tenantId :: string
  av_applicationId :: "string option"
  av_name :: string
  av_keyPrefix :: string
  av_scopes :: "string list"
  av_restrictions :: "key_restrictions option"
  av_status :: key_status
  av_createdAt :: string
  av_expiresAt :: "string option"
  av_revokedAt :: "string option"
  av_revokedBy :: "string option"
  av_lastUsedAt :: "string option"
  av_updatedAt :: "string option"
  av_updatedBy :: "string option"
  av_rotatedFrom :: "string option"
  av_rotatedTo :: "string option"
  av_rotatedAt :: "string option"
  av_createdBy :: string

record created_key =
  ck_id :: string
  ck_name :: string
  ck_prefix :: string
  ck_secret :: string

record rotated_key = created_key +
  rk_replaces :: string
  rk_replacedKeyValidUntil :: string

datatype key_event_type = KeyCreated | KeyRevokedEvent | KeyAuthenticated | KeyUpdated | KeyRotated

datatype key_event_result =
  ResultSuccess | ResultRevoked | ResultExpired | ResultInvalidSecret | ResultApplicationMismatch
  | ResultVerifierUnavailable

record key_event =
  ke_id :: string
  ke_type :: key_event_type
  ke_credentialId :: string
  ke_tenantId :: string
  ke_principalId :: string
  ke_timestamp :: string
  ke_result :: key_event_result
  ke_changes :: "string list option"
  ke_relatedCredentialId :: "string option"

text \<open>The unique pointer from a key's public prefix to its record (\<open>storage/api-keys.ts\<close>).\<close>

record key_prefix =
  kp_id :: string
  kp_apiKeyId :: string
  kp_tenantId :: string
  kp_createdAt :: string
  kp_version :: int

section \<open>Job records\<close>

datatype job_status = JobScheduled | JobPending | JobRunning | JobRetrying | JobCompleted | JobFailed

record job =
  jb_id :: string
  jb_tenantId :: string
  jb_applicationId :: "string option"
  jb_type :: string
  jb_payload :: jsval
  jb_status :: job_status
  jb_runAt :: string
  jb_attemptCount :: int
  jb_maxAttempts :: int
  jb_createdAt :: string
  jb_startedAt :: "string option"
  jb_completedAt :: "string option"
  jb_nextAttemptAt :: "string option"
  jb_leaseOwner :: "string option"
  jb_leaseExpiresAt :: "string option"
  jb_lastError :: "string option"
  jb_principal :: "durable_principal option"
  jb_version :: int

record job_schedule =
  sc_id :: string
  sc_tenantId :: string
  sc_applicationId :: "string option"
  sc_type :: string
  sc_payload :: jsval
  sc_interval :: string
  sc_nextRunAt :: string
  sc_enabled :: bool
  sc_createdAt :: string
  sc_createdBy :: string
  sc_principal :: "durable_principal option"
  sc_version :: int

record job_event =
  je_id :: string
  je_type :: string
  je_jobId :: "string option"
  je_scheduleId :: "string option"
  je_tenantId :: string
  je_principalId :: string
  je_timestamp :: string
  je_success :: bool
  je_details :: "jsobj option"
  je_jobType :: "string option"

section \<open>Files (\<open>files/models.ts\<close>)\<close>

text \<open>
  The six fields a caller may set hold whatever value the service copied from its input; a field
  that is absent is \<open>JUndef\<close>.
\<close>

record file_record =
  fl_id :: string
  fl_tenantId :: string
  fl_applicationId :: "string option"
  fl_owner :: string
  fl_name :: jsval
  fl_contentType :: jsval
  fl_size :: jsval
  fl_checksum :: jsval
  fl_storageKey :: jsval
  fl_metadata :: jsval
  fl_createdAt :: string
  fl_updatedAt :: "string option"
  fl_deletedAt :: "string option"
  fl_version :: int

record file_event =
  fe_id :: string
  fe_type :: string
  fe_fileId :: string
  fe_tenantId :: string
  fe_owner :: string
  fe_principalId :: string
  fe_timestamp :: string

section \<open>Webhooks (\<open>webhooks/models.ts\<close>)\<close>

record webhook_endpoint =
  wp_id :: string
  wp_tenantId :: string
  wp_applicationId :: "string option"
  wp_url :: string
  wp_events :: "string list"
  wp_signingCredentialRef :: "string option"
  wp_createdAt :: string
  wp_createdBy :: string
  wp_disabledAt :: "string option"
  wp_version :: int

datatype delivery_status = DeliveryPending | Delivering | Delivered | DeliveryRetrying | DeliveryFailed

record webhook_delivery =
  dv_id :: string
  dv_tenantId :: string
  dv_endpointId :: string
  dv_eventId :: string
  dv_eventType :: string
  dv_payload :: jsval
  dv_status :: delivery_status
  dv_attemptCount :: int
  dv_nextAttemptAt :: "string option"
  dv_createdAt :: string
  dv_lastAttemptAt :: "string option"
  dv_deliveredAt :: "string option"
  dv_lastStatusCode :: "int option"
  dv_lastError :: "string option"
  dv_principal :: "durable_principal option"
  dv_version :: int

record webhook_integration =
  ig_id :: string
  ig_tenantId :: string
  ig_applicationId :: string
  ig_provider :: string
  ig_principalId :: string
  ig_signingCredentialRef :: string
  ig_createdAt :: string
  ig_createdBy :: string
  ig_disabledAt :: "string option"
  ig_version :: int

record webhook_event =
  we_id :: string
  we_type :: string
  we_endpointId :: "string option"
  we_deliveryId :: "string option"
  we_integrationId :: "string option"
  we_tenantId :: string
  we_principalId :: string
  we_timestamp :: string
  we_success :: bool
  we_reason :: "string option"
  we_eventType :: "string option"

text \<open>What the replay store keeps of an accepted inbound event (\<open>storage/webhooks.ts\<close>).\<close>

record accepted_event =
  ax_id :: string
  ax_integrationId :: string
  ax_provider :: string
  ax_eventId :: string
  ax_eventTimestamp :: string
  ax_acceptedAt :: string
  ax_tenantId :: string

section \<open>Notifications (\<open>notifications/models.ts\<close>)\<close>

datatype notification_priority = PriorityLow | PriorityNormal | PriorityHigh | PriorityUrgent

datatype notification_status =
  NotePending | NoteDelivered | NoteFailed | NoteRead | NoteAcknowledged | NoteExpired

record notification_source =
  ns_type :: string
  ns_id :: "string option"
  ns_eventId :: "string option"

record notification =
  nt_id :: string
  nt_tenantId :: string
  nt_applicationId :: "string option"
  nt_recipient :: string
  nt_type :: string
  nt_title :: string
  nt_body :: "string option"
  nt_data :: jsval
  nt_source :: "notification_source option"
  nt_priority :: notification_priority
  nt_channels :: "string list"
  nt_status :: notification_status
  nt_idempotencyKey :: "string option"
  nt_createdAt :: string
  nt_createdBy :: "string option"
  nt_expiresAt :: "string option"
  nt_deliveredAt :: "string option"
  nt_failedAt :: "string option"
  nt_expiredAt :: "string option"
  nt_readAt :: "string option"
  nt_acknowledgedAt :: "string option"
  nt_dismissedAt :: "string option"
  nt_version :: int

datatype note_delivery_status = SendPending | SendDelivered | SendFailed | SendRetrying

record note_delivery =
  nd_id :: string
  nd_tenantId :: string
  nd_notificationId :: string
  nd_recipient :: string
  nd_channel :: string
  nd_status :: note_delivery_status
  nd_idempotencyKey :: string
  nd_attemptCount :: int
  nd_maxAttempts :: int
  nd_createdAt :: string
  nd_lastAttemptAt :: "string option"
  nd_nextAttemptAt :: "string option"
  nd_deliveredAt :: "string option"
  nd_failedAt :: "string option"
  nd_failureReason :: "string option"
  nd_externalId :: "string option"
  nd_version :: int

record note_event =
  ne_id :: string
  ne_type :: string
  ne_notificationId :: string
  ne_tenantId :: string
  ne_recipient :: string
  ne_principalId :: string
  ne_timestamp :: string
  ne_success :: bool
  ne_channel :: "string option"
  ne_deliveryId :: "string option"

section \<open>Stored documents\<close>

text \<open>
  What a collection of the database may hold, for the laws that span collections. \<open>AppDoc\<close> is a
  document of the application, which the services only pass on.
\<close>

datatype doc =
    EvidenceDoc effect_evidence
  | KeyDoc api_key
  | PrefixDoc key_prefix
  | KeyEventDoc key_event
  | JobDoc job
  | ScheduleDoc job_schedule
  | JobEventDoc job_event
  | FileDoc file_record
  | FileEventDoc file_event
  | EndpointDoc webhook_endpoint
  | DeliveryDoc webhook_delivery
  | IntegrationDoc webhook_integration
  | WebhookEventDoc webhook_event
  | AcceptedDoc accepted_event
  | NotificationDoc notification
  | NoteDeliveryDoc note_delivery
  | NoteEventDoc note_event
  | AppDoc jsval

text \<open>The version a conditional write is fenced on; event records have none.\<close>

definition docVersion :: "doc \<Rightarrow> int option" where
  "docVersion d = (case d of
      EvidenceDoc x \<Rightarrow> ev_version x
    | KeyDoc x \<Rightarrow> Some (ak_version x)
    | PrefixDoc x \<Rightarrow> Some (kp_version x)
    | JobDoc x \<Rightarrow> Some (jb_version x)
    | ScheduleDoc x \<Rightarrow> Some (sc_version x)
    | FileDoc x \<Rightarrow> Some (fl_version x)
    | EndpointDoc x \<Rightarrow> Some (wp_version x)
    | DeliveryDoc x \<Rightarrow> Some (dv_version x)
    | IntegrationDoc x \<Rightarrow> Some (ig_version x)
    | NotificationDoc x \<Rightarrow> Some (nt_version x)
    | NoteDeliveryDoc x \<Rightarrow> Some (nd_version x)
    | AppDoc (JObj ob) \<Rightarrow> (case propOf ob ''__version'' of JNum n \<Rightarrow> Some n | _ \<Rightarrow> None)
    | _ \<Rightarrow> None)"

text \<open>Reading a document back as a record of one type: each projection inverts one constructor.\<close>

definition asKey :: "doc \<Rightarrow> api_key option" where "asKey d = (case d of KeyDoc x \<Rightarrow> Some x | _ \<Rightarrow> None)"
definition asPrefix :: "doc \<Rightarrow> key_prefix option" where "asPrefix d = (case d of PrefixDoc x \<Rightarrow> Some x | _ \<Rightarrow> None)"
definition asKeyEvent :: "doc \<Rightarrow> key_event option" where "asKeyEvent d = (case d of KeyEventDoc x \<Rightarrow> Some x | _ \<Rightarrow> None)"
definition asEvidence :: "doc \<Rightarrow> effect_evidence option" where "asEvidence d = (case d of EvidenceDoc x \<Rightarrow> Some x | _ \<Rightarrow> None)"
definition asJob :: "doc \<Rightarrow> job option" where "asJob d = (case d of JobDoc x \<Rightarrow> Some x | _ \<Rightarrow> None)"
definition asSchedule :: "doc \<Rightarrow> job_schedule option" where "asSchedule d = (case d of ScheduleDoc x \<Rightarrow> Some x | _ \<Rightarrow> None)"
definition asJobEvent :: "doc \<Rightarrow> job_event option" where "asJobEvent d = (case d of JobEventDoc x \<Rightarrow> Some x | _ \<Rightarrow> None)"
definition asFile :: "doc \<Rightarrow> file_record option" where "asFile d = (case d of FileDoc x \<Rightarrow> Some x | _ \<Rightarrow> None)"
definition asFileEvent :: "doc \<Rightarrow> file_event option" where "asFileEvent d = (case d of FileEventDoc x \<Rightarrow> Some x | _ \<Rightarrow> None)"
definition asEndpoint :: "doc \<Rightarrow> webhook_endpoint option" where "asEndpoint d = (case d of EndpointDoc x \<Rightarrow> Some x | _ \<Rightarrow> None)"
definition asDelivery :: "doc \<Rightarrow> webhook_delivery option" where "asDelivery d = (case d of DeliveryDoc x \<Rightarrow> Some x | _ \<Rightarrow> None)"
definition asIntegration :: "doc \<Rightarrow> webhook_integration option" where "asIntegration d = (case d of IntegrationDoc x \<Rightarrow> Some x | _ \<Rightarrow> None)"
definition asWebhookEvent :: "doc \<Rightarrow> webhook_event option" where "asWebhookEvent d = (case d of WebhookEventDoc x \<Rightarrow> Some x | _ \<Rightarrow> None)"
definition asAccepted :: "doc \<Rightarrow> accepted_event option" where "asAccepted d = (case d of AcceptedDoc x \<Rightarrow> Some x | _ \<Rightarrow> None)"

definition asNotification :: "doc \<Rightarrow> notification option" where "asNotification d = (case d of NotificationDoc x \<Rightarrow> Some x | _ \<Rightarrow> None)"
definition asNoteDelivery :: "doc \<Rightarrow> note_delivery option" where "asNoteDelivery d = (case d of NoteDeliveryDoc x \<Rightarrow> Some x | _ \<Rightarrow> None)"
definition asNoteEvent :: "doc \<Rightarrow> note_event option" where "asNoteEvent d = (case d of NoteEventDoc x \<Rightarrow> Some x | _ \<Rightarrow> None)"

definition projects :: "('a \<Rightarrow> doc) \<Rightarrow> (doc \<Rightarrow> 'a option) \<Rightarrow> bool" where
  "projects emb proj \<longleftrightarrow> (\<forall>x. proj (emb x) = Some x) \<and> (\<forall>d x. proj d = Some x \<longrightarrow> d = emb x)"

lemmas projection_defs = asKey_def asPrefix_def asKeyEvent_def asEvidence_def asJob_def asSchedule_def asJobEvent_def
  asFile_def asFileEvent_def asEndpoint_def asDelivery_def asIntegration_def asWebhookEvent_def asAccepted_def
  asNotification_def asNoteDelivery_def asNoteEvent_def

lemma projections:
  "projects KeyDoc asKey" "projects PrefixDoc asPrefix" "projects KeyEventDoc asKeyEvent"
  "projects EvidenceDoc asEvidence" "projects JobDoc asJob" "projects ScheduleDoc asSchedule"
  "projects JobEventDoc asJobEvent" "projects FileDoc asFile" "projects FileEventDoc asFileEvent"
  "projects EndpointDoc asEndpoint" "projects DeliveryDoc asDelivery" "projects IntegrationDoc asIntegration"
  "projects WebhookEventDoc asWebhookEvent" "projects AcceptedDoc asAccepted"
  "projects NotificationDoc asNotification" "projects NoteDeliveryDoc asNoteDelivery" "projects NoteEventDoc asNoteEvent"
  by (auto simp: projects_def projection_defs split: doc.splits)

lemma projects_Some: "projects emb proj \<Longrightarrow> proj d = Some x \<longleftrightarrow> d = emb x"
  by (auto simp: projects_def)

end
