(* ===== verification/Platform.thy ===== *)
theory Platform
  imports Models
begin

text \<open>
  The surroundings of the services, all code outside the repository: the FeltDB database
  (\<open>@feltdb/core\<close>), the clock, random identifiers and the key-derivation functions. They are
  fields of one record \<open>'w env\<close> over an unknown outside state \<open>'w\<close>, and every definition that
  uses them takes that record as an argument. The locale \<open>platform\<close> states what the services
  rely on, relative to an observer \<open>C\<close> of the stored documents.
\<close>

section \<open>Parameters\<close>

text \<open>
  A typed collection (\<open>db.collection<T>(name)\<close>). A query by field equality is the predicate it
  stands for, and the partial record given to \<open>updateIfVersion\<close> is the merge it performs.
\<close>

record ('w, 'a) coll =
  c_get :: "string \<Rightarrow> ('w, exn, 'a option) act"
  c_find :: "('a \<Rightarrow> bool) \<Rightarrow> ('w, exn, 'a list) act"
  c_insert :: "'a \<Rightarrow> string \<Rightarrow> ('w, exn, unit) act"
  c_update :: "string \<Rightarrow> 'a \<Rightarrow> ('w, exn, unit) act"
  c_updateIfVersion :: "string \<Rightarrow> int \<Rightarrow> ('a \<Rightarrow> 'a) \<Rightarrow> ('w, exn, bool \<times> 'a option) act"

text \<open>One page of a bounded query (\<open>db.query\<close>).\<close>

record 'a query_page =
  qp_records :: "'a list"
  qp_exhausted :: bool
  qp_nextCursor :: "string option"

text \<open>One operation of an atomic commit (\<open>db.transaction\<close>).\<close>

record db_op =
  op_collection :: string
  op_id :: string
  op_requireAbsent :: bool
  op_requirePresent :: bool
  op_expectedVersion :: "int option"
  op_value :: doc

record 'w env =
  e_now :: "'w \<Rightarrow> 'w \<times> int"
  e_date :: "'w \<Rightarrow> 'w \<times> int"
  e_uuid :: "'w \<Rightarrow> 'w \<times> string"
  e_randomBytes :: "nat \<Rightarrow> 'w \<Rightarrow> 'w \<times> string"
  e_sleep :: "int \<Rightarrow> 'w \<Rightarrow> 'w"
  e_scrypt :: "string \<Rightarrow> string \<Rightarrow> nat \<Rightarrow> string"
  e_hmac :: "string \<Rightarrow> string \<Rightarrow> string"
  e_dateParse :: "string \<Rightarrow> int option"
  e_localeLeq :: "string \<Rightarrow> string \<Rightarrow> bool"
  e_keys :: "('w, api_key) coll"
  e_prefixes :: "('w, key_prefix) coll"
  e_keyEvents :: "('w, key_event) coll"
  e_evidence :: "('w, effect_evidence) coll"
  e_evidenceQuery :: "(effect_evidence \<Rightarrow> bool) \<Rightarrow> int \<Rightarrow> string option \<Rightarrow> ('w, exn, effect_evidence query_page) act"
  e_jobs :: "('w, job) coll"
  e_schedules :: "('w, job_schedule) coll"
  e_jobEvents :: "('w, job_event) coll"
  e_files :: "('w, file_record) coll"
  e_fileEvents :: "('w, file_event) coll"
  e_endpoints :: "('w, webhook_endpoint) coll"
  e_deliveries :: "('w, webhook_delivery) coll"
  e_deliveryQuery :: "(webhook_delivery \<Rightarrow> bool) \<Rightarrow> int \<Rightarrow> string option \<Rightarrow> ('w, exn, webhook_delivery query_page) act"
  e_integrations :: "('w, webhook_integration) coll"
  e_webhookEvents :: "('w, webhook_event) coll"
  e_sha256 :: "string \<Rightarrow> string"
  e_jsonParse :: "string \<Rightarrow> jsval option"
  e_transaction :: "db_op list \<Rightarrow> ('w, exn, unit) act"

text \<open>
  The state a service process runs on: the outside, and the process's own memory. That is the
  two lookup hints of the API key service (JavaScript \<open>Map\<close>s in insertion order), how many
  execution contexts were minted, and which of them were consumed (\<open>authority/context.ts\<close>).
\<close>

record 'w sys =
  outside :: 'w
  knownPrefixes :: "(string \<times> string) list"
  locallyCreatedKeys :: "(string \<times> api_key) list"
  mintedContexts :: nat
  consumedContexts :: "nat list"

type_synonym ('w, 'a) service = "('w sys, exn, 'a) act"

definition ext :: "('w, exn, 'a) act \<Rightarrow> ('w, 'a) service" where
  "ext m = (\<lambda>s. case m (outside s) of (w, r) \<Rightarrow> (s\<lparr>outside := w\<rparr>, r))"

definition draw :: "('w \<Rightarrow> 'w \<times> 'a) \<Rightarrow> ('w, 'a) service" where
  "draw m = (\<lambda>s. case m (outside s) of (w, x) \<Rightarrow> (s\<lparr>outside := w\<rparr>, Inr x))"

text \<open>\<open>this.now().toISOString()\<close>\<close>

definition nowISO :: "'w env \<Rightarrow> ('w, string) service" where
  "nowISO E = bindA (draw (e_now E)) (\<lambda>t. liftR (toISOString t))"

text \<open>\<open>new Date(s).getTime()\<close>, where \<open>None\<close> stands for \<open>NaN\<close>.\<close>

definition dateTime :: "'w env \<Rightarrow> string \<Rightarrow> int option" where
  "dateTime E s = (case parseIso s of Some t \<Rightarrow> Some t | None \<Rightarrow> e_dateParse E s)"

text \<open>\<open>new Date(s).getTime() <= t\<close>; a comparison with \<open>NaN\<close> is false.\<close>

definition dateLeq :: "'w env \<Rightarrow> string \<Rightarrow> int \<Rightarrow> bool" where
  "dateLeq E s t = (case dateTime E s of None \<Rightarrow> False | Some u \<Rightarrow> u \<le> t)"

lemma dateTime_isoString [simp]: "timeValue t \<Longrightarrow> dateTime E (isoString t) = Some t"
  by (simp add: dateTime_def parseIso_isoString)

lemma dateLeq_isoString [simp]: "timeValue u \<Longrightarrow> dateLeq E (isoString u) t \<longleftrightarrow> u \<le> t"
  by (simp add: dateLeq_def)

lemma ext_eq_iff:
  "ext m s = (t, r) \<longleftrightarrow> (\<exists>w. m (outside s) = (w, r) \<and> t = s\<lparr>outside := w\<rparr>)"
  by (auto simp: ext_def split: prod.splits)

lemma draw_eq_iff:
  "draw m s = (t, r) \<longleftrightarrow> (\<exists>w x. m (outside s) = (w, x) \<and> t = s\<lparr>outside := w\<rparr> \<and> r = Inr x)"
  by (auto simp: draw_def split: prod.splits)

lemma nowISO_Inr_iff:
  "nowISO E s = (t, Inr x) \<longleftrightarrow>
     (\<exists>w u. e_now E (outside s) = (w, u) \<and> t = s\<lparr>outside := w\<rparr> \<and> timeValue u \<and> x = isoString u)"
  by (auto simp: nowISO_def bindA_Inr_iff draw_eq_iff liftR_iff toISOString_Inr_iff)

section \<open>What the services rely on\<close>

type_synonym contents = "string \<Rightarrow> string \<Rightarrow> doc option"

definition putDoc :: "contents \<Rightarrow> string \<Rightarrow> string \<Rightarrow> doc \<Rightarrow> contents" where
  "putDoc m name i d = m(name := (m name)(i \<mapsto> d))"

lemma putDoc_apply [simp]:
  "putDoc m name i d name' i' = (if name' = name \<and> i' = i then Some d else m name' i')"
  by (simp add: putDoc_def)

definition opHolds :: "contents \<Rightarrow> db_op \<Rightarrow> bool" where
  "opHolds m p \<longleftrightarrow>
     (op_requireAbsent p \<longrightarrow> m (op_collection p) (op_id p) = None) \<and>
     (op_requirePresent p \<longrightarrow> m (op_collection p) (op_id p) \<noteq> None) \<and>
     (\<forall>v. op_expectedVersion p = Some v \<longrightarrow>
        (\<exists>d. m (op_collection p) (op_id p) = Some d \<and> docVersion d = Some v))"

definition applyOps :: "contents \<Rightarrow> db_op list \<Rightarrow> contents" where
  "applyOps m ps = foldl (\<lambda>m p. putDoc m (op_collection p) (op_id p) (op_value p)) m ps"

text \<open>
  A collection of documents: a read returns what is stored and changes nothing (it may miss a
  record just committed), a write stores the value it was given. A write that rejects may or
  may not have been applied. \<open>strip\<close> removes the version the database maintains.
\<close>

locale stored_collection =
  fixes C :: "'w \<Rightarrow> contents" and name :: string and emb :: "'a \<Rightarrow> doc" and strip :: "'a \<Rightarrow> 'a"
    and c :: "('w, 'a) coll"
  assumes emb_eq: "emb x = emb y \<longleftrightarrow> x = y"
    and get_view: "c_get c i w = (w', r) \<Longrightarrow> C w' = C w"
    and get_sound: "c_get c i w = (w', Inr (Some x)) \<Longrightarrow> C w name i = Some (emb x)"
    and find_view: "c_find c P w = (w', q) \<Longrightarrow> C w' = C w"
    and find_sound: "c_find c P w = (w', Inr xs) \<Longrightarrow> x \<in> set xs \<Longrightarrow>
          P x \<and> (\<exists>i. C w name i = Some (emb x))"
    and insert_ok: "c_insert c x i w = (w', Inr u) \<Longrightarrow>
          \<exists>y. strip y = strip x \<and> C w' = putDoc (C w) name i (emb y)"
    and insert_rejected: "c_insert c x i w = (w', Inl e) \<Longrightarrow>
          C w' = C w \<or> (\<exists>y. strip y = strip x \<and> C w' = putDoc (C w) name i (emb y))"
    and update_ok: "c_update c i x w = (w', Inr u) \<Longrightarrow>
          \<exists>y. strip y = strip x \<and> C w' = putDoc (C w) name i (emb y)"
    and update_rejected: "c_update c i x w = (w', Inl e) \<Longrightarrow>
          C w' = C w \<or> (\<exists>y. strip y = strip x \<and> C w' = putDoc (C w) name i (emb y))"
begin

lemma insert_frame: "c_insert c x i w = (w', r) \<Longrightarrow> n \<noteq> name \<Longrightarrow> C w' n = C w n"
  by (cases r) (auto dest: insert_ok insert_rejected simp: fun_eq_iff)

lemma update_frame: "c_update c i x w = (w', r) \<Longrightarrow> n \<noteq> name \<Longrightarrow> C w' n = C w n"
  by (cases r) (auto dest: update_ok update_rejected simp: fun_eq_iff)

end

text \<open>
  A collection with versioned records: \<open>updateIfVersion\<close> is a compare-and-set that advances
  the version.
\<close>

locale versioned_collection = stored_collection C name emb strip c
  for C :: "'w \<Rightarrow> contents" and name :: string and emb :: "'a \<Rightarrow> doc" and strip :: "'a \<Rightarrow> 'a"
    and c :: "('w, 'a) coll" +
  fixes ver :: "'a \<Rightarrow> int" and setv :: "int \<Rightarrow> 'a \<Rightarrow> 'a"
  assumes cas_ok: "c_updateIfVersion c i v f w = (w', Inr (True, r)) \<Longrightarrow>
        \<exists>x n. C w name i = Some (emb x) \<and> ver x = v \<and> v < n \<and>
          C w' = putDoc (C w) name i (emb (setv n (f x))) \<and> r = Some (setv n (f x))"
    and cas_stale: "c_updateIfVersion c i v f w = (w', Inr (False, r)) \<Longrightarrow>
        C w' = C w \<and> (\<forall>x. C w name i = Some (emb x) \<longrightarrow> ver x \<noteq> v)"
    and cas_rejected: "c_updateIfVersion c i v f w = (w', Inl e) \<Longrightarrow>
        C w' = C w \<or>
        (\<exists>x n. C w name i = Some (emb x) \<and> ver x = v \<and> v < n \<and>
          C w' = putDoc (C w) name i (emb (setv n (f x))))"
begin

text \<open>Whatever the outcome, a conditional write changes at most the one record it is fenced on.\<close>

lemma cas_cases:
  assumes "c_updateIfVersion c i v f w = (w', r)"
  obtains (kept) "C w' = C w"
    | (written) x n where "C w name i = Some (emb x)" "ver x = v" "v < n"
        "C w' = putDoc (C w) name i (emb (setv n (f x)))"
proof (cases r)
  case (Inl e)
  then show ?thesis using assms cas_rejected kept written by blast
next
  case (Inr p)
  then show ?thesis using assms cas_ok cas_stale kept written by (cases p) (metis (full_types))
qed

lemma cas_frame: "c_updateIfVersion c i v f w = (w', r) \<Longrightarrow> n \<noteq> name \<Longrightarrow> C w' n = C w n"
  by (erule cas_cases) (auto simp: fun_eq_iff)

end

locale platform =
  fixes E :: "'w env" and C :: "'w \<Rightarrow> contents"
  assumes keys_laws: "versioned_collection C ''api_keys'' KeyDoc (ak_version_update (\<lambda>_. 0)) (e_keys E)
        ak_version (\<lambda>v. ak_version_update (\<lambda>_. v))"
    and prefixes_laws: "stored_collection C ''api_key_prefixes'' PrefixDoc (kp_version_update (\<lambda>_. 0)) (e_prefixes E)"
    and keyEvents_laws: "stored_collection C ''api_key_audit_events'' KeyEventDoc id (e_keyEvents E)"
    and evidence_laws: "stored_collection C ''service_effect_evidence'' EvidenceDoc
        (ev_version_update (\<lambda>_. None)) (e_evidence E)"
    and jobs_laws: "versioned_collection C ''jobs'' JobDoc (jb_version_update (\<lambda>_. 0)) (e_jobs E)
        jb_version (\<lambda>v. jb_version_update (\<lambda>_. v))"
    and schedules_laws: "versioned_collection C ''job_schedules'' ScheduleDoc (sc_version_update (\<lambda>_. 0)) (e_schedules E)
        sc_version (\<lambda>v. sc_version_update (\<lambda>_. v))"
    and jobEvents_laws: "stored_collection C ''job_audit_events'' JobEventDoc id (e_jobEvents E)"
    and files_laws: "versioned_collection C ''files'' FileDoc (fl_version_update (\<lambda>_. 0)) (e_files E)
        fl_version (\<lambda>v. fl_version_update (\<lambda>_. v))"
    and endpoints_laws: "versioned_collection C ''webhook_endpoints'' EndpointDoc (wp_version_update (\<lambda>_. 0)) (e_endpoints E)
        wp_version (\<lambda>v. wp_version_update (\<lambda>_. v))"
    and deliveries_laws: "versioned_collection C ''webhook_deliveries'' DeliveryDoc (dv_version_update (\<lambda>_. 0)) (e_deliveries E)
        dv_version (\<lambda>v. dv_version_update (\<lambda>_. v))"
    and integrations_laws: "versioned_collection C ''webhook_integrations'' IntegrationDoc (ig_version_update (\<lambda>_. 0)) (e_integrations E)
        ig_version (\<lambda>v. ig_version_update (\<lambda>_. v))"
    and fileEvents_laws: "stored_collection C ''file_audit_events'' FileEventDoc id (e_fileEvents E)"
    and webhookEvents_laws: "stored_collection C ''webhook_audit_events'' WebhookEventDoc id (e_webhookEvents E)"
    and deliveryQuery_view: "e_deliveryQuery E Q k cur w = (w', p) \<Longrightarrow> C w' = C w"
    and evidenceQuery_view: "e_evidenceQuery E P k cur w = (w', q) \<Longrightarrow> C w' = C w"
    and transaction_ok: "e_transaction E ps w = (w', Inr u) \<Longrightarrow>
          (\<forall>p\<in>set ps. opHolds (C w) p) \<and> C w' = applyOps (C w) ps"
    and transaction_conflict: "e_transaction E ps w = (w', Inl e) \<Longrightarrow> isConditionalConflict e \<Longrightarrow> C w' = C w"
    and transaction_rejected: "e_transaction E ps w = (w', Inl e) \<Longrightarrow>
          C w' = C w \<or> (\<forall>p\<in>set ps. opHolds (C w) p) \<and> C w' = applyOps (C w) ps"
    and now_view: "e_now E w = (w', t) \<Longrightarrow> C w' = C w"
    and date_view: "e_date E w = (w', t) \<Longrightarrow> C w' = C w"
    and uuid_view: "e_uuid E w = (w', x) \<Longrightarrow> C w' = C w"
    and uuid_nonempty: "e_uuid E w = (w', x) \<Longrightarrow> x \<noteq> []"
    and random_view: "e_randomBytes E len w = (w', x) \<Longrightarrow> C w' = C w"
    and random_length: "e_randomBytes E len w = (w', x) \<Longrightarrow> length x = len"
    and sleep_view: "C (e_sleep E ms w) = C w"
    and scrypt_length: "length (e_scrypt E x salt len) = len"
    and locale_order: "comparator (e_localeLeq E)"

sublocale platform \<subseteq> keys: versioned_collection C "''api_keys''" KeyDoc "ak_version_update (\<lambda>_. 0)"
    "e_keys E" ak_version "\<lambda>v. ak_version_update (\<lambda>_. v)"
  by (rule keys_laws)

sublocale platform \<subseteq> prefixes: stored_collection C "''api_key_prefixes''" PrefixDoc
    "kp_version_update (\<lambda>_. 0)" "e_prefixes E"
  by (rule prefixes_laws)

sublocale platform \<subseteq> keyEvents: stored_collection C "''api_key_audit_events''" KeyEventDoc id "e_keyEvents E"
  by (rule keyEvents_laws)

sublocale platform \<subseteq> evidence: stored_collection C "''service_effect_evidence''" EvidenceDoc
    "ev_version_update (\<lambda>_. None)" "e_evidence E"
  by (rule evidence_laws)

sublocale platform \<subseteq> jobs: versioned_collection C "''jobs''" JobDoc "jb_version_update (\<lambda>_. 0)"
    "e_jobs E" jb_version "\<lambda>v. jb_version_update (\<lambda>_. v)"
  by (rule jobs_laws)

sublocale platform \<subseteq> schedules: versioned_collection C "''job_schedules''" ScheduleDoc
    "sc_version_update (\<lambda>_. 0)" "e_schedules E" sc_version "\<lambda>v. sc_version_update (\<lambda>_. v)"
  by (rule schedules_laws)

sublocale platform \<subseteq> jobEvents: stored_collection C "''job_audit_events''" JobEventDoc id "e_jobEvents E"
  by (rule jobEvents_laws)

sublocale platform \<subseteq> files: versioned_collection C "''files''" FileDoc "fl_version_update (\<lambda>_. 0)"
    "e_files E" fl_version "\<lambda>v. fl_version_update (\<lambda>_. v)"
  by (rule files_laws)

sublocale platform \<subseteq> endpoints: versioned_collection C "''webhook_endpoints''" EndpointDoc "wp_version_update (\<lambda>_. 0)"
    "e_endpoints E" wp_version "\<lambda>v. wp_version_update (\<lambda>_. v)"
  by (rule endpoints_laws)

sublocale platform \<subseteq> deliveries: versioned_collection C "''webhook_deliveries''" DeliveryDoc "dv_version_update (\<lambda>_. 0)"
    "e_deliveries E" dv_version "\<lambda>v. dv_version_update (\<lambda>_. v)"
  by (rule deliveries_laws)

sublocale platform \<subseteq> integrations: versioned_collection C "''webhook_integrations''" IntegrationDoc "ig_version_update (\<lambda>_. 0)"
    "e_integrations E" ig_version "\<lambda>v. ig_version_update (\<lambda>_. v)"
  by (rule integrations_laws)

sublocale platform \<subseteq> fileEvents: stored_collection C "''file_audit_events''" FileEventDoc id "e_fileEvents E"
  by (rule fileEvents_laws)

sublocale platform \<subseteq> webhookEvents: stored_collection C "''webhook_audit_events''" WebhookEventDoc id "e_webhookEvents E"
  by (rule webhookEvents_laws)

sublocale platform \<subseteq> localeOrder: comparator "e_localeLeq E"
  by (rule locale_order)

section \<open>Frames\<close>

text \<open>The collections named in \<open>N\<close> are the same after an action as before it.\<close>

definition keeps :: "('w \<Rightarrow> contents) \<Rightarrow> string set \<Rightarrow> 'w sys \<Rightarrow> 'w sys \<Rightarrow> bool" where
  "keeps C N s t \<longleftrightarrow> (\<forall>n\<in>N. C (outside t) n = C (outside s) n)"

interpretation keeps: frame "keeps C N" for C N
  by unfold_locales (auto simp: keeps_def)

lemma keeps_mono: "moves (keeps C N) m \<Longrightarrow> M \<subseteq> N \<Longrightarrow> moves (keeps C M) m"
  by (erule moves_weaken) (auto simp: keeps_def)

lemma keepsD: "moves (keeps C N) m \<Longrightarrow> m s = (t, r) \<Longrightarrow> n \<in> N \<Longrightarrow> C (outside t) n = C (outside s) n"
  by (drule (1) movesD) (simp add: keeps_def)

lemma keeps_ext: "(\<And>w w' r n. m w = (w', r) \<Longrightarrow> n \<in> N \<Longrightarrow> C w' n = C w n) \<Longrightarrow> moves (keeps C N) (ext m)"
  by (rule movesI) (auto simp: ext_eq_iff keeps_def)

lemma keeps_draw: "(\<And>w w' x. m w = (w', x) \<Longrightarrow> C w' = C w) \<Longrightarrow> moves (keeps C N) (draw m)"
  by (rule movesI) (auto simp: draw_eq_iff keeps_def)

context stored_collection
begin

lemma keeps_get: "moves (keeps C N) (ext (c_get c i))"
  by (rule keeps_ext) (simp add: get_view)

lemma keeps_find: "moves (keeps C N) (ext (c_find c P))"
  by (rule keeps_ext) (simp add: find_view)

lemma keeps_insert: "name \<notin> N \<Longrightarrow> moves (keeps C N) (ext (c_insert c x i))"
  by (rule keeps_ext) (metis insert_frame)

lemma keeps_update: "name \<notin> N \<Longrightarrow> moves (keeps C N) (ext (c_update c i x))"
  by (rule keeps_ext) (metis update_frame)

lemmas keeps_collection = keeps_get keeps_find keeps_insert keeps_update

end

context versioned_collection
begin

lemma keeps_cas: "name \<notin> N \<Longrightarrow> moves (keeps C N) (ext (c_updateIfVersion c i v f))"
  by (rule keeps_ext) (metis cas_frame)

end

lemma applyOps_frame: "n \<notin> op_collection ` set ps \<Longrightarrow> applyOps m ps n = m n"
  by (induction ps arbitrary: m) (auto simp: applyOps_def putDoc_def)

context platform
begin

lemma keeps_transaction:
  assumes "N \<inter> op_collection ` set ps = {}"
  shows "moves (keeps C N) (ext (e_transaction E ps))"
proof (rule keeps_ext)
  fix w w' r n
  assume run: "e_transaction E ps w = (w', r)" and n: "n \<in> N"
  have "C w' = C w \<or> C w' = applyOps (C w) ps"
    using run transaction_ok transaction_rejected by (cases r) blast+
  moreover have "n \<notin> op_collection ` set ps" using n assms by blast
  ultimately show "C w' n = C w n" by (metis applyOps_frame)
qed

lemma keeps_now: "moves (keeps C N) (draw (e_now E))"
  by (rule keeps_draw) (rule now_view)

lemma keeps_date: "moves (keeps C N) (draw (e_date E))"
  by (rule keeps_draw) (rule date_view)

lemma keeps_uuid: "moves (keeps C N) (draw (e_uuid E))"
  by (rule keeps_draw) (rule uuid_view)

lemma keeps_random: "moves (keeps C N) (draw (e_randomBytes E len))"
  by (rule keeps_draw) (rule random_view)

lemma keeps_nowISO: "moves (keeps C N) (nowISO E)"
  unfolding nowISO_def by (intro keeps.frame_rules keeps_now)

lemmas keeps_outside = keeps_now keeps_date keeps_uuid keeps_random keeps_nowISO
  keys.keeps_collection keys.keeps_cas prefixes.keeps_collection keyEvents.keeps_collection
  evidence.keeps_collection jobs.keeps_collection jobs.keeps_cas schedules.keeps_collection
  schedules.keeps_cas jobEvents.keeps_collection files.keeps_collection files.keeps_cas
  fileEvents.keeps_collection endpoints.keeps_collection endpoints.keeps_cas deliveries.keeps_collection
  deliveries.keeps_cas integrations.keeps_collection integrations.keeps_cas webhookEvents.keeps_collection
  keeps_transaction

end

end
