(* ===== verification/Authority.thy ===== *)
theory Authority
  imports Platform
begin

text \<open>
  Identity and authority data of \<open>authority/\<close>: verified principals and what callers may pass in
  their place, execution contexts, the capability manifest, credential references, the
  credential binding of a principal, and the collections only services may write.
\<close>

section \<open>Principals (\<open>authority/principal.ts\<close>)\<close>

text \<open>
  A branded principal. \<open>pr_check\<close> is the credential check bound to it in the module-private
  map of \<open>authority/credential-binding.ts\<close>, when there is one.
\<close>

record 'w principal =
  pr_principalId :: string
  pr_principalType :: string
  pr_tenantId :: string
  pr_applicationId :: "string option"
  pr_credentialId :: "string option"
  pr_delegationId :: "string option"
  pr_runId :: "string option"
  pr_verifiedBy :: principal_verification
  pr_check :: "(string \<Rightarrow> resource \<Rightarrow> ('w, unit) service) option"

text \<open>Claims of an authentication adapter; the three required ones are checked at run time.\<close>

record principal_claims =
  cl_principalId :: jsval
  cl_principalType :: jsval
  cl_tenantId :: jsval
  cl_applicationId :: "string option"
  cl_credentialId :: "string option"
  cl_delegationId :: "string option"
  cl_runId :: "string option"

definition claimedText :: "string \<Rightarrow> jsval \<Rightarrow> exn + string" where
  "claimedText field v = (case v of
      JStr x \<Rightarrow> if trim x \<noteq> [] then Inr x
        else Inl (ServiceAuthorityError UNAUTHENTICATED (''Authenticated identity is missing '' @ field) noDetails)
    | _ \<Rightarrow> Inl (ServiceAuthorityError UNAUTHENTICATED (''Authenticated identity is missing '' @ field) noDetails))"

definition mintVerifiedPrincipal :: "principal_claims \<Rightarrow> principal_verification \<Rightarrow> exn + 'w principal" where
  "mintVerifiedPrincipal cl by =
     bindR (claimedText ''principalId'' (cl_principalId cl)) (\<lambda>pid.
     bindR (claimedText ''principalType'' (cl_principalType cl)) (\<lambda>ptype.
     bindR (claimedText ''tenantId'' (cl_tenantId cl)) (\<lambda>tenant.
     Inr \<lparr>pr_principalId = pid, pr_principalType = ptype, pr_tenantId = tenant,
          pr_applicationId = keepTruthy (cl_applicationId cl),
          pr_credentialId = keepTruthy (cl_credentialId cl),
          pr_delegationId = keepTruthy (cl_delegationId cl),
          pr_runId = keepTruthy (cl_runId cl),
          pr_verifiedBy = by, pr_check = None\<rparr>)))"

text \<open>
  What is passed where a principal is expected. The brand is a module-private set of object
  identities, so an object literal, a copy of a principal and a string are never members.
\<close>

datatype 'w caller =
    Verified "'w principal"
  | ActorString string
  | ScopedObject
  | OtherValue

definition isVerifiedPrincipal :: "'w caller \<Rightarrow> bool" where
  "isVerifiedPrincipal v = (case v of Verified _ \<Rightarrow> True | _ \<Rightarrow> False)"

definition requireVerifiedPrincipal :: "'w caller \<Rightarrow> exn + 'w principal" where
  "requireVerifiedPrincipal v = (case v of
      Verified p \<Rightarrow> Inr p
    | ActorString _ \<Rightarrow> Inl (ServiceMigrationError
        ''An actor string is not an identity. Pass the principal returned by authentication.'')
    | ScopedObject \<Rightarrow> Inl (ServiceMigrationError
        ''Principals carrying scopes are no longer authority. Pass the principal returned by authentication; AuthBoundry authorizes each capability.'')
    | OtherValue \<Rightarrow> Inl (ServiceAuthorityError UNAUTHENTICATED
        ''A verified principal is required for this service operation'' noDetails))"

definition ACTOR_FIELDS :: "string list" where
  "ACTOR_FIELDS = [''actor'', ''createdBy'', ''revokedBy'', ''disabledBy'', ''replayedBy'', ''principalId'']"

fun rejectActorFields :: "string list \<Rightarrow> jsobj \<Rightarrow> 'w principal \<Rightarrow> exn + unit" where
  "rejectActorFields [] ob p = Inr ()"
| "rejectActorFields (f # fs) ob p =
     (if propOf ob f \<noteq> JUndef \<and> propOf ob f \<noteq> JStr (pr_principalId p)
      then Inl (ServiceMigrationError (''Caller-supplied \"'' @ f @
        ''\" cannot establish identity; the actor is the verified principal.''))
      else rejectActorFields fs ob p)"

definition rejectCallerActor :: "jsval \<Rightarrow> 'w principal \<Rightarrow> exn + unit" where
  "rejectCallerActor input p = (case input of
      JObj ob \<Rightarrow>
        bindR (rejectActorFields ACTOR_FIELDS ob p) (\<lambda>_.
        if propOf ob ''principal'' \<noteq> JUndef
        then Inl (ServiceMigrationError ''Caller-supplied \"principal\" cannot establish identity.'')
        else if propOf ob ''scopes'' \<noteq> JUndef \<and> propOf ob ''scopes'' \<noteq> JArr []
        then Inl (ServiceMigrationError ''Caller-supplied scopes do not grant authority.'')
        else Inr ())
    | _ \<Rightarrow> Inr ())"

definition resolveTenant :: "jsval \<Rightarrow> 'w principal \<Rightarrow> exn + string" where
  "resolveTenant input p =
     (let supplied = (case input of JObj ob \<Rightarrow> propOf ob ''tenantId'' | _ \<Rightarrow> JUndef) in
      if supplied \<noteq> JUndef \<and> supplied \<noteq> JStr (pr_tenantId p)
      then Inl (ServiceAuthorityError DENIED ''Cross-tenant service operation denied''
             (noDetails\<lparr>ed_reason := Some ''tenant_mismatch''\<rparr>))
      else Inr (pr_tenantId p))"

text \<open>An omitted delegation argument defaults to the principal's own.\<close>

definition toDurablePrincipal ::
  "'w principal \<Rightarrow> string option \<Rightarrow> string option \<Rightarrow> durable_principal" where
  "toDurablePrincipal p delegationId authorizedBy =
     \<lparr>dp_principalId = pr_principalId p, dp_principalType = pr_principalType p,
      dp_tenantId = pr_tenantId p,
      dp_applicationId = keepTruthy (pr_applicationId p),
      dp_delegationId = keepTruthy (orElse delegationId (pr_delegationId p)),
      dp_credentialId = keepTruthy (pr_credentialId p),
      dp_authorizedBy = keepTruthy authorizedBy\<rparr>"

section \<open>Execution contexts (\<open>authority/context.ts\<close>)\<close>

text \<open>\<open>cx_ref\<close> is the identity of the frozen object, which the module's two sets go by.\<close>

record 'w exec_context =
  cx_ref :: nat
  cx_application :: string
  cx_tenantId :: string
  cx_principal :: "'w principal"
  cx_capability :: string
  cx_capabilityVersion :: int
  cx_requestId :: string
  cx_resource :: resource
  cx_resourceUri :: string
  cx_decisionId :: string
  cx_decidedAt :: string
  cx_policyVersion :: "string option"
  cx_reason :: "string option"
  cx_expiresAt :: string

text \<open>
  A value passed as a context: one the gateway issued, or anything else (with the capability
  property it claims, if any).
\<close>

datatype 'w context_value = Issued "'w exec_context" | NotIssued "string option"

definition isExecutionContext :: "'w context_value \<Rightarrow> bool" where
  "isExecutionContext v = (case v of Issued _ \<Rightarrow> True | NotIssued _ \<Rightarrow> False)"

definition claimedCapability :: "'w context_value \<Rightarrow> string option" where
  "claimedCapability v = (case v of Issued c \<Rightarrow> Some (cx_capability c) | NotIssued k \<Rightarrow> k)"

definition mintExecutionContext :: "'w exec_context \<Rightarrow> ('w, 'w exec_context) service" where
  "mintExecutionContext c = (\<lambda>s.
     (s\<lparr>mintedContexts := Suc (mintedContexts s)\<rparr>, Inr (c\<lparr>cx_ref := mintedContexts s\<rparr>)))"

definition assertExecutionContext ::
  "'w env \<Rightarrow> 'w context_value \<Rightarrow> string option \<Rightarrow> string option \<Rightarrow> int \<Rightarrow> exn + 'w exec_context" where
  "assertExecutionContext E v capability tenantId now = (case v of
      NotIssued _ \<Rightarrow> Inl (ServiceAuthorityError UNAUTHENTICATED ''A gateway-issued execution context is required''
        (noDetails\<lparr>ed_capability := capability\<rparr>))
    | Issued c \<Rightarrow>
        if Some (cx_capability c) \<noteq> capability
        then Inl (ServiceAuthorityError DENIED (''Execution context was authorized for '' @ cx_capability c @
               '', not '' @ (case capability of None \<Rightarrow> ''undefined'' | Some k \<Rightarrow> k))
               (noDetails\<lparr>ed_capability := capability\<rparr>))
        else if (case tenantId of None \<Rightarrow> False | Some t \<Rightarrow> cx_tenantId c \<noteq> t)
        then Inl (ServiceAuthorityError DENIED ''Cross-tenant service operation denied''
               (noDetails\<lparr>ed_capability := capability, ed_reason := Some ''tenant_mismatch''\<rparr>))
        else if dateLeq E (cx_expiresAt c) now
        then Inl (ServiceAuthorityError DENIED ''Execution context has expired''
               (noDetails\<lparr>ed_capability := capability, ed_decisionId := Some (cx_decisionId c)\<rparr>))
        else Inr c)"

definition consumeExecutionContext ::
  "'w env \<Rightarrow> 'w context_value \<Rightarrow> string \<Rightarrow> string option \<Rightarrow> ('w, 'w exec_context) service" where
  "consumeExecutionContext E v capability tenantId =
     bindA (draw (e_date E)) (\<lambda>now.
     bindA (liftR (assertExecutionContext E v (Some capability) tenantId now)) (\<lambda>c.
     (\<lambda>s. if cx_ref c \<in> set (consumedContexts s)
        then (s, Inl (ServiceAuthorityError DENIED ''Execution context has already been used''
               (noDetails\<lparr>ed_capability := Some capability, ed_decisionId := Some (cx_decisionId c)\<rparr>)))
        else (s\<lparr>consumedContexts := cx_ref c # consumedContexts s\<rparr>, Inr c))))"

text \<open>\<open>encodeURIComponent\<close> of one code unit below 256 (two UTF-8 bytes from 128 on).\<close>

definition uriPlain :: "char \<Rightarrow> bool" where
  "uriPlain c \<longleftrightarrow> digitChar c \<or> lowerChar c \<or> upperChar c \<or> c \<in> set ''-_.!~*()'' \<or> c = CHR 0x27"

definition hexUpper :: "nat \<Rightarrow> char" where
  "hexUpper d = (if d < 10 then char_of (48 + d) else char_of (55 + d))"

definition percentByte :: "nat \<Rightarrow> string" where
  "percentByte n = [CHR ''%'', hexUpper (n div 16), hexUpper (n mod 16)]"

definition encodeChar :: "char \<Rightarrow> string" where
  "encodeChar c =
     (let n = (of_char c :: nat) in
      if uriPlain c then [c]
      else if n < 128 then percentByte n
      else percentByte (192 + n div 64) @ percentByte (128 + n mod 64))"

definition encodeURIComponent :: "string \<Rightarrow> string" where
  "encodeURIComponent xs = concat (map encodeChar xs)"

definition resourceUri :: "string \<Rightarrow> resource \<Rightarrow> string" where
  "resourceUri application r =
     ''appport://'' @ encodeURIComponent application @ ''/tenants/'' @ encodeURIComponent (rs_tenantId r)
       @ ''/'' @ encodeURIComponent (rs_type r) @ ''/''
       @ encodeURIComponent (case rs_id r of None \<Rightarrow> ''*'' | Some i \<Rightarrow> i)"

section \<open>The capability manifest (\<open>authority/manifest.ts\<close>)\<close>

datatype service_effect = Consequential | Observation

record capability =
  cp_name :: string
  cp_version :: int
  cp_service :: string
  cp_operation :: string
  cp_effect :: service_effect
  cp_invocable :: bool
  cp_required :: bool
  cp_resource :: string

type_synonym manifest_entry = "string \<times> string \<times> string \<times> service_effect \<times> string \<times> bool"

definition ENTRIES :: "manifest_entry list" where
  "ENTRIES =
    [(''apikeys.read'', ''api-keys'', ''listApiKeys'', Observation, ''api_key'', True),
     (''apikeys.create'', ''api-keys'', ''createApiKey'', Consequential, ''api_key'', True),
     (''apikeys.revoke'', ''api-keys'', ''revokeApiKey'', Consequential, ''api_key'', True),
     (''apikeys.update'', ''api-keys'', ''updateApiKey'', Consequential, ''api_key'', True),
     (''apikeys.rotate'', ''api-keys'', ''rotateApiKey'', Consequential, ''api_key'', True),
     (''apikeys.audit'', ''api-keys'', ''listApiKeyAuditEvents'', Observation, ''api_key'', True),
     (''webhooks.read'', ''webhooks'', ''listWebhookEndpoints'', Observation, ''webhook_endpoint'', True),
     (''webhooks.deliveries.read'', ''webhooks'', ''readWebhookDeliveries'', Observation, ''webhook_delivery'', True),
     (''webhooks.register'', ''webhooks'', ''createWebhookEndpoint'', Consequential, ''webhook_endpoint'', True),
     (''webhooks.remove'', ''webhooks'', ''disableWebhookEndpoint'', Consequential, ''webhook_endpoint'', True),
     (''webhooks.emit'', ''webhooks'', ''emitWebhookEvent'', Consequential, ''webhook_event'', True),
     (''webhooks.replay'', ''webhooks'', ''replayWebhookDelivery'', Consequential, ''webhook_delivery'', True),
     (''webhooks.deliver'', ''webhooks'', ''deliverWebhook'', Consequential, ''webhook_delivery'', False),
     (''webhooks.integrations.register'', ''webhooks'', ''registerIntegration'', Consequential, ''webhook_integration'', True),
     (''webhooks.receive'', ''webhooks'', ''receiveWebhook'', Consequential, ''webhook_integration'', False),
     (''jobs.read'', ''jobs'', ''listJobs'', Observation, ''job'', True),
     (''jobs.create'', ''jobs'', ''enqueue'', Consequential, ''job'', True),
     (''jobs.retry'', ''jobs'', ''retry'', Consequential, ''job'', True),
     (''jobs.execute'', ''jobs'', ''executeJob'', Consequential, ''job'', False),
     (''schedules.read'', ''schedules'', ''list'', Observation, ''schedule'', True),
     (''schedules.create'', ''schedules'', ''create'', Consequential, ''schedule'', True),
     (''schedules.cancel'', ''schedules'', ''disable'', Consequential, ''schedule'', True),
     (''notifications.read'', ''notifications'', ''list'', Observation, ''notification'', True),
     (''notifications.send'', ''notifications'', ''create'', Consequential, ''notification'', True),
     (''notifications.update'', ''notifications'', ''markRead'', Consequential, ''notification'', True),
     (''notifications.delete'', ''notifications'', ''delete'', Consequential, ''notification'', True),
     (''files.read'', ''files'', ''list'', Observation, ''file'', True),
     (''files.write'', ''files'', ''create'', Consequential, ''file'', True),
     (''files.delete'', ''files'', ''delete'', Consequential, ''file'', True),
     (''configuration.read'', ''configuration'', ''list'', Observation, ''configuration'', True),
     (''configuration.write'', ''configuration'', ''createVariable'', Consequential, ''configuration'', True),
     (''configuration.delete'', ''configuration'', ''delete'', Consequential, ''configuration'', True),
     (''credential.attach'', ''configuration'', ''createSecret'', Consequential, ''credential'', True),
     (''credential.rotate'', ''configuration'', ''rotateSecret'', Consequential, ''credential'', True),
     (''credential.detach'', ''configuration'', ''delete'', Consequential, ''credential'', True),
     (''credential.store'', ''configuration'', ''storeCredential'', Consequential, ''credential'', True),
     (''credential.status'', ''configuration'', ''credentialStatus'', Observation, ''credential'', True),
     (''intelligence.catalog'', ''intelligence'', ''catalog'', Observation, ''intelligence'', True),
     (''intelligence.read'', ''intelligence'', ''get'', Observation, ''intelligence'', True),
     (''intelligence.write'', ''intelligence'', ''set'', Consequential, ''intelligence'', True),
     (''intelligence.credential.set'', ''intelligence'', ''setCredential'', Consequential, ''credential'', True),
     (''intelligence.credential.remove'', ''intelligence'', ''removeCredential'', Consequential, ''credential'', True),
     (''intelligence.resolve'', ''intelligence'', ''resolveRuntime'', Observation, ''intelligence'', False)]"

definition freezeCapability :: "manifest_entry \<Rightarrow> capability" where
  "freezeCapability e = (case e of (name, service, operation, effect, res, invocable) \<Rightarrow>
     \<lparr>cp_name = name, cp_version = 1, cp_service = service, cp_operation = operation,
      cp_effect = effect, cp_invocable = invocable, cp_required = True, cp_resource = res\<rparr>)"

definition SERVICE_CAPABILITY_MANIFEST :: "'w env \<Rightarrow> capability list" where
  "SERVICE_CAPABILITY_MANIFEST E =
     map freezeCapability (sortBy (\<lambda>a b. e_localeLeq E (fst a) (fst b)) ENTRIES)"

text \<open>The \<open>Map\<close> by name: a later entry of the same name would replace an earlier one.\<close>

definition getServiceCapability :: "'w env \<Rightarrow> string \<Rightarrow> capability option" where
  "getServiceCapability E name =
     map_of (rev (map (\<lambda>c. (cp_name c, c)) (SERVICE_CAPABILITY_MANIFEST E))) name"

definition LEGACY_SCOPE_MIGRATION :: "(string \<times> string option) list" where
  "LEGACY_SCOPE_MIGRATION =
    [(''files.admin'', None),
     (''notifications.admin'', None),
     (''schedules.admin'', None),
     (''configuration.admin'', None),
     (''files.create'', Some ''files.write''),
     (''files.read:any'', Some ''files.read''),
     (''files.write:any'', Some ''files.write''),
     (''files.delete:any'', Some ''files.delete''),
     (''notifications.create'', Some ''notifications.send''),
     (''notifications.write'', Some ''notifications.update''),
     (''notifications.read:any'', Some ''notifications.read''),
     (''schedules.write'', Some ''schedules.cancel''),
     (''schedules.read:any'', Some ''schedules.read''),
     (''schedules.write:any'', Some ''schedules.cancel''),
     (''secret.rotate'', Some ''credential.rotate'')]"

section \<open>Credential references (\<open>authority/credentials.ts\<close>)\<close>

definition credentialIdChar :: "char \<Rightarrow> bool" where
  "credentialIdChar c \<longleftrightarrow> digitChar c \<or> lowerChar c \<or> upperChar c \<or> c \<in> set ''._:-''"

definition credentialId :: "string \<Rightarrow> bool" where
  "credentialId x = (case x of
      [] \<Rightarrow> False
    | c # cs \<Rightarrow> (digitChar c \<or> lowerChar c \<or> upperChar c) \<and> list_all credentialIdChar cs \<and> length cs \<le> 199)"

definition credentialPrefix :: string where
  "credentialPrefix = ''credential-ref:''"

definition isCredentialRef :: "jsval \<Rightarrow> bool" where
  "isCredentialRef v = (case v of
      JStr x \<Rightarrow> startsWith x credentialPrefix \<and> credentialId (drop (length credentialPrefix) x)
    | _ \<Rightarrow> False)"

definition formatCredentialRef :: "string \<Rightarrow> exn + string" where
  "formatCredentialRef secretId =
     (let ref = credentialPrefix @ secretId in
      if isCredentialRef (JStr ref) then Inr ref
      else Inl (ServiceAuthorityError INVALID_REQUEST ''Invalid credential identifier'' noDetails))"

definition requireCredentialRef :: "jsval \<Rightarrow> string \<Rightarrow> exn + string" where
  "requireCredentialRef v field = (case v of
      JStr x \<Rightarrow>
        if isCredentialRef v then Inr x
        else if x \<noteq> [] then Inl (ServiceMigrationError (''\"'' @ field @
          ''\" must be a credential-ref:<id> into AuthBoundry custody; raw credentials are never stored in service configuration.''))
        else Inl (ServiceAuthorityError INVALID_REQUEST
          (field @ '' is required and must be a credential-ref:<id>'') noDetails)
    | _ \<Rightarrow> Inl (ServiceAuthorityError INVALID_REQUEST
          (field @ '' is required and must be a credential-ref:<id>'') noDetails))"

definition credentialReference :: "string \<Rightarrow> string \<Rightarrow> string option \<Rightarrow> secret_reference" where
  "credentialReference ref tenantId provider =
     \<lparr>sr_secretId = drop (length credentialPrefix) ref, sr_tenantId = tenantId,
      sr_provider = keepTruthy provider, sr_accountId = None, sr_kind = None\<rparr>"

definition RAW_CREDENTIAL_FIELDS :: "string list" where
  "RAW_CREDENTIAL_FIELDS =
     [''value'', ''secret'', ''password'', ''token'', ''apiKey'', ''signingSecret'', ''credential'']"

definition rejectRawCredentialFields :: "jsval \<Rightarrow> exn + unit" where
  "rejectRawCredentialFields input = (case input of
      JObj ob \<Rightarrow>
        (case filter (\<lambda>f. propOf ob f \<noteq> JUndef) RAW_CREDENTIAL_FIELDS of
           [] \<Rightarrow> Inr ()
         | f # _ \<Rightarrow> Inl (ServiceMigrationError (''\"'' @ f @
             ''\" looks like raw credential material. Register it with AuthBoundry and pass credentialRef instead.'')))
    | _ \<Rightarrow> Inr ())"

section \<open>Credential binding (\<open>authority/credential-binding.ts\<close>)\<close>

definition bindCredentialCheck ::
  "'w principal \<Rightarrow> (string \<Rightarrow> resource \<Rightarrow> ('w, unit) service) \<Rightarrow> 'w principal" where
  "bindCredentialCheck p check = p\<lparr>pr_check := Some check\<rparr>"

definition enforceCredential :: "'w principal \<Rightarrow> string \<Rightarrow> resource \<Rightarrow> ('w, unit) service" where
  "enforceCredential p capability r = (case pr_check p of
      None \<Rightarrow>
        if pr_verifiedBy p = ByApiKey
        then raise (ServiceAuthorityError DENIED ''API-key principal is not bound to a live credential''
               (noDetails\<lparr>ed_capability := Some capability, ed_reason := Some ''credential_unbound''\<rparr>))
        else ret ()
    | Some check \<Rightarrow>
        catchA (check capability r) (\<lambda>e.
          if isServiceAuthorityError e then raise e
          else raise (ServiceAuthorityError AUTHORITY_UNAVAILABLE ''API-key credential state could not be read''
                 (noDetails\<lparr>ed_capability := Some capability, ed_reason := Some ''credential_store_unavailable''\<rparr>))))"

section \<open>Reserved collections (\<open>authority/reserved.ts\<close>)\<close>

definition SERVICE_OWNED_COLLECTIONS :: "string list" where
  "SERVICE_OWNED_COLLECTIONS =
    [''api_keys'', ''api_key_prefixes'', ''api_key_audit_events'',
     ''webhook_endpoints'', ''webhook_deliveries'', ''webhook_audit_events'', ''webhook_integrations'',
     ''inbound_webhook_events'',
     ''jobs'', ''job_schedules'', ''job_audit_events'',
     ''notifications'', ''notification_deliveries'', ''notification_audit_events'',
     ''files'', ''file_audit_events'',
     ''ConfigurationVariables'', ''ConfigurationSecrets'', ''ConfigurationAuditEvents'',
     ''service_effect_evidence'']"

definition assertApplicationCollection :: "string \<Rightarrow> exn + unit" where
  "assertApplicationCollection name =
     (if name \<in> set SERVICE_OWNED_COLLECTIONS
      then Inl (ServiceAuthorityError DENIED (''Collection \"'' @ name @
        ''\" is owned by AppPort Services; use the service capability instead of writing it directly'')
        (noDetails\<lparr>ed_reason := Some ''reserved_collection''\<rparr>))
      else Inr ())"

section \<open>Resource URIs\<close>

lemma hexUpper_inj: "d < 16 \<Longrightarrow> e < 16 \<Longrightarrow> hexUpper d = hexUpper e \<longleftrightarrow> d = e"
proof -
  assume "d < 16" "e < 16"
  then have "of_char (hexUpper d) = (if d < 10 then 48 + d else 55 + d :: nat)"
     "of_char (hexUpper e) = (if e < 10 then 48 + e else 55 + e :: nat)"
    by (auto simp: hexUpper_def of_char_of)
  then have "hexUpper d = hexUpper e \<Longrightarrow> (if d < 10 then 48 + d else 55 + d) = (if e < 10 then 48 + e else 55 + e)"
    by metis
  then show ?thesis by (auto split: if_splits)
qed

lemma percentByte_inj: "m < 256 \<Longrightarrow> n < 256 \<Longrightarrow> percentByte m = percentByte n \<longleftrightarrow> m = n"
proof -
  assume "m < 256" "n < 256"
  then have "m div 16 < 16" "n div 16 < 16" by auto
  then show ?thesis
    by (simp add: percentByte_def hexUpper_inj) (metis div_mult_mod_eq)
qed

lemma uriPlain_percent: "uriPlain c \<Longrightarrow> c \<noteq> CHR ''%'' \<and> c \<noteq> CHR ''/''"
  by (auto simp: uriPlain_def digitChar_def lowerChar_def upperChar_def)
lemma encodeChar_cancel: "encodeChar c @ xs = encodeChar d @ ys \<Longrightarrow> c = d \<and> xs = ys"
proof -
  assume eq: "encodeChar c @ xs = encodeChar d @ ys"
  let ?m = "of_char c :: nat" and ?n = "of_char d :: nat"
  have lt: "?m < 256" "?n < 256" by (rule of_char_less_256)+
  then have q: "?m div 64 < 4" "?n div 64 < 4" by (simp_all add: less_mult_imp_div_less)
  show ?thesis
  proof (cases "uriPlain c \<or> uriPlain d")
    case True
    then show ?thesis using eq uriPlain_percent [of c] uriPlain_percent [of d]
      by (auto simp: encodeChar_def percentByte_def Let_def split: if_splits)
  next
    case False
    have hi: "percentByte (192 + ?m div 64) = percentByte (192 + ?n div 64) \<longleftrightarrow> ?m div 64 = ?n div 64"
      "percentByte (128 + ?m mod 64) = percentByte (128 + ?n mod 64) \<longleftrightarrow> ?m mod 64 = ?n mod 64"
      using lt q by (simp_all add: percentByte_inj)
    have mixed: "?m < 128 \<Longrightarrow> percentByte ?m \<noteq> percentByte (192 + ?n div 64)"
      "?n < 128 \<Longrightarrow> percentByte (192 + ?m div 64) \<noteq> percentByte ?n"
      using lt q by (simp_all add: percentByte_inj)
    have len: "length (percentByte k) = 3" for k by (simp add: percentByte_def)
    have "?m = ?n \<and> xs = ys"
      using False eq lt hi mixed
      by (auto simp: encodeChar_def Let_def append_eq_append_conv percentByte_inj len split: if_splits)
        (metis div_mult_mod_eq of_char_eq_iff)+
    then show ?thesis by simp
  qed
qed

lemma hexUpper_slash: "d < 16 \<Longrightarrow> hexUpper d \<noteq> CHR ''/''"
  by (auto simp: hexUpper_def dest: arg_cong [where f = "of_char :: char \<Rightarrow> nat"])

lemma percentByte_slash: "n < 256 \<Longrightarrow> CHR ''/'' \<notin> set (percentByte n)"
  using hexUpper_slash [of "n div 16"] hexUpper_slash [of "n mod 16"] less_mult_imp_div_less [of n 16 16]
  by (auto simp: percentByte_def)

lemma encodeChar_slash: "CHR ''/'' \<notin> set (encodeChar c)"
  using uriPlain_percent [of c] of_char_less_256 [of c] less_mult_imp_div_less [of "of_char c" 4 64]
    percentByte_slash [of "of_char c"] percentByte_slash [of "192 + of_char c div 64"]
    percentByte_slash [of "128 + of_char c mod 64"]
  by (auto simp: encodeChar_def Let_def)

lemma encodeURIComponent_slash: "CHR ''/'' \<notin> set (encodeURIComponent xs)"
  by (auto simp: encodeURIComponent_def encodeChar_slash)

lemma encodeChar_nonempty: "encodeChar c \<noteq> []"
  by (simp add: encodeChar_def percentByte_def Let_def)

lemma encodeURIComponent_inj: "encodeURIComponent xs = encodeURIComponent ys \<longleftrightarrow> xs = ys"
proof (induction xs arbitrary: ys)
  case Nil
  then show ?case by (cases ys) (auto simp: encodeURIComponent_def encodeChar_nonempty)
next
  case (Cons x xs)
  then show ?case
    by (cases ys) (auto simp: encodeURIComponent_def encodeChar_nonempty dest: encodeChar_cancel)
qed

text \<open>
  C9: the URI that AuthBoundry is asked about determines the application, the tenant, the
  resource type and the resource id, whatever characters they contain: the URI of one tenant's
  resource is never the URI of another's. A request without an id shares its URI only with the
  id \<open>*\<close>.
\<close>

lemma resourceUri_separates:
  "resourceUri a r = resourceUri b q \<longleftrightarrow>
     a = b \<and> rs_tenantId r = rs_tenantId q \<and> rs_type r = rs_type q \<and>
     orElse (rs_id r) (Some ''*'') = orElse (rs_id q) (Some ''*'')"
  by (auto simp: resourceUri_def separator_cancel encodeURIComponent_slash encodeURIComponent_inj
      split: option.splits)

section \<open>Lookup in the manifest\<close>

lemma distinct_entry_names: "distinct (map fst ENTRIES)"
  by code_simp

lemma cp_name_freeze [simp]: "cp_name (freezeCapability e) = fst e"
  by (cases e) (simp add: freezeCapability_def)

lemma getServiceCapability_eq:
  "getServiceCapability E = map_of (map (\<lambda>e. (fst e, freezeCapability e)) ENTRIES)"
proof -
  let ?m = "rev (map (\<lambda>c. (cp_name c, c)) (SERVICE_CAPABILITY_MANIFEST E))"
  let ?s = "map (\<lambda>e. (fst e, freezeCapability e)) ENTRIES"
  define r where "r = (\<lambda>(a :: manifest_entry) (b :: manifest_entry). e_localeLeq E (fst a) (fst b))"
  have "map fst ?m = rev (map fst (sortBy r ENTRIES))"
    by (simp add: SERVICE_CAPABILITY_MANIFEST_def rev_map comp_def r_def)
  moreover have "distinct (map fst (sortBy r ENTRIES))"
    by (simp add: distinct_map_sortBy distinct_entry_names)
  ultimately have "distinct (map fst ?m)" by simp
  moreover have "distinct (map fst ?s)" using distinct_entry_names by (simp add: comp_def)
  moreover have "set ?m = set ?s" by (simp add: SERVICE_CAPABILITY_MANIFEST_def image_image)
  ultimately have "map_of ?m = map_of ?s" by (blast intro: map_of_inject_set [THEN iffD2])
  then show ?thesis by (simp add: getServiceCapability_def fun_eq_iff)
qed

lemma getServiceCapability_Some:
  assumes "getServiceCapability E n = Some c"
  shows "cp_name c = n" "cp_version c = 1" "cp_required c" "c \<in> freezeCapability ` set ENTRIES"
proof -
  obtain e where "e \<in> set ENTRIES" "n = fst e" "c = freezeCapability e"
    using assms by (auto simp: getServiceCapability_eq dest!: map_of_SomeD)
  then show "cp_name c = n" "cp_version c = 1" "cp_required c" "c \<in> freezeCapability ` set ENTRIES"
    by (auto simp: freezeCapability_def split: prod.splits)
qed

end
