(* ===== verification/Evidence.thy ===== *)
theory Evidence
  imports Authority
begin

text \<open>
  Durable evidence of effects (\<open>authority/evidence.ts\<close>) and the bounded query it is read with
  (\<open>storage/bounded.ts\<close>): the guard that keeps credential material out of a row, the store, and
  the reader that summarizes one run.
\<close>

section \<open>Bounded queries (\<open>storage/bounded.ts\<close>)\<close>

definition FELTDB_QUERY_PAGE_LIMIT :: int where
  "FELTDB_QUERY_PAGE_LIMIT = 1000"

text \<open>
  The paging loop. A database that keeps answering with records the caller's own filter drops
  would be asked for ever, so the loop carries fuel and \<open>None\<close> means that it did not end.
\<close>

fun boundedLoop ::
  "nat \<Rightarrow> (('a \<Rightarrow> bool) \<Rightarrow> int \<Rightarrow> string option \<Rightarrow> ('w, exn, 'a query_page) act) \<Rightarrow> ('a \<Rightarrow> bool) \<Rightarrow> int \<Rightarrow>
   string option \<Rightarrow> 'a list \<Rightarrow> ('w, 'a list option) service" where
  "boundedLoop 0 query P mx cursor found = ret None"
| "boundedLoop (Suc fuel) query P mx cursor found =
     (if int (length found) < mx then
        bindA (ext (query P (min FELTDB_QUERY_PAGE_LIMIT (mx - int (length found))) (keepTruthy cursor))) (\<lambda>page.
        let found' = found @ filter P (qp_records page) in
        if qp_exhausted page \<or> \<not> truthy (qp_nextCursor page) \<or> qp_records page = []
        then ret (Some (take (nat mx) found'))
        else boundedLoop fuel query P mx (qp_nextCursor page) found')
      else ret (Some (take (nat mx) found)))"

definition boundedFind ::
  "nat \<Rightarrow> (('a \<Rightarrow> bool) \<Rightarrow> int \<Rightarrow> string option \<Rightarrow> ('w, exn, 'a query_page) act) \<Rightarrow> ('a \<Rightarrow> bool) \<Rightarrow> int \<Rightarrow>
   ('w, 'a list option) service" where
  "boundedFind fuel query P mx = boundedLoop fuel query P mx None []"

section \<open>The guard against credential material\<close>

definition lowerCase :: "char \<Rightarrow> char" where
  "lowerCase c = (if upperChar c then char_of ((of_char c :: nat) + 32) else c)"

fun containsBy :: "(string \<Rightarrow> bool) \<Rightarrow> string \<Rightarrow> bool" where
  "containsBy here [] = here []"
| "containsBy here (x # xs) = (here (x # xs) \<or> containsBy here xs)"

text \<open>\<open>/secret|token|password|authorization|api[_-]?key|signature|credential(?!Ref)/i\<close>\<close>

definition secretKeyHere :: "string \<Rightarrow> bool" where
  "secretKeyHere xs \<longleftrightarrow>
     (\<exists>w\<in>set [''secret'', ''token'', ''password'', ''authorization'', ''apikey'', ''api_key'', ''api-key'',
        ''signature'']. startsWith xs w) \<or>
     startsWith xs ''credential'' \<and> \<not> startsWith xs ''credentialref''"

definition SECRET_KEY :: "string \<Rightarrow> bool" where
  "SECRET_KEY key = containsBy secretKeyHere (map lowerCase key)"

text \<open>\<open>/(app_live_[0-9a-f]{6}_)|(^bearer\s)|(-----BEGIN)/i\<close>\<close>

definition keyMaterialHere :: "string \<Rightarrow> bool" where
  "keyMaterialHere xs \<longleftrightarrow>
     startsWith xs ''app_live_'' \<and> length xs \<ge> 16 \<and>
     list_all hexChar (take 6 (drop 9 xs)) \<and> xs ! 15 = CHR ''_''"

definition SECRET_VALUE :: "string \<Rightarrow> bool" where
  "SECRET_VALUE val \<longleftrightarrow> (let xs = map lowerCase val in
     containsBy keyMaterialHere xs \<or>
     (startsWith xs ''bearer'' \<and> 6 < length xs \<and> isWhite (xs ! 6)) \<or>
     containsBy (\<lambda>ys. startsWith ys ''-----begin'') xs)"

definition guardEntry :: "string \<times> jsval \<Rightarrow> exn + unit" where
  "guardEntry kv = (case kv of (key, val) \<Rightarrow>
     if key = ''credentialVersion'' then
       (case val of JNum _ \<Rightarrow> Inr () | JUndef \<Rightarrow> Inr ()
        | _ \<Rightarrow> Inl (PlainError ''Evidence field \"credentialVersion\" must be an integer''))
     else if key \<noteq> ''credentialRef'' \<and> SECRET_KEY key
     then Inl (PlainError (''Evidence field \"'' @ key @ ''\" is not permitted''))
     else if (case val of JStr x \<Rightarrow> SECRET_VALUE x | _ \<Rightarrow> False)
     then Inl (PlainError (''Evidence field \"'' @ key @ ''\" contains credential material''))
     else if key = ''credentialRef'' \<and> val \<noteq> JUndef \<and> \<not> startsWith (jsString val) ''credential-ref:''
     then Inl (PlainError ''Evidence may reference credentials only by credential-ref'')
     else Inr ())"

definition assertEvidenceHasNoSecrets :: "jsobj \<Rightarrow> exn + unit" where
  "assertEvidenceHasNoSecrets ob = bindR (mapR guardEntry ob) (\<lambda>_. Inr ())"

definition outcomeName :: "effect_outcome \<Rightarrow> string" where
  "outcomeName x = (case x of Started \<Rightarrow> ''started'' | Succeeded \<Rightarrow> ''succeeded'' | Failed \<Rightarrow> ''failed''
     | ProviderFailed \<Rightarrow> ''provider_error'' | OutcomeDenied \<Rightarrow> ''denied'')"

definition decisionName :: "evidence_decision \<Rightarrow> string" where
  "decisionName x = (case x of DecisionAllow \<Rightarrow> ''allow'' | DecisionDeny \<Rightarrow> ''deny'' | DecisionNone \<Rightarrow> ''none'')"

definition optText :: "string \<Rightarrow> string option \<Rightarrow> jsobj" where
  "optText key v = (case v of None \<Rightarrow> [] | Some x \<Rightarrow> [(key, JStr x)])"

definition optInt :: "string \<Rightarrow> int option \<Rightarrow> jsobj" where
  "optInt key v = (case v of None \<Rightarrow> [] | Some n \<Rightarrow> [(key, JNum n)])"

text \<open>\<open>Object.entries\<close> of an evidence row and of a completion.\<close>

definition evidenceEntries :: "effect_evidence \<Rightarrow> jsobj" where
  "evidenceEntries ev =
     [(''id'', JStr (ev_id ev)), (''application'', JStr (ev_application ev)),
      (''tenantId'', JStr (ev_tenantId ev)), (''principalId'', JStr (ev_principalId ev)),
      (''principalType'', JStr (ev_principalType ev))]
     @ optText ''delegationId'' (ev_delegationId ev) @ optText ''runId'' (ev_runId ev)
     @ [(''capability'', JStr (ev_capability ev)), (''capabilityVersion'', JNum (ev_capabilityVersion ev)),
        (''resource'', JStr (ev_resource ev)), (''decision'', JStr (decisionName (ev_decision ev)))]
     @ optText ''decisionId'' (ev_decisionId ev) @ optText ''credentialRef'' (ev_credentialRef ev)
     @ optInt ''credentialVersion'' (ev_credentialVersion ev)
     @ [(''service'', JStr (ev_service ev))] @ optText ''provider'' (ev_provider ev)
     @ [(''requestId'', JStr (ev_requestId ev)), (''startedAt'', JStr (ev_startedAt ev))]
     @ optText ''completedAt'' (ev_completedAt ev)
     @ [(''outcome'', JStr (outcomeName (ev_outcome ev)))] @ optText ''failureCode'' (ev_failureCode ev)
     @ optInt ''__version'' (ev_version ev)"

record evidence_completion =
  ec_outcome :: effect_outcome
  ec_completedAt :: string
  ec_failureCode :: "string option"
  ec_credentialRef :: "string option"
  ec_credentialVersion :: "int option"
  ec_provider :: "string option"

definition completionEntries :: "evidence_completion \<Rightarrow> jsobj" where
  "completionEntries u =
     [(''outcome'', JStr (outcomeName (ec_outcome u))), (''completedAt'', JStr (ec_completedAt u))]
     @ optText ''failureCode'' (ec_failureCode u) @ optText ''credentialRef'' (ec_credentialRef u)
     @ optInt ''credentialVersion'' (ec_credentialVersion u) @ optText ''provider'' (ec_provider u)"

text \<open>\<open>{ ...current, ...updates }\<close>\<close>

definition applyCompletion :: "evidence_completion \<Rightarrow> effect_evidence \<Rightarrow> effect_evidence" where
  "applyCompletion u ev = ev\<lparr>
     ev_outcome := ec_outcome u, ev_completedAt := Some (ec_completedAt u),
     ev_failureCode := orElse (ec_failureCode u) (ev_failureCode ev),
     ev_credentialRef := orElse (ec_credentialRef u) (ev_credentialRef ev),
     ev_credentialVersion := orElse (ec_credentialVersion u) (ev_credentialVersion ev),
     ev_provider := orElse (ec_provider u) (ev_provider ev)\<rparr>"

section \<open>The store (\<open>FeltDbEffectEvidenceStore\<close>)\<close>

definition EVIDENCE_COLLECTION :: string where
  "EVIDENCE_COLLECTION = ''service_effect_evidence''"

definition evidenceRecord :: "'w env \<Rightarrow> effect_evidence \<Rightarrow> ('w, unit) service" where
  "evidenceRecord E ev =
     bindA (liftR (assertEvidenceHasNoSecrets (evidenceEntries ev))) (\<lambda>_.
     ext (e_transaction E [\<lparr>op_collection = EVIDENCE_COLLECTION, op_id = ev_id ev, op_requireAbsent = True,
                            op_requirePresent = False, op_expectedVersion = None, op_value = EvidenceDoc ev\<rparr>]))"

definition evidenceComplete :: "'w env \<Rightarrow> string \<Rightarrow> evidence_completion \<Rightarrow> ('w, unit) service" where
  "evidenceComplete E i u =
     bindA (liftR (assertEvidenceHasNoSecrets (completionEntries u))) (\<lambda>_.
     bindA (ext (c_get (e_evidence E) i)) (\<lambda>current.
     case current of
       None \<Rightarrow> raise (PlainError (''Evidence '' @ i @ '' not found''))
     | Some ev \<Rightarrow> ext (c_update (e_evidence E) i (applyCompletion u ev))))"

definition evidenceGet :: "'w env \<Rightarrow> string \<Rightarrow> ('w, effect_evidence option) service" where
  "evidenceGet E i = ext (c_get (e_evidence E) i)"

definition evidenceList :: "'w env \<Rightarrow> string \<Rightarrow> ('w, effect_evidence list) service" where
  "evidenceList E tenantId = ext (c_find (e_evidence E) (\<lambda>ev. ev_tenantId ev = tenantId))"

definition findByDecision :: "'w env \<Rightarrow> string \<Rightarrow> ('w, effect_evidence list) service" where
  "findByDecision E decisionId = ext (c_find (e_evidence E) (\<lambda>ev. ev_decisionId ev = Some decisionId))"

text \<open>The hash index declared on first use changes no answer and is left out.\<close>

definition storeFindByRunId ::
  "'w env \<Rightarrow> nat \<Rightarrow> string \<Rightarrow> int \<Rightarrow> string option \<Rightarrow> string option \<Rightarrow> ('w, effect_evidence list option) service" where
  "storeFindByRunId E fuel runId limit application tenantId =
     boundedFind fuel (e_evidenceQuery E)
       (\<lambda>ev. ev_runId ev = Some runId
          \<and> (truthy application \<longrightarrow> Some (ev_application ev) = application)
          \<and> (truthy tenantId \<longrightarrow> Some (ev_tenantId ev) = tenantId)) limit"

section \<open>The reader (\<open>createEvidenceReader\<close>)\<close>

datatype evidence_state = StateStarted | StateCompleted | StateFailed

datatype lookup_state = NoRecords | RunState evidence_state

definition evidenceState :: "effect_outcome \<Rightarrow> evidence_state" where
  "evidenceState x = (case x of Started \<Rightarrow> StateStarted | Succeeded \<Rightarrow> StateCompleted | _ \<Rightarrow> StateFailed)"

record evidence_lookup =
  el_runId :: string
  el_state :: lookup_state
  el_records :: "(effect_evidence \<times> evidence_state) list"
  el_truncated :: bool

definition aggregateState :: "(effect_evidence \<times> evidence_state) list \<Rightarrow> lookup_state" where
  "aggregateState rs =
     (if rs = [] then NoRecords
      else if list_ex (\<lambda>r. snd r = StateFailed) rs then RunState StateFailed
      else if list_ex (\<lambda>r. snd r = StateStarted) rs then RunState StateStarted
      else RunState StateCompleted)"

definition stripVersion :: "effect_evidence \<Rightarrow> effect_evidence" where
  "stripVersion ev = ev\<lparr>ev_version := None\<rparr>"

definition MAX_EVIDENCE_LOOKUP_LIMIT :: int where
  "MAX_EVIDENCE_LOOKUP_LIMIT = 1000"

definition DEFAULT_EVIDENCE_LOOKUP_LIMIT :: int where
  "DEFAULT_EVIDENCE_LOOKUP_LIMIT = 100"

text \<open>The \<open>limit\<close> option as supplied: absent, or any value.\<close>

definition lookupLimit :: "jsval \<Rightarrow> exn + int" where
  "lookupLimit v = (case (if v = JUndef \<or> v = JNull then JNum DEFAULT_EVIDENCE_LOOKUP_LIMIT else v) of
      JNum n \<Rightarrow> if n < 1 \<or> MAX_EVIDENCE_LOOKUP_LIMIT < n
        then Inl (RangeError ''limit must be an integer from 1 to 1000'') else Inr n
    | _ \<Rightarrow> Inl (RangeError ''limit must be an integer from 1 to 1000''))"

definition readerFindByRunId ::
  "'w env \<Rightarrow> nat \<Rightarrow> string \<Rightarrow> jsval \<Rightarrow> jsval \<Rightarrow> string option \<Rightarrow> ('w, evidence_lookup option) service" where
  "readerFindByRunId E fuel application runId limitOption tenantId = (case runId of
      JStr run \<Rightarrow>
        if run = [] then raise (TypeError ''findByRunId requires a non-empty runId'') else
        bindA (liftR (lookupLimit limitOption)) (\<lambda>limit.
        bindA (storeFindByRunId E fuel run (limit + 1) (Some application) (keepTruthy tenantId)) (\<lambda>rows.
        ret (map_option (\<lambda>rows.
          let matching = filter (\<lambda>row. ev_runId row = Some run \<and> ev_application row = application
                \<and> (truthy tenantId \<longrightarrow> Some (ev_tenantId row) = tenantId)) rows;
              records = sortBy (\<lambda>a b. byThen (e_localeLeq E) (ev_startedAt (fst a)) (ev_startedAt (fst b))
                                  (ev_id (fst a)) (ev_id (fst b)))
                (map (\<lambda>row. (stripVersion row, evidenceState (ev_outcome row))) (take (nat limit) matching))
          in \<lparr>el_runId = run, el_state = aggregateState records, el_records = records,
              el_truncated = limit < int (length matching)\<rparr>) rows)))
    | _ \<Rightarrow> raise (TypeError ''findByRunId requires a non-empty runId''))"

section \<open>Bounded queries end and stay bounded\<close>

text \<open>What is relied on of \<open>db.query\<close>: a page holds only records that match the query.\<close>

definition honestQuery ::
  "(('a \<Rightarrow> bool) \<Rightarrow> int \<Rightarrow> string option \<Rightarrow> ('w, exn, 'a query_page) act) \<Rightarrow> bool" where
  "honestQuery query \<longleftrightarrow>
     (\<forall>P n cur w w' page. query P n cur w = (w', Inr page) \<longrightarrow> list_all P (qp_records page))"

lemma honestQueryD:
  "honestQuery query \<Longrightarrow> ext (query P n cur) s = (t, Inr page) \<Longrightarrow> filter P (qp_records page) = qp_records page"
  by (force simp: honestQuery_def ext_eq_iff list_all_iff filter_id_conv)

lemma boundedLoop_cases:
  assumes "boundedLoop (Suc fuel) query P mx cursor found s = (t, Inr r)"
  obtains (full) "mx \<le> int (length found)" "r = Some (take (nat mx) found)"
    | (last) n u page where "ext (query P n (keepTruthy cursor)) s = (u, Inr page)"
        "r = Some (take (nat mx) (found @ filter P (qp_records page)))"
    | (more) n u page where "ext (query P n (keepTruthy cursor)) s = (u, Inr page)" "qp_records page \<noteq> []"
        "int (length found) < mx"
        "boundedLoop fuel query P mx (qp_nextCursor page) (found @ filter P (qp_records page)) u = (t, Inr r)"
proof (cases "int (length found) < mx")
  case False
  with assms full show ?thesis by (auto simp: act_simps)
next
  case True
  then obtain u page where page: "ext (query P (min FELTDB_QUERY_PAGE_LIMIT (mx - int (length found))) (keepTruthy cursor)) s = (u, Inr page)"
    and rest: "(if qp_exhausted page \<or> \<not> truthy (qp_nextCursor page) \<or> qp_records page = []
      then ret (Some (take (nat mx) (found @ filter P (qp_records page))))
      else boundedLoop fuel query P mx (qp_nextCursor page) (found @ filter P (qp_records page))) u = (t, Inr r)"
    using assms by (auto simp: bindA_Inr_iff Let_def)
  show ?thesis
  proof (cases "qp_exhausted page \<or> \<not> truthy (qp_nextCursor page) \<or> qp_records page = []")
    case True
    then show ?thesis using rest last [OF page] by (simp only: if_True act_simps) simp
  next
    case False
    then show ?thesis using rest more [OF page _ \<open>int (length found) < mx\<close>]
      by (simp only: if_False) blast
  qed
qed

lemma boundedLoop_ends:
  assumes "honestQuery query"
  shows "nat mx < length found + fuel \<Longrightarrow> 0 < fuel \<Longrightarrow>
    boundedLoop fuel query P mx cursor found s = (t, Inr r) \<Longrightarrow> r \<noteq> None"
proof (induction fuel arbitrary: cursor found s)
  case (Suc fuel)
  from Suc.prems(3) show ?case
  proof (cases rule: boundedLoop_cases)
    case (more n u page)
    have "nat mx < length (found @ filter P (qp_records page)) + fuel"
      using Suc.prems(1) more(2) honestQueryD [OF assms more(1)] by (cases "qp_records page") auto
    moreover have "0 < fuel" using Suc.prems(1) more(3) by linarith
    ultimately show ?thesis using Suc.IH more(4) by blast
  qed simp_all
qed simp

lemma boundedLoop_result:
  "boundedLoop fuel query P mx cursor found s = (t, Inr (Some rows)) \<Longrightarrow> list_all P found \<Longrightarrow>
   list_all P rows \<and> length rows \<le> nat mx"
proof (induction fuel arbitrary: cursor found s)
  case (Suc fuel)
  have all: "list_all P (found @ filter P xs)" for xs using Suc.prems(2) by (auto simp: list_all_iff)
  have part: "list_all P (take k xs)" if "list_all P xs" for k xs
    using that by (auto simp: list_all_iff dest: in_set_takeD)
  from Suc.prems(1) show ?case
  proof (cases rule: boundedLoop_cases)
    case full
    then show ?thesis using part [OF Suc.prems(2)] by simp
  next
    case (last n u page)
    then show ?thesis using part [OF all] by simp
  next
    case (more n u page)
    then show ?thesis using Suc.IH all by blast
  qed
qed (simp add: act_simps)

lemma boundedFind_ends:
  "honestQuery query \<Longrightarrow> nat mx < fuel \<Longrightarrow> boundedFind fuel query P mx s = (t, Inr r) \<Longrightarrow> r \<noteq> None"
  unfolding boundedFind_def by (rule boundedLoop_ends) auto

lemma boundedFind_result:
  "boundedFind fuel query P mx s = (t, Inr (Some rows)) \<Longrightarrow> list_all P rows \<and> length rows \<le> nat mx"
  unfolding boundedFind_def by (rule boundedLoop_result) auto

section \<open>What the reader returns\<close>

lemma lookupLimit_range: "lookupLimit v = Inr n \<Longrightarrow> 1 \<le> n \<and> n \<le> 1000"
  by (auto simp: lookupLimit_def MAX_EVIDENCE_LOOKUP_LIMIT_def split: jsval.splits if_splits)

lemma aggregateState_iff:
  "aggregateState rs = NoRecords \<longleftrightarrow> rs = []"
  "aggregateState rs = RunState StateFailed \<longleftrightarrow> StateFailed \<in> snd ` set rs"
  "aggregateState rs = RunState StateStarted \<longleftrightarrow> StateFailed \<notin> snd ` set rs \<and> StateStarted \<in> snd ` set rs"
  "aggregateState rs = RunState StateCompleted \<longleftrightarrow>
     rs \<noteq> [] \<and> StateFailed \<notin> snd ` set rs \<and> StateStarted \<notin> snd ` set rs"
proof -
  have ex: "list_ex (\<lambda>r. snd r = x) rs \<longleftrightarrow> x \<in> snd ` set rs" for x
    by (auto simp: list_ex_iff)
  have agg: "aggregateState rs = (if rs = [] then NoRecords else if StateFailed \<in> snd ` set rs
      then RunState StateFailed else if StateStarted \<in> snd ` set rs then RunState StateStarted
      else RunState StateCompleted)"
    unfolding aggregateState_def ex ..
  show "aggregateState rs = NoRecords \<longleftrightarrow> rs = []" by (simp add: agg)
  show "aggregateState rs = RunState StateFailed \<longleftrightarrow> StateFailed \<in> snd ` set rs" by (auto simp: agg)
  show "aggregateState rs = RunState StateStarted \<longleftrightarrow> StateFailed \<notin> snd ` set rs \<and> StateStarted \<in> snd ` set rs"
    unfolding agg by simp
  show "aggregateState rs = RunState StateCompleted \<longleftrightarrow>
     rs \<noteq> [] \<and> StateFailed \<notin> snd ` set rs \<and> StateStarted \<notin> snd ` set rs"
    unfolding agg by simp
qed

text \<open>The rows of a lookup, sorted and labelled.\<close>

definition lookupOf :: "'w env \<Rightarrow> string \<Rightarrow> string \<Rightarrow> string option \<Rightarrow> int \<Rightarrow> effect_evidence list \<Rightarrow> evidence_lookup" where
  "lookupOf E app run tenantId limit rows =
     (let matching = filter (\<lambda>row. ev_runId row = Some run \<and> ev_application row = app
            \<and> (truthy tenantId \<longrightarrow> Some (ev_tenantId row) = tenantId)) rows;
          records = sortBy (\<lambda>a b. byThen (e_localeLeq E) (ev_startedAt (fst a)) (ev_startedAt (fst b))
                              (ev_id (fst a)) (ev_id (fst b)))
            (map (\<lambda>row. (stripVersion row, evidenceState (ev_outcome row))) (take (nat limit) matching))
      in \<lparr>el_runId = run, el_state = aggregateState records, el_records = records,
          el_truncated = limit < int (length matching)\<rparr>)"

lemma readerFindByRunId_Inr:
  assumes "readerFindByRunId E fuel app (JStr run) lim tenantId s = (t, Inr r)"
  obtains limit rows where "lookupLimit lim = Inr limit"
    and "storeFindByRunId E fuel run (limit + 1) (Some app) (keepTruthy tenantId) s = (t, Inr rows)"
    and "r = map_option (lookupOf E app run tenantId limit) rows"
proof -
  have "readerFindByRunId E fuel app (JStr run) lim tenantId =
    (if run = [] then raise (TypeError ''findByRunId requires a non-empty runId'') else
       bindA (liftR (lookupLimit lim)) (\<lambda>limit.
       bindA (storeFindByRunId E fuel run (limit + 1) (Some app) (keepTruthy tenantId)) (\<lambda>rows.
       ret (map_option (lookupOf E app run tenantId limit) rows))))"
    by (simp add: readerFindByRunId_def lookupOf_def [abs_def])
  then show thesis using assms that
    by (auto simp: bindA_Inr_iff liftR_iff act_simps split: if_splits)
qed

lemma sorted_lookup:
  "comparator (e_localeLeq E) \<Longrightarrow>
   sorted_wrt (\<lambda>a b. byThen (e_localeLeq E) (ev_startedAt (fst a)) (ev_startedAt (fst b))
     (ev_id (fst a)) (ev_id (fst b))) (el_records (lookupOf E app run tenantId limit rows))"
  by (simp add: lookupOf_def Let_def comparator.sorted_sortBy [OF comparator_byThen])

text \<open>
  C11: a lookup by run id returns at most the requested number of rows (never more than 1000),
  only rows of that run and that application (and of the tenant when one is asked for), each
  with the state of its outcome and without the storage version, oldest first; the summary is
  the aggregate of exactly these rows.
\<close>

lemma evidence_lookup_sound:
  assumes "comparator (e_localeLeq E)"
    and "readerFindByRunId E fuel app (JStr run) lim tenantId s = (t, Inr (Some l))"
  shows "(\<exists>limit. lookupLimit lim = Inr limit \<and> 1 \<le> limit \<and> limit \<le> 1000 \<and> length (el_records l) \<le> nat limit)
    \<and> (\<forall>(ev, st)\<in>set (el_records l). ev_runId ev = Some run \<and> ev_application ev = app
         \<and> (truthy tenantId \<longrightarrow> Some (ev_tenantId ev) = tenantId)
         \<and> st = evidenceState (ev_outcome ev) \<and> ev_version ev = None)
    \<and> sorted_wrt (\<lambda>a b. byThen (e_localeLeq E) (ev_startedAt (fst a)) (ev_startedAt (fst b))
         (ev_id (fst a)) (ev_id (fst b))) (el_records l)
    \<and> el_runId l = run \<and> el_state l = aggregateState (el_records l)"
proof -
  obtain limit rows where lim: "lookupLimit lim = Inr limit"
    and l: "l = lookupOf E app run tenantId limit rows"
    using assms(2) by (rule readerFindByRunId_Inr) (metis map_option_eq_Some)
  have "length (el_records l) \<le> nat limit" by (simp add: l lookupOf_def Let_def)
  moreover have "\<forall>(ev, st)\<in>set (el_records l). ev_runId ev = Some run \<and> ev_application ev = app
      \<and> (truthy tenantId \<longrightarrow> Some (ev_tenantId ev) = tenantId)
      \<and> st = evidenceState (ev_outcome ev) \<and> ev_version ev = None"
    by (auto simp: l lookupOf_def Let_def stripVersion_def dest!: in_set_takeD)
  moreover have "el_runId l = run \<and> el_state l = aggregateState (el_records l)"
    by (simp add: l lookupOf_def Let_def)
  ultimately show ?thesis
    using lim lookupLimit_range [OF lim] sorted_lookup [OF assms(1)] unfolding l by blast
qed

text \<open>
  C12: the paging loop of a lookup ends: with a database whose pages hold only matching records,
  1002 rounds always suffice, so a lookup that does not reject returns an answer.
\<close>

lemma evidence_lookup_ends:
  assumes "honestQuery (e_evidenceQuery E)" and "1002 \<le> fuel"
    and "readerFindByRunId E fuel app (JStr run) lim tenantId s = (t, Inr r)"
  shows "\<exists>l. r = Some l"
  using assms(3)
proof (rule readerFindByRunId_Inr)
  fix limit rows
  assume lim: "lookupLimit lim = Inr limit" and nn: "r = map_option (lookupOf E app run tenantId limit) rows"
    and run: "storeFindByRunId E fuel run (limit + 1) (Some app) (keepTruthy tenantId) s = (t, Inr rows)"
  have "nat (limit + 1) < fuel" using lookupLimit_range [OF lim] assms(2) by linarith
  then have "rows \<noteq> None" using run boundedFind_ends [OF assms(1)] unfolding storeFindByRunId_def by blast
  then show ?thesis using nn by auto
qed

section \<open>What the guard lets through\<close>

lemma mapR_unit_iff: "bindR (mapR f xs) (\<lambda>_. Inr ()) = Inr () \<longleftrightarrow> (\<forall>x\<in>set xs. \<exists>y. f x = Inr y)"
  by (induction xs) (auto simp: bindR_Inr_iff)

lemma assertEvidenceHasNoSecrets_iff:
  "assertEvidenceHasNoSecrets ob = Inr () \<longleftrightarrow> (\<forall>kv\<in>set ob. guardEntry kv = Inr ())"
  by (simp add: assertEvidenceHasNoSecrets_def mapR_unit_iff)


text \<open>The field names of a row are fixed, and none of them is one the guard refuses.\<close>

lemma evidence_keys_allowed:
  "(k, v) \<in> set (evidenceEntries ev) \<Longrightarrow> k \<noteq> ''credentialRef'' \<Longrightarrow> k \<noteq> ''credentialVersion'' \<Longrightarrow> \<not> SECRET_KEY k"
proof -
  assume "(k, v) \<in> set (evidenceEntries ev)" "k \<noteq> ''credentialRef''" "k \<noteq> ''credentialVersion''"
  then have "k \<in> set [''id'', ''application'', ''tenantId'', ''principalId'', ''principalType'', ''delegationId'',
    ''runId'', ''capability'', ''capabilityVersion'', ''resource'', ''decision'', ''decisionId'', ''service'',
    ''provider'', ''requestId'', ''startedAt'', ''completedAt'', ''outcome'', ''failureCode'', ''__version'']"
    by (auto simp: evidenceEntries_def optText_def optInt_def split: option.splits)
  moreover have "list_all (\<lambda>k. \<not> SECRET_KEY k) [''id'', ''application'', ''tenantId'', ''principalId'',
    ''principalType'', ''delegationId'', ''runId'', ''capability'', ''capabilityVersion'', ''resource'', ''decision'',
    ''decisionId'', ''service'', ''provider'', ''requestId'', ''startedAt'', ''completedAt'', ''outcome'',
    ''failureCode'', ''__version'']"
    by code_simp
  ultimately show ?thesis by (simp only: list_all_iff) blast
qed

lemma evidence_entry_shapes:
  "(k, v) \<in> set (evidenceEntries ev) \<Longrightarrow> k = ''credentialVersion'' \<Longrightarrow> \<exists>n. v = JNum n"
  "(k, v) \<in> set (evidenceEntries ev) \<Longrightarrow> k = ''credentialRef'' \<Longrightarrow> \<exists>r. v = JStr r \<and> ev_credentialRef ev = Some r"
  by (auto simp: evidenceEntries_def optText_def optInt_def split: option.splits)

lemma containsBy_suffix: "here ys \<Longrightarrow> containsBy here (xs @ ys)"
proof (induction xs)
  case Nil
  then show ?case by (cases ys) auto
qed simp

lemma lowerCase_hex: "hexChar c \<Longrightarrow> lowerCase c = c"
  by (auto simp: hexChar_def lowerCase_def upperChar_def Let_def)

lemma SECRET_VALUE_key:
  assumes "list_all hexChar h" and "length h = 6"
  shows "SECRET_VALUE (a @ ''app_live_'' @ h @ ''_'' @ b)"
proof -
  have h: "map lowerCase h = h"
    using assms(1) by (auto simp: list_all_iff lowerCase_hex intro: map_idI)
  have scheme: "map lowerCase ''app_live_'' = ''app_live_''" "map lowerCase ''_'' = ''_''"
    by (code_simp, code_simp)
  have "map lowerCase (a @ ''app_live_'' @ h @ ''_'' @ b)
      = map lowerCase a @ (''app_live_'' @ h @ ''_'' @ map lowerCase b)"
    by (simp only: map_append h scheme)
  moreover have "keyMaterialHere (''app_live_'' @ h @ ''_'' @ map lowerCase b)"
    using assms by (simp add: keyMaterialHere_def nth_append)
  ultimately show ?thesis
    unfolding SECRET_VALUE_def Let_def by (metis containsBy_suffix)
qed

lemma evidenceRecord_refuses:
  assumes "(k, JStr x) \<in> set (evidenceEntries ev)" and "SECRET_VALUE x"
  shows "\<exists>e. evidenceRecord E ev s = (s, Inl e)"
proof -
  have "guardEntry (k, JStr x) \<noteq> Inr ()"
    using assms evidence_entry_shapes(1) [OF assms(1)] by (auto simp: guardEntry_def)
  then have "assertEvidenceHasNoSecrets (evidenceEntries ev) \<noteq> Inr ()"
    using assms(1) by (auto simp: assertEvidenceHasNoSecrets_iff)
  then obtain e where "assertEvidenceHasNoSecrets (evidenceEntries ev) = Inl e"
    by (cases "assertEvidenceHasNoSecrets (evidenceEntries ev)") auto
  then show ?thesis by (simp add: evidenceRecord_def act_simps)
qed

text \<open>
  C10: exactly the rows whose text fields hold no credential material, and whose credential
  field is a credential reference, pass the guard that precedes every evidence write.
\<close>

lemma evidence_guard:
  "assertEvidenceHasNoSecrets (evidenceEntries ev) = Inr () \<longleftrightarrow>
     \<not> (\<exists>k x. (k, JStr x) \<in> set (evidenceEntries ev) \<and> SECRET_VALUE x) \<and>
     (case ev_credentialRef ev of None \<Rightarrow> True | Some r \<Rightarrow> startsWith r ''credential-ref:'')"
    (is "?L \<longleftrightarrow> ?M \<and> ?R")
proof
  assume ?L
  then have ok: "guardEntry kv = Inr ()" if "kv \<in> set (evidenceEntries ev)" for kv
    using that by (simp add: assertEvidenceHasNoSecrets_iff)
  have ?M using ok evidence_entry_shapes(1) by (force simp: guardEntry_def split: if_splits)
  moreover have ?R
    using ok [of "(''credentialRef'', JStr (the (ev_credentialRef ev)))"]
    by (auto simp: guardEntry_def evidenceEntries_def optText_def split: option.splits if_splits)
  ultimately show "?M \<and> ?R" ..
next
  assume r: "?M \<and> ?R"
  have "guardEntry (k, v) = Inr ()" if kv: "(k, v) \<in> set (evidenceEntries ev)" for k v
    using r evidence_keys_allowed [OF kv] evidence_entry_shapes [OF kv] kv
    by (cases v) (auto simp: guardEntry_def)
  then show ?L by (auto simp: assertEvidenceHasNoSecrets_iff)
qed

end
