(* ===== verification/Gateway.thy ===== *)
theory Gateway
  imports Evidence
begin

text \<open>
  The Policy Enforcement Point (\<open>authority/gateway.ts\<close>): the class \<open>ServiceGateway\<close> with every
  method, in source order. AuthBoundry and the credential custody are code of the host and are
  fields of the gateway's configuration record.
\<close>

section \<open>Configuration\<close>

text \<open>
  Credential custody. \<open>withSecret\<close> resolves a secret, runs the callback with it and tears the
  access down; \<open>cu_acquire\<close> and \<open>cu_release\<close> are what the host does before and after the
  callback. A resolver that cannot store has no \<open>cu_store\<close> or no \<open>cu_status\<close>.
\<close>

record 'w custody =
  cu_acquire :: "secret_reference \<Rightarrow> secret_access \<Rightarrow> ('w, exn, resolved_secret) act"
  cu_release :: "secret_reference \<Rightarrow> secret_access \<Rightarrow> ('w, exn, unit) act"
  cu_store :: "(secret_reference \<Rightarrow> string \<Rightarrow> secret_access \<Rightarrow> ('w, exn, custody_result option) act) option"
  cu_status :: "(secret_reference \<Rightarrow> secret_access \<Rightarrow> ('w, exn, custody_status option) act) option"

record 'w gateway =
  gw_application :: string
  gw_authorizer :: "(auth_request \<Rightarrow> 'w \<Rightarrow> 'w \<times> auth_answer) option"
  gw_credentials :: "'w custody option"
  gw_timeoutMs :: int
  gw_extensions :: "(string \<times> capability) list"

record execute_options =
  eo_service :: string
  eo_provider :: "string option"
  eo_credentialRef :: "string option"
  eo_requestId :: "string option"

abbreviation serviceOptions :: "string \<Rightarrow> execute_options" where
  "serviceOptions service \<equiv>
     \<lparr>eo_service = service, eo_provider = None, eo_credentialRef = None, eo_requestId = None\<rparr>"

definition CONTEXT_TTL_MS :: int where
  "CONTEXT_TTL_MS = 60000"

definition DEFAULT_AUTHORIZATION_TIMEOUT_MS :: int where
  "DEFAULT_AUTHORIZATION_TIMEOUT_MS = 5000"

definition extensionPrefix :: string where
  "extensionPrefix = ''extension:''"

definition extensionNamespace :: "capability \<Rightarrow> string" where
  "extensionNamespace c =
     (if startsWith (cp_service c) extensionPrefix then drop (length extensionPrefix) (cp_service c) else [])"

fun declareExtensions ::
  "'w env \<Rightarrow> capability list \<Rightarrow> (string \<times> capability) list \<Rightarrow> exn + (string \<times> capability) list" where
  "declareExtensions E [] exts = Inr exts"
| "declareExtensions E (c # cs) exts =
     (if getServiceCapability E (cp_name c) \<noteq> None \<or> map_of exts (cp_name c) \<noteq> None
      then Inl (PlainError (''Extension capability \"'' @ cp_name c @ ''\" is already declared''))
      else let namespace = extensionNamespace c in
        if namespace = [] \<or> \<not> startsWith (cp_name c) (namespace @ ''.'') \<or> cp_invocable c \<or> \<not> cp_required c
        then Inl (PlainError (''Extension capability \"'' @ cp_name c @
          ''\" must come from a defined extension (extension:<id>, <id>.<name>, not invocable, authorization required)''))
        else declareExtensions E cs (exts @ [(cp_name c, c)]))"

definition newServiceGateway ::
  "'w env \<Rightarrow> string \<Rightarrow> (auth_request \<Rightarrow> 'w \<Rightarrow> 'w \<times> auth_answer) option \<Rightarrow> 'w custody option \<Rightarrow>
   int option \<Rightarrow> capability list \<Rightarrow> exn + 'w gateway" where
  "newServiceGateway E application authorizer credentials timeoutMs exts =
     (if trim application = [] then Inl (PlainError ''ServiceGateway requires an application'')
      else bindR (declareExtensions E exts []) (\<lambda>extensions.
        Inr \<lparr>gw_application = application, gw_authorizer = authorizer, gw_credentials = credentials,
             gw_timeoutMs = (case timeoutMs of None \<Rightarrow> DEFAULT_AUTHORIZATION_TIMEOUT_MS | Some n \<Rightarrow> n),
             gw_extensions = extensions\<rparr>))"

definition gwCapability :: "'w env \<Rightarrow> 'w gateway \<Rightarrow> string \<Rightarrow> capability option" where
  "gwCapability E G name = orElse (getServiceCapability E name) (map_of (gw_extensions G) name)"

definition identify :: "'w gateway \<Rightarrow> principal_claims option \<Rightarrow> exn + 'w principal option" where
  "identify G claims = (case claims of
      None \<Rightarrow> Inr None
    | Some cl \<Rightarrow>
        if truthy (cl_applicationId cl) \<and> cl_applicationId cl \<noteq> Some (gw_application G)
        then Inl (ServiceAuthorityError DENIED ''Identity belongs to a different application''
               (noDetails\<lparr>ed_reason := Some ''application_mismatch''\<rparr>))
        else bindR (mintVerifiedPrincipal cl ByHost) (\<lambda>p. Inr (Some p)))"

section \<open>Authorization\<close>

definition assertOwnership :: "'w gateway \<Rightarrow> 'w principal \<Rightarrow> resource \<Rightarrow> string \<Rightarrow> exn + unit" where
  "assertOwnership G p r capability =
     (if rs_tenantId r = [] \<or> pr_tenantId p \<noteq> rs_tenantId r
      then Inl (ServiceAuthorityError DENIED ''Cross-tenant service operation denied''
             (noDetails\<lparr>ed_capability := Some capability, ed_reason := Some ''tenant_mismatch''\<rparr>))
      else if truthy (pr_applicationId p) \<and> pr_applicationId p \<noteq> Some (gw_application G)
      then Inl (ServiceAuthorityError DENIED ''Principal belongs to a different application''
             (noDetails\<lparr>ed_capability := Some capability, ed_reason := Some ''application_mismatch''\<rparr>))
      else Inr ())"

definition validDecision :: "auth_request \<Rightarrow> auth_decision option \<Rightarrow> bool" where
  "validDecision q dec = (case dec of
      None \<Rightarrow> False
    | Some d \<Rightarrow> truthy (ad_decision_id d) \<and> ad_allowed d \<noteq> None
        \<and> ad_capability d = Some (aq_capability q)
        \<and> ad_tenant_id d = Some (aq_tenant_id q)
        \<and> ad_application_id d = Some (aq_application_id q)
        \<and> ad_subject_id d = Some (aq_subject_id q)
        \<and> ad_resource_uri d = Some (aq_resource_uri q))"

definition validateDecision :: "auth_request \<Rightarrow> auth_decision option \<Rightarrow> exn + auth_decision" where
  "validateDecision q dec =
     (if validDecision q dec then Inr (the dec)
      else Inl (ServiceAuthorityError AUTHORITY_UNAVAILABLE
             ''AuthBoundry returned a decision that does not match the request''
             (noDetails\<lparr>ed_capability := Some (aq_capability q)\<rparr>)))"

definition decide :: "'w gateway \<Rightarrow> auth_request \<Rightarrow> ('w, auth_decision) service" where
  "decide G q = (case gw_authorizer G of
      None \<Rightarrow> raise (ServiceAuthorityError AUTHORITY_UNAVAILABLE
        ''No AuthBoundry authorizer is configured; service effects are disabled''
        (noDetails\<lparr>ed_capability := Some (aq_capability q)\<rparr>))
    | Some authorizer \<Rightarrow>
        bindA (draw (authorizer q)) (\<lambda>answer. case answer of
          TimedOut \<Rightarrow> raise (ServiceAuthorityError AUTHORIZATION_TIMEOUT
            (''AuthBoundry did not decide '' @ aq_capability q @ '' within '' @ intString (gw_timeoutMs G) @ ''ms'')
            (noDetails\<lparr>ed_capability := Some (aq_capability q)\<rparr>))
        | Rejected e \<Rightarrow> if isServiceAuthorityError e then raise e
            else raise (ServiceAuthorityError AUTHORITY_UNAVAILABLE ''AuthBoundry authorization failed''
              (noDetails\<lparr>ed_capability := Some (aq_capability q)\<rparr>))
        | Answered dec \<Rightarrow> liftR (validateDecision q dec)))"

definition authorizationRequest ::
  "'w gateway \<Rightarrow> capability \<Rightarrow> 'w principal \<Rightarrow> resource \<Rightarrow> string \<Rightarrow> int \<Rightarrow> auth_request" where
  "authorizationRequest G c p r requestId timestamp =
     \<lparr>aq_request_id = requestId, aq_subject_kind = pr_principalType p, aq_subject_id = pr_principalId p,
      aq_tenant_id = rs_tenantId r, aq_application_id = gw_application G,
      aq_capability = cp_name c, aq_capability_version = cp_version c,
      aq_resource_uri = resourceUri (gw_application G) r, aq_resource_attributes = rs_attributes r,
      aq_timestamp = timestamp, aq_execution_id = requestId,
      aq_verified_by = verificationName (pr_verifiedBy p),
      aq_delegation_id = keepTruthy (pr_delegationId p), aq_run_id = keepTruthy (pr_runId p),
      aq_credential_id = keepTruthy (pr_credentialId p)\<rparr>"

definition authorize ::
  "'w env \<Rightarrow> 'w gateway \<Rightarrow> string \<Rightarrow> 'w caller \<Rightarrow> resource \<Rightarrow> string \<Rightarrow> ('w, 'w exec_context) service" where
  "authorize E G capabilityName caller r requestId = (case gwCapability E G capabilityName of
      None \<Rightarrow> raise (invalidRequest (''Capability \"'' @ capabilityName @
        ''\" is not declared in the service capability manifest''))
    | Some c \<Rightarrow>
        if rs_type r \<noteq> cp_resource c
        then raise (ServiceAuthorityError INVALID_REQUEST (''Capability \"'' @ cp_name c @ ''\" applies to '' @
               cp_resource c @ '' resources, not '' @ rs_type r) (noDetails\<lparr>ed_capability := Some (cp_name c)\<rparr>))
        else
        bindA (liftR (requireVerifiedPrincipal caller)) (\<lambda>p.
        bindA (liftR (assertOwnership G p r capabilityName)) (\<lambda>_.
        bindA (enforceCredential p (cp_name c) r) (\<lambda>_.
        bindA (draw (e_now E)) (\<lambda>timestamp.
        bindA (decide G (authorizationRequest G c p r requestId timestamp)) (\<lambda>decision.
        if ad_allowed decision \<noteq> Some True
        then raise (ServiceAuthorityError DENIED (''AuthBoundry denied '' @ cp_name c)
               \<lparr>ed_capability = Some (cp_name c), ed_decisionId = ad_decision_id decision, ed_reason = ad_reason decision,
                ed_outcome = None\<rparr>)
        else
        bindA (nowISO E) (\<lambda>decidedAt.
        bindA (draw (e_now E)) (\<lambda>now.
        bindA (liftR (toISOString (now + CONTEXT_TTL_MS))) (\<lambda>expiresAt.
        mintExecutionContext
          \<lparr>cx_ref = 0, cx_application = gw_application G, cx_tenantId = rs_tenantId r, cx_principal = p,
           cx_capability = cp_name c, cx_capabilityVersion = cp_version c, cx_requestId = requestId,
           cx_resource = r, cx_resourceUri = resourceUri (gw_application G) r,
           cx_decisionId = the (ad_decision_id decision), cx_decidedAt = decidedAt,
           cx_policyVersion = keepTruthy (ad_policy_version decision), cx_reason = keepTruthy (ad_reason decision),
           cx_expiresAt = expiresAt\<rparr>)))))))))"

section \<open>Evidence of an effect\<close>

definition effectiveDelegation :: "'w exec_context \<Rightarrow> string option" where
  "effectiveDelegation ctx = orElse (attribute (cx_resource ctx) ''delegationId'') (pr_delegationId (cx_principal ctx))"

definition evidenceFor ::
  "'w exec_context \<Rightarrow> execute_options \<Rightarrow> string \<Rightarrow> string \<Rightarrow> effect_outcome \<Rightarrow> effect_evidence" where
  "evidenceFor ctx opts i startedAt outcome =
     \<lparr>ev_id = i, ev_application = cx_application ctx, ev_tenantId = cx_tenantId ctx,
      ev_principalId = pr_principalId (cx_principal ctx), ev_principalType = pr_principalType (cx_principal ctx),
      ev_delegationId = keepTruthy (effectiveDelegation ctx), ev_runId = keepTruthy (pr_runId (cx_principal ctx)),
      ev_capability = cx_capability ctx, ev_capabilityVersion = cx_capabilityVersion ctx,
      ev_resource = cx_resourceUri ctx, ev_decision = DecisionAllow, ev_decisionId = Some (cx_decisionId ctx),
      ev_credentialRef = keepTruthy (eo_credentialRef opts), ev_credentialVersion = None,
      ev_service = eo_service opts, ev_provider = keepTruthy (eo_provider opts),
      ev_requestId = cx_requestId ctx, ev_startedAt = startedAt,
      ev_completedAt = (if outcome = Started then None else Some startedAt),
      ev_outcome = outcome, ev_failureCode = None, ev_version = None\<rparr>"

definition refusalEvidence ::
  "'w env \<Rightarrow> 'w gateway \<Rightarrow> string \<Rightarrow> 'w principal \<Rightarrow> resource \<Rightarrow> execute_options \<Rightarrow> string \<Rightarrow> string \<Rightarrow>
   failure_code \<Rightarrow> error_details \<Rightarrow> string \<Rightarrow> string \<Rightarrow> effect_evidence" where
  "refusalEvidence E G capability p r opts requestId startedAt code d i completedAt =
     \<lparr>ev_id = i, ev_application = gw_application G, ev_tenantId = rs_tenantId r,
      ev_principalId = pr_principalId p, ev_principalType = pr_principalType p,
      ev_delegationId = keepTruthy (pr_delegationId p), ev_runId = keepTruthy (pr_runId p),
      ev_capability = capability,
      ev_capabilityVersion = (case gwCapability E G capability of None \<Rightarrow> 0 | Some c \<Rightarrow> cp_version c),
      ev_resource = resourceUri (gw_application G) r,
      ev_decision = (if truthy (ed_decisionId d) then DecisionDeny else DecisionNone),
      ev_decisionId = keepTruthy (ed_decisionId d),
      ev_credentialRef = None, ev_credentialVersion = None,
      ev_service = eo_service opts, ev_provider = keepTruthy (eo_provider opts),
      ev_requestId = requestId, ev_startedAt = startedAt, ev_completedAt = Some completedAt,
      ev_outcome = OutcomeDenied, ev_failureCode = Some (codeName code), ev_version = None\<rparr>"

text \<open>
  An error that is neither \<open>INVALID_REQUEST\<close> nor \<open>UNAUTHENTICATED\<close> is raised only after the
  principal was verified, so the cast of \<open>principalInput\<close> is always of a principal.
\<close>

definition recordRefusal ::
  "'w env \<Rightarrow> 'w gateway \<Rightarrow> string \<Rightarrow> 'w caller \<Rightarrow> resource \<Rightarrow> execute_options \<Rightarrow> string \<Rightarrow> string \<Rightarrow> exn \<Rightarrow>
   ('w, unit) service" where
  "recordRefusal E G capability caller r opts requestId startedAt error = (case (error, caller) of
      (ServiceAuthorityError code msg d, Verified p) \<Rightarrow>
        if code = INVALID_REQUEST \<or> code = UNAUTHENTICATED then ret () else
        bindA (draw (e_uuid E)) (\<lambda>i.
        bindA (nowISO E) (\<lambda>completedAt.
        catchA (evidenceRecord E (refusalEvidence E G capability p r opts requestId startedAt code d i completedAt))
          (\<lambda>_. ret ())))
    | _ \<Rightarrow> ret ())"

section \<open>Credentials\<close>

definition safeCode :: "string option \<Rightarrow> bool" where
  "safeCode v = (case v of
      Some (c # cs) \<Rightarrow> lowerChar c \<and> length cs \<le> 63 \<and>
        list_all (\<lambda>x. lowerChar x \<or> digitChar x \<or> x = CHR ''_'') cs
    | _ \<Rightarrow> False)"

lemma safeCode_None: "\<not> safeCode None"
  by (simp add: safeCode_def)

definition readOnly :: "string \<Rightarrow> string option \<Rightarrow> bool \<Rightarrow> exn" where
  "readOnly capability location none =
     ServiceAuthorityError CUSTODY_READ_ONLY
       (if none then ''No credential custody is configured on this host, so a value cannot be stored here. Configure a SecretCustody (createServices({ credentials })), or store the credential where the host keeps credentials and attach its credential-ref.''
        else case location of
          Some (c # cs) \<Rightarrow> ''This environment'' @ [CHR 0x27] @ ''s credential comes from the host ('' @ (c # cs) @ '') and cannot be changed here; set it there.''
        | _ \<Rightarrow> ''This host'' @ [CHR 0x27] @ ''s credential custody is read-only: it resolves credentials but cannot store them. Store the value where the host keeps credentials (for example its secret manager or environment), or give createServices a SecretCustody.'')
       (noDetails\<lparr>ed_capability := Some capability,
          ed_reason := Some (if none then ''custody_unconfigured'' else ''custody_read_only'')\<rparr>)"

definition mapCredentialFailure :: "exn \<Rightarrow> string \<Rightarrow> bool \<Rightarrow> exn" where
  "mapCredentialFailure error capability custodyWrite = (case error of
      ServiceAuthorityError code msg d \<Rightarrow>
        if \<not> custodyWrite then error
        else if code = CUSTODY_READ_ONLY then readOnly capability None False
        else ServiceAuthorityError code (''Credential custody refused the request ('' @ codeName code @ '')'')
          (noDetails\<lparr>ed_capability := Some capability, ed_reason := (if safeCode (ed_reason d) then ed_reason d else None)\<rparr>)
    | _ \<Rightarrow>
        let raw = (case error of SecretError m code \<Rightarrow> Some code | _ \<Rightarrow> None);
            code = (if custodyWrite \<and> \<not> safeCode raw then None else raw);
            fail = (\<lambda>c m. ServiceAuthorityError c m (noDetails\<lparr>ed_capability := Some capability,
                       ed_reason := Some (case code of None \<Rightarrow> ''unknown'' | Some x \<Rightarrow> x)\<rparr>))
        in if code \<in> {Some ''secret_resolution_denied'', Some ''tenant_mismatch'', Some ''provider_mismatch''}
           then fail DENIED ''Credential resolution denied by AuthBoundry''
           else if code \<in> {Some ''secret_revoked'', Some ''secret_inactive'', Some ''secret_expired''}
           then fail DENIED ''Credential is revoked or inactive''
           else if code = Some ''secret_not_found''
           then fail DENIED ''Credential reference is unknown''
           else fail AUTHORITY_UNAVAILABLE ''Credential custody is unavailable'')"

definition custodyReference :: "string \<Rightarrow> string \<Rightarrow> string option \<Rightarrow> string option \<Rightarrow> secret_reference" where
  "custodyReference ref tenantId provider kind = (credentialReference ref tenantId provider)\<lparr>sr_kind := keepTruthy kind\<rparr>"

definition custodyAccess :: "'w exec_context \<Rightarrow> string \<Rightarrow> secret_access" where
  "custodyAccess ctx purpose =
     \<lparr>sa_tenantId = cx_tenantId ctx, sa_principalId = pr_principalId (cx_principal ctx), sa_purpose = purpose,
      sa_authorizationRef = cx_decisionId ctx\<rparr>"

text \<open>
  What an effect accumulates through its tools: the references it touched, in order, and the
  version of the last value it stored. An effect runs on the process state and this log.
\<close>

record tool_log =
  tl_refs :: "string list"
  tl_stored :: "int option"

type_synonym ('w, 'a) effect = "('w sys \<times> tool_log, exn, 'a) act"

definition plain :: "('w, 'a) service \<Rightarrow> ('w, 'a) effect" where
  "plain m = (\<lambda>(s, log). case m s of (t, r) \<Rightarrow> ((t, log), r))"

definition custodyContext ::
  "'w env \<Rightarrow> 'w context_value \<Rightarrow> string \<Rightarrow> ('w, 'w exec_context) service" where
  "custodyContext E v ref =
     bindA (draw (e_now E)) (\<lambda>now.
     bindA (liftR (assertExecutionContext E v (claimedCapability v) None now)) (\<lambda>ctx.
     if attribute (cx_resource ctx) ''credentialRef'' \<noteq> Some ref
     then raise (ServiceAuthorityError DENIED ''Credential reference was not part of the authorized resource''
       \<lparr>ed_capability = Some (cx_capability ctx), ed_decisionId = Some (cx_decisionId ctx),
        ed_reason = Some ''credential_not_authorized'', ed_outcome = None\<rparr>)
     else ret ctx))"

definition withCredential ::
  "'w env \<Rightarrow> 'w gateway \<Rightarrow> 'w context_value \<Rightarrow> string \<Rightarrow> string \<Rightarrow> (resolved_secret \<Rightarrow> ('w, 'a) effect) \<Rightarrow>
   string option \<Rightarrow> ('w, 'a) effect" where
  "withCredential E G v ref purpose use provider =
     bindA (plain (custodyContext E v ref)) (\<lambda>ctx.
     case gw_credentials G of
       None \<Rightarrow> raise (ServiceAuthorityError AUTHORITY_UNAVAILABLE
         ''No AuthBoundry credential resolver is configured'' (noDetails\<lparr>ed_capability := Some (cx_capability ctx)\<rparr>))
     | Some cu \<Rightarrow>
         let reference = credentialReference ref (cx_tenantId ctx) provider; access = custodyAccess ctx purpose;
             failed = (\<lambda>e. raise (mapCredentialFailure e (cx_capability ctx) False))
         in bindA (settle (plain (ext (cu_acquire cu reference access)))) (\<lambda>acquired.
            case acquired of
              Inl e \<Rightarrow> failed e
            | Inr secret \<Rightarrow>
                bindA (settle (use secret)) (\<lambda>used.
                bindA (settle (plain (ext (cu_release cu reference access)))) (\<lambda>released.
                case used of
                  Inl e \<Rightarrow> raise e
                | Inr x \<Rightarrow> (case released of Inl e \<Rightarrow> failed e | Inr _ \<Rightarrow> ret x)))))"

definition isSecretCustody :: "'w custody option \<Rightarrow> bool" where
  "isSecretCustody v = (case v of None \<Rightarrow> False | Some cu \<Rightarrow> cu_store cu \<noteq> None \<and> cu_status cu \<noteq> None)"

definition safeStatus :: "custody_status option \<Rightarrow> exn + custody_status" where
  "safeStatus status = (case status of
      Some st \<Rightarrow> if cs_state st \<in> {Some ''set'', Some ''missing'', Some ''revoked''} then Inr st
        else Inl (ServiceAuthorityError AUTHORITY_UNAVAILABLE ''Credential custody returned an invalid status''
               (noDetails\<lparr>ed_reason := Some ''invalid_status''\<rparr>))
    | None \<Rightarrow> Inl (ServiceAuthorityError AUTHORITY_UNAVAILABLE ''Credential custody returned an invalid status''
               (noDetails\<lparr>ed_reason := Some ''invalid_status''\<rparr>)))"

text \<open>The check of what \<open>custody.store\<close> answered: an integer version from 1 on and a time.\<close>

definition storeResult :: "string \<Rightarrow> custody_result option \<Rightarrow> exn + int \<times> string" where
  "storeResult capability result =
     (let bad = Inl (ServiceAuthorityError AUTHORITY_UNAVAILABLE ''Credential custody returned an invalid store result''
            (noDetails\<lparr>ed_capability := Some capability, ed_reason := Some ''invalid_store_result''\<rparr>)) in
      case result of
        None \<Rightarrow> bad
      | Some cr \<Rightarrow> (case (cr_version cr, cr_storedAt cr) of
          (Some n, Some at) \<Rightarrow> if n < 1 then bad else Inr (n, at)
        | _ \<Rightarrow> bad))"

definition storeCredential ::
  "'w env \<Rightarrow> 'w gateway \<Rightarrow> 'w context_value \<Rightarrow> string \<Rightarrow> string \<Rightarrow> string \<Rightarrow> string option \<Rightarrow> string option \<Rightarrow>
   ('w, int \<times> string) service" where
  "storeCredential E G v ref val purpose provider kind =
     bindA (custodyContext E v ref) (\<lambda>ctx.
     let cap = cx_capability ctx in
     case gw_credentials G of
       None \<Rightarrow> raise (readOnly cap None True)
     | Some cu \<Rightarrow>
        (case (cu_store cu, cu_status cu) of
           (Some store, Some status) \<Rightarrow>
             let reference = custodyReference ref (cx_tenantId ctx) provider kind; access = custodyAccess ctx purpose in
             bindA (catchA (ext (status reference access)) (\<lambda>e. raise (mapCredentialFailure e cap True))) (\<lambda>st.
             if (case st of None \<Rightarrow> True | Some x \<Rightarrow> \<not> cs_writable x)
             then raise (readOnly cap (case st of None \<Rightarrow> None | Some x \<Rightarrow> cs_location x) False)
             else bindA (catchA (ext (store reference val access)) (\<lambda>e. raise (mapCredentialFailure e cap True))) (\<lambda>result.
             liftR (storeResult cap result)))
         | _ \<Rightarrow> raise (readOnly cap None False)))"

definition credentialStatus ::
  "'w env \<Rightarrow> 'w gateway \<Rightarrow> 'w context_value \<Rightarrow> string \<Rightarrow> string \<Rightarrow> string option \<Rightarrow> ('w, custody_status) service" where
  "credentialStatus E G v ref purpose provider =
     bindA (custodyContext E v ref) (\<lambda>ctx.
     case gw_credentials G of
       None \<Rightarrow> raise (readOnly (cx_capability ctx) None True)
     | Some cu \<Rightarrow>
        (case (cu_store cu, cu_status cu) of
           (Some store, Some status) \<Rightarrow>
             catchA (bindA (ext (status (custodyReference ref (cx_tenantId ctx) provider None) (custodyAccess ctx purpose)))
                       (\<lambda>st. liftR (safeStatus st)))
               (\<lambda>e. raise (mapCredentialFailure e (cx_capability ctx) True))
         | _ \<Rightarrow> raise (readOnly (cx_capability ctx) None False)))"

text \<open>The tools of an effect (\<open>EffectTools\<close>): the same operations under the effect's own context, logged.\<close>

definition noteRef :: "string \<Rightarrow> ('w, unit) effect" where
  "noteRef ref = (\<lambda>(s, log). ((s, log\<lparr>tl_refs := tl_refs log @ [ref]\<rparr>), Inr ()))"

definition toolWithCredential ::
  "'w env \<Rightarrow> 'w gateway \<Rightarrow> 'w exec_context \<Rightarrow> execute_options \<Rightarrow> string \<Rightarrow> string \<Rightarrow>
   (resolved_secret \<Rightarrow> ('w, 'a) effect) \<Rightarrow> ('w, 'a) effect" where
  "toolWithCredential E G ctx opts ref purpose use =
     bindA (noteRef ref) (\<lambda>_. withCredential E G (Issued ctx) ref purpose use (eo_provider opts))"

definition toolStoreCredential ::
  "'w env \<Rightarrow> 'w gateway \<Rightarrow> 'w exec_context \<Rightarrow> string \<Rightarrow> string \<Rightarrow> string \<Rightarrow> string option \<Rightarrow> string option \<Rightarrow>
   ('w, int \<times> string) effect" where
  "toolStoreCredential E G ctx ref val purpose provider kind =
     bindA (noteRef ref) (\<lambda>_.
     bindA (plain (storeCredential E G (Issued ctx) ref val purpose provider kind)) (\<lambda>result.
     (\<lambda>(s, log). ((s, log\<lparr>tl_stored := Some (fst result)\<rparr>), Inr result))))"

definition toolCredentialStatus ::
  "'w env \<Rightarrow> 'w gateway \<Rightarrow> 'w exec_context \<Rightarrow> string \<Rightarrow> string option \<Rightarrow> string option \<Rightarrow>
   ('w, custody_status) effect" where
  "toolCredentialStatus E G ctx ref purpose provider =
     bindA (noteRef ref) (\<lambda>_.
     plain (credentialStatus E G (Issued ctx) ref
       (case purpose of None \<Rightarrow> cx_capability ctx | Some x \<Rightarrow> x) (keepTruthy provider)))"

section \<open>Running an effect\<close>

definition refUpdate :: "execute_options \<Rightarrow> string list \<Rightarrow> string option" where
  "refUpdate opts resolved =
     keepTruthy (orElse (eo_credentialRef opts) (case resolved of [] \<Rightarrow> None | r # _ \<Rightarrow> Some r))"

definition effectOutcome :: "exn \<Rightarrow> effect_outcome" where
  "effectOutcome e = (case failureCode e of
      Some PROVIDER_ERROR \<Rightarrow> ProviderFailed
    | Some DENIED \<Rightarrow> OutcomeDenied
    | _ \<Rightarrow> Failed)"

definition succeededWith :: "execute_options \<Rightarrow> tool_log \<Rightarrow> string \<Rightarrow> evidence_completion" where
  "succeededWith opts log at =
     \<lparr>ec_outcome = Succeeded, ec_completedAt = at, ec_failureCode = None,
      ec_credentialRef = refUpdate opts (tl_refs log), ec_credentialVersion = tl_stored log, ec_provider = None\<rparr>"

definition failedWith :: "execute_options \<Rightarrow> tool_log \<Rightarrow> exn \<Rightarrow> string \<Rightarrow> evidence_completion" where
  "failedWith opts log e at =
     \<lparr>ec_outcome = effectOutcome e, ec_completedAt = at,
      ec_failureCode = Some (case failureCode e of Some c \<Rightarrow> codeName c | None \<Rightarrow> ''EFFECT_FAILED''),
      ec_credentialRef = refUpdate opts (tl_refs log), ec_credentialVersion = None, ec_provider = None\<rparr>"

definition completeEffect ::
  "'w env \<Rightarrow> execute_options \<Rightarrow> string \<Rightarrow> tool_log \<Rightarrow> exn + 'a \<Rightarrow> ('w, 'a) service" where
  "completeEffect E opts evidenceId log r =
     catchA
       (bindA (liftR r) (\<lambda>x.
        bindA (nowISO E) (\<lambda>at.
        bindA (evidenceComplete E evidenceId (succeededWith opts log at)) (\<lambda>_. ret x))))
       (\<lambda>e.
        bindA (nowISO E) (\<lambda>at.
        bindA (catchA (evidenceComplete E evidenceId (failedWith opts log e at)) (\<lambda>_. ret ())) (\<lambda>_. raise e)))"

definition performEffect ::
  "'w env \<Rightarrow> execute_options \<Rightarrow> string \<Rightarrow> ('w, 'a) effect \<Rightarrow> ('w, 'a) service" where
  "performEffect E opts evidenceId effect = (\<lambda>s.
     case effect (s, \<lparr>tl_refs = [], tl_stored = None\<rparr>) of
       ((t, log), r) \<Rightarrow> completeEffect E opts evidenceId log r t)"

definition runEffect ::
  "'w env \<Rightarrow> 'w context_value \<Rightarrow> execute_options \<Rightarrow> ('w exec_context \<Rightarrow> ('w, 'a) effect) \<Rightarrow> string option \<Rightarrow>
   ('w, 'a) service" where
  "runEffect E v opts effect startedAt =
     bindA (case startedAt of Some at \<Rightarrow> ret at | None \<Rightarrow> nowISO E) (\<lambda>startedAt.
     bindA (draw (e_now E)) (\<lambda>now.
     bindA (liftR (assertExecutionContext E v (claimedCapability v) None now)) (\<lambda>ctx.
     bindA (draw (e_uuid E)) (\<lambda>evidenceId.
     bindA (evidenceRecord E (evidenceFor ctx opts evidenceId startedAt Started)) (\<lambda>_.
     performEffect E opts evidenceId (effect ctx))))))"

definition executeStart :: "'w env \<Rightarrow> execute_options \<Rightarrow> ('w, string \<times> string) service" where
  "executeStart E opts =
     bindA (case eo_requestId opts of Some i \<Rightarrow> ret i | None \<Rightarrow> draw (e_uuid E)) (\<lambda>requestId.
     bindA (nowISO E) (\<lambda>startedAt. ret (requestId, startedAt)))"

definition execute ::
  "'w env \<Rightarrow> 'w gateway \<Rightarrow> string \<Rightarrow> 'w caller \<Rightarrow> resource \<Rightarrow> execute_options \<Rightarrow>
   ('w exec_context \<Rightarrow> ('w, 'a) effect) \<Rightarrow> ('w, 'a) service" where
  "execute E G capability caller r opts effect =
     bindA (executeStart E opts) (\<lambda>(requestId, startedAt).
     bindA (catchA (authorize E G capability caller r requestId)
              (\<lambda>e. bindA (recordRefusal E G capability caller r opts requestId startedAt e) (\<lambda>_. raise e))) (\<lambda>ctx.
     runEffect E (Issued ctx) opts effect (Some startedAt)))"

definition attest :: "'w env \<Rightarrow> 'w gateway \<Rightarrow> durable_principal option \<Rightarrow> string list \<Rightarrow> ('w, unit) service" where
  "attest E G durable creatingCapabilities = (case durable of
      Some dp \<Rightarrow>
        (case keepTruthy (dp_authorizedBy dp) of
           None \<Rightarrow> raise (ServiceAuthorityError DENIED ''Durable principal is not bound to an AuthBoundry decision''
             (noDetails\<lparr>ed_reason := Some ''unattested_principal''\<rparr>))
         | Some decisionId \<Rightarrow>
             bindA (findByDecision E decisionId) (\<lambda>rows.
             if list_ex (\<lambda>row. ev_decision row = DecisionAllow \<and> ev_application row = gw_application G
                  \<and> ev_tenantId row = dp_tenantId dp \<and> ev_principalId row = dp_principalId dp
                  \<and> ev_principalType row = dp_principalType dp \<and> ev_delegationId row = dp_delegationId dp
                  \<and> ev_capability row \<in> set creatingCapabilities
                  \<and> (ev_outcome row = Started \<or> ev_outcome row = Succeeded)) rows
             then ret ()
             else raise (ServiceAuthorityError DENIED ''Durable principal does not match an authorized effect''
               (noDetails\<lparr>ed_reason := Some ''unattested_principal'', ed_decisionId := Some decisionId\<rparr>))))
    | None \<Rightarrow> raise (ServiceAuthorityError DENIED ''Durable principal is not bound to an AuthBoundry decision''
             (noDetails\<lparr>ed_reason := Some ''unattested_principal''\<rparr>)))"

section \<open>What an authorization establishes\<close>

lemma requireVerifiedPrincipal_Inr: "requireVerifiedPrincipal v = Inr p \<longleftrightarrow> v = Verified p"
  by (cases v) (auto simp: requireVerifiedPrincipal_def)

lemma assertOwnership_Inr:
  "assertOwnership G p r cap = Inr u \<longleftrightarrow>
     rs_tenantId r \<noteq> [] \<and> pr_tenantId p = rs_tenantId r \<and>
     (truthy (pr_applicationId p) \<longrightarrow> pr_applicationId p = Some (gw_application G))"
  by (auto simp: assertOwnership_def)

lemma validateDecision_Inr: "validateDecision q dec = Inr d \<longleftrightarrow> validDecision q dec \<and> dec = Some d"
  by (auto simp: validateDecision_def validDecision_def split: option.splits)

lemma decide_Inr:
  "decide G q s = (t, Inr d) \<longleftrightarrow>
     (\<exists>auth w. gw_authorizer G = Some auth \<and> auth q (outside s) = (w, Answered (Some d)) \<and>
        validDecision q (Some d) \<and> t = s\<lparr>outside := w\<rparr>)"
proof (cases "gw_authorizer G")
  case None
  then show ?thesis by (simp add: decide_def act_simps)
next
  case (Some auth)
  obtain w answer where "auth q (outside s) = (w, answer)" by (cases "auth q (outside s)")
  with Some show ?thesis
    by (cases answer) (auto simp: decide_def bindA_def draw_def act_simps validateDecision_Inr)
qed

text \<open>The context that an allow decision leads to.\<close>

definition grantedContext ::
  "'w gateway \<Rightarrow> capability \<Rightarrow> 'w principal \<Rightarrow> resource \<Rightarrow> string \<Rightarrow> auth_decision \<Rightarrow> int \<Rightarrow> int \<Rightarrow> nat \<Rightarrow> 'w exec_context" where
  "grantedContext G c p r requestId d decided now ref =
     \<lparr>cx_ref = ref, cx_application = gw_application G, cx_tenantId = rs_tenantId r, cx_principal = p,
      cx_capability = cp_name c, cx_capabilityVersion = cp_version c, cx_requestId = requestId,
      cx_resource = r, cx_resourceUri = resourceUri (gw_application G) r,
      cx_decisionId = the (ad_decision_id d), cx_decidedAt = isoString decided,
      cx_policyVersion = keepTruthy (ad_policy_version d), cx_reason = keepTruthy (ad_reason d),
      cx_expiresAt = isoString (now + CONTEXT_TTL_MS)\<rparr>"

lemma authorize_Inr:
  assumes "authorize E G cap caller r requestId s = (t, Inr ctx)"
  obtains c p s1 timestamp s2 s3 s4 d decided now ref where
    "gwCapability E G cap = Some c" "rs_type r = cp_resource c" "caller = Verified p"
    "rs_tenantId r \<noteq> []" "pr_tenantId p = rs_tenantId r"
    "truthy (pr_applicationId p) \<Longrightarrow> pr_applicationId p = Some (gw_application G)"
    "enforceCredential p (cp_name c) r s = (s1, Inr ())"
    "draw (e_now E) s1 = (s2, Inr timestamp)"
    "decide G (authorizationRequest G c p r requestId timestamp) s2 = (s3, Inr d)"
    "ad_allowed d = Some True"
    "timeValue (now + CONTEXT_TTL_MS)"
    "draw (e_now E) s4 = (t\<lparr>mintedContexts := ref\<rparr>, Inr now)"
    "ctx = grantedContext G c p r requestId d decided now ref"
  using assms unfolding authorize_def
  by (auto simp: act_simps bindA_Inr_iff liftR_iff requireVerifiedPrincipal_Inr assertOwnership_Inr
      mintExecutionContext_def toISOString_Inr_iff nowISO_def grantedContext_def
      split: option.splits if_splits)

section \<open>Frames of the gateway\<close>

context platform
begin

lemma keeps_evidenceRecord: "EVIDENCE_COLLECTION \<notin> N \<Longrightarrow> moves (keeps C N) (evidenceRecord E ev)"
  unfolding evidenceRecord_def by (intro keeps.frame_rules keeps_transaction) auto

lemma keeps_evidenceComplete: "EVIDENCE_COLLECTION \<notin> N \<Longrightarrow> moves (keeps C N) (evidenceComplete E i u)"
  unfolding evidenceComplete_def EVIDENCE_COLLECTION_def
  by (intro keeps.frame_rules evidence.keeps_get evidence.keeps_update)

lemma keeps_findByDecision: "moves (keeps C N) (findByDecision E d)"
  unfolding findByDecision_def by (rule evidence.keeps_find)

lemma keeps_executeStart: "moves (keeps C N) (executeStart E opts)"
  unfolding executeStart_def by (intro keeps.frame_rules keeps_uuid keeps_nowISO)

lemma keeps_recordRefusal:
  "EVIDENCE_COLLECTION \<notin> N \<Longrightarrow> moves (keeps C N) (recordRefusal E G cap caller r opts requestId at e)"
  unfolding recordRefusal_def
  by (cases e; cases caller) (auto intro!: keeps.frame_rules keeps_uuid keeps_nowISO keeps_evidenceRecord)

lemma keeps_attest: "moves (keeps C N) (attest E G dp caps)"
  unfolding attest_def by (intro keeps.frame_rules keeps_findByDecision)

lemma keeps_completeEffect:
  "EVIDENCE_COLLECTION \<notin> N \<Longrightarrow> moves (keeps C N) (completeEffect E opts i log r)"
  unfolding completeEffect_def by (intro keeps.frame_rules keeps_nowISO keeps_evidenceComplete)

text \<open>The row written before an effect is stored when the effect starts.\<close>

lemma evidenceRecord_stored:
  assumes "evidenceRecord E ev s = (t, Inr u)"
  shows "C (outside s) EVIDENCE_COLLECTION (ev_id ev) = None"
    and "C (outside t) EVIDENCE_COLLECTION (ev_id ev) = Some (EvidenceDoc ev)"
  using assms transaction_ok
  by (fastforce simp: evidenceRecord_def bindA_Inr_iff liftR_iff ext_eq_iff opHolds_def applyOps_def)+

lemma evidenceComplete_stored:
  assumes "evidenceComplete E i c s = (t, Inr u)"
  obtains ev ev' where "C (outside s) EVIDENCE_COLLECTION i = Some (EvidenceDoc ev)"
    "C (outside t) EVIDENCE_COLLECTION i = Some (EvidenceDoc ev')"
    "stripVersion ev' = stripVersion (applyCompletion c ev)"
proof -
  obtain s1 ev where get: "ext (c_get (e_evidence E) i) s = (s1, Inr (Some ev))"
    and upd: "ext (c_update (e_evidence E) i (applyCompletion c ev)) s1 = (t, Inr u)"
    using assms by (auto simp: evidenceComplete_def bindA_Inr_iff liftR_iff act_simps split: option.splits)
  from get have "C (outside s) EVIDENCE_COLLECTION i = Some (EvidenceDoc ev)"
    by (auto simp: ext_eq_iff EVIDENCE_COLLECTION_def dest: evidence.get_sound)
  moreover from upd obtain ev' where "stripVersion ev' = stripVersion (applyCompletion c ev)"
    "C (outside t) = putDoc (C (outside s1)) ''service_effect_evidence'' i (EvidenceDoc ev')"
    unfolding stripVersion_def by (auto simp: ext_eq_iff dest!: evidence.update_ok)
  ultimately show thesis using that by (simp add: EVIDENCE_COLLECTION_def)
qed

text \<open>
  A completion writes the completed row or nothing; when it rejects, either may be the case.
\<close>

lemma evidenceComplete_cases:
  assumes "evidenceComplete E i c s = (t, r)"
  obtains (kept) "C (outside t) = C (outside s)" "r \<noteq> Inr ()"
    | (completed) ev ev' where "C (outside s) EVIDENCE_COLLECTION i = Some (EvidenceDoc ev)"
        "C (outside t) = putDoc (C (outside s)) EVIDENCE_COLLECTION i (EvidenceDoc ev')"
        "stripVersion ev' = stripVersion (applyCompletion c ev)"
proof (cases "assertEvidenceHasNoSecrets (completionEntries c)")
  case (Inl a)
  then have "s = t" "r = Inl a" using assms by (simp_all add: evidenceComplete_def bindA_def act_simps)
  then show ?thesis using kept by simp
next
  case guarded: (Inr a)
  obtain s1 q where get: "ext (c_get (e_evidence E) i) s = (s1, q)" by (cases "ext (c_get (e_evidence E) i) s")
  then have view: "C (outside s1) = C (outside s)" by (auto simp: ext_eq_iff dest: evidence.get_view)
  note run = assms [unfolded evidenceComplete_def bindA_def] guarded get view
  show ?thesis
  proof (cases q)
    case (Inl x)
    then show ?thesis using run kept by (auto simp: act_simps)
  next
    case (Inr found)
    show ?thesis
    proof (cases found)
      case None
      then show ?thesis using run kept Inr by (auto simp: act_simps)
    next
      case (Some ev)
      have "C (outside s) EVIDENCE_COLLECTION i = Some (EvidenceDoc ev)"
        using get Inr Some by (auto simp: ext_eq_iff EVIDENCE_COLLECTION_def dest: evidence.get_sound)
      moreover have upd: "ext (c_update (e_evidence E) i (applyCompletion c ev)) s1 = (t, r)"
        using run Inr Some by (simp add: act_simps)
      moreover from upd have "C (outside t) = C (outside s) \<and> r \<noteq> Inr () \<or>
          (\<exists>ev'. stripVersion ev' = stripVersion (applyCompletion c ev) \<and>
             C (outside t) = putDoc (C (outside s)) EVIDENCE_COLLECTION i (EvidenceDoc ev'))"
        using view unfolding EVIDENCE_COLLECTION_def stripVersion_def
        by (cases r) (auto simp: ext_eq_iff dest!: evidence.update_ok evidence.update_rejected)
      ultimately show ?thesis using completed kept by blast
    qed
  qed
qed

end

text \<open>AuthBoundry is another system: deciding a request writes nothing to the service collections.\<close>

locale gateway_platform = platform E C for E :: "'w env" and C :: "'w \<Rightarrow> contents" +
  fixes G :: "'w gateway"
  assumes authorizer_view: "gw_authorizer G = Some auth \<Longrightarrow> auth q w = (w', answer) \<Longrightarrow> C w' = C w"
begin

lemma keeps_decide: "moves (keeps C N) (decide G q)"
  unfolding decide_def by (intro keeps.frame_rules)
    (auto intro!: keeps_draw keeps.frame_rules split: auth_answer.splits dest: authorizer_view)

lemma keeps_authorize:
  assumes "\<And>p cap r. caller = Verified p \<Longrightarrow> moves (keeps C N) (enforceCredential p cap r)"
  shows "moves (keeps C N) (authorize E G cap caller r requestId)"
proof (cases caller)
  case (Verified p)
  have "moves (keeps C N) (mintExecutionContext ctx)" for ctx :: "'w exec_context"
    by (rule movesI) (auto simp: mintExecutionContext_def keeps_def)
  then show ?thesis
    unfolding authorize_def Verified requireVerifiedPrincipal_def
    using assms [OF Verified]
    by (auto intro!: keeps.frame_rules keeps_decide keeps_now keeps_nowISO split: option.splits)
qed (auto simp: authorize_def requireVerifiedPrincipal_def intro!: keeps.frame_rules split: option.splits)

end

section \<open>Properties of the enforcement point\<close>

text \<open>
  C1: the gateway issues an execution context only when the capability is declared for that
  type of resource, the caller is a verified principal of the resource's tenant (and of this
  application, if it is bound to one), its credential check passed, and AuthBoundry answered
  this very request (subject, capability, tenant, application, resource) with an allow
  decision. The context names exactly that principal, capability, resource and decision.
\<close>

lemma authorize_grants:
  assumes "authorize E G cap caller r requestId s = (t, Inr ctx)"
  shows "\<exists>c p s1 auth q w w' d.
     gwCapability E G cap = Some c \<and> rs_type r = cp_resource c \<and>
     caller = Verified p \<and> pr_tenantId p = rs_tenantId r \<and> rs_tenantId r \<noteq> [] \<and>
     (truthy (pr_applicationId p) \<longrightarrow> pr_applicationId p = Some (gw_application G)) \<and>
     enforceCredential p (cp_name c) r s = (s1, Inr ()) \<and>
     gw_authorizer G = Some auth \<and> auth q w = (w', Answered (Some d)) \<and>
     validDecision q (Some d) \<and> ad_allowed d = Some True \<and>
     aq_subject_id q = pr_principalId p \<and> aq_capability q = cp_name c \<and> aq_tenant_id q = rs_tenantId r \<and>
     aq_application_id q = gw_application G \<and> aq_resource_uri q = resourceUri (gw_application G) r \<and>
     aq_resource_attributes q = rs_attributes r \<and>
     cx_principal ctx = p \<and> cx_capability ctx = cp_name c \<and> cx_resource ctx = r \<and>
     cx_tenantId ctx = rs_tenantId r \<and> Some (cx_decisionId ctx) = ad_decision_id d"
  using assms
proof (rule authorize_Inr)
  fix c p s1 timestamp s2 s3 d decided now ref
  assume found: "gwCapability E G cap = Some c" "rs_type r = cp_resource c" "caller = Verified p"
      "rs_tenantId r \<noteq> []" "pr_tenantId p = rs_tenantId r"
      "truthy (pr_applicationId p) \<Longrightarrow> pr_applicationId p = Some (gw_application G)"
    and check: "enforceCredential p (cp_name c) r s = (s1, Inr ())"
    and dec: "decide G (authorizationRequest G c p r requestId timestamp) s2 = (s3, Inr d)"
    and allowed: "ad_allowed d = Some True"
    and ctx: "ctx = grantedContext G c p r requestId d decided now ref"
  from dec obtain auth w where auth: "gw_authorizer G = Some auth"
    "auth (authorizationRequest G c p r requestId timestamp) (outside s2) = (w, Answered (Some d))"
    "validDecision (authorizationRequest G c p r requestId timestamp) (Some d)"
    unfolding decide_Inr by blast
  from auth(3) have "ad_decision_id d \<noteq> None" by (cases "ad_decision_id d") (auto simp: validDecision_def)
  then show ?thesis
    using found check auth allowed
    by (intro exI [of _ c] exI [of _ p] exI [of _ s1] exI [of _ auth] exI [of _ w] exI [of _ d]
        exI [of _ "outside s2"] exI [of _ "authorizationRequest G c p r requestId timestamp"])
      (auto simp: ctx grantedContext_def authorizationRequest_def)
qed

text \<open>
  C2: a refused operation has no effect. When authorization rejects, the outcome is the same
  whatever the effect would have been (it never runs), it is a rejection, and of all stored
  collections only the evidence may have changed since the refusal.
\<close>

lemma execute_refused:
  assumes "platform E C"
    and "executeStart E opts s = (s1, Inr (requestId, startedAt))"
    and "authorize E G cap caller r requestId s1 = (s2, Inl e)"
  shows "\<exists>t e'. (\<forall>effect. execute E G cap caller r opts effect s = (t, Inl e')) \<and>
     (\<forall>n. n \<noteq> EVIDENCE_COLLECTION \<longrightarrow> C (outside t) n = C (outside s2) n)"
proof -
  let ?m = "bindA (recordRefusal E G cap caller r opts requestId startedAt e) (\<lambda>_. raise e)
    :: ('a, 'a exec_context) service"
  obtain t res where m: "?m s2 = (t, res)" by (cases "?m s2")
  then obtain e' where res: "res = Inl e'"
    by (cases res) (auto simp: bindA_Inr_iff act_simps)
  have "execute E G cap caller r opts effect s = (t, Inl e')" for effect
    using assms(2,3) m res by (simp add: execute_def bindA_step bindA_fail catchA_def)
  moreover have "moves (keeps C (- {EVIDENCE_COLLECTION})) ?m"
    by (intro keeps.frame_rules platform.keeps_recordRefusal [OF assms(1)]) auto
  then have "\<forall>n. n \<noteq> EVIDENCE_COLLECTION \<longrightarrow> C (outside t) n = C (outside s2) n"
    using m by (auto dest: keepsD)
  ultimately show ?thesis by blast
qed

lemma runEffect_Issued:
  assumes "runEffect E (Issued ctx) opts effect (Some startedAt) s = (t, Inr x)"
  obtains s1 now i s2 s3 where "draw (e_now E) s = (s1, Inr now)" "\<not> dateLeq E (cx_expiresAt ctx) now"
    "draw (e_uuid E) s1 = (s2, Inr i)"
    "evidenceRecord E (evidenceFor ctx opts i startedAt Started) s2 = (s3, Inr ())"
    "performEffect E opts i (effect ctx) s3 = (t, Inr x)"
  using assms
  by (auto simp: runEffect_def bindA_Inr_iff liftR_iff assertExecutionContext_def claimedCapability_def
      split: if_splits)

lemma performEffect_Inr:
  assumes "performEffect E opts i effect s = (t, Inr x)"
  obtains u log at u' where "effect (s, \<lparr>tl_refs = [], tl_stored = None\<rparr>) = ((u, log), Inr x)"
    "nowISO E u = (u', Inr at)" "evidenceComplete E i (succeededWith opts log at) u' = (t, Inr ())"
  using assms
  by (auto simp: performEffect_def completeEffect_def bindA_Inr_iff catchA_Inr_iff liftR_iff act_simps
      split: prod.splits)

lemma execute_authorized:
  assumes "execute E G cap caller r opts effect s = (t, Inr x)"
  obtains requestId startedAt s1 s2 ctx where "executeStart E opts s = (s1, Inr (requestId, startedAt))"
    "authorize E G cap caller r requestId s1 = (s2, Inr ctx)"
    "runEffect E (Issued ctx) opts effect (Some startedAt) s2 = (t, Inr x)"
  using assms by (auto simp: execute_def bindA_Inr_iff catchA_Inr_iff act_simps)

lemma execute_pure:
  assumes "execute E G cap caller r opts (\<lambda>ctx. ret c) s = (t, Inr x)"
  shows "x = c"
  using assms
proof (rule execute_authorized)
  fix startedAt s2 ctx
  assume "runEffect E (Issued ctx) opts (\<lambda>ctx. ret c) (Some startedAt) s2 = (t, Inr x)"
  then show "x = c"
    by (rule runEffect_Issued) (auto elim!: performEffect_Inr simp: act_simps)
qed

text \<open>
  C3: an operation that returns was authorized, its evidence row (allow, with the decision's id)
  was stored before its effect started, the effect produced the returned value, and the row is
  completed as succeeded after it.
\<close>

lemma execute_returns:
  assumes "platform E C"
    and "execute E G cap caller r opts effect s = (t, Inr x)"
  shows "\<exists>requestId startedAt s1 s2 ctx i s3 u log row row'.
     executeStart E opts s = (s1, Inr (requestId, startedAt)) \<and>
     authorize E G cap caller r requestId s1 = (s2, Inr ctx) \<and>
     C (outside s3) EVIDENCE_COLLECTION i = Some (EvidenceDoc (evidenceFor ctx opts i startedAt Started)) \<and>
     effect ctx (s3, \<lparr>tl_refs = [], tl_stored = None\<rparr>) = ((u, log), Inr x) \<and>
     C (outside u) EVIDENCE_COLLECTION i = Some (EvidenceDoc row) \<and>
     C (outside t) EVIDENCE_COLLECTION i = Some (EvidenceDoc row') \<and>
     ev_outcome row' = Succeeded \<and> ev_decisionId row' = ev_decisionId row \<and>
     ev_credentialRef row' = orElse (refUpdate opts (tl_refs log)) (ev_credentialRef row)"
proof -
  from assms(2) obtain requestId startedAt s1 s2 ctx where
    start: "executeStart E opts s = (s1, Inr (requestId, startedAt))"
    and auth: "authorize E G cap caller r requestId s1 = (s2, Inr ctx)"
    and run: "runEffect E (Issued ctx) opts effect (Some startedAt) s2 = (t, Inr x)"
    by (auto simp: execute_def bindA_Inr_iff catchA_Inr_iff act_simps)
  from run show ?thesis
  proof (rule runEffect_Issued)
    fix i s' s3
    assume rec: "evidenceRecord E (evidenceFor ctx opts i startedAt Started) s' = (s3, Inr ())"
      and perf: "performEffect E opts i (effect ctx) s3 = (t, Inr x)"
    have stored: "C (outside s3) EVIDENCE_COLLECTION i = Some (EvidenceDoc (evidenceFor ctx opts i startedAt Started))"
      using platform.evidenceRecord_stored(2) [OF assms(1) rec] by (simp add: evidenceFor_def)
    from perf obtain u log at u' where eff: "effect ctx (s3, \<lparr>tl_refs = [], tl_stored = None\<rparr>) = ((u, log), Inr x)"
      and now: "nowISO E u = (u', Inr at)" and comp: "evidenceComplete E i (succeededWith opts log at) u' = (t, Inr ())"
      by (rule performEffect_Inr)
    from platform.evidenceComplete_stored [OF assms(1) comp] obtain row row' where
      row: "C (outside u') EVIDENCE_COLLECTION i = Some (EvidenceDoc row)"
        "C (outside t) EVIDENCE_COLLECTION i = Some (EvidenceDoc row')"
      and eq: "stripVersion row' = stripVersion (applyCompletion (succeededWith opts log at) row)" by blast
    have "C (outside u') EVIDENCE_COLLECTION = C (outside u) EVIDENCE_COLLECTION"
      using keepsD [OF platform.keeps_nowISO [OF assms(1)] now UNIV_I] .
    moreover have "ev_outcome row' = Succeeded" "ev_decisionId row' = ev_decisionId row"
      "ev_credentialRef row' = orElse (refUpdate opts (tl_refs log)) (ev_credentialRef row)"
      using arg_cong [OF eq, of ev_outcome] arg_cong [OF eq, of ev_decisionId] arg_cong [OF eq, of ev_credentialRef]
      by (simp_all add: stripVersion_def applyCompletion_def succeededWith_def)
    ultimately show ?thesis using start auth stored eff row by metis
  qed
qed

definition completedRow :: "exn \<Rightarrow> effect_evidence \<Rightarrow> effect_evidence \<Rightarrow> bool" where
  "completedRow e row row' \<longleftrightarrow>
     (ev_outcome row' = ProviderFailed \<longleftrightarrow> failureCode e = Some PROVIDER_ERROR) \<and>
     (ev_outcome row' = OutcomeDenied \<longleftrightarrow> failureCode e = Some DENIED) \<and>
     ev_outcome row' \<noteq> Started \<and> ev_outcome row' \<noteq> Succeeded \<and>
     ev_failureCode row' = Some (case failureCode e of Some c \<Rightarrow> codeName c | None \<Rightarrow> ''EFFECT_FAILED'') \<and>
     ev_decisionId row' = ev_decisionId row \<and> ev_principalId row' = ev_principalId row \<and> ev_startedAt row' = ev_startedAt row"

lemma completed_row:
  "stripVersion row' = stripVersion (applyCompletion (failedWith opts log e at) row) \<Longrightarrow> completedRow e row row'"
  by (drule_tac f = "\<lambda>r. (ev_outcome r, ev_failureCode r, ev_decisionId r, ev_principalId r, ev_startedAt r)" in arg_cong)
    (auto simp: completedRow_def stripVersion_def applyCompletion_def failedWith_def effectOutcome_def orElse_def
      split: option.splits failure_code.splits)

text \<open>
  C4: an effect that rejects makes the operation reject with the same error, whatever becomes of its
  evidence (only a clock that shows no date replaces the error). The row that was written before the
  effect is completed with the outcome of that error: \<open>provider_error\<close> only for a provider
  failure, \<open>denied\<close> only for a denial, otherwise \<open>failed\<close>, with the error's code. If that
  write rejects, its error is dropped and the row is left as it was, \<open>started\<close>, unless the write
  took effect after all; nothing else is changed in any case.
\<close>

lemma failed_effect_outcome:
  assumes "platform E C"
    and "effect (s, \<lparr>tl_refs = [], tl_stored = None\<rparr>) = ((u, log), Inl e)"
    and "performEffect E opts i effect s = (t, r)"
  shows "(case nowISO E u of
       (u', Inl clock) \<Rightarrow> r = Inl clock \<and> C (outside t) = C (outside u)
     | (u', Inr at) \<Rightarrow> r = Inl e \<and>
         (snd (evidenceComplete E i (failedWith opts log e at) u') \<noteq> Inr () \<and> C (outside t) = C (outside u) \<or>
          (\<exists>row row'. C (outside u) EVIDENCE_COLLECTION i = Some (EvidenceDoc row) \<and> completedRow e row row' \<and>
             C (outside t) = putDoc (C (outside u)) EVIDENCE_COLLECTION i (EvidenceDoc row'))))"
proof -
  obtain u' q where now: "nowISO E u = (u', q)" by (cases "nowISO E u")
  have view: "C (outside u') = C (outside u)"
    using keepsD [OF platform.keeps_nowISO [OF assms(1)] now UNIV_I] by blast
  show ?thesis
  proof (cases q)
    case (Inl clock)
    then show ?thesis
      using assms(2,3) now view by (simp add: performEffect_def completeEffect_def catchA_def bindA_def act_simps)
  next
    case (Inr at)
    obtain v x where done': "evidenceComplete E i (failedWith opts log e at) u' = (v, x)"
      by (cases "evidenceComplete E i (failedWith opts log e at) u'")
    have run: "t = v \<and> r = Inl e"
      using assms(2,3) now Inr done'
      by (cases x) (simp_all add: performEffect_def completeEffect_def catchA_def bindA_def act_simps)
    show ?thesis
    proof (rule platform.evidenceComplete_cases [OF assms(1) done'])
      assume "C (outside v) = C (outside u')" "x \<noteq> Inr ()"
      then show ?thesis using run now Inr view done' by simp
    next
      fix ev ev'
      assume row: "C (outside u') EVIDENCE_COLLECTION i = Some (EvidenceDoc ev)"
          "C (outside v) = putDoc (C (outside u')) EVIDENCE_COLLECTION i (EvidenceDoc ev')"
        and "stripVersion ev' = stripVersion (applyCompletion (failedWith opts log e at) ev)"
      from this(3) have "completedRow e ev ev'" by (rule completed_row)
      then show ?thesis using row run now Inr view by auto
    qed
  qed
qed

section \<open>Credentials, attestation, single use\<close>

lemma plain_Inr_iff: "plain m (s, log) = (\<sigma>, r) \<longleftrightarrow> (\<exists>t. m s = (t, r) \<and> \<sigma> = (t, log))"
  by (auto simp: plain_def split: prod.splits)

lemma custodyContext_Inr:
  "custodyContext E v ref s = (t, Inr ctx) \<Longrightarrow>
   \<exists>now. draw (e_now E) s = (t, Inr now) \<and> v = Issued ctx \<and> \<not> dateLeq E (cx_expiresAt ctx) now \<and>
     attribute (cx_resource ctx) ''credentialRef'' = Some ref"
  by (auto simp: custodyContext_def bindA_Inr_iff liftR_iff act_simps assertExecutionContext_def
      claimedCapability_def split: if_splits context_value.splits)

text \<open>
  C5: a credential reaches service code only under a live context that was authorized for it.
  If what a caller does with the secret makes any difference to the outcome, then the context
  was issued by the gateway and has not expired, its authorized resource names exactly this
  reference, and custody resolved the reference for the context's tenant under its decision.
\<close>

lemma credential_needs_context:
  assumes "withCredential E G v ref purpose use provider (s, log) \<noteq> withCredential E G v ref purpose use' provider (s, log)"
  shows "\<exists>ctx now t cu w secret. v = Issued ctx \<and> draw (e_now E) s = (t, Inr now) \<and>
     \<not> dateLeq E (cx_expiresAt ctx) now \<and> attribute (cx_resource ctx) ''credentialRef'' = Some ref \<and>
     gw_credentials G = Some cu \<and>
     cu_acquire cu (credentialReference ref (cx_tenantId ctx) provider) (custodyAccess ctx purpose) (outside t)
       = (w, Inr secret)"
proof -
  obtain t r where ctx: "custodyContext E v ref s = (t, r)" by (cases "custodyContext E v ref s")
  show ?thesis
  proof (cases r)
    case (Inl e)
    then show ?thesis using assms ctx by (simp add: withCredential_def bindA_def plain_def)
  next
    case (Inr ctx')
    note live = custodyContext_Inr [OF ctx [unfolded Inr]]
    show ?thesis
    proof (cases "gw_credentials G")
      case None
      then show ?thesis using assms ctx Inr by (simp add: withCredential_def bindA_def plain_def)
    next
      case (Some cu)
      obtain w q where acq: "cu_acquire cu (credentialReference ref (cx_tenantId ctx') provider)
          (custodyAccess ctx' purpose) (outside t) = (w, q)" by fastforce
      show ?thesis
      proof (cases q)
        case (Inl e)
        then show ?thesis using assms ctx Inr Some acq
          by (simp add: withCredential_def bindA_def plain_def settle_def ext_def Let_def)
      next
        case (Inr secret)
        then show ?thesis using live Some acq by blast
      qed
    qed
  qed
qed

lemma attest_backed:
  assumes "platform E C" and "attest E G (Some dp) caps s = (t, Inr u)"
  shows "\<exists>decisionId i row. dp_authorizedBy dp = Some decisionId \<and>
     C (outside s) EVIDENCE_COLLECTION i = Some (EvidenceDoc row) \<and>
     ev_decisionId row = Some decisionId \<and> ev_decision row = DecisionAllow \<and>
     ev_application row = gw_application G \<and> ev_tenantId row = dp_tenantId dp \<and>
     ev_principalId row = dp_principalId dp \<and> ev_principalType row = dp_principalType dp \<and>
     ev_delegationId row = dp_delegationId dp \<and> ev_capability row \<in> set caps \<and>
     ev_outcome row \<in> {Started, Succeeded}"
proof -
  from assms(2) obtain decisionId rows row where d: "dp_authorizedBy dp = Some decisionId"
    and find: "findByDecision E decisionId s = (t, Inr rows)" and mem: "row \<in> set rows"
    and row: "ev_decision row = DecisionAllow" "ev_application row = gw_application G"
      "ev_tenantId row = dp_tenantId dp" "ev_principalId row = dp_principalId dp"
      "ev_principalType row = dp_principalType dp" "ev_delegationId row = dp_delegationId dp"
      "ev_capability row \<in> set caps" "ev_outcome row = Started \<or> ev_outcome row = Succeeded"
    by (auto simp: attest_def act_simps bindA_Inr_iff list_ex_iff keepTruthy_eq_Some
        split: option.splits if_splits)
  from find obtain w where "c_find (e_evidence E) (\<lambda>ev. ev_decisionId ev = Some decisionId) (outside s) = (w, Inr rows)"
    by (auto simp: findByDecision_def ext_eq_iff)
  from stored_collection.find_sound [OF platform.evidence_laws [OF assms(1)] this mem]
  obtain i where "ev_decisionId row = Some decisionId" "C (outside s) EVIDENCE_COLLECTION i = Some (EvidenceDoc row)"
    unfolding EVIDENCE_COLLECTION_def by blast
  with d row show ?thesis by blast
qed

text \<open>
  C6: a durable principal is honoured only for a stored evidence row of an allowed effect:
  same application, tenant, principal and delegation, under the decision the record names, and
  of a capability that may create such records.
\<close>

lemma attest_needs_evidence:
  assumes "platform E C" and "attest E G (Some dp) caps s = (t, Inr u)"
  shows "\<exists>decisionId i row. dp_authorizedBy dp = Some decisionId \<and>
     C (outside s) EVIDENCE_COLLECTION i = Some (EvidenceDoc row) \<and>
     ev_decisionId row = Some decisionId \<and> ev_decision row = DecisionAllow \<and>
     ev_application row = gw_application G \<and> ev_tenantId row = dp_tenantId dp \<and>
     ev_principalId row = dp_principalId dp \<and> ev_principalType row = dp_principalType dp \<and>
     ev_delegationId row = dp_delegationId dp \<and> ev_capability row \<in> set caps \<and>
     ev_outcome row \<in> {Started, Succeeded}"
  using attest_backed [OF assms] .

text \<open>
  C7: a context is consumed at most once. After a successful consumption, consuming the same
  context is refused in every state that still remembers it, for any capability and tenant.
\<close>

lemma context_single_use:
  assumes "consumeExecutionContext E (Issued c) cap tenant s = (t, Inr c')"
    and "set (consumedContexts t) \<subseteq> set (consumedContexts u)"
  shows "\<exists>u' e. consumeExecutionContext E (Issued c) cap' tenant' u = (u', Inl e)"
proof -
  have "c' = c" "cx_ref c \<in> set (consumedContexts t)"
    using assms(1) by (auto simp: consumeExecutionContext_def bindA_Inr_iff liftR_iff
        assertExecutionContext_def split: if_splits)
  then have "cx_ref c \<in> set (consumedContexts u)" using assms(2) by blast
  moreover obtain u' r where run: "consumeExecutionContext E (Issued c) cap' tenant' u = (u', r)"
    by (cases "consumeExecutionContext E (Issued c) cap' tenant' u")
  ultimately show ?thesis
    by (cases r) (auto simp: consumeExecutionContext_def bindA_Inr_iff liftR_iff draw_eq_iff
        assertExecutionContext_def split: if_splits)
qed

section \<open>Extension capabilities\<close>

lemma declareExtensions_Inr:
  "declareExtensions E cs exts = Inr exts' \<Longrightarrow>
   \<exists>new. exts' = exts @ new \<and> map snd new = cs \<and>
     (distinct (map fst exts) \<longrightarrow> distinct (map fst exts')) \<and>
     (\<forall>(n, c)\<in>set new. n = cp_name c \<and> getServiceCapability E n = None \<and> \<not> cp_invocable c \<and> cp_required c \<and>
        (\<exists>namespace. namespace \<noteq> [] \<and> cp_service c = extensionPrefix @ namespace \<and>
           startsWith (cp_name c) (namespace @ ''.'')))"
proof (induction E cs exts rule: declareExtensions.induct)
  case (1 E exts)
  then show ?case by simp
next
  case (2 E c cs exts)
  define ns where "ns = extensionNamespace c"
  from "2.prems" have ok: "getServiceCapability E (cp_name c) = None" "map_of exts (cp_name c) = None"
      "ns \<noteq> []" "startsWith (cp_name c) (ns @ ''.'')" "\<not> cp_invocable c" "cp_required c"
    and rest: "declareExtensions E cs (exts @ [(cp_name c, c)]) = Inr exts'"
    by (auto simp: Let_def ns_def split: if_splits)
  from ok(3) have svc: "cp_service c = extensionPrefix @ ns"
    by (auto simp: ns_def extensionNamespace_def startsWith_iff split: if_splits)
  have fresh: "cp_name c \<notin> fst ` set exts" using ok(2) by (simp add: map_of_eq_None_iff)
  from "2.IH" [OF _ refl _ rest] ok obtain new where new: "exts' = (exts @ [(cp_name c, c)]) @ new" "map snd new = cs"
    "distinct (map fst (exts @ [(cp_name c, c)])) \<longrightarrow> distinct (map fst exts')"
    "\<forall>(n, c)\<in>set new. n = cp_name c \<and> getServiceCapability E n = None \<and> \<not> cp_invocable c \<and> cp_required c \<and>
        (\<exists>namespace. namespace \<noteq> [] \<and> cp_service c = extensionPrefix @ namespace \<and>
           startsWith (cp_name c) (namespace @ ''.''))"
    by (auto simp: ns_def)
  show ?case
    using new ok svc fresh by (intro exI [of _ "(cp_name c, c) # new"]) auto
qed

text \<open>
  C8: registered extensions cannot take over a service capability. In a constructed gateway
  every manifest name keeps its manifest entry, and every other capability it enforces was
  declared under its extension's own namespace, is never invocable and always requires
  authorization; no two declarations share a name.
\<close>

lemma extensions_never_shadow:
  assumes "newServiceGateway E app auth cred timeout exts = Inr G"
  shows "(\<forall>n c. getServiceCapability E n = Some c \<longrightarrow> gwCapability E G n = Some c) \<and>
     (\<forall>n c. getServiceCapability E n = None \<longrightarrow> gwCapability E G n = Some c \<longrightarrow>
        cp_name c = n \<and> c \<in> set exts \<and> \<not> cp_invocable c \<and> cp_required c \<and>
        (\<exists>namespace. namespace \<noteq> [] \<and> cp_service c = extensionPrefix @ namespace \<and> startsWith n (namespace @ ''.''))) \<and>
     distinct (map cp_name exts)"
proof -
  have decl: "declareExtensions E exts [] = Inr (gw_extensions G)"
    using assms by (auto simp: newServiceGateway_def bindR_Inr_iff split: if_splits)
  from declareExtensions_Inr [OF this] have new: "map snd (gw_extensions G) = exts" "distinct (map fst (gw_extensions G))"
    "\<forall>(n, c)\<in>set (gw_extensions G). n = cp_name c \<and> getServiceCapability E n = None \<and> \<not> cp_invocable c \<and> cp_required c \<and>
        (\<exists>namespace. namespace \<noteq> [] \<and> cp_service c = extensionPrefix @ namespace \<and>
           startsWith (cp_name c) (namespace @ ''.''))"
    by auto
  have "map fst (gw_extensions G) = map cp_name exts"
    using new(1,3) by (auto simp: map_eq_conv simp flip: new(1))
  then have "distinct (map cp_name exts)" using new(2) by simp
  moreover have "c \<in> set exts" if "map_of (gw_extensions G) n = Some c" for n c
    using map_of_SomeD [OF that] new(1) by (force simp flip: new(1))
  ultimately show ?thesis
    using new(3) by (fastforce simp: gwCapability_def dest: map_of_SomeD)
qed

section \<open>Custody failures\<close>

text \<open>What of a host's error may shape the answer on the write path: its code, if it looks like one.\<close>

definition hostCode :: "exn \<Rightarrow> exn" where
  "hostCode e = (case e of
      ServiceAuthorityError c m d \<Rightarrow>
        ServiceAuthorityError c [] (noDetails\<lparr>ed_reason := (if safeCode (ed_reason d) then ed_reason d else None)\<rparr>)
    | SecretError m k \<Rightarrow> if safeCode (Some k) then SecretError [] k else PlainError []
    | _ \<Rightarrow> PlainError [])"

text \<open>
  C9: when custody fails while a value is being stored, the error returned to the caller is a
  function of the host's error code alone. No message or other text the host raised (which
  could contain the value) reaches it.
\<close>

lemma custody_write_hides_host_text:
  "mapCredentialFailure e capability True = mapCredentialFailure (hostCode e) capability True"
  by (cases e) (simp_all add: mapCredentialFailure_def hostCode_def safeCode_None)

end
