(* ===== verification/Memory.thy ===== *)
theory Memory
  imports Gateway
begin

text \<open>
  A concrete platform: an in-memory database with a manual clock, counted identifiers and toy
  key derivation. It satisfies every law of \<open>platform\<close>, so the laws are consistent, and the
  examples of the development run on it.
\<close>

record mem =
  m_docs :: "((string \<times> string) \<times> doc) list"
  m_clock :: int
  m_serial :: nat

definition memView :: "mem \<Rightarrow> contents" where
  "memView w name i = map_of (m_docs w) (name, i)"

definition memPut :: "string \<Rightarrow> string \<Rightarrow> doc \<Rightarrow> mem \<Rightarrow> mem" where
  "memPut name i d w = w\<lparr>m_docs := ((name, i), d) # filter (\<lambda>e. fst e \<noteq> (name, i)) (m_docs w)\<rparr>"

definition memColl ::
  "string \<Rightarrow> ('a \<Rightarrow> doc) \<Rightarrow> (doc \<Rightarrow> 'a option) \<Rightarrow> ('a \<Rightarrow> int) \<Rightarrow> (int \<Rightarrow> 'a \<Rightarrow> 'a) \<Rightarrow> (mem, 'a) coll" where
  "memColl name emb proj ver setv =
     \<lparr>c_get = (\<lambda>i w. (w, Inr (Option.bind (memView w name i) proj))),
      c_find = (\<lambda>P w. (w, Inr (filter P (List.map_filter (\<lambda>((n, i), d). if n = name \<and> memView w n i = Some d then proj d else None) (m_docs w))))),
      c_insert = (\<lambda>x i w. (memPut name i (emb x) w, Inr ())),
      c_update = (\<lambda>i x w. (memPut name i (emb x) w, Inr ())),
      c_updateIfVersion = (\<lambda>i v f w. case Option.bind (memView w name i) proj of
          None \<Rightarrow> (w, Inr (False, None))
        | Some x \<Rightarrow> if ver x = v
            then (memPut name i (emb (setv (v + 1) (f x))) w, Inr (True, Some (setv (v + 1) (f x))))
            else (w, Inr (False, None)))\<rparr>"

definition memTransaction :: "db_op list \<Rightarrow> (mem, exn, unit) act" where
  "memTransaction ps w =
     (if list_all (\<lambda>p. (op_requireAbsent p \<longrightarrow> memView w (op_collection p) (op_id p) = None) \<and>
            (op_requirePresent p \<longrightarrow> memView w (op_collection p) (op_id p) \<noteq> None) \<and>
            (case op_expectedVersion p of None \<Rightarrow> True
             | Some v \<Rightarrow> Option.bind (memView w (op_collection p) (op_id p)) docVersion = Some v)) ps
      then (foldl (\<lambda>w p. memPut (op_collection p) (op_id p) (op_value p) w) w ps, Inr ())
      else (w, Inl (ConditionalConflictError ''conflict'')))"

definition memNow :: "mem \<Rightarrow> mem \<times> int" where
  "memNow w = (w, m_clock w)"

definition memUuid :: "mem \<Rightarrow> mem \<times> string" where
  "memUuid w = (w\<lparr>m_serial := Suc (m_serial w)\<rparr>, CHR ''u'' # natDigits (m_serial w))"

definition memBytes :: "nat \<Rightarrow> mem \<Rightarrow> mem \<times> string" where
  "memBytes n w = (w\<lparr>m_serial := Suc (m_serial w)\<rparr>, replicate n (char_of (m_serial w)))"

definition memEnv :: "mem env" where
  "memEnv =
     \<lparr>e_now = memNow, e_date = memNow, e_uuid = memUuid, e_randomBytes = memBytes,
      e_sleep = (\<lambda>ms w. w),
      e_scrypt = (\<lambda>x salt n. take n (x @ salt @ replicate n (CHR 0x00))),
      e_hmac = (\<lambda>key x. key @ x),
      e_dateParse = (\<lambda>_. None),
      e_localeLeq = strLeq,
      e_keys = memColl ''api_keys'' KeyDoc asKey ak_version (\<lambda>v. ak_version_update (\<lambda>_. v)),
      e_prefixes = memColl ''api_key_prefixes'' PrefixDoc asPrefix kp_version (\<lambda>v. kp_version_update (\<lambda>_. v)),
      e_keyEvents = memColl ''api_key_audit_events'' KeyEventDoc asKeyEvent (\<lambda>_. 0) (\<lambda>_ x. x),
      e_evidence = memColl ''service_effect_evidence'' EvidenceDoc asEvidence (\<lambda>_. 0) (\<lambda>_ x. x),
      e_evidenceQuery = (\<lambda>P n cur w. (w, Inr
        \<lparr>qp_records = take (nat n) (filter P (List.map_filter (\<lambda>((c, i), d). if c = ''service_effect_evidence'' then asEvidence d else None) (m_docs w))),
         qp_exhausted = True, qp_nextCursor = None\<rparr>)),
      e_jobs = memColl ''jobs'' JobDoc asJob jb_version (\<lambda>v. jb_version_update (\<lambda>_. v)),
      e_schedules = memColl ''job_schedules'' ScheduleDoc asSchedule sc_version (\<lambda>v. sc_version_update (\<lambda>_. v)),
      e_jobEvents = memColl ''job_audit_events'' JobEventDoc asJobEvent (\<lambda>_. 0) (\<lambda>_ x. x),
      e_files = memColl ''files'' FileDoc asFile fl_version (\<lambda>v. fl_version_update (\<lambda>_. v)),
      e_fileEvents = memColl ''file_audit_events'' FileEventDoc asFileEvent (\<lambda>_. 0) (\<lambda>_ x. x),
      e_endpoints = memColl ''webhook_endpoints'' EndpointDoc asEndpoint wp_version (\<lambda>v. wp_version_update (\<lambda>_. v)),
      e_deliveries = memColl ''webhook_deliveries'' DeliveryDoc asDelivery dv_version (\<lambda>v. dv_version_update (\<lambda>_. v)),
      e_deliveryQuery = (\<lambda>P n cur w. (w, Inr
        \<lparr>qp_records = take (nat n) (filter P (List.map_filter (\<lambda>((c, i), d). if c = ''webhook_deliveries'' then asDelivery d else None) (m_docs w))),
         qp_exhausted = True, qp_nextCursor = None\<rparr>)),
      e_integrations = memColl ''webhook_integrations'' IntegrationDoc asIntegration ig_version (\<lambda>v. ig_version_update (\<lambda>_. v)),
      e_webhookEvents = memColl ''webhook_audit_events'' WebhookEventDoc asWebhookEvent (\<lambda>_. 0) (\<lambda>_ x. x),
      e_sha256 = (\<lambda>x. x),
      e_jsonParse = (\<lambda>x. Some (JStr x)),
      e_transaction = memTransaction\<rparr>"

lemma map_of_remove: "k' \<noteq> k \<Longrightarrow> map_of (filter (\<lambda>e. fst e \<noteq> k) xs) k' = map_of xs k'"
  by (induction xs) auto

lemma memView_memPut: "memView (memPut name i d w) = putDoc (memView w) name i d"
  by (auto simp: memView_def memPut_def putDoc_def fun_eq_iff map_of_remove)

lemma stored_memColl:
  assumes "projects emb proj"
  shows "stored_collection memView name emb strip (memColl name emb proj ver setv)"
proof
  show "emb x = emb y \<longleftrightarrow> x = y" for x y using assms unfolding projects_def by (metis option.inject)
next
  fix P w w' xs x
  assume "c_find (memColl name emb proj ver setv) P w = (w', Inr xs)" "x \<in> set xs"
  then show "P x \<and> (\<exists>i. memView w name i = Some (emb x))"
    using assms by (fastforce simp: memColl_def projects_def map_filter_def split: if_splits)
qed (use assms in \<open>auto simp: memColl_def memView_memPut projects_def bind_eq_Some_conv\<close>)

lemma versioned_memColl:
  assumes "projects emb proj"
  shows "versioned_collection memView name emb strip (memColl name emb proj ver setv) ver setv"
proof -
  have inv: "Option.bind (memView w name i) proj = Some x \<longleftrightarrow> memView w name i = Some (emb x)" for w i x
    using assms by (auto simp: projects_def bind_eq_Some_conv)
  have emb: "emb x = emb y \<longleftrightarrow> x = y" for x y using assms unfolding projects_def by (metis option.inject)
  have "versioned_collection_axioms memView name emb (memColl name emb proj ver setv) ver setv"
  proof
    fix i v f w w' r
    assume "c_updateIfVersion (memColl name emb proj ver setv) i v f w = (w', Inr (True, r))"
    then show "\<exists>x n. memView w name i = Some (emb x) \<and> ver x = v \<and> v < n \<and>
          memView w' = putDoc (memView w) name i (emb (setv n (f x))) \<and> r = Some (setv n (f x))"
      by (auto simp: memColl_def memView_memPut inv split: option.splits if_splits
          intro!: exI [of _ "v + 1"])
  qed (use assms in \<open>auto simp: memColl_def inv emb projects_def split: option.splits if_splits\<close>)
  with stored_memColl [OF assms] show ?thesis by (simp add: versioned_collection_def)
qed

lemma memTransaction_ok:
  assumes "memTransaction ps w = (w', Inr u)"
  shows "(\<forall>p\<in>set ps. opHolds (memView w) p) \<and> memView w' = applyOps (memView w) ps"
proof -
  have "memView (foldl (\<lambda>w p. memPut (op_collection p) (op_id p) (op_value p) w) w ps) = applyOps (memView w) ps" for w
    by (induction ps arbitrary: w) (simp_all add: applyOps_def memView_memPut)
  then show ?thesis using assms
    by (auto simp: memTransaction_def list_all_iff opHolds_def bind_eq_Some_conv split: if_splits option.splits)
qed

interpretation memory: platform memEnv memView
proof (rule platform.intro)
  show "versioned_collection memView ''api_keys'' KeyDoc (ak_version_update (\<lambda>_. 0)) (e_keys memEnv)
      ak_version (\<lambda>v. ak_version_update (\<lambda>_. v))"
    "versioned_collection memView ''jobs'' JobDoc (jb_version_update (\<lambda>_. 0)) (e_jobs memEnv)
      jb_version (\<lambda>v. jb_version_update (\<lambda>_. v))"
    "versioned_collection memView ''job_schedules'' ScheduleDoc (sc_version_update (\<lambda>_. 0)) (e_schedules memEnv)
      sc_version (\<lambda>v. sc_version_update (\<lambda>_. v))"
    "versioned_collection memView ''files'' FileDoc (fl_version_update (\<lambda>_. 0)) (e_files memEnv)
      fl_version (\<lambda>v. fl_version_update (\<lambda>_. v))"
    "versioned_collection memView ''webhook_endpoints'' EndpointDoc (wp_version_update (\<lambda>_. 0)) (e_endpoints memEnv)
      wp_version (\<lambda>v. wp_version_update (\<lambda>_. v))"
    "versioned_collection memView ''webhook_deliveries'' DeliveryDoc (dv_version_update (\<lambda>_. 0)) (e_deliveries memEnv)
      dv_version (\<lambda>v. dv_version_update (\<lambda>_. v))"
    "versioned_collection memView ''webhook_integrations'' IntegrationDoc (ig_version_update (\<lambda>_. 0)) (e_integrations memEnv)
      ig_version (\<lambda>v. ig_version_update (\<lambda>_. v))"
    by (simp_all add: memEnv_def versioned_memColl projections)
  show "stored_collection memView ''api_key_prefixes'' PrefixDoc (kp_version_update (\<lambda>_. 0)) (e_prefixes memEnv)"
    "stored_collection memView ''api_key_audit_events'' KeyEventDoc id (e_keyEvents memEnv)"
    "stored_collection memView ''service_effect_evidence'' EvidenceDoc (ev_version_update (\<lambda>_. None)) (e_evidence memEnv)"
    "stored_collection memView ''job_audit_events'' JobEventDoc id (e_jobEvents memEnv)"
    "stored_collection memView ''file_audit_events'' FileEventDoc id (e_fileEvents memEnv)"
    "stored_collection memView ''webhook_audit_events'' WebhookEventDoc id (e_webhookEvents memEnv)"
    by (simp_all add: memEnv_def stored_memColl projections)
  show "comparator (e_localeLeq memEnv)" by (simp add: memEnv_def codeUnits.comparator_axioms)
next
  fix ps w w' u
  assume "e_transaction memEnv ps w = (w', Inr u)"
  then show "(\<forall>p\<in>set ps. opHolds (memView w) p) \<and> memView w' = applyOps (memView w) ps"
    by (simp add: memEnv_def memTransaction_ok)
qed (auto simp: memEnv_def memNow_def memUuid_def memBytes_def memView_def memTransaction_def fun_eq_iff
    split: if_splits)

end
