(* ===== verification/Restrictions.thy ===== *)
theory Restrictions
  imports Authority "HOL-Library.AList"
begin

text \<open>
  The ceiling of an API key (\<open>api-keys/restrictions.ts\<close>): validation and canonical form of
  caller-supplied restrictions, whether they permit an operation, and whether one ceiling lies
  within another.
\<close>

section \<open>Validation\<close>

definition MAX_CAPABILITIES :: nat where "MAX_CAPABILITIES = 64"
definition MAX_RESOURCE_RULES :: nat where "MAX_RESOURCE_RULES = 64"
definition MAX_ATTRIBUTES :: nat where "MAX_ATTRIBUTES = 16"
definition MAX_TEXT :: nat where "MAX_TEXT = 256"

definition CAPABILITIES :: "'w env \<Rightarrow> string list" where
  "CAPABILITIES E = map cp_name (filter cp_invocable (SERVICE_CAPABILITY_MANIFEST E))"

definition RESOURCE_TYPES :: "'w env \<Rightarrow> string list" where
  "RESOURCE_TYPES E = map cp_resource (SERVICE_CAPABILITY_MANIFEST E)"

definition textValue :: "jsval \<Rightarrow> string \<Rightarrow> exn + string" where
  "textValue v property =
     (let bad = Inl (invalidRequest (property @ '' must be a non-empty string of at most 256 characters'')) in
      case v of JStr x \<Rightarrow> if trim x = [] \<or> MAX_TEXT < length x then bad else Inr x | _ \<Rightarrow> bad)"

text \<open>A plain object's own properties; a \<open>Date\<close> is an object with none.\<close>

definition objectOf :: "jsval \<Rightarrow> jsobj option" where
  "objectOf v = (case v of JObj ob \<Rightarrow> Some ob | JDate _ \<Rightarrow> Some [] | _ \<Rightarrow> None)"

definition unsupportedKey :: "string list \<Rightarrow> jsobj \<Rightarrow> string option" where
  "unsupportedKey allowed ob = (case filter (\<lambda>k. k \<notin> set allowed) (map fst ob) of [] \<Rightarrow> None | k # _ \<Rightarrow> Some k)"

definition attributeEntry :: "string \<Rightarrow> string \<times> jsval \<Rightarrow> exn + string \<times> string" where
  "attributeEntry at e = (case e of (k, a) \<Rightarrow>
     bindR (textValue (JStr k) (at @ ''.attributes key'')) (\<lambda>k.
     bindR (textValue a (at @ ''.attributes.'' @ k)) (\<lambda>a. Inr (k, a))))"

text \<open>
  Assignment into a plain object: \<open>__proto__\<close> names the prototype, which a text cannot replace, so
  nothing is stored; another key keeps its place when it is assigned again. The own properties of an
  object are listed with the array indices first, in ascending order.
\<close>

definition arrayIndex :: "string \<Rightarrow> nat option" where
  "arrayIndex k = (let n = nat (unpad k) in if natDigits n = k \<and> n \<le> 4294967294 then Some n else None)"

definition assignProperty :: "string \<times> string \<Rightarrow> (string \<times> string) list \<Rightarrow> (string \<times> string) list" where
  "assignProperty e ob = (if fst e = ''__proto__'' then ob else AList.update (fst e) (snd e) ob)"

definition isIndexed :: "string \<times> string \<Rightarrow> bool" where
  "isIndexed e \<longleftrightarrow> arrayIndex (fst e) \<noteq> None"

definition indexLeq :: "string \<times> string \<Rightarrow> string \<times> string \<Rightarrow> bool" where
  "indexLeq = (\<lambda>x y. the (arrayIndex (fst x)) \<le> the (arrayIndex (fst y)))"

definition propertyOrder :: "(string \<times> string) list \<Rightarrow> (string \<times> string) list" where
  "propertyOrder ob = sortBy indexLeq (filter isIndexed ob) @ filter (\<lambda>e. \<not> isIndexed e) ob"

definition assignedObject :: "(string \<times> string) list \<Rightarrow> (string \<times> string) list" where
  "assignedObject entries = propertyOrder (fold assignProperty entries [])"

definition keyLeq :: "'w env \<Rightarrow> string \<times> 'a \<Rightarrow> string \<times> 'a \<Rightarrow> bool" where
  "keyLeq E = (\<lambda>x y. e_localeLeq E (fst x) (fst y))"

definition normalizeAttributes :: "'w env \<Rightarrow> string \<Rightarrow> jsval \<Rightarrow> exn + (string \<times> string) list option" where
  "normalizeAttributes E at v = (case v of
      JUndef \<Rightarrow> Inr None
    | _ \<Rightarrow> (case objectOf v of
        None \<Rightarrow> Inl (invalidRequest (at @ ''.attributes must be an object of strings''))
      | Some entries \<Rightarrow>
          if MAX_ATTRIBUTES < length entries
          then Inl (invalidRequest (at @ ''.attributes allows at most 16 entries''))
          else bindR (mapR (attributeEntry at) (sortBy (keyLeq E) entries)) (\<lambda>attributes.
               Inr (if entries = [] then None else Some (assignedObject attributes)))))"

definition normalizeRuleType :: "'w env \<Rightarrow> string \<Rightarrow> jsval \<Rightarrow> exn + string option" where
  "normalizeRuleType E at v = (case v of
      JUndef \<Rightarrow> Inr None
    | JStr x \<Rightarrow> if x \<in> set (RESOURCE_TYPES E) then Inr (Some x)
        else Inl (invalidRequest (at @ ''.type: \"'' @ x @ ''\" is not a resource type in the service manifest''))
    | _ \<Rightarrow> Inl (invalidRequest (at @ ''.type: \"'' @ jsString v @ ''\" is not a resource type in the service manifest'')))"

definition normalizeRule :: "'w env \<Rightarrow> nat \<Rightarrow> jsval \<Rightarrow> exn + resource_rule" where
  "normalizeRule E index v =
     (let at = ''restrictions.resources['' @ natDigits index @ '']'' in
      case objectOf v of
        None \<Rightarrow> Inl (invalidRequest (at @ '' must be an object''))
      | Some rule \<Rightarrow>
         (case unsupportedKey [''type'', ''id'', ''attributes''] rule of
            Some key \<Rightarrow> Inl (invalidRequest (at @ ''.'' @ key @ '' is not supported''))
          | None \<Rightarrow>
              bindR (normalizeRuleType E at (propOf rule ''type'')) (\<lambda>type.
              bindR (if propOf rule ''id'' = JUndef then Inr None
                     else bindR (textValue (propOf rule ''id'') (at @ ''.id'')) (\<lambda>x. Inr (Some x))) (\<lambda>id.
              bindR (normalizeAttributes E at (propOf rule ''attributes'')) (\<lambda>attributes.
              if type = None \<and> id = None \<and> attributes = None
              then Inl (invalidRequest (at @ '' must set at least one of type, id, or attributes''))
              else Inr \<lparr>rl_type = type, rl_id = id, rl_attributes = attributes\<rparr>)))))"

fun normalizeRules :: "'w env \<Rightarrow> nat \<Rightarrow> jsval list \<Rightarrow> exn + resource_rule list" where
  "normalizeRules E index [] = Inr []"
| "normalizeRules E index (v # vs) =
     bindR (normalizeRule E index v) (\<lambda>rule. bindR (normalizeRules E (Suc index) vs) (\<lambda>rules. Inr (rule # rules)))"

definition capabilityName :: "'w env \<Rightarrow> jsval \<Rightarrow> exn + string" where
  "capabilityName E v =
     (let bad = Inl (invalidRequest (''restrictions.capabilities: \"'' @ jsString v @
            ''\" is not an invocable capability in the service manifest'')) in
      case v of JStr x \<Rightarrow> if x \<in> set (CAPABILITIES E) then Inr x else bad | _ \<Rightarrow> bad)"

definition normalizeCapabilities :: "'w env \<Rightarrow> jsval \<Rightarrow> exn + string list" where
  "normalizeCapabilities E v = (case v of
      JArr caps \<Rightarrow>
        if MAX_CAPABILITIES < length caps
        then Inl (invalidRequest ''restrictions.capabilities allows at most 64 entries'')
        else bindR (mapR (capabilityName E) caps) (\<lambda>names. Inr (sortBy strLeq (uniq names)))
    | _ \<Rightarrow> Inl (invalidRequest ''restrictions.capabilities must be an array of capability names''))"

definition normalizeResources :: "'w env \<Rightarrow> jsval \<Rightarrow> exn + resource_rule list option" where
  "normalizeResources E v = (case v of
      JUndef \<Rightarrow> Inr None
    | JArr rules \<Rightarrow>
        if MAX_RESOURCE_RULES < length rules
        then Inl (invalidRequest ''restrictions.resources allows at most 64 rules'')
        else bindR (normalizeRules E 0 rules) (\<lambda>resources. Inr (Some resources))
    | _ \<Rightarrow> Inl (invalidRequest ''restrictions.resources must be an array of resource rules''))"

definition normalizeRestrictions :: "'w env \<Rightarrow> jsval \<Rightarrow> exn + key_restrictions" where
  "normalizeRestrictions E v = (case objectOf v of
      None \<Rightarrow> Inl (invalidRequest ''restrictions must be an object'')
    | Some input \<Rightarrow>
       (case unsupportedKey [''capabilities'', ''resources''] input of
          Some key \<Rightarrow> Inl (invalidRequest (''restrictions.'' @ key @ '' is not supported''))
        | None \<Rightarrow>
            bindR (normalizeCapabilities E (propOf input ''capabilities'')) (\<lambda>capabilities.
            bindR (normalizeResources E (propOf input ''resources'')) (\<lambda>resources.
            Inr \<lparr>kr_capabilities = capabilities, kr_resources = resources\<rparr>))))"

section \<open>Permission and containment\<close>

definition ruleAttributes :: "resource_rule \<Rightarrow> (string \<times> string) list" where
  "ruleAttributes rule = (case rl_attributes rule of None \<Rightarrow> [] | Some as \<Rightarrow> as)"

definition ruleMatches :: "resource_rule \<Rightarrow> resource \<Rightarrow> bool" where
  "ruleMatches rule r \<longleftrightarrow>
     \<not> (rl_type rule \<noteq> None \<and> rl_type rule \<noteq> Some (rs_type r)) \<and>
     \<not> (rl_id rule \<noteq> None \<and> rl_id rule \<noteq> rs_id r) \<and>
     list_all (\<lambda>(k, v). attribute r k = Some v) (ruleAttributes rule)"

definition restrictionsPermit :: "key_restrictions option \<Rightarrow> string \<Rightarrow> resource \<Rightarrow> bool" where
  "restrictionsPermit restrictions capability r = (case restrictions of
      None \<Rightarrow> True
    | Some k \<Rightarrow> if capability \<notin> set (kr_capabilities k) then False
        else (case kr_resources k of None \<Rightarrow> True | Some rules \<Rightarrow> list_ex (\<lambda>rule. ruleMatches rule r) rules))"

definition ruleNarrows :: "resource_rule \<Rightarrow> resource_rule \<Rightarrow> bool" where
  "ruleNarrows inner outer \<longleftrightarrow>
     \<not> (rl_type outer \<noteq> None \<and> rl_type inner \<noteq> rl_type outer) \<and>
     \<not> (rl_id outer \<noteq> None \<and> rl_id inner \<noteq> rl_id outer) \<and>
     list_all (\<lambda>(k, v). map_of (ruleAttributes inner) k = Some v) (ruleAttributes outer)"

definition restrictionsWithin :: "key_restrictions option \<Rightarrow> key_restrictions option \<Rightarrow> bool" where
  "restrictionsWithin child parent = (case parent of
      None \<Rightarrow> True
    | Some p \<Rightarrow> (case child of
        None \<Rightarrow> False
      | Some c \<Rightarrow> if \<not> list_all (\<lambda>x. x \<in> set (kr_capabilities p)) (kr_capabilities c) then False
          else (case kr_resources p of
            None \<Rightarrow> True
          | Some outers \<Rightarrow> (case kr_resources c of
              None \<Rightarrow> False
            | Some inners \<Rightarrow> list_all (\<lambda>rule. list_ex (\<lambda>outer. ruleNarrows rule outer) outers) inners))))"

section \<open>Containment is sound\<close>

lemma ruleNarrows_matches: "ruleNarrows inner outer \<Longrightarrow> ruleMatches inner r \<Longrightarrow> ruleMatches outer r"
  by (auto simp: ruleNarrows_def ruleMatches_def list_all_iff dest!: map_of_SomeD)

lemma ruleNarrows_trans: "ruleNarrows a b \<Longrightarrow> ruleNarrows b c \<Longrightarrow> ruleNarrows a c"
  by (auto simp: ruleNarrows_def list_all_iff dest!: map_of_SomeD)

lemma ruleNarrows_refl: "distinct (map fst (ruleAttributes rule)) \<Longrightarrow> ruleNarrows rule rule"
  by (auto simp: ruleNarrows_def list_all_iff)

lemma within_cases:
  assumes "restrictionsWithin child parent"
  obtains (unrestricted) "parent = None" | (both) c p where "child = Some c" "parent = Some p"
  using assms by (cases parent; cases child) (auto simp: restrictionsWithin_def)

lemma within_permits:
  assumes "restrictionsWithin child parent" and "restrictionsPermit child cap r"
  shows "restrictionsPermit parent cap r"
  using assms(1)
proof (cases rule: within_cases)
  case (both c p)
  then show ?thesis
    using assms unfolding both restrictionsWithin_def restrictionsPermit_def
    by (auto simp: list_all_iff list_ex_iff split: option.splits if_splits) (metis ruleNarrows_matches)
qed (simp add: restrictionsPermit_def)

lemma within_trans:
  assumes "restrictionsWithin a b" and "restrictionsWithin b c"
  shows "restrictionsWithin a c"
  using assms(2)
proof (cases rule: within_cases)
  case (both q p)
  then show ?thesis
    using assms unfolding both restrictionsWithin_def
    by (auto simp: list_all_iff list_ex_iff split: option.splits if_splits) (metis ruleNarrows_trans)+
qed (simp add: restrictionsWithin_def)

text \<open>
  C13: containment of ceilings means what it is used for. When a key's restrictions lie within
  those of the key that manages it, every operation on every resource that the first permits is
  permitted by the second; and a chain of such steps never widens.
\<close>

lemma restrictions_within_sound:
  assumes "restrictionsWithin child parent"
  shows "(restrictionsPermit child capability r \<longrightarrow> restrictionsPermit parent capability r) \<and>
     (restrictionsWithin grandchild child \<longrightarrow> restrictionsWithin grandchild parent)"
  using within_permits [OF assms] within_trans [OF _ assms] by blast

section \<open>Canonical form\<close>

definition goodText :: "string \<Rightarrow> bool" where
  "goodText x \<longleftrightarrow> trim x \<noteq> [] \<and> length x \<le> MAX_TEXT"

definition canonicalAttributes :: "'w env \<Rightarrow> (string \<times> string) list \<Rightarrow> bool" where
  "canonicalAttributes E as \<longleftrightarrow>
     length as \<le> MAX_ATTRIBUTES \<and> distinct (map fst as) \<and> ''__proto__'' \<notin> fst ` set as \<and>
     list_all (\<lambda>(k, v). goodText k \<and> goodText v) as \<and> as = filter isIndexed as @ filter (\<lambda>e. \<not> isIndexed e) as \<and>
     sorted_wrt indexLeq (filter isIndexed as) \<and> sorted_wrt (keyLeq E) (filter (\<lambda>e. \<not> isIndexed e) as)"

definition goodTarget :: "'w env \<Rightarrow> resource_rule \<Rightarrow> bool" where
  "goodTarget E rule \<longleftrightarrow>
     (case rl_type rule of None \<Rightarrow> True | Some x \<Rightarrow> x \<in> set (RESOURCE_TYPES E)) \<and>
     (case rl_id rule of None \<Rightarrow> True | Some x \<Rightarrow> goodText x)"

definition canonicalRule :: "'w env \<Rightarrow> resource_rule \<Rightarrow> bool" where
  "canonicalRule E rule \<longleftrightarrow>
     (rl_type rule \<noteq> None \<or> rl_id rule \<noteq> None \<or> rl_attributes rule \<noteq> None) \<and> goodTarget E rule \<and>
     (case rl_attributes rule of None \<Rightarrow> True | Some as \<Rightarrow> as \<noteq> [] \<and> canonicalAttributes E as)"

text \<open>A submitted rule whose attributes are all called \<open>__proto__\<close> loses them.\<close>

definition onlyProto :: "jsval \<Rightarrow> bool" where
  "onlyProto v \<longleftrightarrow> (case objectOf v of None \<Rightarrow> False
     | Some rule \<Rightarrow> (case objectOf (propOf rule ''attributes'') of None \<Rightarrow> False
        | Some entries \<Rightarrow> entries \<noteq> [] \<and> list_all (\<lambda>e. fst e = ''__proto__'') entries))"

definition normalRule :: "'w env \<Rightarrow> jsval \<Rightarrow> resource_rule \<Rightarrow> bool" where
  "normalRule E v rule \<longleftrightarrow>
     (if onlyProto v then goodTarget E rule \<and> rl_attributes rule = Some [] else canonicalRule E rule)"

definition submittedRules :: "jsval \<Rightarrow> jsval list" where
  "submittedRules v = (case objectOf v of None \<Rightarrow> []
     | Some input \<Rightarrow> (case propOf input ''resources'' of JArr rules \<Rightarrow> rules | _ \<Rightarrow> []))"

definition canonicalCapabilities :: "'w env \<Rightarrow> string list \<Rightarrow> bool" where
  "canonicalCapabilities E caps \<longleftrightarrow>
     set caps \<subseteq> set (CAPABILITIES E) \<and> distinct caps \<and> sorted_wrt strLeq caps \<and> length caps \<le> MAX_CAPABILITIES"

definition canonicalRestrictions :: "'w env \<Rightarrow> key_restrictions \<Rightarrow> bool" where
  "canonicalRestrictions E k \<longleftrightarrow> canonicalCapabilities E (kr_capabilities k) \<and>
     (case kr_resources k of None \<Rightarrow> True
      | Some rules \<Rightarrow> length rules \<le> MAX_RESOURCE_RULES \<and> list_all (canonicalRule E) rules)"

text \<open>Restrictions written as the value a caller would submit.\<close>

definition attributesJson :: "(string \<times> string) list option \<Rightarrow> jsobj" where
  "attributesJson v = (case v of None \<Rightarrow> [] | Some as \<Rightarrow> [(''attributes'', JObj (map (\<lambda>(k, v). (k, JStr v)) as))])"

definition ruleJson :: "resource_rule \<Rightarrow> jsval" where
  "ruleJson rule = JObj ((case rl_type rule of None \<Rightarrow> [] | Some x \<Rightarrow> [(''type'', JStr x)]) @
     (case rl_id rule of None \<Rightarrow> [] | Some x \<Rightarrow> [(''id'', JStr x)]) @ attributesJson (rl_attributes rule))"

definition restrictionsJson :: "key_restrictions \<Rightarrow> jsval" where
  "restrictionsJson k = JObj ((''capabilities'', JArr (map JStr (kr_capabilities k))) #
     (case kr_resources k of None \<Rightarrow> [] | Some rules \<Rightarrow> [(''resources'', JArr (map ruleJson rules))]))"

lemma textValue_Inr: "textValue v p = Inr x \<longleftrightarrow> v = JStr x \<and> goodText x"
  by (cases v) (auto simp: textValue_def goodText_def)

lemma capabilityName_Inr: "capabilityName E v = Inr x \<longleftrightarrow> v = JStr x \<and> x \<in> set (CAPABILITIES E)"
  by (cases v) (auto simp: capabilityName_def)

lemma attributeEntry_Inr:
  "attributeEntry at e = Inr y \<longleftrightarrow> e = (fst y, JStr (snd y)) \<and> goodText (fst y) \<and> goodText (snd y)"
  by (cases e; cases y) (auto simp: attributeEntry_def bindR_Inr_iff textValue_Inr)

lemma comparator_fst: "comparator (e_localeLeq E) \<Longrightarrow> comparator (keyLeq E)"
  by (auto simp: comparator_def keyLeq_def)

interpretation indices: comparator indexLeq
  by unfold_locales (auto simp: indexLeq_def)

lemma mapR_attributes:
  "mapR (attributeEntry at) es = Inr as \<longleftrightarrow>
     es = map (\<lambda>(k, v). (k, JStr v)) as \<and> list_all (\<lambda>(k, v). goodText k \<and> goodText v) as"
  unfolding mapR_Inr_iff attributeEntry_Inr
  by (induction es as rule: list_induct2') auto

lemma normalizeAttributes_Some:
  "normalizeAttributes E at v = Inr (Some ob) \<longleftrightarrow>
     (\<exists>entries as. objectOf v = Some entries \<and> entries \<noteq> [] \<and> length entries \<le> MAX_ATTRIBUTES \<and>
        sortBy (keyLeq E) entries = map (\<lambda>(k, v). (k, JStr v)) as \<and>
        list_all (\<lambda>(k, v). goodText k \<and> goodText v) as \<and> ob = assignedObject as)"
  by (cases v) (auto simp: normalizeAttributes_def objectOf_def bindR_Inr_iff mapR_attributes linorder_not_less
      split: if_splits)

subsection \<open>Properties of an assigned object\<close>

lemma update_new: "k \<notin> fst ` set ob \<Longrightarrow> AList.update k v ob = ob @ [(k, v)]"
  by (induction ob) auto

lemma set_update: "set (AList.update k v ob) \<subseteq> insert (k, v) (set ob)"
  by (induction ob) auto

lemma assigned_distinct:
  "distinct (map fst (ob @ es)) \<Longrightarrow> ''__proto__'' \<notin> fst ` set es \<Longrightarrow> fold assignProperty es ob = ob @ es"
proof (induction es arbitrary: ob)
  case (Cons e es)
  moreover from Cons.prems have "assignProperty e ob = ob @ [e]"
    by (auto simp: assignProperty_def update_new)
  ultimately show ?case by simp
qed simp

lemma assigned_keys: "fst ` set (fold assignProperty es ob) = fst ` set ob \<union> (fst ` set es - {''__proto__''})"
proof (induction es arbitrary: ob)
  case (Cons e es)
  have "fst ` set (assignProperty e ob) = fst ` set ob \<union> ({fst e} - {''__proto__''})"
    by (auto simp: assignProperty_def dom_update)
  then show ?case using Cons.IH by auto
qed simp

lemma assigned_invariant:
  assumes "distinct (map fst ob)" and "list_all P ob" and "list_all P es"
  shows "distinct (map fst (fold assignProperty es ob)) \<and> list_all P (fold assignProperty es ob) \<and>
     length (fold assignProperty es ob) \<le> length ob + length es"
  using assms
proof (induction es arbitrary: ob)
  case (Cons e es)
  have "distinct (map fst (assignProperty e ob)) \<and> list_all P (assignProperty e ob) \<and> length (assignProperty e ob) \<le> Suc (length ob)"
    using Cons.prems set_update [of "fst e" "snd e" ob] arg_cong [OF update_keys [of "fst e" "snd e" ob], of length]
    by (auto simp: assignProperty_def distinct_update list_all_iff split: if_splits)
  then show ?case using Cons.IH [of "assignProperty e ob"] Cons.prems by fastforce
qed simp

lemma assigned_sorted:
  assumes "comparator (e_localeLeq E)" and "sorted_wrt (keyLeq E) (ob @ es)"
  shows "sorted_wrt (keyLeq E) (fold assignProperty es ob)"
  using assms(2)
proof (induction es arbitrary: ob)
  case (Cons e es)
  have keys: "sorted_wrt (keyLeq E) xs \<longleftrightarrow> sorted_wrt (e_localeLeq E) (map fst xs)" for xs :: "(string \<times> string) list"
    by (simp add: sorted_wrt_map keyLeq_def)
  have "sorted_wrt (keyLeq E) (assignProperty e ob @ es)" if "fst e \<noteq> ''__proto__''"
    using Cons.prems that unfolding keys
    by (simp add: assignProperty_def update_keys sorted_wrt_append)
  then show ?case using Cons.IH Cons.prems by (cases "fst e = ''__proto__''") (auto simp: assignProperty_def sorted_wrt_append)
qed simp

lemma filter_insertBy:
  assumes "comparator leq" and "sorted_wrt leq ys"
  shows "filter P (insertBy leq x ys) = (if P x then insertBy leq x (filter P ys) else filter P ys)"
  using assms(2)
proof (induction ys)
  case (Cons y ys)
  have "insertBy leq x (filter P ys) = x # filter P ys" if "leq x y"
    using Cons.prems that comparator.trans [OF assms(1) that] by (cases "filter P ys") (auto dest: filter_eq_ConsD)
  then show ?case using Cons by auto
qed simp

lemma filter_sortBy:
  assumes "comparator leq"
  shows "filter P (sortBy leq xs) = sortBy leq (filter P xs)"
  by (induction xs) (simp_all add: filter_insertBy [OF assms] comparator.sorted_sortBy [OF assms])

lemma arrayIndex_inj: "arrayIndex k = Some n \<Longrightarrow> k = natDigits n"
  by (auto simp: arrayIndex_def Let_def split: if_splits)

lemma sorted_indices:
  assumes "mset xs = mset ys" and "sorted_wrt indexLeq ys" and "distinct (map fst ys)" and "\<forall>y\<in>set ys. isIndexed y"
  shows "sortBy indexLeq xs = ys"
proof -
  let ?f = "\<lambda>e. the (arrayIndex (fst e))"
  have "inj_on fst (set ys)" using assms(3) by (simp add: distinct_map)
  then have inj: "inj_on ?f (set ys)"
    unfolding inj_on_def
  proof (intro ballI impI)
    fix x y
    assume xy: "x \<in> set ys" "y \<in> set ys" "?f x = ?f y"
    then obtain n where "arrayIndex (fst x) = Some n" "arrayIndex (fst y) = Some n"
      using assms(4) by (fastforce simp: isIndexed_def)
    then have "fst x = fst y" using arrayIndex_inj by metis
    then show "x = y" using \<open>inj_on fst (set ys)\<close> xy by (simp add: inj_on_def)
  qed
  have "sorted (map ?f ys)" "sorted (map ?f (sortBy indexLeq xs))"
    using assms(2) indices.sorted_sortBy [of xs] by (simp_all add: sorted_wrt_map indexLeq_def)
  moreover have "mset (sortBy indexLeq xs) = mset ys" using assms(1) by simp
  ultimately show ?thesis
    using sort_key_inj_key_eq [OF _ inj] sort_key_inj_key_eq [OF refl inj] by metis
qed

lemma filter_propertyOrder:
  "filter isIndexed (propertyOrder ob) = sortBy indexLeq (filter isIndexed ob)"
  "filter (\<lambda>e. \<not> isIndexed e) (propertyOrder ob) = filter (\<lambda>e. \<not> isIndexed e) ob"
  by (simp_all add: propertyOrder_def filter_sortBy [OF indices.comparator_axioms] comp_def)

lemma mset_propertyOrder: "mset (propertyOrder ob) = mset ob"
  by (simp add: propertyOrder_def)

lemma normalizeRuleType_Inr:
  "normalizeRuleType E at v = Inr x \<longleftrightarrow>
     v = JUndef \<and> x = None \<or> (\<exists>y. v = JStr y \<and> x = Some y \<and> y \<in> set (RESOURCE_TYPES E))"
  by (cases v) (auto simp: normalizeRuleType_def)

lemma normalizeAttributes_canonical:
  assumes "comparator (e_localeLeq E)" and "normalizeAttributes E at v = Inr (Some as)"
  shows "canonicalAttributes E as"
    and "\<exists>entries. objectOf v = Some entries \<and> entries \<noteq> [] \<and> (as = [] \<longleftrightarrow> list_all (\<lambda>e. fst e = ''__proto__'') entries)"
proof -
  obtain entries es where es: "objectOf v = Some entries" "entries \<noteq> []" "length entries \<le> MAX_ATTRIBUTES"
      "sortBy (keyLeq E) entries = map (\<lambda>(k, v). (k, JStr v)) es"
    and good: "list_all (\<lambda>(k, v). goodText k \<and> goodText v) es" and as: "as = assignedObject es"
    using assms(2) unfolding normalizeAttributes_Some by blast
  let ?ob = "fold assignProperty es []"
  have "sorted_wrt (keyLeq E) (map (\<lambda>(k, v). (k, JStr v)) es)"
    using comparator.sorted_sortBy [OF comparator_fst [OF assms(1)], of entries] es(4) by simp
  then have sorted: "sorted_wrt (keyLeq E) ?ob"
    by (intro assigned_sorted [OF assms(1)]) (simp add: sorted_wrt_map case_prod_beta keyLeq_def)
  have len: "length es = length entries" using arg_cong [OF es(4), of length] by simp
  have same: "set as = set ?ob" "length as = length ?ob" "distinct (map fst as) = distinct (map fst ?ob)"
    using mset_propertyOrder [of ?ob] unfolding as assignedObject_def
    by (metis set_mset_mset, metis size_mset, metis mset_map mset_eq_imp_distinct_iff)
  have parts: "filter isIndexed as = sortBy indexLeq (filter isIndexed ?ob)"
      "filter (\<lambda>e. \<not> isIndexed e) as = filter (\<lambda>e. \<not> isIndexed e) ?ob"
    unfolding as assignedObject_def filter_propertyOrder by simp_all
  then have split: "as = filter isIndexed as @ filter (\<lambda>e. \<not> isIndexed e) as"
    by (simp add: as assignedObject_def propertyOrder_def)
  have ob: "distinct (map fst ?ob)" "list_all (\<lambda>(k, v). goodText k \<and> goodText v) ?ob" "length ?ob \<le> length es"
    using assigned_invariant [of "[]", OF _ _ good] by simp_all
  have proto: "''__proto__'' \<notin> fst ` set ?ob" using assigned_keys [of es "[]"] by simp
  show "canonicalAttributes E as"
    unfolding canonicalAttributes_def list_all_iff
  proof (intro conjI)
    show "as = filter isIndexed as @ filter (\<lambda>e. \<not> isIndexed e) as" by (rule split)
    show "sorted_wrt indexLeq (filter isIndexed as)" unfolding parts by (rule indices.sorted_sortBy)
    show "sorted_wrt (keyLeq E) (filter (\<lambda>e. \<not> isIndexed e) as)"
      using sorted unfolding parts by (simp add: sorted_wrt_filter)
  qed (use same ob proto len es(3) in \<open>simp_all add: list_all_iff\<close>)
  have "fst ` set es = fst ` set entries" using arg_cong [OF es(4), of "\<lambda>xs. fst ` set xs"] by (simp add: image_image case_prod_beta)
  then have "fst ` set as = fst ` set entries - {''__proto__''}"
    using assigned_keys [of es "[]"] same(1) by simp
  then have "set as = {} \<longleftrightarrow> fst ` set entries \<subseteq> {''__proto__''}"
    by (metis Diff_eq_empty_iff image_is_empty)
  then show "\<exists>entries. objectOf v = Some entries \<and> entries \<noteq> [] \<and> (as = [] \<longleftrightarrow> list_all (\<lambda>e. fst e = ''__proto__'') entries)"
    using es by (auto simp: list_all_iff)
qed

lemma normalizeRule_Inr:
  assumes "normalizeRule E i v = Inr rule"
  obtains at ob where "objectOf v = Some ob" "normalizeRuleType E at (propOf ob ''type'') = Inr (rl_type rule)"
    "\<And>x. rl_id rule = Some x \<Longrightarrow> goodText x" "normalizeAttributes E at (propOf ob ''attributes'') = Inr (rl_attributes rule)"
    "rl_type rule \<noteq> None \<or> rl_id rule \<noteq> None \<or> rl_attributes rule \<noteq> None"
  using assms unfolding normalizeRule_def Let_def
  by (auto simp: bindR_Inr_iff textValue_Inr split: option.splits if_splits)

lemma normalizeAttributes_None:
  "normalizeAttributes E at v = Inr None \<Longrightarrow> v = JUndef \<or> objectOf v = Some []"
  by (cases v) (auto simp: normalizeAttributes_def objectOf_def bindR_Inr_iff split: if_splits)

lemma normalizeRule_canonical:
  assumes "comparator (e_localeLeq E)" and "normalizeRule E i v = Inr rule"
  shows "normalRule E v rule"
  using assms(2)
proof (rule normalizeRule_Inr)
  fix at ob
  assume rule: "objectOf v = Some ob" "normalizeRuleType E at (propOf ob ''type'') = Inr (rl_type rule)"
    "\<And>x. rl_id rule = Some x \<Longrightarrow> goodText x" "normalizeAttributes E at (propOf ob ''attributes'') = Inr (rl_attributes rule)"
    "rl_type rule \<noteq> None \<or> rl_id rule \<noteq> None \<or> rl_attributes rule \<noteq> None"
  have target: "goodTarget E rule"
    using rule(2,3) unfolding goodTarget_def normalizeRuleType_Inr by (auto split: option.splits)
  show ?thesis
  proof (cases "rl_attributes rule")
    case None
    then have "\<not> onlyProto v"
      using normalizeAttributes_None rule(1,4) by (fastforce simp: onlyProto_def objectOf_def)
    then show ?thesis using None target rule(5) by (simp add: normalRule_def canonicalRule_def)
  next
    case (Some as)
    then have "onlyProto v \<longleftrightarrow> as = []"
      using normalizeAttributes_canonical(2) [OF assms(1)] rule(1,4) by (fastforce simp: onlyProto_def)
    then show ?thesis
      using Some target normalizeAttributes_canonical(1) [OF assms(1)] rule(4) by (simp add: normalRule_def canonicalRule_def)
  qed
qed

lemma normalizeRules_canonical:
  "comparator (e_localeLeq E) \<Longrightarrow> normalizeRules E i vs = Inr rules \<Longrightarrow> list_all2 (normalRule E) vs rules"
  by (induction vs arbitrary: i rules) (auto simp: bindR_Inr_iff dest: normalizeRule_canonical)

lemma normalizeResources_canonical:
  "comparator (e_localeLeq E) \<Longrightarrow> normalizeResources E v = Inr (Some rules) \<Longrightarrow>
   length rules \<le> MAX_RESOURCE_RULES \<and> list_all2 (normalRule E) (case v of JArr vs \<Rightarrow> vs | _ \<Rightarrow> []) rules"
  by (cases v) (auto simp: normalizeResources_def bindR_Inr_iff dest!: normalizeRules_canonical dest: list_all2_lengthD split: if_splits)

lemma normalizeCapabilities_canonical:
  assumes "normalizeCapabilities E v = Inr caps"
  shows "canonicalCapabilities E caps"
proof -
  obtain vs names where m: "mapR (capabilityName E) vs = Inr names" "length vs \<le> MAX_CAPABILITIES"
    and caps: "caps = sortBy strLeq (uniq names)"
    using assms by (cases v) (auto simp: normalizeCapabilities_def bindR_Inr_iff split: if_splits)
  have "list_all2 (\<lambda>v x. v = JStr x \<and> x \<in> set (CAPABILITIES E)) vs names"
    using m(1) unfolding mapR_Inr_iff capabilityName_Inr .
  then have "set names \<subseteq> set (CAPABILITIES E)" "length names = length vs"
    by (induction rule: list_all2_induct) auto
  then show ?thesis
    using m(2) length_uniq [of names] by (simp add: canonicalCapabilities_def caps codeUnits.sorted_sortBy)
qed

lemma insertBy_map: "insertBy leq (f x) (map f xs) = map f (insertBy (\<lambda>x y. leq (f x) (f y)) x xs)"
  by (induction xs) auto

lemma sortBy_map: "sortBy leq (map f xs) = map f (sortBy (\<lambda>x y. leq (f x) (f y)) xs)"
  by (induction xs) (simp_all add: insertBy_map)

text \<open>Assigning a canonical object's properties in the order of the sort restores its own order.\<close>

lemma canonical_assigned:
  assumes "comparator (e_localeLeq E)" and as: "canonicalAttributes E as"
  shows "assignedObject (sortBy (keyLeq E) as) = as"
proof -
  let ?es = "sortBy (keyLeq E) as"
  note order = comparator_fst [OF assms(1)]
  have "fold assignProperty ?es [] = ?es"
    using as by (intro assigned_distinct [of "[]", simplified]) (simp_all add: canonicalAttributes_def distinct_map_sortBy)
  moreover have "sortBy indexLeq (filter isIndexed ?es) = filter isIndexed as"
    using as by (intro sorted_indices) (auto simp: canonicalAttributes_def mset_filter distinct_map_filter)
  moreover have "filter (\<lambda>e. \<not> isIndexed e) ?es = filter (\<lambda>e. \<not> isIndexed e) as"
    using as unfolding canonicalAttributes_def filter_sortBy [OF order] by (intro comparator.sortBy_sorted [OF order]) blast
  moreover have "filter isIndexed as @ filter (\<lambda>e. \<not> isIndexed e) as = as" using as unfolding canonicalAttributes_def by metis
  ultimately show ?thesis by (simp add: assignedObject_def propertyOrder_def)
qed

lemma normalizeRule_json:
  assumes "comparator (e_localeLeq E)" and "canonicalRule E rule"
  shows "normalizeRule E i (ruleJson rule) = Inr rule"
proof -
  let ?ob = "(case rl_type rule of None \<Rightarrow> [] | Some x \<Rightarrow> [(''type'', JStr x)]) @
     (case rl_id rule of None \<Rightarrow> [] | Some x \<Rightarrow> [(''id'', JStr x)]) @ attributesJson (rl_attributes rule)"
  have props: "propOf ?ob ''type'' = (case rl_type rule of None \<Rightarrow> JUndef | Some x \<Rightarrow> JStr x)"
    "propOf ?ob ''id'' = (case rl_id rule of None \<Rightarrow> JUndef | Some x \<Rightarrow> JStr x)"
    "propOf ?ob ''attributes'' = (case rl_attributes rule of None \<Rightarrow> JUndef | Some as \<Rightarrow> JObj (map (\<lambda>(k, v). (k, JStr v)) as))"
    "unsupportedKey [''type'', ''id'', ''attributes''] ?ob = None"
    by (auto simp: propOf_def attributesJson_def unsupportedKey_def split: option.splits)
  have attrs: "normalizeAttributes E at (case rl_attributes rule of None \<Rightarrow> JUndef
      | Some as \<Rightarrow> JObj (map (\<lambda>(k, v). (k, JStr v)) as)) = Inr (rl_attributes rule)" for at
  proof (cases "rl_attributes rule")
    case (Some as)
    then have as: "as \<noteq> []" "canonicalAttributes E as" using assms(2) by (simp_all add: canonicalRule_def)
    then have "sortBy (keyLeq E) (map (\<lambda>(k, v). (k, JStr v)) as) = map (\<lambda>(k, v). (k, JStr v)) (sortBy (keyLeq E) as)"
      by (simp add: sortBy_map keyLeq_def case_prod_beta comp_def)
    moreover have "assignedObject (sortBy (keyLeq E) as) = as" using assms(1) as(2) by (rule canonical_assigned)
    moreover have "list_all (\<lambda>(k, v). goodText k \<and> goodText v) (sortBy (keyLeq E) as)"
      using as(2) by (simp add: canonicalAttributes_def list_all_iff)
    ultimately show ?thesis
      using as Some unfolding Some option.case normalizeAttributes_Some
      by (intro exI [of _ "map (\<lambda>(k, v). (k, JStr v)) as"] exI [of _ "sortBy (keyLeq E) as"])
        (simp add: objectOf_def canonicalAttributes_def)
  qed (simp add: normalizeAttributes_def)
  have type: "normalizeRuleType E at (case rl_type rule of None \<Rightarrow> JUndef | Some x \<Rightarrow> JStr x) = Inr (rl_type rule)" for at
    using assms(2) by (auto simp: normalizeRuleType_Inr canonicalRule_def goodTarget_def split: option.splits)
  have ident: "(if (case rl_id rule of None \<Rightarrow> JUndef | Some x \<Rightarrow> JStr x) = JUndef then Inr None
      else bindR (textValue (case rl_id rule of None \<Rightarrow> JUndef | Some x \<Rightarrow> JStr x) p) (\<lambda>x. Inr (Some x))) = Inr (rl_id rule)" for p
    using assms(2) by (auto simp: bindR_Inr_iff textValue_Inr canonicalRule_def goodTarget_def split: option.splits)
  have "rl_type rule \<noteq> None \<or> rl_id rule \<noteq> None \<or> rl_attributes rule \<noteq> None"
    using assms(2) by (simp add: canonicalRule_def)
  then show ?thesis
    unfolding normalizeRule_def ruleJson_def objectOf_def Let_def jsval.case option.case props attrs type bindR_simps
    unfolding ident bindR_simps by auto
qed

lemma normalizeRules_json:
  "comparator (e_localeLeq E) \<Longrightarrow> list_all (canonicalRule E) rules \<Longrightarrow> normalizeRules E i (map ruleJson rules) = Inr rules"
  by (induction rules arbitrary: i) (simp_all add: normalizeRule_json)

lemma lost_attributes:
  assumes "goodText x"
  shows "normalizeRule E i (JObj [(''attributes'', JObj [(''__proto__'', JStr x)])]) =
    Inr \<lparr>rl_type = None, rl_id = None, rl_attributes = Some []\<rparr>"
proof -
  have "goodText ''__proto__''" by code_simp
  with assms have "normalizeAttributes E at (JObj [(''__proto__'', JStr x)]) = Inr (Some [])" for at
    by (simp add: normalizeAttributes_Some objectOf_def MAX_ATTRIBUTES_def exI [of _ "[(''__proto__'', x)]"]
        assignedObject_def assignProperty_def propertyOrder_def)
  then show ?thesis
    by (simp add: normalizeRule_def objectOf_def unsupportedKey_def propOf_def normalizeRuleType_def Let_def)
qed

text \<open>
  C14: validation yields canonical restrictions: known invocable capabilities, sorted and without
  repetition, at most 64 of them; and at most 64 rules with known types and bounded texts, none of
  them empty, whose attributes are distinct and in the order in which an object lists them. The only
  exception is a rule whose attributes are all called \<open>__proto__\<close>: they are lost, and if the rule
  has no type or id it is accepted and matches every resource. Canonical restrictions are fixed
  points: submitting them again returns them unchanged.
\<close>

lemma normalize_restrictions_canonical:
  assumes "comparator (e_localeLeq E)"
  shows "(normalizeRestrictions E v = Inr k \<longrightarrow> canonicalCapabilities E (kr_capabilities k) \<and>
       (\<forall>rules. kr_resources k = Some rules \<longrightarrow>
          length rules \<le> MAX_RESOURCE_RULES \<and> list_all2 (normalRule E) (submittedRules v) rules)) \<and>
     (canonicalRestrictions E k \<longrightarrow> normalizeRestrictions E (restrictionsJson k) = Inr k) \<and>
     (goodText x \<longrightarrow> (\<exists>rule. normalizeRule E i (JObj [(''attributes'', JObj [(''__proto__'', JStr x)])]) = Inr rule \<and>
        ruleMatches rule r))"
proof -
  have canonical: "canonicalCapabilities E (kr_capabilities k) \<and> (\<forall>rules. kr_resources k = Some rules \<longrightarrow>
      length rules \<le> MAX_RESOURCE_RULES \<and> list_all2 (normalRule E) (submittedRules v) rules)"
    if "normalizeRestrictions E v = Inr k" for v k
    using that unfolding normalizeRestrictions_def submittedRules_def
    by (auto simp: bindR_Inr_iff split: option.splits
        dest!: normalizeCapabilities_canonical normalizeResources_canonical [OF assms])
  have "normalizeRestrictions E (restrictionsJson k) = Inr k" if k: "canonicalRestrictions E k"
  proof -
    let ?ob = "(''capabilities'', JArr (map JStr (kr_capabilities k))) #
     (case kr_resources k of None \<Rightarrow> [] | Some rules \<Rightarrow> [(''resources'', JArr (map ruleJson rules))])"
    have props: "propOf ?ob ''capabilities'' = JArr (map JStr (kr_capabilities k))"
      "propOf ?ob ''resources'' = (case kr_resources k of None \<Rightarrow> JUndef | Some rules \<Rightarrow> JArr (map ruleJson rules))"
      "unsupportedKey [''capabilities'', ''resources''] ?ob = None"
      by (auto simp: propOf_def unsupportedKey_def split: option.splits)
    have "mapR (capabilityName E) (map JStr (kr_capabilities k)) = Inr (kr_capabilities k)"
      using k by (auto simp: mapR_Inr_iff capabilityName_Inr list_all2_map1 list_all2_same canonicalRestrictions_def canonicalCapabilities_def)
    then have caps: "normalizeCapabilities E (JArr (map JStr (kr_capabilities k))) = Inr (kr_capabilities k)"
      using k by (simp add: normalizeCapabilities_def canonicalRestrictions_def canonicalCapabilities_def uniq_distinct codeUnits.sortBy_sorted)
    have "normalizeResources E (case kr_resources k of None \<Rightarrow> JUndef | Some rules \<Rightarrow> JArr (map ruleJson rules)) = Inr (kr_resources k)"
      using k assms by (auto simp: normalizeResources_def canonicalRestrictions_def normalizeRules_json split: option.splits)
    then show ?thesis
      unfolding normalizeRestrictions_def restrictionsJson_def objectOf_def jsval.case option.case props caps by simp
  qed
  moreover have "\<exists>rule. normalizeRule E i (JObj [(''attributes'', JObj [(''__proto__'', JStr x)])]) = Inr rule \<and> ruleMatches rule r"
    if "goodText x"
    using lost_attributes [OF that, of E i] by (simp add: ruleMatches_def ruleAttributes_def)
  ultimately show ?thesis using canonical by blast
qed

end
