(* ===== verification/Encoding.thy ===== *)
theory Encoding
  imports Prelude
begin

text \<open>
  The byte encodings of \<open>Buffer\<close> the services use: lower-case hexadecimal and unpadded
  base64url. A byte sequence is a string of code units below 256.
\<close>

definition hexDigit :: "nat \<Rightarrow> char" where
  "hexDigit d = (if d < 10 then char_of (48 + d) else char_of (87 + d))"

definition hexByte :: "char \<Rightarrow> string" where
  "hexByte c = [hexDigit (of_char c div 16), hexDigit (of_char c mod 16)]"

definition hexEncode :: "string \<Rightarrow> string" where
  "hexEncode bs = concat (map hexByte bs)"

definition b64Char :: "nat \<Rightarrow> char" where
  "b64Char n =
     (if n < 26 then char_of (65 + n) else if n < 52 then char_of (71 + n)
      else if n < 62 then char_of (n - 4) else if n = 62 then CHR ''-'' else CHR ''_'')"

text \<open>The decoder skips characters outside the alphabet and accepts both alphabets.\<close>

definition b64Val :: "char \<Rightarrow> nat option" where
  "b64Val c =
     (let n = (of_char c :: nat) in
      if 65 \<le> n \<and> n \<le> 90 then Some (n - 65) else if 97 \<le> n \<and> n \<le> 122 then Some (n - 71)
      else if 48 \<le> n \<and> n \<le> 57 then Some (n + 4)
      else if c = CHR ''-'' \<or> c = CHR ''+'' then Some 62
      else if c = CHR ''_'' \<or> c = CHR ''/'' then Some 63 else None)"

fun sextets :: "nat list \<Rightarrow> nat list" where
  "sextets [] = []"
| "sextets [a] = [a div 4, a mod 4 * 16]"
| "sextets [a, b] = [a div 4, a mod 4 * 16 + b div 16, b mod 16 * 4]"
| "sextets (a # b # c # bs) =
     a div 4 # (a mod 4 * 16 + b div 16) # (b mod 16 * 4 + c div 64) # c mod 64 # sextets bs"

fun octets :: "nat list \<Rightarrow> nat list" where
  "octets [] = []"
| "octets [w] = []"
| "octets [w, x] = [w * 4 + x div 16]"
| "octets [w, x, y] = [w * 4 + x div 16, x mod 16 * 16 + y div 4]"
| "octets (w # x # y # z # ws) =
     (w * 4 + x div 16) # (x mod 16 * 16 + y div 4) # (y mod 4 * 64 + z) # octets ws"

definition base64url :: "string \<Rightarrow> string" where
  "base64url bs = map b64Char (sextets (map of_char bs))"

definition fromBase64url :: "string \<Rightarrow> string" where
  "fromBase64url xs = map char_of (octets (List.map_filter b64Val xs))"

lemma hexChar_hexDigit: "d < 16 \<Longrightarrow> hexChar (hexDigit d)"
  by (auto simp: hexDigit_def hexChar_def of_char_of)

lemma hexEncode_hex: "list_all hexChar (hexEncode bs) \<and> length (hexEncode bs) = 2 * length bs"
proof (induction bs)
  case (Cons c bs)
  have "of_char c div 16 < (16 :: nat)" using of_char_less_256 [of c] by (simp add: less_mult_imp_div_less)
  with Cons show ?case by (simp add: hexEncode_def hexByte_def hexChar_hexDigit)
qed (simp add: hexEncode_def)

lemma b64Val_b64Char: "n < 64 \<Longrightarrow> b64Val (b64Char n) = Some n"
  by (auto simp: b64Val_def b64Char_def of_char_of Let_def)

lemma sextet_bounds:
  fixes a b c :: nat
  assumes "a < 256" "b < 256" "c < 256"
  shows "a div 4 < 64" "b div 16 < 16" "c div 64 < 4" "a mod 4 * 16 + b div 16 < 64" "b mod 16 * 4 + c div 64 < 64"
    "a mod 4 * 16 < 64" "b mod 16 * 4 < 64"
proof -
  have q: "a div 4 < 64" "b div 16 < 16" "c div 64 < 4" using assms by (simp_all add: less_mult_imp_div_less)
  moreover have "a mod 4 < 4" "b mod 16 < 16" by simp_all
  ultimately show "a div 4 < 64" "b div 16 < 16" "c div 64 < 4" "a mod 4 * 16 + b div 16 < 64"
    "b mod 16 * 4 + c div 64 < 64" "a mod 4 * 16 < 64" "b mod 16 * 4 < 64" by linarith+
qed

lemma sextets_range: "\<forall>b\<in>set bs. b < 256 \<Longrightarrow> \<forall>x\<in>set (sextets bs). x < 64"
proof (induction bs rule: sextets.induct)
  case (2 a)
  then show ?case using sextet_bounds [of a a a] by auto
next
  case (3 a b)
  then show ?case using sextet_bounds [of a b b] by auto
next
  case (4 a b c bs)
  then show ?case using sextet_bounds [of a b c] by auto
qed auto

lemma octets_sextets: "\<forall>b\<in>set bs. b < 256 \<Longrightarrow> octets (sextets bs) = bs"
proof (induction bs rule: sextets.induct)
  case (4 a b c bs)
  have "b div 16 < 16" "c div 64 < 4" using 4 by (auto simp: less_mult_imp_div_less)
  moreover from this have "(a mod 4 * 16 + b div 16) div 16 = a mod 4" "(a mod 4 * 16 + b div 16) mod 16 = b div 16"
    "(b mod 16 * 4 + c div 64) div 4 = b mod 16" "(b mod 16 * 4 + c div 64) mod 4 = c div 64"
    by (simp_all add: div_mult_self3 mod_mult_self3)
  ultimately show ?case using 4 by simp
next
  case (3 a b)
  then have "b div 16 < 16" by (auto simp: less_mult_imp_div_less)
  then show ?case by (simp add: div_mult_self3 mod_mult_self3)
qed simp_all

lemma map_filter_b64: "\<forall>n\<in>set ns. n < 64 \<Longrightarrow> List.map_filter b64Val (map b64Char ns) = ns"
  by (induction ns) (auto simp: List.map_filter_simps b64Val_b64Char)

lemma fromBase64url_base64url: "fromBase64url (base64url bs) = bs"
proof -
  have range: "\<forall>b\<in>set (map of_char bs). b < (256 :: nat)" by (auto simp: of_char_less_256)
  have "octets (List.map_filter b64Val (map b64Char (sextets (map of_char bs)))) = map of_char bs"
    by (simp only: map_filter_b64 [OF sextets_range [OF range]] octets_sextets [OF range])
  then show ?thesis by (simp add: fromBase64url_def base64url_def comp_def)
qed

lemma b64Char_plain: "n < 64 \<Longrightarrow> b64Char n \<noteq> CHR ''$'' \<and> b64Char n \<noteq> CHR 0x0A \<and> b64Char n \<noteq> CHR 0x0D"
  using b64Val_b64Char [of n] by (auto simp: b64Val_def)

lemma base64url_plain:
  "CHR ''$'' \<notin> set (base64url bs)" "CHR 0x0A \<notin> set (base64url bs)" "CHR 0x0D \<notin> set (base64url bs)"
proof -
  have "\<forall>x\<in>set (sextets (map of_char bs)). x < 64"
    by (rule sextets_range) (auto simp: of_char_less_256)
  then have "c \<noteq> CHR ''$'' \<and> c \<noteq> CHR 0x0A \<and> c \<noteq> CHR 0x0D" if "c \<in> set (base64url bs)" for c
    using that b64Char_plain by (auto simp: base64url_def)
  then show "CHR ''$'' \<notin> set (base64url bs)" "CHR 0x0A \<notin> set (base64url bs)" "CHR 0x0D \<notin> set (base64url bs)"
    by blast+
qed

lemma sextets_eq_Nil: "sextets bs = [] \<longleftrightarrow> bs = []"
  by (cases bs rule: sextets.cases) auto

lemma base64url_eq_Nil [simp]: "base64url bs = [] \<longleftrightarrow> bs = []"
  by (simp add: base64url_def sextets_eq_Nil)

end
