(* ===== verification/ApiKeyStore.thy ===== *)
theory ApiKeyStore
  imports Gateway
begin

text \<open>
  Storage of API keys (\<open>storage/api-keys.ts\<close>): the interface \<open>ApiKeyStore\<close> as a record of
  operations with its contract as a locale, and the class \<open>FeltDbApiKeyStore\<close> that implements it
  on the database. The audit sink is stored the same way.
\<close>

section \<open>The interface\<close>

record 'w key_store =
  ks_create :: "api_key \<Rightarrow> ('w, unit) service"
  ks_get :: "string \<Rightarrow> ('w, api_key option) service"
  ks_findByPrefix :: "string \<Rightarrow> ('w, api_key option) service"
  ks_list :: "string \<Rightarrow> ('w, api_key list) service"
  ks_revoke :: "string \<Rightarrow> int \<Rightarrow> string \<Rightarrow> string option \<Rightarrow> ('w, api_key option) service"
  ks_recordLastUsed :: "string \<Rightarrow> int \<Rightarrow> string \<Rightarrow> ('w, api_key option) service"
  ks_replace :: "string \<Rightarrow> int \<Rightarrow> api_key \<Rightarrow> ('w, api_key option) service"
  ks_rotate :: "api_key \<Rightarrow> api_key \<Rightarrow> api_key \<Rightarrow> ('w, unit) service"

record 'w audit_sink =
  as_record :: "key_event \<Rightarrow> ('w, unit) service"
  as_list :: "(string \<Rightarrow> ('w, key_event list) service) option"

section \<open>The implementation\<close>

definition API_KEYS_COLLECTION :: string where "API_KEYS_COLLECTION = ''api_keys''"
definition API_KEY_PREFIXES_COLLECTION :: string where "API_KEY_PREFIXES_COLLECTION = ''api_key_prefixes''"

definition issueOperations :: "api_key \<Rightarrow> db_op list" where
  "issueOperations k =
     [\<lparr>op_collection = API_KEYS_COLLECTION, op_id = ak_id k, op_requireAbsent = True,
       op_requirePresent = False, op_expectedVersion = None, op_value = KeyDoc k\<rparr>,
      \<lparr>op_collection = API_KEY_PREFIXES_COLLECTION, op_id = ak_keyPrefix k, op_requireAbsent = True,
       op_requirePresent = False, op_expectedVersion = None,
       op_value = PrefixDoc \<lparr>kp_id = ak_keyPrefix k, kp_apiKeyId = ak_id k, kp_tenantId = ak_tenantId k,
         kp_createdAt = ak_createdAt k, kp_version = 1\<rparr>\<rparr>]"

definition storeCreate :: "'w env \<Rightarrow> api_key \<Rightarrow> ('w, unit) service" where
  "storeCreate E k = ext (e_transaction E (issueOperations k))"

definition storeRotate :: "'w env \<Rightarrow> api_key \<Rightarrow> api_key \<Rightarrow> api_key \<Rightarrow> ('w, unit) service" where
  "storeRotate E current retired replacement =
     ext (e_transaction E
       (\<lparr>op_collection = API_KEYS_COLLECTION, op_id = ak_id current, op_requireAbsent = False,
         op_requirePresent = False, op_expectedVersion = Some (ak_version current),
         op_value = KeyDoc (retired\<lparr>ak_version := ak_version current + 1\<rparr>)\<rparr> # issueOperations replacement))"

text \<open>The item of a conditional write that was applied, otherwise null.\<close>

definition casItem :: "('w, exn, bool \<times> 'a option) act \<Rightarrow> ('w, 'a option) service" where
  "casItem m = bindA (ext m) (\<lambda>(updated, item). ret (if updated then item else None))"

definition storeReplace :: "'w env \<Rightarrow> string \<Rightarrow> int \<Rightarrow> api_key \<Rightarrow> ('w, api_key option) service" where
  "storeReplace E i expectedVersion nxt =
     bindA (ext (c_get (e_keys E) i)) (\<lambda>current.
     case current of
       None \<Rightarrow> ret None
     | Some _ \<Rightarrow> casItem (c_updateIfVersion (e_keys E) i expectedVersion (\<lambda>_. nxt)))"

definition storeGet :: "'w env \<Rightarrow> string \<Rightarrow> ('w, api_key option) service" where
  "storeGet E i = ext (c_get (e_keys E) i)"

definition storeFindByPrefix :: "'w env \<Rightarrow> string \<Rightarrow> ('w, api_key option) service" where
  "storeFindByPrefix E p =
     bindA (ext (c_get (e_prefixes E) p)) (\<lambda>pointer.
     case pointer of None \<Rightarrow> ret None | Some kp \<Rightarrow> ext (c_get (e_keys E) (kp_apiKeyId kp)))"

definition storeList :: "'w env \<Rightarrow> string \<Rightarrow> ('w, api_key list) service" where
  "storeList E tenantId = ext (c_find (e_keys E) (\<lambda>k. ak_tenantId k = tenantId))"

definition revokeUpdate :: "string \<Rightarrow> string option \<Rightarrow> api_key \<Rightarrow> api_key" where
  "revokeUpdate revokedAt revokedBy k =
     k\<lparr>ak_revokedAt := Some revokedAt, ak_revokedBy := (if truthy revokedBy then revokedBy else ak_revokedBy k)\<rparr>"

definition storeRevoke :: "'w env \<Rightarrow> string \<Rightarrow> int \<Rightarrow> string \<Rightarrow> string option \<Rightarrow> ('w, api_key option) service" where
  "storeRevoke E i expectedVersion revokedAt revokedBy =
     bindA (ext (c_get (e_keys E) i)) (\<lambda>current.
     case current of
       None \<Rightarrow> ret None
     | Some k \<Rightarrow> casItem (c_updateIfVersion (e_keys E) i expectedVersion (\<lambda>_. revokeUpdate revokedAt revokedBy k)))"

definition storeRecordLastUsed :: "'w env \<Rightarrow> string \<Rightarrow> int \<Rightarrow> string \<Rightarrow> ('w, api_key option) service" where
  "storeRecordLastUsed E i expectedVersion lastUsedAt =
     bindA (ext (c_get (e_keys E) i)) (\<lambda>current.
     case current of
       None \<Rightarrow> ret None
     | Some k \<Rightarrow> casItem (c_updateIfVersion (e_keys E) i expectedVersion (\<lambda>_. k\<lparr>ak_lastUsedAt := Some lastUsedAt\<rparr>)))"

definition feltDbApiKeyStore :: "'w env \<Rightarrow> 'w key_store" where
  "feltDbApiKeyStore E =
     \<lparr>ks_create = storeCreate E, ks_get = storeGet E, ks_findByPrefix = storeFindByPrefix E,
      ks_list = storeList E, ks_revoke = storeRevoke E, ks_recordLastUsed = storeRecordLastUsed E,
      ks_replace = storeReplace E, ks_rotate = storeRotate E\<rparr>"

definition feltDbAuditSink :: "'w env \<Rightarrow> 'w audit_sink" where
  "feltDbAuditSink E =
     \<lparr>as_record = (\<lambda>ev. ext (c_insert (e_keyEvents E) ev (ke_id ev))),
      as_list = Some (\<lambda>tenantId. ext (c_find (e_keyEvents E) (\<lambda>ev. ke_tenantId ev = tenantId)))\<rparr>"

section \<open>The contract\<close>

text \<open>
  The stored keys as an observer \<open>V\<close> of the state shows them. A conditional write changes the
  one record it is fenced on and advances its version; a write that rejects may have been
  applied, except that a conflict never is.
\<close>

definition casKey ::
  "('w sys \<Rightarrow> string \<Rightarrow> api_key option) \<Rightarrow> 'w sys \<Rightarrow> 'w sys \<Rightarrow> string \<Rightarrow> int \<Rightarrow> (api_key \<Rightarrow> api_key) \<Rightarrow> bool" where
  "casKey V s t i v f \<longleftrightarrow>
     (\<exists>k n. V s i = Some k \<and> ak_version k = v \<and> v < n \<and> V t = (V s)(i \<mapsto> (f k)\<lparr>ak_version := n\<rparr>))"

text \<open>The outcome of a conditional write: the item, null when the record moved on, or a rejection.\<close>

definition fenced ::
  "('w sys \<Rightarrow> string \<Rightarrow> api_key option) \<Rightarrow> 'w sys \<Rightarrow> 'w sys \<Rightarrow> string \<Rightarrow> int \<Rightarrow> (api_key \<Rightarrow> api_key) \<Rightarrow>
   exn + api_key option \<Rightarrow> bool" where
  "fenced V s t i v f r = (case r of
      Inr (Some k) \<Rightarrow> casKey V s t i v f \<and> V t i = Some k
    | Inr None \<Rightarrow> V t = V s
    | Inl _ \<Rightarrow> V t = V s \<or> casKey V s t i v f)"

definition rotateKeys ::
  "('w sys \<Rightarrow> string \<Rightarrow> api_key option) \<Rightarrow> 'w sys \<Rightarrow> 'w sys \<Rightarrow> api_key \<Rightarrow> api_key \<Rightarrow> api_key \<Rightarrow> bool" where
  "rotateKeys V s t current retired replacement \<longleftrightarrow>
     ak_id replacement \<noteq> ak_id current \<and> V s (ak_id replacement) = None \<and>
     (\<forall>k. V s (ak_id current) = Some k \<longrightarrow> ak_version k = ak_version current) \<and>
     V t = (V s)(ak_id current \<mapsto> retired\<lparr>ak_version := ak_version current + 1\<rparr>, ak_id replacement \<mapsto> replacement)"

locale api_key_store =
  fixes S :: "'w key_store" and V :: "'w sys \<Rightarrow> string \<Rightarrow> api_key option"
  assumes get_kept: "ks_get S i s = (t, r) \<Longrightarrow> V t = V s"
    and get_sound: "ks_get S i s = (t, Inr (Some k)) \<Longrightarrow> V s i = Some k"
    and find_kept: "ks_findByPrefix S p s = (t, r) \<Longrightarrow> V t = V s"
    and find_sound: "ks_findByPrefix S p s = (t, Inr (Some k)) \<Longrightarrow> \<exists>i. V s i = Some k"
    and list_kept: "ks_list S tenantId s = (t, q) \<Longrightarrow> V t = V s"
    and list_sound: "ks_list S tenantId s = (t, Inr ks) \<Longrightarrow> k \<in> set ks \<Longrightarrow> ak_tenantId k = tenantId \<and> (\<exists>i. V s i = Some k)"
    and revoke_law: "ks_revoke S i v at by s = (t, r) \<Longrightarrow> fenced V s t i v (revokeUpdate at by) r"
    and used_law: "ks_recordLastUsed S i v at s = (t, r) \<Longrightarrow> fenced V s t i v (ak_lastUsedAt_update (\<lambda>_. Some at)) r"
    and replace_law: "ks_replace S i v nxt s = (t, r) \<Longrightarrow> fenced V s t i v (\<lambda>_. nxt) r"
    and create_ok: "ks_create S k s = (t, Inr u) \<Longrightarrow> V s (ak_id k) = None \<and> V t = (V s)(ak_id k \<mapsto> k)"
    and create_conflict: "ks_create S k s = (t, Inl e) \<Longrightarrow> isConditionalConflict e \<Longrightarrow> V t = V s"
    and create_rejected: "ks_create S k s = (t, Inl e) \<Longrightarrow> V t = V s \<or> V s (ak_id k) = None \<and> V t = (V s)(ak_id k \<mapsto> k)"
    and rotate_ok: "ks_rotate S k k' k'' s = (t, Inr u) \<Longrightarrow> rotateKeys V s t k k' k''"
    and rotate_conflict: "ks_rotate S k k' k'' s = (t, Inl e) \<Longrightarrow> isConditionalConflict e \<Longrightarrow> V t = V s"
    and rotate_rejected: "ks_rotate S k k' k'' s = (t, Inl e) \<Longrightarrow> V t = V s \<or> rotateKeys V s t k k' k''"

text \<open>The keys in the database.\<close>

definition storedKeys :: "('w \<Rightarrow> contents) \<Rightarrow> 'w sys \<Rightarrow> string \<Rightarrow> api_key option" where
  "storedKeys C s i = (case C (outside s) API_KEYS_COLLECTION i of Some (KeyDoc k) \<Rightarrow> Some k | _ \<Rightarrow> None)"

lemma storedKeys_Some: "storedKeys C s i = Some k \<longleftrightarrow> C (outside s) API_KEYS_COLLECTION i = Some (KeyDoc k)"
  by (auto simp: storedKeys_def split: option.splits doc.splits)

lemma storedKeys_None: "C (outside s) API_KEYS_COLLECTION i = None \<Longrightarrow> storedKeys C s i = None"
  by (simp add: storedKeys_def)

lemma storedKeys_cong: "C (outside t) API_KEYS_COLLECTION = C (outside s) API_KEYS_COLLECTION \<Longrightarrow> storedKeys C t = storedKeys C s"
  by (simp add: storedKeys_def fun_eq_iff)

lemma storedKeys_put:
  "C (outside t) = putDoc (C (outside s)) API_KEYS_COLLECTION i (KeyDoc k) \<Longrightarrow> storedKeys C t = (storedKeys C s)(i \<mapsto> k)"
  by (auto simp: storedKeys_def fun_eq_iff)

lemma casItem_Inr:
  "casItem m s = (t, Inr r) \<longleftrightarrow> (\<exists>b x. ext m s = (t, Inr (b, x)) \<and> r = (if b then x else None))"
  by (auto simp: casItem_def bindA_Inr_iff act_simps)

lemma casItem_Inl: "casItem m s = (t, Inl e) \<longleftrightarrow> ext m s = (t, Inl e)"
  by (auto simp: casItem_def bindA_Inl_iff act_simps split: prod.splits)

section \<open>The implementation meets the contract\<close>

lemma fenced_simps [simp]:
  "fenced V s t i v f (Inr (Some k)) \<longleftrightarrow> casKey V s t i v f \<and> V t i = Some k"
  "fenced V s t i v f (Inr None) \<longleftrightarrow> V t = V s"
  "fenced V s t i v f (Inl e) \<longleftrightarrow> V t = V s \<or> casKey V s t i v f"
  by (simp_all add: fenced_def)

context platform
begin

lemma keys_cas:
  assumes "casItem (c_updateIfVersion (e_keys E) i v f) s = (t, r)"
  shows "fenced (storedKeys C) s t i v f r"
proof -
  obtain w q where run: "c_updateIfVersion (e_keys E) i v f (outside s) = (w, q)" and t: "t = s\<lparr>outside := w\<rparr>"
    and r: "r = (case q of Inl e \<Rightarrow> Inl e | Inr (b, x) \<Rightarrow> Inr (if b then x else None))"
    using assms by (auto simp: casItem_def bindA_def ext_def act_simps split: prod.splits sum.splits)
  have put: "casKey (storedKeys C) s t i v f \<and> storedKeys C t i = Some (f k\<lparr>ak_version := n\<rparr>)"
    if "C (outside s) ''api_keys'' i = Some (KeyDoc k)" "ak_version k = v" "v < n"
      "C w = putDoc (C (outside s)) ''api_keys'' i (KeyDoc (f k\<lparr>ak_version := n\<rparr>))" for k n
  proof -
    have "storedKeys C t = (storedKeys C s)(i \<mapsto> f k\<lparr>ak_version := n\<rparr>)"
      using that(4) t by (intro storedKeys_put) (simp add: API_KEYS_COLLECTION_def)
    with that show ?thesis by (auto simp: casKey_def storedKeys_Some API_KEYS_COLLECTION_def)
  qed
  have same: "storedKeys C t = storedKeys C s" if "C w = C (outside s)"
    using that t by (intro storedKeys_cong) simp
  show ?thesis
  proof (cases q)
    case (Inl e)
    from run have "storedKeys C t = storedKeys C s \<or> casKey (storedKeys C) s t i v f"
    proof (cases rule: keys.cas_cases)
      case kept
      then show ?thesis using same by simp
    next
      case (written k n)
      then show ?thesis using put by simp
    qed
    then show ?thesis by (simp add: r Inl)
  next
    case (Inr p)
    obtain b x where p: "p = (b, x)" by (cases p)
    show ?thesis
    proof (cases b)
      case True
      then have "c_updateIfVersion (e_keys E) i v f (outside s) = (w, Inr (True, x))" using run Inr p by simp
      from keys.cas_ok [OF this] put show ?thesis by (auto simp: r Inr p True)
    next
      case False
      then have "c_updateIfVersion (e_keys E) i v f (outside s) = (w, Inr (False, x))" using run Inr p by simp
      from keys.cas_stale [OF this] same show ?thesis by (simp add: r Inr p False)
    qed
  qed
qed

lemma keys_get:
  assumes "ext (c_get (e_keys E) i) s = (t, r)"
  shows "storedKeys C t = storedKeys C s" and "r = Inr (Some k) \<Longrightarrow> storedKeys C s i = Some k"
proof -
  obtain w where run: "c_get (e_keys E) i (outside s) = (w, r)" "t = s\<lparr>outside := w\<rparr>"
    using assms by (auto simp: ext_eq_iff)
  show "storedKeys C t = storedKeys C s"
    using keys.get_view [OF run(1)] run(2) by (intro storedKeys_cong) simp
  show "r = Inr (Some k) \<Longrightarrow> storedKeys C s i = Some k"
    using keys.get_sound run(1) by (simp add: storedKeys_Some API_KEYS_COLLECTION_def)
qed

text \<open>The three conditional writes that first read the record and submit it whole.\<close>

lemma fenced_write:
  assumes "bindA (ext (c_get (e_keys E) i)) (\<lambda>current. case current of None \<Rightarrow> ret None
     | Some k \<Rightarrow> casItem (c_updateIfVersion (e_keys E) i v (\<lambda>_. f k))) s = (t, r)"
  shows "fenced (storedKeys C) s t i v f r"
proof -
  obtain u q where get: "ext (c_get (e_keys E) i) s = (u, q)" by (cases "ext (c_get (e_keys E) i) s")
  note view = keys_get(1) [OF get]
  show ?thesis
  proof (cases q)
    case (Inl e)
    then have "r = Inl e" "t = u" using assms get by (simp_all add: bindA_fail)
    then show ?thesis using view by simp
  next
    case (Inr o')
    show ?thesis
    proof (cases o')
      case None
      then have "r = Inr None" "t = u" using assms get Inr by (simp_all add: bindA_step act_simps)
      then show ?thesis using view by simp
    next
      case (Some k)
      then have "casItem (c_updateIfVersion (e_keys E) i v (\<lambda>_. f k)) u = (t, r)"
        using assms get Inr by (simp add: bindA_step)
      then have out: "fenced (storedKeys C) u t i v (\<lambda>_. f k) r" by (rule keys_cas)
      have "storedKeys C s i = Some k" using keys_get(2) [OF get] Inr Some by simp
      then have "casKey (storedKeys C) u t i v (\<lambda>_. f k) = casKey (storedKeys C) s t i v f"
        by (simp add: casKey_def view)
      then show ?thesis using out by (simp only: fenced_def view)
    qed
  qed
qed

lemma issue_applied:
  "C (outside t) = applyOps m (issueOperations k) \<Longrightarrow>
   storedKeys C t i = (if i = ak_id k then Some k else (case m API_KEYS_COLLECTION i of Some (KeyDoc k) \<Rightarrow> Some k | _ \<Rightarrow> None))"
  by (simp add: storedKeys_def applyOps_def issueOperations_def API_KEYS_COLLECTION_def API_KEY_PREFIXES_COLLECTION_def)

lemma transaction_cases:
  assumes "ext (e_transaction E ps) s = (t, r)"
  obtains (kept) "C (outside t) = C (outside s)" "\<And>u. r \<noteq> Inr u"
    | (committed) "\<forall>p\<in>set ps. opHolds (C (outside s)) p" "C (outside t) = applyOps (C (outside s)) ps"
        "\<And>e. r = Inl e \<Longrightarrow> \<not> isConditionalConflict e"
proof -
  obtain w where run: "e_transaction E ps (outside s) = (w, r)" "t = s\<lparr>outside := w\<rparr>"
    using assms by (auto simp: ext_eq_iff)
  show thesis
  proof (cases r)
    case (Inl e)
    then show thesis
      using run transaction_conflict [of ps "outside s" w e] transaction_rejected [of ps "outside s" w e] kept committed
      by (cases "isConditionalConflict e") auto
  next
    case (Inr u)
    then show thesis using run transaction_ok [of ps "outside s" w u] committed by auto
  qed
qed

end

sublocale platform \<subseteq> keyStore: api_key_store "feltDbApiKeyStore E" "storedKeys C"
proof
  fix i s t r k
  show "ks_get (feltDbApiKeyStore E) i s = (t, r) \<Longrightarrow> storedKeys C t = storedKeys C s"
    and "ks_get (feltDbApiKeyStore E) i s = (t, Inr (Some k)) \<Longrightarrow> storedKeys C s i = Some k"
    by (auto simp: feltDbApiKeyStore_def storeGet_def dest: keys_get)
next
  fix p s t r k
  have "storedKeys C t = storedKeys C s \<and> (\<forall>k. r = Inr (Some k) \<longrightarrow> (\<exists>i. storedKeys C s i = Some k))"
    if "ks_findByPrefix (feltDbApiKeyStore E) p s = (t, r)" for r
  proof -
    obtain u q where ptr: "ext (c_get (e_prefixes E) p) s = (u, q)" by (cases "ext (c_get (e_prefixes E) p) s")
    have view: "storedKeys C u = storedKeys C s"
      using keepsD [OF prefixes.keeps_get ptr, of API_KEYS_COLLECTION UNIV] by (intro storedKeys_cong) simp
    have run: "bindA (ext (c_get (e_prefixes E) p)) (\<lambda>pointer. case pointer of None \<Rightarrow> ret None
        | Some kp \<Rightarrow> ext (c_get (e_keys E) (kp_apiKeyId kp))) s = (t, r)"
      using that by (simp add: feltDbApiKeyStore_def storeFindByPrefix_def)
    show ?thesis
    proof (cases q)
      case (Inl e)
      then have "r = Inl e" "t = u" using run ptr by (simp_all add: bindA_fail)
      then show ?thesis using view by simp
    next
      case (Inr x)
      show ?thesis
      proof (cases x)
        case None
        then have "r = Inr None" "t = u" using run ptr Inr by (simp_all add: bindA_step act_simps)
        then show ?thesis using view by simp
      next
        case (Some kp)
        then have "ext (c_get (e_keys E) (kp_apiKeyId kp)) u = (t, r)" using run ptr Inr by (simp add: bindA_step)
        from keys_get [OF this] view show ?thesis by auto
      qed
    qed
  qed
  then show "ks_findByPrefix (feltDbApiKeyStore E) p s = (t, r) \<Longrightarrow> storedKeys C t = storedKeys C s"
    and "ks_findByPrefix (feltDbApiKeyStore E) p s = (t, Inr (Some k)) \<Longrightarrow> \<exists>i. storedKeys C s i = Some k"
    by blast+
next
  fix tenantId s t q ks k
  show "ks_list (feltDbApiKeyStore E) tenantId s = (t, q) \<Longrightarrow> storedKeys C t = storedKeys C s"
    using keepsD [OF keys.keeps_find, of _ s t q API_KEYS_COLLECTION UNIV]
    by (intro storedKeys_cong) (simp add: feltDbApiKeyStore_def storeList_def)
  show "ks_list (feltDbApiKeyStore E) tenantId s = (t, Inr ks) \<Longrightarrow> k \<in> set ks \<Longrightarrow>
      ak_tenantId k = tenantId \<and> (\<exists>i. storedKeys C s i = Some k)"
    by (auto simp: feltDbApiKeyStore_def storeList_def ext_eq_iff storedKeys_Some API_KEYS_COLLECTION_def
        dest!: keys.find_sound)
next
  fix i v at and "by" s t r nxt
  show "ks_revoke (feltDbApiKeyStore E) i v at by s = (t, r) \<Longrightarrow> fenced (storedKeys C) s t i v (revokeUpdate at by) r"
    by (rule fenced_write) (simp add: feltDbApiKeyStore_def storeRevoke_def)
  show "ks_recordLastUsed (feltDbApiKeyStore E) i v at s = (t, r) \<Longrightarrow>
      fenced (storedKeys C) s t i v (ak_lastUsedAt_update (\<lambda>_. Some at)) r"
    by (rule fenced_write) (simp add: feltDbApiKeyStore_def storeRecordLastUsed_def)
  show "ks_replace (feltDbApiKeyStore E) i v nxt s = (t, r) \<Longrightarrow> fenced (storedKeys C) s t i v (\<lambda>_. nxt) r"
    by (rule fenced_write) (simp add: feltDbApiKeyStore_def storeReplace_def)
next
  fix k s t u e
  have run: "ks_create (feltDbApiKeyStore E) k = ext (e_transaction E (issueOperations k))"
    by (simp add: feltDbApiKeyStore_def storeCreate_def)
  have put: "storedKeys C s (ak_id k) = None \<and> storedKeys C t = (storedKeys C s)(ak_id k \<mapsto> k)"
    if "\<forall>p\<in>set (issueOperations k). opHolds (C (outside s)) p" "C (outside t) = applyOps (C (outside s)) (issueOperations k)"
    using that issue_applied [OF that(2)]
    by (auto simp: fun_eq_iff storedKeys_def issueOperations_def opHolds_def)
  show "ks_create (feltDbApiKeyStore E) k s = (t, Inr u) \<Longrightarrow>
      storedKeys C s (ak_id k) = None \<and> storedKeys C t = (storedKeys C s)(ak_id k \<mapsto> k)"
    unfolding run by (erule transaction_cases) (auto dest: put)
  show "ks_create (feltDbApiKeyStore E) k s = (t, Inl e) \<Longrightarrow> isConditionalConflict e \<Longrightarrow> storedKeys C t = storedKeys C s"
    unfolding run by (erule transaction_cases) (auto intro!: storedKeys_cong)
  show "ks_create (feltDbApiKeyStore E) k s = (t, Inl e) \<Longrightarrow> storedKeys C t = storedKeys C s \<or>
      storedKeys C s (ak_id k) = None \<and> storedKeys C t = (storedKeys C s)(ak_id k \<mapsto> k)"
    unfolding run by (erule transaction_cases) (auto dest: put intro!: storedKeys_cong)
next
  fix k k' k'' :: api_key and s t u e
  let ?first = "\<lparr>op_collection = API_KEYS_COLLECTION, op_id = ak_id k, op_requireAbsent = False,
         op_requirePresent = False, op_expectedVersion = Some (ak_version k), op_value = KeyDoc (k'\<lparr>ak_version := ak_version k + 1\<rparr>)\<rparr>"
  have run: "ks_rotate (feltDbApiKeyStore E) k k' k'' = ext (e_transaction E (?first # issueOperations k''))"
    by (simp add: feltDbApiKeyStore_def storeRotate_def)
  have put: "rotateKeys (storedKeys C) s t k k' k''"
    if "\<forall>p\<in>set (?first # issueOperations k''). opHolds (C (outside s)) p"
      "C (outside t) = applyOps (C (outside s)) (?first # issueOperations k'')"
  proof -
    let ?m = "putDoc (C (outside s)) API_KEYS_COLLECTION (ak_id k) (KeyDoc (k'\<lparr>ak_version := ak_version k + 1\<rparr>))"
    have "C (outside t) = applyOps ?m (issueOperations k'')" using that(2) by (simp add: applyOps_def)
    from issue_applied [OF this] have "storedKeys C t = (storedKeys C s)(ak_id k \<mapsto> k'\<lparr>ak_version := ak_version k + 1\<rparr>, ak_id k'' \<mapsto> k'')"
      by (auto simp: fun_eq_iff storedKeys_def)
    then show ?thesis using that(1)
      by (auto simp: rotateKeys_def storedKeys_Some storedKeys_None issueOperations_def opHolds_def docVersion_def)
  qed
  show "ks_rotate (feltDbApiKeyStore E) k k' k'' s = (t, Inr u) \<Longrightarrow> rotateKeys (storedKeys C) s t k k' k''"
    unfolding run by (erule transaction_cases) (blast intro: put)+
  show "ks_rotate (feltDbApiKeyStore E) k k' k'' s = (t, Inl e) \<Longrightarrow> isConditionalConflict e \<Longrightarrow> storedKeys C t = storedKeys C s"
    unfolding run by (erule transaction_cases) (auto intro!: storedKeys_cong)
  show "ks_rotate (feltDbApiKeyStore E) k k' k'' s = (t, Inl e) \<Longrightarrow>
      storedKeys C t = storedKeys C s \<or> rotateKeys (storedKeys C) s t k k' k''"
    unfolding run
  proof (erule transaction_cases)
    assume "C (outside t) = C (outside s)"
    then have "storedKeys C t = storedKeys C s" by (intro storedKeys_cong) simp
    then show ?thesis ..
  qed (blast intro: put)
qed

end
