(* ===== verification/Examples.thy ===== *)
theory Examples
  imports Memory Restrictions ApiKeyStore
begin

text \<open>
  Concrete runs of the model on the in-memory platform. Each one satisfies the hypotheses of a
  theorem of the development and applies the theorem there.
\<close>

section \<open>A tenant, its gateway and its caller\<close>

definition demoSys :: "mem sys" where
  "demoSys =
     \<lparr>outside = \<lparr>m_docs = [], m_clock = 1700000000000, m_serial = 0\<rparr>, knownPrefixes = [],
      locallyCreatedKeys = [], mintedContexts = 0, consumedContexts = []\<rparr>"

text \<open>An AuthBoundry that echoes the request and answers \<open>b\<close>.\<close>

definition answering :: "bool \<Rightarrow> auth_request \<Rightarrow> mem \<Rightarrow> mem \<times> auth_answer" where
  "answering b q w = (w, Answered (Some
     \<lparr>ad_decision_id = Some ''d1'', ad_allowed = Some b, ad_capability = Some (aq_capability q),
      ad_tenant_id = Some (aq_tenant_id q), ad_application_id = Some (aq_application_id q),
      ad_subject_id = Some (aq_subject_id q), ad_resource_uri = Some (aq_resource_uri q),
      ad_reason = None, ad_policy_version = None\<rparr>))"

definition demoCustody :: "mem custody" where
  "demoCustody =
     \<lparr>cu_acquire = (\<lambda>r a w. (w, Inr \<lparr>rv_value = JStr ''hunter2'', rv_secretId = sr_secretId r, rv_version = 1,
          rv_provider = None, rv_accountId = None, rv_kind = None\<rparr>)),
      cu_release = (\<lambda>r a w. (w, Inr ())), cu_store = None, cu_status = None\<rparr>"

definition demoGateway :: "bool \<Rightarrow> mem gateway" where
  "demoGateway b =
     \<lparr>gw_application = ''shop'', gw_authorizer = Some (answering b), gw_credentials = Some demoCustody,
      gw_timeoutMs = 5000, gw_extensions = []\<rparr>"

definition demoPrincipal :: "mem principal" where
  "demoPrincipal =
     \<lparr>pr_principalId = ''alice'', pr_principalType = ''user'', pr_tenantId = ''acme'', pr_applicationId = None,
      pr_credentialId = None, pr_delegationId = None, pr_runId = Some ''run1'', pr_verifiedBy = ByHost, pr_check = None\<rparr>"

definition demoResource :: resource where
  "demoResource = \<lparr>rs_type = ''api_key'', rs_tenantId = ''acme'', rs_id = None, rs_attributes = None\<rparr>"

lemma demo_capabilities:
  "getServiceCapability E ''apikeys.create'' = Some \<lparr>cp_name = ''apikeys.create'', cp_version = 1,
     cp_service = ''api-keys'', cp_operation = ''createApiKey'', cp_effect = Consequential, cp_invocable = True,
     cp_required = True, cp_resource = ''api_key''\<rparr>"
  by (simp add: getServiceCapability_eq ENTRIES_def freezeCapability_def)

lemmas demo_defs = demoSys_def demoGateway_def demoPrincipal_def demoResource_def answering_def demoCustody_def

lemma mem_env [simp]:
  "e_now memEnv = memNow" "e_date memEnv = memNow" "e_uuid memEnv = memUuid" "e_transaction memEnv = memTransaction"
  by (simp_all add: memEnv_def)

lemmas run_simps = bindA_def catchA_def settle_def act_simps draw_def ext_def nowISO_def toISOString_def
  memNow_def memUuid_def timeValue_def

lemma demo_authorized:
  "\<exists>t ctx. authorize memEnv (demoGateway True) ''apikeys.create'' (Verified demoPrincipal) demoResource ''r1'' demoSys = (t, Inr ctx)"
  by (simp add: authorize_def gwCapability_def demo_capabilities demo_defs run_simps requireVerifiedPrincipal_def
      assertOwnership_def enforceCredential_def decide_def authorizationRequest_def validateDecision_def
      validDecision_def mintExecutionContext_def CONTEXT_TTL_MS_def)

text \<open>AuthBoundry answers without touching the database.\<close>

interpretation demo: gateway_platform memEnv memView "demoGateway b" for b
  by unfold_locales (auto simp: demoGateway_def answering_def)

section \<open>A completed run\<close>

definition demoEffect :: "mem exec_context \<Rightarrow> (mem, string) effect" where
  "demoEffect ctx = plain (ret ''done'')"

abbreviation demoOptions :: execute_options where
  "demoOptions \<equiv> serviceOptions ''api-keys''"

lemma demo_time [simp]: "isoString 1700000000000 = ''2023-11-14T22:13:20.000Z''"
  by code_simp

lemma demo_expiry [simp]: "isoString 1700000060000 = ''2023-11-14T22:14:20.000Z''"
  by code_simp

lemma natDigits_small [simp]: "natDigits 0 = ''0''" "natDigits 1 = ''1''" "natDigits (Suc 0) = ''1''" "natDigits 2 = ''2''"
  by code_simp+

lemma demo_uri [simp]: "resourceUri ''shop'' \<lparr>rs_type = ''api_key'', rs_tenantId = ''acme'', rs_id = None, rs_attributes = None\<rparr> = ''appport://shop/tenants/acme/api_key/*''"
  by code_simp

definition demoRow :: effect_evidence where
  "demoRow = \<lparr>ev_id = ''u1'', ev_application = ''shop'', ev_tenantId = ''acme'',
    ev_principalId = ''alice'', ev_principalType = ''user'', ev_delegationId = None, ev_runId = Some ''run1'', ev_capability = ''apikeys.create'',
    ev_capabilityVersion = 1, ev_resource = ''appport://shop/tenants/acme/api_key/*'', ev_decision = DecisionAllow, ev_decisionId = Some ''d1'',
    ev_credentialRef = None, ev_credentialVersion = None, ev_service = ''api-keys'', ev_provider = None, ev_requestId = ''u0'',
    ev_startedAt = ''2023-11-14T22:13:20.000Z'', ev_completedAt = None, ev_outcome = Started, ev_failureCode = None, ev_version = None\<rparr>"

lemma demo_safe [simp]: "assertEvidenceHasNoSecrets (evidenceEntries demoRow) = Inr ()"
  by code_simp

lemma demo_done [simp]: "assertEvidenceHasNoSecrets (completionEntries
   \<lparr>ec_outcome = Succeeded, ec_completedAt = ''2023-11-14T22:13:20.000Z'', ec_failureCode = None,
      ec_credentialRef = None, ec_credentialVersion = None, ec_provider = None\<rparr>) = Inr ()"
  by code_simp

lemma mem_env2 [simp]:
  "e_evidence memEnv = memColl ''service_effect_evidence'' EvidenceDoc asEvidence (\<lambda>_. 0) (\<lambda>_ x. x)"
  "e_localeLeq memEnv = strLeq"
  by (simp_all add: memEnv_def)

lemma demo_parse [simp]: "parseIso ''2023-11-14T22:14:20.000Z'' = Some 1700000060000"
  using parseIso_isoString [of 1700000060000] by (simp add: timeValue_def)

lemma demo_unsafe [simp]: "ev_id demoRow = ''u1''"
  by (simp add: demoRow_def)

lemmas authorize_run = authorize_def gwCapability_def demo_capabilities requireVerifiedPrincipal_def
  assertOwnership_def enforceCredential_def decide_def authorizationRequest_def validateDecision_def
  validDecision_def mintExecutionContext_def CONTEXT_TTL_MS_def

lemmas mem_run = memTransaction_def memView_def memPut_def memColl_def asEvidence_def EVIDENCE_COLLECTION_def

lemma demo_executed:
  "\<exists>t. execute memEnv (demoGateway True) ''apikeys.create'' (Verified demoPrincipal) demoResource demoOptions
     demoEffect demoSys = (t, Inr ''done'')"
  by (simp add: execute_def executeStart_def authorize_run demo_defs run_simps,
      simp add: runEffect_def assertExecutionContext_def claimedCapability_def run_simps dateLeq_def dateTime_def,
      simp add: evidenceFor_def effectiveDelegation_def attribute_def demoRow_def [symmetric] evidenceRecord_def
        run_simps mem_run performEffect_def demoEffect_def plain_def completeEffect_def succeededWith_def
        refUpdate_def evidenceComplete_def)

section \<open>Witnesses\<close>

lemma authorize_grants_witness:
  "\<exists>t ctx. authorize memEnv (demoGateway True) ''apikeys.create'' (Verified demoPrincipal) demoResource ''r1'' demoSys = (t, Inr ctx)
     \<and> cx_decisionId ctx = ''d1'' \<and> pr_tenantId (cx_principal ctx) = rs_tenantId demoResource"
proof -
  obtain t ctx where run: "authorize memEnv (demoGateway True) ''apikeys.create'' (Verified demoPrincipal) demoResource ''r1'' demoSys = (t, Inr ctx)"
    using demo_authorized by blast
  from authorize_grants [OF this] show ?thesis using run
    by (auto simp: demoGateway_def answering_def)
qed

lemma execute_returns_witness:
  "\<exists>t i row. execute memEnv (demoGateway True) ''apikeys.create'' (Verified demoPrincipal) demoResource demoOptions
       demoEffect demoSys = (t, Inr ''done'') \<and>
     memView (outside t) EVIDENCE_COLLECTION i = Some (EvidenceDoc row) \<and> ev_outcome row = Succeeded"
proof -
  obtain t where run: "execute memEnv (demoGateway True) ''apikeys.create'' (Verified demoPrincipal) demoResource demoOptions
       demoEffect demoSys = (t, Inr ''done'')"
    using demo_executed by blast
  from execute_returns [OF memory.platform_axioms this] run show ?thesis by blast
qed

lemma demo_denied:
  "\<exists>s1 s2 e. executeStart memEnv demoOptions demoSys = (s1, Inr (''u0'', ''2023-11-14T22:13:20.000Z'')) \<and>
     authorize memEnv (demoGateway False) ''apikeys.create'' (Verified demoPrincipal) demoResource ''u0'' s1 = (s2, Inl e) \<and>
     m_docs (outside s2) = []"
  by (simp add: executeStart_def authorize_def gwCapability_def demo_capabilities demo_defs run_simps requireVerifiedPrincipal_def
      assertOwnership_def enforceCredential_def decide_def authorizationRequest_def validateDecision_def
      validDecision_def)

lemma execute_refused_witness:
  "\<exists>t e. execute memEnv (demoGateway False) ''apikeys.create'' (Verified demoPrincipal) demoResource demoOptions
       demoEffect demoSys = (t, Inl e) \<and> memView (outside t) ''api_keys'' ''k1'' = None"
proof -
  obtain s1 s2 e where start: "executeStart memEnv demoOptions demoSys = (s1, Inr (''u0'', ''2023-11-14T22:13:20.000Z''))"
    and auth: "authorize memEnv (demoGateway False) ''apikeys.create'' (Verified demoPrincipal) demoResource ''u0'' s1 = (s2, Inl e)"
    and docs: "m_docs (outside s2) = []"
    using demo_denied by blast
  have "memView (outside s2) ''api_keys'' ''k1'' = None" by (simp add: memView_def docs)
  moreover have "''api_keys'' \<noteq> EVIDENCE_COLLECTION" by (simp add: EVIDENCE_COLLECTION_def)
  ultimately show ?thesis using execute_refused [OF memory.platform_axioms start auth] by metis
qed

definition demoStored :: "mem sys" where
  "demoStored = demoSys\<lparr>outside := memPut EVIDENCE_COLLECTION ''u1'' (EvidenceDoc demoRow) (outside demoSys)\<rparr>"

lemma demo_unavailable [simp]: "assertEvidenceHasNoSecrets (completionEntries
   \<lparr>ec_outcome = ProviderFailed, ec_completedAt = ''2023-11-14T22:13:20.000Z'', ec_failureCode = Some ''PROVIDER_ERROR'',
      ec_credentialRef = None, ec_credentialVersion = None, ec_provider = None\<rparr>) = Inr ()"
  by code_simp

lemma demo_failed:
  "\<exists>t. evidenceComplete memEnv ''u1'' (failedWith demoOptions \<lparr>tl_refs = [], tl_stored = None\<rparr>
     (ServiceAuthorityError PROVIDER_ERROR ''down'' noDetails) ''2023-11-14T22:13:20.000Z'') demoStored = (t, Inr ())"
  by (simp add: evidenceComplete_def failedWith_def effectOutcome_def codeName_def refUpdate_def demoStored_def demo_defs
      run_simps memColl_def memView_def memPut_def EVIDENCE_COLLECTION_def asEvidence_def)

lemma failed_effect_witness:
  "(\<exists>t row. performEffect memEnv demoOptions ''u1''
       (plain (raise (ServiceAuthorityError PROVIDER_ERROR ''down'' noDetails)) :: (mem, string) effect) demoStored
       = (t, Inl (ServiceAuthorityError PROVIDER_ERROR ''down'' noDetails)) \<and>
     memView (outside t) EVIDENCE_COLLECTION ''u1'' = Some (EvidenceDoc row) \<and> ev_outcome row = ProviderFailed) \<and>
   (\<exists>t. performEffect memEnv demoOptions ''u1''
       (plain (raise (ServiceAuthorityError PROVIDER_ERROR ''down'' noDetails)) :: (mem, string) effect) demoSys
       = (t, Inl (ServiceAuthorityError PROVIDER_ERROR ''down'' noDetails)) \<and> memView (outside t) = memView (outside demoSys))"
proof -
  let ?e = "ServiceAuthorityError PROVIDER_ERROR ''down'' noDetails"
  let ?log = "\<lparr>tl_refs = [], tl_stored = None\<rparr>"
  let ?fx = "plain (raise ?e) :: (mem, string) effect"
  have fx: "?fx (s, ?log) = ((s, ?log), Inl ?e)" for s by (simp add: plain_def act_simps)
  have now: "nowISO memEnv demoStored = (demoStored, Inr ''2023-11-14T22:13:20.000Z'')"
      "nowISO memEnv demoSys = (demoSys, Inr ''2023-11-14T22:13:20.000Z'')"
    by (simp_all add: demoStored_def demo_defs run_simps memPut_def)
  obtain t where fin: "evidenceComplete memEnv ''u1'' (failedWith demoOptions ?log ?e ''2023-11-14T22:13:20.000Z'') demoStored = (t, Inr ())"
    using demo_failed by blast
  obtain v r where "performEffect memEnv demoOptions ''u1'' ?fx demoStored = (v, r)"
    by (cases "performEffect memEnv demoOptions ''u1'' ?fx demoStored")
  with failed_effect_outcome [OF memory.platform_axioms fx this] now fin
  have "\<exists>t row. performEffect memEnv demoOptions ''u1'' ?fx demoStored = (t, Inl ?e) \<and>
      memView (outside t) EVIDENCE_COLLECTION ''u1'' = Some (EvidenceDoc row) \<and> ev_outcome row = ProviderFailed"
    by (auto simp: completedRow_def failureCode_def)
  moreover obtain w q where "performEffect memEnv demoOptions ''u1'' ?fx demoSys = (w, q)"
    by (cases "performEffect memEnv demoOptions ''u1'' ?fx demoSys")
  with failed_effect_outcome [OF memory.platform_axioms fx this] now
  have "\<exists>t. performEffect memEnv demoOptions ''u1'' ?fx demoSys = (t, Inl ?e) \<and> memView (outside t) = memView (outside demoSys)"
    by (auto simp: demoSys_def memView_def)
  ultimately show ?thesis by blast
qed

lemma attest_witness:
  "\<exists>t row. attest memEnv (demoGateway True) (Some \<lparr>dp_principalId = ''alice'', dp_principalType = ''user'', dp_tenantId = ''acme'',
       dp_applicationId = None, dp_delegationId = None, dp_credentialId = None, dp_authorizedBy = Some ''d1''\<rparr>)
       [''apikeys.create''] demoStored = (t, Inr ()) \<and> ev_decisionId row = Some ''d1''
     \<and> ev_decision row = DecisionAllow \<and> ev_capability (row :: effect_evidence) = ''apikeys.create''"
    (is "\<exists>t row. attest _ _ (Some ?dp) ?caps _ = _ \<and> _ row")
proof -
  have "\<exists>t. attest memEnv (demoGateway True) (Some ?dp) ?caps demoStored = (t, Inr ())"
    by (simp add: attest_def findByDecision_def demoStored_def demo_defs run_simps memColl_def memPut_def memView_def
        asEvidence_def map_filter_def EVIDENCE_COLLECTION_def demoRow_def)
  then obtain t where run: "attest memEnv (demoGateway True) (Some ?dp) ?caps demoStored = (t, Inr ())" by blast
  from attest_needs_evidence [OF memory.platform_axioms run] obtain row :: effect_evidence where
    "ev_decisionId row = Some ''d1''" "ev_decision row = DecisionAllow" "ev_capability row = ''apikeys.create''" by auto
  with run show ?thesis by blast
qed

lemma extensions_witness:
  "\<exists>G. newServiceGateway memEnv ''shop'' None None None [\<lparr>cp_name = ''crm.sync'', cp_version = 1, cp_service = ''extension:crm'',
       cp_operation = ''sync'', cp_effect = Consequential, cp_invocable = False, cp_required = True, cp_resource = ''contact''\<rparr>] = Inr G
     \<and> gwCapability memEnv G ''apikeys.create'' = getServiceCapability memEnv ''apikeys.create''"
    (is "\<exists>G. newServiceGateway _ _ _ _ _ [?c] = _ \<and> _ G")
proof -
  have "\<exists>G. newServiceGateway memEnv ''shop'' None None None [?c] = Inr G"
    by (simp add: newServiceGateway_def extensionNamespace_def extensionPrefix_def getServiceCapability_eq ENTRIES_def
        freezeCapability_def trim_def isWhite_def Let_def)
  then obtain G where "newServiceGateway memEnv ''shop'' None None None [?c] = Inr G" by blast
  from extensions_never_shadow [OF this] this show ?thesis by (auto simp: demo_capabilities)
qed

definition demoContext :: "mem exec_context" where
  "demoContext =
     \<lparr>cx_ref = 0, cx_application = ''shop'', cx_tenantId = ''acme'', cx_principal = demoPrincipal,
      cx_capability = ''webhooks.deliver'', cx_capabilityVersion = 1, cx_requestId = ''u0'',
      cx_resource = \<lparr>rs_type = ''webhook_delivery'', rs_tenantId = ''acme'', rs_id = None,
        rs_attributes = Some [(''credentialRef'', ''credential-ref:hook'')]\<rparr>,
      cx_resourceUri = ''appport://shop/tenants/acme/webhook_delivery/*'', cx_decisionId = ''d1'',
      cx_decidedAt = ''2023-11-14T22:13:20.000Z'', cx_policyVersion = None, cx_reason = None,
      cx_expiresAt = ''2023-11-14T22:14:20.000Z''\<rparr>"

lemma context_single_use_witness:
  "\<exists>t u e. consumeExecutionContext memEnv (Issued demoContext) ''webhooks.deliver'' (Some ''acme'') demoSys = (t, Inr demoContext) \<and>
     consumeExecutionContext memEnv (Issued demoContext) ''webhooks.deliver'' (Some ''acme'') t = (u, Inl e)"
proof -
  have "\<exists>t. consumeExecutionContext memEnv (Issued demoContext) ''webhooks.deliver'' (Some ''acme'') demoSys = (t, Inr demoContext)"
    by (simp add: consumeExecutionContext_def assertExecutionContext_def demoContext_def demo_defs run_simps dateLeq_def dateTime_def)
  then obtain t where run: "consumeExecutionContext memEnv (Issued demoContext) ''webhooks.deliver'' (Some ''acme'') demoSys = (t, Inr demoContext)"
    by blast
  from context_single_use [OF this subset_refl] run show ?thesis by blast
qed

lemma credential_witness:
  "\<exists>cu. gw_credentials (demoGateway True) = Some cu \<and> attribute (cx_resource demoContext) ''credentialRef'' = Some ''credential-ref:hook''"
proof -
  let ?run = "\<lambda>x. withCredential memEnv (demoGateway True) (Issued demoContext) ''credential-ref:hook'' ''sign''
     (\<lambda>secret. plain (ret x) :: (mem, string) effect) None (demoSys, \<lparr>tl_refs = [], tl_stored = None\<rparr>)"
  have "?run ''a'' \<noteq> ?run ''b''"
    by (simp add: withCredential_def custodyContext_def plain_def assertExecutionContext_def claimedCapability_def
        attribute_def demoContext_def demo_defs run_simps dateLeq_def dateTime_def)
  from credential_needs_context [OF this] show ?thesis by auto
qed

lemma restrictions_within_witness:
  "\<exists>child parent. restrictionsWithin child parent \<and> restrictionsPermit child ''files.read''
       \<lparr>rs_type = ''file'', rs_tenantId = ''acme'', rs_id = None, rs_attributes = None\<rparr> \<and>
     restrictionsPermit parent ''files.read'' \<lparr>rs_type = ''file'', rs_tenantId = ''acme'', rs_id = None, rs_attributes = None\<rparr>"
    (is "\<exists>child parent. _ child parent \<and> _ child parent")
proof -
  let ?child = "Some \<lparr>kr_capabilities = [''files.read''], kr_resources = Some [\<lparr>rl_type = Some ''file'', rl_id = None, rl_attributes = None\<rparr>]\<rparr>"
  let ?parent = "Some \<lparr>kr_capabilities = [''files.read'', ''files.write''], kr_resources = None\<rparr>"
  let ?r = "\<lparr>rs_type = ''file'', rs_tenantId = ''acme'', rs_id = None, rs_attributes = None\<rparr>"
  have within: "restrictionsWithin ?child ?parent" by (simp add: restrictionsWithin_def)
  have "restrictionsPermit ?child ''files.read'' ?r"
    by (simp add: restrictionsPermit_def ruleMatches_def ruleAttributes_def)
  with restrictions_within_sound [OF within] within show ?thesis by blast
qed

lemma demo_invocable: "''files.read'' \<in> set (CAPABILITIES E)"
proof -
  have "(''files.read'', ''files'', ''list'', Observation, ''file'', True) \<in> set ENTRIES" by (simp add: ENTRIES_def)
  then show ?thesis
    by (force simp: CAPABILITIES_def SERVICE_CAPABILITY_MANIFEST_def freezeCapability_def)
qed

text \<open>Attributes submitted in sorted order come out with the array index first.\<close>

definition demoRestrictions :: jsval where
  "demoRestrictions = JObj [(''capabilities'', JArr [JStr ''files.read'', JStr ''files.read'']),
     (''resources'', JArr [JObj [(''attributes'', JObj [(''2'', JStr ''b''), (''!'', JStr ''a''), (''__proto__'', JStr ''c'')])]])]"

lemma demo_order: "keyLeq memEnv = (\<lambda>x y. strLeq (fst x) (fst y))"
  by (simp add: keyLeq_def memEnv_def)

lemma demo_sorted:
  "sortBy (keyLeq memEnv) [(''2'', JStr ''b''), (''!'', JStr ''a''), (''__proto__'', JStr ''c'')] =
     [(''!'', JStr ''a''), (''2'', JStr ''b''), (''__proto__'', JStr ''c'')]"
proof -
  have "strLeq ''!'' ''__proto__''" "strLeq ''2'' ''__proto__''" "\<not> strLeq ''2'' ''!''" by code_simp+
  then show ?thesis by (simp add: demo_order)
qed

lemma demo_texts:
  "mapR (attributeEntry at) [(''!'', JStr ''a''), (''2'', JStr ''b''), (''__proto__'', JStr ''c'')] =
     Inr [(''!'', ''a''), (''2'', ''b''), (''__proto__'', ''c'')]"
proof -
  have "goodText ''!''" "goodText ''a''" "goodText ''2''" "goodText ''b''" "goodText ''__proto__''" "goodText ''c''" by code_simp+
  then show ?thesis unfolding mapR_attributes by simp
qed

lemma demo_indices: "arrayIndex ''2'' = Some 2" "arrayIndex ''!'' = None"
proof -
  have "char_of (50 :: nat) = CHR ''2''" "char_of (48 :: nat) = CHR ''0''" by code_simp+
  then show "arrayIndex ''2'' = Some 2" "arrayIndex ''!'' = None"
    by (simp_all add: arrayIndex_def unpad_def digitVal_def natDigits.simps)
qed

lemma demo_restrictions:
  "normalizeRestrictions memEnv demoRestrictions = Inr \<lparr>kr_capabilities = [''files.read''],
     kr_resources = Some [\<lparr>rl_type = None, rl_id = None, rl_attributes = Some [(''2'', ''b''), (''!'', ''a'')]\<rparr>]\<rparr>"
proof -
  have "assignedObject [(''!'', ''a''), (''2'', ''b''), (''__proto__'', ''c'')] = [(''2'', ''b''), (''!'', ''a'')]"
    by (simp add: assignedObject_def assignProperty_def propertyOrder_def isIndexed_def demo_indices)
  then have attributes: "normalizeAttributes memEnv at (JObj [(''2'', JStr ''b''), (''!'', JStr ''a''), (''__proto__'', JStr ''c'')]) =
      Inr (Some [(''2'', ''b''), (''!'', ''a'')])" for at
    by (simp only: normalizeAttributes_def objectOf_def jsval.case option.case demo_sorted demo_texts bindR_simps)
      (simp add: MAX_ATTRIBUTES_def)
  have "normalizeRule memEnv i (JObj [(''attributes'', JObj [(''2'', JStr ''b''), (''!'', JStr ''a''), (''__proto__'', JStr ''c'')])]) =
      Inr \<lparr>rl_type = None, rl_id = None, rl_attributes = Some [(''2'', ''b''), (''!'', ''a'')]\<rparr>" for i
    by (simp add: normalizeRule_def objectOf_def unsupportedKey_def propOf_def normalizeRuleType_def attributes Let_def)
  moreover have "normalizeCapabilities memEnv (JArr [JStr ''files.read'', JStr ''files.read'']) = Inr [''files.read'']"
    by (simp add: normalizeCapabilities_def MAX_CAPABILITIES_def capabilityName_def demo_invocable)
  ultimately show ?thesis
    by (simp add: demoRestrictions_def normalizeRestrictions_def objectOf_def unsupportedKey_def propOf_def
        normalizeResources_def MAX_RESOURCE_RULES_def)
qed

lemma restrictions_canonical_witness:
  "\<exists>k. normalizeRestrictions memEnv demoRestrictions = Inr k \<and> canonicalRestrictions memEnv k \<and>
     kr_resources k = Some [\<lparr>rl_type = None, rl_id = None, rl_attributes = Some [(''2'', ''b''), (''!'', ''a'')]\<rparr>] \<and>
     normalizeRestrictions memEnv (restrictionsJson k) = Inr k"
proof -
  let ?rule = "\<lparr>rl_type = None, rl_id = None, rl_attributes = Some [(''2'', ''b''), (''!'', ''a'')]\<rparr>"
  let ?k = "\<lparr>kr_capabilities = [''files.read''], kr_resources = Some [?rule]\<rparr>"
  have "canonicalCapabilities memEnv (kr_capabilities ?k)" "list_all2 (normalRule memEnv) (submittedRules demoRestrictions) [?rule]"
    using normalize_restrictions_canonical [OF memory.locale_order, of demoRestrictions ?k] demo_restrictions by auto
  then have "canonicalRestrictions memEnv ?k"
    by (simp add: canonicalRestrictions_def MAX_RESOURCE_RULES_def submittedRules_def demoRestrictions_def objectOf_def propOf_def
        normalRule_def onlyProto_def)
  then show ?thesis
    using normalize_restrictions_canonical [OF memory.locale_order, of demoRestrictions ?k] demo_restrictions by auto
qed
lemma mem_query: "e_evidenceQuery memEnv = (\<lambda>P n cur w. (w, Inr
        \<lparr>qp_records = take (nat n) (filter P (List.map_filter (\<lambda>((c, i), d). if c = ''service_effect_evidence'' then asEvidence d else None) (m_docs w))),
         qp_exhausted = True, qp_nextCursor = None\<rparr>))"
  by (simp add: memEnv_def)

lemma boundedLoop_once:
  assumes "ext (query P (min FELTDB_QUERY_PAGE_LIMIT (mx - int (length found))) (keepTruthy cursor)) s = (t, Inr page)"
    and "qp_exhausted page" and "int (length found) < mx"
  shows "boundedLoop (Suc fuel) query P mx cursor found s = (t, Inr (Some (take (nat mx) (found @ filter P (qp_records page)))))"
  using assms by (simp add: bindA_def act_simps Let_def)

lemma demo_found: "\<exists>rows. storeFindByRunId memEnv (Suc 1001) run 101 app tenant demoStored = (demoStored, Inr (Some rows))"
proof -
  have page: "\<exists>page. ext (e_evidenceQuery memEnv P n cur) s = (s, Inr page) \<and> qp_exhausted page" for P n cur and s :: "mem sys"
    by (simp add: mem_query ext_def)
  let ?P = "\<lambda>ev. ev_runId ev = Some run \<and> (truthy app \<longrightarrow> Some (ev_application ev) = app) \<and>
      (truthy tenant \<longrightarrow> Some (ev_tenantId ev) = tenant)"
  obtain pg where pg: "ext (e_evidenceQuery memEnv ?P (min FELTDB_QUERY_PAGE_LIMIT (101 - int (length ([] :: effect_evidence list)))) (keepTruthy None)) demoStored
      = (demoStored, Inr pg)" "qp_exhausted pg" using page by blast
  show ?thesis
    unfolding storeFindByRunId_def boundedFind_def
    by (rule exI, rule boundedLoop_once [of "e_evidenceQuery memEnv", OF pg]) simp
qed

lemma demo_lookup:
  "\<exists>l. readerFindByRunId memEnv 1002 ''shop'' (JStr ''run1'') JUndef None demoStored = (demoStored, Inr (Some l))"
proof -
  obtain rows where "storeFindByRunId memEnv 1002 ''run1'' 101 (Some ''shop'') None demoStored = (demoStored, Inr (Some rows))"
    using demo_found [of "''run1''" "Some ''shop''" None] by auto
  then show ?thesis
    by (simp add: readerFindByRunId_def lookupLimit_def DEFAULT_EVIDENCE_LOOKUP_LIMIT_def MAX_EVIDENCE_LOOKUP_LIMIT_def
        bindA_def act_simps)
qed

lemma mem_honest: "honestQuery (e_evidenceQuery memEnv)"
  by (auto simp: honestQuery_def mem_query list_all_iff dest!: in_set_takeD)

lemma evidence_lookup_ends_witness:
  "\<exists>t l. readerFindByRunId memEnv 1002 ''shop'' (JStr ''run1'') JUndef None demoStored = (t, Inr (Some l))"
  using evidence_lookup_ends [OF mem_honest le_refl] demo_lookup by blast

lemma evidence_lookup_sound_witness:
  "\<exists>t l. readerFindByRunId memEnv 1002 ''shop'' (JStr ''run1'') JUndef None demoStored = (t, Inr (Some l))
     \<and> length (el_records l) \<le> 100 \<and> el_state l = aggregateState (el_records l)"
proof -
  from demo_lookup obtain t l where "readerFindByRunId memEnv 1002 ''shop'' (JStr ''run1'') JUndef None demoStored = (t, Inr (Some l))"
    by blast
  from evidence_lookup_sound [OF memory.locale_order this] this show ?thesis
    by (auto simp: lookupLimit_def DEFAULT_EVIDENCE_LOOKUP_LIMIT_def MAX_EVIDENCE_LOOKUP_LIMIT_def)
qed

end
