(* ===== verification/ApiKeys.thy ===== *)
theory ApiKeys
  imports ApiKeyStore Restrictions Encoding
begin

text \<open>
  The API key service (\<open>api-keys/service.ts\<close>): issuing, reading, changing, rotating and revoking
  keys under the gateway, and authenticating a presented secret. One definition per method of the
  class \<open>ApiKeyService\<close>, in source order, with its module-level helpers first.

  The class's two promise queues run creations (and authentications) of one process one after the
  other; here every operation is one sequential run already. The input objects are the values a
  caller passes, and each field is checked where the code checks it.
\<close>

section \<open>Constants and configuration\<close>

definition API_KEY_SCHEME :: string where "API_KEY_SCHEME = ''app_live''"
definition SECRET_BYTES :: nat where "SECRET_BYTES = 32"
definition SALT_BYTES :: nat where "SALT_BYTES = 16"
definition MIN_VERIFIER_KEY_BYTES :: nat where "MIN_VERIFIER_KEY_BYTES = 32"
definition MAX_CREATE_ATTEMPTS :: nat where "MAX_CREATE_ATTEMPTS = 5"
definition MAX_UPDATE_ATTEMPTS :: nat where "MAX_UPDATE_ATTEMPTS = 10"
definition MAX_UPDATE_RETRY_DELAY_MS :: int where "MAX_UPDATE_RETRY_DELAY_MS = 32"
definition MAX_OVERLAP_SECONDS :: int where "MAX_OVERLAP_SECONDS = 7 * 24 * 60 * 60"
definition MAX_PAGE_SIZE :: int where "MAX_PAGE_SIZE = 500"
definition DEFAULT_AUDIT_PAGE_SIZE :: int where "DEFAULT_AUDIT_PAGE_SIZE = 100"
definition MAX_CACHED_PREFIXES :: nat where "MAX_CACHED_PREFIXES = 10000"
definition MAX_LOCAL_KEYS :: nat where "MAX_LOCAL_KEYS = 1000"

text \<open>\<open>sv_local\<close> says that a runtime is given and its deployment mode is \<open>local\<close>.\<close>

record 'w key_service =
  sv_store :: "'w key_store"
  sv_auditSink :: "'w audit_sink"
  sv_local :: bool
  sv_applicationId :: string
  sv_authority :: "'w gateway option"
  sv_verifierKey :: "string option"

definition ApiKeyScopesNotSupportedError :: exn where
  "ApiKeyScopesNotSupportedError = ServiceMigrationError
     ''API key scopes are no longer authority. Old: API key + scopes -> service authority. New: API key -> identity; AuthBoundry -> authorization. Create the key without scopes and grant capabilities in AuthBoundry.''"

text \<open>\<open>value?.length\<close> used as a condition.\<close>

definition truthyVal :: "jsval \<Rightarrow> bool" where
  "truthyVal v = (case v of JUndef \<Rightarrow> False | JNull \<Rightarrow> False | JBool b \<Rightarrow> b | JNum n \<Rightarrow> n \<noteq> 0
     | JFrac x \<Rightarrow> x \<noteq> ''NaN'' | JStr x \<Rightarrow> x \<noteq> [] | _ \<Rightarrow> True)"

definition hasLength :: "jsval \<Rightarrow> bool" where
  "hasLength v = (case v of JArr vs \<Rightarrow> vs \<noteq> [] | JStr x \<Rightarrow> x \<noteq> [] | JObj ob \<Rightarrow> truthyVal (propOf ob ''length'') | _ \<Rightarrow> False)"

definition newApiKeyService ::
  "'w key_store \<Rightarrow> 'w audit_sink \<Rightarrow> bool \<Rightarrow> string option \<Rightarrow> 'w gateway option \<Rightarrow> jsval \<Rightarrow> string option \<Rightarrow>
   exn + 'w key_service" where
  "newApiKeyService store sink isLocal applicationId authority allowedScopes verifierKey =
     (if hasLength allowedScopes then Inl ApiKeyScopesNotSupportedError
      else if (case verifierKey of None \<Rightarrow> False | Some key \<Rightarrow> length key < MIN_VERIFIER_KEY_BYTES)
      then Inl (PlainError ''API key verifierKey must be at least 32 bytes'')
      else Inr \<lparr>sv_store = store, sv_auditSink = sink, sv_local = isLocal,
        sv_applicationId = (case applicationId of Some a \<Rightarrow> a
          | None \<Rightarrow> (case authority of Some G \<Rightarrow> gw_application G | None \<Rightarrow> ''default'')),
        sv_authority = authority, sv_verifierKey = verifierKey\<rparr>)"

section \<open>Process-local hints\<close>

text \<open>A JavaScript \<open>Map\<close> keeps insertion order; setting a present key keeps its place.\<close>

definition mapDelete :: "'k \<Rightarrow> ('k \<times> 'v) list \<Rightarrow> ('k \<times> 'v) list" where
  "mapDelete k m = filter (\<lambda>e. fst e \<noteq> k) m"

definition mapSet :: "'k \<Rightarrow> 'v \<Rightarrow> ('k \<times> 'v) list \<Rightarrow> ('k \<times> 'v) list" where
  "mapSet k v m =
     (if k \<in> fst ` set m then map (\<lambda>e. if fst e = k then (k, v) else e) m else m @ [(k, v)])"

function evictOldest :: "nat \<Rightarrow> ('k \<times> 'v) list \<Rightarrow> ('k \<times> 'v) list" where
  "evictOldest mx m =
     (if mx < length m
      then (case m of [] \<Rightarrow> [] | e # _ \<Rightarrow> evictOldest mx (mapDelete (fst e) m))
      else m)"
  by pat_completeness auto
termination
  by (relation "measure (\<lambda>(mx, m). length m)")
    (auto simp: mapDelete_def le_imp_less_Suc)

declare evictOldest.simps [simp del]

definition rememberPrefix :: "string \<Rightarrow> string \<Rightarrow> ('w, unit) service" where
  "rememberPrefix p i = (\<lambda>s. (s\<lparr>knownPrefixes :=
     evictOldest MAX_CACHED_PREFIXES (mapSet p i (mapDelete p (knownPrefixes s)))\<rparr>, Inr ()))"

definition rememberCreated :: "'w key_service \<Rightarrow> api_key \<Rightarrow> ('w, unit) service" where
  "rememberCreated SV k = (\<lambda>s. if \<not> sv_local SV then (s, Inr ())
     else (s\<lparr>locallyCreatedKeys := evictOldest MAX_LOCAL_KEYS (mapSet (ak_id k) k (locallyCreatedKeys s))\<rparr>, Inr ()))"

definition rememberLocal :: "api_key \<Rightarrow> ('w, unit) service" where
  "rememberLocal k = (\<lambda>s.
     if ak_id k \<in> fst ` set (locallyCreatedKeys s)
     then (s\<lparr>locallyCreatedKeys := mapSet (ak_id k) k (locallyCreatedKeys s)\<rparr>, Inr ())
     else (s, Inr ()))"

definition forgetLocal :: "string \<Rightarrow> ('w, unit) service" where
  "forgetLocal i = (\<lambda>s. (s\<lparr>locallyCreatedKeys := mapDelete i (locallyCreatedKeys s)\<rparr>, Inr ()))"

definition waitForUpdateRetry :: "'w env \<Rightarrow> nat \<Rightarrow> ('w, unit) service" where
  "waitForUpdateRetry E attempt = (\<lambda>s.
     (s\<lparr>outside := e_sleep E (min (2 ^ attempt) MAX_UPDATE_RETRY_DELAY_MS) (outside s)\<rparr>, Inr ()))"

section \<open>Secrets and their verifiers\<close>

text \<open>The bytes of a text, as \<open>Buffer\<close>, the hash and the key derivation read it.\<close>

definition utf8 :: "string \<Rightarrow> string" where
  "utf8 xs = concat (map (\<lambda>c. let n = (of_char c :: nat) in
     if n < 128 then [c] else [char_of (192 + n div 64), char_of (128 + n mod 64)]) xs)"

definition noLineEnd :: "char \<Rightarrow> bool" where
  "noLineEnd c \<longleftrightarrow> c \<noteq> CHR 0x0A \<and> c \<noteq> CHR 0x0D"

text \<open>\<open>/^(app_live_[0-9a-f]{6})_(.+)$/\<close>\<close>

definition parseApiKeyPrefix :: "string \<Rightarrow> string option" where
  "parseApiKeyPrefix secret =
     (if startsWith secret ''app_live_'' \<and> 16 < length secret \<and> list_all hexChar (take 6 (drop 9 secret))
        \<and> secret ! 15 = CHR ''_'' \<and> list_all noLineEnd (drop 16 secret)
      then Some (take 15 secret) else None)"

definition verifierInput :: "'w env \<Rightarrow> string \<Rightarrow> string \<Rightarrow> string" where
  "verifierInput E secret verifierKey = e_hmac E verifierKey (utf8 secret)"

definition hashSecret :: "'w env \<Rightarrow> string \<Rightarrow> string option \<Rightarrow> ('w, string) service" where
  "hashSecret E secret verifierKey =
     bindA (draw (e_randomBytes E SALT_BYTES)) (\<lambda>salt.
     ret (case verifierKey of
        Some key \<Rightarrow> ''hmac-scrypt$'' @ base64url salt @ ''$'' @ base64url (e_scrypt E (verifierInput E secret key) salt 32)
      | None \<Rightarrow> ''scrypt$'' @ base64url salt @ ''$'' @ base64url (e_scrypt E (utf8 secret) salt 32)))"

datatype verification = SecretMatches | SecretDiffers | VerifierUnavailable

text \<open>
  Of the parts of the stored verifier only the first three count. \<open>scryptSync\<close> yields as many
  bytes as it is asked for, so the comparison in constant time never throws.
\<close>

definition verifySecret :: "'w env \<Rightarrow> string \<Rightarrow> string \<Rightarrow> string option \<Rightarrow> verification" where
  "verifySecret E secret encodedHash verifierKey = (case splitOn (CHR ''$'') encodedHash of
      algorithm # saltValue # digestValue # _ \<Rightarrow>
        if (algorithm \<noteq> ''scrypt'' \<and> algorithm \<noteq> ''hmac-scrypt'') \<or> saltValue = [] \<or> digestValue = []
        then SecretDiffers
        else if algorithm = ''hmac-scrypt'' \<and> verifierKey = None then VerifierUnavailable
        else
          let salt = fromBase64url saltValue; expected = fromBase64url digestValue;
              input = (if algorithm = ''hmac-scrypt'' then verifierInput E secret (the verifierKey) else utf8 secret)
          in if e_scrypt E input salt (length expected) = expected then SecretMatches else SecretDiffers
    | _ \<Rightarrow> SecretDiffers)"

section \<open>Views, queries and pages\<close>

definition keyStatus :: "'w env \<Rightarrow> api_key \<Rightarrow> int \<Rightarrow> key_status" where
  "keyStatus E k now =
     (if truthy (ak_revokedAt k) then KeyRevoked
      else if truthy (ak_expiresAt k) \<and> dateLeq E (the (ak_expiresAt k)) now then KeyExpired
      else KeyActive)"

definition toView :: "'w env \<Rightarrow> api_key \<Rightarrow> int \<Rightarrow> api_key_view" where
  "toView E k now =
     \<lparr>av_id = ak_id k, av_tenantId = ak_tenantId k, av_applicationId = keepTruthy (ak_applicationId k),
      av_name = ak_name k, av_keyPrefix = ak_keyPrefix k, av_scopes = [], av_restrictions = ak_restrictions k,
      av_status = keyStatus E k now, av_createdAt = ak_createdAt k, av_expiresAt = ak_expiresAt k,
      av_revokedAt = ak_revokedAt k, av_revokedBy = keepTruthy (ak_revokedBy k), av_lastUsedAt = ak_lastUsedAt k,
      av_updatedAt = keepTruthy (ak_updatedAt k), av_updatedBy = keepTruthy (ak_updatedBy k),
      av_rotatedFrom = keepTruthy (ak_rotatedFrom k), av_rotatedTo = keepTruthy (ak_rotatedTo k),
      av_rotatedAt = keepTruthy (ak_rotatedAt k), av_createdBy = ak_createdBy k\<rparr>"

definition toAuditView :: "key_event \<Rightarrow> key_event" where
  "toAuditView ev =
     \<lparr>ke_id = ke_id ev, ke_type = ke_type ev, ke_credentialId = ke_credentialId ev, ke_tenantId = ke_tenantId ev,
      ke_principalId = ke_principalId ev, ke_timestamp = ke_timestamp ev, ke_result = ke_result ev,
      ke_changes = ke_changes ev, ke_relatedCredentialId = keepTruthy (ke_relatedCredentialId ev)\<rparr>"

text \<open>A validated list query; the status \<open>None\<close> stands for \<open>all\<close>.\<close>

record key_query =
  kq_status :: "key_status option"
  kq_createdBy :: "string option"
  kq_limit :: int
  kq_after :: "string option"

definition anyObject :: "jsval \<Rightarrow> jsobj option" where
  "anyObject v = (case v of JObj ob \<Rightarrow> Some ob | JArr _ \<Rightarrow> Some [] | JDate _ \<Rightarrow> Some [] | _ \<Rightarrow> None)"

definition statusQuery :: "jsval \<Rightarrow> exn + key_status option" where
  "statusQuery v =
     (let bad = Inl (invalidRequest ''status must be one of all, active, expired, revoked'') in
      case v of
        JUndef \<Rightarrow> Inr None | JNull \<Rightarrow> Inr None
      | JStr x \<Rightarrow> (if x = ''all'' then Inr None else if x = ''active'' then Inr (Some KeyActive)
          else if x = ''expired'' then Inr (Some KeyExpired) else if x = ''revoked'' then Inr (Some KeyRevoked) else bad)
      | _ \<Rightarrow> bad)"

definition pageLimit :: "jsval \<Rightarrow> exn + int" where
  "pageLimit v =
     (let bad = Inl (invalidRequest ''limit must be an integer from 1 to 500'') in
      case v of
        JUndef \<Rightarrow> Inr MAX_PAGE_SIZE | JNull \<Rightarrow> Inr MAX_PAGE_SIZE
      | JNum n \<Rightarrow> if n < 1 \<or> MAX_PAGE_SIZE < n then bad else Inr n
      | _ \<Rightarrow> bad)"

definition optionalText :: "string \<Rightarrow> jsval \<Rightarrow> exn + string option" where
  "optionalText property v = (case v of
      JUndef \<Rightarrow> Inr None
    | JStr x \<Rightarrow> if x = [] then Inl (invalidRequest (property @ '' must be a non-empty string'')) else Inr (Some x)
    | _ \<Rightarrow> Inl (invalidRequest (property @ '' must be a non-empty string'')))"

definition listQuery :: "jsval \<Rightarrow> exn + key_query" where
  "listQuery options = (case anyObject options of
      None \<Rightarrow> Inl (invalidRequest ''List options must be an object'')
    | Some ob \<Rightarrow>
        bindR (statusQuery (propOf ob ''status'')) (\<lambda>status.
        bindR (pageLimit (propOf ob ''limit'')) (\<lambda>limit.
        bindR (optionalText ''createdBy'' (propOf ob ''createdBy'')) (\<lambda>createdBy.
        bindR (optionalText ''after'' (propOf ob ''after'')) (\<lambda>after.
        Inr \<lparr>kq_status = status, kq_createdBy = createdBy, kq_limit = limit, kq_after = after\<rparr>)))))"

fun findIndex :: "('a \<Rightarrow> bool) \<Rightarrow> 'a list \<Rightarrow> nat option" where
  "findIndex P [] = None"
| "findIndex P (x # xs) = (if P x then Some 0 else map_option Suc (findIndex P xs))"

definition page :: "('a \<Rightarrow> string) \<Rightarrow> 'a list \<Rightarrow> string option \<Rightarrow> int \<Rightarrow> 'a list" where
  "page ident items after limit = (case after of
      None \<Rightarrow> take (nat limit) items
    | Some a \<Rightarrow> (case findIndex (\<lambda>x. ident x = a) items of
        None \<Rightarrow> []
      | Some i \<Rightarrow> take (nat limit) (drop (Suc i) items)))"

definition requiredId :: "jsval \<Rightarrow> exn + string" where
  "requiredId v = (case v of
      JStr x \<Rightarrow> if trim x = [] then Inl (invalidRequest ''id is required'') else Inr x
    | _ \<Rightarrow> Inl (invalidRequest ''id is required''))"

definition isoDate :: "'w env \<Rightarrow> jsval \<Rightarrow> string \<Rightarrow> exn + string" where
  "isoDate E v property =
     (case (case v of JDate t \<Rightarrow> t | JStr x \<Rightarrow> dateTime E x | _ \<Rightarrow> None) of
        None \<Rightarrow> Inl (invalidRequest (property @ '' must be a valid date''))
      | Some t \<Rightarrow> toISOString t)"

definition byCreation :: "'w env \<Rightarrow> api_key \<Rightarrow> api_key \<Rightarrow> bool" where
  "byCreation E a b = byThen (e_localeLeq E) (ak_createdAt a) (ak_createdAt b) (ak_id a) (ak_id b)"

section \<open>Issuing\<close>

definition gatewayOf :: "'w key_service \<Rightarrow> exn + 'w gateway" where
  "gatewayOf SV = (case sv_authority SV of
      None \<Rightarrow> Inl (ServiceAuthorityError AUTHORITY_UNAVAILABLE
        ''API key management has no AuthBoundry authority configured'' noDetails)
    | Some G \<Rightarrow> Inr G)"

record issue_input =
  ii_tenantId :: string
  ii_name :: string
  ii_restrictions :: "key_restrictions option"
  ii_expiresAt :: "string option"
  ii_createdBy :: string
  ii_rotatedFrom :: "string option"

definition issue :: "'w env \<Rightarrow> 'w key_service \<Rightarrow> issue_input \<Rightarrow> ('w, api_key \<times> string) service" where
  "issue E SV input =
     bindA (draw (e_randomBytes E 3)) (\<lambda>p.
     bindA (draw (e_randomBytes E SECRET_BYTES)) (\<lambda>b.
     let prefix = API_KEY_SCHEME @ ''_'' @ hexEncode p; secret = prefix @ ''_'' @ base64url b in
     bindA (draw (e_uuid E)) (\<lambda>i.
     bindA (hashSecret E secret (sv_verifierKey SV)) (\<lambda>secretHash.
     bindA (nowISO E) (\<lambda>createdAt.
     ret (\<lparr>ak_id = i, ak_tenantId = ii_tenantId input, ak_applicationId = Some (sv_applicationId SV),
       ak_name = ii_name input, ak_keyPrefix = prefix, ak_secretHash = secretHash, ak_scopes = [],
       ak_restrictions = ii_restrictions input, ak_createdAt = createdAt, ak_expiresAt = ii_expiresAt input,
       ak_revokedAt = None, ak_revokedBy = None, ak_lastUsedAt = None, ak_updatedAt = None, ak_updatedBy = None,
       ak_rotatedFrom = keepTruthy (ii_rotatedFrom input), ak_rotatedTo = None, ak_rotatedAt = None,
       ak_createdBy = ii_createdBy input, ak_version = 1\<rparr>, secret))))))"

definition auditEvent ::
  "'w env \<Rightarrow> 'w key_service \<Rightarrow> key_event_type \<Rightarrow> api_key \<Rightarrow> string \<Rightarrow> string \<Rightarrow> key_event_result \<Rightarrow>
   string list option \<Rightarrow> string option \<Rightarrow> ('w, unit) service" where
  "auditEvent E SV type k principalId timestamp result changes related =
     bindA (draw (e_uuid E)) (\<lambda>i.
     as_record (sv_auditSink SV)
       \<lparr>ke_id = i, ke_type = type, ke_credentialId = ak_id k, ke_tenantId = ak_tenantId k, ke_principalId = principalId,
        ke_timestamp = timestamp, ke_result = result, ke_changes = changes, ke_relatedCredentialId = related\<rparr>)"

definition audit ::
  "'w env \<Rightarrow> 'w key_service \<Rightarrow> key_event_type \<Rightarrow> api_key \<Rightarrow> string \<Rightarrow> string \<Rightarrow> string list option \<Rightarrow> string option \<Rightarrow>
   ('w, unit) service" where
  "audit E SV type k principalId timestamp changes related =
     auditEvent E SV type k principalId timestamp ResultSuccess changes related"

definition recordAuthEvent ::
  "'w env \<Rightarrow> 'w key_service \<Rightarrow> api_key \<Rightarrow> key_event_result \<Rightarrow> string \<Rightarrow> ('w, unit) service" where
  "recordAuthEvent E SV k result timestamp = auditEvent E SV KeyAuthenticated k (ak_id k) timestamp result None None"

definition recordSuccessfulAuthEvent :: "'w env \<Rightarrow> 'w key_service \<Rightarrow> api_key \<Rightarrow> string \<Rightarrow> ('w, unit) service" where
  "recordSuccessfulAuthEvent E SV k timestamp =
     catchA (recordAuthEvent E SV k ResultSuccess timestamp) (\<lambda>_. ret ())"

text \<open>One round of the creation loop: everything inside its \<open>try\<close>.\<close>

definition createOnce :: "'w env \<Rightarrow> 'w key_service \<Rightarrow> issue_input \<Rightarrow> api_key \<Rightarrow> string \<Rightarrow> ('w, created_key) service" where
  "createOnce E SV input k secret =
     bindA (ks_create (sv_store SV) k) (\<lambda>_.
     bindA (rememberPrefix (ak_keyPrefix k) (ak_id k)) (\<lambda>_.
     bindA (rememberCreated SV k) (\<lambda>_.
     bindA (audit E SV KeyCreated k (ii_createdBy input) (ak_createdAt k) None None) (\<lambda>_.
     ret \<lparr>ck_id = ak_id k, ck_name = ak_name k, ck_prefix = ak_keyPrefix k, ck_secret = secret\<rparr>))))"

fun createLoop :: "nat \<Rightarrow> 'w env \<Rightarrow> 'w key_service \<Rightarrow> issue_input \<Rightarrow> ('w, created_key) service" where
  "createLoop 0 E SV input = raise (PlainError ''Unable to create a unique API key after repeated FeltDB conflicts.'')"
| "createLoop (Suc n) E SV input =
     bindA (issue E SV input) (\<lambda>(k, secret).
     catchA (createOnce E SV input k secret)
       (\<lambda>e. if isConditionalConflict e then createLoop n E SV input else raise e))"

text \<open>A name that is no string fails the check before any key is built.\<close>

definition createApiKeyWithSideEffects ::
  "'w env \<Rightarrow> 'w key_service \<Rightarrow> string \<Rightarrow> jsval \<Rightarrow> key_restrictions option \<Rightarrow> string option \<Rightarrow> string \<Rightarrow>
   ('w, created_key) service" where
  "createApiKeyWithSideEffects E SV tenantId name restrictions expiresAt createdBy = (case name of
      JStr x \<Rightarrow>
        if trim x = [] then raise (invalidRequest ''name must be a non-empty string'')
        else createLoop MAX_CREATE_ATTEMPTS E SV
          \<lparr>ii_tenantId = tenantId, ii_name = x, ii_restrictions = restrictions, ii_expiresAt = expiresAt,
           ii_createdBy = createdBy, ii_rotatedFrom = None\<rparr>
    | _ \<Rightarrow> raise (invalidRequest ''name must be a non-empty string''))"

definition assertWithinCaller ::
  "'w key_service \<Rightarrow> 'w principal \<Rightarrow> key_restrictions option \<Rightarrow> string option \<Rightarrow> ('w, unit) service" where
  "assertWithinCaller SV p restrictions expiresAt =
     (if pr_verifiedBy p \<noteq> ByApiKey \<or> \<not> truthy (pr_credentialId p) then ret ()
      else bindA (ks_get (sv_store SV) (the (pr_credentialId p))) (\<lambda>callerKey.
        case callerKey of
          None \<Rightarrow> raise (ServiceAuthorityError DENIED ''Calling API key is unknown''
            (noDetails\<lparr>ed_reason := Some ''credential_unknown''\<rparr>))
        | Some ck \<Rightarrow>
            if \<not> restrictionsWithin restrictions (ak_restrictions ck)
            then raise (ServiceAuthorityError DENIED
              ''An API key cannot create, widen, or rotate a key broader than its own restrictions''
              (noDetails\<lparr>ed_reason := Some ''exceeds_credential_restrictions''\<rparr>))
            else if truthy (ak_expiresAt ck) \<and> (\<not> truthy expiresAt \<or> strLess (the (ak_expiresAt ck)) (the expiresAt))
            then raise (ServiceAuthorityError DENIED ''An API key cannot create or extend a key that outlives it''
              (noDetails\<lparr>ed_reason := Some ''exceeds_credential_lifetime''\<rparr>))
            else ret ()))"

text \<open>An optional value that is only validated when it is supplied.\<close>

definition whenSupplied :: "(jsval \<Rightarrow> exn + 'a) \<Rightarrow> jsval \<Rightarrow> exn + 'a option" where
  "whenSupplied f v = (if v = JUndef then Inr None else bindR (f v) (\<lambda>x. Inr (Some x)))"

definition keyResource :: "string \<Rightarrow> string option \<Rightarrow> resource" where
  "keyResource tenantId i = \<lparr>rs_type = ''api_key'', rs_tenantId = tenantId, rs_id = i, rs_attributes = None\<rparr>"

definition createApiKey :: "'w env \<Rightarrow> 'w key_service \<Rightarrow> jsobj \<Rightarrow> 'w caller \<Rightarrow> ('w, created_key) service" where
  "createApiKey E SV input caller =
     (if hasLength (propOf input ''scopes'') then raise ApiKeyScopesNotSupportedError else
      bindA (liftR (requireVerifiedPrincipal caller)) (\<lambda>p.
      bindA (liftR (rejectCallerActor (JObj [(''createdBy'', propOf input ''createdBy'')]) p)) (\<lambda>_.
      bindA (liftR (resolveTenant (JObj input) p)) (\<lambda>tenantId.
      bindA (liftR (whenSupplied (normalizeRestrictions E) (propOf input ''restrictions''))) (\<lambda>restrictions.
      bindA (liftR (whenSupplied (\<lambda>v. isoDate E v ''expiresAt'') (propOf input ''expiresAt''))) (\<lambda>expiresAt.
      bindA (liftR (gatewayOf SV)) (\<lambda>G.
      execute E G ''apikeys.create'' (Verified p) (keyResource tenantId None) (serviceOptions ''api-keys'') (\<lambda>ctx. plain (
        bindA (assertWithinCaller SV p restrictions expiresAt) (\<lambda>_.
        createApiKeyWithSideEffects E SV tenantId (propOf input ''name'') restrictions expiresAt (pr_principalId p)))))))))))"

section \<open>Reading\<close>

definition matchesQuery :: "'w env \<Rightarrow> 'w key_service \<Rightarrow> key_query \<Rightarrow> int \<Rightarrow> api_key \<Rightarrow> bool" where
  "matchesQuery E SV q now k \<longleftrightarrow>
     ak_applicationId k = Some (sv_applicationId SV)
     \<and> (case kq_status q of None \<Rightarrow> True | Some st \<Rightarrow> keyStatus E k now = st)
     \<and> (case kq_createdBy q of None \<Rightarrow> True | Some c \<Rightarrow> ak_createdBy k = c)"

definition listApiKeys :: "'w env \<Rightarrow> 'w key_service \<Rightarrow> string \<Rightarrow> jsval \<Rightarrow> ('w, api_key_view list) service" where
  "listApiKeys E SV tenantId options =
     bindA (ks_list (sv_store SV) tenantId) (\<lambda>items.
     bindA (draw (e_now E)) (\<lambda>now.
     if options = JUndef then ret (map (\<lambda>k. toView E k now) items)
     else bindA (liftR (listQuery options)) (\<lambda>q.
       ret (map (\<lambda>k. toView E k now)
         (page ak_id (sortBy (byCreation E) (filter (matchesQuery E SV q now) items)) (kq_after q) (kq_limit q))))))"

definition getApiKey :: "'w env \<Rightarrow> 'w key_service \<Rightarrow> string \<Rightarrow> string \<Rightarrow> ('w, api_key_view option) service" where
  "getApiKey E SV tenantId i =
     bindA (ks_get (sv_store SV) i) (\<lambda>k.
     case k of
       None \<Rightarrow> ret None
     | Some k \<Rightarrow> if ak_tenantId k \<noteq> tenantId then ret None
         else bindA (draw (e_now E)) (\<lambda>now. ret (Some (toView E k now))))"

definition owns :: "'w key_service \<Rightarrow> api_key \<Rightarrow> string \<Rightarrow> bool \<Rightarrow> bool" where
  "owns SV k tenantId allowLegacy \<longleftrightarrow>
     ak_tenantId k = tenantId \<and>
     (ak_applicationId k = Some (sv_applicationId SV) \<or> allowLegacy \<and> ak_applicationId k = None)"

section \<open>Changing\<close>

text \<open>An absent change keeps the field, \<open>Some None\<close> clears it.\<close>

record key_changes =
  kc_name :: "string option"
  kc_restrictions :: "key_restrictions option option"
  kc_expiresAt :: "string option option"

definition changedFields :: "key_changes \<Rightarrow> string list" where
  "changedFields c =
     (if kc_name c \<noteq> None then [''name''] else [])
     @ (if kc_restrictions c \<noteq> None then [''restrictions''] else [])
     @ (if kc_expiresAt c \<noteq> None then [''expiresAt''] else [])"

definition nameChange :: "jsval \<Rightarrow> exn + string" where
  "nameChange v = (case v of
      JStr x \<Rightarrow> if trim x = [] then Inl (invalidRequest ''name must be a non-empty string'') else Inr x
    | _ \<Rightarrow> Inl (invalidRequest ''name must be a non-empty string''))"

text \<open>\<open>null\<close> clears the field, any other value is validated.\<close>

definition nullable :: "(jsval \<Rightarrow> exn + 'a) \<Rightarrow> jsval \<Rightarrow> exn + 'a option" where
  "nullable f v = (if v = JNull then Inr None else bindR (f v) (\<lambda>x. Inr (Some x)))"

definition keyChanges :: "'w env \<Rightarrow> jsobj \<Rightarrow> exn + key_changes" where
  "keyChanges E input =
     bindR (whenSupplied nameChange (propOf input ''name'')) (\<lambda>name.
     bindR (whenSupplied (nullable (normalizeRestrictions E)) (propOf input ''restrictions'')) (\<lambda>restrictions.
     bindR (whenSupplied (nullable (\<lambda>v. isoDate E v ''expiresAt'')) (propOf input ''expiresAt'')) (\<lambda>expiresAt.
     if name = None \<and> restrictions = None \<and> expiresAt = None
     then Inl (invalidRequest ''Nothing to update: supply name, restrictions, or expiresAt'')
     else Inr \<lparr>kc_name = name, kc_restrictions = restrictions, kc_expiresAt = expiresAt\<rparr>)))"

definition changedKey :: "key_changes \<Rightarrow> string \<Rightarrow> string \<Rightarrow> api_key \<Rightarrow> api_key" where
  "changedKey c updatedAt updatedBy k = k\<lparr>
     ak_name := (case kc_name c of None \<Rightarrow> ak_name k | Some n \<Rightarrow> n),
     ak_restrictions := (case kc_restrictions c of None \<Rightarrow> ak_restrictions k | Some r \<Rightarrow> r),
     ak_expiresAt := keepTruthy (case kc_expiresAt c of None \<Rightarrow> ak_expiresAt k | Some x \<Rightarrow> x),
     ak_updatedAt := Some updatedAt, ak_updatedBy := Some updatedBy\<rparr>"

fun updateLoop ::
  "nat \<Rightarrow> 'w env \<Rightarrow> 'w key_service \<Rightarrow> string \<Rightarrow> string \<Rightarrow> key_changes \<Rightarrow> 'w principal \<Rightarrow> ('w, api_key_view option) service" where
  "updateLoop 0 E SV tenantId i c p =
     raise (PlainError (''Unable to update API key '' @ i @ '' because concurrent FeltDB updates never settled.''))"
| "updateLoop (Suc n) E SV tenantId i c p =
     bindA (ks_get (sv_store SV) i) (\<lambda>found.
     case found of None \<Rightarrow> ret None | Some current \<Rightarrow>
     if \<not> owns SV current tenantId False then ret None
     else if truthy (ak_revokedAt current) then raise (invalidRequest ''A revoked API key cannot be updated'')
     else
     bindA (nowISO E) (\<lambda>updatedAt.
     let nxt = changedKey c updatedAt (pr_principalId p) current in
     bindA (if kc_restrictions c \<noteq> None \<or> kc_expiresAt c \<noteq> None
            then assertWithinCaller SV p (ak_restrictions nxt)
              (case kc_expiresAt c of None \<Rightarrow> ak_expiresAt current | Some x \<Rightarrow> x)
            else ret ()) (\<lambda>_.
     bindA (ks_replace (sv_store SV) (ak_id current) (ak_version current) nxt) (\<lambda>result.
     case result of
       None \<Rightarrow> bindA (waitForUpdateRetry E (MAX_UPDATE_ATTEMPTS - Suc n)) (\<lambda>_. updateLoop n E SV tenantId i c p)
     | Some r \<Rightarrow>
         let updated = nxt\<lparr>ak_version := ak_version r\<rparr> in
         bindA (rememberLocal updated) (\<lambda>_.
         bindA (audit E SV KeyUpdated updated (pr_principalId p) updatedAt
                 (Some (sortBy strLeq (changedFields c))) None) (\<lambda>_.
         bindA (draw (e_now E)) (\<lambda>now. ret (Some (toView E updated now)))))))))"

definition updateApiKey :: "'w env \<Rightarrow> 'w key_service \<Rightarrow> jsobj \<Rightarrow> 'w caller \<Rightarrow> ('w, api_key_view option) service" where
  "updateApiKey E SV input caller =
     bindA (liftR (requireVerifiedPrincipal caller)) (\<lambda>p.
     bindA (liftR (rejectCallerActor (JObj input) p)) (\<lambda>_.
     bindA (liftR (resolveTenant (JObj input) p)) (\<lambda>tenantId.
     bindA (liftR (requiredId (propOf input ''id''))) (\<lambda>i.
     bindA (liftR (keyChanges E input)) (\<lambda>c.
     bindA (liftR (gatewayOf SV)) (\<lambda>G.
     execute E G ''apikeys.update'' (Verified p) (keyResource tenantId (Some i)) (serviceOptions ''api-keys'')
       (\<lambda>ctx. plain (updateLoop MAX_UPDATE_ATTEMPTS E SV tenantId i c p))))))))"

section \<open>Rotating\<close>

definition statusName :: "key_status \<Rightarrow> string" where
  "statusName st = (case st of KeyActive \<Rightarrow> ''active'' | KeyExpired \<Rightarrow> ''expired'' | KeyRevoked \<Rightarrow> ''revoked'')"

text \<open>The end of the overlap, or the key's own expiry when its text sorts before it.\<close>

definition validUntil :: "api_key \<Rightarrow> string \<Rightarrow> string" where
  "validUntil current overlapEnd =
     (if truthy (ak_expiresAt current) \<and> strLess (the (ak_expiresAt current)) overlapEnd
      then the (ak_expiresAt current) else overlapEnd)"

definition retiredKey :: "api_key \<Rightarrow> string \<Rightarrow> int \<Rightarrow> string \<Rightarrow> string \<Rightarrow> string \<Rightarrow> api_key" where
  "retiredKey current rotatedTo overlapSeconds rotatedAt until by =
     (let k = current\<lparr>ak_rotatedTo := Some rotatedTo, ak_rotatedAt := Some rotatedAt\<rparr> in
      if overlapSeconds = 0 then k\<lparr>ak_revokedAt := Some rotatedAt, ak_revokedBy := Some by\<rparr>
      else k\<lparr>ak_expiresAt := Some until\<rparr>)"

text \<open>What follows a committed rotation.\<close>

definition rotated ::
  "'w env \<Rightarrow> 'w key_service \<Rightarrow> int \<Rightarrow> 'w principal \<Rightarrow> api_key \<Rightarrow> api_key \<Rightarrow> api_key \<Rightarrow> string \<Rightarrow> string \<Rightarrow> string \<Rightarrow>
   ('w, rotated_key option) service" where
  "rotated E SV overlapSeconds p current retired replacement secret rotatedAt until =
     bindA (rememberPrefix (ak_keyPrefix replacement) (ak_id replacement)) (\<lambda>_.
     bindA (rememberCreated SV replacement) (\<lambda>_.
     bindA (rememberLocal (retired\<lparr>ak_version := ak_version current + 1\<rparr>)) (\<lambda>_.
     bindA (audit E SV KeyCreated replacement (pr_principalId p) rotatedAt None (Some (ak_id current))) (\<lambda>_.
     bindA (audit E SV KeyRotated current (pr_principalId p) rotatedAt None (Some (ak_id replacement))) (\<lambda>_.
     bindA (if overlapSeconds = 0 then audit E SV KeyRevokedEvent current (pr_principalId p) rotatedAt None None else ret ()) (\<lambda>_.
     ret (Some \<lparr>ck_id = ak_id replacement, ck_name = ak_name replacement, ck_prefix = ak_keyPrefix replacement,
       ck_secret = secret, rk_replaces = ak_id current,
       rk_replacedKeyValidUntil = (if overlapSeconds = 0 then rotatedAt else until)\<rparr>)))))))"

fun rotateLoop ::
  "nat \<Rightarrow> 'w env \<Rightarrow> 'w key_service \<Rightarrow> string \<Rightarrow> string \<Rightarrow> int \<Rightarrow> 'w principal \<Rightarrow> ('w, rotated_key option) service" where
  "rotateLoop 0 E SV tenantId i overlapSeconds p =
     raise (PlainError (''Unable to rotate API key '' @ i @ '' because concurrent FeltDB updates never settled.''))"
| "rotateLoop (Suc n) E SV tenantId i overlapSeconds p =
     bindA (ks_get (sv_store SV) i) (\<lambda>found.
     case found of None \<Rightarrow> ret None | Some current \<Rightarrow>
     if \<not> owns SV current tenantId False then ret None else
     bindA (draw (e_now E)) (\<lambda>now.
     if truthy (ak_rotatedTo current)
     then raise (invalidRequest ''This API key has already been rotated; rotate its replacement instead'')
     else if keyStatus E current now \<noteq> KeyActive
     then raise (invalidRequest (''A '' @ statusName (keyStatus E current now) @ '' API key cannot be rotated''))
     else
     bindA (assertWithinCaller SV p (ak_restrictions current) (ak_expiresAt current)) (\<lambda>_.
     bindA (liftR (toISOString now)) (\<lambda>rotatedAt.
     bindA (liftR (toISOString (now + overlapSeconds * 1000))) (\<lambda>overlapEnd.
     let until = validUntil current overlapEnd in
     bindA (issue E SV \<lparr>ii_tenantId = tenantId, ii_name = ak_name current, ii_restrictions = ak_restrictions current,
        ii_expiresAt = ak_expiresAt current, ii_createdBy = pr_principalId p, ii_rotatedFrom = Some (ak_id current)\<rparr>)
       (\<lambda>(replacement, secret).
     let retired = retiredKey current (ak_id replacement) overlapSeconds rotatedAt until (pr_principalId p) in
     bindA (settle (ks_rotate (sv_store SV) current retired replacement)) (\<lambda>outcome.
     case outcome of
       Inl e \<Rightarrow> if \<not> isConditionalConflict e then raise e
         else bindA (waitForUpdateRetry E (MAX_UPDATE_ATTEMPTS - Suc n)) (\<lambda>_. rotateLoop n E SV tenantId i overlapSeconds p)
     | Inr _ \<Rightarrow> rotated E SV overlapSeconds p current retired replacement secret rotatedAt until)))))))"

definition overlapOf :: "jsval \<Rightarrow> exn + int" where
  "overlapOf v = (case (if v = JUndef \<or> v = JNull then JNum 0 else v) of
      JNum n \<Rightarrow> if n < 0 \<or> MAX_OVERLAP_SECONDS < n
        then Inl (invalidRequest ''overlapSeconds must be an integer from 0 to 604800'') else Inr n
    | _ \<Rightarrow> Inl (invalidRequest ''overlapSeconds must be an integer from 0 to 604800''))"

definition rotateApiKey :: "'w env \<Rightarrow> 'w key_service \<Rightarrow> jsobj \<Rightarrow> 'w caller \<Rightarrow> ('w, rotated_key option) service" where
  "rotateApiKey E SV input caller =
     bindA (liftR (requireVerifiedPrincipal caller)) (\<lambda>p.
     bindA (liftR (rejectCallerActor (JObj input) p)) (\<lambda>_.
     bindA (liftR (resolveTenant (JObj input) p)) (\<lambda>tenantId.
     bindA (liftR (requiredId (propOf input ''id''))) (\<lambda>i.
     bindA (liftR (overlapOf (propOf input ''overlapSeconds''))) (\<lambda>overlapSeconds.
     bindA (liftR (gatewayOf SV)) (\<lambda>G.
     execute E G ''apikeys.rotate'' (Verified p) (keyResource tenantId (Some i)) (serviceOptions ''api-keys'')
       (\<lambda>ctx. plain (rotateLoop MAX_UPDATE_ATTEMPTS E SV tenantId i overlapSeconds p))))))))"

section \<open>Revoking\<close>

fun revokeLoop :: "nat \<Rightarrow> 'w env \<Rightarrow> 'w key_service \<Rightarrow> string \<Rightarrow> string \<Rightarrow> string \<Rightarrow> ('w, api_key_view option) service" where
  "revokeLoop 0 E SV tenantId i revokedBy =
     raise (PlainError (''Unable to revoke API key '' @ i @ '' because concurrent FeltDB updates never settled.''))"
| "revokeLoop (Suc n) E SV tenantId i revokedBy =
     bindA (ks_get (sv_store SV) i) (\<lambda>found.
     case found of None \<Rightarrow> ret None | Some current \<Rightarrow>
     if \<not> owns SV current tenantId True then ret None
     else if truthy (ak_revokedAt current) then bindA (draw (e_now E)) (\<lambda>now. ret (Some (toView E current now)))
     else
     bindA (nowISO E) (\<lambda>revokedAt.
     bindA (ks_revoke (sv_store SV) (ak_id current) (ak_version current) revokedAt (Some revokedBy)) (\<lambda>result.
     case result of
       None \<Rightarrow> bindA (waitForUpdateRetry E (MAX_UPDATE_ATTEMPTS - Suc n)) (\<lambda>_. revokeLoop n E SV tenantId i revokedBy)
     | Some r \<Rightarrow>
         let updated = current\<lparr>ak_revokedAt := Some revokedAt, ak_revokedBy := Some revokedBy, ak_version := ak_version r\<rparr> in
         bindA (audit E SV KeyRevokedEvent updated revokedBy revokedAt None None) (\<lambda>_.
         bindA (rememberLocal updated) (\<lambda>_.
         bindA (draw (e_now E)) (\<lambda>now. ret (Some (toView E updated now))))))))"

text \<open>The id of the key is typed as a string and passed on as it is.\<close>

definition revokeApiKey :: "'w env \<Rightarrow> 'w key_service \<Rightarrow> string \<Rightarrow> jsobj \<Rightarrow> 'w caller \<Rightarrow> ('w, api_key_view option) service" where
  "revokeApiKey E SV i input caller =
     bindA (liftR (requireVerifiedPrincipal caller)) (\<lambda>p.
     bindA (liftR (rejectCallerActor (JObj [(''revokedBy'', propOf input ''revokedBy'')]) p)) (\<lambda>_.
     bindA (liftR (resolveTenant (JObj input) p)) (\<lambda>tenantId.
     bindA (liftR (gatewayOf SV)) (\<lambda>G.
     execute E G ''apikeys.revoke'' (Verified p) (keyResource tenantId (Some i)) (serviceOptions ''api-keys'')
       (\<lambda>ctx. plain (revokeLoop MAX_UPDATE_ATTEMPTS E SV tenantId i (pr_principalId p)))))))"

definition createdByFilter :: "jsval \<Rightarrow> exn + string option" where
  "createdByFilter v = (case v of
      JUndef \<Rightarrow> Inr None
    | JStr x \<Rightarrow> if trim x = [] then Inl (invalidRequest ''createdBy must be a non-empty string'') else Inr (Some x)
    | _ \<Rightarrow> Inl (invalidRequest ''createdBy must be a non-empty string''))"

definition revokeCandidates :: "'w env \<Rightarrow> 'w key_service \<Rightarrow> string \<Rightarrow> string option \<Rightarrow> api_key list \<Rightarrow> api_key list" where
  "revokeCandidates E SV tenantId createdBy keys =
     sortBy (byCreation E)
       (filter (\<lambda>k. owns SV k tenantId True \<and> \<not> truthy (ak_revokedAt k)
          \<and> (case createdBy of None \<Rightarrow> True | Some c \<Rightarrow> ak_createdBy k = c)) keys)"

definition revokeAllApiKeys :: "'w env \<Rightarrow> 'w key_service \<Rightarrow> jsobj \<Rightarrow> 'w caller \<Rightarrow> ('w, string list) service" where
  "revokeAllApiKeys E SV input caller =
     bindA (liftR (requireVerifiedPrincipal caller)) (\<lambda>p.
     bindA (liftR (rejectCallerActor (JObj [(''revokedBy'', propOf input ''revokedBy''),
        (''principal'', propOf input ''principal'')]) p)) (\<lambda>_.
     bindA (liftR (resolveTenant (JObj input) p)) (\<lambda>tenantId.
     bindA (liftR (createdByFilter (propOf input ''createdBy''))) (\<lambda>createdBy.
     bindA (liftR (gatewayOf SV)) (\<lambda>G.
     execute E G ''apikeys.revoke'' (Verified p)
       ((keyResource tenantId None)\<lparr>rs_attributes :=
          Some [(''createdBy'', case createdBy of None \<Rightarrow> ''*'' | Some c \<Rightarrow> c)]\<rparr>) (serviceOptions ''api-keys'')
       (\<lambda>ctx. plain (
         bindA (ks_list (sv_store SV) tenantId) (\<lambda>keys.
         bindA (mapA (\<lambda>k. revokeLoop MAX_UPDATE_ATTEMPTS E SV tenantId (ak_id k) (pr_principalId p))
                  (revokeCandidates E SV tenantId createdBy keys)) (\<lambda>results.
         ret (map av_id (List.map_filter id results)))))))))))"

section \<open>The audit trail\<close>

definition ownEvents ::
  "'w env \<Rightarrow> 'w key_service \<Rightarrow> string \<Rightarrow> string option \<Rightarrow> api_key list \<Rightarrow> key_event list \<Rightarrow> key_event list" where
  "ownEvents E SV tenantId credId keys events =
     (let owned = map ak_id (filter (\<lambda>k. owns SV k tenantId False) keys) in
      sortBy (\<lambda>a b. byThen (e_localeLeq E) (ke_timestamp a) (ke_timestamp b) (ke_id a) (ke_id b))
        (filter (\<lambda>ev. ke_tenantId ev = tenantId \<and> ke_credentialId ev \<in> set owned
           \<and> (case credId of None \<Rightarrow> True | Some c \<Rightarrow> ke_credentialId ev = c)) events))"

text \<open>The limit defaults to one page of the audit trail when it is absent or null.\<close>

definition auditQuery :: "jsobj \<Rightarrow> jsobj" where
  "auditQuery q =
     [(''limit'', if propOf q ''limit'' = JUndef \<or> propOf q ''limit'' = JNull then JNum DEFAULT_AUDIT_PAGE_SIZE else propOf q ''limit''),
      (''after'', propOf q ''after'')]"

definition listApiKeyAuditEvents :: "'w env \<Rightarrow> 'w key_service \<Rightarrow> jsobj \<Rightarrow> 'w caller \<Rightarrow> ('w, key_event list) service" where
  "listApiKeyAuditEvents E SV query caller =
     bindA (liftR (requireVerifiedPrincipal caller)) (\<lambda>p.
     bindA (liftR (resolveTenant (JObj query) p)) (\<lambda>tenantId.
     bindA (liftR (whenSupplied requiredId (propOf query ''credentialId''))) (\<lambda>credId.
     bindA (liftR (listQuery (JObj (auditQuery query)))) (\<lambda>q.
     bindA (liftR (gatewayOf SV)) (\<lambda>G.
     execute E G ''apikeys.audit'' (Verified p) (keyResource tenantId credId) (serviceOptions ''api-keys'')
       (\<lambda>ctx. plain (case as_list (sv_auditSink SV) of
          None \<Rightarrow> raise (invalidRequest ''The configured API key audit sink does not support reads'')
        | Some list \<Rightarrow>
            bindA (ks_list (sv_store SV) tenantId) (\<lambda>keys.
            bindA (list tenantId) (\<lambda>events.
            ret (map toAuditView (page ke_id (ownEvents E SV tenantId credId keys events) (kq_after q) (kq_limit q))))))))))))"

section \<open>Authenticating\<close>

text \<open>The check bound to an authenticated principal: it re-reads the record on every operation.\<close>

definition credentialCheck ::
  "'w env \<Rightarrow> 'w key_service \<Rightarrow> string \<Rightarrow> string \<Rightarrow> string \<Rightarrow> resource \<Rightarrow> ('w, unit) service" where
  "credentialCheck E SV keyId tenantId capability r =
     (let deny = (\<lambda>reason msg. raise (ServiceAuthorityError DENIED msg
            (noDetails\<lparr>ed_capability := Some capability, ed_reason := Some reason\<rparr>))) in
      bindA (ks_get (sv_store SV) keyId) (\<lambda>found.
      case found of
        None \<Rightarrow> deny ''credential_unknown'' ''API key is unknown''
      | Some current \<Rightarrow>
          if ak_tenantId current \<noteq> tenantId \<or> ak_applicationId current \<noteq> Some (sv_applicationId SV)
          then deny ''credential_unknown'' ''API key is unknown''
          else bindA (draw (e_now E)) (\<lambda>now.
            if keyStatus E current now = KeyRevoked then deny ''credential_revoked'' ''API key has been revoked''
            else if keyStatus E current now = KeyExpired then deny ''credential_expired'' ''API key has expired''
            else if \<not> restrictionsPermit (ak_restrictions current) capability r
            then deny ''credential_restricted'' (''API key restrictions do not permit '' @ capability @ '' on this resource'')
            else ret ())))"

definition toPrincipal :: "'w env \<Rightarrow> 'w key_service \<Rightarrow> api_key \<Rightarrow> exn + 'w principal" where
  "toPrincipal E SV k =
     bindR (mintVerifiedPrincipal \<lparr>cl_principalId = JStr (ak_id k), cl_principalType = JStr ''api_key'',
         cl_tenantId = JStr (ak_tenantId k), cl_applicationId = ak_applicationId k, cl_credentialId = Some (ak_id k),
         cl_delegationId = None, cl_runId = None\<rparr> ByApiKey) (\<lambda>p.
     Inr (bindCredentialCheck p (credentialCheck E SV (ak_id k) (pr_tenantId p))))"

definition authenticationFailure :: "'w env \<Rightarrow> 'w key_service \<Rightarrow> api_key \<Rightarrow> string \<Rightarrow> int \<Rightarrow> key_event_result option" where
  "authenticationFailure E SV k secret now =
     (if truthy (ak_revokedAt k) then Some ResultRevoked
      else if truthy (ak_expiresAt k) \<and> dateLeq E (the (ak_expiresAt k)) now then Some ResultExpired
      else (case verifySecret E secret (ak_secretHash k) (sv_verifierKey SV) of
          VerifierUnavailable \<Rightarrow> Some ResultVerifierUnavailable
        | SecretDiffers \<Rightarrow> Some ResultInvalidSecret
        | SecretMatches \<Rightarrow>
            if ak_applicationId k \<noteq> Some (sv_applicationId SV) then Some ResultApplicationMismatch else None))"

definition findApiKeyByPrefix :: "'w key_service \<Rightarrow> string \<Rightarrow> ('w, api_key option) service" where
  "findApiKeyByPrefix SV p =
     (let indexed = bindA (ks_findByPrefix (sv_store SV) p) (\<lambda>found.
            case found of
              None \<Rightarrow> ret None
            | Some k \<Rightarrow> bindA (rememberPrefix p (ak_id k)) (\<lambda>_. ret (Some k)))
      in bindA (gets (\<lambda>s. map_of (knownPrefixes s) p)) (\<lambda>known.
         case keepTruthy known of
           None \<Rightarrow> indexed
         | Some i \<Rightarrow>
             bindA (ks_get (sv_store SV) i) (\<lambda>stored.
             case stored of
               Some k \<Rightarrow> bindA (forgetLocal i) (\<lambda>_. ret (Some k))
             | None \<Rightarrow>
                 bindA (gets (\<lambda>s. if sv_local SV then map_of (locallyCreatedKeys s) i else None)) (\<lambda>local.
                 case local of Some k \<Rightarrow> ret (Some k) | None \<Rightarrow> indexed))))"

text \<open>The last look after ten rounds that did not settle: valid bookkeeping is not required.\<close>

definition authenticateLast :: "'w env \<Rightarrow> 'w key_service \<Rightarrow> string \<Rightarrow> string \<Rightarrow> ('w, 'w principal option) service" where
  "authenticateLast E SV secret p =
     bindA (catchA (findApiKeyByPrefix SV p) (\<lambda>_. ret None)) (\<lambda>found.
     case found of
       None \<Rightarrow> ret None
     | Some current \<Rightarrow>
         bindA (draw (e_now E)) (\<lambda>now.
         case authenticationFailure E SV current secret now of
           Some failure \<Rightarrow>
             bindA (liftR (toISOString now)) (\<lambda>at.
             bindA (catchA (recordAuthEvent E SV current failure at) (\<lambda>_. ret ())) (\<lambda>_. ret None))
         | None \<Rightarrow>
             bindA (liftR (toISOString now)) (\<lambda>at.
             bindA (recordSuccessfulAuthEvent E SV current at) (\<lambda>_.
             bindA (liftR (toPrincipal E SV current)) (\<lambda>pr. ret (Some pr))))))"

fun authenticateLoop ::
  "nat \<Rightarrow> 'w env \<Rightarrow> 'w key_service \<Rightarrow> string \<Rightarrow> string \<Rightarrow> ('w, 'w principal option) service" where
  "authenticateLoop 0 E SV secret p = authenticateLast E SV secret p"
| "authenticateLoop (Suc n) E SV secret p =
     (let again = bindA (waitForUpdateRetry E (MAX_UPDATE_ATTEMPTS - Suc n)) (\<lambda>_. authenticateLoop n E SV secret p) in
      bindA (settle (findApiKeyByPrefix SV p)) (\<lambda>found.
      case found of
        Inl _ \<Rightarrow> again
      | Inr None \<Rightarrow> again
      | Inr (Some current) \<Rightarrow>
          bindA (draw (e_now E)) (\<lambda>now.
          case authenticationFailure E SV current secret now of
            Some failure \<Rightarrow>
              bindA (liftR (toISOString now)) (\<lambda>at.
              bindA (recordAuthEvent E SV current failure at) (\<lambda>_. ret None))
          | None \<Rightarrow>
              bindA (settle (bindA (liftR (toISOString now)) (\<lambda>at.
                ks_recordLastUsed (sv_store SV) (ak_id current) (ak_version current) at))) (\<lambda>used.
              case used of
                Inl _ \<Rightarrow> again
              | Inr None \<Rightarrow> again
              | Inr (Some u) \<Rightarrow>
                  bindA (liftR (toISOString now)) (\<lambda>at.
                  let updated = current\<lparr>ak_lastUsedAt := Some (case ak_lastUsedAt u of None \<Rightarrow> at | Some x \<Rightarrow> x),
                        ak_version := ak_version u\<rparr> in
                  bindA (recordSuccessfulAuthEvent E SV updated at) (\<lambda>_.
                  bindA (rememberLocal updated) (\<lambda>_.
                  bindA (liftR (toPrincipal E SV updated)) (\<lambda>pr. ret (Some pr)))))))))"

definition authenticateApiKey :: "'w env \<Rightarrow> 'w key_service \<Rightarrow> jsval \<Rightarrow> ('w, 'w principal option) service" where
  "authenticateApiKey E SV secret = (case secret of
      JStr x \<Rightarrow>
        (case parseApiKeyPrefix x of
           None \<Rightarrow> ret None
         | Some p \<Rightarrow> authenticateLoop MAX_UPDATE_ATTEMPTS E SV x p)
    | _ \<Rightarrow> ret None)"

end
