(* ===== verification/ApiKeyLifecycle.thy ===== *)
theory ApiKeyLifecycle
  imports ApiKeys
begin

text \<open>
  The lifecycle of API keys: an abstract specification of how the stored keys may change, the
  proof that the service's loops follow it, and what it implies.
\<close>

section \<open>The specification\<close>

definition isRevoked :: "api_key \<Rightarrow> bool" where
  "isRevoked k \<longleftrightarrow> truthy (ak_revokedAt k)"

definition isRotated :: "api_key \<Rightarrow> bool" where
  "isRotated k \<longleftrightarrow> truthy (ak_rotatedTo k)"

definition freshKey :: "api_key \<Rightarrow> bool" where
  "freshKey k \<longleftrightarrow> \<not> isRevoked k \<and> \<not> isRotated k \<and> ak_version k = 1"

text \<open>A replacement carries the authority of the key it replaces, no more and no longer.\<close>

definition replacementOf :: "api_key \<Rightarrow> api_key \<Rightarrow> bool" where
  "replacementOf k k' \<longleftrightarrow>
     freshKey k' \<and> ak_tenantId k' = ak_tenantId k \<and> ak_applicationId k' = ak_applicationId k \<and>
     ak_name k' = ak_name k \<and> ak_restrictions k' = ak_restrictions k \<and> ak_expiresAt k' = ak_expiresAt k \<and>
     ak_rotatedFrom k' = keepTruthy (Some (ak_id k))"

type_synonym keys = "string \<Rightarrow> api_key option"

inductive key_step :: "keys \<Rightarrow> keys \<Rightarrow> bool" where
  created: "m (ak_id k) = None \<Longrightarrow> freshKey k \<Longrightarrow> key_step m (m(ak_id k \<mapsto> k))"
| used: "m i = Some k \<Longrightarrow> ak_version k < n \<Longrightarrow>
    key_step m (m(i \<mapsto> k\<lparr>ak_lastUsedAt := Some at, ak_version := n\<rparr>))"
| changed: "m i = Some k \<Longrightarrow> \<not> isRevoked k \<Longrightarrow> ak_version k < n \<Longrightarrow>
    key_step m (m(i \<mapsto> (changedKey c at by k)\<lparr>ak_version := n\<rparr>))"
| revoked: "m i = Some k \<Longrightarrow> \<not> isRevoked k \<Longrightarrow> at \<noteq> [] \<Longrightarrow> ak_version k < n \<Longrightarrow>
    key_step m (m(i \<mapsto> (revokeUpdate at by k)\<lparr>ak_version := n\<rparr>))"
| rotated: "m i = Some k \<Longrightarrow> \<not> isRevoked k \<Longrightarrow> \<not> isRotated k \<Longrightarrow> m (ak_id k') = None \<Longrightarrow> ak_id k' \<noteq> [] \<Longrightarrow>
    replacementOf k k' \<Longrightarrow> at \<noteq> [] \<Longrightarrow>
    key_step m (m(i \<mapsto> (retiredKey k (ak_id k') overlap at until by)\<lparr>ak_version := ak_version k + 1\<rparr>, ak_id k' \<mapsto> k'))"

inductive_cases key_stepE: "key_step m m'"

text \<open>Every record is stored under its own id.\<close>

definition wfKeys :: "keys \<Rightarrow> bool" where
  "wfKeys m \<longleftrightarrow> (\<forall>i k. m i = Some k \<longrightarrow> ak_id k = i)"

lemma wfKeysD: "wfKeys m \<Longrightarrow> m i = Some k \<Longrightarrow> ak_id k = i"
  by (simp add: wfKeys_def)

lemma wfKeys_upd: "wfKeys m \<Longrightarrow> ak_id k = i \<Longrightarrow> wfKeys (m(i \<mapsto> k))"
  by (simp add: wfKeys_def)

text \<open>A key without its usage bookkeeping.\<close>

definition settled :: "api_key \<Rightarrow> api_key" where
  "settled k = k\<lparr>ak_lastUsedAt := None, ak_version := 0\<rparr>"

text \<open>What no later step takes back: identity, verifier, revocation and rotation of a key.\<close>

definition keyStays :: "api_key \<Rightarrow> api_key \<Rightarrow> bool" where
  "keyStays k k' \<longleftrightarrow>
     ak_id k' = ak_id k \<and> ak_tenantId k' = ak_tenantId k \<and> ak_applicationId k' = ak_applicationId k \<and>
     ak_keyPrefix k' = ak_keyPrefix k \<and> ak_secretHash k' = ak_secretHash k \<and>
     ak_createdAt k' = ak_createdAt k \<and> ak_createdBy k' = ak_createdBy k \<and>
     ak_rotatedFrom k' = ak_rotatedFrom k \<and> ak_version k \<le> ak_version k' \<and>
     (isRotated k \<longrightarrow> ak_rotatedTo k' = ak_rotatedTo k) \<and>
     (isRevoked k \<longrightarrow> settled k' = settled k)"

lemma keyStays_refl: "keyStays k k"
  by (simp add: keyStays_def)

lemma settled_revoked: "settled a = settled b \<Longrightarrow> isRevoked a = isRevoked b"
proof -
  assume "settled a = settled b"
  then have "ak_revokedAt (settled a) = ak_revokedAt (settled b)" by simp
  then show ?thesis by (simp add: settled_def isRevoked_def)
qed

lemma keyStays_trans: "keyStays a b \<Longrightarrow> keyStays b c \<Longrightarrow> keyStays a c"
proof -
  assume ab: "keyStays a b" and bc: "keyStays b c"
  have "isRevoked a \<Longrightarrow> isRevoked b" using ab settled_revoked unfolding keyStays_def by blast
  moreover have "isRotated a \<Longrightarrow> isRotated b" using ab by (simp add: keyStays_def isRotated_def)
  ultimately show ?thesis using ab bc unfolding keyStays_def by auto
qed

lemma keyStays_writes:
  "ak_version k < n \<Longrightarrow> keyStays k (k\<lparr>ak_lastUsedAt := at, ak_version := n\<rparr>)"
  "\<not> isRevoked k \<Longrightarrow> ak_version k < n \<Longrightarrow> keyStays k ((changedKey c x y k)\<lparr>ak_version := n\<rparr>)"
  "\<not> isRevoked k \<Longrightarrow> ak_version k < n \<Longrightarrow> keyStays k ((revokeUpdate x z k)\<lparr>ak_version := n\<rparr>)"
  "\<not> isRevoked k \<Longrightarrow> \<not> isRotated k \<Longrightarrow> ak_version k < n \<Longrightarrow>
     keyStays k ((retiredKey k i overlap x y z')\<lparr>ak_version := n\<rparr>)"
  by (auto simp: keyStays_def settled_def changedKey_def revokeUpdate_def retiredKey_def Let_def)

lemma step_keyStays:
  assumes "key_step m m'" and "m i = Some k"
  shows "\<exists>k'. m' i = Some k' \<and> keyStays k k'"
  using assms by (cases rule: key_step.cases) (auto simp: keyStays_refl keyStays_writes)

lemma steps_keyStays:
  assumes "key_step\<^sup>*\<^sup>* m m'" and "m i = Some k"
  shows "\<exists>k'. m' i = Some k' \<and> keyStays k k'"
  using assms
proof (induction rule: rtranclp_induct)
  case base
  then show ?case using keyStays_refl by blast
next
  case (step y z)
  then show ?case using step_keyStays keyStays_trans by blast
qed

section \<open>Framing the service's actions\<close>

definition sameKeys :: "('w sys \<Rightarrow> keys) \<Rightarrow> 'w sys \<Rightarrow> 'w sys \<Rightarrow> bool" where
  "sameKeys V s t \<longleftrightarrow> V t = V s"

definition lifecycle :: "('w sys \<Rightarrow> keys) \<Rightarrow> 'w sys \<Rightarrow> 'w sys \<Rightarrow> bool" where
  "lifecycle V s t \<longleftrightarrow> (wfKeys (V s) \<longrightarrow> wfKeys (V t) \<and> key_step\<^sup>*\<^sup>* (V s) (V t))"

interpretation sameKeys: frame "sameKeys V" for V
  by unfold_locales (auto simp: sameKeys_def)

interpretation lifecycle: frame "lifecycle V" for V
  by unfold_locales (auto simp: lifecycle_def)

lemma lifecycle_same: "moves (sameKeys V) m \<Longrightarrow> moves (lifecycle V) m"
  by (erule moves_weaken) (simp add: sameKeys_def lifecycle_def)

lemma lifecycle_bind:
  assumes "moves (sameKeys V) m" and "\<And>x t. m s = (t, Inr x) \<Longrightarrow> V t = V s \<Longrightarrow> movesAt (lifecycle V) (k x) t"
  shows "movesAt (lifecycle V) (bindA m k) s"
proof (rule lifecycle.movesAt_bindA)
  show "movesAt (lifecycle V) m s" using lifecycle_same [OF assms(1)] by (simp add: moves_iff_At)
next
  fix x t
  assume "m s = (t, Inr x)"
  then show "movesAt (lifecycle V) (k x) t" using assms(2) movesD [OF assms(1)] by (simp add: sameKeys_def)
qed

lemma lifecycle_step: "wfKeys (V s) \<Longrightarrow> wfKeys (V t) \<Longrightarrow> key_step (V s) (V t) \<Longrightarrow> lifecycle V s t"
  by (auto simp: lifecycle_def)

text \<open>A fenced write is a step when the record it is fenced on is the record it was computed from.\<close>

lemma lifecycle_fenced:
  assumes "fenced V s t i v f r" and "V s i = Some k"
    and "\<And>n. v < n \<Longrightarrow> ak_version k = v \<Longrightarrow> key_step (V s) ((V s)(i \<mapsto> (f k)\<lparr>ak_version := n\<rparr>))"
    and "wfKeys (V s) \<Longrightarrow> ak_id (f k) = i"
  shows "lifecycle V s t"
proof -
  have step: "lifecycle V s t" if cas: "casKey V s t i v f"
  proof (cases "wfKeys (V s)")
    case True
    from cas obtain n where n: "ak_version k = v" "v < n" "V t = (V s)(i \<mapsto> (f k)\<lparr>ak_version := n\<rparr>)"
      using assms(2) by (auto simp: casKey_def)
    have "wfKeys (V t)" unfolding n(3) by (rule wfKeys_upd [OF True]) (simp add: assms(4) [OF True])
    then show ?thesis using lifecycle_step [of V s t] True assms(3) n by metis
  qed (simp add: lifecycle_def)
  show ?thesis
  proof (cases r)
    case (Inl e)
    then show ?thesis using assms(1) step by (auto simp: lifecycle_def)
  next
    case (Inr x)
    then show ?thesis using assms(1) step by (cases x) (auto simp: lifecycle_def)
  qed
qed

section \<open>The service on any store that meets the contract\<close>

locale key_service = api_key_store "sv_store SV" V
  for SV :: "'w key_service" and V :: "'w sys \<Rightarrow> keys" +
  fixes E :: "'w env"
  assumes now_kept: "moves (sameKeys V) (draw (e_now E))"
    and uuid_kept: "moves (sameKeys V) (draw (e_uuid E))"
    and random_kept: "moves (sameKeys V) (draw (e_randomBytes E len))"
    and sleep_kept: "V (s\<lparr>outside := e_sleep E ms (outside s)\<rparr>) = V s"
    and audit_kept: "moves (sameKeys V) (as_record (sv_auditSink SV) ev)"
    and audits_kept: "as_list (sv_auditSink SV) = Some ls \<Longrightarrow> moves (sameKeys V) (ls tenantId)"
    and prefixes_kept: "V (s\<lparr>knownPrefixes := ps\<rparr>) = V s"
    and locals_kept: "V (s\<lparr>locallyCreatedKeys := ks\<rparr>) = V s"
    and uuid_some: "e_uuid E w = (w', x) \<Longrightarrow> x \<noteq> []"
begin

lemma get_same: "moves (sameKeys V) (ks_get (sv_store SV) i)"
  by (rule movesI) (simp add: sameKeys_def get_kept)

lemma find_same: "moves (sameKeys V) (ks_findByPrefix (sv_store SV) p)"
  by (rule movesI) (simp add: sameKeys_def find_kept)

lemma list_same: "moves (sameKeys V) (ks_list (sv_store SV) tenantId)"
  by (rule movesI) (simp add: sameKeys_def list_kept)

lemma nowISO_same: "moves (sameKeys V) (nowISO E)"
  unfolding nowISO_def by (intro sameKeys.frame_rules now_kept)

lemma hint_same:
  "moves (sameKeys V) (rememberPrefix p i)" "moves (sameKeys V) (rememberCreated SV k)"
  "moves (sameKeys V) (rememberLocal k)" "moves (sameKeys V) (forgetLocal i)"
  "moves (sameKeys V) (waitForUpdateRetry E n)"
  by (rule movesI; auto simp: sameKeys_def rememberPrefix_def rememberCreated_def rememberLocal_def forgetLocal_def
      waitForUpdateRetry_def prefixes_kept locals_kept sleep_kept split: if_splits)+

lemma auditEvent_same: "moves (sameKeys V) (auditEvent E SV ty k p at res ch rel)"
  unfolding auditEvent_def by (intro sameKeys.frame_rules uuid_kept audit_kept)

lemma audit_same: "moves (sameKeys V) (audit E SV ty k p at ch rel)"
  unfolding audit_def by (rule auditEvent_same)

lemma authEvent_same: "moves (sameKeys V) (recordAuthEvent E SV k res at)"
  unfolding recordAuthEvent_def by (rule auditEvent_same)

lemma authSuccess_same: "moves (sameKeys V) (recordSuccessfulAuthEvent E SV k at)"
  unfolding recordSuccessfulAuthEvent_def by (intro sameKeys.frame_rules authEvent_same)

lemma hash_same: "moves (sameKeys V) (hashSecret E x key)"
  unfolding hashSecret_def by (intro sameKeys.frame_rules random_kept)

lemma issue_same: "moves (sameKeys V) (issue E SV input)"
  unfolding issue_def Let_def by (intro sameKeys.frame_rules random_kept uuid_kept hash_same nowISO_same)

lemma within_same: "moves (sameKeys V) (assertWithinCaller SV p restr at)"
  unfolding assertWithinCaller_def by (intro sameKeys.frame_rules get_same)

lemma check_same: "moves (sameKeys V) (credentialCheck E SV i tenantId cap r)"
  unfolding credentialCheck_def Let_def by (intro sameKeys.frame_rules get_same now_kept)

lemmas same = now_kept uuid_kept random_kept audit_kept get_same find_same list_same nowISO_same hint_same audit_same
  authEvent_same authSuccess_same issue_same within_same

lemma issue_fresh:
  assumes "issue E SV input s = (t, Inr (k, secret))"
  shows "freshKey k \<and> ak_id k \<noteq> [] \<and> ak_tenantId k = ii_tenantId input \<and>
    ak_applicationId k = Some (sv_applicationId SV) \<and> ak_name k = ii_name input \<and>
    ak_restrictions k = ii_restrictions input \<and> ak_expiresAt k = ii_expiresAt input \<and>
    ak_rotatedFrom k = keepTruthy (ii_rotatedFrom input)"
  using assms by (auto simp: issue_def Let_def bindA_Inr_iff act_simps draw_eq_iff freshKey_def isRevoked_def
      isRotated_def dest!: uuid_some)

lemma created_lifecycle:
  assumes "freshKey k"
  shows "moves (lifecycle V) (ks_create (sv_store SV) k)"
proof (rule movesI)
  fix s t r
  assume run: "ks_create (sv_store SV) k s = (t, r)"
  then consider "V t = V s" | "V s (ak_id k) = None" "V t = (V s)(ak_id k \<mapsto> k)"
    using create_ok [of k s t] create_rejected [of k s t] by (cases r) auto
  then show "lifecycle V s t"
  proof cases
    case 2
    then show ?thesis
      using key_step.created [of "V s" k] assms by (auto simp: lifecycle_def wfKeys_upd)
  qed (simp add: lifecycle_def)
qed

lemma createOnce_lifecycle: "freshKey k \<Longrightarrow> moves (lifecycle V) (createOnce E SV input k secret)"
  unfolding createOnce_def
  by (intro lifecycle.frame_rules created_lifecycle lifecycle_same [OF hint_same(1)]
      lifecycle_same [OF hint_same(2)] lifecycle_same [OF audit_same])

lemma createLoop_lifecycle: "moves (lifecycle V) (createLoop n E SV input)"
proof (induction n)
  case (Suc n)
  show ?case
    unfolding moves_iff_At createLoop.simps
  proof (intro allI lifecycle_bind [OF issue_same], clarify)
    fix s k secret t
    assume "issue E SV input s = (t, Inr (k, secret))"
    then have "freshKey k" using issue_fresh by blast
    then have "moves (lifecycle V) (catchA (createOnce E SV input k secret)
        (\<lambda>e. if isConditionalConflict e then createLoop n E SV input else raise e))"
      by (intro lifecycle.frame_rules createOnce_lifecycle Suc.IH)
    then show "movesAt (lifecycle V) (catchA (createOnce E SV input k secret)
        (\<lambda>e. if isConditionalConflict e then createLoop n E SV input else raise e)) t"
      by (simp add: moves_iff_At)
  qed
qed (simp add: lifecycle.frame_rules)

lemma get_bind:
  assumes "\<And>t. V t = V s \<Longrightarrow> movesAt (lifecycle V) (k None) t"
    and "\<And>current t. V t = V s \<Longrightarrow> V s i = Some current \<Longrightarrow> movesAt (lifecycle V) (k (Some current)) t"
  shows "movesAt (lifecycle V) (bindA (ks_get (sv_store SV) i) k) s"
proof (rule lifecycle_bind [OF get_same])
  fix x t
  assume "ks_get (sv_store SV) i s = (t, Inr x)" "V t = V s"
  then show "movesAt (lifecycle V) (k x) t" using assms get_sound by (cases x) auto
qed

lemma nowISO_bind:
  assumes "\<And>at t. V t = V s \<Longrightarrow> at \<noteq> [] \<Longrightarrow> movesAt (lifecycle V) (k at) t"
  shows "movesAt (lifecycle V) (bindA (nowISO E) k) s"
proof (rule lifecycle_bind [OF nowISO_same])
  fix at t
  assume "nowISO E s = (t, Inr at)" "V t = V s"
  then show "movesAt (lifecycle V) (k at) t" using assms by (auto simp: nowISO_Inr_iff isoString_nonempty)
qed

lemmas tail_binds = nowISO_bind now_kept [THEN lifecycle_bind] hint_same [THEN lifecycle_bind]
  audit_same [THEN lifecycle_bind] within_same [THEN lifecycle_bind]

lemma revoke_bind:
  assumes "V s i = Some k" and "\<not> isRevoked k" and "at \<noteq> []"
    and "\<And>x t. movesAt (lifecycle V) (c x) t"
  shows "movesAt (lifecycle V) (bindA (ks_revoke (sv_store SV) (ak_id k) (ak_version k) at by) c) s"
proof (rule lifecycle.movesAt_bindA [OF movesAtI assms(4)])
  fix t r
  assume run: "ks_revoke (sv_store SV) (ak_id k) (ak_version k) at by s = (t, r)"
  show "lifecycle V s t"
  proof (cases "wfKeys (V s)")
    case True
    then have "ak_id k = i" using assms(1) by (rule wfKeysD)
    then show ?thesis
      using lifecycle_fenced [OF revoke_law [OF run], of k] assms key_step.revoked [of "V s" i k at]
      by (auto simp: revokeUpdate_def)
  qed (simp add: lifecycle_def)
qed

lemma revokeLoop_lifecycle: "moves (lifecycle V) (revokeLoop n E SV tenantId i p)"
proof (induction n)
  case (Suc n)
  have "movesAt (lifecycle V) (revokeLoop (Suc n) E SV tenantId i p) s" for s
    unfolding revokeLoop.simps
    by (rule get_bind) (auto simp: Let_def isRevoked_def lifecycle.movesAt_done Suc.IH [unfolded moves_iff_At]
      intro!: tail_binds revoke_bind split: option.split)
  then show ?case by (simp add: moves_iff_At)
qed (simp add: lifecycle.frame_rules)

lemma replace_bind:
  assumes "V s i = Some k" and "\<not> isRevoked k" and "\<And>x t. movesAt (lifecycle V) (c x) t"
  shows "movesAt (lifecycle V) (bindA (ks_replace (sv_store SV) (ak_id k) (ak_version k) (changedKey ch at by k)) c) s"
proof (rule lifecycle.movesAt_bindA [OF movesAtI assms(3)])
  fix t r
  assume run: "ks_replace (sv_store SV) (ak_id k) (ak_version k) (changedKey ch at by k) s = (t, r)"
  show "lifecycle V s t"
  proof (cases "wfKeys (V s)")
    case True
    then have "ak_id k = i" using assms(1) by (rule wfKeysD)
    then show ?thesis
      using lifecycle_fenced [OF replace_law [OF run], of k] assms key_step.changed [of "V s" i k]
      by (auto simp: changedKey_def)
  qed (simp add: lifecycle_def)
qed

lemma updateLoop_lifecycle: "moves (lifecycle V) (updateLoop n E SV tenantId i c p)"
proof (induction n)
  case (Suc n)
  have "movesAt (lifecycle V) (updateLoop (Suc n) E SV tenantId i c p) s" for s
    unfolding updateLoop.simps
    by (rule get_bind) (auto simp: Let_def isRevoked_def lifecycle.movesAt_done Suc.IH [unfolded moves_iff_At]
      intro!: tail_binds replace_bind split: option.split)
  then show ?case by (simp add: moves_iff_At)
qed (simp add: lifecycle.frame_rules)

text \<open>The atomic commit of a rotation.\<close>

lemma rotate_step:
  assumes "V s i = Some k" and "\<not> isRevoked k" and "\<not> isRotated k" and "replacementOf k k'" and "ak_id k' \<noteq> []"
    and "at \<noteq> []" and "rotateKeys V s t k (retiredKey k (ak_id k') overlap at until by) k'"
  shows "lifecycle V s t"
proof (cases "wfKeys (V s)")
  case True
  then have i: "ak_id k = i" using assms(1) by (rule wfKeysD)
  let ?k = "(retiredKey k (ak_id k') overlap at until by)\<lparr>ak_version := ak_version k + 1\<rparr>"
  have t: "V t = (V s)(i \<mapsto> ?k, ak_id k' \<mapsto> k')" and new: "V s (ak_id k') = None"
    using assms(7) by (simp_all add: rotateKeys_def i)
  have "key_step (V s) (V t)" unfolding t by (rule key_step.rotated) (use assms new in auto)
  moreover have "wfKeys (V t)"
    unfolding t by (intro wfKeys_upd True) (simp_all add: retiredKey_def Let_def i)
  ultimately show ?thesis using True by (simp add: lifecycle_def)
qed (simp add: lifecycle_def)

lemma rotate_bind:
  assumes "V s i = Some k" and "\<not> isRevoked k" and "\<not> isRotated k" and "replacementOf k k'" and "ak_id k' \<noteq> []"
    and "at \<noteq> []" and "\<And>x t. movesAt (lifecycle V) (c x) t"
  shows "movesAt (lifecycle V)
     (bindA (settle (ks_rotate (sv_store SV) k (retiredKey k (ak_id k') overlap at until by) k')) c) s"
proof (rule lifecycle.movesAt_bindA [OF lifecycle.movesAt_settle [OF movesAtI] assms(7)])
  fix t r
  assume run: "ks_rotate (sv_store SV) k (retiredKey k (ak_id k') overlap at until by) k' s = (t, r)"
  show "lifecycle V s t"
  proof (cases r)
    case (Inl e)
    then have "V t = V s \<or> rotateKeys V s t k (retiredKey k (ak_id k') overlap at until by) k'"
      using rotate_rejected run by blast
    then show ?thesis using rotate_step [OF assms(1-6)] by (auto simp: lifecycle_def)
  next
    case (Inr u)
    then show ?thesis using rotate_step [OF assms(1-6)] rotate_ok run by blast
  qed
qed

lemma rotated_lifecycle: "moves (lifecycle V) (rotated E SV overlap p current retired replacement secret at until)"
  unfolding rotated_def
  by (intro lifecycle.frame_rules hint_same [THEN lifecycle_same] audit_same [THEN lifecycle_same])

lemma issue_bind:
  assumes "V s i = Some k" and "owns SV k tenantId False"
    and "\<And>k' secret t. V t = V s \<Longrightarrow> replacementOf k k' \<Longrightarrow> ak_id k' \<noteq> [] \<Longrightarrow> movesAt (lifecycle V) (c (k', secret)) t"
  shows "movesAt (lifecycle V) (bindA (issue E SV \<lparr>ii_tenantId = tenantId, ii_name = ak_name k,
     ii_restrictions = ak_restrictions k, ii_expiresAt = ak_expiresAt k, ii_createdBy = by,
     ii_rotatedFrom = Some (ak_id k)\<rparr>) c) s" (is "movesAt _ (bindA (issue _ _ ?input) _) _")
proof (rule lifecycle_bind [OF issue_same])
  fix x t
  assume run: "issue E SV ?input s = (t, Inr x)" and V: "V t = V s"
  obtain k' secret where x: "x = (k', secret)" by (cases x)
  have "replacementOf k k' \<and> ak_id k' \<noteq> []"
    using issue_fresh [OF run [unfolded x]] assms(2) by (simp add: replacementOf_def owns_def)
  then show "movesAt (lifecycle V) (c x) t" using assms(3) V x by simp
qed

lemma iso_bind:
  assumes "\<And>at. at \<noteq> [] \<Longrightarrow> movesAt (lifecycle V) (k at) s"
  shows "movesAt (lifecycle V) (bindA (liftR (toISOString n)) k) s"
  using assms by (cases "toISOString n") (auto simp: lifecycle.movesAt_done toISOString_def isoString_nonempty split: if_splits)

lemma rotateLoop_lifecycle: "moves (lifecycle V) (rotateLoop n E SV tenantId i overlap p)"
proof (induction n)
  case (Suc n)
  have "movesAt (lifecycle V) (rotateLoop (Suc n) E SV tenantId i overlap p) s" for s
    unfolding rotateLoop.simps
    by (rule get_bind) (auto simp: Let_def isRevoked_def isRotated_def keyStatus_def lifecycle.movesAt_done
        Suc.IH [unfolded moves_iff_At] rotated_lifecycle [unfolded moves_iff_At]
        intro!: tail_binds iso_bind issue_bind rotate_bind split: option.split sum.split if_splits)
  then show ?case by (simp add: moves_iff_At)
qed (simp add: lifecycle.frame_rules)

lemma used_lifecycle: "moves (lifecycle V) (ks_recordLastUsed (sv_store SV) i v at)"
proof (rule movesI)
  fix s t r
  assume run: "ks_recordLastUsed (sv_store SV) i v at s = (t, r)"
  show "lifecycle V s t"
  proof (cases "V s i")
    case None
    then have "V t = V s" using used_law [OF run] by (cases r; cases "projr r") (auto simp: casKey_def)
    then show ?thesis by (simp add: lifecycle_def)
  next
    case (Some k)
    show ?thesis
      using lifecycle_fenced [OF used_law [OF run] Some] key_step.used [of "V s" i k] Some wfKeysD [of "V s" i k] by auto
  qed
qed

lemma findByPrefix_same: "moves (sameKeys V) (findApiKeyByPrefix SV p)"
  unfolding findApiKeyByPrefix_def Let_def
  by (intro sameKeys.frame_rules find_same get_same hint_same)

lemma authenticateLast_lifecycle: "moves (lifecycle V) (authenticateLast E SV secret p)"
  unfolding authenticateLast_def
  by (intro lifecycle.frame_rules findByPrefix_same [THEN lifecycle_same] now_kept [THEN lifecycle_same]
      authEvent_same [THEN lifecycle_same] authSuccess_same [THEN lifecycle_same])

lemma authenticateLoop_lifecycle: "moves (lifecycle V) (authenticateLoop n E SV secret p)"
proof (induction n)
  case (Suc n)
  then show ?case
    unfolding authenticateLoop.simps Let_def
    by (intro lifecycle.frame_rules findByPrefix_same [THEN lifecycle_same] now_kept [THEN lifecycle_same]
      authEvent_same [THEN lifecycle_same] authSuccess_same [THEN lifecycle_same] hint_same [THEN lifecycle_same]
      used_lifecycle)
qed (simp add: authenticateLast_lifecycle)

lemma authenticate_lifecycle: "moves (lifecycle V) (authenticateApiKey E SV secret)"
  unfolding authenticateApiKey_def
  by (cases secret) (auto intro!: lifecycle.frame_rules authenticateLoop_lifecycle)

end

section \<open>The service on the database, under the gateway\<close>

definition feltDbKeyService :: "'w env \<Rightarrow> bool \<Rightarrow> string \<Rightarrow> 'w gateway \<Rightarrow> string option \<Rightarrow> 'w key_service" where
  "feltDbKeyService E isLocal applicationId G verifierKey =
     \<lparr>sv_store = feltDbApiKeyStore E, sv_auditSink = feltDbAuditSink E, sv_local = isLocal,
      sv_applicationId = applicationId, sv_authority = Some G, sv_verifierKey = verifierKey\<rparr>"

lemma keeps_sameKeys:
  assumes "moves (keeps C N) m" and "API_KEYS_COLLECTION \<in> N"
  shows "moves (sameKeys (storedKeys C)) m"
  using assms(1)
proof (rule moves_weaken)
  fix s t
  assume "keeps C N s t"
  then show "sameKeys (storedKeys C) s t"
    using assms(2) storedKeys_cong [of C t s] by (auto simp: keeps_def sameKeys_def)
qed

lemma feltDbKeyService_simps [simp]:
  "sv_store (feltDbKeyService E l a G v) = feltDbApiKeyStore E"
  "sv_auditSink (feltDbKeyService E l a G v) = feltDbAuditSink E"
  "sv_local (feltDbKeyService E l a G v) = l" "sv_applicationId (feltDbKeyService E l a G v) = a"
  "sv_authority (feltDbKeyService E l a G v) = Some G" "sv_verifierKey (feltDbKeyService E l a G v) = v"
  by (simp_all add: feltDbKeyService_def)

lemma gatewayOf_felt [simp]: "gatewayOf (feltDbKeyService E l a G v) = Inr G"
  by (simp add: gatewayOf_def)

locale felt_key_service = gateway_platform E C G
  for E :: "'w env" and C :: "'w \<Rightarrow> contents" and G :: "'w gateway" +
  fixes isLocal :: bool and applicationId :: string and verifierKey :: "string option"
begin

abbreviation SV :: "'w key_service" where
  "SV \<equiv> feltDbKeyService E isLocal applicationId G verifierKey"

abbreviation V :: "'w sys \<Rightarrow> keys" where
  "V \<equiv> storedKeys C"

lemma sink_kept: "moves (sameKeys V) (as_record (feltDbAuditSink E) ev)"
  unfolding feltDbAuditSink_def
  by (rule keeps_sameKeys [where N = "{API_KEYS_COLLECTION}"])
    (auto simp: API_KEYS_COLLECTION_def intro!: keyEvents.keeps_insert)

lemma sink_list_kept: "as_list (feltDbAuditSink E) = Some ls \<Longrightarrow> moves (sameKeys V) (ls tenantId)"
  by (rule keeps_sameKeys [where N = UNIV]) (auto simp: feltDbAuditSink_def intro!: keyEvents.keeps_find)

lemma outside_kept:
  "moves (sameKeys V) (draw (e_now E))" "moves (sameKeys V) (draw (e_uuid E))"
  "moves (sameKeys V) (draw (e_randomBytes E len))"
  by (rule keeps_sameKeys [where N = UNIV]; simp add: keeps_now keeps_uuid keeps_random)+

end

sublocale felt_key_service \<subseteq> service: key_service SV V E
proof (rule key_service.intro)
  show "api_key_store (sv_store SV) V" using keyStore.api_key_store_axioms by simp
  have "V (s\<lparr>outside := e_sleep E ms (outside s)\<rparr>) = V s" for s ms
    by (rule storedKeys_cong) (simp add: sleep_view)
  moreover have "V (s\<lparr>knownPrefixes := ps\<rparr>) = V s" "V (s\<lparr>locallyCreatedKeys := ks\<rparr>) = V s" for s ps ks
    by (rule storedKeys_cong; simp)+
  ultimately show "key_service_axioms SV V E"
    by (intro key_service_axioms.intro) (auto simp: sink_kept sink_list_kept outside_kept dest: uuid_nonempty)
qed

section \<open>Whole operations and their sequences\<close>

text \<open>A caller whose credential check, if it has one, is the check that authentication binds.\<close>

definition authenticCaller :: "'w env \<Rightarrow> 'w key_service \<Rightarrow> 'w caller \<Rightarrow> bool" where
  "authenticCaller E SV caller \<longleftrightarrow>
     (\<forall>p check. caller = Verified p \<longrightarrow> pr_check p = Some check \<longrightarrow> (\<exists>i tenantId. check = credentialCheck E SV i tenantId))"

datatype 'w key_op =
    CreateKey jsobj "'w caller"
  | UpdateKey jsobj "'w caller"
  | RotateKey jsobj "'w caller"
  | RevokeKey string jsobj "'w caller"
  | RevokeAllKeys jsobj "'w caller"
  | AuditKeys jsobj "'w caller"
  | ListKeys string jsval
  | GetKey string string
  | AuthenticateKey jsval

fun opCaller :: "'w key_op \<Rightarrow> 'w caller" where
  "opCaller (CreateKey input caller) = caller"
| "opCaller (UpdateKey input caller) = caller"
| "opCaller (RotateKey input caller) = caller"
| "opCaller (RevokeKey i input caller) = caller"
| "opCaller (RevokeAllKeys input caller) = caller"
| "opCaller (AuditKeys query caller) = caller"
| "opCaller _ = OtherValue"

text \<open>The state after an operation, whether it resolved or rejected.\<close>

definition stateAfter :: "('w, 'a) service \<Rightarrow> 'w sys \<Rightarrow> 'w sys" where
  "stateAfter m s = fst (m s)"

fun runKeyOp :: "'w env \<Rightarrow> 'w key_service \<Rightarrow> 'w key_op \<Rightarrow> 'w sys \<Rightarrow> 'w sys" where
  "runKeyOp E SV (CreateKey input caller) = stateAfter (createApiKey E SV input caller)"
| "runKeyOp E SV (UpdateKey input caller) = stateAfter (updateApiKey E SV input caller)"
| "runKeyOp E SV (RotateKey input caller) = stateAfter (rotateApiKey E SV input caller)"
| "runKeyOp E SV (RevokeKey i input caller) = stateAfter (revokeApiKey E SV i input caller)"
| "runKeyOp E SV (RevokeAllKeys input caller) = stateAfter (revokeAllApiKeys E SV input caller)"
| "runKeyOp E SV (AuditKeys query caller) = stateAfter (listApiKeyAuditEvents E SV query caller)"
| "runKeyOp E SV (ListKeys tenantId options) = stateAfter (listApiKeys E SV tenantId options)"
| "runKeyOp E SV (GetKey tenantId i) = stateAfter (getApiKey E SV tenantId i)"
| "runKeyOp E SV (AuthenticateKey secret) = stateAfter (authenticateApiKey E SV secret)"

definition runKeyOps :: "'w env \<Rightarrow> 'w key_service \<Rightarrow> 'w key_op list \<Rightarrow> 'w sys \<Rightarrow> 'w sys" where
  "runKeyOps E SV ops s = foldl (\<lambda>s x. runKeyOp E SV x s) s ops"

lemma moves_stateAfter: "moves R m \<Longrightarrow> R s (stateAfter m s)"
  by (simp add: moves_def stateAfter_def)

context felt_key_service
begin

lemma lifecycle_keeps: "moves (keeps C {API_KEYS_COLLECTION}) m \<Longrightarrow> moves (lifecycle V) m"
  by (rule lifecycle_same, erule keeps_sameKeys) simp

lemma plain_lifecycle:
  assumes "moves (lifecycle V) m"
  shows "moves (lifecycle V) (performEffect E opts i (plain m))"
proof (rule movesI)
  fix s t r
  assume run: "performEffect E opts i (plain m) s = (t, r)"
  obtain u q where m: "m s = (u, q)" by (cases "m s")
  have rest: "completeEffect E opts i \<lparr>tl_refs = [], tl_stored = None\<rparr> q u = (t, r)"
    using run by (simp add: performEffect_def plain_def m)
  have "moves (lifecycle V) (completeEffect E opts i \<lparr>tl_refs = [], tl_stored = None\<rparr> q)"
    by (rule lifecycle_keeps, rule keeps_completeEffect) (simp add: API_KEYS_COLLECTION_def EVIDENCE_COLLECTION_def)
  then have "lifecycle V u t" using rest by (rule movesD)
  with movesD [OF assms m] show "lifecycle V s t" by (rule lifecycle.R_trans)
qed

lemma check_keeps:
  assumes "authenticCaller E SV caller" and "caller = Verified p"
  shows "moves (keeps C N) (enforceCredential p cap r)"
proof -
  have get: "moves (keeps C N) (ks_get (feltDbApiKeyStore E) i)" for i
    by (simp add: feltDbApiKeyStore_def storeGet_def keys.keeps_get)
  have "moves (keeps C N) (credentialCheck E SV i tenantId cap' r')" for i tenantId cap' r'
    unfolding credentialCheck_def Let_def by (intro keeps.frame_rules keeps_now) (simp add: get)
  then have checked: "moves (keeps C N) (check cap r)" if "pr_check p = Some check" for check
    using assms that unfolding authenticCaller_def by blast
  show ?thesis
    unfolding enforceCredential_def by (intro keeps.frame_rules) (use checked in auto)
qed

lemma execute_lifecycle:
  assumes "authenticCaller E SV (Verified p)" and "\<And>ctx. moves (lifecycle V) (m ctx)"
  shows "moves (lifecycle V) (execute E G cap (Verified p) r opts (\<lambda>ctx. plain (m ctx)))"
proof -
  have keys: "EVIDENCE_COLLECTION \<notin> {API_KEYS_COLLECTION}"
    by (simp add: API_KEYS_COLLECTION_def EVIDENCE_COLLECTION_def)
  have "moves (lifecycle V) (runEffect E v opts (\<lambda>ctx. plain (m ctx)) at)" for v at
    unfolding runEffect_def
    by (intro lifecycle.frame_rules plain_lifecycle assms(2) lifecycle_keeps [OF keeps_evidenceRecord [OF keys]]
        lifecycle_keeps [OF keeps_nowISO] lifecycle_keeps [OF keeps_now] lifecycle_keeps [OF keeps_uuid])
  moreover have "moves (lifecycle V) (authorize E G cap (Verified p) r requestId)" for requestId
    by (rule lifecycle_keeps [OF keeps_authorize]) (use check_keeps [OF assms(1)] in auto)
  moreover have "moves (lifecycle V) (recordRefusal E G cap (Verified p) r opts requestId at e)" for requestId at e
    by (rule lifecycle_keeps [OF keeps_recordRefusal [OF keys]])
  ultimately show ?thesis
    unfolding execute_def case_prod_beta
    by (intro lifecycle.frame_rules lifecycle_keeps [OF keeps_executeStart])
qed

lemma verified_bind:
  assumes "\<And>p. caller = Verified p \<Longrightarrow> moves (lifecycle V) (k p)"
  shows "moves (lifecycle V) (bindA (liftR (requireVerifiedPrincipal caller)) k)"
  using assms by (cases caller) (auto simp: requireVerifiedPrincipal_def lifecycle.frame_rules)

lemma create_lifecycle:
  assumes "authenticCaller E SV caller"
  shows "moves (lifecycle V) (createApiKey E SV input caller)"
proof -
  have "moves (lifecycle V) (createApiKeyWithSideEffects E SV tenantId name restr at by)" for tenantId name restr at "by"
    unfolding createApiKeyWithSideEffects_def
    by (cases name) (auto intro!: lifecycle.frame_rules service.createLoop_lifecycle)
  then show ?thesis
    unfolding createApiKey_def gatewayOf_felt bindA_monad
    by (intro lifecycle.moves_if lifecycle.moves_raise verified_bind)
      (intro lifecycle.frame_rules execute_lifecycle service.within_same [THEN lifecycle_same]; use assms in simp)
qed

lemma update_lifecycle: "authenticCaller E SV caller \<Longrightarrow> moves (lifecycle V) (updateApiKey E SV input caller)"
  unfolding updateApiKey_def gatewayOf_felt bindA_monad
  by (intro verified_bind) (intro lifecycle.frame_rules execute_lifecycle service.updateLoop_lifecycle; simp)

lemma rotate_lifecycle: "authenticCaller E SV caller \<Longrightarrow> moves (lifecycle V) (rotateApiKey E SV input caller)"
  unfolding rotateApiKey_def gatewayOf_felt bindA_monad
  by (intro verified_bind) (intro lifecycle.frame_rules execute_lifecycle service.rotateLoop_lifecycle; simp)

lemma revoke_lifecycle: "authenticCaller E SV caller \<Longrightarrow> moves (lifecycle V) (revokeApiKey E SV i input caller)"
  unfolding revokeApiKey_def gatewayOf_felt bindA_monad
  by (intro verified_bind) (intro lifecycle.frame_rules execute_lifecycle service.revokeLoop_lifecycle; simp)

lemma revokeAll_lifecycle: "authenticCaller E SV caller \<Longrightarrow> moves (lifecycle V) (revokeAllApiKeys E SV input caller)"
  unfolding revokeAllApiKeys_def gatewayOf_felt bindA_monad
  by (intro verified_bind) (intro lifecycle.frame_rules execute_lifecycle service.revokeLoop_lifecycle
      service.list_same [THEN lifecycle_same]; simp)

lemma audit_lifecycle: "authenticCaller E SV caller \<Longrightarrow> moves (lifecycle V) (listApiKeyAuditEvents E SV query caller)"
  unfolding listApiKeyAuditEvents_def gatewayOf_felt bindA_monad
  by (intro verified_bind) (intro lifecycle.frame_rules execute_lifecycle
      service.list_same [THEN lifecycle_same] service.audits_kept [THEN lifecycle_same]; simp)

lemma read_lifecycle:
  "moves (lifecycle V) (listApiKeys E SV tenantId options)" "moves (lifecycle V) (getApiKey E SV tenantId i)"
  unfolding listApiKeys_def getApiKey_def
  by (intro lifecycle.frame_rules service.same [THEN lifecycle_same])+

lemma operation_lifecycle:
  assumes "authenticCaller E SV (opCaller x)"
  shows "lifecycle V s (runKeyOp E SV x s)"
  using assms
  by (cases x) (simp_all add: moves_stateAfter create_lifecycle update_lifecycle rotate_lifecycle revoke_lifecycle
      revokeAll_lifecycle audit_lifecycle read_lifecycle service.authenticate_lifecycle)

lemma operations_lifecycle:
  "list_all (\<lambda>x. authenticCaller E SV (opCaller x)) ops \<Longrightarrow> lifecycle V s (runKeyOps E SV ops s)"
proof (induction ops arbitrary: s)
  case (Cons x ops)
  then have "lifecycle V s (runKeyOp E SV x s)" by (simp add: operation_lifecycle)
  moreover have "lifecycle V (runKeyOp E SV x s) (runKeyOps E SV ops (runKeyOp E SV x s))" using Cons by simp
  ultimately show ?case unfolding runKeyOps_def by simp (rule lifecycle.R_trans)
qed (simp add: runKeyOps_def lifecycle_def)

end

text \<open>
  C15: whatever the callers pass, and whether the operations resolve or reject, the keys in the
  database change only along the lifecycle: keys are created fresh under an unused id, marked as
  used, changed or revoked or rotated only while they are not revoked, rotated at most once and
  then together with a replacement of the same authority; every write advances the version.
\<close>

lemma keys_follow_lifecycle:
  assumes "gateway_platform E C G" and "SV = feltDbKeyService E isLocal applicationId G verifierKey"
    and "list_all (\<lambda>x. authenticCaller E SV (opCaller x)) ops" and "wfKeys (storedKeys C s)"
  shows "wfKeys (storedKeys C (runKeyOps E SV ops s)) \<and> key_step\<^sup>*\<^sup>* (storedKeys C s) (storedKeys C (runKeyOps E SV ops s))"
  using felt_key_service.operations_lifecycle [OF felt_key_service.intro [OF assms(1)]] assms(2-4)
  unfolding lifecycle_def by blast

text \<open>
  C16: no sequence of operations takes back what a key is. Its tenant, application, prefix,
  verifier and creator never change, its version never decreases, a rotation is never redone, and
  a revoked key stays exactly as it was except for the bookkeeping of its use.
\<close>

lemma keys_keep_identity:
  assumes "gateway_platform E C G" and "SV = feltDbKeyService E isLocal applicationId G verifierKey"
    and "list_all (\<lambda>x. authenticCaller E SV (opCaller x)) ops" and "wfKeys (storedKeys C s)"
    and "storedKeys C s i = Some k"
  shows "\<exists>k'. storedKeys C (runKeyOps E SV ops s) i = Some k' \<and> keyStays k k'"
  using felt_key_service.operations_lifecycle [OF felt_key_service.intro [OF assms(1)]] assms(2-4)
    steps_keyStays [of "storedKeys C s" _ i k] assms(5)
  unfolding lifecycle_def by blast

section \<open>What a principal of a key can do\<close>

text \<open>The check passes only for a stored, live key that permits the operation.\<close>

context key_service
begin

lemma get_elim:
  assumes "bindA (ks_get (sv_store SV) i) k s = (t, Inr y)"
  obtains (missing) u where "V u = V s" "k None u = (t, Inr y)"
    | (found) u c where "V u = V s" "V s i = Some c" "k (Some c) u = (t, Inr y)"
proof -
  obtain u x where get: "ks_get (sv_store SV) i s = (u, Inr x)" and rest: "k x u = (t, Inr y)"
    using assms by (auto simp: bindA_Inr_iff)
  then show thesis using get_kept [OF get] get_sound [of i s u] missing found by (cases x) auto
qed

lemma check_passes:
  assumes "credentialCheck E SV i tenantId cap r s = (t, Inr ())"
  shows "\<exists>k now. V s i = Some k \<and> ak_tenantId k = tenantId \<and> ak_applicationId k = Some (sv_applicationId SV) \<and>
    keyStatus E k now = KeyActive \<and> restrictionsPermit (ak_restrictions k) cap r"
  using assms unfolding credentialCheck_def Let_def
proof (cases rule: get_elim)
  case (found u k)
  then obtain now where "keyStatus E k now \<noteq> KeyRevoked" "keyStatus E k now \<noteq> KeyExpired"
      "restrictionsPermit (ak_restrictions k) cap r" "ak_tenantId k = tenantId" "ak_applicationId k = Some (sv_applicationId SV)"
    by (auto simp: act_simps bindA_Inr_iff split: if_splits)
  moreover from this have "keyStatus E k now = KeyActive" by (cases "keyStatus E k now") auto
  ultimately show ?thesis using found(2) by blast
qed (simp add: act_simps)

end

end
