(* ===== verification/ApiKeyAccess.thy ===== *)
theory ApiKeyAccess
  imports ApiKeyLifecycle
begin

text \<open>
  Who an API key lets in: secrets and verifiers, authentication, and what a principal of a key can
  still do when the key changes. Also the pages of the read operations and the bounds of the
  process-local hints.
\<close>

section \<open>Secrets and verifiers\<close>

lemma hash_parts:
  assumes "alg \<in> {''scrypt'', ''hmac-scrypt''}"
  shows "splitOn (CHR ''$'') (alg @ ''$'' @ base64url salt @ ''$'' @ base64url digest) = [alg, base64url salt, base64url digest]"
  using assms base64url_plain(1) by (auto simp: splitOn_append [of _ alg] splitOn_append splitOn_single)

lemma hash_verifies:
  assumes "platform E C" and "hashSecret E secret key s = (t, Inr h)"
  obtains salt where "\<And>x. verifySecret E x h key =
      (if e_scrypt E (case key of None \<Rightarrow> utf8 x | Some k \<Rightarrow> e_hmac E k (utf8 x)) salt 32
          = e_scrypt E (case key of None \<Rightarrow> utf8 secret | Some k \<Rightarrow> e_hmac E k (utf8 secret)) salt 32
       then SecretMatches else SecretDiffers)"
proof -
  obtain salt w where salt: "e_randomBytes E SALT_BYTES (outside s) = (w, salt)"
    and h: "h = (case key of
        Some k \<Rightarrow> ''hmac-scrypt$'' @ base64url salt @ ''$'' @ base64url (e_scrypt E (verifierInput E secret k) salt 32)
      | None \<Rightarrow> ''scrypt$'' @ base64url salt @ ''$'' @ base64url (e_scrypt E (utf8 secret) salt 32))"
    using assms(2) by (auto simp: hashSecret_def bindA_Inr_iff draw_eq_iff act_simps)
  have len: "length salt = SALT_BYTES" using platform.random_length [OF assms(1) salt] .
  have sl: "length (e_scrypt E x y 32) = 32" for x y using platform.scrypt_length [OF assms(1)] .
  have ne: "base64url salt \<noteq> []" "base64url (e_scrypt E x y 32) \<noteq> []" for x y
    using len sl [of x y] by (auto simp: base64url_eq_Nil SALT_BYTES_def)
  have "verifySecret E x h key =
      (if e_scrypt E (case key of None \<Rightarrow> utf8 x | Some k \<Rightarrow> e_hmac E k (utf8 x)) salt 32
          = e_scrypt E (case key of None \<Rightarrow> utf8 secret | Some k \<Rightarrow> e_hmac E k (utf8 secret)) salt 32
       then SecretMatches else SecretDiffers)" for x
  proof (cases key)
    case None
    then show ?thesis
      using hash_parts [of "''scrypt''" salt] ne sl
      by (simp add: h verifySecret_def fromBase64url_base64url)
  next
    case (Some k)
    then show ?thesis
      using hash_parts [of "''hmac-scrypt''" salt] ne sl
      by (simp add: h verifySecret_def fromBase64url_base64url verifierInput_def)
  qed
  then show thesis using that by blast
qed

text \<open>
  C17: a verifier accepts the secret it was made from, and it accepts exactly the texts whose key
  derivation under its salt (and the server's key, when there is one) gives the same 32 bytes.
\<close>

lemma verifier_roundtrip:
  assumes "platform E C" and "hashSecret E secret key s = (t, Inr h)"
  shows "verifySecret E secret h key = SecretMatches \<and>
    (\<exists>salt. \<forall>x. verifySecret E x h key =
      (if e_scrypt E (case key of None \<Rightarrow> utf8 x | Some k \<Rightarrow> e_hmac E k (utf8 x)) salt 32
          = e_scrypt E (case key of None \<Rightarrow> utf8 secret | Some k \<Rightarrow> e_hmac E k (utf8 secret)) salt 32
       then SecretMatches else SecretDiffers))"
  using assms by (rule hash_verifies) auto

lemma issue_secret:
  assumes "issue E SV input s = (t, Inr (k, secret))"
  shows "\<exists>p b w1 w2 w3 w4 u v. e_randomBytes E 3 w1 = (w2, p) \<and> e_randomBytes E SECRET_BYTES w3 = (w4, b) \<and>
    ak_keyPrefix k = ''app_live_'' @ hexEncode p \<and> secret = ak_keyPrefix k @ ''_'' @ base64url b \<and>
    hashSecret E secret (sv_verifierKey SV) u = (v, Inr (ak_secretHash k))"
proof -
  obtain w2 p w4 b s3 i s4 h s5 at where
    "e_randomBytes E 3 (outside s) = (w2, p)" "e_randomBytes E SECRET_BYTES w2 = (w4, b)"
    "hashSecret E ((API_KEY_SCHEME @ ''_'' @ hexEncode p) @ ''_'' @ base64url b) (sv_verifierKey SV) s3 = (s4, Inr h)"
    "ak_keyPrefix k = API_KEY_SCHEME @ ''_'' @ hexEncode p" "ak_secretHash k = h"
    "secret = (API_KEY_SCHEME @ ''_'' @ hexEncode p) @ ''_'' @ base64url b"
    using assms unfolding issue_def Let_def by (auto simp: bindA_Inr_iff draw_eq_iff act_simps)
  then show ?thesis unfolding API_KEY_SCHEME_def by (intro exI) auto
qed

text \<open>
  C18: an issued secret is recognized: its prefix parses back to the stored prefix of its key, and
  the stored verifier accepts it. The secret can never enter the evidence, because the guard
  refuses every row that carries it as a text.
\<close>

lemma issued_secret_recognized:
  assumes "platform E C" and "issue E SV input s = (t, Inr (k, secret))"
  shows "parseApiKeyPrefix secret = Some (ak_keyPrefix k) \<and>
    verifySecret E secret (ak_secretHash k) (sv_verifierKey SV) = SecretMatches \<and>
    ((name, JStr secret) \<in> set (evidenceEntries ev) \<longrightarrow> (\<exists>e. evidenceRecord E ev u = (u, Inl e)))"
proof -
  obtain p b w1 w2 w3 w4 v v' where p: "e_randomBytes E 3 w1 = (w2, p)" and b: "e_randomBytes E SECRET_BYTES w3 = (w4, b)"
    and prefix: "ak_keyPrefix k = ''app_live_'' @ hexEncode p" and secret: "secret = ak_keyPrefix k @ ''_'' @ base64url b"
    and hash: "hashSecret E secret (sv_verifierKey SV) v = (v', Inr (ak_secretHash k))"
    using issue_secret [OF assms(2)] by blast
  have lens: "length p = 3" "length b = 32"
    using platform.random_length [OF assms(1) p] platform.random_length [OF assms(1) b] by (simp_all add: SECRET_BYTES_def)
  have hex: "length (hexEncode p) = 6" "list_all hexChar (hexEncode p)"
    using hexEncode_hex [of p] lens by auto
  have body: "base64url b \<noteq> []" using lens by (auto simp: base64url_eq_Nil)
  have "list_all noLineEnd (base64url b)"
    using base64url_plain(2,3) [of b] by (auto simp: list_all_iff noLineEnd_def)
  then have "parseApiKeyPrefix secret = Some (ak_keyPrefix k)"
    using hex body by (simp add: parseApiKeyPrefix_def secret prefix nth_append)
  moreover have "verifySecret E secret (ak_secretHash k) (sv_verifierKey SV) = SecretMatches"
    using assms(1) hash by (rule hash_verifies) auto
  moreover have "SECRET_VALUE secret"
    using SECRET_VALUE_key [OF hex(2,1), of "[]"] by (simp add: secret prefix)
  ultimately show ?thesis using evidenceRecord_refuses by blast
qed

section \<open>Authentication\<close>

context felt_key_service
begin

lemma key_service_laws: "key_service SV V E"
  by (rule service.key_service_axioms)

end

text \<open>Between two states only the bookkeeping of use may differ.\<close>

definition onlyUsage :: "('w sys \<Rightarrow> keys) \<Rightarrow> 'w sys \<Rightarrow> 'w sys \<Rightarrow> bool" where
  "onlyUsage V s t \<longleftrightarrow> (\<forall>i. map_option settled (V t i) = map_option settled (V s i))"

interpretation onlyUsage: frame "onlyUsage V" for V
  by unfold_locales (auto simp: onlyUsage_def)

lemma onlyUsage_same: "moves (sameKeys V) m \<Longrightarrow> moves (onlyUsage V) m"
  by (erule moves_weaken) (simp add: sameKeys_def onlyUsage_def)

text \<open>What authentication establishes of a key. It does not depend on the bookkeeping of use.\<close>

definition admits :: "'w env \<Rightarrow> 'w key_service \<Rightarrow> string \<Rightarrow> api_key \<Rightarrow> 'w principal \<Rightarrow> bool" where
  "admits E SV secret k p \<longleftrightarrow> (\<exists>now. authenticationFailure E SV k secret now = None) \<and> toPrincipal E SV k = Inr p"

lemma settled_fields:
  assumes "settled a = settled b"
  shows "ak_id a = ak_id b" "ak_tenantId a = ak_tenantId b" "ak_applicationId a = ak_applicationId b"
    "ak_secretHash a = ak_secretHash b" "ak_revokedAt a = ak_revokedAt b" "ak_expiresAt a = ak_expiresAt b"
  using arg_cong [OF assms, of ak_id] arg_cong [OF assms, of ak_tenantId] arg_cong [OF assms, of ak_applicationId]
    arg_cong [OF assms, of ak_secretHash] arg_cong [OF assms, of ak_revokedAt] arg_cong [OF assms, of ak_expiresAt]
  by (simp_all add: settled_def)

lemma admits_settled:
  assumes "settled a = settled b" and "admits E SV secret a p"
  shows "admits E SV secret b p"
  using assms(2) unfolding admits_def authenticationFailure_def toPrincipal_def settled_fields [OF assms(1)] .

context key_service
begin

lemma used_onlyUsage: "moves (onlyUsage V) (ks_recordLastUsed (sv_store SV) i v at)"
proof (rule movesI)
  fix s t r
  assume run: "ks_recordLastUsed (sv_store SV) i v at s = (t, r)"
  have "onlyUsage V s t" if "casKey V s t i v (ak_lastUsedAt_update (\<lambda>_. Some at))"
    using that by (auto simp: casKey_def onlyUsage_def settled_def)
  then show "onlyUsage V s t"
    using used_law [OF run] by (cases r; cases "projr r") (auto simp: onlyUsage_def)
qed

lemma authenticateLast_usage: "moves (onlyUsage V) (authenticateLast E SV secret p)"
  unfolding authenticateLast_def
  by (intro onlyUsage.frame_rules findByPrefix_same [THEN onlyUsage_same] now_kept [THEN onlyUsage_same]
      authEvent_same [THEN onlyUsage_same] authSuccess_same [THEN onlyUsage_same])

lemma authenticateLoop_usage: "moves (onlyUsage V) (authenticateLoop n E SV secret p)"
proof (induction n)
  case (Suc n)
  then show ?case
    unfolding authenticateLoop.simps Let_def
    by (intro onlyUsage.frame_rules findByPrefix_same [THEN onlyUsage_same] now_kept [THEN onlyUsage_same]
      authEvent_same [THEN onlyUsage_same] authSuccess_same [THEN onlyUsage_same] hint_same [THEN onlyUsage_same]
      used_onlyUsage)
qed (simp add: authenticateLast_usage)

lemma find_sound_managed:
  assumes "findApiKeyByPrefix SV p s = (t, Inr (Some k))" and "\<not> sv_local SV"
  shows "\<exists>i. V s i = Some k"
proof -
  have indexed: "\<exists>i. V u i = Some k"
    if "bindA (ks_findByPrefix (sv_store SV) p) (\<lambda>found. case found of None \<Rightarrow> ret None
        | Some k \<Rightarrow> bindA (rememberPrefix p (ak_id k)) (\<lambda>_. ret (Some k))) u = (v, Inr (Some k))" for u v
    using that find_sound by (auto simp: bindA_Inr_iff act_simps split: option.splits)
  show ?thesis
  proof (cases "keepTruthy (map_of (knownPrefixes s) p)")
    case None
    then show ?thesis using assms(1) indexed by (simp add: findApiKeyByPrefix_def Let_def bindA_gets)
  next
    case (Some i)
    with assms have "bindA (ks_get (sv_store SV) i) (\<lambda>stored. case stored of
          Some k \<Rightarrow> bindA (forgetLocal i) (\<lambda>_. ret (Some k))
        | None \<Rightarrow> bindA (ks_findByPrefix (sv_store SV) p) (\<lambda>found. case found of None \<Rightarrow> ret None
            | Some k \<Rightarrow> bindA (rememberPrefix p (ak_id k)) (\<lambda>_. ret (Some k)))) s = (t, Inr (Some k))"
      by (simp add: findApiKeyByPrefix_def Let_def bindA_gets)
    then show ?thesis
    proof (cases rule: get_elim)
      case (missing u)
      then show ?thesis using indexed [of u t] by simp
    next
      case (found u c)
      then show ?thesis by (auto simp: bindA_Inr_iff act_simps)
    qed
  qed
qed

lemma authenticateLast_sound:
  assumes "authenticateLast E SV secret p s = (t, Inr (Some pr))" and "\<not> sv_local SV"
  shows "\<exists>i k. V s i = Some k \<and> admits E SV secret k pr"
proof -
  obtain u k where find: "findApiKeyByPrefix SV p s = (u, Inr (Some k))" and "admits E SV secret k pr"
    using assms(1) by (auto simp: authenticateLast_def bindA_Inr_iff catchA_Inr_iff act_simps liftR_iff admits_def
        split: option.splits)
  then show ?thesis using find_sound_managed [OF find assms(2)] by blast
qed

lemma onlyUsage_admits:
  assumes "onlyUsage V s u" and "V u i = Some k" and "admits E SV secret k pr"
  shows "\<exists>k. V s i = Some k \<and> admits E SV secret k pr"
proof -
  have "map_option settled (V s i) = Some (settled k)" using assms(1,2) by (metis onlyUsage_def option.simps(9))
  then obtain k0 where "V s i = Some k0" "settled k = settled k0" by auto
  then show ?thesis using admits_settled [OF _ assms(3)] by blast
qed

lemma authenticateLoop_sound:
  assumes "\<not> sv_local SV"
  shows "authenticateLoop n E SV secret p s = (t, Inr (Some pr)) \<Longrightarrow> \<exists>i k. V s i = Some k \<and> admits E SV secret k pr"
proof (induction n arbitrary: s)
  case 0
  then show ?case using authenticateLast_sound assms by simp
next
  case (Suc n)
  let ?again = "bindA (waitForUpdateRetry E (MAX_UPDATE_ATTEMPTS - Suc n)) (\<lambda>_. authenticateLoop n E SV secret p)"
  have again: "\<exists>i k. V s i = Some k \<and> admits E SV secret k pr"
    if retry: "?again u = (t, Inr (Some pr))" and reached: "onlyUsage V s u" for u
  proof -
    obtain u' x where wait: "waitForUpdateRetry E (MAX_UPDATE_ATTEMPTS - Suc n) u = (u', Inr x)"
      and run: "authenticateLoop n E SV secret p u' = (t, Inr (Some pr))"
      using retry unfolding bindA_Inr_iff by blast
    have "V u' = V u" using movesD [OF hint_same(5) wait] by (simp add: sameKeys_def)
    then have "onlyUsage V s u'" using reached by (simp add: onlyUsage_def)
    then show ?thesis using Suc.IH [OF run] onlyUsage_admits by blast
  qed
  obtain u found where find: "findApiKeyByPrefix SV p s = (u, found)" by (cases "findApiKeyByPrefix SV p s")
  have su: "onlyUsage V s u" using movesD [OF findByPrefix_same [THEN onlyUsage_same] find] .
  show ?case
  proof (cases "\<exists>k. found = Inr (Some k)")
    case False
    then have "?again u = (t, Inr (Some pr))"
      using Suc.prems find by (cases found; cases "projr found") (auto simp: Let_def bindA_settle)
    then show ?thesis using again su by blast
  next
    case True
    then obtain k where k: "found = Inr (Some k)" by blast
    obtain i where i: "V s i = Some k" using find_sound_managed [OF find [unfolded k] assms] by blast
    obtain w now where now: "draw (e_now E) u = (w, Inr now)" by (cases "e_now E (outside u)") (auto simp: draw_def)
    have sw: "onlyUsage V s w" using onlyUsage.R_trans [OF su movesD [OF now_kept [THEN onlyUsage_same] now]] .
    have none: "authenticationFailure E SV k secret now = None"
      using Suc.prems find k now
      by (auto simp: Let_def bindA_settle bindA_step bindA_Inr_iff act_simps split: option.splits)
    let ?used = "bindA (liftR (toISOString now)) (ks_recordLastUsed (sv_store SV) (ak_id k) (ak_version k))"
    obtain v used where used: "?used w = (v, used)" by (cases "?used w")
    have "moves (onlyUsage V) ?used" by (intro onlyUsage.frame_rules used_onlyUsage)
    then have "onlyUsage V w v" using used by (rule movesD)
    with sw have sv: "onlyUsage V s v" by (rule onlyUsage.R_trans)
    have rest: "(case used of Inl _ \<Rightarrow> ?again | Inr None \<Rightarrow> ?again
        | Inr (Some x) \<Rightarrow> bindA (liftR (toISOString now)) (\<lambda>at.
            bindA (recordSuccessfulAuthEvent E SV (k\<lparr>ak_lastUsedAt := Some (case ak_lastUsedAt x of None \<Rightarrow> at | Some y \<Rightarrow> y), ak_version := ak_version x\<rparr>) at) (\<lambda>_.
            bindA (rememberLocal (k\<lparr>ak_lastUsedAt := Some (case ak_lastUsedAt x of None \<Rightarrow> at | Some y \<Rightarrow> y), ak_version := ak_version x\<rparr>)) (\<lambda>_.
            bindA (liftR (toPrincipal E SV (k\<lparr>ak_lastUsedAt := Some (case ak_lastUsedAt x of None \<Rightarrow> at | Some y \<Rightarrow> y), ak_version := ak_version x\<rparr>))) (\<lambda>pr. ret (Some pr)))))) v = (t, Inr (Some pr))"
      using Suc.prems find k now none used
      by (simp add: Let_def bindA_settle bindA_step)
    show ?thesis
    proof (cases "\<exists>x. used = Inr (Some x)")
      case False
      then have "?again v = (t, Inr (Some pr))" using rest by (cases used; cases "projr used") auto
      then show ?thesis using again sv by blast
    next
      case True
      then have "toPrincipal E SV k = Inr pr"
        using rest by (auto simp: bindA_Inr_iff act_simps liftR_iff toPrincipal_def)
      then have "admits E SV secret k pr" using none by (auto simp: admits_def)
      then show ?thesis using i by blast
    qed
  qed
qed

end

context key_service
begin

lemma authentication:
  assumes "authenticateApiKey E SV secret s = (t, r)"
  shows "onlyUsage V s t"
    and "\<not> sv_local SV \<Longrightarrow> r = Inr (Some pr) \<Longrightarrow> \<exists>x i k. secret = JStr x \<and> V s i = Some k \<and> admits E SV x k pr"
proof -
  show "onlyUsage V s t"
    using assms authenticateLoop_usage [THEN movesD]
    by (auto simp: authenticateApiKey_def act_simps onlyUsage.R_refl split: jsval.splits option.splits)
  show "\<not> sv_local SV \<Longrightarrow> r = Inr (Some pr) \<Longrightarrow> \<exists>x i k. secret = JStr x \<and> V s i = Some k \<and> admits E SV x k pr"
    using assms authenticateLoop_sound
    by (auto simp: authenticateApiKey_def act_simps split: jsval.splits option.splits)
qed

end

lemma admitted_principal:
  assumes "admits E SV x k p"
  shows "\<not> isRevoked k" "\<exists>now. \<not> (truthy (ak_expiresAt k) \<and> dateLeq E (the (ak_expiresAt k)) now)"
    "verifySecret E x (ak_secretHash k) (sv_verifierKey SV) = SecretMatches"
    "ak_applicationId k = Some (sv_applicationId SV)"
    "pr_principalId p = ak_id k" "pr_tenantId p = ak_tenantId k" "pr_verifiedBy p = ByApiKey"
    "pr_check p = Some (credentialCheck E SV (ak_id k) (ak_tenantId k))"
  using assms
  by (auto simp: admits_def authenticationFailure_def isRevoked_def toPrincipal_def bindR_Inr_iff
      mintVerifiedPrincipal_def claimedText_def bindCredentialCheck_def split: if_splits verification.splits)

text \<open>
  On a managed deployment a secret authenticates only as a key that is stored, neither
  revoked nor expired, whose verifier accepts the secret and that belongs to this application.
  The principal is that key, in its tenant, bound to the live check. Whatever the outcome,
  authentication changes nothing of any key but the bookkeeping of its use.
\<close>

lemma authentication_sound:
  assumes "gateway_platform E C G" and "SV = feltDbKeyService E False applicationId G verifierKey"
    and "authenticateApiKey E SV secret s = (t, r)"
  shows "onlyUsage (storedKeys C) s t \<and>
    (r = Inr (Some p) \<longrightarrow> (\<exists>i k now x. storedKeys C s i = Some k \<and> secret = JStr x \<and>
       \<not> isRevoked k \<and> \<not> (truthy (ak_expiresAt k) \<and> dateLeq E (the (ak_expiresAt k)) now) \<and>
       verifySecret E x (ak_secretHash k) verifierKey = SecretMatches \<and> ak_applicationId k = Some applicationId \<and>
       pr_principalId p = ak_id k \<and> pr_tenantId p = ak_tenantId k \<and> pr_verifiedBy p = ByApiKey \<and>
       pr_check p = Some (credentialCheck E SV (ak_id k) (ak_tenantId k))))"
proof (intro conjI impI)
  have laws: "key_service SV (storedKeys C) E"
    using felt_key_service.key_service_laws [OF felt_key_service.intro [OF assms(1)]] assms(2) by simp
  show "onlyUsage (storedKeys C) s t" by (rule key_service.authentication(1) [OF laws assms(3)])
  assume "r = Inr (Some p)"
  moreover have "\<not> sv_local SV" by (simp add: assms(2))
  ultimately obtain x i k where "secret = JStr x" "storedKeys C s i = Some k" "admits E SV x k p"
    using key_service.authentication(2) [OF laws assms(3)] by blast
  with admitted_principal [of E SV x k p] assms(2) show "\<exists>i k now x. storedKeys C s i = Some k \<and> secret = JStr x \<and>
       \<not> isRevoked k \<and> \<not> (truthy (ak_expiresAt k) \<and> dateLeq E (the (ak_expiresAt k)) now) \<and>
       verifySecret E x (ak_secretHash k) verifierKey = SecretMatches \<and> ak_applicationId k = Some applicationId \<and>
       pr_principalId p = ak_id k \<and> pr_tenantId p = ak_tenantId k \<and> pr_verifiedBy p = ByApiKey \<and>
       pr_check p = Some (credentialCheck E SV (ak_id k) (ak_tenantId k))"
    by auto
qed

section \<open>What a principal of a key can still do\<close>

context felt_key_service
begin

lemma authorize_live:
  assumes "toPrincipal E SV k = Inr p" and "authorize E G cap (Verified p) r requestId s = (t, Inr ctx)"
  shows "\<exists>c k' now. gwCapability E G cap = Some c \<and> V s (ak_id k) = Some k' \<and> ak_tenantId k' = ak_tenantId k \<and>
    ak_applicationId k' = Some applicationId \<and> keyStatus E k' now = KeyActive \<and>
    restrictionsPermit (ak_restrictions k') (cp_name c) r"
  using assms(2)
proof (rule authorize_Inr)
  fix c p' s1
  assume c: "gwCapability E G cap = Some c" and p': "Verified p = Verified p'"
    and check: "enforceCredential p' (cp_name c) r s = (s1, Inr ())"
  have "pr_check p = Some (credentialCheck E SV (ak_id k) (ak_tenantId k))"
    using assms(1) by (auto simp: toPrincipal_def bindR_Inr_iff mintVerifiedPrincipal_def claimedText_def
        bindCredentialCheck_def split: if_splits)
  then have "credentialCheck E SV (ak_id k) (ak_tenantId k) (cp_name c) r s = (s1, Inr ())"
    using check p' by (auto simp: enforceCredential_def catchA_Inr_iff act_simps split: if_splits)
  from service.check_passes [OF this] show ?thesis using c by auto
qed

end

text \<open>
  An operation under the principal of an API key is authorized only while the key itself is
  stored in the same tenant and application, neither revoked nor expired, and its restrictions
  permit this capability on this resource. The record is read again for every operation, so the
  moment of authentication does not matter.
\<close>

lemma key_principal_needs_live_key:
  assumes "gateway_platform E C G" and "SV = feltDbKeyService E isLocal applicationId G verifierKey"
    and "toPrincipal E SV k = Inr p" and "authorize E G cap (Verified p) r requestId s = (t, Inr ctx)"
  shows "\<exists>c k' now. gwCapability E G cap = Some c \<and> storedKeys C s (ak_id k) = Some k' \<and>
    ak_tenantId k' = ak_tenantId k \<and> ak_applicationId k' = Some applicationId \<and>
    keyStatus E k' now = KeyActive \<and> restrictionsPermit (ak_restrictions k') (cp_name c) r"
  using felt_key_service.authorize_live [OF felt_key_service.intro [OF assms(1)]] assms(2-4) by blast

text \<open>
  Revocation is final for everything that was authenticated with the key. Once the stored key
  is revoked, no sequence of later operations of the service makes the gateway authorize any
  capability for a principal of that key again.
\<close>

lemma revoked_key_authorizes_nothing:
  assumes "gateway_platform E C G" and "SV = feltDbKeyService E isLocal applicationId G verifierKey"
    and "toPrincipal E SV k = Inr p" and "wfKeys (storedKeys C s)"
    and "storedKeys C s (ak_id k) = Some k'" and "isRevoked k'"
    and "list_all (\<lambda>x. authenticCaller E SV (opCaller x)) ops"
  shows "\<exists>t e. authorize E G cap (Verified p) r requestId (runKeyOps E SV ops s) = (t, Inl e)"
proof -
  let ?u = "runKeyOps E SV ops s"
  have "lifecycle (storedKeys C) s ?u"
    using felt_key_service.operations_lifecycle [OF assms(1) [THEN felt_key_service.intro]] assms(2,7) by blast
  then obtain k'' where k'': "storedKeys C ?u (ak_id k) = Some k''" "keyStays k' k''"
    using assms(4) steps_keyStays [of "storedKeys C s" "storedKeys C ?u" "ak_id k" k'] assms(5)
    by (auto simp: lifecycle_def)
  then have "isRevoked k''" using assms(6) settled_revoked unfolding keyStays_def by blast
  then have never: "keyStatus E k'' now \<noteq> KeyActive" for now by (simp add: keyStatus_def isRevoked_def)
  obtain t res where run: "authorize E G cap (Verified p) r requestId ?u = (t, res)"
    by (cases "authorize E G cap (Verified p) r requestId ?u")
  have "res \<noteq> Inr ctx" for ctx
    using felt_key_service.authorize_live [OF assms(1) [THEN felt_key_service.intro]] assms(2,3) run k''(1) never
    by (metis option.inject)
  then show ?thesis using run by (cases res) auto
qed

section \<open>Revoking and rotating\<close>

context key_service
begin

lemma revokeLoop_result:
  "revokeLoop n E SV tenantId i by s = (t, Inr (Some v)) \<Longrightarrow> wfKeys (V s) \<Longrightarrow>
   \<exists>k. V t i = Some k \<and> isRevoked k \<and> av_id v = i \<and> av_status v = KeyRevoked \<and> ak_tenantId k = tenantId"
proof (induction n arbitrary: s)
  case (Suc n)
  from Suc.prems(1) show ?case unfolding revokeLoop.simps
  proof (cases rule: get_elim)
    case missing
    then show ?thesis by (simp add: act_simps)
  next
    case (found u c)
    have cid: "ak_id c = i" using wfKeysD [OF Suc.prems(2) found(2)] .
    have owned: "owns SV c tenantId True" using found(3) by (auto simp: act_simps split: if_splits)
    then have tenant: "ak_tenantId c = tenantId" by (simp add: owns_def)
    show ?thesis
    proof (cases "truthy (ak_revokedAt c)")
      case True
      then obtain now where "v = toView E c now" "draw (e_now E) u = (t, Inr now)"
        using found(3) owned by (auto simp: act_simps bindA_Inr_iff)
      moreover from this have "V t = V u" using movesD [OF now_kept] by (simp add: sameKeys_def)
      ultimately show ?thesis
        using found True cid tenant by (simp add: toView_def keyStatus_def isRevoked_def)
    next
      case False
      then obtain u1 at u2 result where now: "nowISO E u = (u1, Inr at)"
        and wrt: "ks_revoke (sv_store SV) (ak_id c) (ak_version c) at (Some by) u1 = (u2, Inr result)"
        and rest: "(case result of
          None \<Rightarrow> bindA (waitForUpdateRetry E (MAX_UPDATE_ATTEMPTS - Suc n)) (\<lambda>_. revokeLoop n E SV tenantId i by)
        | Some r \<Rightarrow> let updated = c\<lparr>ak_revokedAt := Some at, ak_revokedBy := Some by, ak_version := ak_version r\<rparr> in
            bindA (audit E SV KeyRevokedEvent updated by at None None) (\<lambda>_.
            bindA (rememberLocal updated) (\<lambda>_. bindA (draw (e_now E)) (\<lambda>now. ret (Some (toView E updated now)))))) u2
          = (t, Inr (Some v))"
        using found(3) owned by (auto simp: bindA_Inr_iff)
      have V1: "V u1 = V s" using movesD [OF nowISO_same now] found(1) by (simp add: sameKeys_def)
      have at: "at \<noteq> []" using now by (auto simp: nowISO_Inr_iff isoString_nonempty)
      show ?thesis
      proof (cases result)
        case None
        then have "V u2 = V s" using revoke_law [OF wrt] V1 by simp
        moreover obtain u3 x where wait: "waitForUpdateRetry E (MAX_UPDATE_ATTEMPTS - Suc n) u2 = (u3, Inr x)"
          and run: "revokeLoop n E SV tenantId i by u3 = (t, Inr (Some v))"
          using rest None by (auto simp: bindA_Inr_iff)
        ultimately have "wfKeys (V u3)" using movesD [OF hint_same(5) wait] Suc.prems(2) by (simp add: sameKeys_def)
        then show ?thesis using Suc.IH [OF run] by blast
      next
        case (Some r)
        then have cas: "casKey V u1 u2 i (ak_version c) (revokeUpdate at (Some by))" "V u2 i = Some r"
          using revoke_law [OF wrt] cid by simp_all
        then obtain m where r: "r = (revokeUpdate at (Some by) c)\<lparr>ak_version := m\<rparr>"
          using found(2) V1 by (auto simp: casKey_def)
        let ?k = "c\<lparr>ak_revokedAt := Some at, ak_revokedBy := Some by, ak_version := ak_version r\<rparr>"
        have tail: "moves (sameKeys V) (bindA (audit E SV KeyRevokedEvent ?k by at None None) (\<lambda>_.
            bindA (rememberLocal ?k) (\<lambda>_. bindA (draw (e_now E)) (\<lambda>now. ret (Some (toView E ?k now))))))"
          by (intro sameKeys.frame_rules audit_same hint_same now_kept)
        have "V t = V u2" using movesD [OF tail] rest Some by (simp add: sameKeys_def Let_def)
        then have "V t i = Some r" using cas by simp
        moreover have "\<exists>now. v = toView E ?k now" using rest Some by (auto simp: Let_def bindA_Inr_iff act_simps)
        ultimately show ?thesis
          using at cid tenant by (auto simp: toView_def keyStatus_def isRevoked_def r revokeUpdate_def)
      qed
    qed
  qed
qed (simp add: act_simps)

text \<open>One round of a rotation that returns a replacement: it committed, or it lost a race and tried again.\<close>

lemma rotate_round:
  assumes "rotateLoop (Suc n) E SV tenantId i overlap p s = (t, Inr (Some rk))" and "wfKeys (V s)"
  obtains c now k' secret u u' outcome where "V s i = Some c" "ak_id c = i" "owns SV c tenantId False"
    "\<not> isRotated c" "keyStatus E c now = KeyActive"
    "\<exists>v v'. issue E SV \<lparr>ii_tenantId = tenantId, ii_name = ak_name c, ii_restrictions = ak_restrictions c,
        ii_expiresAt = ak_expiresAt c, ii_createdBy = pr_principalId p, ii_rotatedFrom = Some i\<rparr> v = (v', Inr (k', secret))"
    "V u = V s"
    "ks_rotate (sv_store SV) c (retiredKey c (ak_id k') overlap (isoString now)
        (validUntil c (isoString (now + overlap * 1000))) (pr_principalId p)) k' u = (u', outcome)"
    "\<And>x. outcome = Inr x \<Longrightarrow> rotated E SV overlap p c (retiredKey c (ak_id k') overlap (isoString now)
        (validUntil c (isoString (now + overlap * 1000))) (pr_principalId p)) k' secret (isoString now)
        (validUntil c (isoString (now + overlap * 1000))) u' = (t, Inr (Some rk))"
    "\<And>e. outcome = Inl e \<Longrightarrow> isConditionalConflict e \<and>
        bindA (waitForUpdateRetry E (MAX_UPDATE_ATTEMPTS - Suc n)) (\<lambda>_. rotateLoop n E SV tenantId i overlap p) u' = (t, Inr (Some rk))"
  using assms(1) unfolding rotateLoop.simps
proof (cases rule: get_elim)
  case missing
  then show thesis by (simp add: act_simps)
next
  case (found u c)
  have cid: "ak_id c = i" using wfKeysD [OF assms(2) found(2)] .
  from found(3) have owned: "owns SV c tenantId False" by (auto simp: act_simps split: if_splits)
  from found(3) obtain u1 now u2 x u3 k' secret u4 outcome where
    now: "draw (e_now E) u = (u1, Inr now)" and fresh: "\<not> truthy (ak_rotatedTo c)" and act: "keyStatus E c now = KeyActive"
    and within: "assertWithinCaller SV p (ak_restrictions c) (ak_expiresAt c) u1 = (u2, Inr x)"
    and iss: "issue E SV \<lparr>ii_tenantId = tenantId, ii_name = ak_name c, ii_restrictions = ak_restrictions c,
        ii_expiresAt = ak_expiresAt c, ii_createdBy = pr_principalId p, ii_rotatedFrom = Some (ak_id c)\<rparr> u2 = (u3, Inr (k', secret))"
    and rot: "ks_rotate (sv_store SV) c (retiredKey c (ak_id k') overlap (isoString now)
        (validUntil c (isoString (now + overlap * 1000))) (pr_principalId p)) k' u3 = (u4, outcome)"
    and rest: "(case outcome of
       Inl e \<Rightarrow> if \<not> isConditionalConflict e then raise e
         else bindA (waitForUpdateRetry E (MAX_UPDATE_ATTEMPTS - Suc n)) (\<lambda>_. rotateLoop n E SV tenantId i overlap p)
     | Inr _ \<Rightarrow> rotated E SV overlap p c (retiredKey c (ak_id k') overlap (isoString now)
        (validUntil c (isoString (now + overlap * 1000))) (pr_principalId p)) k' secret (isoString now)
        (validUntil c (isoString (now + overlap * 1000)))) u4 = (t, Inr (Some rk))"
    using owned by (auto simp: act_simps bindA_Inr_iff settle_iff liftR_iff toISOString_Inr_iff Let_def split: if_splits)
  have "V u3 = V s"
    using movesD [OF issue_same iss] movesD [OF within_same within] movesD [OF now_kept now] found(1)
    by (simp add: sameKeys_def)
  then show thesis
    using that [of c now k' secret u3 u4 outcome] found(2) cid owned fresh act iss rot rest
    by (cases outcome) (auto simp: isRotated_def act_simps split: if_splits)
qed

lemma rotateLoop_result:
  "rotateLoop n E SV tenantId i overlap p s = (t, Inr (Some rk)) \<Longrightarrow> wfKeys (V s) \<Longrightarrow>
   \<exists>k now k' v v'. V s i = Some k \<and> ak_tenantId k = tenantId \<and> keyStatus E k now = KeyActive \<and> \<not> isRotated k \<and>
     V s (ak_id k') = None \<and> replacementOf k k' \<and>
     V t = (V s)(i \<mapsto> (retiredKey k (ak_id k') overlap (isoString now) (validUntil k (isoString (now + overlap * 1000)))
         (pr_principalId p))\<lparr>ak_version := ak_version k + 1\<rparr>, ak_id k' \<mapsto> k') \<and>
     rk_replaces rk = i \<and> ck_id rk = ak_id k' \<and> ck_prefix rk = ak_keyPrefix k' \<and>
     issue E SV \<lparr>ii_tenantId = tenantId, ii_name = ak_name k, ii_restrictions = ak_restrictions k,
        ii_expiresAt = ak_expiresAt k, ii_createdBy = pr_principalId p, ii_rotatedFrom = Some i\<rparr> v = (v', Inr (k', ck_secret rk))"
proof (induction n arbitrary: s)
  case (Suc n)
  from Suc.prems show ?case
  proof (rule rotate_round)
    fix c now k' secret u u' outcome
    assume c: "V s i = Some c" "ak_id c = i" "owns SV c tenantId False" "\<not> isRotated c" "keyStatus E c now = KeyActive"
      and iss: "\<exists>v v'. issue E SV \<lparr>ii_tenantId = tenantId, ii_name = ak_name c, ii_restrictions = ak_restrictions c,
        ii_expiresAt = ak_expiresAt c, ii_createdBy = pr_principalId p, ii_rotatedFrom = Some i\<rparr> v = (v', Inr (k', secret))"
      and V: "V u = V s"
      and rot: "ks_rotate (sv_store SV) c (retiredKey c (ak_id k') overlap (isoString now)
        (validUntil c (isoString (now + overlap * 1000))) (pr_principalId p)) k' u = (u', outcome)"
      and okay: "\<And>x. outcome = Inr x \<Longrightarrow> rotated E SV overlap p c (retiredKey c (ak_id k') overlap (isoString now)
        (validUntil c (isoString (now + overlap * 1000))) (pr_principalId p)) k' secret (isoString now)
        (validUntil c (isoString (now + overlap * 1000))) u' = (t, Inr (Some rk))"
      and lost: "\<And>e. outcome = Inl e \<Longrightarrow> isConditionalConflict e \<and>
        bindA (waitForUpdateRetry E (MAX_UPDATE_ATTEMPTS - Suc n)) (\<lambda>_. rotateLoop n E SV tenantId i overlap p) u' = (t, Inr (Some rk))"
    show ?case
    proof (cases outcome)
      case (Inl e)
      then have "V u' = V s" using lost rotate_conflict rot V by metis
      moreover obtain u3 x where wait: "waitForUpdateRetry E (MAX_UPDATE_ATTEMPTS - Suc n) u' = (u3, Inr x)"
        and run: "rotateLoop n E SV tenantId i overlap p u3 = (t, Inr (Some rk))"
        using lost [OF Inl] by (auto simp: bindA_Inr_iff)
      ultimately have "V u3 = V s" using movesD [OF hint_same(5) wait] by (simp add: sameKeys_def)
      then show ?thesis using Suc.IH [OF run] Suc.prems(2) by simp
    next
      case (Inr x)
      from iss obtain v v' where iss': "issue E SV \<lparr>ii_tenantId = tenantId, ii_name = ak_name c, ii_restrictions = ak_restrictions c,
        ii_expiresAt = ak_expiresAt c, ii_createdBy = pr_principalId p, ii_rotatedFrom = Some i\<rparr> v = (v', Inr (k', secret))"
        by blast
      have rep: "replacementOf c k'" using issue_fresh [OF iss'] c by (simp add: replacementOf_def owns_def)
      have keys: "rotateKeys V u u' c (retiredKey c (ak_id k') overlap (isoString now)
        (validUntil c (isoString (now + overlap * 1000))) (pr_principalId p)) k'"
        using rot rotate_ok Inr by blast
      have tail: "moves (sameKeys V) (rotated E SV overlap p c r k' secret x' y)" for r x' y
        unfolding rotated_def by (intro sameKeys.frame_rules hint_same audit_same)
      have "V t = V u'" using movesD [OF tail okay [OF Inr]] by (simp add: sameKeys_def)
      moreover have "rk_replaces rk = i \<and> ck_id rk = ak_id k' \<and> ck_prefix rk = ak_keyPrefix k' \<and> ck_secret rk = secret"
        using okay [OF Inr] c(2) by (auto simp: rotated_def bindA_Inr_iff act_simps)
      ultimately show ?thesis
        apply -
        apply (rule exI [of _ c], rule exI [of _ now], rule exI [of _ k'], rule exI [of _ v], rule exI [of _ v'])
        using c keys V iss' rep by (simp add: rotateKeys_def owns_def fun_eq_iff)
    qed
  qed
qed (simp add: act_simps)

end

section \<open>Public operations\<close>

context felt_key_service
begin

lemma gateway_same: "moves (keeps C {API_KEYS_COLLECTION}) m \<Longrightarrow> moves (sameKeys V) m"
  by (erule keeps_sameKeys) simp

lemma not_keys: "EVIDENCE_COLLECTION \<notin> {API_KEYS_COLLECTION}"
  by (simp add: API_KEYS_COLLECTION_def EVIDENCE_COLLECTION_def)

text \<open>An operation that returns ran its effect, with the keys as they were before and left after it.\<close>

lemma execute_effect:
  assumes "execute E G cap (Verified p) r opts (\<lambda>ctx. plain (m ctx)) s = (t, Inr x)"
    and "authenticCaller E SV (Verified p)"
  shows "\<exists>ctx s' u. V s' = V s \<and> m ctx s' = (u, Inr x) \<and> V t = V u"
proof -
  obtain s1 requestId startedAt where start: "executeStart E opts s = (s1, Inr (requestId, startedAt))"
    and rest: "bindA (catchA (authorize E G cap (Verified p) r requestId)
              (\<lambda>e. bindA (recordRefusal E G cap (Verified p) r opts requestId startedAt e) (\<lambda>_. raise e))) (\<lambda>ctx.
     runEffect E (Issued ctx) opts (\<lambda>ctx. plain (m ctx)) (Some startedAt)) s1 = (t, Inr x)"
    using assms(1) by (auto simp: execute_def bindA_Inr_iff)
  obtain s2 ctx where auth: "authorize E G cap (Verified p) r requestId s1 = (s2, Inr ctx)"
    and run: "runEffect E (Issued ctx) opts (\<lambda>ctx. plain (m ctx)) (Some startedAt) s2 = (t, Inr x)"
    using rest by (auto simp: bindA_Inr_iff catchA_Inr_iff act_simps)
  obtain s3 now s4 i s5 ctx' u0 where now: "draw (e_now E) s2 = (s3, Inr now)" and uuid: "draw (e_uuid E) s3 = (s4, Inr i)"
    and rec: "evidenceRecord E (evidenceFor ctx' opts i startedAt Started) s4 = (s5, Inr u0)"
    and perf: "performEffect E opts i (plain (m ctx')) s5 = (t, Inr x)"
    using run by (auto simp: runEffect_def bindA_Inr_iff act_simps liftR_iff)
  obtain u q where m: "m ctx' s5 = (u, q)" by (cases "m ctx' s5")
  have done': "completeEffect E opts i \<lparr>tl_refs = [], tl_stored = None\<rparr> q u = (t, Inr x)"
    using perf by (simp add: performEffect_def plain_def m)
  have q: "q = Inr x"
    using done' by (cases q) (auto simp: completeEffect_def catchA_Inr_iff bindA_Inr_iff act_simps liftR_iff)
  have authk: "moves (sameKeys V) (authorize E G cap (Verified p) r requestId)"
    by (rule gateway_same, rule keeps_authorize) (use check_keeps [OF assms(2)] in auto)
  have comp: "moves (sameKeys V) (completeEffect E opts i \<lparr>tl_refs = [], tl_stored = None\<rparr> q)"
    by (rule gateway_same, rule keeps_completeEffect) (rule not_keys)
  have "V s5 = V s"
    using movesD [OF gateway_same [OF keeps_executeStart] start] movesD [OF authk auth]
      movesD [OF gateway_same [OF keeps_now] now] movesD [OF gateway_same [OF keeps_uuid] uuid]
      movesD [OF gateway_same [OF keeps_evidenceRecord [OF not_keys]] rec]
    by (simp add: sameKeys_def)
  moreover have "V t = V u" using movesD [OF comp done'] by (simp add: sameKeys_def)
  ultimately show ?thesis using m q by blast
qed

end

text \<open>
  A revocation that returns has revoked. Whatever it met, other writers included, the key of
  that id is stored in the caller's tenant with a revocation time, and the view says so.
\<close>

lemma revocation_revokes:
  assumes "gateway_platform E C G" and "SV = feltDbKeyService E isLocal applicationId G verifierKey"
    and "authenticCaller E SV (Verified p)" and "wfKeys (storedKeys C s)"
    and "revokeApiKey E SV i input (Verified p) s = (t, Inr (Some v))"
  shows "\<exists>k. storedKeys C t i = Some k \<and> isRevoked k \<and> ak_tenantId k = pr_tenantId p \<and> av_id v = i \<and> av_status v = KeyRevoked"
proof -
  have laws: "key_service SV (storedKeys C) E"
    using felt_key_service.key_service_laws [OF felt_key_service.intro [OF assms(1)]] assms(2) by simp
  have "execute E G ''apikeys.revoke'' (Verified p) (keyResource (pr_tenantId p) (Some i)) (serviceOptions ''api-keys'')
       (\<lambda>ctx. plain (revokeLoop MAX_UPDATE_ATTEMPTS E SV (pr_tenantId p) i (pr_principalId p))) s = (t, Inr (Some v))"
    using assms(5) unfolding revokeApiKey_def assms(2) gatewayOf_felt bindA_monad
    by (auto simp: bindA_Inr_iff liftR_iff requireVerifiedPrincipal_def resolveTenant_def Let_def split: if_splits)
  from felt_key_service.execute_effect [OF felt_key_service.intro [OF assms(1)] this [unfolded assms(2)]] assms(2,3)
  obtain s' u where "storedKeys C s' = storedKeys C s" "storedKeys C t = storedKeys C u"
    "revokeLoop MAX_UPDATE_ATTEMPTS E SV (pr_tenantId p) i (pr_principalId p) s' = (u, Inr (Some v))" by blast
  with key_service.revokeLoop_result [OF laws this(3)] assms(4) show ?thesis by auto
qed

text \<open>
  A rotation that returns has replaced an active, never rotated key of the tenant in one
  commit. Without an overlap the old key is revoked in it, otherwise it expires at the end of the
  overlap (or at its own expiry, if that text sorts before it). The replacement is new, carries
  the same name, tenant, application, restrictions and expiry, and the returned secret is its own.
  Nothing else changes.
\<close>

lemma rotation_replaces:
  assumes "gateway_platform E C G" and "SV = feltDbKeyService E isLocal applicationId G verifierKey"
    and "authenticCaller E SV (Verified p)" and "wfKeys (storedKeys C s)"
    and "rotateApiKey E SV input (Verified p) s = (t, Inr (Some rk))"
  shows "\<exists>i overlap k now k' old. propOf input ''id'' = JStr i \<and> overlapOf (propOf input ''overlapSeconds'') = Inr overlap \<and>
     storedKeys C s i = Some k \<and> ak_tenantId k = pr_tenantId p \<and> keyStatus E k now = KeyActive \<and>
     \<not> isRotated k \<and> storedKeys C s (ck_id rk) = None \<and> replacementOf k k' \<and> ak_id k' = ck_id rk \<and>
     storedKeys C t = (storedKeys C s)(i \<mapsto> old, ck_id rk \<mapsto> k') \<and>
     (if overlap = 0 then isRevoked old \<and> ak_revokedBy old = Some (pr_principalId p)
      else ak_expiresAt old = Some (validUntil k (isoString (now + overlap * 1000)))) \<and>
     ak_rotatedTo old = Some (ck_id rk) \<and> rk_replaces rk = i \<and>
     verifySecret E (ck_secret rk) (ak_secretHash k') verifierKey = SecretMatches"
proof -
  have laws: "key_service SV (storedKeys C) E"
    using felt_key_service.key_service_laws [OF felt_key_service.intro [OF assms(1)]] assms(2) by simp
  let ?tenant = "pr_tenantId p"
  obtain i overlap where input: "propOf input ''id'' = JStr i" "overlapOf (propOf input ''overlapSeconds'') = Inr overlap"
    and "execute E G ''apikeys.rotate'' (Verified p) (keyResource ?tenant (Some i)) (serviceOptions ''api-keys'')
       (\<lambda>ctx. plain (rotateLoop MAX_UPDATE_ATTEMPTS E SV ?tenant i overlap p)) s = (t, Inr (Some rk))"
    using assms(5) unfolding rotateApiKey_def assms(2) gatewayOf_felt bindA_monad
    by (auto simp: bindA_Inr_iff liftR_iff requireVerifiedPrincipal_def resolveTenant_def requiredId_def Let_def
        split: if_splits jsval.splits)
  from felt_key_service.execute_effect [OF felt_key_service.intro [OF assms(1)] this(3) [unfolded assms(2)]] assms(2,3)
  obtain s' u0 where su: "storedKeys C s' = storedKeys C s" "storedKeys C t = storedKeys C u0"
    and run: "rotateLoop MAX_UPDATE_ATTEMPTS E SV ?tenant i overlap p s' = (u0, Inr (Some rk))" by blast
  from key_service.rotateLoop_result [OF laws run] assms(4) su obtain k now k' v v' where
    k: "storedKeys C s i = Some k" "ak_tenantId k = ?tenant" "keyStatus E k now = KeyActive" "\<not> isRotated k"
      "storedKeys C s (ak_id k') = None" "replacementOf k k'"
    and t: "storedKeys C t = (storedKeys C s)(i \<mapsto> (retiredKey k (ak_id k') overlap (isoString now)
         (validUntil k (isoString (now + overlap * 1000))) (pr_principalId p))\<lparr>ak_version := ak_version k + 1\<rparr>, ak_id k' \<mapsto> k')"
    and rk: "rk_replaces rk = i" "ck_id rk = ak_id k'"
    and iss: "issue E SV \<lparr>ii_tenantId = ?tenant, ii_name = ak_name k, ii_restrictions = ak_restrictions k,
        ii_expiresAt = ak_expiresAt k, ii_createdBy = pr_principalId p, ii_rotatedFrom = Some i\<rparr> v = (v', Inr (k', ck_secret rk))"
    by auto
  have plat: "platform E C" using assms(1) by (rule gateway_platform.axioms)
  obtain u u' where "hashSecret E (ck_secret rk) (sv_verifierKey SV) u = (u', Inr (ak_secretHash k'))"
    using issue_secret [OF iss] by blast
  with plat have "verifySecret E (ck_secret rk) (ak_secretHash k') (sv_verifierKey SV) = SecretMatches"
    by (rule hash_verifies) auto
  moreover let ?old = "(retiredKey k (ak_id k') overlap (isoString now)
      (validUntil k (isoString (now + overlap * 1000))) (pr_principalId p))\<lparr>ak_version := ak_version k + 1\<rparr>"
  have "if overlap = 0 then isRevoked ?old \<and> ak_revokedBy ?old = Some (pr_principalId p)
      else ak_expiresAt ?old = Some (validUntil k (isoString (now + overlap * 1000)))" "ak_rotatedTo ?old = Some (ak_id k')"
    by (simp_all add: retiredKey_def Let_def isRevoked_def isoString_nonempty)
  ultimately show ?thesis
    apply -
    apply (rule exI [of _ i], rule exI [of _ overlap], rule exI [of _ k], rule exI [of _ now], rule exI [of _ k'],
        rule exI [of _ ?old])
    using input k t rk assms(2) by simp
qed

section \<open>Creating within the caller's ceiling\<close>

context key_service
begin

lemma within_caller:
  assumes "assertWithinCaller SV p restr at s = (t, Inr u)" and "pr_verifiedBy p = ByApiKey"
    and "pr_credentialId p = Some (c # cs)"
  shows "\<exists>ck. V s (c # cs) = Some ck \<and> restrictionsWithin restr (ak_restrictions ck) \<and>
    (truthy (ak_expiresAt ck) \<longrightarrow> truthy at \<and> strLeq (the at) (the (ak_expiresAt ck)))"
proof -
  have "bindA (ks_get (sv_store SV) (c # cs)) (\<lambda>callerKey.
        case callerKey of
          None \<Rightarrow> raise (ServiceAuthorityError DENIED ''Calling API key is unknown''
            (noDetails\<lparr>ed_reason := Some ''credential_unknown''\<rparr>))
        | Some ck \<Rightarrow>
            if \<not> restrictionsWithin restr (ak_restrictions ck)
            then raise (ServiceAuthorityError DENIED
              ''An API key cannot create, widen, or rotate a key broader than its own restrictions''
              (noDetails\<lparr>ed_reason := Some ''exceeds_credential_restrictions''\<rparr>))
            else if truthy (ak_expiresAt ck) \<and> (\<not> truthy at \<or> strLess (the (ak_expiresAt ck)) (the at))
            then raise (ServiceAuthorityError DENIED ''An API key cannot create or extend a key that outlives it''
              (noDetails\<lparr>ed_reason := Some ''exceeds_credential_lifetime''\<rparr>))
            else ret ()) s = (t, Inr u)"
    using assms by (simp add: assertWithinCaller_def)
  then show ?thesis
  proof (cases rule: get_elim)
    case (found v ck)
    then have "restrictionsWithin restr (ak_restrictions ck)"
      "truthy (ak_expiresAt ck) \<longrightarrow> truthy at \<and> \<not> strLess (the (ak_expiresAt ck)) (the at)"
      by (auto simp: act_simps split: if_splits)
    then show ?thesis using found(2) by (auto simp: strLeq_iff_not_less)
  qed (simp add: act_simps)
qed

lemma createLoop_result:
  "createLoop n E SV input s = (t, Inr ck) \<Longrightarrow> \<exists>k u v. V t (ck_id ck) = Some k \<and> freshKey k \<and> ck_prefix ck = ak_keyPrefix k \<and>
     issue E SV input u = (v, Inr (k, ck_secret ck)) \<and> ak_id k = ck_id ck"
proof (induction n arbitrary: s)
  case (Suc n)
  then obtain u k secret where iss: "issue E SV input s = (u, Inr (k, secret))"
    and rest: "catchA (createOnce E SV input k secret)
       (\<lambda>e. if isConditionalConflict e then createLoop n E SV input else raise e) u = (t, Inr ck)"
    by (auto simp: bindA_Inr_iff)
  show ?case
  proof (cases "createOnce E SV input k secret u = (t, Inr ck)")
    case True
    then obtain u1 x where stored: "ks_create (sv_store SV) k u = (u1, Inr x)"
      and tail: "bindA (rememberPrefix (ak_keyPrefix k) (ak_id k)) (\<lambda>_.
         bindA (rememberCreated SV k) (\<lambda>_.
         bindA (audit E SV KeyCreated k (ii_createdBy input) (ak_createdAt k) None None) (\<lambda>_.
         ret \<lparr>ck_id = ak_id k, ck_name = ak_name k, ck_prefix = ak_keyPrefix k, ck_secret = secret\<rparr>))) u1 = (t, Inr ck)"
      unfolding createOnce_def by (auto simp: bindA_Inr_iff)
    have "moves (sameKeys V) (bindA (rememberPrefix (ak_keyPrefix k) (ak_id k)) (\<lambda>_.
         bindA (rememberCreated SV k) (\<lambda>_.
         bindA (audit E SV KeyCreated k (ii_createdBy input) (ak_createdAt k) None None) (\<lambda>_.
         ret \<lparr>ck_id = ak_id k, ck_name = ak_name k, ck_prefix = ak_keyPrefix k, ck_secret = secret\<rparr>))))"
      by (intro sameKeys.frame_rules hint_same audit_same)
    from movesD [OF this tail] have "V t = V u1" by (simp add: sameKeys_def)
    moreover have "V u1 (ak_id k) = Some k" using create_ok [of k u u1] stored by simp
    moreover have "ck = \<lparr>ck_id = ak_id k, ck_name = ak_name k, ck_prefix = ak_keyPrefix k, ck_secret = secret\<rparr>"
      using tail by (auto simp: bindA_Inr_iff act_simps)
    ultimately show ?thesis using iss issue_fresh [OF iss] by auto
  next
    case False
    then obtain u1 where "createLoop n E SV input u1 = (t, Inr ck)"
      using rest by (auto simp: catchA_Inr_iff act_simps split: if_splits)
    then show ?thesis by (rule Suc.IH)
  qed
qed (simp add: act_simps)

end

text \<open>
  A key made by a caller that itself authenticated with a key stays under that key's ceiling.
  When the creation returns, the new key is stored in the caller's tenant, the calling key was
  stored, the new key permits nothing the calling key does not permit, and if the calling key
  expires the new one expires too, no later as the two texts compare.
\<close>

lemma created_key_within_ceiling:
  assumes "gateway_platform E C G" and "SV = feltDbKeyService E isLocal applicationId G verifierKey"
    and "authenticCaller E SV (Verified p)" and "pr_verifiedBy p = ByApiKey" and "pr_credentialId p = Some i" and "i \<noteq> []"
    and "createApiKey E SV input (Verified p) s = (t, Inr ck)"
  shows "\<exists>own k. storedKeys C s i = Some own \<and> storedKeys C t (ck_id ck) = Some k \<and> freshKey k \<and>
    ak_tenantId k = pr_tenantId p \<and> ak_applicationId k = Some applicationId \<and>
    (restrictionsPermit (ak_restrictions k) cap r \<longrightarrow> restrictionsPermit (ak_restrictions own) cap r) \<and>
    (truthy (ak_expiresAt own) \<longrightarrow> truthy (ak_expiresAt k) \<and> strLeq (the (ak_expiresAt k)) (the (ak_expiresAt own)))"
proof -
  have laws: "key_service SV (storedKeys C) E"
    using felt_key_service.key_service_laws [OF felt_key_service.intro [OF assms(1)]] assms(2) by simp
  obtain restr at where "execute E G ''apikeys.create'' (Verified p) (keyResource (pr_tenantId p) None) (serviceOptions ''api-keys'')
      (\<lambda>ctx. plain (bindA (assertWithinCaller SV p restr at) (\<lambda>_.
        createApiKeyWithSideEffects E SV (pr_tenantId p) (propOf input ''name'') restr at (pr_principalId p)))) s = (t, Inr ck)"
    using assms(7) unfolding createApiKey_def assms(2) gatewayOf_felt bindA_monad
    by (auto simp: bindA_Inr_iff liftR_iff requireVerifiedPrincipal_def resolveTenant_def Let_def act_simps split: if_splits)
  from felt_key_service.execute_effect [OF felt_key_service.intro [OF assms(1)] this [unfolded assms(2)]] assms(2,3)
  obtain s' u where su: "storedKeys C s' = storedKeys C s" "storedKeys C t = storedKeys C u"
    and eff: "bindA (assertWithinCaller SV p restr at) (\<lambda>_.
        createApiKeyWithSideEffects E SV (pr_tenantId p) (propOf input ''name'') restr at (pr_principalId p)) s' = (u, Inr ck)"
    by blast
  obtain s2 x where within: "assertWithinCaller SV p restr at s' = (s2, Inr x)"
    and create: "createApiKeyWithSideEffects E SV (pr_tenantId p) (propOf input ''name'') restr at (pr_principalId p) s2 = (u, Inr ck)"
    using eff unfolding bindA_Inr_iff by blast
  obtain c cs where i: "i = c # cs" using assms(6) by (cases i) auto
  obtain own where own: "storedKeys C s i = Some own" "restrictionsWithin restr (ak_restrictions own)"
    "truthy (ak_expiresAt own) \<longrightarrow> truthy at \<and> strLeq (the at) (the (ak_expiresAt own))"
    using key_service.within_caller [OF laws within assms(4)] assms(5) su(1) unfolding i by auto
  obtain name where "createLoop MAX_CREATE_ATTEMPTS E SV
          \<lparr>ii_tenantId = pr_tenantId p, ii_name = name, ii_restrictions = restr, ii_expiresAt = at,
           ii_createdBy = pr_principalId p, ii_rotatedFrom = None\<rparr> s2 = (u, Inr ck)"
    using create by (auto simp: createApiKeyWithSideEffects_def act_simps split: jsval.splits if_splits)
  from key_service.createLoop_result [OF laws this] obtain k v v' where
    k: "storedKeys C u (ck_id ck) = Some k" "freshKey k"
    and iss: "issue E SV \<lparr>ii_tenantId = pr_tenantId p, ii_name = name, ii_restrictions = restr, ii_expiresAt = at,
           ii_createdBy = pr_principalId p, ii_rotatedFrom = None\<rparr> v = (v', Inr (k, ck_secret ck))" by blast
  have fields: "ak_tenantId k = pr_tenantId p" "ak_applicationId k = Some applicationId" "ak_restrictions k = restr" "ak_expiresAt k = at"
    using key_service.issue_fresh [OF laws iss] assms(2) by simp_all
  then show ?thesis using own k su within_permits [OF own(2)] by auto
qed

end
