(* ===== verification/ApiKeyPages.thy ===== *)
theory ApiKeyPages
  imports ApiKeyLifecycle
begin

text \<open>
  The read side of the API key service and its process-local hints: keyset pages, what a listing
  discloses, how large the hints can grow, and the order of the times the service compares as texts.
\<close>

section \<open>Pages\<close>

text \<open>A client that follows the cursors: each page starts after the last item of the one before.\<close>

fun walkPages :: "nat \<Rightarrow> ('a \<Rightarrow> string) \<Rightarrow> 'a list \<Rightarrow> int \<Rightarrow> string option \<Rightarrow> 'a list" where
  "walkPages 0 ident items limit cursor = []"
| "walkPages (Suc n) ident items limit cursor =
     (case page ident items cursor limit of
        [] \<Rightarrow> []
      | p # ps \<Rightarrow> (p # ps) @ walkPages n ident items limit (Some (ident (last (p # ps)))))"

lemma findIndex_append: "\<forall>x\<in>set xs. \<not> P x \<Longrightarrow> P y \<Longrightarrow> findIndex P (xs @ y # ys) = Some (length xs)"
  by (induction xs) auto

lemma page_after:
  assumes "distinct (map ident (xs @ ys))"
  shows "page ident (xs @ ys) (if xs = [] then None else Some (ident (last xs))) limit = take (nat limit) ys"
proof (cases xs rule: rev_cases)
  case Nil
  then show ?thesis by (simp add: page_def)
next
  case (snoc zs z)
  then have "ident z \<notin> ident ` set zs" using assms by simp
  then have "\<forall>x\<in>set zs. ident x \<noteq> ident z" by (metis image_eqI)
  then have "findIndex (\<lambda>x. ident x = ident z) (zs @ z # ys) = Some (length zs)" by (intro findIndex_append) auto
  moreover have "xs @ ys = zs @ z # ys" "last xs = z" "xs \<noteq> []" using snoc by simp_all
  ultimately show ?thesis by (simp add: page_def)
qed

lemma walkPages_rest:
  "distinct (map ident (xs @ ys)) \<Longrightarrow> 1 \<le> limit \<Longrightarrow> length ys < n \<Longrightarrow>
   walkPages n ident (xs @ ys) limit (if xs = [] then None else Some (ident (last xs))) = ys"
proof (induction n arbitrary: xs ys)
  case (Suc n)
  note step = page_after [OF Suc.prems(1), of limit]
  show ?case
  proof (cases ys)
    case Nil
    then show ?thesis using step by simp
  next
    case (Cons y zs)
    obtain p q where pq: "p = take (nat limit) ys" "q = drop (nat limit) ys" by blast
    have "0 < nat limit" using Suc.prems(2) by simp
    then have p: "p \<noteq> []" "ys = p @ q" "length q < length ys" by (simp_all add: pq Cons)
    have "walkPages n ident ((xs @ p) @ q) limit (if xs @ p = [] then None else Some (ident (last (xs @ p)))) = q"
      by (rule Suc.IH) (use Suc.prems p in \<open>auto simp: neq_Nil_conv\<close>)
    then have "walkPages n ident (xs @ ys) limit (Some (ident (last p))) = q" using p by simp
    moreover have "page ident (xs @ ys) (if xs = [] then None else Some (ident (last xs))) limit = p" using step pq by simp
    ultimately show ?thesis using p by (cases p) simp_all
  qed
qed simp

text \<open>
  C19: following the cursors reaches everything once. With distinct ids and any limit from 1 on, a
  client that asks for page after page receives exactly the sorted list, and one request more than
  there are items is always enough. An unknown cursor yields an empty page.
\<close>

lemma pages_cover:
  assumes "distinct (map ident items)" and "1 \<le> limit" and "length items < n"
  shows "walkPages n ident items limit None = items \<and> (a \<notin> ident ` set items \<longrightarrow> page ident items (Some a) limit = [])"
proof -
  have "findIndex (\<lambda>x. ident x = a) items = None" if "a \<notin> ident ` set items" for a and items :: "'a list"
    using that by (induction items) auto
  then show ?thesis using walkPages_rest [of ident "[]" items] assms by (auto simp: page_def)
qed

section \<open>Listings\<close>

lemma page_subset: "set (page ident items cursor limit) \<subseteq> set items"
  by (auto simp: page_def split: option.splits dest!: in_set_takeD in_set_dropD)

lemma page_length: "length (page ident items cursor limit) \<le> nat limit"
  by (auto simp: page_def split: option.splits)

context platform
begin

lemma key_store_laws: "api_key_store (feltDbApiKeyStore E) (storedKeys C)"
  by (rule keyStore.api_key_store_axioms)

end

lemma listQuery_limit: "listQuery v = Inr q \<Longrightarrow> 1 \<le> kq_limit q \<and> kq_limit q \<le> 500"
  by (auto simp: listQuery_def bindR_Inr_iff pageLimit_def MAX_PAGE_SIZE_def Let_def split: option.splits jsval.splits if_splits)

text \<open>
  C20: a listing discloses only views of stored keys of the asked tenant, as they are at one moment;
  with options, only those of this application with the asked status and creator, at most the asked
  number and never more than 500. A single read discloses only the stored key of that id, and only to
  its tenant.
\<close>

lemma listing_isolated:
  assumes "platform E C" and "SV = feltDbKeyService E isLocal applicationId G verifierKey"
  shows "(listApiKeys E SV tenantId options s = (t, Inr vs) \<longrightarrow>
      (\<exists>now. (\<forall>x\<in>set vs. \<exists>k j. storedKeys C s j = Some k \<and> x = toView E k now \<and> ak_tenantId k = tenantId \<and>
          (options \<noteq> JUndef \<longrightarrow> ak_applicationId k = Some applicationId)) \<and>
        (options \<noteq> JUndef \<longrightarrow> (\<exists>q. listQuery options = Inr q \<and> length vs \<le> nat (kq_limit q) \<and> length vs \<le> 500 \<and>
          (\<forall>x\<in>set vs. (case kq_status q of None \<Rightarrow> True | Some st \<Rightarrow> av_status x = st) \<and>
             (case kq_createdBy q of None \<Rightarrow> True | Some c \<Rightarrow> av_createdBy x = c)))))) \<and>
    (getApiKey E SV tenantId i s = (t', Inr (Some v)) \<longrightarrow>
      (\<exists>k now. storedKeys C s i = Some k \<and> v = toView E k now \<and> ak_tenantId k = tenantId))"
proof (intro conjI impI)
  assume run: "listApiKeys E SV tenantId options s = (t, Inr vs)"
  obtain s1 items where items: "ks_list (feltDbApiKeyStore E) tenantId s = (s1, Inr items)"
    using assms(2) run by (auto simp: listApiKeys_def bindA_Inr_iff)
  have sound: "ak_tenantId k = tenantId \<and> (\<exists>j. storedKeys C s j = Some k)" if "k \<in> set items" for k
    using api_key_store.list_sound [OF platform.key_store_laws [OF assms(1)] items that] .
  show "\<exists>now. (\<forall>x\<in>set vs. \<exists>k j. storedKeys C s j = Some k \<and> x = toView E k now \<and> ak_tenantId k = tenantId \<and>
          (options \<noteq> JUndef \<longrightarrow> ak_applicationId k = Some applicationId)) \<and>
        (options \<noteq> JUndef \<longrightarrow> (\<exists>q. listQuery options = Inr q \<and> length vs \<le> nat (kq_limit q) \<and> length vs \<le> 500 \<and>
          (\<forall>x\<in>set vs. (case kq_status q of None \<Rightarrow> True | Some st \<Rightarrow> av_status x = st) \<and>
             (case kq_createdBy q of None \<Rightarrow> True | Some c \<Rightarrow> av_createdBy x = c))))"
  proof (cases "options = JUndef")
    case True
    then obtain now where "vs = map (\<lambda>k. toView E k now) items"
      using assms(2) run items by (auto simp: listApiKeys_def bindA_Inr_iff act_simps)
    then show ?thesis using sound True by (intro exI [of _ now]) fastforce
  next
    case False
    then obtain now q where q: "listQuery options = Inr q"
      and vs: "vs = map (\<lambda>k. toView E k now)
         (page ak_id (sortBy (byCreation E) (filter (matchesQuery E SV q now) items)) (kq_after q) (kq_limit q))"
      using assms(2) run items by (auto simp: listApiKeys_def bindA_Inr_iff act_simps liftR_iff)
    have listed: "\<exists>k j. storedKeys C s j = Some k \<and> x = toView E k now \<and> ak_tenantId k = tenantId \<and> matchesQuery E SV q now k"
      if x: "x \<in> set vs" for x
    proof -
      obtain k where k: "x = toView E k now" "k \<in> set (page ak_id (sortBy (byCreation E)
          (filter (matchesQuery E SV q now) items)) (kq_after q) (kq_limit q))" using x vs by auto
      then have "k \<in> set items" "matchesQuery E SV q now k" using page_subset by fastforce+
      then show ?thesis using sound k(1) by blast
    qed
    have "length vs \<le> nat (kq_limit q)" by (simp add: vs page_length)
    moreover have "nat (kq_limit q) \<le> 500" using listQuery_limit [OF q] by (simp add: nat_le_iff)
    moreover have "\<exists>k j. storedKeys C s j = Some k \<and> x = toView E k now \<and> ak_tenantId k = tenantId \<and>
        (options \<noteq> JUndef \<longrightarrow> ak_applicationId k = Some applicationId)" if "x \<in> set vs" for x
      using listed [OF that] assms(2) by (auto simp: matchesQuery_def)
    moreover have "(case kq_status q of None \<Rightarrow> True | Some st \<Rightarrow> av_status x = st) \<and>
        (case kq_createdBy q of None \<Rightarrow> True | Some c \<Rightarrow> av_createdBy x = c)" if "x \<in> set vs" for x
      using listed [OF that] by (auto simp: matchesQuery_def toView_def split: option.splits)
    ultimately show ?thesis using q le_trans by (intro exI [of _ now] conjI impI ballI exI [of _ q]) blast+
  qed
next
  assume "getApiKey E SV tenantId i s = (t', Inr (Some v))"
  then obtain s1 k now where "ks_get (feltDbApiKeyStore E) i s = (s1, Inr (Some k))" "ak_tenantId k = tenantId" "v = toView E k now"
    using assms(2) by (auto simp: getApiKey_def bindA_Inr_iff act_simps split: option.splits if_splits)
  then show "\<exists>k now. storedKeys C s i = Some k \<and> v = toView E k now \<and> ak_tenantId k = tenantId"
    using api_key_store.get_sound [OF platform.key_store_laws [OF assms(1)]] by blast
qed

section \<open>Process-local hints\<close>

lemma mapDelete_first:
  assumes "distinct (map fst (e # m))"
  shows "mapDelete (fst e) (e # m) = m"
proof -
  have "fst e \<notin> fst ` set m" using assms by simp
  then have "filter (\<lambda>x. fst x \<noteq> fst e) m = m" by (intro filter_True) (metis image_eqI)
  then show ?thesis by (simp add: mapDelete_def)
qed

lemma evictOldest_drop: "distinct (map fst m) \<Longrightarrow> evictOldest mx m = drop (length m - mx) m"
proof (induction mx m rule: evictOldest.induct)
  case (1 mx m)
  show ?case
  proof (cases "mx < length m")
    case True
    then obtain e n where m: "m = e # n" by (cases m) auto
    have del: "mapDelete (fst e) (e # n) = n" using 1(2) mapDelete_first unfolding m by blast
    have "evictOldest mx m = evictOldest mx n" using True by (subst evictOldest.simps) (simp add: m del)
    also have "\<dots> = drop (length n - mx) n" using 1(1) [OF True m] 1(2) by (simp add: del m)
    finally show ?thesis using True by (simp add: m Suc_diff_le)
  qed (subst evictOldest.simps, simp)
qed

lemma fst_mapDelete: "map fst (mapDelete k m) = filter (\<lambda>x. x \<noteq> k) (map fst m)"
  by (induction m) (auto simp: mapDelete_def)

text \<open>
  C22: the prefix hints stay bounded and useful. Remembering a prefix keeps every key of the map
  once and at most 10000 entries, drops only the oldest ones, and the prefix just remembered is
  found under its key.
\<close>

lemma prefix_hints_bounded:
  assumes "distinct (map fst (knownPrefixes s))" and "rememberPrefix p i s = (t, Inr u)"
  shows "distinct (map fst (knownPrefixes t)) \<and> length (knownPrefixes t) \<le> 10000 \<and>
    map_of (knownPrefixes t) p = Some i \<and>
    (\<exists>older. mapDelete p (knownPrefixes s) @ [(p, i)] = older @ knownPrefixes t \<and>
       (older \<noteq> [] \<longrightarrow> length (knownPrefixes t) = 10000))"
proof -
  let ?m = "mapDelete p (knownPrefixes s)"
  have fresh: "p \<notin> fst ` set ?m" by (auto simp: mapDelete_def)
  have dist: "distinct (map fst (?m @ [(p, i)]))"
    using assms(1) fresh by (simp add: fst_mapDelete distinct_filter)
  have t: "knownPrefixes t = drop (length (?m @ [(p, i)]) - 10000) (?m @ [(p, i)])"
    using assms(2) fresh evictOldest_drop [OF dist, of 10000]
    by (auto simp: rememberPrefix_def mapSet_def MAX_CACHED_PREFIXES_def)
  have dt: "distinct (map fst (knownPrefixes t))" using dist unfolding t by (metis distinct_drop drop_map)
  have "(p, i) \<in> set (knownPrefixes t)" unfolding t by simp
  then have "map_of (knownPrefixes t) p = Some i" using dt by simp
  moreover have "?m @ [(p, i)] = take (length (?m @ [(p, i)]) - 10000) (?m @ [(p, i)]) @ knownPrefixes t"
    unfolding t by (rule append_take_drop_id [symmetric])
  moreover have "length (knownPrefixes t) \<le> 10000"
    "take (length (?m @ [(p, i)]) - 10000) (?m @ [(p, i)]) \<noteq> [] \<Longrightarrow> length (knownPrefixes t) = 10000"
    unfolding t length_drop by auto
  ultimately show ?thesis using dt by blast
qed

section \<open>Times as texts\<close>

text \<open>
  C21: for times in the years 0 to 9999 a rotation with an overlap retires the old key exactly at the
  earlier of the end of the overlap and its own expiry: it is active before that instant and
  expired from it on.
\<close>

lemma overlap_ends_in_time:
  assumes "commonYear x" and "commonYear e" and "overlap \<noteq> 0" and "ak_expiresAt k = Some (isoString x)"
    and "\<not> truthy (ak_revokedAt k)"
  shows "keyStatus E (retiredKey k i overlap at (validUntil k (isoString e)) by) now = (if now < min x e then KeyActive else KeyExpired)"
proof -
  have time: "timeValue x" "timeValue e" using assms(1,2) by (simp_all add: commonYear_timeValue)
  have nonempty: "isoString y \<noteq> []" for y by (simp add: isoString_nonempty)
  have "validUntil k (isoString e) = isoString (min x e)"
    using isoString_less_iff [OF assms(1,2)] assms(4) nonempty by (simp add: validUntil_def min_def)
  moreover have "timeValue (min x e)" using time by (simp add: min_def)
  ultimately show ?thesis
    using assms(3,5) nonempty by (auto simp: retiredKey_def Let_def keyStatus_def)
qed

end
