(* ===== verification/KeyExamples.thy ===== *)
theory KeyExamples
  imports Examples ApiKeyAccess ApiKeyPages
begin

text \<open>
  Runs of the API key service on the in-memory platform. Each one satisfies the hypotheses of a
  theorem about keys and applies the theorem there.
\<close>

section \<open>A stored key and its secret\<close>

definition demoService :: "mem key_service" where
  "demoService = feltDbKeyService memEnv False ''shop'' (demoGateway True) None"

definition demoSecret :: string where "demoSecret = ''app_live_0a1b2c_xyz''"

definition demoSalt :: string where "demoSalt = replicate 16 (CHR ''s'')"

definition demoHash :: string where
  "demoHash = ''scrypt$'' @ base64url demoSalt @ ''$'' @ base64url (e_scrypt memEnv (utf8 demoSecret) demoSalt 32)"

definition demoKey :: api_key where
  "demoKey =
     \<lparr>ak_id = ''k1'', ak_tenantId = ''acme'', ak_applicationId = Some ''shop'', ak_name = ''ci'',
      ak_keyPrefix = ''app_live_0a1b2c'', ak_secretHash = demoHash, ak_scopes = [], ak_restrictions = None,
      ak_createdAt = ''2023-11-14T22:13:20.000Z'', ak_expiresAt = None, ak_revokedAt = None, ak_revokedBy = None,
      ak_lastUsedAt = None, ak_updatedAt = None, ak_updatedBy = None, ak_rotatedFrom = None, ak_rotatedTo = None,
      ak_rotatedAt = None, ak_createdBy = ''alice'', ak_version = 1\<rparr>"

definition demoKeys :: "mem sys" where
  "demoKeys = demoSys\<lparr>outside := memPut API_KEYS_COLLECTION ''k1'' (KeyDoc demoKey)
     (memPut API_KEY_PREFIXES_COLLECTION ''app_live_0a1b2c'' (PrefixDoc \<lparr>kp_id = ''app_live_0a1b2c'',
        kp_apiKeyId = ''k1'', kp_tenantId = ''acme'', kp_createdAt = ''2023-11-14T22:13:20.000Z'', kp_version = 1\<rparr>)
     (outside demoSys))\<rparr>"

lemma demo_verified: "verifySecret memEnv demoSecret demoHash None = SecretMatches"
  by code_simp

lemma demo_parsed: "parseApiKeyPrefix demoSecret = Some ''app_live_0a1b2c''"
  by code_simp

lemma stored_demo: "storedKeys memView demoKeys = [''k1'' \<mapsto> demoKey]"
  by (auto simp: storedKeys_def demoKeys_def demoSys_def memView_def memPut_def API_KEYS_COLLECTION_def
      API_KEY_PREFIXES_COLLECTION_def fun_eq_iff)

lemma wf_demo: "wfKeys (storedKeys memView demoKeys)"
  by (simp add: stored_demo wfKeys_def demoKey_def)

lemma no_check: "pr_check p = None \<Longrightarrow> authenticCaller E SV (Verified p)"
  by (simp add: authenticCaller_def)

lemma demo_check: "pr_check demoPrincipal = None"
  by (simp add: demoPrincipal_def)

lemmas demo_gateway = demo.gateway_platform_axioms [of True]

section \<open>Witnesses\<close>

lemma verifier_roundtrip_witness:
  "\<exists>t h. hashSecret memEnv ''swordfish'' None demoSys = (t, Inr h) \<and> verifySecret memEnv ''swordfish'' h None = SecretMatches"
proof -
  obtain t h where run: "hashSecret memEnv ''swordfish'' None demoSys = (t, Inr h)"
    by (cases "e_randomBytes memEnv SALT_BYTES (outside demoSys)") (auto simp: hashSecret_def bindA_def draw_def act_simps)
  then show ?thesis using verifier_roundtrip [OF memory.platform_axioms run] by blast
qed

lemma demo_issue:
  "\<exists>t k secret. issue memEnv demoService \<lparr>ii_tenantId = ''acme'', ii_name = ''ci'', ii_restrictions = None,
     ii_expiresAt = None, ii_createdBy = ''alice'', ii_rotatedFrom = None\<rparr> demoSys = (t, Inr (k, secret))"
  by (simp add: issue_def hashSecret_def demo_defs run_simps memEnv_def memBytes_def Let_def)

lemma issued_secret_witness:
  "\<exists>k secret. parseApiKeyPrefix secret = Some (ak_keyPrefix (k :: api_key)) \<and>
     verifySecret memEnv secret (ak_secretHash k) None = SecretMatches"
proof -
  obtain t k secret where "issue memEnv demoService \<lparr>ii_tenantId = ''acme'', ii_name = ''ci'', ii_restrictions = None,
     ii_expiresAt = None, ii_createdBy = ''alice'', ii_rotatedFrom = None\<rparr> demoSys = (t, Inr (k, secret))"
    using demo_issue by blast
  moreover have "sv_verifierKey demoService = None" by (simp add: demoService_def)
  ultimately show ?thesis using issued_secret_recognized [OF memory.platform_axioms] by metis
qed

lemma lifecycle_witness:
  "wfKeys (storedKeys memView (runKeyOps memEnv demoService [RevokeKey ''k1'' [] (Verified demoPrincipal),
     AuthenticateKey (JStr demoSecret)] demoKeys))"
  using keys_follow_lifecycle [OF demo_gateway demoService_def _ wf_demo,
      of "[RevokeKey ''k1'' [] (Verified demoPrincipal), AuthenticateKey (JStr demoSecret)]"]
  by (simp add: no_check demo_check authenticCaller_def)

lemma identity_witness:
  "\<exists>k. storedKeys memView (runKeyOps memEnv demoService [RotateKey [(''id'', JStr ''k1'')] (Verified demoPrincipal)] demoKeys) ''k1''
     = Some k \<and> keyStays demoKey k"
  using keys_keep_identity [OF demo_gateway demoService_def _ wf_demo,
      of "[RotateKey [(''id'', JStr ''k1'')] (Verified demoPrincipal)]" "''k1''" demoKey]
  by (simp add: no_check demo_check stored_demo)

lemma pages_witness: "walkPages 4 id [''a'', ''b'', ''c''] 2 None = [''a'', ''b'', ''c'']"
  using pages_cover [of id "[''a'', ''b'', ''c'']" 2 4] by simp

lemma hints_witness:
  "\<exists>t. rememberPrefix ''app_live_0a1b2c'' ''k1'' demoSys = (t, Inr ()) \<and> map_of (knownPrefixes t) ''app_live_0a1b2c'' = Some ''k1''"
proof -
  obtain t where run: "rememberPrefix ''app_live_0a1b2c'' ''k1'' demoSys = (t, Inr ())"
    by (simp add: rememberPrefix_def)
  have "distinct (map fst (knownPrefixes demoSys))" by (simp add: demoSys_def)
  from prefix_hints_bounded [OF this run] run show ?thesis by blast
qed

lemma overlap_witness:
  "keyStatus memEnv (retiredKey (demoKey\<lparr>ak_expiresAt := Some (isoString 1700000060000)\<rparr>) ''k2'' 30 ''at''
     (validUntil (demoKey\<lparr>ak_expiresAt := Some (isoString 1700000060000)\<rparr>) (isoString 1700000000000)) ''alice'') 1700000000000 = KeyExpired"
proof -
  have "commonYear 1700000060000" "commonYear 1700000000000" by code_simp+
  then show ?thesis
    using overlap_ends_in_time [where k = "demoKey\<lparr>ak_expiresAt := Some (isoString 1700000060000)\<rparr>"
        and x = 1700000060000 and e = 1700000000000 and overlap = 30 and now = 1700000000000]
    by (simp del: demo_time demo_expiry) (simp add: demoKey_def)
qed

lemma demo_listed:
  "\<exists>t vs. listApiKeys memEnv demoService ''acme'' (JObj []) demoKeys = (t, Inr vs)"
  "\<exists>t v. getApiKey memEnv demoService ''acme'' ''k1'' demoKeys = (t, Inr (Some v))"
  by (auto simp: listApiKeys_def getApiKey_def demoService_def feltDbApiKeyStore_def storeList_def storeGet_def
      memEnv_def memColl_def run_simps listQuery_def anyObject_def statusQuery_def pageLimit_def optionalText_def
      propOf_def MAX_PAGE_SIZE_def Let_def bindR_def demoKeys_def demo_defs memView_def memPut_def asKey_def
      API_KEYS_COLLECTION_def API_KEY_PREFIXES_COLLECTION_def demoKey_def)

lemma listing_witness:
  "\<exists>t vs u v. listApiKeys memEnv demoService ''acme'' (JObj []) demoKeys = (t, Inr vs) \<and> length vs \<le> 500 \<and>
     getApiKey memEnv demoService ''acme'' ''k1'' demoKeys = (u, Inr (Some v)) \<and> av_tenantId v = ''acme''"
proof -
  obtain t vs u v where run: "listApiKeys memEnv demoService ''acme'' (JObj []) demoKeys = (t, Inr vs)"
    "getApiKey memEnv demoService ''acme'' ''k1'' demoKeys = (u, Inr (Some v))" using demo_listed by blast
  with listing_isolated [OF memory.platform_axioms demoService_def, of "''acme''" "JObj []" demoKeys t vs "''k1''" u v]
  show ?thesis by (auto simp: toView_def)
qed

end
