(* ===== verification/Operations.thy ===== *)
theory Operations
  imports Gateway
begin

text \<open>
  Frames of authorized operations. An operation of the gateway writes evidence rows and what its
  effect writes, so a relation that ignores the evidence and holds for the effect holds for the
  operation.
\<close>

definition onSys :: "('w sys \<Rightarrow> 'w sys \<Rightarrow> bool) \<Rightarrow> 'w sys \<times> tool_log \<Rightarrow> 'w sys \<times> tool_log \<Rightarrow> bool" where
  "onSys R \<sigma> \<tau> \<longleftrightarrow> R (fst \<sigma>) (fst \<tau>)"

lemma onSys_plain: "moves R m \<Longrightarrow> moves (onSys R) (plain m)"
  by (rule movesI) (auto simp: onSys_def plain_def split: prod.splits dest: movesD)

lemma onSys_weaken: "moves (onSys R) m \<Longrightarrow> (\<And>s t. R s t \<Longrightarrow> Q s t) \<Longrightarrow> moves (onSys Q) m"
  by (erule moves_weaken) (simp add: onSys_def)

text \<open>A caller whose credential check, if there is one, leaves the collections in \<open>N\<close> alone.\<close>

definition quietCaller :: "('w \<Rightarrow> contents) \<Rightarrow> string set \<Rightarrow> 'w caller \<Rightarrow> bool" where
  "quietCaller C N caller \<longleftrightarrow>
     (\<forall>p check cap r. caller = Verified p \<longrightarrow> pr_check p = Some check \<longrightarrow> moves (keeps C N) (check cap r))"

lemma quiet_unchecked [simp]: "pr_check p = None \<Longrightarrow> quietCaller C N (Verified p)"
  by (simp add: quietCaller_def)

lemma quiet_mint: "mintVerifiedPrincipal cl v = Inr p \<Longrightarrow> quietCaller C N (Verified p)"
  by (auto simp: mintVerifiedPrincipal_def bindR_Inr_iff)

text \<open>An operation depends on its effect only once it is authorized.\<close>

lemma execute_differs:
  assumes "execute E G cap caller r opts f s \<noteq> execute E G cap caller r opts g s"
  shows "\<exists>s1 requestId startedAt s2 ctx. executeStart E opts s = (s1, Inr (requestId, startedAt)) \<and>
    authorize E G cap caller r requestId s1 = (s2, Inr ctx)"
proof (rule ccontr)
  assume none: "\<not> ?thesis"
  obtain s1 q where start: "executeStart E opts s = (s1, q)" by (cases "executeStart E opts s")
  show False
  proof (cases q)
    case (Inl e)
    then show ?thesis using assms start by (simp add: execute_def bindA_fail)
  next
    case (Inr p)
    obtain requestId startedAt where p: "p = (requestId, startedAt)" by (cases p)
    obtain s2 a where auth: "authorize E G cap caller r requestId s1 = (s2, a)" by (cases "authorize E G cap caller r requestId s1")
    then obtain e where a: "a = Inl e" using none start Inr p by (cases a) auto
    let ?h = "(\<lambda>e. bindA (recordRefusal E G cap caller r opts requestId startedAt e) (\<lambda>_. raise e)
      :: ('a, 'a exec_context) service)"
    obtain t res where "?h e s2 = (t, res)" by (cases "?h e s2")
    then obtain e' where "?h e s2 = (t, Inl e')" by (cases res) (auto simp: bindA_Inr_iff act_simps)
    then have "catchA (authorize E G cap caller r requestId) ?h s1 = (t, Inl e')" using auth a by (simp add: catchA_def)
    then have "execute E G cap caller r opts f s = (t, Inl e')" "execute E G cap caller r opts g s = (t, Inl e')"
      using start Inr p by (simp_all add: execute_def bindA_step bindA_fail)
    then show ?thesis using assms by simp
  qed
qed

context gateway_platform
begin

lemma keeps_quiet_authorize:
  assumes "quietCaller C N caller"
  shows "moves (keeps C N) (authorize E G cap caller r requestId)"
proof (rule keeps_authorize)
  fix p cap r
  assume "caller = Verified p"
  then show "moves (keeps C N) (enforceCredential p cap r)"
    using assms by (auto simp: quietCaller_def enforceCredential_def intro: keeps.frame_rules split: option.splits)
qed

text \<open>
  An operation that returns ran its effect, from a state in which everything but the evidence (and
  what its caller's credential check wrote) is as before the operation.
\<close>

lemma execute_effect:
  assumes "quietCaller C N caller" and "EVIDENCE_COLLECTION \<notin> N" and "execute E G cap caller r opts effect s = (t, Inr x)"
  obtains requestId s1 s2 ctx s3 u log where "keeps C N s s1" "authorize E G cap caller r requestId s1 = (s2, Inr ctx)"
    "keeps C N s2 s3" "keeps C N s s3"
    "effect ctx (s3, \<lparr>tl_refs = [], tl_stored = None\<rparr>) = ((u, log), Inr x)" "keeps C N u t"
proof -
  from assms(3) obtain requestId startedAt s1 s2 ctx where
    start: "executeStart E opts s = (s1, Inr (requestId, startedAt))"
    and auth: "authorize E G cap caller r requestId s1 = (s2, Inr ctx)"
    and run: "runEffect E (Issued ctx) opts effect (Some startedAt) s2 = (t, Inr x)"
    by (auto simp: execute_def bindA_Inr_iff catchA_Inr_iff act_simps)
  have first: "keeps C N s s1" "keeps C N s1 s2"
    using movesD [OF keeps_executeStart start] movesD [OF keeps_quiet_authorize [OF assms(1)] auth] .
  from run show thesis
  proof (rule runEffect_Issued)
    fix u1 now i u2 s3
    assume steps: "draw (e_now E) s2 = (u1, Inr now)" "draw (e_uuid E) u1 = (u2, Inr i)"
        "evidenceRecord E (evidenceFor ctx opts i startedAt Started) u2 = (s3, Inr ())"
      and perf: "performEffect E opts i (effect ctx) s3 = (t, Inr x)"
    have before: "keeps C N s2 s3"
      using movesD [OF keeps_now steps(1)] movesD [OF keeps_uuid steps(2)] movesD [OF keeps_evidenceRecord [OF assms(2)] steps(3)]
      by (metis keeps.R_trans)
    from perf obtain u log at u' where eff: "effect ctx (s3, \<lparr>tl_refs = [], tl_stored = None\<rparr>) = ((u, log), Inr x)"
      and after: "nowISO E u = (u', Inr at)" "evidenceComplete E i (succeededWith opts log at) u' = (t, Inr ())"
      by (rule performEffect_Inr)
    have "keeps C N u t"
      using movesD [OF keeps_nowISO after(1)] movesD [OF keeps_evidenceComplete [OF assms(2)] after(2)] by (metis keeps.R_trans)
    then show thesis using that first auth before eff by (metis keeps.R_trans)
  qed
qed

end

locale operation_frame = gateway_platform E C G + frame R
  for E :: "'w env" and C :: "'w \<Rightarrow> contents" and G :: "'w gateway" and R :: "'w sys \<Rightarrow> 'w sys \<Rightarrow> bool" +
  fixes N :: "string set"
  assumes unaffected: "keeps C N s t \<Longrightarrow> R s t" and no_evidence: "EVIDENCE_COLLECTION \<notin> N"
begin

lemma kept: "moves (keeps C N) m \<Longrightarrow> moves R m"
  by (erule moves_weaken) (rule unaffected)

lemma performEffect_moves:
  assumes "moves (onSys R) m"
  shows "moves R (performEffect E opts i m)"
proof (rule movesI)
  fix s t r
  assume run: "performEffect E opts i m s = (t, r)"
  obtain u log q where m: "m (s, \<lparr>tl_refs = [], tl_stored = None\<rparr>) = ((u, log), q)"
    by (metis surj_pair)
  have "completeEffect E opts i log q u = (t, r)" using run by (simp add: performEffect_def m)
  then have "R u t" using movesD [OF kept [OF keeps_completeEffect [OF no_evidence]]] by blast
  moreover have "R s u" using movesD [OF assms m] by (simp add: onSys_def)
  ultimately show "R s t" by (metis R_trans)
qed

lemma runEffect_moves:
  assumes "\<And>ctx. moves (onSys R) (effect ctx)"
  shows "moves R (runEffect E v opts effect at)"
  unfolding runEffect_def
  by (intro frame_rules performEffect_moves assms kept [OF keeps_nowISO] kept [OF keeps_now] kept [OF keeps_uuid]
      kept [OF keeps_evidenceRecord [OF no_evidence]])

lemma execute_moves:
  assumes "quietCaller C N caller" and "\<And>ctx. moves (onSys R) (effect ctx)"
  shows "moves R (execute E G cap caller r opts effect)"
  unfolding execute_def case_prod_beta
  by (intro frame_rules runEffect_moves assms kept [OF keeps_executeStart] kept [OF keeps_quiet_authorize]
      kept [OF keeps_recordRefusal [OF no_evidence]])

end

end
