(* ===== verification/JobStore.thy ===== *)
theory JobStore
  imports ApiKeyStore
begin

text \<open>
  Storage of jobs and schedules (\<open>jobs/store.ts\<close>): the interfaces as records of operations, the
  classes that implement them on the database, and the contract of the job store as a locale.
\<close>

section \<open>The interfaces\<close>

record 'w job_store =
  jt_create :: "job \<Rightarrow> ('w, unit) service"
  jt_get :: "string \<Rightarrow> string \<Rightarrow> ('w, job option) service"
  jt_list :: "string \<Rightarrow> ('w, job list) service"
  jt_listByStatus :: "string \<Rightarrow> job_status \<Rightarrow> ('w, job list) service"
  jt_listDue :: "string \<Rightarrow> string \<Rightarrow> ('w, job list) service"
  jt_claim :: "string \<Rightarrow> string \<Rightarrow> int \<Rightarrow> string \<Rightarrow> ('w, job option) service"
  jt_updateJob :: "string \<Rightarrow> string \<Rightarrow> int \<Rightarrow> (job \<Rightarrow> job) \<Rightarrow> ('w, job option) service"

record 'w schedule_store =
  st_create :: "job_schedule \<Rightarrow> ('w, unit) service"
  st_get :: "string \<Rightarrow> string \<Rightarrow> ('w, job_schedule option) service"
  st_list :: "string \<Rightarrow> ('w, job_schedule list) service"
  st_listDue :: "string \<Rightarrow> string \<Rightarrow> ('w, job_schedule list) service"
  st_updateSchedule :: "string \<Rightarrow> string \<Rightarrow> int \<Rightarrow> (job_schedule \<Rightarrow> job_schedule) \<Rightarrow> ('w, job_schedule option) service"
  st_disable :: "string \<Rightarrow> string \<Rightarrow> int \<Rightarrow> ('w, job_schedule option) service"

record 'w job_sink =
  jk_record :: "job_event \<Rightarrow> ('w, unit) service"

section \<open>The job store\<close>

definition JOBS_COLLECTION :: string where "JOBS_COLLECTION = ''jobs''"
definition JOB_SCHEDULES_COLLECTION :: string where "JOB_SCHEDULES_COLLECTION = ''job_schedules''"
definition JOB_AUDIT_COLLECTION :: string where "JOB_AUDIT_COLLECTION = ''job_audit_events''"

definition jobCreate :: "'w env \<Rightarrow> job \<Rightarrow> ('w, unit) service" where
  "jobCreate E k =
     ext (e_transaction E [\<lparr>op_collection = JOBS_COLLECTION, op_id = jb_id k, op_requireAbsent = True,
       op_requirePresent = False, op_expectedVersion = None, op_value = JobDoc k\<rparr>])"

definition jobGet :: "'w env \<Rightarrow> string \<Rightarrow> string \<Rightarrow> ('w, job option) service" where
  "jobGet E tenantId i =
     bindA (ext (c_get (e_jobs E) i)) (\<lambda>found.
     case found of None \<Rightarrow> ret None | Some k \<Rightarrow> ret (if jb_tenantId k \<noteq> tenantId then None else Some k))"

definition jobList :: "'w env \<Rightarrow> string \<Rightarrow> ('w, job list) service" where
  "jobList E tenantId = ext (c_find (e_jobs E) (\<lambda>k. jb_tenantId k = tenantId))"

definition jobListByStatus :: "'w env \<Rightarrow> string \<Rightarrow> job_status \<Rightarrow> ('w, job list) service" where
  "jobListByStatus E tenantId status =
     ext (c_find (e_jobs E) (\<lambda>k. jb_tenantId k = tenantId \<and> jb_status k = status))"

text \<open>Texts are compared by \<open><=\<close>, a missing or empty time is never reached.\<close>

definition reached :: "string option \<Rightarrow> string \<Rightarrow> bool" where
  "reached at now \<longleftrightarrow> truthy at \<and> strLeq (the at) now"

definition isDue :: "string \<Rightarrow> job \<Rightarrow> bool" where
  "isDue now k \<longleftrightarrow>
     (jb_status k = JobPending \<or> jb_status k = JobScheduled) \<and> strLeq (jb_runAt k) now \<or>
     jb_status k = JobRetrying \<and> reached (jb_nextAttemptAt k) now"

definition isStale :: "string \<Rightarrow> job \<Rightarrow> bool" where
  "isStale now k \<longleftrightarrow> jb_status k = JobRunning \<and> reached (jb_leaseExpiresAt k) now"

definition jobListDue :: "'w env \<Rightarrow> string \<Rightarrow> string \<Rightarrow> ('w, job list) service" where
  "jobListDue E tenantId now =
     bindA (ext (c_find (e_jobs E) (\<lambda>k. jb_tenantId k = tenantId))) (\<lambda>all.
     ret (filter (\<lambda>k. isDue now k \<or> isStale now k) all))"

text \<open>
  The write of a conditional update comes first; an item of another tenant is then reported as
  null although it was written.
\<close>

definition jobUpdate :: "'w env \<Rightarrow> string \<Rightarrow> string \<Rightarrow> int \<Rightarrow> (job \<Rightarrow> job) \<Rightarrow> ('w, job option) service" where
  "jobUpdate E tenantId i expectedVersion updates =
     bindA (casItem (c_updateIfVersion (e_jobs E) i expectedVersion updates)) (\<lambda>item.
     ret (case item of None \<Rightarrow> None | Some k \<Rightarrow> if jb_tenantId k \<noteq> tenantId then None else Some k))"

definition claimUpdate :: "string \<Rightarrow> string \<Rightarrow> job \<Rightarrow> job" where
  "claimUpdate leaseExpiresAt now k =
     k\<lparr>jb_status := JobRunning, jb_leaseExpiresAt := Some leaseExpiresAt, jb_startedAt := Some now\<rparr>"

definition jobClaim :: "'w env \<Rightarrow> string \<Rightarrow> string \<Rightarrow> int \<Rightarrow> string \<Rightarrow> ('w, job option) service" where
  "jobClaim E tenantId i expectedVersion leaseExpiresAt =
     bindA (draw (e_date E)) (\<lambda>t.
     bindA (liftR (toISOString t)) (\<lambda>now.
     bindA (casItem (c_updateIfVersion (e_jobs E) i expectedVersion (claimUpdate leaseExpiresAt now))) (\<lambda>item.
     ret (case item of None \<Rightarrow> None | Some k \<Rightarrow> if jb_tenantId k \<noteq> tenantId then None else Some k))))"

definition feltDbJobStore :: "'w env \<Rightarrow> 'w job_store" where
  "feltDbJobStore E =
     \<lparr>jt_create = jobCreate E, jt_get = jobGet E, jt_list = jobList E, jt_listByStatus = jobListByStatus E,
      jt_listDue = jobListDue E, jt_claim = jobClaim E, jt_updateJob = jobUpdate E\<rparr>"

section \<open>The schedule store\<close>

definition scheduleCreate :: "'w env \<Rightarrow> job_schedule \<Rightarrow> ('w, unit) service" where
  "scheduleCreate E sc =
     ext (e_transaction E [\<lparr>op_collection = JOB_SCHEDULES_COLLECTION, op_id = sc_id sc, op_requireAbsent = True,
       op_requirePresent = False, op_expectedVersion = None, op_value = ScheduleDoc sc\<rparr>])"

definition scheduleGet :: "'w env \<Rightarrow> string \<Rightarrow> string \<Rightarrow> ('w, job_schedule option) service" where
  "scheduleGet E tenantId i =
     bindA (ext (c_get (e_schedules E) i)) (\<lambda>found.
     case found of None \<Rightarrow> ret None | Some sc \<Rightarrow> ret (if sc_tenantId sc \<noteq> tenantId then None else Some sc))"

definition scheduleList :: "'w env \<Rightarrow> string \<Rightarrow> ('w, job_schedule list) service" where
  "scheduleList E tenantId = ext (c_find (e_schedules E) (\<lambda>sc. sc_tenantId sc = tenantId))"

definition scheduleListDue :: "'w env \<Rightarrow> string \<Rightarrow> string \<Rightarrow> ('w, job_schedule list) service" where
  "scheduleListDue E tenantId now =
     bindA (ext (c_find (e_schedules E) (\<lambda>sc. sc_tenantId sc = tenantId \<and> sc_enabled sc))) (\<lambda>all.
     ret (filter (\<lambda>sc. strLeq (sc_nextRunAt sc) now) all))"

definition scheduleUpdate ::
  "'w env \<Rightarrow> string \<Rightarrow> string \<Rightarrow> int \<Rightarrow> (job_schedule \<Rightarrow> job_schedule) \<Rightarrow> ('w, job_schedule option) service" where
  "scheduleUpdate E tenantId i expectedVersion updates =
     bindA (casItem (c_updateIfVersion (e_schedules E) i expectedVersion updates)) (\<lambda>item.
     ret (case item of None \<Rightarrow> None | Some sc \<Rightarrow> if sc_tenantId sc \<noteq> tenantId then None else Some sc))"

definition scheduleDisable :: "'w env \<Rightarrow> string \<Rightarrow> string \<Rightarrow> int \<Rightarrow> ('w, job_schedule option) service" where
  "scheduleDisable E tenantId i expectedVersion =
     scheduleUpdate E tenantId i expectedVersion (\<lambda>sc. sc\<lparr>sc_enabled := False\<rparr>)"

definition feltDbJobScheduleStore :: "'w env \<Rightarrow> 'w schedule_store" where
  "feltDbJobScheduleStore E =
     \<lparr>st_create = scheduleCreate E, st_get = scheduleGet E, st_list = scheduleList E,
      st_listDue = scheduleListDue E, st_updateSchedule = scheduleUpdate E, st_disable = scheduleDisable E\<rparr>"

definition feltDbJobAuditSink :: "'w env \<Rightarrow> 'w job_sink" where
  "feltDbJobAuditSink E = \<lparr>jk_record = (\<lambda>ev. ext (c_insert (e_jobEvents E) ev (je_id ev)))\<rparr>"

section \<open>The contract of the job store\<close>

text \<open>The stored jobs as an observer \<open>J\<close> of the state shows them.\<close>

type_synonym jobs = "string \<Rightarrow> job option"

definition casJob :: "jobs \<Rightarrow> jobs \<Rightarrow> string \<Rightarrow> int \<Rightarrow> (job \<Rightarrow> job) \<Rightarrow> bool" where
  "casJob before new i v f \<longleftrightarrow>
     (\<exists>k n. before i = Some k \<and> jb_version k = v \<and> v < n \<and> new = before(i \<mapsto> (f k)\<lparr>jb_version := n\<rparr>))"

text \<open>
  A conditional write either happened or it did not; when it returns a job the write happened
  and the job is the one now stored, of the tenant asked for; when it returns and the version was
  the stored one, the write happened.
\<close>

definition fencedJob :: "jobs \<Rightarrow> jobs \<Rightarrow> string \<Rightarrow> string \<Rightarrow> int \<Rightarrow> (job \<Rightarrow> job) \<Rightarrow> exn + job option \<Rightarrow> bool" where
  "fencedJob before new tenantId i v f r \<longleftrightarrow>
     (new = before \<or> casJob before new i v f) \<and>
     (\<forall>k. r = Inr (Some k) \<longrightarrow> casJob before new i v f \<and> new i = Some k \<and> jb_tenantId k = tenantId) \<and>
     (\<forall>q k. r = Inr q \<longrightarrow> before i = Some k \<longrightarrow> jb_version k = v \<longrightarrow> casJob before new i v f)"

locale job_store =
  fixes S :: "'w job_store" and J :: "'w sys \<Rightarrow> jobs"
  assumes get_kept: "jt_get S tenantId i s = (t, r) \<Longrightarrow> J t = J s"
    and get_sound: "jt_get S tenantId i s = (t, Inr (Some k)) \<Longrightarrow> J s i = Some k \<and> jb_tenantId k = tenantId"
    and list_kept: "jt_list S tenantId s = (t, q) \<Longrightarrow> J t = J s"
    and due_kept: "jt_listDue S tenantId now s = (t, q) \<Longrightarrow> J t = J s"
    and due_sound: "jt_listDue S tenantId now s = (t, Inr ks) \<Longrightarrow> k \<in> set ks \<Longrightarrow>
          jb_tenantId k = tenantId \<and> (isDue now k \<or> isStale now k) \<and> (\<exists>i. J s i = Some k)"
    and claim_law: "jt_claim S tenantId i v lease s = (t, r) \<Longrightarrow> \<exists>at. fencedJob (J s) (J t) tenantId i v (claimUpdate lease at) r"
    and update_law: "jt_updateJob S tenantId i v f s = (t, r) \<Longrightarrow> fencedJob (J s) (J t) tenantId i v f r"
    and create_ok: "jt_create S k s = (t, Inr u) \<Longrightarrow> J s (jb_id k) = None \<and> J t = (J s)(jb_id k \<mapsto> k)"
    and create_rejected: "jt_create S k s = (t, Inl e) \<Longrightarrow> J t = J s \<or> J s (jb_id k) = None \<and> J t = (J s)(jb_id k \<mapsto> k)"

definition storedJobs :: "('w \<Rightarrow> contents) \<Rightarrow> 'w sys \<Rightarrow> jobs" where
  "storedJobs C s i = (case C (outside s) JOBS_COLLECTION i of Some (JobDoc k) \<Rightarrow> Some k | _ \<Rightarrow> None)"

lemma storedJobs_Some: "storedJobs C s i = Some k \<longleftrightarrow> C (outside s) JOBS_COLLECTION i = Some (JobDoc k)"
  by (auto simp: storedJobs_def split: option.splits doc.splits)

lemma storedJobs_cong: "C (outside t) JOBS_COLLECTION = C (outside s) JOBS_COLLECTION \<Longrightarrow> storedJobs C t = storedJobs C s"
  by (simp add: storedJobs_def fun_eq_iff)

lemma storedJobs_put:
  "C (outside t) = putDoc (C (outside s)) JOBS_COLLECTION i (JobDoc k) \<Longrightarrow> storedJobs C t = (storedJobs C s)(i \<mapsto> k)"
  by (auto simp: storedJobs_def fun_eq_iff)

context versioned_collection
begin

text \<open>A conditional write happened or it did not, and an item is what it stored.\<close>

lemma casItem_cases:
  assumes "casItem (c_updateIfVersion c i v f) s = (t, r)"
  obtains (kept) "C (outside t) = C (outside s)" "\<And>y. r \<noteq> Inr (Some y)"
        "\<And>q x. r = Inr q \<Longrightarrow> C (outside s) name i = Some (emb x) \<Longrightarrow> ver x \<noteq> v"
    | (written) x n where "C (outside s) name i = Some (emb x)" "ver x = v" "v < n"
        "C (outside t) = putDoc (C (outside s)) name i (emb (setv n (f x)))" "\<And>y. r = Inr (Some y) \<Longrightarrow> y = setv n (f x)"
proof -
  obtain w q where run: "c_updateIfVersion c i v f (outside s) = (w, q)" and t: "t = s\<lparr>outside := w\<rparr>"
    and r: "r = (case q of Inl e \<Rightarrow> Inl e | Inr (b, x) \<Rightarrow> Inr (if b then x else None))"
    using assms by (auto simp: casItem_def bindA_def ext_def act_simps split: prod.splits sum.splits)
  show thesis
  proof (cases q)
    case (Inl e)
    then show thesis using cas_rejected [of i v f "outside s" w e] run kept written r t by auto
  next
    case (Inr p)
    obtain b x where p: "p = (b, x)" by (cases p)
    show thesis
    proof (cases b)
      case True
      then show thesis using cas_ok [of i v f "outside s" w x] run written r t Inr p by auto
    next
      case False
      then show thesis using cas_stale [of i v f "outside s" w x] run kept r t Inr p by auto
    qed
  qed
qed

end

context platform
begin

text \<open>A conditional write of a job, with the tenant check of its item.\<close>

lemma jobs_cas:
  assumes "bindA (casItem (c_updateIfVersion (e_jobs E) i v f)) (\<lambda>item.
     ret (case item of None \<Rightarrow> None | Some k \<Rightarrow> if jb_tenantId k \<noteq> tenantId then None else Some k)) s = (t, r)"
  shows "fencedJob (storedJobs C s) (storedJobs C t) tenantId i v f r"
proof -
  obtain q where run: "casItem (c_updateIfVersion (e_jobs E) i v f) s = (t, q)"
    and r: "r = (case q of Inl e \<Rightarrow> Inl e | Inr None \<Rightarrow> Inr None
        | Inr (Some k) \<Rightarrow> Inr (if jb_tenantId k \<noteq> tenantId then None else Some k))"
    using assms by (auto simp: bindA_def act_simps split: prod.splits sum.splits option.splits)
  from run show ?thesis
  proof (cases rule: jobs.casItem_cases)
    case kept
    then have "storedJobs C t = storedJobs C s" by (intro storedJobs_cong) simp
    moreover have "jb_version k \<noteq> v" if "q = Inr x" "storedJobs C s i = Some k" for x k
      using kept(3) [OF that(1)] that(2) by (simp add: storedJobs_Some JOBS_COLLECTION_def)
    ultimately show ?thesis using kept r by (auto simp: fencedJob_def split: sum.splits option.splits if_splits)
  next
    case (written x n)
    then have "storedJobs C t = (storedJobs C s)(i \<mapsto> f x\<lparr>jb_version := n\<rparr>)"
      by (intro storedJobs_put) (simp add: JOBS_COLLECTION_def)
    moreover have "storedJobs C s i = Some x" using written(1) by (simp add: storedJobs_Some JOBS_COLLECTION_def)
    ultimately show ?thesis using written r
      by (auto simp: fencedJob_def casJob_def split: sum.splits option.splits if_splits)
  qed
qed

lemma jobs_get:
  assumes "jobGet E tenantId i s = (t, r)"
  shows "storedJobs C t = storedJobs C s" and "r = Inr (Some k) \<Longrightarrow> storedJobs C s i = Some k \<and> jb_tenantId k = tenantId"
proof -
  obtain q where run: "ext (c_get (e_jobs E) i) s = (t, q)"
    and r: "r = (case q of Inl e \<Rightarrow> Inl e | Inr None \<Rightarrow> Inr None
        | Inr (Some k) \<Rightarrow> Inr (if jb_tenantId k \<noteq> tenantId then None else Some k))"
    using assms by (auto simp: jobGet_def bindA_def act_simps split: prod.splits sum.splits option.splits)
  obtain w where w: "c_get (e_jobs E) i (outside s) = (w, q)" "t = s\<lparr>outside := w\<rparr>"
    using run by (auto simp: ext_eq_iff)
  show "storedJobs C t = storedJobs C s"
    using jobs.get_view [OF w(1)] w(2) by (intro storedJobs_cong) simp
  show "r = Inr (Some k) \<Longrightarrow> storedJobs C s i = Some k \<and> jb_tenantId k = tenantId"
    using w(1) r jobs.get_sound [of i "outside s" w]
    by (auto simp: storedJobs_Some JOBS_COLLECTION_def split: sum.splits option.splits if_splits)
qed

end

sublocale platform \<subseteq> jobStore: job_store "feltDbJobStore E" "storedJobs C"
proof
  fix tenantId i s t r k
  show "jt_get (feltDbJobStore E) tenantId i s = (t, r) \<Longrightarrow> storedJobs C t = storedJobs C s"
    and "jt_get (feltDbJobStore E) tenantId i s = (t, Inr (Some k)) \<Longrightarrow> storedJobs C s i = Some k \<and> jb_tenantId k = tenantId"
    by (auto simp: feltDbJobStore_def dest: jobs_get)
next
  fix tenantId s t q
  show "jt_list (feltDbJobStore E) tenantId s = (t, q) \<Longrightarrow> storedJobs C t = storedJobs C s"
    using keepsD [OF jobs.keeps_find, of _ s t q JOBS_COLLECTION UNIV]
    by (intro storedJobs_cong) (simp add: feltDbJobStore_def jobList_def)
next
  fix tenantId now s t q ks k
  have "moves (keeps C UNIV) (jobListDue E tenantId now)"
    unfolding jobListDue_def by (intro keeps.frame_rules jobs.keeps_find)
  then show "jt_listDue (feltDbJobStore E) tenantId now s = (t, q) \<Longrightarrow> storedJobs C t = storedJobs C s"
    using keepsD [of C UNIV _ s t q JOBS_COLLECTION] by (intro storedJobs_cong) (simp add: feltDbJobStore_def)
  show "jt_listDue (feltDbJobStore E) tenantId now s = (t, Inr ks) \<Longrightarrow> k \<in> set ks \<Longrightarrow>
      jb_tenantId k = tenantId \<and> (isDue now k \<or> isStale now k) \<and> (\<exists>i. storedJobs C s i = Some k)"
    by (auto simp: feltDbJobStore_def jobListDue_def bindA_Inr_iff act_simps ext_eq_iff storedJobs_Some JOBS_COLLECTION_def
        dest!: jobs.find_sound)
next
  fix tenantId i v lease s t r
  assume "jt_claim (feltDbJobStore E) tenantId i v lease s = (t, r)"
  then have run: "jobClaim E tenantId i v lease s = (t, r)" by (simp add: feltDbJobStore_def)
  obtain w u where clock: "e_date E (outside s) = (w, u)" by (cases "e_date E (outside s)")
  have step: "bindA (draw (e_date E)) m s = m u (s\<lparr>outside := w\<rparr>)" for m :: "int \<Rightarrow> ('w, job option) service"
    using clock by (simp add: bindA_def draw_def)
  have same: "storedJobs C (s\<lparr>outside := w\<rparr>) = storedJobs C s"
    using date_view [OF clock] by (intro storedJobs_cong) simp
  show "\<exists>at. fencedJob (storedJobs C s) (storedJobs C t) tenantId i v (claimUpdate lease at) r"
  proof (cases "timeValue u")
    case True
    then show ?thesis
      using run jobs_cas [of i v "claimUpdate lease (isoString u)" tenantId "s\<lparr>outside := w\<rparr>" t r] same
      by (auto simp: jobClaim_def step toISOString_def)
  next
    case False
    then show ?thesis
      using run same by (auto simp: jobClaim_def step toISOString_def act_simps fencedJob_def)
  qed
next
  fix tenantId i v f s t r
  show "jt_updateJob (feltDbJobStore E) tenantId i v f s = (t, r) \<Longrightarrow>
      fencedJob (storedJobs C s) (storedJobs C t) tenantId i v f r"
    by (rule jobs_cas) (simp add: feltDbJobStore_def jobUpdate_def)
next
  fix k s t u e
  let ?ps = "[\<lparr>op_collection = JOBS_COLLECTION, op_id = jb_id k, op_requireAbsent = True,
       op_requirePresent = False, op_expectedVersion = None, op_value = JobDoc k\<rparr>]"
  have run: "jt_create (feltDbJobStore E) k = ext (e_transaction E ?ps)"
    by (simp add: feltDbJobStore_def jobCreate_def)
  have put: "storedJobs C s (jb_id k) = None \<and> storedJobs C t = (storedJobs C s)(jb_id k \<mapsto> k)"
    if "\<forall>p\<in>set ?ps. opHolds (C (outside s)) p" "C (outside t) = applyOps (C (outside s)) ?ps"
    using that by (auto simp: opHolds_def applyOps_def storedJobs_def fun_eq_iff)
  show "jt_create (feltDbJobStore E) k s = (t, Inr u) \<Longrightarrow>
      storedJobs C s (jb_id k) = None \<and> storedJobs C t = (storedJobs C s)(jb_id k \<mapsto> k)"
    unfolding run by (erule transaction_cases) (use put in auto)
  show "jt_create (feltDbJobStore E) k s = (t, Inl e) \<Longrightarrow> storedJobs C t = storedJobs C s \<or>
      storedJobs C s (jb_id k) = None \<and> storedJobs C t = (storedJobs C s)(jb_id k \<mapsto> k)"
    unfolding run by (erule transaction_cases) (use put in \<open>auto intro!: storedJobs_cong\<close>)
qed

end
