(* ===== verification/Jobs.thy ===== *)
theory Jobs
  imports JobStore
begin

text \<open>
  The job service (\<open>jobs/service.ts\<close>) and the schedule service in front of it (\<open>schedules/service.ts\<close>), operation by operation.
\<close>

section \<open>The service\<close>

definition DEFAULT_MAX_ATTEMPTS :: int where "DEFAULT_MAX_ATTEMPTS = 5"
definition INITIAL_RETRY_DELAY_MS :: int where "INITIAL_RETRY_DELAY_MS = 1000"
definition LEASE_DURATION_MS :: int where "LEASE_DURATION_MS = 30000"
definition SYSTEM_JOB_TYPE_PREFIX :: string where "SYSTEM_JOB_TYPE_PREFIX = ''appport.''"

text \<open>What a running job may act as. Every effect it causes is authorized again.\<close>

record 'w job_execution =
  jx_principal :: "'w principal"
  jx_context :: "'w exec_context"
  jx_runId :: string

text \<open>A handler is host code. Under authority it is the effect of an authorized operation.\<close>

type_synonym 'w job_handler = "job \<Rightarrow> 'w job_execution option \<Rightarrow> ('w, unit) effect"

record 'w job_service =
  js_jobStore :: "'w job_store"
  js_scheduleStore :: "'w schedule_store"
  js_auditSink :: "'w job_sink"
  js_maxRetryAttempts :: int
  js_leaseDurationMs :: int
  js_allowedTypes :: "string list option"
  js_authority :: "'w gateway option"
  js_handlers :: "(string \<times> 'w job_handler) list"

definition newJobService ::
  "'w job_store \<Rightarrow> 'w schedule_store \<Rightarrow> 'w job_sink \<Rightarrow> int option \<Rightarrow> int option \<Rightarrow> string list \<Rightarrow> 'w gateway option \<Rightarrow>
   'w job_service" where
  "newJobService jobStore scheduleStore auditSink maxRetryAttempts leaseDurationMs allowedTypes authority =
     \<lparr>js_jobStore = jobStore, js_scheduleStore = scheduleStore, js_auditSink = auditSink,
      js_maxRetryAttempts = (case maxRetryAttempts of Some n \<Rightarrow> n | None \<Rightarrow> DEFAULT_MAX_ATTEMPTS),
      js_leaseDurationMs = (case leaseDurationMs of Some n \<Rightarrow> n | None \<Rightarrow> LEASE_DURATION_MS),
      js_allowedTypes = (if allowedTypes = [] then None else Some allowedTypes),
      js_authority = authority, js_handlers = []\<rparr>"

text \<open>
  The two inputs. \<open>other\<close> holds properties the type does not declare; the actor checks look at
  them.
\<close>

record job_input =
  ji_tenantId :: "string option"
  ji_type :: string
  ji_payload :: jsval
  ji_runAt :: "string option"
  ji_maxAttempts :: "int option"
  ji_delegationId :: "string option"
  ji_other :: jsobj

record schedule_input =
  si_tenantId :: "string option"
  si_type :: string
  si_payload :: jsval
  si_interval :: string
  si_delegationId :: "string option"
  si_createdBy :: "string option"
  si_other :: jsobj

definition optionalProp :: "string \<Rightarrow> string option \<Rightarrow> jsobj" where
  "optionalProp field v = (case v of None \<Rightarrow> [] | Some x \<Rightarrow> [(field, JStr x)])"

definition assertApplicationJobType :: "string \<Rightarrow> exn + unit" where
  "assertApplicationJobType type =
     (if startsWith type SYSTEM_JOB_TYPE_PREFIX
      then Inl (PlainError (''Job type \"'' @ type @ ''\" is reserved for AppPort Services'')) else Inr ())"

definition assertAllowedType :: "'w job_service \<Rightarrow> string \<Rightarrow> bool \<Rightarrow> exn + unit" where
  "assertAllowedType SV type authorityMode = (case js_allowedTypes SV of
      None \<Rightarrow> Inr ()
    | Some allowed \<Rightarrow>
        if type \<in> set allowed then Inr ()
        else if authorityMode then Inl (invalidRequest (''Job type \"'' @ type @ ''\" is not declared in appport.toml''))
        else Inl (PlainError (''Job type \"'' @ type @ ''\" is not declared in appport.toml'')))"

definition jobGateway :: "'w job_service \<Rightarrow> exn + 'w gateway" where
  "jobGateway SV = (case js_authority SV of
      None \<Rightarrow> Inl (ServiceAuthorityError AUTHORITY_UNAVAILABLE ''Jobs have no AuthBoundry authority configured'' noDetails)
    | Some G \<Rightarrow> Inr G)"

text \<open>The handlers are a map by type; a later registration replaces an earlier one.\<close>

definition setHandler :: "'w job_service \<Rightarrow> string \<Rightarrow> 'w job_handler \<Rightarrow> 'w job_service" where
  "setHandler SV type h = SV\<lparr>js_handlers := (type, h) # filter (\<lambda>e. fst e \<noteq> type) (js_handlers SV)\<rparr>"

definition register :: "'w job_service \<Rightarrow> string \<Rightarrow> 'w job_handler \<Rightarrow> exn + 'w job_service" where
  "register SV type h =
     bindR (assertApplicationJobType type) (\<lambda>_.
     bindR (assertAllowedType SV type False) (\<lambda>_.
     Inr (setHandler SV type h)))"

definition registerSystem :: "'w job_service \<Rightarrow> string \<Rightarrow> 'w job_handler \<Rightarrow> exn + 'w job_service" where
  "registerSystem SV type h =
     (if \<not> startsWith type SYSTEM_JOB_TYPE_PREFIX
      then Inl (PlainError (''System job types must start with \"'' @ SYSTEM_JOB_TYPE_PREFIX @ ''\"''))
      else Inr (setHandler SV type h))"

section \<open>Creating\<close>

definition jobEvent ::
  "'w env \<Rightarrow> 'w job_service \<Rightarrow> string \<Rightarrow> string option \<Rightarrow> string option \<Rightarrow> string \<Rightarrow> string \<Rightarrow> string \<Rightarrow> bool \<Rightarrow> jsobj option \<Rightarrow>
   ('w, unit) service" where
  "jobEvent E SV type jobId scheduleId tenantId principalId timestamp success details =
     bindA (draw (e_uuid E)) (\<lambda>i.
     jk_record (js_auditSink SV)
       \<lparr>je_id = i, je_type = type, je_jobId = jobId, je_scheduleId = scheduleId, je_tenantId = tenantId,
        je_principalId = principalId, je_timestamp = timestamp, je_success = success, je_details = details, je_jobType = None\<rparr>)"

text \<open>
  The identity a record runs as: only with a principal and a non-empty decision id.
\<close>

definition durableFor :: "'w principal option \<Rightarrow> string option \<Rightarrow> string option \<Rightarrow> durable_principal option" where
  "durableFor actor delegationId authorizedBy = (case actor of
      None \<Rightarrow> None
    | Some p \<Rightarrow> if truthy authorizedBy
        then Some (toDurablePrincipal p (orElse delegationId (pr_delegationId p)) authorizedBy) else None)"

text \<open>
  The tenant is asserted to be given; without authority it may be missing, and an empty text
  stands for that.
\<close>

definition newJob ::
  "string \<Rightarrow> string \<Rightarrow> int \<Rightarrow> job_input \<Rightarrow> string option \<Rightarrow> 'w principal option \<Rightarrow> string option \<Rightarrow> job" where
  "newJob i now maxAttempts input applicationId actor authorizedBy =
     (let runAt = (case ji_runAt input of Some at \<Rightarrow> at | None \<Rightarrow> now) in
      \<lparr>jb_id = i, jb_tenantId = (case ji_tenantId input of Some x \<Rightarrow> x | None \<Rightarrow> []),
       jb_applicationId = keepTruthy applicationId, jb_type = ji_type input, jb_payload = ji_payload input,
       jb_status = (if strLeq runAt now then JobPending else JobScheduled), jb_runAt = runAt,
       jb_attemptCount = 0, jb_maxAttempts = (case ji_maxAttempts input of Some n \<Rightarrow> n | None \<Rightarrow> maxAttempts),
       jb_createdAt = now, jb_startedAt = None, jb_completedAt = None, jb_nextAttemptAt = None,
       jb_leaseOwner = None, jb_leaseExpiresAt = None, jb_lastError = None,
       jb_principal = durableFor actor (ji_delegationId input) authorizedBy, jb_version = 1\<rparr>)"

definition createJobRecord ::
  "'w env \<Rightarrow> 'w job_service \<Rightarrow> job_input \<Rightarrow> string \<Rightarrow> string option \<Rightarrow> 'w principal option \<Rightarrow> string option \<Rightarrow>
   ('w, job) service" where
  "createJobRecord E SV input principalId applicationId actor authorizedBy =
     bindA (draw (e_uuid E)) (\<lambda>i.
     bindA (nowISO E) (\<lambda>now.
     let k = newJob i now (js_maxRetryAttempts SV) input applicationId actor authorizedBy in
     bindA (jt_create (js_jobStore SV) k) (\<lambda>_.
     bindA (jobEvent E SV ''job.created'' (Some i) None (jb_tenantId k) principalId now True
              (Some [(''jobType'', JStr (jb_type k))])) (\<lambda>_.
     ret k))))"

definition enqueueSystem :: "'w env \<Rightarrow> 'w job_service \<Rightarrow> job_input \<Rightarrow> ('w, job) service" where
  "enqueueSystem E SV input =
     (if \<not> startsWith (ji_type input) SYSTEM_JOB_TYPE_PREFIX
      then raise (PlainError (''System job types must start with \"'' @ SYSTEM_JOB_TYPE_PREFIX @ ''\"''))
      else createJobRecord E SV input ''system'' None None None)"

definition jobAttributes :: "string \<Rightarrow> string option \<Rightarrow> (string \<times> string) list option" where
  "jobAttributes type delegationId =
     Some ((''jobType'', type) # (if truthy delegationId then [(''delegationId'', the delegationId)] else []))"

definition enqueue :: "'w env \<Rightarrow> 'w job_service \<Rightarrow> job_input \<Rightarrow> 'w caller \<Rightarrow> ('w, job) service" where
  "enqueue E SV input caller =
     bindA (liftR (assertApplicationJobType (ji_type input))) (\<lambda>_.
     bindA (liftR (assertAllowedType SV (ji_type input) (js_authority SV \<noteq> None))) (\<lambda>_.
     case js_authority SV of
       None \<Rightarrow> createJobRecord E SV input ''system'' None None None
     | Some G \<Rightarrow>
         bindA (liftR (requireVerifiedPrincipal caller)) (\<lambda>p.
         bindA (liftR (rejectCallerActor (JObj (ji_other input)) p)) (\<lambda>_.
         bindA (liftR (resolveTenant (JObj (optionalProp ''tenantId'' (ji_tenantId input))) p)) (\<lambda>tenantId.
         execute E G ''jobs.create'' (Verified p)
           \<lparr>rs_type = ''job'', rs_tenantId = tenantId, rs_id = None,
            rs_attributes = jobAttributes (ji_type input) (orElse (ji_delegationId input) (pr_delegationId p))\<rparr>
           (serviceOptions ''jobs'')
           (\<lambda>ctx. plain (createJobRecord E SV (input\<lparr>ji_tenantId := Some tenantId\<rparr>) (pr_principalId p)
              (Some (gw_application G)) (Some p) (Some (cx_decisionId ctx)))))))))"

definition schedule :: "'w env \<Rightarrow> 'w job_service \<Rightarrow> job_input \<Rightarrow> 'w caller \<Rightarrow> ('w, job) service" where
  "schedule E SV input caller =
     (if \<not> truthy (ji_runAt input)
      then (if js_authority SV \<noteq> None then raise (invalidRequest ''schedule() requires runAt'')
            else raise (PlainError ''schedule() requires runAt''))
      else enqueue E SV input caller)"

section \<open>Recurring schedules\<close>

text \<open>\<open>^(\d+)([smhd])$\<close>\<close>

definition unitMs :: "char \<Rightarrow> int option" where
  "unitMs c =
     (if c = CHR ''s'' then Some 1000 else if c = CHR ''m'' then Some (60 * 1000)
      else if c = CHR ''h'' then Some (60 * 60 * 1000) else if c = CHR ''d'' then Some (24 * 60 * 60 * 1000) else None)"

definition intervalMs :: "string \<Rightarrow> int option" where
  "intervalMs interval =
     (let digits = takeWhile digitChar interval in
      case dropWhile digitChar interval of
        [u] \<Rightarrow> if digits = [] then None
          else (case unitMs u of None \<Rightarrow> None | Some ms \<Rightarrow> Some (foldl (\<lambda>n c. 10 * n + digitVal c) 0 digits * ms))
      | _ \<Rightarrow> None)"

text \<open>
  A number too large for exact arithmetic gives a delay beyond the range of dates from any time
  a clock can show, so it is refused either way.
\<close>

definition nextRunTime :: "'w env \<Rightarrow> string \<Rightarrow> string \<Rightarrow> exn + string" where
  "nextRunTime E now interval = (case intervalMs interval of
      None \<Rightarrow> Inl (PlainError (''Invalid interval format: '' @ interval))
    | Some delay \<Rightarrow> (case dateTime E now of
        None \<Rightarrow> Inl (RangeError ''Invalid time value'')
      | Some t \<Rightarrow> toISOString (t + delay)))"

definition newSchedule ::
  "string \<Rightarrow> string \<Rightarrow> string \<Rightarrow> schedule_input \<Rightarrow> string \<Rightarrow> string option \<Rightarrow> 'w principal option \<Rightarrow> string option \<Rightarrow>
   job_schedule" where
  "newSchedule i now nextRunAt input principalId applicationId actor authorizedBy =
     \<lparr>sc_id = i, sc_tenantId = (case si_tenantId input of Some x \<Rightarrow> x | None \<Rightarrow> []),
      sc_applicationId = keepTruthy applicationId, sc_type = si_type input, sc_payload = si_payload input,
      sc_interval = si_interval input, sc_nextRunAt = nextRunAt, sc_enabled = True, sc_createdAt = now,
      sc_createdBy = principalId, sc_principal = durableFor actor (si_delegationId input) authorizedBy,
      sc_version = 1\<rparr>"

definition createScheduleRecord ::
  "'w env \<Rightarrow> 'w job_service \<Rightarrow> schedule_input \<Rightarrow> string \<Rightarrow> string option \<Rightarrow> 'w principal option \<Rightarrow> string option \<Rightarrow>
   ('w, job_schedule) service" where
  "createScheduleRecord E SV input principalId applicationId actor authorizedBy =
     bindA (draw (e_uuid E)) (\<lambda>i.
     bindA (nowISO E) (\<lambda>now.
     bindA (liftR (nextRunTime E now (si_interval input))) (\<lambda>nextRunAt.
     let sc = newSchedule i now nextRunAt input principalId applicationId actor authorizedBy in
     bindA (st_create (js_scheduleStore SV) sc) (\<lambda>_.
     bindA (jobEvent E SV ''job.schedule.created'' None (Some i) (sc_tenantId sc) principalId now True
              (Some [(''jobType'', JStr (sc_type sc)), (''interval'', JStr (sc_interval sc))])) (\<lambda>_.
     ret sc)))))"

definition scheduleRecurring :: "'w env \<Rightarrow> 'w job_service \<Rightarrow> schedule_input \<Rightarrow> 'w caller \<Rightarrow> ('w, job_schedule) service" where
  "scheduleRecurring E SV input caller =
     bindA (nowISO E) (\<lambda>now.
     bindA (liftR (nextRunTime E now (si_interval input))) (\<lambda>_.
     bindA (liftR (assertApplicationJobType (si_type input))) (\<lambda>_.
     bindA (liftR (assertAllowedType SV (si_type input) (js_authority SV \<noteq> None))) (\<lambda>_.
     case js_authority SV of
       None \<Rightarrow> createScheduleRecord E SV input (case si_createdBy input of Some x \<Rightarrow> x | None \<Rightarrow> ''system'') None None None
     | Some G \<Rightarrow>
         bindA (liftR (requireVerifiedPrincipal caller)) (\<lambda>p.
         bindA (liftR (rejectCallerActor (JObj (optionalProp ''createdBy'' (si_createdBy input) @ si_other input)) p)) (\<lambda>_.
         bindA (liftR (resolveTenant (JObj (optionalProp ''tenantId'' (si_tenantId input))) p)) (\<lambda>tenantId.
         execute E G ''schedules.create'' (Verified p)
           \<lparr>rs_type = ''schedule'', rs_tenantId = tenantId, rs_id = None,
            rs_attributes = jobAttributes (si_type input) (orElse (si_delegationId input) (pr_delegationId p))\<rparr>
           (serviceOptions ''jobs'')
           (\<lambda>ctx. plain (createScheduleRecord E SV (input\<lparr>si_tenantId := Some tenantId\<rparr>) (pr_principalId p)
              (Some (gw_application G)) (Some p) (Some (cx_decisionId ctx)))))))))))"

definition getJob :: "'w job_service \<Rightarrow> string \<Rightarrow> string \<Rightarrow> ('w, job option) service" where
  "getJob SV tenantId jobId = jt_get (js_jobStore SV) tenantId jobId"

definition listJobs :: "'w job_service \<Rightarrow> string \<Rightarrow> ('w, job list) service" where
  "listJobs SV tenantId = jt_list (js_jobStore SV) tenantId"

definition listDueJobs :: "'w env \<Rightarrow> 'w job_service \<Rightarrow> string \<Rightarrow> ('w, job list) service" where
  "listDueJobs E SV tenantId = bindA (nowISO E) (\<lambda>now. jt_listDue (js_jobStore SV) tenantId now)"

definition getSchedule :: "'w job_service \<Rightarrow> string \<Rightarrow> string \<Rightarrow> ('w, job_schedule option) service" where
  "getSchedule SV tenantId i = st_get (js_scheduleStore SV) tenantId i"

definition listSchedules :: "'w job_service \<Rightarrow> string \<Rightarrow> ('w, job_schedule list) service" where
  "listSchedules SV tenantId = st_list (js_scheduleStore SV) tenantId"

definition recordScheduleAudit ::
  "'w env \<Rightarrow> 'w job_service \<Rightarrow> string \<Rightarrow> job_schedule \<Rightarrow> string \<Rightarrow> ('w, unit) service" where
  "recordScheduleAudit E SV type sc principalId =
     bindA (draw (e_uuid E)) (\<lambda>i.
     bindA (nowISO E) (\<lambda>timestamp.
     jk_record (js_auditSink SV)
       \<lparr>je_id = i, je_type = type, je_jobId = None, je_scheduleId = Some (sc_id sc), je_tenantId = sc_tenantId sc,
        je_principalId = principalId, je_timestamp = timestamp, je_success = True, je_details = None, je_jobType = None\<rparr>))"

text \<open>The last step of both ways to disable a schedule.\<close>

definition disableRead ::
  "'w env \<Rightarrow> 'w job_service \<Rightarrow> string \<Rightarrow> string \<Rightarrow> job_schedule \<Rightarrow> string \<Rightarrow> ('w, job_schedule option) service" where
  "disableRead E SV tenantId scheduleId sc principalId =
     bindA (st_disable (js_scheduleStore SV) tenantId scheduleId (sc_version sc)) (\<lambda>updated.
     bindA (case updated of None \<Rightarrow> ret () | Some x \<Rightarrow> recordScheduleAudit E SV ''job.schedule.disabled'' x principalId) (\<lambda>_.
     ret updated))"

definition disableScheduleLegacy :: "'w env \<Rightarrow> 'w job_service \<Rightarrow> string \<Rightarrow> string \<Rightarrow> ('w, job_schedule option) service" where
  "disableScheduleLegacy E SV tenantId scheduleId =
     bindA (st_get (js_scheduleStore SV) tenantId scheduleId) (\<lambda>found.
     case found of None \<Rightarrow> ret None | Some sc \<Rightarrow> disableRead E SV tenantId scheduleId sc ''system'')"

definition disableSchedule ::
  "'w env \<Rightarrow> 'w job_service \<Rightarrow> string \<Rightarrow> string \<Rightarrow> 'w caller \<Rightarrow> ('w, job_schedule option) service" where
  "disableSchedule E SV tenantId scheduleId caller = (case js_authority SV of
      None \<Rightarrow> disableScheduleLegacy E SV tenantId scheduleId
    | Some G \<Rightarrow>
        bindA (liftR (requireVerifiedPrincipal caller)) (\<lambda>p.
        bindA (liftR (resolveTenant (JObj [(''tenantId'', JStr tenantId)]) p)) (\<lambda>tenant.
        bindA (st_get (js_scheduleStore SV) tenant scheduleId) (\<lambda>found.
        case found of None \<Rightarrow> ret None | Some sc \<Rightarrow>
        if sc_applicationId sc \<noteq> Some (gw_application G) then ret None
        else execute E G ''schedules.cancel'' (Verified p)
          \<lparr>rs_type = ''schedule'', rs_tenantId = tenantId, rs_id = Some (sc_id sc),
           rs_attributes = Some [(''jobType'', sc_type sc), (''createdBy'', sc_createdBy sc)]\<rparr>
          (serviceOptions ''jobs'')
          (\<lambda>ctx. plain (disableRead E SV tenantId scheduleId sc (pr_principalId p)))))))"

section \<open>Retrying by hand\<close>

definition resetUpdate :: "job \<Rightarrow> job" where
  "resetUpdate k = k\<lparr>jb_status := JobPending, jb_attemptCount := 0, jb_nextAttemptAt := None, jb_lastError := None\<rparr>"

definition resetJob :: "'w env \<Rightarrow> 'w job_service \<Rightarrow> job \<Rightarrow> string \<Rightarrow> ('w, job option) service" where
  "resetJob E SV k principalId =
     bindA (nowISO E) (\<lambda>now.
     bindA (jt_updateJob (js_jobStore SV) (jb_tenantId k) (jb_id k) (jb_version k) resetUpdate) (\<lambda>updated.
     bindA (case updated of None \<Rightarrow> ret ()
       | Some u \<Rightarrow> jobEvent E SV ''job.retried'' (Some (jb_id u)) None (jb_tenantId u) principalId now True None) (\<lambda>_.
     ret updated)))"

definition retry :: "'w env \<Rightarrow> 'w job_service \<Rightarrow> string \<Rightarrow> string \<Rightarrow> 'w caller \<Rightarrow> ('w, job option) service" where
  "retry E SV tenantId jobId caller =
     bindA (jt_get (js_jobStore SV) tenantId jobId) (\<lambda>found.
     case found of None \<Rightarrow> ret None | Some k \<Rightarrow>
     case js_authority SV of
       None \<Rightarrow> resetJob E SV k ''system''
     | Some G \<Rightarrow>
         bindA (liftR (requireVerifiedPrincipal caller)) (\<lambda>p.
         bindA (liftR (resolveTenant (JObj [(''tenantId'', JStr tenantId)]) p)) (\<lambda>tenant.
         bindA (jt_get (js_jobStore SV) tenant jobId) (\<lambda>found.
         case found of None \<Rightarrow> ret None | Some owned \<Rightarrow>
         if jb_applicationId owned \<noteq> Some (gw_application G) then ret None
         else execute E G ''jobs.retry'' (Verified p)
           \<lparr>rs_type = ''job'', rs_tenantId = tenantId, rs_id = Some (jb_id owned),
            rs_attributes = Some [(''jobType'', jb_type owned)]\<rparr>
           (serviceOptions ''jobs'')
           (\<lambda>ctx. plain (resetJob E SV owned (pr_principalId p)))))))"

section \<open>Running a job\<close>

text \<open>
  The start of a run: a running job is held by its lease; when the lease has expired the attempt
  counts as made, and a job out of attempts fails. \<open>None\<close> means that the run ends here.
\<close>

definition abandonedError :: "int \<Rightarrow> string" where
  "abandonedError attemptCount =
     ''lease expired before attempt '' @ intString attemptCount @ '' settled; it may have partly run''"

definition jobActor :: "job \<Rightarrow> string \<Rightarrow> string" where
  "jobActor k fallback = (case jb_principal k of None \<Rightarrow> fallback | Some dp \<Rightarrow> dp_principalId dp)"

definition countAbandoned ::
  "'w env \<Rightarrow> 'w job_service \<Rightarrow> string \<Rightarrow> string \<Rightarrow> string \<Rightarrow> job \<Rightarrow> ('w, job option) service" where
  "countAbandoned E SV tenantId jobId nowIso k =
     (let attemptCount = jb_attemptCount k + 1; lastError = abandonedError attemptCount in
      if jb_maxAttempts k \<le> attemptCount then
        bindA (jt_updateJob (js_jobStore SV) tenantId jobId (jb_version k)
                 (\<lambda>x. x\<lparr>jb_status := JobFailed, jb_attemptCount := attemptCount, jb_lastError := Some lastError\<rparr>)) (\<lambda>failed.
        bindA (case failed of None \<Rightarrow> ret ()
          | Some _ \<Rightarrow> jobEvent E SV ''job.failed'' (Some jobId) None tenantId (jobActor k ''system'') nowIso False
              (Some [(''error'', JStr lastError), (''attemptCount'', JNum attemptCount)])) (\<lambda>_.
        ret None))
      else
        jt_updateJob (js_jobStore SV) tenantId jobId (jb_version k)
          (\<lambda>x. x\<lparr>jb_attemptCount := attemptCount, jb_lastError := Some lastError\<rparr>))"

definition claimNow :: "'w env \<Rightarrow> 'w job_service \<Rightarrow> string \<Rightarrow> string \<Rightarrow> job \<Rightarrow> ('w, job option) service" where
  "claimNow E SV tenantId jobId k =
     bindA (draw (e_now E)) (\<lambda>now.
     bindA (liftR (toISOString (now + js_leaseDurationMs SV))) (\<lambda>leaseExpiresAt.
     jt_claim (js_jobStore SV) tenantId jobId (jb_version k) leaseExpiresAt))"

definition takeOverRead ::
  "'w env \<Rightarrow> 'w job_service \<Rightarrow> string \<Rightarrow> string \<Rightarrow> string \<Rightarrow> job \<Rightarrow> string \<Rightarrow> ('w, job option) service" where
  "takeOverRead E SV tenantId jobId workerId k nowIso =
     (if jb_status k = JobRunning \<and> \<not> isStale nowIso k \<and> jb_leaseOwner k \<noteq> Some workerId then ret None
      else if isStale nowIso k
      then bindA (countAbandoned E SV tenantId jobId nowIso k)
             (\<lambda>counted. case counted of None \<Rightarrow> ret None | Some k' \<Rightarrow> claimNow E SV tenantId jobId k')
      else claimNow E SV tenantId jobId k)"

definition takeOver :: "'w env \<Rightarrow> 'w job_service \<Rightarrow> string \<Rightarrow> string \<Rightarrow> string \<Rightarrow> ('w, job option) service" where
  "takeOver E SV tenantId jobId workerId =
     bindA (jt_get (js_jobStore SV) tenantId jobId) (\<lambda>found.
     case found of None \<Rightarrow> ret None | Some k \<Rightarrow>
     bindA (nowISO E) (takeOverRead E SV tenantId jobId workerId k))"

definition completeJob :: "'w env \<Rightarrow> 'w job_service \<Rightarrow> job \<Rightarrow> string \<Rightarrow> string option \<Rightarrow> ('w, unit) service" where
  "completeJob E SV k principalId runId =
     bindA (nowISO E) (\<lambda>completedAt.
     bindA (jt_updateJob (js_jobStore SV) (jb_tenantId k) (jb_id k) (jb_version k)
              (\<lambda>x. x\<lparr>jb_status := JobCompleted, jb_completedAt := Some completedAt\<rparr>)) (\<lambda>_.
     jobEvent E SV ''job.completed'' (Some (jb_id k)) None (jb_tenantId k) principalId completedAt True
       (if truthy runId then Some (optionalProp ''runId'' runId) else None)))"

text \<open>The delay before attempt \<open>n + 2\<close> doubles with every attempt.\<close>

definition retryDelay :: "int \<Rightarrow> int" where
  "retryDelay attemptCount = INITIAL_RETRY_DELAY_MS * 2 ^ nat attemptCount"

definition recordExecutionFailure :: "'w env \<Rightarrow> 'w job_service \<Rightarrow> job \<Rightarrow> string \<Rightarrow> exn \<Rightarrow> ('w, unit) service" where
  "recordExecutionFailure E SV k principalId e =
     (let nextAttempt = jb_attemptCount k + 1 in
      if jb_maxAttempts k \<le> nextAttempt then
        bindA (nowISO E) (\<lambda>failedAt.
        bindA (jt_updateJob (js_jobStore SV) (jb_tenantId k) (jb_id k) (jb_version k)
                 (\<lambda>x. x\<lparr>jb_status := JobFailed, jb_attemptCount := nextAttempt, jb_lastError := Some (errorMessage e)\<rparr>)) (\<lambda>_.
        jobEvent E SV ''job.failed'' (Some (jb_id k)) None (jb_tenantId k) principalId failedAt False
          (Some [(''error'', JStr (errorMessage e)), (''attemptCount'', JNum nextAttempt)])))
      else
        bindA (draw (e_now E)) (\<lambda>now.
        bindA (liftR (toISOString (now + retryDelay (jb_attemptCount k)))) (\<lambda>nextAttemptAt.
        bindA (jt_updateJob (js_jobStore SV) (jb_tenantId k) (jb_id k) (jb_version k)
                 (\<lambda>x. x\<lparr>jb_status := JobRetrying, jb_nextAttemptAt := Some nextAttemptAt,
                        jb_lastError := Some (errorMessage e), jb_attemptCount := nextAttempt\<rparr>)) (\<lambda>_.
        bindA (draw (e_uuid E)) (\<lambda>i.
        bindA (nowISO E) (\<lambda>timestamp.
        jk_record (js_auditSink SV)
          \<lparr>je_id = i, je_type = ''job.retrying'', je_jobId = Some (jb_id k), je_scheduleId = None,
           je_tenantId = jb_tenantId k, je_principalId = principalId, je_timestamp = timestamp, je_success = False,
           je_details = Some [(''error'', JStr (errorMessage e)), (''nextAttemptAt'', JStr nextAttemptAt),
             (''attemptCount'', JNum nextAttempt)], je_jobType = None\<rparr>))))))"

definition deny :: "'w env \<Rightarrow> 'w job_service \<Rightarrow> job \<Rightarrow> string \<Rightarrow> ('w, unit) service" where
  "deny E SV k reason =
     bindA (jt_updateJob (js_jobStore SV) (jb_tenantId k) (jb_id k) (jb_version k)
              (\<lambda>x. x\<lparr>jb_status := JobFailed, jb_lastError := Some reason\<rparr>)) (\<lambda>_.
     bindA (draw (e_uuid E)) (\<lambda>i.
     bindA (nowISO E) (\<lambda>timestamp.
     jk_record (js_auditSink SV)
       \<lparr>je_id = i, je_type = ''job.denied'', je_jobId = Some (jb_id k), je_scheduleId = None, je_tenantId = jb_tenantId k,
        je_principalId = jobActor k ''anonymous'', je_timestamp = timestamp, je_success = False,
        je_details = Some [(''reason'', JStr reason)], je_jobType = None\<rparr>)))"

text \<open>A handler that runs outside an authorized operation has no tools to log credentials with.\<close>

definition withoutTools :: "('w, 'a) effect \<Rightarrow> ('w, 'a) service" where
  "withoutTools m = (\<lambda>s. case m (s, \<lparr>tl_refs = [], tl_stored = None\<rparr>) of ((t, log), r) \<Rightarrow> (t, r))"

definition executeLegacyHandler :: "'w env \<Rightarrow> 'w job_service \<Rightarrow> job \<Rightarrow> 'w job_handler \<Rightarrow> ('w, bool) service" where
  "executeLegacyHandler E SV k h =
     catchA
       (bindA (withoutTools (h k None)) (\<lambda>_.
        bindA (completeJob E SV k (jobActor k ''system'') None) (\<lambda>_. ret True)))
       (\<lambda>e. bindA (recordExecutionFailure E SV k (jobActor k ''system'') e) (\<lambda>_. ret False))"

definition runClaims :: "durable_principal \<Rightarrow> string \<Rightarrow> principal_claims" where
  "runClaims dp runId =
     \<lparr>cl_principalId = JStr (dp_principalId dp), cl_principalType = JStr (dp_principalType dp),
      cl_tenantId = JStr (dp_tenantId dp), cl_applicationId = dp_applicationId dp,
      cl_credentialId = dp_credentialId dp, cl_delegationId = dp_delegationId dp, cl_runId = Some runId\<rparr>"

text \<open>What a rejection of the authorized run does to the job.\<close>

definition settleRejected ::
  "'w env \<Rightarrow> 'w job_service \<Rightarrow> string \<Rightarrow> string \<Rightarrow> job \<Rightarrow> 'w principal \<Rightarrow> exn \<Rightarrow> ('w, bool) service" where
  "settleRejected E SV tenantId jobId claimed p e =
     (if failureCode e = Some DENIED \<or> failureCode e = Some UNAUTHENTICATED
      then bindA (deny E SV claimed (''DENIED: '' @ errorMessage e)) (\<lambda>_. ret False)
      else if failureCode e = Some AUTHORITY_UNAVAILABLE \<or> failureCode e = Some AUTHORIZATION_TIMEOUT then
        bindA (draw (e_now E)) (\<lambda>now.
        bindA (liftR (toISOString (now + INITIAL_RETRY_DELAY_MS))) (\<lambda>nextAttemptAt.
        bindA (jt_updateJob (js_jobStore SV) tenantId jobId (jb_version claimed)
                 (\<lambda>x. x\<lparr>jb_status := JobRetrying, jb_nextAttemptAt := Some nextAttemptAt,
                        jb_lastError := Some (codeName (the (failureCode e)) @ '': '' @ errorMessage e)\<rparr>)) (\<lambda>_.
        ret False)))
      else bindA (recordExecutionFailure E SV claimed (pr_principalId p) e) (\<lambda>_. ret False))"

definition runAsPrincipal ::
  "'w env \<Rightarrow> 'w job_service \<Rightarrow> 'w gateway \<Rightarrow> string \<Rightarrow> string \<Rightarrow> job \<Rightarrow> 'w job_handler \<Rightarrow> string \<Rightarrow> 'w principal \<Rightarrow>
   ('w, bool) service" where
  "runAsPrincipal E SV G tenantId jobId claimed h runId p =
     catchA
       (bindA (execute E G ''jobs.execute'' (Verified p)
          \<lparr>rs_type = ''job'', rs_tenantId = tenantId, rs_id = Some (jb_id claimed),
           rs_attributes = Some [(''jobType'', jb_type claimed)]\<rparr>
          ((serviceOptions ''jobs'')\<lparr>eo_requestId := Some runId\<rparr>)
          (\<lambda>ctx. h claimed (Some \<lparr>jx_principal = p, jx_context = ctx, jx_runId = runId\<rparr>))) (\<lambda>_.
        bindA (completeJob E SV claimed (pr_principalId p) (Some runId)) (\<lambda>_. ret True)))
       (settleRejected E SV tenantId jobId claimed p)"

definition runAuthorized ::
  "'w env \<Rightarrow> 'w job_service \<Rightarrow> 'w gateway \<Rightarrow> string \<Rightarrow> string \<Rightarrow> job \<Rightarrow> 'w job_handler \<Rightarrow> ('w, bool) service" where
  "runAuthorized E SV G tenantId jobId claimed h =
     (let anonymous = ''DENIED: anonymous job execution is not permitted; enqueue jobs through an authorized caller'' in
      case jb_principal claimed of
        None \<Rightarrow> bindA (deny E SV claimed anonymous) (\<lambda>_. ret False)
      | Some dp \<Rightarrow>
          if dp_tenantId dp \<noteq> tenantId then bindA (deny E SV claimed anonymous) (\<lambda>_. ret False)
          else
          bindA (settle (attest E G (Some dp) [''jobs.create'', ''schedules.create''])) (\<lambda>attested.
          case attested of
            Inl e \<Rightarrow> bindA (deny E SV claimed (''DENIED: '' @ errorMessage e)) (\<lambda>_. ret False)
          | Inr _ \<Rightarrow>
              let runId = jb_id claimed @ '':'' @ intString (jb_attemptCount claimed + 1) in
              bindA (liftR (mintVerifiedPrincipal (runClaims dp runId) ByJob))
                (runAsPrincipal E SV G tenantId jobId claimed h runId)))"

definition runClaimed ::
  "'w env \<Rightarrow> 'w job_service \<Rightarrow> string \<Rightarrow> string \<Rightarrow> job \<Rightarrow> ('w, bool) service" where
  "runClaimed E SV tenantId jobId claimed = (case map_of (js_handlers SV) (jb_type claimed) of
      None \<Rightarrow>
        bindA (jt_updateJob (js_jobStore SV) tenantId jobId (jb_version claimed)
                 (\<lambda>x. x\<lparr>jb_status := JobFailed,
                        jb_lastError := Some (''Handler not registered for type: '' @ jb_type claimed)\<rparr>)) (\<lambda>_.
        ret False)
    | Some h \<Rightarrow>
        (case js_authority SV of
           None \<Rightarrow> executeLegacyHandler E SV claimed h
         | Some G \<Rightarrow>
             if startsWith (jb_type claimed) SYSTEM_JOB_TYPE_PREFIX then executeLegacyHandler E SV claimed h
             else runAuthorized E SV G tenantId jobId claimed h))"

definition executeJob :: "'w env \<Rightarrow> 'w job_service \<Rightarrow> string \<Rightarrow> string \<Rightarrow> string \<Rightarrow> ('w, bool) service" where
  "executeJob E SV tenantId jobId workerId =
     bindA (takeOver E SV tenantId jobId workerId) (\<lambda>claimed.
     case claimed of None \<Rightarrow> ret False | Some k \<Rightarrow> runClaimed E SV tenantId jobId k)"

section \<open>Jobs of schedules\<close>

definition scheduledJob :: "string \<Rightarrow> string \<Rightarrow> job_schedule \<Rightarrow> job" where
  "scheduledJob i now sc =
     \<lparr>jb_id = i, jb_tenantId = sc_tenantId sc, jb_applicationId = keepTruthy (sc_applicationId sc), jb_type = sc_type sc,
      jb_payload = sc_payload sc, jb_status = JobPending, jb_runAt = now, jb_attemptCount = 0,
      jb_maxAttempts = DEFAULT_MAX_ATTEMPTS, jb_createdAt = now, jb_startedAt = None, jb_completedAt = None,
      jb_nextAttemptAt = None, jb_leaseOwner = None, jb_leaseExpiresAt = None, jb_lastError = None,
      jb_principal = sc_principal sc, jb_version = 1\<rparr>"

definition runSchedule :: "'w env \<Rightarrow> 'w job_service \<Rightarrow> string \<Rightarrow> string \<Rightarrow> job_schedule \<Rightarrow> ('w, unit) service" where
  "runSchedule E SV tenantId now sc =
     bindA (draw (e_uuid E)) (\<lambda>jobId.
     bindA (jt_create (js_jobStore SV) (scheduledJob jobId now sc)) (\<lambda>_.
     bindA (liftR (nextRunTime E now (sc_interval sc))) (\<lambda>nextRunAt.
     bindA (st_updateSchedule (js_scheduleStore SV) tenantId (sc_id sc) (sc_version sc)
              (\<lambda>x. x\<lparr>sc_nextRunAt := nextRunAt\<rparr>)) (\<lambda>updated.
     case updated of
       None \<Rightarrow> ret ()
     | Some _ \<Rightarrow> jobEvent E SV ''job.created_from_schedule'' (Some jobId) (Some (sc_id sc)) (sc_tenantId sc)
         (case sc_principal sc of None \<Rightarrow> ''anonymous'' | Some dp \<Rightarrow> dp_principalId dp) now True None))))"

definition processRecurringSchedules :: "'w env \<Rightarrow> 'w job_service \<Rightarrow> string \<Rightarrow> ('w, nat) service" where
  "processRecurringSchedules E SV tenantId =
     bindA (nowISO E) (\<lambda>now.
     bindA (st_listDue (js_scheduleStore SV) tenantId now) (\<lambda>due.
     bindA (mapA (runSchedule E SV tenantId now) due) (\<lambda>done. ret (length due))))"

section \<open>The schedule service\<close>

record 'w schedule_service =
  ss_jobs :: "'w job_service"
  ss_authority :: "'w gateway option"

definition scheduleGateway :: "'w schedule_service \<Rightarrow> exn + 'w gateway" where
  "scheduleGateway SS = (case ss_authority SS of
      None \<Rightarrow> Inl (ServiceAuthorityError AUTHORITY_UNAVAILABLE ''Schedules have no AuthBoundry authority configured'' noDetails)
    | Some G \<Rightarrow> Inr G)"

definition validateInput :: "schedule_input \<Rightarrow> exn + unit" where
  "validateInput input =
     bindR (guardR (trim (si_type input) \<noteq> []) (PlainError ''type is required'')) (\<lambda>_.
     guardR (intervalMs (si_interval input) \<noteq> None) (PlainError ''interval must match <number><s|m|h|d>''))"

definition scheduleServiceCreate ::
  "'w env \<Rightarrow> 'w schedule_service \<Rightarrow> schedule_input \<Rightarrow> 'w caller \<Rightarrow> ('w, job_schedule) service" where
  "scheduleServiceCreate E SS input caller =
     bindA (liftR (validateInput input)) (\<lambda>_. scheduleRecurring E (ss_jobs SS) input caller)"

definition scheduleServiceGet ::
  "'w env \<Rightarrow> 'w schedule_service \<Rightarrow> string \<Rightarrow> string \<Rightarrow> 'w caller \<Rightarrow> ('w, job_schedule option) service" where
  "scheduleServiceGet E SS tenantId i caller =
     bindA (liftR (requireVerifiedPrincipal caller)) (\<lambda>p.
     bindA (liftR (resolveTenant (JObj [(''tenantId'', JStr tenantId)]) p)) (\<lambda>tenant.
     bindA (getSchedule (ss_jobs SS) tenant i) (\<lambda>found.
     case found of None \<Rightarrow> ret None | Some sc \<Rightarrow>
     bindA (liftR (scheduleGateway SS)) (\<lambda>G.
     if sc_applicationId sc \<noteq> Some (gw_application G) then ret None
     else execute E G ''schedules.read'' (Verified p)
       \<lparr>rs_type = ''schedule'', rs_tenantId = tenant, rs_id = Some i,
        rs_attributes = Some [(''createdBy'', sc_createdBy sc)]\<rparr>
       (serviceOptions ''schedules'') (\<lambda>ctx. plain (ret (Some sc)))))))"

definition scheduleServiceList ::
  "'w env \<Rightarrow> 'w schedule_service \<Rightarrow> string \<Rightarrow> 'w caller \<Rightarrow> string option \<Rightarrow> ('w, job_schedule list) service" where
  "scheduleServiceList E SS tenantId caller createdBy =
     bindA (liftR (requireVerifiedPrincipal caller)) (\<lambda>p.
     bindA (liftR (resolveTenant (JObj [(''tenantId'', JStr tenantId)]) p)) (\<lambda>tenant.
     bindA (liftR (scheduleGateway SS)) (\<lambda>G.
     execute E G ''schedules.read'' (Verified p)
       \<lparr>rs_type = ''schedule'', rs_tenantId = tenant, rs_id = None,
        rs_attributes = Some [(''createdBy'', case createdBy of Some x \<Rightarrow> x | None \<Rightarrow> ''*'')]\<rparr>
       (serviceOptions ''schedules'')
       (\<lambda>ctx. plain (bindA (listSchedules (ss_jobs SS) tenant) (\<lambda>found.
          let schedules = filter (\<lambda>sc. sc_applicationId sc = Some (gw_application G)) found in
          ret (if truthy createdBy then filter (\<lambda>sc. sc_createdBy sc = the createdBy) schedules else schedules)))))))"

definition scheduleServiceDisable ::
  "'w env \<Rightarrow> 'w schedule_service \<Rightarrow> string \<Rightarrow> string \<Rightarrow> 'w caller \<Rightarrow> ('w, job_schedule option) service" where
  "scheduleServiceDisable E SS tenantId i caller = disableSchedule E (ss_jobs SS) tenantId i caller"

end
