(* ===== verification/JobLifecycle.thy ===== *)
theory JobLifecycle
  imports Jobs Operations
begin

text \<open>
  The life cycle of a job as an abstract step relation, and the refinement: every operation of
  the job service moves every stored job along it.
\<close>

section \<open>Steps of a job\<close>

text \<open>
  One write of a job. A running job is claimed only when its lease was given a time (which may
  pass) or names an owner; a job may be put back to pending, and claimed, in any other state,
  also after it has completed.
\<close>

inductive job_step :: "job \<Rightarrow> job \<Rightarrow> bool" where
  claimed: "jb_version k < n \<Longrightarrow> jb_status k = JobRunning \<longrightarrow> truthy (jb_leaseExpiresAt k) \<or> jb_leaseOwner k \<noteq> None \<Longrightarrow>
    job_step k ((claimUpdate lease at k)\<lparr>jb_version := n\<rparr>)"
| counted: "jb_version k < n \<Longrightarrow> jb_status k = JobRunning \<Longrightarrow> jb_attemptCount k + 1 < jb_maxAttempts k \<Longrightarrow>
    job_step k (k\<lparr>jb_attemptCount := jb_attemptCount k + 1, jb_lastError := e, jb_version := n\<rparr>)"
| completed: "jb_version k < n \<Longrightarrow> jb_status k = JobRunning \<Longrightarrow>
    job_step k (k\<lparr>jb_status := JobCompleted, jb_completedAt := at', jb_version := n\<rparr>)"
| failed: "jb_version k < n \<Longrightarrow> jb_status k = JobRunning \<Longrightarrow> jb_maxAttempts k \<le> jb_attemptCount k + 1 \<Longrightarrow>
    job_step k (k\<lparr>jb_status := JobFailed, jb_attemptCount := jb_attemptCount k + 1, jb_lastError := e, jb_version := n\<rparr>)"
| refused: "jb_version k < n \<Longrightarrow> jb_status k = JobRunning \<Longrightarrow>
    job_step k (k\<lparr>jb_status := JobFailed, jb_lastError := e, jb_version := n\<rparr>)"
| retrying: "jb_version k < n \<Longrightarrow> jb_status k = JobRunning \<Longrightarrow> jb_attemptCount k + 1 < jb_maxAttempts k \<Longrightarrow>
    job_step k (k\<lparr>jb_status := JobRetrying, jb_nextAttemptAt := at', jb_lastError := e,
      jb_attemptCount := jb_attemptCount k + 1, jb_version := n\<rparr>)"
| postponed: "jb_version k < n \<Longrightarrow> jb_status k = JobRunning \<Longrightarrow>
    job_step k (k\<lparr>jb_status := JobRetrying, jb_nextAttemptAt := at', jb_lastError := e, jb_version := n\<rparr>)"
| reset: "jb_version k < n \<Longrightarrow> job_step k ((resetUpdate k)\<lparr>jb_version := n\<rparr>)"

inductive_cases job_stepE: "job_step k k'"

text \<open>What no step changes.\<close>

definition sameJob :: "job \<Rightarrow> job \<Rightarrow> bool" where
  "sameJob k k' \<longleftrightarrow>
     jb_id k' = jb_id k \<and> jb_tenantId k' = jb_tenantId k \<and> jb_applicationId k' = jb_applicationId k \<and>
     jb_type k' = jb_type k \<and> jb_payload k' = jb_payload k \<and> jb_runAt k' = jb_runAt k \<and>
     jb_maxAttempts k' = jb_maxAttempts k \<and> jb_createdAt k' = jb_createdAt k \<and>
     jb_leaseOwner k' = jb_leaseOwner k \<and> jb_principal k' = jb_principal k"

lemma step_same: "job_step k k' \<Longrightarrow> sameJob k k' \<and> jb_version k < jb_version k'"
  by (erule job_stepE) (simp_all add: sameJob_def claimUpdate_def resetUpdate_def)

lemma steps_same: "job_step\<^sup>*\<^sup>* k k' \<Longrightarrow> sameJob k k' \<and> (k' = k \<or> jb_version k < jb_version k')"
proof (induction rule: rtranclp_induct)
  case (step k' k'')
  then show ?case using step_same [of k' k''] by (auto simp: sameJob_def)
qed (simp add: sameJob_def)

definition freshJob :: "job \<Rightarrow> bool" where
  "freshJob k \<longleftrightarrow> jb_status k \<in> {JobPending, JobScheduled} \<and> jb_attemptCount k = 0 \<and> jb_leaseOwner k = None
     \<and> jb_leaseExpiresAt k = None \<and> jb_version k = 1"

definition wfJobs :: "jobs \<Rightarrow> bool" where
  "wfJobs js \<longleftrightarrow> (\<forall>i k. js i = Some k \<longrightarrow> jb_id k = i)"

text \<open>Jobs are added fresh and move along steps; none disappears.\<close>

definition jobsProgress :: "jobs \<Rightarrow> jobs \<Rightarrow> bool" where
  "jobsProgress js js' \<longleftrightarrow>
     (\<forall>i. case js i of
        Some k \<Rightarrow> (\<exists>k'. js' i = Some k' \<and> job_step\<^sup>*\<^sup>* k k')
      | None \<Rightarrow> (\<forall>k'. js' i = Some k' \<longrightarrow> (\<exists>k. freshJob k \<and> job_step\<^sup>*\<^sup>* k k')))"

definition jobsMove :: "('w sys \<Rightarrow> jobs) \<Rightarrow> 'w sys \<Rightarrow> 'w sys \<Rightarrow> bool" where
  "jobsMove J s t \<longleftrightarrow> (wfJobs (J s) \<longrightarrow> wfJobs (J t) \<and> jobsProgress (J s) (J t))"

lemma progress_refl [simp]: "jobsProgress js js"
  by (auto simp: jobsProgress_def split: option.splits)

lemma progress_trans:
  assumes "jobsProgress js js'" and "jobsProgress js' js''"
  shows "jobsProgress js js''"
  unfolding jobsProgress_def
proof
  fix i
  show "case js i of Some k \<Rightarrow> \<exists>k'. js'' i = Some k' \<and> job_step\<^sup>*\<^sup>* k k'
      | None \<Rightarrow> \<forall>k'. js'' i = Some k' \<longrightarrow> (\<exists>k. freshJob k \<and> job_step\<^sup>*\<^sup>* k k')"
    using spec [OF assms(1) [unfolded jobsProgress_def], of i] spec [OF assms(2) [unfolded jobsProgress_def], of i]
    by (auto split: option.splits intro: rtranclp_trans)
qed

interpretation jobsMove: frame "jobsMove J" for J
  by unfold_locales (auto simp: jobsMove_def intro: progress_trans)

lemma jobsMove_same: "J t = J s \<Longrightarrow> jobsMove J s t"
  by (simp add: jobsMove_def)

lemma progress_put:
  assumes "js i = Some k" and "job_step k k'" and "wfJobs js"
  shows "wfJobs (js(i \<mapsto> k')) \<and> jobsProgress js (js(i \<mapsto> k'))"
  using assms step_same [OF assms(2)] by (auto simp: wfJobs_def jobsProgress_def sameJob_def split: option.splits)

lemma progress_new:
  assumes "js (jb_id k) = None" and "freshJob k" and "wfJobs js"
  shows "wfJobs (js(jb_id k \<mapsto> k)) \<and> jobsProgress js (js(jb_id k \<mapsto> k))"
  using assms by (auto simp: wfJobs_def jobsProgress_def split: option.splits)

text \<open>
  A job that was read or claimed: what is stored under its id is that job, or has a later
  version. Then a write fenced on its version meets the job itself.
\<close>

definition pinned :: "job \<Rightarrow> jobs \<Rightarrow> bool" where
  "pinned c js \<longleftrightarrow> (\<forall>k. js (jb_id c) = Some k \<longrightarrow> k = c \<or> jb_version c < jb_version k)"

lemma pinned_progress:
  assumes "jobsProgress js js'" and "pinned c js" and "js (jb_id c) \<noteq> None"
  shows "pinned c js'"
proof -
  obtain k where k: "js (jb_id c) = Some k" using assms(3) by blast
  obtain k' where k': "js' (jb_id c) = Some k'" "job_step\<^sup>*\<^sup>* k k'"
    using spec [OF assms(1) [unfolded jobsProgress_def], of "jb_id c"] k by auto
  show ?thesis using steps_same [OF k'(2)] assms(2) k k'(1) by (auto simp: pinned_def)
qed

definition settling :: "('w sys \<Rightarrow> jobs) \<Rightarrow> job \<Rightarrow> 'w sys \<Rightarrow> 'w sys \<Rightarrow> bool" where
  "settling J c s t \<longleftrightarrow>
     (wfJobs (J s) \<and> J s (jb_id c) \<noteq> None \<and> pinned c (J s) \<longrightarrow>
      wfJobs (J t) \<and> J t (jb_id c) \<noteq> None \<and> pinned c (J t) \<and> jobsProgress (J s) (J t))"

interpretation settling: frame "settling J c" for J c
  by unfold_locales (simp add: settling_def, unfold settling_def, metis progress_trans)

lemma progress_keeps: "jobsProgress js js' \<Longrightarrow> js i \<noteq> None \<Longrightarrow> js' i \<noteq> None"
  unfolding jobsProgress_def by (drule spec [of _ i]) (auto split: option.splits)

lemma settling_move: "jobsMove J s t \<Longrightarrow> settling J c s t"
  unfolding jobsMove_def settling_def using progress_keeps pinned_progress by metis

lemma settling_moves: "moves (jobsMove J) m \<Longrightarrow> moves (settling J c) m"
  by (erule moves_weaken) (rule settling_move)

text \<open>From a state that holds the job, settling it is progress.\<close>

lemma settling_at:
  assumes "moves (settling J c) m" and "J s i = Some c"
  shows "movesAt (jobsMove J) m s"
proof (rule movesAtI)
  fix t r
  assume "m s = (t, r)"
  with assms(1) have st: "settling J c s t" by (rule movesD)
  show "jobsMove J s t"
    unfolding jobsMove_def
  proof
    assume wf: "wfJobs (J s)"
    then have "jb_id c = i" using assms(2) by (simp add: wfJobs_def)
    then show "wfJobs (J t) \<and> jobsProgress (J s) (J t)" using st wf assms(2) by (simp add: settling_def pinned_def)
  qed
qed

context job_store
begin

lemma update_settling:
  assumes "\<And>n. jb_version c < n \<Longrightarrow> job_step c ((f c)\<lparr>jb_version := n\<rparr>)" and "i = jb_id c"
  shows "moves (settling J c) (jt_updateJob S tenantId i (jb_version c) f)"
proof (rule movesI)
  fix s t r
  assume "jt_updateJob S tenantId i (jb_version c) f s = (t, r)"
  then have out: "J t = J s \<or> casJob (J s) (J t) i (jb_version c) f"
    using update_law by (simp add: fencedJob_def)
  show "settling J c s t"
    unfolding settling_def
  proof
    assume pre: "wfJobs (J s) \<and> J s (jb_id c) \<noteq> None \<and> pinned c (J s)"
    from out show "wfJobs (J t) \<and> J t (jb_id c) \<noteq> None \<and> pinned c (J t) \<and> jobsProgress (J s) (J t)"
    proof
      assume "casJob (J s) (J t) i (jb_version c) f"
      then obtain k n where k: "J s i = Some k" "jb_version k = jb_version c" "jb_version c < n"
        "J t = (J s)(i \<mapsto> (f k)\<lparr>jb_version := n\<rparr>)" by (auto simp: casJob_def)
      then have "k = c" using pre assms(2) by (auto simp: pinned_def)
      then show ?thesis using progress_put [of "J s" i k "(f k)\<lparr>jb_version := n\<rparr>"] k pre assms
        by (auto dest: pinned_progress progress_keeps)
    qed (use pre in simp)
  qed
qed

lemma claim_settling:
  assumes "jb_status c = JobRunning \<longrightarrow> truthy (jb_leaseExpiresAt c) \<or> jb_leaseOwner c \<noteq> None" and "i = jb_id c"
  shows "moves (settling J c) (jt_claim S tenantId i (jb_version c) lease)"
proof (rule movesI)
  fix s t r
  assume "jt_claim S tenantId i (jb_version c) lease s = (t, r)"
  then obtain at where out: "J t = J s \<or> casJob (J s) (J t) i (jb_version c) (claimUpdate lease at)"
    using claim_law by (fastforce simp: fencedJob_def)
  show "settling J c s t"
    unfolding settling_def
  proof
    assume pre: "wfJobs (J s) \<and> J s (jb_id c) \<noteq> None \<and> pinned c (J s)"
    from out show "wfJobs (J t) \<and> J t (jb_id c) \<noteq> None \<and> pinned c (J t) \<and> jobsProgress (J s) (J t)"
    proof
      assume "casJob (J s) (J t) i (jb_version c) (claimUpdate lease at)"
      then obtain k n where k: "J s i = Some k" "jb_version k = jb_version c" "jb_version c < n"
        "J t = (J s)(i \<mapsto> (claimUpdate lease at k)\<lparr>jb_version := n\<rparr>)" by (auto simp: casJob_def)
      then have "k = c" using pre assms(2) by (auto simp: pinned_def)
      then show ?thesis
        using progress_put [of "J s" i k "(claimUpdate lease at k)\<lparr>jb_version := n\<rparr>"] k pre assms
          job_step.claimed [of c n lease at]
        by (auto dest: pinned_progress progress_keeps)
    qed (use pre in simp)
  qed
qed

lemma create_moves: "freshJob k \<Longrightarrow> moves (jobsMove J) (jt_create S k)"
proof (rule movesI)
  fix s t r
  assume new: "freshJob k" and "jt_create S k s = (t, r)"
  then have "J t = J s \<or> J s (jb_id k) = None \<and> J t = (J s)(jb_id k \<mapsto> k)"
    using create_ok [of k s t] create_rejected [of k s t] by (cases r) auto
  then show "jobsMove J s t" using progress_new [of "J s" k] new by (auto simp: jobsMove_def)
qed

lemma reset_moves:
  "moves (jobsMove J) (jt_updateJob S tenantId i v resetUpdate)"
proof (rule movesI)
  fix s t r
  assume "jt_updateJob S tenantId i v resetUpdate s = (t, r)"
  then have "J t = J s \<or> casJob (J s) (J t) i v resetUpdate"
    using update_law by (simp add: fencedJob_def)
  then show "jobsMove J s t"
    using progress_put job_step.reset by (fastforce simp: jobsMove_def casJob_def)
qed

lemma reads_move:
  "moves (jobsMove J) (jt_get S tenantId i)" "moves (jobsMove J) (jt_list S tenantId)"
  "moves (jobsMove J) (jt_listDue S tenantId now)"
  by (rule movesI, rule jobsMove_same, erule get_kept list_kept due_kept)+

text \<open>What a conditional write returns is what is stored then.\<close>

lemma update_item: "jt_updateJob S tenantId i v f s = (t, Inr (Some k)) \<Longrightarrow>
    J t i = Some k \<and> (\<exists>k0 n. J s i = Some k0 \<and> jb_version k0 = v \<and> k = (f k0)\<lparr>jb_version := n\<rparr>) \<and> jb_tenantId k = tenantId"
  by (drule update_law) (auto simp: fencedJob_def casJob_def)

lemma claim_item:
  assumes "jt_claim S tenantId i v lease s = (t, Inr (Some k))"
  obtains k0 at n where "J s i = Some k0" "jb_version k0 = v" "v < n" "k = (claimUpdate lease at k0)\<lparr>jb_version := n\<rparr>"
    "J t = (J s)(i \<mapsto> k)" "jb_status k = JobRunning" "jb_tenantId k = tenantId"
proof -
  obtain at where law: "fencedJob (J s) (J t) tenantId i v (claimUpdate lease at) (Inr (Some k))"
    using claim_law [OF assms] by blast
  then obtain k0 n where w: "J s i = Some k0" "jb_version k0 = v" "v < n" "J t = (J s)(i \<mapsto> (claimUpdate lease at k0)\<lparr>jb_version := n\<rparr>)"
    unfolding fencedJob_def casJob_def by blast
  moreover have "J t i = Some k" "jb_tenantId k = tenantId" using law by (simp_all add: fencedJob_def)
  ultimately have "k = (claimUpdate lease at k0)\<lparr>jb_version := n\<rparr>" by simp
  with w \<open>jb_tenantId k = tenantId\<close> show thesis by (intro that) (simp_all add: claimUpdate_def)
qed

end

section \<open>The service on the database\<close>

text \<open>
  A job service whose stores are the database's. Its handlers are host code: what they do to the
  stored jobs they do through the service, so along the life cycle.
\<close>

locale felt_job_service = platform E C for E :: "'w env" and C :: "'w \<Rightarrow> contents" +
  fixes SV :: "'w job_service"
  assumes stores: "js_jobStore SV = feltDbJobStore E" "js_scheduleStore SV = feltDbJobScheduleStore E"
      "js_auditSink SV = feltDbJobAuditSink E"
    and gateway: "js_authority SV = Some G \<Longrightarrow> gateway_platform E C G"
    and handlers: "(type, h) \<in> set (js_handlers SV) \<Longrightarrow> moves (onSys (jobsMove (storedJobs C))) (h k ex)"
begin

abbreviation J :: "'w sys \<Rightarrow> jobs" where "J \<equiv> storedJobs C"

lemma same_jobs: "keeps C {JOBS_COLLECTION} s t \<Longrightarrow> J t = J s"
  by (rule storedJobs_cong) (simp add: keeps_def)

lemma quiet: "moves (keeps C {JOBS_COLLECTION}) m \<Longrightarrow> moves (jobsMove J) m"
  by (erule moves_weaken) (simp add: jobsMove_def same_jobs)

lemma operation: "js_authority SV = Some G \<Longrightarrow> operation_frame E C G (jobsMove J) {JOBS_COLLECTION}"
  by (intro operation_frame.intro gateway jobsMove.frame_axioms operation_frame_axioms.intro jobsMove_same same_jobs)
    (auto simp: JOBS_COLLECTION_def EVIDENCE_COLLECTION_def)

lemma keeps_sink: "moves (keeps C {JOBS_COLLECTION}) (jk_record (js_auditSink SV) ev)"
  unfolding stores feltDbJobAuditSink_def by (auto simp: JOBS_COLLECTION_def intro!: jobEvents.keeps_insert)

lemma keeps_jobEvent: "moves (keeps C {JOBS_COLLECTION}) (jobEvent E SV ty ji si ten p at b d)"
  unfolding jobEvent_def by (intro keeps.frame_rules keeps_uuid keeps_sink)

lemma keeps_schedules:
  "moves (keeps C {JOBS_COLLECTION}) (st_create (js_scheduleStore SV) sc)"
  "moves (keeps C {JOBS_COLLECTION}) (st_get (js_scheduleStore SV) tenantId i)"
  "moves (keeps C {JOBS_COLLECTION}) (st_listDue (js_scheduleStore SV) tenantId now)"
  "moves (keeps C {JOBS_COLLECTION}) (st_updateSchedule (js_scheduleStore SV) tenantId i v f)"
  "moves (keeps C {JOBS_COLLECTION}) (st_disable (js_scheduleStore SV) tenantId i v)"
  unfolding stores feltDbJobScheduleStore_def
  by (auto simp: scheduleCreate_def scheduleGet_def scheduleListDue_def scheduleUpdate_def scheduleDisable_def casItem_def
      JOBS_COLLECTION_def JOB_SCHEDULES_COLLECTION_def
      intro!: keeps.frame_rules keeps_transaction schedules.keeps_get schedules.keeps_find schedules.keeps_cas
      split: option.splits prod.splits)

lemmas quiet_rules = keeps_now [THEN quiet] keeps_uuid [THEN quiet] keeps_nowISO [THEN quiet] keeps_sink [THEN quiet]
  keeps_jobEvent [THEN quiet] keeps_schedules [THEN quiet] keeps_attest [THEN quiet]

lemmas store_rules = jobStore.reads_move [folded stores] jobStore.reset_moves [folded stores]

lemma newJob_fresh: "freshJob (newJob i now mx input app p d)"
  by (simp add: newJob_def freshJob_def Let_def)

lemma scheduledJob_fresh: "freshJob (scheduledJob i now sc)"
  by (simp add: scheduledJob_def freshJob_def)

lemma createJobRecord_moves: "moves (jobsMove J) (createJobRecord E SV input pid app p d)"
  unfolding createJobRecord_def Let_def
  by (intro jobsMove.frame_rules quiet_rules jobStore.create_moves [folded stores] newJob_fresh)

lemma createScheduleRecord_moves: "moves (jobsMove J) (createScheduleRecord E SV input pid app p d)"
  unfolding createScheduleRecord_def Let_def by (intro jobsMove.frame_rules quiet_rules)

lemma resetJob_moves: "moves (jobsMove J) (resetJob E SV k pid)"
  unfolding resetJob_def by (intro jobsMove.frame_rules quiet_rules store_rules)

lemma disableRead_moves: "moves (jobsMove J) (disableRead E SV tenantId i sc pid)"
  unfolding disableRead_def recordScheduleAudit_def by (intro jobsMove.frame_rules quiet_rules)

lemma effect_moves:
  assumes "js_authority SV = Some G" and "quietCaller C {JOBS_COLLECTION} caller" and "\<And>ctx. moves (jobsMove J) (m ctx)"
  shows "moves (jobsMove J) (execute E G cap caller r opts (\<lambda>ctx. plain (m ctx)))"
  by (intro operation_frame.execute_moves [OF operation [OF assms(1)]] assms(2) onSys_plain assms(3))

text \<open>The operations for callers, one after another.\<close>

lemma verified_case:
  assumes "quietCaller C N caller" and "\<And>p. quietCaller C N (Verified p) \<Longrightarrow> moves (jobsMove J) (m p)"
  shows "moves (jobsMove J) (bindA (liftR (requireVerifiedPrincipal caller)) m)"
  using assms by (cases caller) (auto simp: requireVerifiedPrincipal_def intro: jobsMove.frame_rules)

lemma enqueue_moves:
  assumes "quietCaller C {JOBS_COLLECTION} caller"
  shows "moves (jobsMove J) (enqueue E SV input caller)"
  unfolding enqueue_def
  by (intro jobsMove.frame_rules createJobRecord_moves verified_case [OF assms] effect_moves)

lemma schedule_moves:
  assumes "quietCaller C {JOBS_COLLECTION} caller"
  shows "moves (jobsMove J) (schedule E SV input caller)"
  unfolding schedule_def by (intro jobsMove.frame_rules enqueue_moves assms)

lemma enqueueSystem_moves: "moves (jobsMove J) (enqueueSystem E SV input)"
  unfolding enqueueSystem_def by (intro jobsMove.frame_rules createJobRecord_moves)

lemma scheduleRecurring_moves:
  assumes "quietCaller C {JOBS_COLLECTION} caller"
  shows "moves (jobsMove J) (scheduleRecurring E SV input caller)"
  unfolding scheduleRecurring_def
  by (intro jobsMove.frame_rules quiet_rules createScheduleRecord_moves verified_case [OF assms] effect_moves)

lemma disableSchedule_moves:
  assumes "quietCaller C {JOBS_COLLECTION} caller"
  shows "moves (jobsMove J) (disableSchedule E SV tenantId i caller)"
  unfolding disableSchedule_def disableScheduleLegacy_def
  by (intro jobsMove.frame_rules quiet_rules disableRead_moves verified_case [OF assms] effect_moves)

lemma retry_moves:
  assumes "quietCaller C {JOBS_COLLECTION} caller"
  shows "moves (jobsMove J) (retry E SV tenantId i caller)"
  unfolding retry_def
  by (intro jobsMove.frame_rules store_rules resetJob_moves verified_case [OF assms] effect_moves)

lemma processRecurringSchedules_moves: "moves (jobsMove J) (processRecurringSchedules E SV tenantId)"
  unfolding processRecurringSchedules_def runSchedule_def
  by (intro jobsMove.frame_rules quiet_rules jobStore.create_moves [folded stores] scheduledJob_fresh)

text \<open>Settling a claimed job.\<close>

lemma settling_rules:
  "moves (jobsMove J) m \<Longrightarrow> moves (settling J c) m"
  by (rule settling_moves)

lemmas settling_quiet = quiet_rules [THEN settling_moves]

lemma update_claimed:
  assumes "\<And>n. jb_version c < n \<Longrightarrow> job_step c ((f c)\<lparr>jb_version := n\<rparr>)" and "i = jb_id c"
  shows "moves (settling J c) (jt_updateJob (js_jobStore SV) tenantId i (jb_version c) f)"
  unfolding stores by (rule jobStore.update_settling) (use assms in auto)

lemma completeJob_settles: "jb_status c = JobRunning \<Longrightarrow> moves (settling J c) (completeJob E SV c pid rid)"
  unfolding completeJob_def
  by (intro settling.frame_rules settling_quiet update_claimed job_step.completed) simp_all

lemma recordExecutionFailure_settles:
  "jb_status c = JobRunning \<Longrightarrow> moves (settling J c) (recordExecutionFailure E SV c pid e)"
  unfolding recordExecutionFailure_def Let_def
  by (intro settling.frame_rules settling_quiet update_claimed)
    (auto intro: job_step.failed job_step.retrying)

lemma deny_settles: "jb_status c = JobRunning \<Longrightarrow> moves (settling J c) (deny E SV c reason)"
  unfolding deny_def by (intro settling.frame_rules settling_quiet update_claimed job_step.refused) simp_all

lemma withoutTools_moves: "moves (onSys R) m \<Longrightarrow> moves R (withoutTools m)"
  by (rule movesI) (auto simp: withoutTools_def onSys_def split: prod.splits dest!: movesD)

lemma executeLegacyHandler_settles:
  assumes "jb_status c = JobRunning" and "moves (onSys (jobsMove J)) (h c None)"
  shows "moves (settling J c) (executeLegacyHandler E SV c h)"
  unfolding executeLegacyHandler_def
  by (intro settling.frame_rules completeJob_settles recordExecutionFailure_settles assms
      settling_moves [OF withoutTools_moves])

lemma settleRejected_settles:
  assumes "jb_status c = JobRunning"
  shows "moves (settling J c) (settleRejected E SV tenantId (jb_id c) c p e)"
  unfolding settleRejected_def
  by (intro settling.frame_rules settling_quiet deny_settles recordExecutionFailure_settles update_claimed
      job_step.postponed assms) (simp_all add: assms)

lemma runAuthorized_settles:
  assumes "js_authority SV = Some G" and "jb_status c = JobRunning"
    and "\<And>ex. moves (onSys (jobsMove J)) (h c ex)"
  shows "moves (settling J c) (runAuthorized E SV G tenantId (jb_id c) c h)"
proof -
  have run: "moves (settling J c) (execute E G cap (Verified p) r opts (\<lambda>ctx. h c (ex ctx)))"
    if "mintVerifiedPrincipal cl v = Inr p" for p cl v cap r opts ex
  proof (rule operation_frame.execute_moves [OF _ quiet_mint [OF that]])
    show "operation_frame E C G (settling J c) {JOBS_COLLECTION}"
      by (intro operation_frame.intro gateway assms(1) settling.frame_axioms operation_frame_axioms.intro
          settling_move jobsMove_same same_jobs)
        (simp_all add: JOBS_COLLECTION_def EVIDENCE_COLLECTION_def)
    show "moves (onSys (settling J c)) (h c (ex ctx))" for ctx
      by (rule onSys_weaken [OF assms(3)]) (rule settling_move)
  qed
  have minted: "moves (settling J c) (bindA (liftR (mintVerifiedPrincipal cl v)) m)"
    if "\<And>p. mintVerifiedPrincipal cl v = Inr p \<Longrightarrow> moves (settling J c) (m p)" for cl v and m :: "'w principal \<Rightarrow> ('w, bool) service"
    using that by (cases "mintVerifiedPrincipal cl v :: exn + 'w principal") (auto intro: settling.frame_rules)
  show ?thesis
    unfolding runAuthorized_def runAsPrincipal_def Let_def
    by (intro settling.frame_rules settling_quiet deny_settles completeJob_settles settleRejected_settles assms(2) minted run)
qed

lemma runClaimed_settles:
  assumes "jb_status c = JobRunning"
  shows "moves (settling J c) (runClaimed E SV tenantId (jb_id c) c)"
  unfolding runClaimed_def
  by (intro settling.frame_rules update_claimed job_step.refused executeLegacyHandler_settles runAuthorized_settles assms
      handlers map_of_SomeD) (simp_all add: assms)

text \<open>Taking a job over, from the state in which it was read.\<close>

lemma countAbandoned_moves:
  assumes "J s i = Some k" and "isStale now k" and "jb_id k = i"
  shows "movesAt (jobsMove J) (countAbandoned E SV tenantId i now k) s"
proof (rule settling_at [where J = J and i = i and c = k])
  show "J s i = Some k" by (rule assms(1))
next
  have "jb_status k = JobRunning" using assms(2) by (simp add: isStale_def)
  then show "moves (settling J k) (countAbandoned E SV tenantId i now k)"
    unfolding countAbandoned_def Let_def
    by (intro settling.frame_rules settling_quiet update_claimed) (auto intro: job_step.failed job_step.counted simp: assms(3))
qed

lemma countAbandoned_item:
  assumes "countAbandoned E SV tenantId i now k s = (t, Inr (Some k'))"
  shows "J t i = Some k' \<and> (\<exists>k0 n. J s i = Some k0 \<and> jb_version k0 = jb_version k \<and>
    k' = k0\<lparr>jb_attemptCount := jb_attemptCount k + 1, jb_lastError := Some (abandonedError (jb_attemptCount k + 1)), jb_version := n\<rparr>) \<and>
    jb_attemptCount k + 1 < jb_maxAttempts k"
  using assms jobStore.update_item [folded stores]
  by (auto simp: countAbandoned_def Let_def bindA_Inr_iff act_simps not_le split: if_splits)

lemma claimNow_moves:
  assumes "J s i = Some k" and "jb_id k = i"
    and "jb_status k = JobRunning \<longrightarrow> truthy (jb_leaseExpiresAt k) \<or> jb_leaseOwner k \<noteq> None"
  shows "movesAt (jobsMove J) (claimNow E SV tenantId i k) s"
proof (rule settling_at [where J = J and i = i and c = k])
  show "moves (settling J k) (claimNow E SV tenantId i k)"
    unfolding claimNow_def using jobStore.claim_settling [folded stores, of k i] assms(2,3)
    by (intro settling.frame_rules settling_quiet) simp
qed (rule assms(1))

lemma takeOverRead_moves:
  assumes "J s i = Some k" and "jb_id k = i"
  shows "movesAt (jobsMove J) (takeOverRead E SV tenantId i workerId k nowIso) s"
proof (cases "isStale nowIso k")
  case True
  have "movesAt (jobsMove J) (bindA (countAbandoned E SV tenantId i nowIso k)
     (\<lambda>counted. case counted of None \<Rightarrow> ret None | Some k' \<Rightarrow> claimNow E SV tenantId i k')) s"
  proof (intro jobsMove.movesAt_bindA countAbandoned_moves assms True)
    fix counted t
    assume run: "countAbandoned E SV tenantId i nowIso k s = (t, Inr counted)"
    have lease: "truthy (jb_leaseExpiresAt k)" using True by (simp add: isStale_def reached_def)
    have "J t i = Some k' \<and> jb_id k' = i \<and> truthy (jb_leaseExpiresAt k')" if "counted = Some k'" for k'
      using countAbandoned_item [OF run [unfolded that]] assms lease by auto
    then show "movesAt (jobsMove J) (case counted of None \<Rightarrow> ret None | Some k' \<Rightarrow> claimNow E SV tenantId i k') t"
      by (cases counted) (simp_all add: jobsMove.movesAt_done claimNow_moves)
  qed
  then show ?thesis using True by (simp add: takeOverRead_def isStale_def)
next
  case False
  then show ?thesis using claimNow_moves [OF assms] by (auto simp: takeOverRead_def jobsMove.movesAt_done)
qed

lemma takeOver_moves: "moves (jobsMove J) (takeOver E SV tenantId i workerId)"
  unfolding moves_iff_At
proof
  fix s
  have wf: "movesAt (jobsMove J) m s" if "wfJobs (J s) \<Longrightarrow> movesAt (jobsMove J) m s" for m :: "('w, job option) service"
    using that by (auto simp: movesAt_def jobsMove_def)
  show "movesAt (jobsMove J) (takeOver E SV tenantId i workerId) s"
    unfolding takeOver_def
  proof (rule wf, rule jobsMove.movesAt_bindA)
    show "movesAt (jobsMove J) (jt_get (js_jobStore SV) tenantId i) s"
      using store_rules(1) by (simp add: moves_iff_At)
  next
    fix found s1
    assume wf: "wfJobs (J s)" and get: "jt_get (js_jobStore SV) tenantId i s = (s1, Inr found)"
    have s1: "J s1 = J s" using jobStore.get_kept get stores by simp
    have "movesAt (jobsMove J) (bindA (nowISO E) (takeOverRead E SV tenantId i workerId k)) s1" if "found = Some k" for k
    proof (rule jobsMove.movesAt_bindA)
      show "movesAt (jobsMove J) (nowISO E) s1" using quiet_rules(3) by (simp add: moves_iff_At)
      have k: "J s i = Some k" using jobStore.get_sound get that stores by simp
      fix nowIso s2
      assume "nowISO E s1 = (s2, Inr nowIso)"
      then have "J s2 = J s1" by (intro same_jobs movesD [OF keeps_nowISO [of "{JOBS_COLLECTION}"]])
      then show "movesAt (jobsMove J) (takeOverRead E SV tenantId i workerId k nowIso) s2"
        using takeOverRead_moves k wf s1 by (simp add: wfJobs_def)
    qed
    then show "movesAt (jobsMove J) (case found of None \<Rightarrow> ret None
        | Some k \<Rightarrow> bindA (nowISO E) (takeOverRead E SV tenantId i workerId k)) s1"
      by (cases found) (simp_all add: jobsMove.movesAt_done)
  qed
qed

lemma claimNow_claimed:
  "claimNow E SV tenantId i k s = (t, Inr (Some c)) \<Longrightarrow>
   \<exists>u lease. jt_claim (js_jobStore SV) tenantId i (jb_version k) lease u = (t, Inr (Some c))"
  by (auto simp: claimNow_def bindA_Inr_iff liftR_iff)

lemma takeOverRead_claimed:
  assumes "takeOverRead E SV tenantId i workerId k nowIso s = (t, Inr (Some c))"
  shows "\<exists>u k'. claimNow E SV tenantId i k' u = (t, Inr (Some c))"
proof (cases "isStale nowIso k")
  case True
  then obtain u counted where
    "(case counted of None \<Rightarrow> ret None | Some k' \<Rightarrow> claimNow E SV tenantId i k') u = (t, Inr (Some c))"
    using assms by (auto simp: takeOverRead_def isStale_def bindA_Inr_iff)
  then show ?thesis by (cases counted) (auto simp: act_simps)
next
  case False
  then show ?thesis using assms by (auto simp: takeOverRead_def act_simps split: if_splits)
qed

lemma takeOver_claimed:
  assumes "takeOver E SV tenantId i workerId s = (t, Inr (Some c))"
  shows "\<exists>u v lease. jt_claim (js_jobStore SV) tenantId i v lease u = (t, Inr (Some c))"
proof -
  obtain s1 found where "(case found of None \<Rightarrow> ret None
      | Some k \<Rightarrow> bindA (nowISO E) (takeOverRead E SV tenantId i workerId k)) s1 = (t, Inr (Some c))"
    using assms unfolding takeOver_def bindA_Inr_iff by blast
  then obtain k s2 nowIso where "takeOverRead E SV tenantId i workerId k nowIso s2 = (t, Inr (Some c))"
    by (cases found) (auto simp: act_simps bindA_Inr_iff)
  from takeOverRead_claimed [OF this] obtain u k' where "claimNow E SV tenantId i k' u = (t, Inr (Some c))" by blast
  from claimNow_claimed [OF this] show ?thesis by blast
qed

lemma executeJob_moves: "moves (jobsMove J) (executeJob E SV tenantId i workerId)"
  unfolding moves_iff_At executeJob_def
proof
  fix s
  show "movesAt (jobsMove J) (bindA (takeOver E SV tenantId i workerId)
     (\<lambda>claimed. case claimed of None \<Rightarrow> ret False | Some k \<Rightarrow> runClaimed E SV tenantId i k)) s"
  proof (rule jobsMove.movesAt_bindA)
    show "movesAt (jobsMove J) (takeOver E SV tenantId i workerId) s"
      using takeOver_moves by (simp add: moves_iff_At)
  next
    fix claimed t
    assume run: "takeOver E SV tenantId i workerId s = (t, Inr claimed)"
    have wf: "movesAt (jobsMove J) m t" if "wfJobs (J t) \<Longrightarrow> movesAt (jobsMove J) m t" for m :: "('w, bool) service"
      using that by (auto simp: movesAt_def jobsMove_def)
    show "movesAt (jobsMove J) (case claimed of None \<Rightarrow> ret False | Some k \<Rightarrow> runClaimed E SV tenantId i k) t"
    proof (cases claimed)
      case (Some c)
      obtain u v lease where "jt_claim (js_jobStore SV) tenantId i v lease u = (t, Inr (Some c))"
        using takeOver_claimed [OF run [unfolded Some]] by blast
      from this [unfolded stores] have c: "J t i = Some c" "jb_status c = JobRunning" by (rule jobStore.claim_item; simp)+
      show ?thesis
      proof (rule wf)
        assume "wfJobs (J t)"
        then have "jb_id c = i" using c(1) by (simp add: wfJobs_def)
        then show ?thesis using settling_at [where J = J, OF runClaimed_settles [OF c(2)] c(1)] by (simp add: Some)
      qed
    qed (simp add: jobsMove.movesAt_done)
  qed
qed

end

section \<open>Every operation\<close>

datatype 'w job_op =
    Enqueue job_input "'w caller"
  | EnqueueSystem job_input
  | ScheduleOnce job_input "'w caller"
  | ScheduleRecurring schedule_input "'w caller"
  | DisableSchedule string string "'w caller"
  | RetryJob string string "'w caller"
  | ExecuteJob string string string
  | ProcessSchedules string

definition stateOf :: "('w, 'a) service \<Rightarrow> 'w sys \<Rightarrow> 'w sys" where
  "stateOf m s = fst (m s)"

fun runJobOp :: "'w env \<Rightarrow> 'w job_service \<Rightarrow> 'w job_op \<Rightarrow> 'w sys \<Rightarrow> 'w sys" where
  "runJobOp E SV (Enqueue input caller) = stateOf (enqueue E SV input caller)"
| "runJobOp E SV (EnqueueSystem input) = stateOf (enqueueSystem E SV input)"
| "runJobOp E SV (ScheduleOnce input caller) = stateOf (schedule E SV input caller)"
| "runJobOp E SV (ScheduleRecurring input caller) = stateOf (scheduleRecurring E SV input caller)"
| "runJobOp E SV (DisableSchedule tenantId i caller) = stateOf (disableSchedule E SV tenantId i caller)"
| "runJobOp E SV (RetryJob tenantId i caller) = stateOf (retry E SV tenantId i caller)"
| "runJobOp E SV (ExecuteJob tenantId i workerId) = stateOf (executeJob E SV tenantId i workerId)"
| "runJobOp E SV (ProcessSchedules tenantId) = stateOf (processRecurringSchedules E SV tenantId)"

fun jobOpCaller :: "'w job_op \<Rightarrow> 'w caller option" where
  "jobOpCaller (Enqueue input caller) = Some caller"
| "jobOpCaller (ScheduleOnce input caller) = Some caller"
| "jobOpCaller (ScheduleRecurring input caller) = Some caller"
| "jobOpCaller (DisableSchedule tenantId i caller) = Some caller"
| "jobOpCaller (RetryJob tenantId i caller) = Some caller"
| "jobOpCaller _ = None"

definition runJobOps :: "'w env \<Rightarrow> 'w job_service \<Rightarrow> 'w job_op list \<Rightarrow> 'w sys \<Rightarrow> 'w sys" where
  "runJobOps E SV ops s = foldl (\<lambda>s p. runJobOp E SV p s) s ops"

definition quietOps :: "('w \<Rightarrow> contents) \<Rightarrow> 'w job_op list \<Rightarrow> bool" where
  "quietOps C ops \<longleftrightarrow> list_all (\<lambda>p. pred_option (quietCaller C {JOBS_COLLECTION}) (jobOpCaller p)) ops"

lemma moves_stateOf: "moves R m \<Longrightarrow> R s (stateOf m s)"
  by (simp add: moves_def stateOf_def)

context felt_job_service
begin

lemma runJobOps_move: "quietOps C ops \<Longrightarrow> jobsMove J s (runJobOps E SV ops s)"
proof (induction ops arbitrary: s)
  case (Cons p ops)
  then have "jobsMove J s (runJobOp E SV p s)"
    by (cases p) (auto simp: quietOps_def intro!: moves_stateOf [where R = "jobsMove J"] enqueue_moves enqueueSystem_moves schedule_moves
        scheduleRecurring_moves disableSchedule_moves retry_moves executeJob_moves processRecurringSchedules_moves)
  moreover have "jobsMove J (runJobOp E SV p s) (runJobOps E SV ops (runJobOp E SV p s))"
    using Cons by (simp add: quietOps_def)
  ultimately show ?case unfolding runJobOps_def foldl_Cons using jobsMove.R_trans by blast
qed (simp add: runJobOps_def jobsMove.R_refl)

end

text \<open>
  C22: whatever sequence of operations the job service runs, handlers included, every job that was
  stored is still stored and has moved along the life cycle, every new job started fresh, and ids
  stay keys. In particular the identity of a job, its type, payload, tenant, attempts limit and
  the principal it runs as never change, and no write of a job reuses a version.
\<close>

lemma jobs_follow_lifecycle:
  assumes "felt_job_service E C SV" and "quietOps C ops" and "wfJobs (storedJobs C s)"
  shows "wfJobs (storedJobs C (runJobOps E SV ops s)) \<and>
    jobsProgress (storedJobs C s) (storedJobs C (runJobOps E SV ops s)) \<and>
    (\<forall>i k. storedJobs C s i = Some k \<longrightarrow> (\<exists>k'. storedJobs C (runJobOps E SV ops s) i = Some k' \<and> sameJob k k' \<and>
       (k' = k \<or> jb_version k < jb_version k')))"
proof -
  have move: "wfJobs (storedJobs C (runJobOps E SV ops s))" "jobsProgress (storedJobs C s) (storedJobs C (runJobOps E SV ops s))"
    using felt_job_service.runJobOps_move [OF assms(1,2), of s] assms(3) by (simp_all add: jobsMove_def)
  moreover have "\<exists>k'. storedJobs C (runJobOps E SV ops s) i = Some k' \<and> sameJob k k' \<and> (k' = k \<or> jb_version k < jb_version k')"
    if "storedJobs C s i = Some k" for i k
    using spec [OF move(2) [unfolded jobsProgress_def], of i] that steps_same by fastforce
  ultimately show ?thesis by blast
qed

context felt_job_service
begin

lemma claim_once:
  assumes "quietOps C ops" and "wfJobs (J s)" and "jobClaim E tenantId i v lease s = (t, Inr (Some k))"
    and "jobClaim E tenant' i v lease' (runJobOps E SV ops t) = (u, r)"
  shows "r \<noteq> Inr (Some k') \<and> J u = J (runJobOps E SV ops t)"
proof -
  have first: "jt_claim (feltDbJobStore E) tenantId i v lease s = (t, Inr (Some k))"
    and second: "jt_claim (feltDbJobStore E) tenant' i v lease' (runJobOps E SV ops t) = (u, r)"
    using assms(3,4) by (simp_all add: feltDbJobStore_def)
  obtain k0 at n where k: "J s i = Some k0" "v < n" "k = (claimUpdate lease at k0)\<lparr>jb_version := n\<rparr>" "J t = (J s)(i \<mapsto> k)"
    using jobStore.claim_item [OF first] by metis
  have "wfJobs (J t)" using assms(2) k by (auto simp: wfJobs_def claimUpdate_def)
  then have "jobsProgress (J t) (J (runJobOps E SV ops t))"
    using runJobOps_move [OF assms(1), of t] by (simp add: jobsMove_def)
  from spec [OF this [unfolded jobsProgress_def], of i] obtain k1 where k1: "J (runJobOps E SV ops t) i = Some k1"
    "job_step\<^sup>*\<^sup>* k k1" by (auto simp: k(4))
  have "v < jb_version k1" using steps_same [OF k1(2)] k(2,3) by auto
  then have "\<not> casJob (J (runJobOps E SV ops t)) (J u) i v (claimUpdate lease' at')" for at'
    using k1(1) by (auto simp: casJob_def)
  then show ?thesis using jobStore.claim_law [OF second] by (auto simp: fencedJob_def)
qed

end

text \<open>
  C24: a claim is exclusive. Of any number of workers that read the same version of a job, at most
  one claims it: after a successful claim, whatever the service did in between, another claim on
  that version returns nothing and leaves the jobs as they are.
\<close>

lemma claim_exclusive:
  assumes "felt_job_service E C SV" and "quietOps C ops" and "wfJobs (storedJobs C s)"
    and "jobClaim E tenantId i v lease s = (t, Inr (Some k))"
    and "jobClaim E tenant' i v lease' (runJobOps E SV ops t) = (u, r)"
  shows "r \<noteq> Inr (Some k') \<and> storedJobs C u = storedJobs C (runJobOps E SV ops t)"
  using felt_job_service.claim_once [OF assms] .

end
