(* ===== verification/JobRuns.thy ===== *)
theory JobRuns
  imports JobLifecycle
begin

text \<open>
  What single operations of the job service establish: who a handler runs for, leases, abandoned
  attempts, the delay between attempts, and the time of the next run of a schedule.
\<close>

section \<open>Who a handler runs for\<close>

context felt_job_service
begin

lemma keeps_evidence_takeOver: "moves (keeps C {EVIDENCE_COLLECTION}) (takeOver E SV tenantId i workerId)"
proof -
  have store: "moves (keeps C {EVIDENCE_COLLECTION}) (jt_get (js_jobStore SV) tenantId i)"
    "moves (keeps C {EVIDENCE_COLLECTION}) (jt_updateJob (js_jobStore SV) tenantId i v f)"
    "moves (keeps C {EVIDENCE_COLLECTION}) (jt_claim (js_jobStore SV) tenantId i v lease)"
    "moves (keeps C {EVIDENCE_COLLECTION}) (jk_record (js_auditSink SV) ev)" for v f lease ev
    unfolding stores feltDbJobStore_def feltDbJobAuditSink_def
    by (auto simp: jobGet_def jobUpdate_def jobClaim_def casItem_def EVIDENCE_COLLECTION_def
        intro!: keeps.frame_rules jobs.keeps_get jobs.keeps_cas jobEvents.keeps_insert keeps_date
        split: option.splits prod.splits)
  show ?thesis
    unfolding takeOver_def takeOverRead_def countAbandoned_def claimNow_def jobEvent_def Let_def
    by (intro keeps.frame_rules store keeps_now keeps_nowISO keeps_uuid)
qed

end

lemma takeOverRead_handlers: "takeOverRead E (setHandler SV type h) tenantId i w k = takeOverRead E SV tenantId i w k"
  by (rule ext) (simp add: takeOverRead_def claimNow_def [abs_def] countAbandoned_def jobEvent_def setHandler_def Let_def
      cong: if_cong option.case_cong sum.case_cong)

lemma takeOver_handlers [simp]: "takeOver E (setHandler SV type h) tenantId i w = takeOver E SV tenantId i w"
  unfolding takeOver_def takeOverRead_handlers by (simp add: setHandler_def)

lemma setHandler_fields [simp]:
  "js_jobStore (setHandler SV type h) = js_jobStore SV" "js_scheduleStore (setHandler SV type h) = js_scheduleStore SV"
  "js_auditSink (setHandler SV type h) = js_auditSink SV" "js_authority (setHandler SV type h) = js_authority SV"
  "js_handlers (setHandler SV type h) = (type, h) # filter (\<lambda>e. fst e \<noteq> type) (js_handlers SV)"
  by (simp_all add: setHandler_def)

lemma event_handlers [simp]: "jobEvent E (setHandler SV type h) = jobEvent E SV"
  by (intro ext) (simp add: jobEvent_def)

lemma settling_handlers [simp]:
  "deny E (setHandler SV type h) = deny E SV" "completeJob E (setHandler SV type h) = completeJob E SV"
  "recordExecutionFailure E (setHandler SV type h) = recordExecutionFailure E SV"
  by (intro ext; simp add: deny_def completeJob_def recordExecutionFailure_def cong: if_cong option.case_cong sum.case_cong)+

lemma running_handlers [simp]:
  "settleRejected E (setHandler SV type h) = settleRejected E SV"
  "executeLegacyHandler E (setHandler SV type h) = executeLegacyHandler E SV"
  by (intro ext; simp add: settleRejected_def executeLegacyHandler_def cong: if_cong option.case_cong sum.case_cong)+

lemma runAsPrincipal_handlers [simp]: "runAsPrincipal E (setHandler SV type h) = runAsPrincipal E SV"
  by (intro ext) (simp add: runAsPrincipal_def)

lemma runAuthorized_handlers [simp]: "runAuthorized E (setHandler SV type h) = runAuthorized E SV"
  by (intro ext) (simp add: runAuthorized_def cong: if_cong option.case_cong sum.case_cong)

lemma runClaimed_handlers:
  "runClaimed E (setHandler SV type h) tenantId i k =
     (if jb_type k = type
      then (case js_authority SV of None \<Rightarrow> executeLegacyHandler E SV k h
        | Some G \<Rightarrow> if startsWith (jb_type k) SYSTEM_JOB_TYPE_PREFIX then executeLegacyHandler E SV k h
            else runAuthorized E SV G tenantId i k h)
      else runClaimed E SV tenantId i k)"
proof -
  have "map_of (filter (\<lambda>e. fst e \<noteq> type) hs) ty = map_of hs ty" if "ty \<noteq> type" for ty and hs :: "(string \<times> 'a job_handler) list"
    using that by (induction hs) auto
  then show ?thesis by (simp add: runClaimed_def cong: if_cong option.case_cong sum.case_cong)
qed

lemma runAuthorized_differs:
  assumes "runAuthorized E SV G tenantId i k h s \<noteq> runAuthorized E SV G tenantId i k h' s"
  shows "\<exists>dp s1 p requestId s2 s3 ctx. jb_principal k = Some dp \<and> dp_tenantId dp = tenantId \<and>
    attest E G (Some dp) [''jobs.create'', ''schedules.create''] s = (s1, Inr ()) \<and>
    mintVerifiedPrincipal (runClaims dp (jb_id k @ '':'' @ intString (jb_attemptCount k + 1))) ByJob = Inr p \<and>
    authorize E G ''jobs.execute'' (Verified p)
      \<lparr>rs_type = ''job'', rs_tenantId = tenantId, rs_id = Some (jb_id k), rs_attributes = Some [(''jobType'', jb_type k)]\<rparr>
      requestId s2 = (s3, Inr ctx)"
proof -
  obtain dp where dp: "jb_principal k = Some dp" "dp_tenantId dp = tenantId"
    using assms by (cases "jb_principal k"; cases "dp_tenantId (the (jb_principal k)) = tenantId")
      (simp_all add: runAuthorized_def Let_def)
  obtain s1 a where att: "attest E G (Some dp) [''jobs.create'', ''schedules.create''] s = (s1, a)"
    by (cases "attest E G (Some dp) [''jobs.create'', ''schedules.create''] s")
  let ?runId = "jb_id k @ '':'' @ intString (jb_attemptCount k + 1)"
  obtain u where a: "a = Inr u" using assms att dp
    by (cases a) (auto simp: runAuthorized_def Let_def bindA_settle)
  let ?minted = "mintVerifiedPrincipal (runClaims dp ?runId) ByJob :: exn + 'a principal"
  have eq: "runAuthorized E SV G tenantId i k g s = bindA (liftR ?minted) (runAsPrincipal E SV G tenantId i k g ?runId) s1" for g
    using att dp a by (simp add: runAuthorized_def Let_def bindA_settle)
  obtain p where p: "?minted = Inr p"
    using assms unfolding eq by (cases ?minted) auto
  let ?run = "\<lambda>h. execute E G ''jobs.execute'' (Verified p)
     \<lparr>rs_type = ''job'', rs_tenantId = tenantId, rs_id = Some (jb_id k), rs_attributes = Some [(''jobType'', jb_type k)]\<rparr>
     ((serviceOptions ''jobs'')\<lparr>eo_requestId := Some ?runId\<rparr>)
     (\<lambda>ctx. h k (Some \<lparr>jx_principal = p, jx_context = ctx, jx_runId = ?runId\<rparr>))"
  have "?run h s1 \<noteq> ?run h' s1"
  proof
    assume "?run h s1 = ?run h' s1"
    then have "bindA (?run h) m s1 = bindA (?run h') m s1" for m :: "unit \<Rightarrow> ('a, bool) service"
      unfolding bindA_def by (rule arg_cong)
    then have "runAsPrincipal E SV G tenantId i k h ?runId p s1 = runAsPrincipal E SV G tenantId i k h' ?runId p s1"
      unfolding runAsPrincipal_def catchA_def by simp
    then show False using assms unfolding eq p by simp
  qed
  from execute_differs [OF this] show ?thesis using dp att a p by (metis (full_types) old.unit.exhaust)
qed

context felt_job_service
begin

lemma handler_runs_authorized:
  assumes "js_authority SV = Some G" and "\<not> startsWith type SYSTEM_JOB_TYPE_PREFIX"
    and "executeJob E (setHandler SV type h) tenantId i w s \<noteq> executeJob E (setHandler SV type h') tenantId i w s"
  shows "\<exists>t k dp decisionId j row p requestId s2 s3 ctx.
    takeOver E SV tenantId i w s = (t, Inr (Some k)) \<and> J t i = Some k \<and> jb_status k = JobRunning \<and> jb_tenantId k = tenantId \<and>
    jb_type k = type \<and> jb_principal k = Some dp \<and> dp_tenantId dp = tenantId \<and>
    dp_authorizedBy dp = Some decisionId \<and> C (outside s) EVIDENCE_COLLECTION j = Some (EvidenceDoc row) \<and>
    ev_decisionId row = Some decisionId \<and> ev_decision row = DecisionAllow \<and> ev_application row = gw_application G \<and>
    ev_tenantId row = tenantId \<and> ev_principalId row = dp_principalId dp \<and> ev_delegationId row = dp_delegationId dp \<and>
    ev_capability row \<in> {''jobs.create'', ''schedules.create''} \<and>
    pr_principalId p = dp_principalId dp \<and> pr_verifiedBy p = ByJob \<and>
    authorize E G ''jobs.execute'' (Verified p)
      \<lparr>rs_type = ''job'', rs_tenantId = tenantId, rs_id = Some (jb_id k), rs_attributes = Some [(''jobType'', jb_type k)]\<rparr>
      requestId s2 = (s3, Inr ctx)"
proof -
  obtain t q where take: "takeOver E SV tenantId i w s = (t, q)" by (cases "takeOver E SV tenantId i w s")
  obtain k where q: "q = Inr (Some k)"
    using assms(3) take by (cases q; cases "projr q") (auto simp: executeJob_def bindA_def act_simps)
  have diff: "runClaimed E (setHandler SV type h) tenantId i k t \<noteq> runClaimed E (setHandler SV type h') tenantId i k t"
    using assms(3) take q by (simp add: executeJob_def bindA_step)
  have type: "jb_type k = type" using diff by (cases "jb_type k = type") (simp_all add: runClaimed_handlers)
  have "runAuthorized E SV G tenantId i k h t \<noteq> runAuthorized E SV G tenantId i k h' t"
    using diff type assms(1,2) by (simp add: runClaimed_handlers)
  from runAuthorized_differs [OF this] obtain dp s1 p requestId s2 s3 ctx where
    dp: "jb_principal k = Some dp" "dp_tenantId dp = tenantId"
    and att: "attest E G (Some dp) [''jobs.create'', ''schedules.create''] t = (s1, Inr ())"
    and p: "mintVerifiedPrincipal (runClaims dp (jb_id k @ '':'' @ intString (jb_attemptCount k + 1))) ByJob = Inr p"
    and auth: "authorize E G ''jobs.execute'' (Verified p)
      \<lparr>rs_type = ''job'', rs_tenantId = tenantId, rs_id = Some (jb_id k), rs_attributes = Some [(''jobType'', jb_type k)]\<rparr>
      requestId s2 = (s3, Inr ctx)" by blast
  have "C (outside t) EVIDENCE_COLLECTION = C (outside s) EVIDENCE_COLLECTION"
    by (rule keepsD [OF keeps_evidence_takeOver take]) simp
  with attest_backed [OF platform_axioms att] dp(2) obtain decisionId j row where ev:
    "dp_authorizedBy dp = Some decisionId" "C (outside s) EVIDENCE_COLLECTION j = Some (EvidenceDoc row)"
    "ev_decisionId row = Some decisionId" "ev_decision row = DecisionAllow" "ev_application row = gw_application G"
    "ev_tenantId row = tenantId" "ev_principalId row = dp_principalId dp" "ev_delegationId row = dp_delegationId dp"
    "ev_capability row \<in> {''jobs.create'', ''schedules.create''}" by auto
  have pr: "pr_principalId p = dp_principalId dp" "pr_verifiedBy p = ByJob"
    using p by (auto simp: mintVerifiedPrincipal_def runClaims_def bindR_Inr_iff claimedText_def split: if_splits)
  obtain u v lease where "jt_claim (js_jobStore SV) tenantId i v lease u = (t, Inr (Some k))"
    using takeOver_claimed [OF take [unfolded q]] by blast
  from this [unfolded stores] have "J t i = Some k" "jb_status k = JobRunning" "jb_tenantId k = tenantId"
    by (rule jobStore.claim_item; simp)+
  then show ?thesis using take [unfolded q] type dp ev pr auth by blast
qed

text \<open>Without authority, and for the service's own job types, a claimed job runs unauthorized.\<close>

lemma handler_runs_legacy:
  assumes "takeOver E SV tenantId i w s = (t, Inr (Some k))" and "jb_type k = type"
    and "js_authority SV = None \<or> startsWith type SYSTEM_JOB_TYPE_PREFIX"
  shows "executeJob E (setHandler SV type h) tenantId i w s = executeLegacyHandler E SV k h t"
  using assms by (auto simp: executeJob_def bindA_step runClaimed_handlers split: option.splits)

lemma handler_needs_claim:
  assumes "executeJob E (setHandler SV type h) tenantId i w s \<noteq> executeJob E (setHandler SV type h') tenantId i w s"
  shows "\<exists>t k. takeOver E SV tenantId i w s = (t, Inr (Some k)) \<and> J t i = Some k \<and> jb_status k = JobRunning \<and>
    jb_tenantId k = tenantId \<and> jb_type k = type"
proof -
  obtain t q where take: "takeOver E SV tenantId i w s = (t, q)" by (cases "takeOver E SV tenantId i w s")
  obtain k where q: "q = Inr (Some k)"
    using assms take by (cases q; cases "projr q") (auto simp: executeJob_def bindA_def act_simps)
  have "runClaimed E (setHandler SV type h) tenantId i k t \<noteq> runClaimed E (setHandler SV type h') tenantId i k t"
    using assms take q by (simp add: executeJob_def bindA_step)
  then have "jb_type k = type" by (cases "jb_type k = type") (simp_all add: runClaimed_handlers)
  moreover obtain u v lease where "jt_claim (js_jobStore SV) tenantId i v lease u = (t, Inr (Some k))"
    using takeOver_claimed [OF take [unfolded q]] by blast
  from this [unfolded stores] have "J t i = Some k" "jb_status k = JobRunning" "jb_tenantId k = tenantId"
    by (rule jobStore.claim_item; simp)+
  ultimately show ?thesis using take q by blast
qed

end

text \<open>
  C23: what a handler does can only matter when the job it runs for was claimed in its tenant and is of
  its type. With an authority, and for the job types of applications, the job must also carry a durable
  principal of that tenant, a stored evidence row of an allowed creation must back that principal, and
  the gateway must have authorized \<open>jobs.execute\<close> on this job for it; otherwise the run is the same
  whatever the handler is. Without an authority (the legacy mode), and for the job types that begin with
  \<open>appport.\<close>, a claimed job runs its handler with none of these checks.
\<close>

lemma handler_needs_authorization:
  assumes "felt_job_service E C SV"
    and "executeJob E (setHandler SV type h) tenantId i w s \<noteq> executeJob E (setHandler SV type h') tenantId i w s"
  shows "\<exists>t k. takeOver E SV tenantId i w s = (t, Inr (Some k)) \<and> storedJobs C t i = Some k \<and> jb_status k = JobRunning \<and>
    jb_tenantId k = tenantId \<and> jb_type k = type \<and>
    (case js_authority SV of
       None \<Rightarrow> executeJob E (setHandler SV type h) tenantId i w s = executeLegacyHandler E SV k h t
     | Some G \<Rightarrow>
        if startsWith type SYSTEM_JOB_TYPE_PREFIX
        then executeJob E (setHandler SV type h) tenantId i w s = executeLegacyHandler E SV k h t
        else \<exists>dp decisionId j row p requestId s2 s3 ctx.
          jb_principal k = Some dp \<and> dp_tenantId dp = tenantId \<and>
          dp_authorizedBy dp = Some decisionId \<and> C (outside s) EVIDENCE_COLLECTION j = Some (EvidenceDoc row) \<and>
          ev_decisionId row = Some decisionId \<and> ev_decision row = DecisionAllow \<and> ev_application row = gw_application G \<and>
          ev_tenantId row = tenantId \<and> ev_principalId row = dp_principalId dp \<and> ev_delegationId row = dp_delegationId dp \<and>
          ev_capability row \<in> {''jobs.create'', ''schedules.create''} \<and>
          pr_principalId p = dp_principalId dp \<and> pr_verifiedBy p = ByJob \<and>
          authorize E G ''jobs.execute'' (Verified p)
            \<lparr>rs_type = ''job'', rs_tenantId = tenantId, rs_id = Some (jb_id k), rs_attributes = Some [(''jobType'', jb_type k)]\<rparr>
            requestId s2 = (s3, Inr ctx))"
proof -
  obtain t k where k: "takeOver E SV tenantId i w s = (t, Inr (Some k))" "storedJobs C t i = Some k" "jb_status k = JobRunning"
      "jb_tenantId k = tenantId" "jb_type k = type"
    using felt_job_service.handler_needs_claim [OF assms] by blast
  show ?thesis
  proof (cases "js_authority SV")
    case None
    then show ?thesis using k felt_job_service.handler_runs_legacy [OF assms(1) k(1,5)] by simp
  next
    case (Some G)
    show ?thesis
    proof (cases "startsWith type SYSTEM_JOB_TYPE_PREFIX")
      case True
      then show ?thesis using k Some felt_job_service.handler_runs_legacy [OF assms(1) k(1,5)] by simp
    next
      case False
      from felt_job_service.handler_runs_authorized [OF assms(1) Some False assms(2)] k show ?thesis
        using Some False by auto
    qed
  qed
qed

section \<open>Leases\<close>

context felt_job_service
begin

lemma get_job:
  assumes "jt_get (js_jobStore SV) tenantId i s = (t, Inr found)"
  shows "J t = J s" and "found = Some k \<Longrightarrow> J s i = Some k \<and> jb_tenantId k = tenantId"
  using assms jobStore.get_kept [of tenantId i s t "Inr found"] jobStore.get_sound [of tenantId i s t] stores by auto

text \<open>The stages of taking a job over, for a run that returned.\<close>

lemma takeOver_stages:
  assumes "takeOver E SV tenantId i w s = (t, q)"
  obtains (rejected) e where "q = Inl e" "J t = J s"
    | (missing) "q = Inr None" "J t = J s"
    | (read) k u nowIso where "J s i = Some k" "jb_tenantId k = tenantId" "J u = J s"
        "\<exists>s1. jt_get (js_jobStore SV) tenantId i s = (s1, Inr (Some k)) \<and> nowISO E s1 = (u, Inr nowIso)"
        "takeOverRead E SV tenantId i w k nowIso u = (t, q)"
proof -
  obtain s1 a where get: "jt_get (js_jobStore SV) tenantId i s = (s1, a)" by (cases "jt_get (js_jobStore SV) tenantId i s")
  have kept: "J s1 = J s" using jobStore.get_kept get stores by simp
  show thesis
  proof (cases a)
    case (Inl e)
    then have "t = s1 \<and> q = Inl e" using assms get by (simp add: takeOver_def bindA_fail)
    then show thesis using kept rejected by simp
  next
    case (Inr found)
    show thesis
    proof (cases found)
      case None
      then have "t = s1 \<and> q = Inr None" using assms get Inr by (simp add: takeOver_def bindA_step act_simps)
      then show thesis using kept missing by simp
    next
      case (Some k)
      obtain u b where now: "nowISO E s1 = (u, b)" by (cases "nowISO E s1")
      have run: "bindA (nowISO E) (takeOverRead E SV tenantId i w k) s1 = (t, q)"
        using assms get Inr Some by (simp add: takeOver_def bindA_step)
      have ju: "J u = J s" using same_jobs [OF movesD [OF keeps_nowISO now]] kept by simp
      show thesis
      proof (cases b)
        case (Inl e)
        then have "t = u \<and> q = Inl e" using run now by (simp add: bindA_fail)
        then show thesis using ju rejected by simp
      next
        case (Inr nowIso)
        then have "takeOverRead E SV tenantId i w k nowIso u = (t, q)" using run now by (simp add: bindA_step)
        moreover have "jt_get (js_jobStore SV) tenantId i s = (s1, Inr (Some k)) \<and> nowISO E s1 = (u, Inr nowIso)"
          using get now Inr Some \<open>a = Inr found\<close> by simp
        ultimately show thesis using read get_job(2) [OF get [unfolded \<open>a = Inr found\<close>]] Some ju by blast
      qed
    qed
  qed
qed

lemma live_lease_refused:
  assumes "J s i = Some k" and "jb_status k = JobRunning" and "jb_leaseOwner k \<noteq> Some w"
    and "\<And>s1 u nowIso. jt_get (js_jobStore SV) tenantId i s = (s1, Inr (Some k)) \<Longrightarrow> nowISO E s1 = (u, Inr nowIso) \<Longrightarrow>
      \<not> isStale nowIso k"
    and "executeJob E SV tenantId i w s = (t, r)"
  shows "J t = J s \<and> r \<noteq> Inr True"
proof -
  obtain u q where take: "takeOver E SV tenantId i w s = (u, q)" by (cases "takeOver E SV tenantId i w s")
  have "J u = J s \<and> (\<forall>c. q \<noteq> Inr (Some c))"
    using take
  proof (cases rule: takeOver_stages)
    case (read k' v nowIso)
    then have "k' = k" using assms(1) by simp
    moreover have "\<not> isStale nowIso k" using read(4) assms(4) \<open>k' = k\<close> by blast
    ultimately have "takeOverRead E SV tenantId i w k' nowIso v = (v, Inr None)"
      using assms(2,3) by (simp add: takeOverRead_def act_simps)
    then show ?thesis using read by simp
  qed simp_all
  then show ?thesis using assms(5) take
    by (cases q; cases "projr q") (auto simp: executeJob_def bindA_def act_simps)
qed

lemma written:
  assumes "jt_updateJob (js_jobStore SV) tenantId i v f s = (t, Inr q)" and "J s i = Some k" and "jb_version k = v"
  shows "\<exists>n. v < n \<and> J t = (J s)(i \<mapsto> (f k)\<lparr>jb_version := n\<rparr>) \<and> (\<forall>c. q = Some c \<longrightarrow> c = (f k)\<lparr>jb_version := n\<rparr>)"
  using jobStore.update_law [OF assms(1) [unfolded stores]] assms(2,3) by (auto simp: fencedJob_def casJob_def)

lemma countAbandoned_result:
  assumes "countAbandoned E SV tenantId i nowIso k s = (t, Inr q)" and "J s i = Some k"
  shows "\<exists>k'. J t i = Some k' \<and> sameJob k k' \<and> jb_attemptCount k' = jb_attemptCount k + 1 \<and>
     jb_status k' = (if jb_attemptCount k + 1 < jb_maxAttempts k then jb_status k else JobFailed) \<and>
     (\<forall>c. q = Some c \<longrightarrow> c = k' \<and> jb_attemptCount k + 1 < jb_maxAttempts k)"
proof (cases "jb_attemptCount k + 1 < jb_maxAttempts k")
  case True
  let ?f = "\<lambda>x. x\<lparr>jb_attemptCount := jb_attemptCount k + 1, jb_lastError := Some (abandonedError (jb_attemptCount k + 1))\<rparr>"
  have "jt_updateJob (js_jobStore SV) tenantId i (jb_version k) ?f s = (t, Inr q)"
    using assms(1) True by (simp add: countAbandoned_def Let_def)
  from written [OF this assms(2) refl] True show ?thesis by (auto simp: sameJob_def)
next
  case False
  let ?f = "\<lambda>x. x\<lparr>jb_status := JobFailed, jb_attemptCount := jb_attemptCount k + 1,
      jb_lastError := Some (abandonedError (jb_attemptCount k + 1))\<rparr>"
  obtain u failed v x where upd: "jt_updateJob (js_jobStore SV) tenantId i (jb_version k) ?f s = (u, Inr failed)"
    and event: "(case failed of None \<Rightarrow> ret () | Some _ \<Rightarrow> jobEvent E SV ''job.failed'' (Some i) None tenantId (jobActor k ''system'')
        nowIso False (Some [(''error'', JStr (abandonedError (jb_attemptCount k + 1))), (''attemptCount'', JNum (jb_attemptCount k + 1))])) u
        = (v, Inr x)"
    and q: "q = None" "t = v"
    using assms(1) False by (auto simp: countAbandoned_def Let_def bindA_Inr_iff act_simps)
  have "moves (keeps C {JOBS_COLLECTION}) (case failed of None \<Rightarrow> ret () | Some _ \<Rightarrow> jobEvent E SV ''job.failed'' (Some i) None tenantId (jobActor k ''system'')
        nowIso False (Some [(''error'', JStr (abandonedError (jb_attemptCount k + 1))), (''attemptCount'', JNum (jb_attemptCount k + 1))]))"
    by (intro keeps.frame_rules keeps_jobEvent)
  from same_jobs [OF movesD [OF this event]] have "J v = J u" .
  with written [OF upd assms(2) refl] False q show ?thesis by (auto simp: sameJob_def)
qed

lemma claimNow_result:
  assumes "claimNow E SV tenantId i k s = (t, Inr (Some c))" and "J s i = Some k"
  shows "J t i = Some c \<and> sameJob k c \<and> jb_attemptCount c = jb_attemptCount k \<and> jb_status c = JobRunning \<and> jb_version k < jb_version c"
proof -
  obtain u lease n where "jt_claim (js_jobStore SV) tenantId i (jb_version k) lease u = (t, Inr (Some c))"
    and now: "draw (e_now E) s = (u, Inr n)"
    using assms(1) by (auto simp: claimNow_def bindA_Inr_iff liftR_iff)
  moreover have "J u = J s" using same_jobs [OF movesD [OF keeps_now now]] .
  ultimately show ?thesis
    unfolding stores using assms(2) by (elim jobStore.claim_item) (auto simp: claimUpdate_def sameJob_def)
qed

text \<open>A job taken over while running has one attempt more, and attempts left.\<close>

lemma takeOver_running:
  assumes "takeOver E SV tenantId i w s = (t, Inr (Some c))" and "J s i = Some k" and "jb_status k = JobRunning"
    and "jb_leaseOwner k = None"
  shows "J t i = Some c \<and> sameJob k c \<and> jb_status c = JobRunning \<and> jb_attemptCount c = jb_attemptCount k + 1 \<and>
    jb_attemptCount c < jb_maxAttempts c"
  using assms(1)
proof (cases rule: takeOver_stages)
  case (read k' u nowIso)
  then have k: "k' = k" "J u i = Some k" using assms(2) by simp_all
  have stale: "isStale nowIso k"
    using read(5) assms(3,4) k by (auto simp: takeOverRead_def act_simps split: if_splits)
  obtain v counted where count: "countAbandoned E SV tenantId i nowIso k u = (v, Inr counted)"
    and rest: "(case counted of None \<Rightarrow> ret None | Some k' \<Rightarrow> claimNow E SV tenantId i k') v = (t, Inr (Some c))"
    using read(5) k stale assms(3) by (auto simp: takeOverRead_def bindA_Inr_iff isStale_def)
  obtain k1 where k1: "counted = Some k1" and claim: "claimNow E SV tenantId i k1 v = (t, Inr (Some c))"
    using rest by (cases counted) (simp_all add: act_simps)
  have item: "J v i = Some k1" "sameJob k k1" "jb_attemptCount k1 = jb_attemptCount k + 1" "jb_attemptCount k + 1 < jb_maxAttempts k"
    using countAbandoned_result [OF count k(2)] k1 by auto
  show ?thesis using claimNow_result [OF claim item(1)] item by (auto simp: sameJob_def)
qed simp_all

end

text \<open>
  Runs that are abandoned: a worker takes the job over and stops before it settles it. In between
  anything may happen that leaves the stored jobs as they are, the passing of time above all.
\<close>

inductive abandonedRuns :: "'w env \<Rightarrow> 'w job_service \<Rightarrow> ('w sys \<Rightarrow> jobs) \<Rightarrow> string \<Rightarrow> string \<Rightarrow> nat \<Rightarrow> 'w sys \<Rightarrow> 'w sys \<Rightarrow> bool"
  for E SV J tenantId i where
  none: "abandonedRuns E SV J tenantId i 0 s s"
| run: "takeOver E SV tenantId i w s = (t, Inr (Some c)) \<Longrightarrow> J u = J t \<Longrightarrow> abandonedRuns E SV J tenantId i n u v \<Longrightarrow>
    abandonedRuns E SV J tenantId i (Suc n) s v"

context felt_job_service
begin

lemma abandoned_count:
  assumes "abandonedRuns E SV J tenantId i n s t" and "J s i = Some k" and "jb_status k = JobRunning" and "jb_leaseOwner k = None"
    and "jb_attemptCount k < jb_maxAttempts k"
  shows "\<exists>c. J t i = Some c \<and> jb_attemptCount c = jb_attemptCount k + int n \<and> jb_maxAttempts c = jb_maxAttempts k \<and>
    jb_attemptCount c < jb_maxAttempts c"
  using assms
proof (induction arbitrary: k rule: abandonedRuns.induct)
  case (run w s t c u n v)
  from takeOver_running [OF run.hyps(1) run.prems(1,2,3)] have
    c: "J t i = Some c" "sameJob k c" "jb_status c = JobRunning" "jb_attemptCount c = jb_attemptCount k + 1"
      "jb_attemptCount c < jb_maxAttempts c" by auto
  with run.IH [of c] run.hyps(2) run.prems show ?case by (auto simp: sameJob_def)
qed auto

end


text \<open>
  C25: a running job is held by its lease. When the clock, as a run reads it, has not reached the end
  of the lease, the run of a worker that does not own it changes no stored job and reports no
  success.
\<close>

lemma live_lease_respected:
  assumes "felt_job_service E C SV" and "storedJobs C s i = Some k" and "jb_status k = JobRunning" and "jb_leaseOwner k \<noteq> Some w"
    and "\<forall>s1 u nowIso. jobGet E tenantId i s = (s1, Inr (Some k)) \<longrightarrow> nowISO E s1 = (u, Inr nowIso) \<longrightarrow> \<not> isStale nowIso k"
    and "executeJob E SV tenantId i w s = (t, r)"
  shows "storedJobs C t = storedJobs C s \<and> r \<noteq> Inr True"
  using felt_job_service.live_lease_refused [OF assms(1-4) _ assms(6)] assms(5) felt_job_service.stores(1) [OF assms(1)]
  by (simp add: feltDbJobStore_def)

section \<open>The delay between attempts\<close>

context felt_job_service
begin

lemma failure_recorded:
  assumes "recordExecutionFailure E SV c pid e s = (t, Inr u)" and "J s (jb_id c) = Some c"
  shows "\<exists>n k'. jb_version c < n \<and> J t = (J s)(jb_id c \<mapsto> k'\<lparr>jb_version := n\<rparr>) \<and>
    (if jb_maxAttempts c \<le> jb_attemptCount c + 1
     then k' = c\<lparr>jb_status := JobFailed, jb_attemptCount := jb_attemptCount c + 1, jb_lastError := Some (errorMessage e)\<rparr>
     else \<exists>now x y. e_now E x = (y, now) \<and> k' = c\<lparr>jb_status := JobRetrying,
       jb_nextAttemptAt := Some (isoString (now + 1000 * 2 ^ nat (jb_attemptCount c))),
       jb_lastError := Some (errorMessage e), jb_attemptCount := jb_attemptCount c + 1\<rparr>)"
proof (cases "jb_maxAttempts c \<le> jb_attemptCount c + 1")
  case True
  let ?f = "\<lambda>x. x\<lparr>jb_status := JobFailed, jb_attemptCount := jb_attemptCount c + 1, jb_lastError := Some (errorMessage e)\<rparr>"
  obtain s1 at s2 q where now: "nowISO E s = (s1, Inr at)"
    and upd: "jt_updateJob (js_jobStore SV) (jb_tenantId c) (jb_id c) (jb_version c) ?f s1 = (s2, Inr q)"
    and event: "jobEvent E SV ''job.failed'' (Some (jb_id c)) None (jb_tenantId c) pid at False
          (Some [(''error'', JStr (errorMessage e)), (''attemptCount'', JNum (jb_attemptCount c + 1))]) s2 = (t, Inr u)"
    using assms(1) True by (auto simp: recordExecutionFailure_def Let_def bindA_Inr_iff)
  have "J s1 = J s" using same_jobs [OF movesD [OF keeps_nowISO now]] .
  moreover have "J t = J s2" using same_jobs [OF movesD [OF keeps_jobEvent event]] .
  ultimately show ?thesis using written [OF upd, of c] assms(2) True by auto
next
  case False
  obtain s1 n at s2 q i' s3 s4 ts where now: "draw (e_now E) s = (s1, Inr n)"
    and at: "toISOString (n + retryDelay (jb_attemptCount c)) = Inr at"
    and upd: "jt_updateJob (js_jobStore SV) (jb_tenantId c) (jb_id c) (jb_version c)
        (\<lambda>x. x\<lparr>jb_status := JobRetrying, jb_nextAttemptAt := Some at,
           jb_lastError := Some (errorMessage e), jb_attemptCount := jb_attemptCount c + 1\<rparr>) s1 = (s2, Inr q)"
    and uuid: "draw (e_uuid E) s2 = (s3, Inr i')" and later: "nowISO E s3 = (s4, Inr ts)"
    and event: "jk_record (js_auditSink SV)
          \<lparr>je_id = i', je_type = ''job.retrying'', je_jobId = Some (jb_id c), je_scheduleId = None,
           je_tenantId = jb_tenantId c, je_principalId = pid, je_timestamp = ts, je_success = False,
           je_details = Some [(''error'', JStr (errorMessage e)), (''nextAttemptAt'', JStr at),
             (''attemptCount'', JNum (jb_attemptCount c + 1))], je_jobType = None\<rparr> s4 = (t, Inr u)"
    using assms(1) False by (auto simp: recordExecutionFailure_def Let_def bindA_Inr_iff liftR_iff)
  have "J s1 = J s" using same_jobs [OF movesD [OF keeps_now now]] .
  moreover have "J t = J s2"
    using same_jobs [OF movesD [OF keeps_sink event]] same_jobs [OF movesD [OF keeps_nowISO later]]
      same_jobs [OF movesD [OF keeps_uuid uuid]] by simp
  moreover obtain x y where "e_now E x = (y, n)" using now by (auto simp: draw_eq_iff)
  moreover have "at = isoString (n + 1000 * 2 ^ nat (jb_attemptCount c))"
    using at by (simp add: toISOString_Inr_iff retryDelay_def INITIAL_RETRY_DELAY_MS_def)
  ultimately show ?thesis using written [OF upd, of c] assms(2) False by auto blast
qed

end

text \<open>
  C27: a failed run of a claimed job costs one attempt. The last one fails the job, any other makes
  it wait for 1000 ms doubled with every attempt made before; the error is kept, and no other job
  changes.
\<close>

lemma failed_run_backs_off:
  assumes "felt_job_service E C SV" and "storedJobs C s (jb_id c) = Some c"
    and "recordExecutionFailure E SV c pid e s = (t, Inr u)"
  shows "\<exists>n k'. jb_version c < n \<and> storedJobs C t = (storedJobs C s)(jb_id c \<mapsto> k'\<lparr>jb_version := n\<rparr>) \<and>
    (if jb_maxAttempts c \<le> jb_attemptCount c + 1
     then k' = c\<lparr>jb_status := JobFailed, jb_attemptCount := jb_attemptCount c + 1, jb_lastError := Some (errorMessage e)\<rparr>
     else \<exists>now x y. e_now E x = (y, now) \<and> k' = c\<lparr>jb_status := JobRetrying,
       jb_nextAttemptAt := Some (isoString (now + 1000 * 2 ^ nat (jb_attemptCount c))),
       jb_lastError := Some (errorMessage e), jb_attemptCount := jb_attemptCount c + 1\<rparr>)"
  using felt_job_service.failure_recorded [OF assms(1,3,2)] .

section \<open>The next run of a schedule\<close>

lemma digitVal_char: "n < 10 \<Longrightarrow> digitVal (char_of (48 + n)) = int n \<and> digitChar (char_of (48 + n))"
  by (simp add: digitVal_def digitChar_def)

lemma natDigits_digits: "list_all digitChar (natDigits n) \<and> natDigits n \<noteq> []"
proof (induction n rule: natDigits.induct)
  case (1 n)
  then show ?case using digitVal_char [of "n mod 10"] digitVal_char [of n] by (subst (1 2) natDigits.simps) auto
qed

lemma natDigits_value: "foldl (\<lambda>n c. 10 * n + digitVal c) 0 (natDigits n) = int n"
proof (induction n rule: natDigits.induct)
  case (1 n)
  show ?case
  proof (cases "n < 10")
    case True
    then show ?thesis using digitVal_char [of n] by (subst natDigits.simps) simp
  next
    case False
    then have "foldl (\<lambda>n c. 10 * n + digitVal c) 0 (natDigits (n div 10)) = int (n div 10)" by (rule 1)
    moreover have "int n = 10 * int (n div 10) + int (n mod 10)" using mult_div_mod_eq [of 10 n] by linarith
    ultimately show ?thesis using False digitVal_char [of "n mod 10"] by (subst natDigits.simps) simp
  qed
qed

lemma unit_not_digit: "unitMs u = Some ms \<Longrightarrow> \<not> digitChar u \<and> 0 < ms"
  by (auto simp: unitMs_def digitChar_def Let_def split: if_splits)

lemma intervalMs_digits:
  assumes "list_all digitChar ds" and "ds \<noteq> []" and "unitMs u = Some ms"
  shows "intervalMs (ds @ [u]) = Some (foldl (\<lambda>n c. 10 * n + digitVal c) 0 ds * ms)"
proof -
  have "takeWhile digitChar (ds @ [u]) = ds" "dropWhile digitChar (ds @ [u]) = [u]"
    using assms(1) unit_not_digit [OF assms(3)] by (induction ds) auto
  then show ?thesis using assms(2,3) by (simp add: intervalMs_def Let_def)
qed

lemma intervalMs_Some:
  assumes "intervalMs x = Some delay"
  obtains ds u ms where "x = ds @ [u]" "ds \<noteq> []" "list_all digitChar ds" "unitMs u = Some ms"
    "delay = foldl (\<lambda>n c. 10 * n + digitVal c) 0 ds * ms"
proof -
  let ?ds = "takeWhile digitChar x"
  obtain u where u: "dropWhile digitChar x = [u]" using assms by (auto simp: intervalMs_def Let_def split: list.splits)
  obtain ms where "unitMs u = Some ms" "?ds \<noteq> []" "delay = foldl (\<lambda>n c. 10 * n + digitVal c) 0 ?ds * ms"
    using assms u by (auto simp: intervalMs_def Let_def split: if_splits option.splits)
  moreover have "x = ?ds @ [u]" by (metis u takeWhile_dropWhile_id)
  moreover have "list_all digitChar ?ds" by (auto simp: list_all_iff dest: set_takeWhileD)
  ultimately show thesis using that by blast
qed

lemma digits_nonneg: "list_all digitChar ds \<Longrightarrow> 0 \<le> n \<Longrightarrow> 0 \<le> foldl (\<lambda>n c. 10 * n + digitVal c) n ds"
  by (induction ds arbitrary: n) (auto simp: digitVal_def digitChar_def Let_def)

text \<open>
  C28: the interval of a schedule is a decimal number and a unit. Every printed number with a unit
  is understood as that many seconds, minutes, hours or days after the given time, nothing else is
  accepted, and the next run never lies before the time it is computed from.
\<close>

lemma next_run_time:
  assumes "timeValue t"
  shows "(unitMs u = Some ms \<longrightarrow> nextRunTime E (isoString t) (natDigits n @ [u]) = toISOString (t + int n * ms)) \<and>
    (nextRunTime E (isoString t) x = Inr y \<longrightarrow>
       (\<exists>ds v ms'. x = ds @ [v] \<and> ds \<noteq> [] \<and> list_all digitChar ds \<and> unitMs v = Some ms') \<and>
       (\<exists>t'. t \<le> t' \<and> timeValue t' \<and> y = isoString t'))"
proof (intro conjI impI)
  assume "unitMs u = Some ms"
  then show "nextRunTime E (isoString t) (natDigits n @ [u]) = toISOString (t + int n * ms)"
    using intervalMs_digits natDigits_digits natDigits_value assms by (simp add: nextRunTime_def)
next
  assume run: "nextRunTime E (isoString t) x = Inr y"
  then obtain delay where delay: "intervalMs x = Some delay" "toISOString (t + delay) = Inr y"
    using assms by (auto simp: nextRunTime_def split: option.splits)
  obtain ds v ms' where x: "x = ds @ [v]" "ds \<noteq> []" "list_all digitChar ds" "unitMs v = Some ms'"
    "delay = foldl (\<lambda>n c. 10 * n + digitVal c) 0 ds * ms'" using intervalMs_Some [OF delay(1)] by metis
  then show "\<exists>ds v ms'. x = ds @ [v] \<and> ds \<noteq> [] \<and> list_all digitChar ds \<and> unitMs v = Some ms'" by blast
  have "0 \<le> delay" using x(5) digits_nonneg [OF x(3), of 0] unit_not_digit [OF x(4)] by simp
  then show "\<exists>t'. t \<le> t' \<and> timeValue t' \<and> y = isoString t'"
    using delay(2) by (intro exI [of _ "t + delay"]) (simp add: toISOString_Inr_iff)
qed

end
