(* ===== verification/JobExamples.thy ===== *)
theory JobExamples
  imports Examples JobRuns
begin

text \<open>
  Runs of the job service on the in-memory platform, for the theorems about jobs.
\<close>

definition demoHandler :: "mem job_handler" where
  "demoHandler k ex = plain (ret ())"

definition failingHandler :: "mem job_handler" where
  "failingHandler k ex = plain (raise (PlainError ''boom''))"

definition demoJobService :: "mem job_service" where
  "demoJobService =
     (newJobService (feltDbJobStore memEnv) (feltDbJobScheduleStore memEnv) (feltDbJobAuditSink memEnv) None None []
        (Some (demoGateway True)))\<lparr>js_handlers := [(''mail'', demoHandler)]\<rparr>"

lemma demoJobService_simps [simp]:
  "js_jobStore demoJobService = feltDbJobStore memEnv" "js_scheduleStore demoJobService = feltDbJobScheduleStore memEnv"
  "js_auditSink demoJobService = feltDbJobAuditSink memEnv" "js_authority demoJobService = Some (demoGateway True)"
  "js_handlers demoJobService = [(''mail'', demoHandler)]" "js_leaseDurationMs demoJobService = 30000"
  "js_allowedTypes demoJobService = None" "js_maxRetryAttempts demoJobService = 5"
  by (simp_all add: demoJobService_def newJobService_def LEASE_DURATION_MS_def DEFAULT_MAX_ATTEMPTS_def)

interpretation demoJobs: felt_job_service memEnv memView demoJobService
proof (intro felt_job_service.intro felt_job_service_axioms.intro memory.platform_axioms)
  show "gateway_platform memEnv memView G" if "js_authority demoJobService = Some G" for G
    using that demo.gateway_platform_axioms [of True] by simp
  show "moves (onSys (jobsMove (storedJobs memView))) (h k ex)" if "(type, h) \<in> set (js_handlers demoJobService)" for type h k ex
    using that by (auto simp: demoHandler_def intro!: onSys_plain jobsMove.frame_rules)
qed simp_all

definition demoDurable :: durable_principal where
  "demoDurable = \<lparr>dp_principalId = ''alice'', dp_principalType = ''user'', dp_tenantId = ''acme'', dp_applicationId = None,
     dp_delegationId = None, dp_credentialId = None, dp_authorizedBy = Some ''d1''\<rparr>"

definition demoJob :: job where
  "demoJob =
     \<lparr>jb_id = ''j1'', jb_tenantId = ''acme'', jb_applicationId = Some ''shop'', jb_type = ''mail'', jb_payload = JNull,
      jb_status = JobPending, jb_runAt = ''2023-11-14T22:13:20.000Z'', jb_attemptCount = 0, jb_maxAttempts = 5,
      jb_createdAt = ''2023-11-14T22:13:20.000Z'', jb_startedAt = None, jb_completedAt = None, jb_nextAttemptAt = None,
      jb_leaseOwner = None, jb_leaseExpiresAt = None, jb_lastError = None, jb_principal = Some demoDurable, jb_version = 1\<rparr>"

definition withJob :: "job \<Rightarrow> mem sys \<Rightarrow> mem sys" where
  "withJob k s = s\<lparr>outside := memPut ''jobs'' (jb_id k) (JobDoc k) (outside s)\<rparr>"

lemma stored_withJob: "storedJobs memView (withJob k s) = (storedJobs memView s)(jb_id k \<mapsto> k)"
  by (rule storedJobs_put) (simp add: withJob_def memView_memPut JOBS_COLLECTION_def)

lemma no_demo_jobs: "storedJobs memView demoSys = Map.empty"
  by (simp add: storedJobs_def demoSys_def memView_def fun_eq_iff)

lemma wf_withJob: "wfJobs (storedJobs memView (withJob k demoSys))"
  by (simp add: stored_withJob no_demo_jobs wfJobs_def)

section \<open>Witnesses\<close>

lemma job_lifecycle_witness:
  "\<exists>k'. storedJobs memView (runJobOps memEnv demoJobService [ExecuteJob ''acme'' ''j1'' ''w'', RetryJob ''acme'' ''j1'' (Verified demoPrincipal)]
     (withJob demoJob demoSys)) ''j1'' = Some k' \<and> sameJob demoJob k'"
proof -
  have "quietOps memView [ExecuteJob ''acme'' ''j1'' ''w'', RetryJob ''acme'' ''j1'' (Verified demoPrincipal)]"
    by (simp add: quietOps_def demoPrincipal_def)
  moreover have "storedJobs memView (withJob demoJob demoSys) ''j1'' = Some demoJob" by (simp add: stored_withJob demoJob_def)
  ultimately show ?thesis using jobs_follow_lifecycle [OF demoJobs.felt_job_service_axioms _ wf_withJob [of demoJob]] by blast
qed

lemma demo_claimed:
  "\<exists>t k. jobClaim memEnv ''acme'' ''j1'' 1 ''2023-11-14T22:13:50.000Z'' (withJob demoJob demoSys) = (t, Inr (Some k))"
  by (simp add: jobClaim_def casItem_def withJob_def demoJob_def demoSys_def run_simps memEnv_def memColl_def memView_def memPut_def
      asJob_def claimUpdate_def)

lemma claim_exclusive_witness:
  "\<exists>t u r k. jobClaim memEnv ''acme'' ''j1'' 1 ''2023-11-14T22:13:50.000Z'' (withJob demoJob demoSys) = (t, Inr (Some k)) \<and>
     jobClaim memEnv ''acme'' ''j1'' 1 ''2023-11-14T22:13:50.000Z'' t = (u, r) \<and> r \<noteq> Inr (Some demoJob)"
proof -
  obtain t k where first: "jobClaim memEnv ''acme'' ''j1'' 1 ''2023-11-14T22:13:50.000Z'' (withJob demoJob demoSys) = (t, Inr (Some k))"
    using demo_claimed by blast
  obtain u r where second: "jobClaim memEnv ''acme'' ''j1'' 1 ''2023-11-14T22:13:50.000Z'' t = (u, r)" by (cases "jobClaim memEnv ''acme'' ''j1'' 1 ''2023-11-14T22:13:50.000Z'' t")
  have "quietOps memView []" by (simp add: quietOps_def)
  from claim_exclusive [OF demoJobs.felt_job_service_axioms this wf_withJob first, of "''acme''" "''2023-11-14T22:13:50.000Z''" u r demoJob] second
  have "r \<noteq> Inr (Some demoJob)" by (simp add: runJobOps_def)
  with first second show ?thesis by blast
qed

definition heldJob :: job where
  "heldJob = demoJob\<lparr>jb_status := JobRunning, jb_leaseExpiresAt := Some ''2023-11-14T22:14:20.000Z'', jb_attemptCount := 2\<rparr>"

lemma held_simps [simp]:
  "jb_id heldJob = ''j1''" "jb_status heldJob = JobRunning" "jb_leaseOwner heldJob = None" "jb_attemptCount heldJob = 2"
  "jb_maxAttempts heldJob = 5" "jb_tenantId heldJob = ''acme''" "jb_version heldJob = 1"
  "jb_leaseExpiresAt heldJob = Some ''2023-11-14T22:14:20.000Z''"
  by (simp_all add: heldJob_def demoJob_def)

lemma held_read:
  assumes "jobGet memEnv ''acme'' ''j1'' (withJob heldJob demoSys) = (s1, Inr (Some k))" and "nowISO memEnv s1 = (u, Inr nowIso)"
  shows "nowIso = ''2023-11-14T22:13:20.000Z''"
  using assms by (auto simp: jobGet_def withJob_def demoSys_def run_simps memEnv_def memColl_def memView_def memPut_def asJob_def)

lemma held_live: "\<not> isStale ''2023-11-14T22:13:20.000Z'' heldJob"
  by (simp add: isStale_def reached_def strLeq_def)

lemma live_lease_witness:
  "\<exists>t r. executeJob memEnv demoJobService ''acme'' ''j1'' ''w'' (withJob heldJob demoSys) = (t, r) \<and>
     storedJobs memView t = [''j1'' \<mapsto> heldJob] \<and> r \<noteq> Inr True"
proof -
  obtain t r where run: "executeJob memEnv demoJobService ''acme'' ''j1'' ''w'' (withJob heldJob demoSys) = (t, r)"
    by (cases "executeJob memEnv demoJobService ''acme'' ''j1'' ''w'' (withJob heldJob demoSys)")
  have "\<forall>s1 u nowIso. jobGet memEnv ''acme'' ''j1'' (withJob heldJob demoSys) = (s1, Inr (Some heldJob)) \<longrightarrow>
      nowISO memEnv s1 = (u, Inr nowIso) \<longrightarrow> \<not> isStale nowIso heldJob"
    using held_read held_live by blast
  from live_lease_respected [OF demoJobs.felt_job_service_axioms _ _ _ this run] run show ?thesis
    by (simp add: stored_withJob no_demo_jobs)
qed

lemma backoff_witness:
  "\<exists>t k. recordExecutionFailure memEnv demoJobService heldJob ''alice'' (PlainError ''boom'') (withJob heldJob demoSys) = (t, Inr ()) \<and>
     storedJobs memView t ''j1'' = Some k \<and> jb_status k = JobRetrying \<and> jb_attemptCount k = 3"
proof -
  have "\<exists>t. recordExecutionFailure memEnv demoJobService heldJob ''alice'' (PlainError ''boom'') (withJob heldJob demoSys) = (t, Inr ())"
    by (simp add: recordExecutionFailure_def Let_def feltDbJobStore_def jobUpdate_def casItem_def feltDbJobAuditSink_def
        retryDelay_def INITIAL_RETRY_DELAY_MS_def withJob_def demoSys_def run_simps memEnv_def memColl_def memView_def memPut_def asJob_def)
  then obtain t where run: "recordExecutionFailure memEnv demoJobService heldJob ''alice'' (PlainError ''boom'') (withJob heldJob demoSys) = (t, Inr ())"
    by blast
  have "storedJobs memView (withJob heldJob demoSys) (jb_id heldJob) = Some heldJob" by (simp add: stored_withJob)
  from failed_run_backs_off [OF demoJobs.felt_job_service_axioms this run] run show ?thesis by auto
qed

lemma next_run_witness: "nextRunTime memEnv (isoString 1700000000000) (natDigits 60 @ ''s'') = Inr (isoString 1700000060000)"
proof -
  have "timeValue 1700000000000" by (simp add: timeValue_def)
  from next_run_time [OF this, of "CHR ''s''" 1000 memEnv 60] show ?thesis
    by (simp add: unitMs_def toISOString_def timeValue_def)
qed

section \<open>A job that runs for its principal\<close>

definition jobRow :: effect_evidence where
  "jobRow = demoRow\<lparr>ev_capability := ''jobs.create''\<rparr>"

definition readyJobs :: "mem sys" where
  "readyJobs = withJob demoJob (demoSys\<lparr>outside := memPut EVIDENCE_COLLECTION ''u1'' (EvidenceDoc jobRow) (outside demoSys)\<rparr>)"

definition claimedJob :: job where
  "claimedJob = demoJob\<lparr>jb_status := JobRunning, jb_leaseExpiresAt := Some ''2023-11-14T22:13:50.000Z'',
     jb_startedAt := Some ''2023-11-14T22:13:20.000Z'', jb_version := 2\<rparr>"

definition claimedJobs :: "mem sys" where
  "claimedJobs = readyJobs\<lparr>outside := memPut ''jobs'' ''j1'' (JobDoc claimedJob) (outside readyJobs)\<rparr>"

lemma demo_lease [simp]: "isoString 1700000030000 = ''2023-11-14T22:13:50.000Z''"
  by code_simp

lemma job_uri [simp]: "resourceUri ''shop'' \<lparr>rs_type = ''job'', rs_tenantId = ''acme'', rs_id = Some ''j1'', rs_attributes = a\<rparr> = ''appport://shop/tenants/acme/job/j1''"
  by (simp add: resourceUri_def) code_simp

lemma ready_taken: "takeOver memEnv demoJobService ''acme'' ''j1'' ''w'' readyJobs = (claimedJobs, Inr (Some claimedJob))"
  by (simp add: takeOver_def takeOverRead_def claimNow_def feltDbJobStore_def jobGet_def jobClaim_def casItem_def isStale_def
      claimedJobs_def claimedJob_def readyJobs_def withJob_def demoJob_def demoSys_def run_simps memEnv_def memColl_def
      memView_def memPut_def asJob_def claimUpdate_def EVIDENCE_COLLECTION_def)

lemma ready_attested: "attest memEnv (demoGateway True) (Some demoDurable) [''jobs.create'', ''schedules.create''] claimedJobs = (claimedJobs, Inr ())"
  by (simp add: attest_def findByDecision_def claimedJobs_def readyJobs_def withJob_def demo_defs demoDurable_def demoJob_def run_simps memColl_def memPut_def memView_def
        asEvidence_def map_filter_def EVIDENCE_COLLECTION_def jobRow_def demoRow_def)

definition runPrincipal :: "mem principal" where
  "runPrincipal = \<lparr>pr_principalId = ''alice'', pr_principalType = ''user'', pr_tenantId = ''acme'', pr_applicationId = None,
      pr_credentialId = None, pr_delegationId = None, pr_runId = Some ''j1:1'', pr_verifiedBy = ByJob, pr_check = None\<rparr>"

lemma run_minted: "mintVerifiedPrincipal (runClaims demoDurable ''j1:1'') ByJob = Inr runPrincipal"
  by (simp add: mintVerifiedPrincipal_def runClaims_def demoDurable_def claimedText_def trim_def isWhite_def runPrincipal_def)

lemma job_capability:
  "getServiceCapability E ''jobs.execute'' = Some \<lparr>cp_name = ''jobs.execute'', cp_version = 1,
     cp_service = ''jobs'', cp_operation = ''executeJob'', cp_effect = Consequential, cp_invocable = False,
     cp_required = True, cp_resource = ''job''\<rparr>"
  by (simp add: getServiceCapability_eq ENTRIES_def freezeCapability_def)

definition runRow :: effect_evidence where
  "runRow = \<lparr>ev_id = ''u0'', ev_application = ''shop'', ev_tenantId = ''acme'',
    ev_principalId = ''alice'', ev_principalType = ''user'', ev_delegationId = None, ev_runId = Some ''j1:1'', ev_capability = ''jobs.execute'',
    ev_capabilityVersion = 1, ev_resource = ''appport://shop/tenants/acme/job/j1'', ev_decision = DecisionAllow, ev_decisionId = Some ''d1'',
    ev_credentialRef = None, ev_credentialVersion = None, ev_service = ''jobs'', ev_provider = None, ev_requestId = ''j1:1'',
    ev_startedAt = ''2023-11-14T22:13:20.000Z'', ev_completedAt = None, ev_outcome = Started, ev_failureCode = None, ev_version = None\<rparr>"

lemma run_safe [simp]: "assertEvidenceHasNoSecrets (evidenceEntries runRow) = Inr ()"
  by code_simp

lemma run_id [simp]: "ev_id runRow = ''u0''"
  by (simp add: runRow_def)

abbreviation jobResource :: resource where
  "jobResource \<equiv> \<lparr>rs_type = ''job'', rs_tenantId = ''acme'', rs_id = Some ''j1'', rs_attributes = Some [(''jobType'', ''mail'')]\<rparr>"

abbreviation jobOptions :: execute_options where
  "jobOptions \<equiv> \<lparr>eo_service = ''jobs'', eo_provider = None, eo_credentialRef = None, eo_requestId = Some ''j1:1''\<rparr>"

lemmas memory_run = claimedJobs_def readyJobs_def withJob_def demoJob_def demo_defs run_simps mem_run

definition startedJobs :: "mem sys" where
  "startedJobs = claimedJobs\<lparr>outside := memPut EVIDENCE_COLLECTION ''u0'' (EvidenceDoc runRow) ((outside claimedJobs)\<lparr>m_serial := 1\<rparr>),
     mintedContexts := 1\<rparr>"

lemma run_executes:
  "\<exists>ctx. \<forall>eff :: mem exec_context \<Rightarrow> (mem, unit) effect. execute memEnv (demoGateway True) ''jobs.execute'' (Verified runPrincipal) jobResource jobOptions eff claimedJobs
     = performEffect memEnv jobOptions ''u0'' (eff ctx) startedJobs"
  apply (simp add: execute_def executeStart_def authorize_run job_capability runPrincipal_def memory_run)
  apply (simp add: runEffect_def assertExecutionContext_def claimedCapability_def run_simps dateLeq_def dateTime_def)
  apply (simp add: evidenceFor_def effectiveDelegation_def attribute_def runRow_def [symmetric] evidenceRecord_def
        run_simps mem_run startedJobs_def claimedJobs_def readyJobs_def withJob_def demo_defs demoJob_def)
  apply (rule exI, rule allI, rule refl)
  done

lemma run_done [simp]: "assertEvidenceHasNoSecrets (completionEntries
   \<lparr>ec_outcome = Failed, ec_completedAt = ''2023-11-14T22:13:20.000Z'', ec_failureCode = Some ''EFFECT_FAILED'',
      ec_credentialRef = None, ec_credentialVersion = None, ec_provider = None\<rparr>) = Inr ()"
  by code_simp

lemma handler_succeeds:
  "\<exists>t. performEffect memEnv jobOptions ''u0'' (demoHandler claimedJob ex) startedJobs = (t, Inr ()) \<and>
     (\<exists>u. completeJob memEnv demoJobService claimedJob ''alice'' (Some ''j1:1'') t = (u, Inr ()))"
  by (simp add: performEffect_def demoHandler_def plain_def completeEffect_def succeededWith_def
        refUpdate_def evidenceComplete_def startedJobs_def memory_run completeJob_def jobEvent_def feltDbJobStore_def
        feltDbJobAuditSink_def jobUpdate_def casItem_def claimedJob_def memEnv_def asJob_def optionalProp_def)

lemma handler_fails:
  "\<exists>t. performEffect memEnv jobOptions ''u0'' (failingHandler claimedJob ex) startedJobs = (t, Inl (PlainError ''boom''))"
  by (simp add: performEffect_def failingHandler_def plain_def completeEffect_def failedWith_def effectOutcome_def failureCode_def
        refUpdate_def evidenceComplete_def startedJobs_def memory_run claimedJob_def)

lemma executed_with:
  "executeJob memEnv (setHandler demoJobService ''mail'' h) ''acme'' ''j1'' ''w'' readyJobs =
     runAsPrincipal memEnv demoJobService (demoGateway True) ''acme'' ''j1'' claimedJob h ''j1:1'' runPrincipal claimedJobs"
proof -
  have fields: "jb_type claimedJob = ''mail''" "jb_principal claimedJob = Some demoDurable" "dp_tenantId demoDurable = ''acme''"
    "jb_id claimedJob = ''j1''" "jb_attemptCount claimedJob = 0" by (simp_all add: claimedJob_def demoJob_def demoDurable_def)
  have "executeJob memEnv (setHandler demoJobService ''mail'' h) ''acme'' ''j1'' ''w'' readyJobs =
      runClaimed memEnv (setHandler demoJobService ''mail'' h) ''acme'' ''j1'' claimedJob claimedJobs"
    using ready_taken by (simp add: executeJob_def bindA_def)
  then show ?thesis
    using run_minted ready_attested
    by (simp add: runClaimed_handlers fields SYSTEM_JOB_TYPE_PREFIX_def runAuthorized_def Let_def intString_def
        bindA_def settle_def act_simps)
qed

lemma handler_matters:
  "executeJob memEnv (setHandler demoJobService ''mail'' demoHandler) ''acme'' ''j1'' ''w'' readyJobs \<noteq>
   executeJob memEnv (setHandler demoJobService ''mail'' failingHandler) ''acme'' ''j1'' ''w'' readyJobs"
proof -
  have fields: "jb_id claimedJob = ''j1''" "jb_type claimedJob = ''mail''" by (simp_all add: claimedJob_def demoJob_def)
  obtain ctx where run: "\<And>eff :: mem exec_context \<Rightarrow> (mem, unit) effect. execute memEnv (demoGateway True) ''jobs.execute'' (Verified runPrincipal) jobResource jobOptions eff claimedJobs
     = performEffect memEnv jobOptions ''u0'' (eff ctx) startedJobs" using run_executes by blast
  have good: "\<exists>t. runAsPrincipal memEnv demoJobService (demoGateway True) ''acme'' ''j1'' claimedJob demoHandler ''j1:1'' runPrincipal claimedJobs = (t, Inr True)"
  proof -
    obtain t u where t: "\<And>ex. performEffect memEnv jobOptions ''u0'' (demoHandler claimedJob ex) startedJobs = (t, Inr ())"
      and u: "completeJob memEnv demoJobService claimedJob ''alice'' (Some ''j1:1'') t = (u, Inr ())"
      using handler_succeeds unfolding demoHandler_def by fastforce
    show ?thesis using t u by (simp add: runAsPrincipal_def fields run catchA_def bindA_def runPrincipal_def [THEN arg_cong [where f = pr_principalId]] act_simps)
  qed
  have bad: "runAsPrincipal memEnv demoJobService (demoGateway True) ''acme'' ''j1'' claimedJob failingHandler ''j1:1'' runPrincipal claimedJobs \<noteq> (t, Inr True)" for t
  proof -
    obtain u where u: "\<And>ex. performEffect memEnv jobOptions ''u0'' (failingHandler claimedJob ex) startedJobs = (u, Inl (PlainError ''boom''))"
      using handler_fails by (fastforce simp: failingHandler_def)
    have "settleRejected memEnv demoJobService ''acme'' ''j1'' claimedJob runPrincipal (PlainError ''boom'') u \<noteq> (t, Inr True)"
      by (auto simp: settleRejected_def failureCode_def bindA_Inr_iff act_simps)
    then show ?thesis by (simp add: runAsPrincipal_def fields run catchA_def bindA_def u)
  qed
  show ?thesis using good bad unfolding executed_with by metis
qed

lemma handler_witness: "\<exists>dp. jb_principal claimedJob = Some dp \<and> dp_authorizedBy dp = Some ''d1''"
proof -
  have "\<not> startsWith ''mail'' SYSTEM_JOB_TYPE_PREFIX" by (simp add: SYSTEM_JOB_TYPE_PREFIX_def)
  with handler_needs_authorization [OF demoJobs.felt_job_service_axioms handler_matters] ready_taken
  obtain dp decisionId where "jb_principal claimedJob = Some dp" "dp_authorizedBy dp = Some decisionId"
    by auto
  moreover have "dp_authorizedBy dp = Some ''d1''" using calculation(1) by (auto simp: claimedJob_def demoJob_def demoDurable_def)
  ultimately show ?thesis by blast
qed

section \<open>A job whose worker dies every time\<close>







definition staleJob :: job where
  "staleJob = demoJob\<lparr>jb_status := JobRunning, jb_leaseExpiresAt := Some ''2023-11-14T22:13:00.000Z'', jb_maxAttempts := 2\<rparr>"

definition countedJob :: job where
  "countedJob = staleJob\<lparr>jb_attemptCount := 1, jb_lastError := Some (abandonedError 1), jb_version := 2\<rparr>"

definition retakenJob :: job where
  "retakenJob = (claimUpdate ''2023-11-14T22:13:50.000Z'' ''2023-11-14T22:13:20.000Z'' countedJob)\<lparr>jb_version := 3\<rparr>"


lemma stale_fields [simp]:
  "jb_id staleJob = ''j1''" "jb_tenantId staleJob = ''acme''" "jb_version staleJob = 1" "jb_status staleJob = JobRunning"
  "jb_leaseOwner staleJob = None" "jb_attemptCount staleJob = 0" "jb_maxAttempts staleJob = 2"
  "jb_id countedJob = ''j1''" "jb_tenantId countedJob = ''acme''" "jb_version countedJob = 2"
  "jb_id retakenJob = ''j1''" "jb_tenantId retakenJob = ''acme''" "jb_version retakenJob = 3" "jb_attemptCount retakenJob = 1"
  "jb_maxAttempts retakenJob = 2" "jb_status retakenJob = JobRunning"
  by (simp_all add: staleJob_def demoJob_def countedJob_def retakenJob_def claimUpdate_def)











section \<open>A completed job is claimed again\<close>

text \<open>
  Nothing in the start of a run looks at jobs that are already settled: whoever runs the id of a
  completed job claims it and runs its handler once more.
\<close>

lemma completed_job_runs_again:
  "\<exists>t c. takeOver memEnv demoJobService ''acme'' ''j1'' ''w'' (withJob (demoJob\<lparr>jb_status := JobCompleted\<rparr>) demoSys) = (t, Inr (Some c))
     \<and> jb_status c = JobRunning"
  by (simp add: takeOver_def takeOverRead_def claimNow_def feltDbJobStore_def jobGet_def jobClaim_def casItem_def isStale_def
      withJob_def demoJob_def demoSys_def run_simps memEnv_def memColl_def memView_def memPut_def asJob_def claimUpdate_def)

end
