(* ===== verification/Lifecycle.thy ===== *)
theory Lifecycle
  imports JobStore Operations
begin

text \<open>
  Stored records that change by conditional writes, in general. A service moves each record of
  its collection along a step relation of its own: records appear fresh, keep their key, gain
  versions and never disappear. The locale \<open>record_life\<close> derives, from two facts about the steps,
  that a write fenced on the version that was read meets the record that was read; the locale
  \<open>life_collection\<close> joins it to a collection of the database.
\<close>

section \<open>Records and their progress\<close>

type_synonym 'a records = "string \<Rightarrow> 'a option"

definition keyed :: "('a \<Rightarrow> string) \<Rightarrow> 'a records \<Rightarrow> bool" where
  "keyed key js \<longleftrightarrow> (\<forall>i k. js i = Some k \<longrightarrow> key k = i)"

definition progressBy :: "('a \<Rightarrow> 'a \<Rightarrow> bool) \<Rightarrow> ('a \<Rightarrow> bool) \<Rightarrow> 'a records \<Rightarrow> 'a records \<Rightarrow> bool" where
  "progressBy step fresh js js' \<longleftrightarrow>
     (\<forall>i. case js i of
        Some k \<Rightarrow> (\<exists>k'. js' i = Some k' \<and> step\<^sup>*\<^sup>* k k')
      | None \<Rightarrow> (\<forall>k'. js' i = Some k' \<longrightarrow> (\<exists>k. fresh k \<and> step\<^sup>*\<^sup>* k k')))"

definition evolves ::
  "('a \<Rightarrow> string) \<Rightarrow> ('a \<Rightarrow> 'a \<Rightarrow> bool) \<Rightarrow> ('a \<Rightarrow> bool) \<Rightarrow> ('w sys \<Rightarrow> 'a records) \<Rightarrow> 'w sys \<Rightarrow> 'w sys \<Rightarrow> bool" where
  "evolves key step fresh J s t \<longleftrightarrow>
     (keyed key (J s) \<longrightarrow> keyed key (J t) \<and> progressBy step fresh (J s) (J t))"

text \<open>A record that was read: what is stored under its key is that record or has a later version.\<close>

definition pinnedBy :: "('a \<Rightarrow> string) \<Rightarrow> ('a \<Rightarrow> int) \<Rightarrow> 'a \<Rightarrow> 'a records \<Rightarrow> bool" where
  "pinnedBy key ver c js \<longleftrightarrow> js (key c) \<noteq> None \<and> (\<forall>k. js (key c) = Some k \<longrightarrow> k = c \<or> ver c < ver k)"

definition settles ::
  "('a \<Rightarrow> string) \<Rightarrow> ('a \<Rightarrow> int) \<Rightarrow> ('a \<Rightarrow> 'a \<Rightarrow> bool) \<Rightarrow> ('a \<Rightarrow> bool) \<Rightarrow> ('w sys \<Rightarrow> 'a records) \<Rightarrow> 'a \<Rightarrow> 'w sys \<Rightarrow> 'w sys \<Rightarrow> bool" where
  "settles key ver step fresh J c s t \<longleftrightarrow>
     (keyed key (J s) \<and> pinnedBy key ver c (J s) \<longrightarrow>
      keyed key (J t) \<and> pinnedBy key ver c (J t) \<and> progressBy step fresh (J s) (J t))"

text \<open>A conditional write that happened: the record had the version, and the new one is later.\<close>

definition casRecord ::
  "('a \<Rightarrow> int) \<Rightarrow> (int \<Rightarrow> 'a \<Rightarrow> 'a) \<Rightarrow> 'a records \<Rightarrow> 'a records \<Rightarrow> string \<Rightarrow> int \<Rightarrow> ('a \<Rightarrow> 'a) \<Rightarrow> bool" where
  "casRecord ver setv before new i v f \<longleftrightarrow>
     (\<exists>k n. before i = Some k \<and> ver k = v \<and> v < n \<and> new = before(i \<mapsto> setv n (f k)))"

lemma progressBy_refl [simp]: "progressBy step fresh js js"
  by (auto simp: progressBy_def split: option.splits)

lemma progressBy_trans:
  assumes "progressBy step fresh js js'" and "progressBy step fresh js' js''"
  shows "progressBy step fresh js js''"
  unfolding progressBy_def
proof
  fix i
  show "case js i of Some k \<Rightarrow> \<exists>k'. js'' i = Some k' \<and> step\<^sup>*\<^sup>* k k'
      | None \<Rightarrow> \<forall>k'. js'' i = Some k' \<longrightarrow> (\<exists>k. fresh k \<and> step\<^sup>*\<^sup>* k k')"
    using spec [OF assms(1) [unfolded progressBy_def], of i] spec [OF assms(2) [unfolded progressBy_def], of i]
    by (auto split: option.splits intro: rtranclp_trans)
qed

lemma progressBy_mono:
  assumes "progressBy step fresh js js'" and "\<And>k k'. step k k' \<Longrightarrow> step' k k'" and "\<And>k. fresh k \<Longrightarrow> fresh' k"
  shows "progressBy step' fresh' js js'"
proof -
  have "step'\<^sup>*\<^sup>* k k'" if "step\<^sup>*\<^sup>* k k'" for k k'
    using that assms(2) by (induction rule: rtranclp_induct) (auto intro: rtranclp.rtrancl_into_rtrancl)
  then show ?thesis using assms(1,3) unfolding progressBy_def by (fastforce split: option.splits)
qed

lemma evolves_mono:
  assumes "evolves key step fresh J s t" and "\<And>k k'. step k k' \<Longrightarrow> step' k k'" and "\<And>k. fresh k \<Longrightarrow> fresh' k"
  shows "evolves key step' fresh' J s t"
  using assms progressBy_mono [of step fresh _ _ step' fresh'] unfolding evolves_def by blast

interpretation evolves: frame "evolves key step fresh J" for key step fresh J
  by unfold_locales (auto simp: evolves_def intro: progressBy_trans)

interpretation settles: frame "settles key ver step fresh J c" for key ver step fresh J c
  by unfold_locales (simp add: settles_def, unfold settles_def, metis progressBy_trans)

lemma evolves_same: "J t = J s \<Longrightarrow> evolves key step fresh J s t"
  by (simp add: evolves_def)

lemma progressBy_invariant:
  assumes "progressBy step fresh js js'" and "js' i = Some k'" and "\<And>k. fresh k \<Longrightarrow> P k"
    and "\<And>k k'. step k k' \<Longrightarrow> P k \<Longrightarrow> P k'" and "\<And>k. js i = Some k \<Longrightarrow> P k"
  shows "P k'"
proof -
  have "P y" if "step\<^sup>*\<^sup>* x y" "P x" for x y using that by (induction rule: rtranclp_induct) (auto intro: assms(4))
  then show ?thesis using spec [OF assms(1) [unfolded progressBy_def], of i] assms(2,3,5)
    by (cases "js i") auto
qed

section \<open>Fenced writes\<close>

locale record_life =
  fixes key :: "'a \<Rightarrow> string" and ver :: "'a \<Rightarrow> int" and setv :: "int \<Rightarrow> 'a \<Rightarrow> 'a"
    and step :: "'a \<Rightarrow> 'a \<Rightarrow> bool" and fresh :: "'a \<Rightarrow> bool"
  assumes step_key: "step k k' \<Longrightarrow> key k' = key k"
    and step_version: "step k k' \<Longrightarrow> ver k < ver k'"
begin

lemma steps_key: "step\<^sup>*\<^sup>* k k' \<Longrightarrow> key k' = key k \<and> (k' = k \<or> ver k < ver k')"
proof (induction rule: rtranclp_induct)
  case (step k' k'')
  then show ?case using step_key [of k' k''] step_version [of k' k''] by auto
qed simp

lemma life_put:
  assumes "js i = Some k" and "step k k'" and "keyed key js"
  shows "keyed key (js(i \<mapsto> k')) \<and> progressBy step fresh js (js(i \<mapsto> k'))"
  using assms step_key [OF assms(2)] by (auto simp: keyed_def progressBy_def split: option.splits)

lemma life_new:
  assumes "js (key k) = None" and "fresh k" and "keyed key js"
  shows "keyed key (js(key k \<mapsto> k)) \<and> progressBy step fresh js (js(key k \<mapsto> k))"
  using assms by (auto simp: keyed_def progressBy_def split: option.splits)

lemma life_pinned:
  assumes "progressBy step fresh js js'" and "pinnedBy key ver c js"
  shows "pinnedBy key ver c js'"
proof -
  obtain k where k: "js (key c) = Some k" "k = c \<or> ver c < ver k" using assms(2) by (auto simp: pinnedBy_def)
  obtain k' where "js' (key c) = Some k'" "step\<^sup>*\<^sup>* k k'"
    using spec [OF assms(1) [unfolded progressBy_def], of "key c"] k by auto
  then show ?thesis using steps_key [of k k'] k by (auto simp: pinnedBy_def)
qed

lemma settles_evolve: "evolves key step fresh J s t \<Longrightarrow> settles key ver step fresh J c s t"
  unfolding evolves_def settles_def using life_pinned by blast

lemma settles_evolves: "moves (evolves key step fresh J) m \<Longrightarrow> moves (settles key ver step fresh J c) m"
  by (erule moves_weaken) (rule settles_evolve)

text \<open>A write fenced on the version of the record that was read, when it is a step of that record.\<close>

lemma settles_cas:
  assumes "J t = J s \<or> casRecord ver setv (J s) (J t) (key c) (ver c) f"
    and "\<And>n. ver c < n \<Longrightarrow> step c (setv n (f c))"
  shows "settles key ver step fresh J c s t"
  unfolding settles_def
proof
  assume pre: "keyed key (J s) \<and> pinnedBy key ver c (J s)"
  from assms(1) show "keyed key (J t) \<and> pinnedBy key ver c (J t) \<and> progressBy step fresh (J s) (J t)"
  proof
    assume "casRecord ver setv (J s) (J t) (key c) (ver c) f"
    then obtain k n where k: "J s (key c) = Some k" "ver k = ver c" "ver c < n" "J t = (J s)(key c \<mapsto> setv n (f k))"
      by (auto simp: casRecord_def)
    then have "k = c" using pre by (auto simp: pinnedBy_def)
    then show ?thesis using life_put [of "J s" "key c" k "setv n (f k)"] k pre assms(2)
      by (auto dest: life_pinned)
  qed (use pre in simp)
qed

text \<open>From a state that holds the record, settling it is progress.\<close>

lemma settles_at:
  assumes "moves (settles key ver step fresh J c) m" and "J s i = Some c"
  shows "movesAt (evolves key step fresh J) m s"
proof (rule movesAtI)
  fix t r
  assume "m s = (t, r)"
  with assms(1) have st: "settles key ver step fresh J c s t" by (rule movesD)
  show "evolves key step fresh J s t"
    unfolding evolves_def
  proof
    assume wf: "keyed key (J s)"
    then have "key c = i" using assms(2) by (simp add: keyed_def)
    then show "keyed key (J t) \<and> progressBy step fresh (J s) (J t)"
      using st wf assms(2) by (simp add: settles_def pinnedBy_def)
  qed
qed

end

section \<open>A collection of such records\<close>

definition storedIn :: "('w \<Rightarrow> contents) \<Rightarrow> string \<Rightarrow> (doc \<Rightarrow> 'a option) \<Rightarrow> 'w sys \<Rightarrow> 'a records" where
  "storedIn C name proj s i = Option.bind (C (outside s) name i) proj"

lemma storedIn_cong: "C (outside t) name = C (outside s) name \<Longrightarrow> storedIn C name proj t = storedIn C name proj s"
  by (simp add: storedIn_def fun_eq_iff)

lemma storedIn_Some: "projects emb proj \<Longrightarrow> storedIn C name proj s i = Some k \<longleftrightarrow> C (outside s) name i = Some (emb k)"
  by (auto simp: storedIn_def bind_eq_Some_conv projects_Some)

lemma storedIn_put:
  assumes "projects emb proj" and "C (outside t) = putDoc (C (outside s)) name i (emb k)"
  shows "storedIn C name proj t = (storedIn C name proj s)(i \<mapsto> k)"
  using assms by (auto simp: storedIn_def fun_eq_iff projects_def)

lemma storedIn_keeps: "keeps C {name} s t \<Longrightarrow> storedIn C name proj t = storedIn C name proj s"
  by (rule storedIn_cong) (simp add: keeps_def)

context stored_collection
begin

lemma get_stored:
  assumes "projects emb proj" and "ext (c_get c i) s = (t, r)"
  shows "storedIn C name proj t = storedIn C name proj s"
    and "r = Inr (Some k) \<Longrightarrow> storedIn C name proj s i = Some k"
  using assms get_view [of i "outside s"] get_sound [of i "outside s"]
  by (auto simp: ext_eq_iff storedIn_Some intro!: storedIn_cong)

lemma find_stored:
  assumes "projects emb proj" and "ext (c_find c P) s = (t, r)"
  shows "storedIn C name proj t = storedIn C name proj s"
    and "r = Inr xs \<Longrightarrow> x \<in> set xs \<Longrightarrow> P x \<and> (\<exists>i. storedIn C name proj s i = Some x)"
  using assms find_view [of P "outside s"] find_sound [of P "outside s"]
  by (auto simp: ext_eq_iff storedIn_Some intro!: storedIn_cong)

end

context versioned_collection
begin

lemma cas_stored:
  assumes "projects emb proj" and "casItem (c_updateIfVersion c i v f) s = (t, r)"
  shows "storedIn C name proj t = storedIn C name proj s \<or>
      casRecord ver setv (storedIn C name proj s) (storedIn C name proj t) i v f"
    and "r = Inr (Some x) \<Longrightarrow> casRecord ver setv (storedIn C name proj s) (storedIn C name proj t) i v f
      \<and> storedIn C name proj t i = Some x"
    and "r = Inr q \<Longrightarrow> storedIn C name proj s i = Some y \<Longrightarrow> ver y = v \<Longrightarrow>
      casRecord ver setv (storedIn C name proj s) (storedIn C name proj t) i v f"
proof -
  consider (kept) "storedIn C name proj t = storedIn C name proj s" "\<And>y. r \<noteq> Inr (Some y)"
      "\<And>q y. r = Inr q \<Longrightarrow> storedIn C name proj s i = Some y \<Longrightarrow> ver y \<noteq> v"
    | (written) "casRecord ver setv (storedIn C name proj s) (storedIn C name proj t) i v f"
      "\<And>x. r = Inr (Some x) \<Longrightarrow> storedIn C name proj t i = Some x"
  proof (cases rule: casItem_cases [OF assms(2)])
    case 1
    then show thesis using assms(1) by (intro kept storedIn_cong) (auto simp: storedIn_Some)
  next
    case (2 x n)
    then have "storedIn C name proj t = (storedIn C name proj s)(i \<mapsto> setv n (f x))"
      using assms(1) by (intro storedIn_put)
    then show thesis using 2 assms(1) by (intro written) (auto simp: casRecord_def storedIn_Some)
  qed
  then show "storedIn C name proj t = storedIn C name proj s \<or>
      casRecord ver setv (storedIn C name proj s) (storedIn C name proj t) i v f"
    and "r = Inr (Some x) \<Longrightarrow> casRecord ver setv (storedIn C name proj s) (storedIn C name proj t) i v f
      \<and> storedIn C name proj t i = Some x"
    and "r = Inr q \<Longrightarrow> storedIn C name proj s i = Some y \<Longrightarrow> ver y = v \<Longrightarrow>
      casRecord ver setv (storedIn C name proj s) (storedIn C name proj t) i v f"
    by (cases; auto)+
qed

end

locale life_collection = versioned_collection C name emb strip c ver setv + record_life key ver setv step fresh
  for C :: "'w \<Rightarrow> contents" and name :: string and emb :: "'a \<Rightarrow> doc" and strip :: "'a \<Rightarrow> 'a"
    and c :: "('w, 'a) coll" and ver :: "'a \<Rightarrow> int" and setv :: "int \<Rightarrow> 'a \<Rightarrow> 'a"
    and key :: "'a \<Rightarrow> string" and step :: "'a \<Rightarrow> 'a \<Rightarrow> bool" and fresh :: "'a \<Rightarrow> bool" +
  fixes proj :: "doc \<Rightarrow> 'a option"
  assumes projection: "projects emb proj"
begin

lemma kept_evolves: "moves (keeps C {name}) m \<Longrightarrow> moves (evolves key step fresh (storedIn C name proj)) m"
  by (erule moves_weaken) (simp add: evolves_same storedIn_keeps)

lemma kept_settles: "moves (keeps C {name}) m \<Longrightarrow> moves (settles key ver step fresh (storedIn C name proj) d) m"
  by (rule settles_evolves) (rule kept_evolves)

lemma settles_update:
  assumes "\<And>n. ver d < n \<Longrightarrow> step d (setv n (f d))" and "i = key d"
  shows "moves (settles key ver step fresh (storedIn C name proj) d) (casItem (c_updateIfVersion c i (ver d) f))"
  unfolding assms(2) by (rule movesI, rule settles_cas [where f = f, OF _ assms(1)], rule cas_stored(1) [OF projection])

end

context platform
begin

text \<open>Storing a record that must not exist yet.\<close>

lemma create_stored:
  assumes "projects emb proj"
    and "ext (e_transaction E [\<lparr>op_collection = name, op_id = i, op_requireAbsent = True, op_requirePresent = False, op_expectedVersion = None,
      op_value = emb k\<rparr>]) s = (t, r)"
  shows "storedIn C name proj t = storedIn C name proj s \<or>
     storedIn C name proj s i = None \<and> storedIn C name proj t = (storedIn C name proj s)(i \<mapsto> k)"
    and "r = Inr u \<Longrightarrow>
     storedIn C name proj s i = None \<and> storedIn C name proj t = (storedIn C name proj s)(i \<mapsto> k)"
proof -
  let ?ps = "[\<lparr>op_collection = name, op_id = i, op_requireAbsent = True, op_requirePresent = False, op_expectedVersion = None, op_value = emb k\<rparr>]"
  have put: "storedIn C name proj s i = None \<and> storedIn C name proj t = (storedIn C name proj s)(i \<mapsto> k)"
    if "\<forall>p\<in>set ?ps. opHolds (C (outside s)) p" "C (outside t) = applyOps (C (outside s)) ?ps"
    using that assms(1) by (auto simp: opHolds_def applyOps_def storedIn_def fun_eq_iff projects_def)
  obtain w where w: "e_transaction E ?ps (outside s) = (w, r)" "t = s\<lparr>outside := w\<rparr>"
    using assms(2) by (auto simp: ext_eq_iff)
  show "r = Inr u \<Longrightarrow>
     storedIn C name proj s i = None \<and> storedIn C name proj t = (storedIn C name proj s)(i \<mapsto> k)"
    using transaction_ok [of ?ps "outside s" w] w by (intro put) auto
  show "storedIn C name proj t = storedIn C name proj s \<or>
     storedIn C name proj s i = None \<and> storedIn C name proj t = (storedIn C name proj s)(i \<mapsto> k)"
  proof (cases r)
    case (Inl e)
    then consider "C w = C (outside s)"
      | "\<forall>p\<in>set ?ps. opHolds (C (outside s)) p" "C w = applyOps (C (outside s)) ?ps"
      using transaction_rejected w(1) by blast
    then show ?thesis using put w(2) by cases (auto intro: storedIn_cong)
  next
    case (Inr u)
    then show ?thesis using transaction_ok [of ?ps "outside s" w] w put by auto
  qed
qed

end

end
