(* ===== verification/Files.thy ===== *)
theory Files
  imports Lifecycle
begin

text \<open>
  File metadata (\<open>files/service.ts\<close>) and its storage (\<open>storage/files.ts\<close>): the service's
  operations, the classes that implement its stores on the database, and the steps a stored file
  takes.
\<close>

section \<open>Storage\<close>

record 'w file_store =
  ft_create :: "file_record \<Rightarrow> ('w, unit) service"
  ft_get :: "string \<Rightarrow> string \<Rightarrow> ('w, file_record option) service"
  ft_list :: "string \<Rightarrow> ('w, file_record list) service"
  ft_update :: "string \<Rightarrow> int \<Rightarrow> (file_record \<Rightarrow> file_record) \<Rightarrow> ('w, file_record option) service"

record 'w file_sink =
  fk_record :: "file_event \<Rightarrow> ('w, unit) service"

definition FILES :: string where "FILES = ''files''"
definition FILE_AUDIT :: string where "FILE_AUDIT = ''file_audit_events''"

definition fileStoreCreate :: "'w env \<Rightarrow> file_record \<Rightarrow> ('w, unit) service" where
  "fileStoreCreate E k =
     ext (e_transaction E [\<lparr>op_collection = FILES, op_id = fl_id k, op_requireAbsent = True,
       op_requirePresent = False, op_expectedVersion = None, op_value = FileDoc k\<rparr>])"

definition fileStoreGet :: "'w env \<Rightarrow> string \<Rightarrow> string \<Rightarrow> ('w, file_record option) service" where
  "fileStoreGet E tenantId i =
     bindA (ext (c_get (e_files E) i)) (\<lambda>found.
     ret (case found of None \<Rightarrow> None | Some k \<Rightarrow> if fl_tenantId k = tenantId then Some k else None))"

definition fileStoreList :: "'w env \<Rightarrow> string \<Rightarrow> ('w, file_record list) service" where
  "fileStoreList E tenantId = ext (c_find (e_files E) (\<lambda>k. fl_tenantId k = tenantId))"

definition fileStoreUpdate ::
  "'w env \<Rightarrow> string \<Rightarrow> int \<Rightarrow> (file_record \<Rightarrow> file_record) \<Rightarrow> ('w, file_record option) service" where
  "fileStoreUpdate E i expectedVersion updates =
     bindA (ext (c_get (e_files E) i)) (\<lambda>found.
     case found of
       None \<Rightarrow> ret None
     | Some current \<Rightarrow> casItem (c_updateIfVersion (e_files E) i expectedVersion (\<lambda>_. updates current)))"

definition feltDbFileStore :: "'w env \<Rightarrow> 'w file_store" where
  "feltDbFileStore E =
     \<lparr>ft_create = fileStoreCreate E, ft_get = fileStoreGet E, ft_list = fileStoreList E, ft_update = fileStoreUpdate E\<rparr>"

definition feltDbFileAuditSink :: "'w env \<Rightarrow> 'w file_sink" where
  "feltDbFileAuditSink E = \<lparr>fk_record = (\<lambda>ev. ext (c_insert (e_fileEvents E) ev (fe_id ev)))\<rparr>"

definition fileCollectionNames :: "string list" where
  "fileCollectionNames = [FILES, FILE_AUDIT]"

section \<open>Validation\<close>

definition fileValidationError :: "string \<Rightarrow> exn" where
  "fileValidationError msg = DomainError ''FileValidationError'' msg"

definition fileNotFoundError :: exn where
  "fileNotFoundError = DomainError ''FileNotFoundError'' ''File not found''"

text \<open>\<open>!v.trim()\<close> raises the message; a value without \<open>trim\<close> is a type error.\<close>

definition requireText :: "jsval \<Rightarrow> string \<Rightarrow> exn + string" where
  "requireText v msg = (case v of
      JStr x \<Rightarrow> if trim x = [] then Inl (fileValidationError msg) else Inr x
    | _ \<Rightarrow> Inl (TypeError ''trim is not a function''))"

definition fileSizeOk :: "jsval \<Rightarrow> bool" where
  "fileSizeOk v \<longleftrightarrow> (case v of JNum n \<Rightarrow> 0 \<le> n | _ \<Rightarrow> False)"

text \<open>\<open>metadata && typeof metadata === 'object' && !Array.isArray(metadata)\<close>\<close>

definition fileMetadataOk :: "jsval \<Rightarrow> bool" where
  "fileMetadataOk v \<longleftrightarrow> (case v of JObj _ \<Rightarrow> True | JDate _ \<Rightarrow> True | _ \<Rightarrow> False)"

text \<open>The result is the owner's text, which the check of its blanks shows it to be.\<close>

definition validateCreateFile :: "jsobj \<Rightarrow> string \<Rightarrow> jsval \<Rightarrow> exn + string" where
  "validateCreateFile input tenantId owner =
     bindR (guardR (trim tenantId \<noteq> []) (fileValidationError ''tenantId is required'')) (\<lambda>_.
     bindR (requireText owner ''owner is required'') (\<lambda>ownerText.
     bindR (requireText (propOf input ''name'') ''name is required'') (\<lambda>_.
     bindR (requireText (propOf input ''storageKey'') ''storageKey is required'') (\<lambda>_.
     bindR (guardR (fileSizeOk (propOf input ''size'')) (fileValidationError ''size must be a non-negative integer'')) (\<lambda>_.
     bindR (guardR (propOf input ''metadata'' = JUndef \<or> fileMetadataOk (propOf input ''metadata''))
              (fileValidationError ''metadata must be an object'')) (\<lambda>_.
     Inr ownerText))))))"

definition MUTABLE_FILE_FIELDS :: "string list" where
  "MUTABLE_FILE_FIELDS = [''name'', ''contentType'', ''size'', ''checksum'', ''storageKey'', ''metadata'']"

definition unlessUndef :: "jsval \<Rightarrow> (jsval \<Rightarrow> exn + unit) \<Rightarrow> exn + unit" where
  "unlessUndef v check = (if v = JUndef then Inr () else check v)"

text \<open>The result is the id's text.\<close>

definition validateUpdateFile :: "jsobj \<Rightarrow> string \<Rightarrow> exn + string" where
  "validateUpdateFile input tenantId = (case propOf input ''id'' of
      JStr i \<Rightarrow>
        bindR (guardR (trim tenantId \<noteq> []) (fileValidationError ''tenantId is required'')) (\<lambda>_.
        bindR (guardR (trim i \<noteq> []) (fileValidationError ''id is required'')) (\<lambda>_.
        bindR (guardR (list_ex (\<lambda>field. field \<in> fst ` set input) MUTABLE_FILE_FIELDS)
                 (fileValidationError ''At least one file property must be updated'')) (\<lambda>_.
        bindR (unlessUndef (propOf input ''name'') (\<lambda>v. bindR (requireText v ''name must be a non-empty string'') (\<lambda>_. Inr ()))) (\<lambda>_.
        bindR (unlessUndef (propOf input ''storageKey'') (\<lambda>v. bindR (requireText v ''storageKey must be a non-empty string'') (\<lambda>_. Inr ()))) (\<lambda>_.
        bindR (unlessUndef (propOf input ''size'') (\<lambda>v. guardR (fileSizeOk v) (fileValidationError ''size must be a non-negative integer''))) (\<lambda>_.
        bindR (unlessUndef (propOf input ''metadata'') (\<lambda>v. guardR (fileMetadataOk v) (fileValidationError ''metadata must be an object''))) (\<lambda>_.
        Inr i)))))))
    | _ \<Rightarrow> Inl (fileValidationError ''id is required''))"

text \<open>\<open>{ ...file, ...mutableFields(input) }\<close>: the fields of the input that are not undefined.\<close>

definition overlay :: "jsobj \<Rightarrow> string \<Rightarrow> jsval \<Rightarrow> jsval" where
  "overlay input field v = (if propOf input field = JUndef then v else propOf input field)"

definition mutableFields :: "jsobj \<Rightarrow> file_record \<Rightarrow> file_record" where
  "mutableFields input k =
     k\<lparr>fl_name := overlay input ''name'' (fl_name k), fl_contentType := overlay input ''contentType'' (fl_contentType k),
       fl_size := overlay input ''size'' (fl_size k), fl_checksum := overlay input ''checksum'' (fl_checksum k),
       fl_storageKey := overlay input ''storageKey'' (fl_storageKey k),
       fl_metadata := overlay input ''metadata'' (fl_metadata k)\<rparr>"

definition newFile :: "jsobj \<Rightarrow> string \<Rightarrow> string \<Rightarrow> string \<Rightarrow> string \<Rightarrow> string \<Rightarrow> file_record" where
  "newFile input tenantId applicationId owner i now =
     mutableFields input
       \<lparr>fl_id = i, fl_tenantId = tenantId, fl_applicationId = Some applicationId, fl_owner = owner,
        fl_name = JUndef, fl_contentType = JUndef, fl_size = JUndef, fl_checksum = JUndef, fl_storageKey = JUndef,
        fl_metadata = JUndef, fl_createdAt = now, fl_updatedAt = Some now, fl_deletedAt = None, fl_version = 1\<rparr>"

definition fileResource :: "file_record \<Rightarrow> resource" where
  "fileResource k =
     \<lparr>rs_type = ''file'', rs_tenantId = fl_tenantId k, rs_id = Some (fl_id k), rs_attributes = Some [(''owner'', fl_owner k)]\<rparr>"

section \<open>The service\<close>

record 'w file_service =
  fv_store :: "'w file_store"
  fv_auditSink :: "'w file_sink"
  fv_authority :: "'w gateway option"

definition fileGateway :: "'w file_service \<Rightarrow> exn + 'w gateway" where
  "fileGateway SV = (case fv_authority SV of
      None \<Rightarrow> Inl (ServiceAuthorityError AUTHORITY_UNAVAILABLE ''Files have no AuthBoundry authority configured'' noDetails)
    | Some G \<Rightarrow> Inr G)"

definition fileOwned :: "'w file_service \<Rightarrow> file_record \<Rightarrow> exn + bool" where
  "fileOwned SV k = bindR (fileGateway SV) (\<lambda>G. Inr (fl_applicationId k = Some (gw_application G)))"

text \<open>\<open>!item || item.deletedAt || !this.owned(item)\<close>: what of a lookup the service will speak of.\<close>

definition liveFile :: "'w file_service \<Rightarrow> file_record option \<Rightarrow> exn + file_record option" where
  "liveFile SV found = (case found of
      None \<Rightarrow> Inr None
    | Some k \<Rightarrow> if truthy (fl_deletedAt k) then Inr None
        else bindR (fileOwned SV k) (\<lambda>owned. Inr (if owned then Some k else None)))"

definition fileAudit :: "'w env \<Rightarrow> 'w file_service \<Rightarrow> string \<Rightarrow> file_record \<Rightarrow> string \<Rightarrow> ('w, unit) service" where
  "fileAudit E SV type k principalId =
     bindA (draw (e_uuid E)) (\<lambda>i.
     bindA (nowISO E) (\<lambda>timestamp.
     fk_record (fv_auditSink SV)
       \<lparr>fe_id = i, fe_type = type, fe_fileId = fl_id k, fe_tenantId = fl_tenantId k, fe_owner = fl_owner k,
        fe_principalId = principalId, fe_timestamp = timestamp\<rparr>))"

definition storeNewFile ::
  "'w env \<Rightarrow> 'w file_service \<Rightarrow> jsobj \<Rightarrow> string \<Rightarrow> string \<Rightarrow> string \<Rightarrow> string \<Rightarrow> ('w, file_record) service" where
  "storeNewFile E SV input tenantId applicationId owner principalId =
     bindA (nowISO E) (\<lambda>now.
     bindA (draw (e_uuid E)) (\<lambda>i.
     let k = newFile input tenantId applicationId owner i now in
     bindA (ft_create (fv_store SV) k) (\<lambda>_.
     bindA (fileAudit E SV ''file.created'' k principalId) (\<lambda>_.
     ret k))))"

definition createFile :: "'w env \<Rightarrow> 'w file_service \<Rightarrow> jsobj \<Rightarrow> 'w caller \<Rightarrow> ('w, file_record) service" where
  "createFile E SV input caller =
     bindA (liftR (requireVerifiedPrincipal caller)) (\<lambda>p.
     bindA (liftR (resolveTenant (JObj input) p)) (\<lambda>tenantId.
     let owner = (if propOf input ''owner'' \<in> {JUndef, JNull} then JStr (pr_principalId p) else propOf input ''owner'') in
     bindA (liftR (validateCreateFile input tenantId owner)) (\<lambda>ownerText.
     bindA (liftR (fileGateway SV)) (\<lambda>G.
     execute E G ''files.write'' (Verified p)
       \<lparr>rs_type = ''file'', rs_tenantId = tenantId, rs_id = None, rs_attributes = Some [(''owner'', ownerText)]\<rparr>
       (serviceOptions ''files'')
       (\<lambda>ctx. plain (storeNewFile E SV input tenantId (gw_application G) ownerText (pr_principalId p)))))))"

definition getFile :: "'w env \<Rightarrow> 'w file_service \<Rightarrow> string \<Rightarrow> string \<Rightarrow> 'w caller \<Rightarrow> ('w, file_record) service" where
  "getFile E SV tenantId i caller =
     bindA (liftR (requireVerifiedPrincipal caller)) (\<lambda>p.
     bindA (liftR (resolveTenant (JObj [(''tenantId'', JStr tenantId)]) p)) (\<lambda>tenant.
     bindA (ft_get (fv_store SV) tenant i) (\<lambda>found.
     bindA (liftR (liveFile SV found)) (\<lambda>live.
     case live of
       None \<Rightarrow> raise fileNotFoundError
     | Some k \<Rightarrow>
         bindA (liftR (fileGateway SV)) (\<lambda>G.
         execute E G ''files.read'' (Verified p) (fileResource k) (serviceOptions ''files'') (\<lambda>ctx. ret k))))))"

text \<open>Newest first; equal creation times by id, last first. An empty owner filter is no filter.\<close>

definition newestFile :: "'w env \<Rightarrow> file_record \<Rightarrow> file_record \<Rightarrow> bool" where
  "newestFile E a b = byThen (e_localeLeq E) (fl_createdAt b) (fl_createdAt a) (fl_id b) (fl_id a)"

definition listedFiles :: "'w env \<Rightarrow> 'w file_service \<Rightarrow> string \<Rightarrow> string \<Rightarrow> string option \<Rightarrow> ('w, file_record list) service" where
  "listedFiles E SV tenant application owner =
     bindA (ft_list (fv_store SV) tenant) (\<lambda>all.
     ret (sortBy (newestFile E) (filter (\<lambda>k. \<not> truthy (fl_deletedAt k) \<and> fl_applicationId k = Some application
            \<and> (\<not> truthy owner \<or> Some (fl_owner k) = owner)) all)))"

definition listFiles ::
  "'w env \<Rightarrow> 'w file_service \<Rightarrow> string \<Rightarrow> 'w caller \<Rightarrow> string option \<Rightarrow> ('w, file_record list) service" where
  "listFiles E SV tenantId caller owner =
     bindA (liftR (requireVerifiedPrincipal caller)) (\<lambda>p.
     bindA (liftR (resolveTenant (JObj [(''tenantId'', JStr tenantId)]) p)) (\<lambda>tenant.
     bindA (liftR (fileGateway SV)) (\<lambda>G.
     execute E G ''files.read'' (Verified p)
       \<lparr>rs_type = ''file'', rs_tenantId = tenant, rs_id = None,
        rs_attributes = Some [(''owner'', case owner of None \<Rightarrow> ''*'' | Some x \<Rightarrow> x)]\<rparr>
       (serviceOptions ''files'')
       (\<lambda>ctx. plain (listedFiles E SV tenant (gw_application G) owner)))))"

definition fileEdited :: "jsobj \<Rightarrow> string \<Rightarrow> file_record \<Rightarrow> file_record" where
  "fileEdited input now k = (mutableFields input k)\<lparr>fl_updatedAt := Some now\<rparr>"

definition applyFileUpdate ::
  "'w env \<Rightarrow> 'w file_service \<Rightarrow> jsobj \<Rightarrow> file_record \<Rightarrow> string \<Rightarrow> ('w, file_record) service" where
  "applyFileUpdate E SV input current principalId =
     bindA (nowISO E) (\<lambda>now.
     bindA (ft_update (fv_store SV) (fl_id current) (fl_version current) (fileEdited input now)) (\<lambda>updated.
     case updated of
       None \<Rightarrow> raise (fileValidationError ''File was modified concurrently'')
     | Some k \<Rightarrow> bindA (fileAudit E SV ''file.updated'' k principalId) (\<lambda>_. ret k)))"

definition updateFile :: "'w env \<Rightarrow> 'w file_service \<Rightarrow> jsobj \<Rightarrow> 'w caller \<Rightarrow> ('w, file_record) service" where
  "updateFile E SV input caller =
     bindA (liftR (requireVerifiedPrincipal caller)) (\<lambda>p.
     bindA (liftR (resolveTenant (JObj input) p)) (\<lambda>tenantId.
     bindA (liftR (validateUpdateFile input tenantId)) (\<lambda>i.
     bindA (ft_get (fv_store SV) tenantId i) (\<lambda>found.
     bindA (liftR (liveFile SV found)) (\<lambda>live.
     case live of
       None \<Rightarrow> raise fileNotFoundError
     | Some current \<Rightarrow>
         bindA (liftR (fileGateway SV)) (\<lambda>G.
         execute E G ''files.write'' (Verified p) (fileResource current) (serviceOptions ''files'')
           (\<lambda>ctx. plain (applyFileUpdate E SV input current (pr_principalId p)))))))))"

definition fileRemoved :: "string \<Rightarrow> string \<Rightarrow> file_record \<Rightarrow> file_record" where
  "fileRemoved deletedAt updatedAt k = k\<lparr>fl_deletedAt := Some deletedAt, fl_updatedAt := Some updatedAt\<rparr>"

definition applyFileDelete :: "'w env \<Rightarrow> 'w file_service \<Rightarrow> file_record \<Rightarrow> string \<Rightarrow> ('w, unit) service" where
  "applyFileDelete E SV current principalId =
     bindA (nowISO E) (\<lambda>deletedAt.
     bindA (nowISO E) (\<lambda>updatedAt.
     bindA (ft_update (fv_store SV) (fl_id current) (fl_version current) (fileRemoved deletedAt updatedAt)) (\<lambda>updated.
     case updated of
       None \<Rightarrow> raise (fileValidationError ''File was modified concurrently'')
     | Some k \<Rightarrow> fileAudit E SV ''file.deleted'' k principalId)))"

definition deleteFile :: "'w env \<Rightarrow> 'w file_service \<Rightarrow> string \<Rightarrow> string \<Rightarrow> 'w caller \<Rightarrow> ('w, unit) service" where
  "deleteFile E SV tenantId i caller =
     bindA (liftR (requireVerifiedPrincipal caller)) (\<lambda>p.
     bindA (liftR (resolveTenant (JObj [(''tenantId'', JStr tenantId)]) p)) (\<lambda>tenant.
     bindA (ft_get (fv_store SV) tenant i) (\<lambda>found.
     bindA (liftR (liveFile SV found)) (\<lambda>live.
     case live of
       None \<Rightarrow> ret ()
     | Some current \<Rightarrow>
         bindA (liftR (fileGateway SV)) (\<lambda>G.
         execute E G ''files.delete'' (Verified p) (fileResource current) (serviceOptions ''files'')
           (\<lambda>ctx. plain (applyFileDelete E SV current (pr_principalId p))))))))"

end
