(* ===== verification/FileLifecycle.thy ===== *)
theory FileLifecycle
  imports Files JobLifecycle
begin

text \<open>
  What the file service does to the stored files: the steps of a file, the refinement of the
  service's operations to them, and what its reads return.
\<close>

section \<open>Steps of a file\<close>

definition textOk :: "jsval \<Rightarrow> bool" where
  "textOk v \<longleftrightarrow> (case v of JStr x \<Rightarrow> trim x \<noteq> [] | _ \<Rightarrow> False)"

definition wfFile :: "file_record \<Rightarrow> bool" where
  "wfFile k \<longleftrightarrow> textOk (fl_name k) \<and> textOk (fl_storageKey k) \<and> fileSizeOk (fl_size k)
     \<and> (fl_metadata k = JUndef \<or> fileMetadataOk (fl_metadata k)) \<and> trim (fl_owner k) \<noteq> []"

text \<open>
  One write of a file of tenant \<open>T\<close> and application \<open>A\<close>: its metadata is edited with an input
  that passed the checks, or it is marked deleted. Neither happens to a file that is deleted.
\<close>

inductive file_step :: "string \<Rightarrow> string \<Rightarrow> file_record \<Rightarrow> file_record \<Rightarrow> bool" for T A where
  edited: "fl_tenantId k = T \<Longrightarrow> fl_applicationId k = Some A \<Longrightarrow> \<not> truthy (fl_deletedAt k) \<Longrightarrow> fl_version k < n \<Longrightarrow>
    validateUpdateFile input T = Inr i \<Longrightarrow> file_step T A k ((fileEdited input now k)\<lparr>fl_version := n\<rparr>)"
| removed: "fl_tenantId k = T \<Longrightarrow> fl_applicationId k = Some A \<Longrightarrow> \<not> truthy (fl_deletedAt k) \<Longrightarrow> fl_version k < n \<Longrightarrow>
    at \<noteq> [] \<Longrightarrow> file_step T A k ((fileRemoved at now k)\<lparr>fl_version := n\<rparr>)"

inductive_cases file_stepE: "file_step T A k k'"

definition freshFile :: "string \<Rightarrow> string \<Rightarrow> file_record \<Rightarrow> bool" where
  "freshFile T A k \<longleftrightarrow> wfFile k \<and> fl_tenantId k = T \<and> fl_applicationId k = Some A \<and> fl_deletedAt k = None \<and> fl_version k = 1"

text \<open>What no step changes.\<close>

definition sameFile :: "file_record \<Rightarrow> file_record \<Rightarrow> bool" where
  "sameFile k k' \<longleftrightarrow>
     fl_id k' = fl_id k \<and> fl_tenantId k' = fl_tenantId k \<and> fl_applicationId k' = fl_applicationId k \<and>
     fl_owner k' = fl_owner k \<and> fl_createdAt k' = fl_createdAt k"

lemma edited_simps [simp]:
  "fl_id (mutableFields input k) = fl_id k" "fl_tenantId (mutableFields input k) = fl_tenantId k"
  "fl_applicationId (mutableFields input k) = fl_applicationId k" "fl_owner (mutableFields input k) = fl_owner k"
  "fl_createdAt (mutableFields input k) = fl_createdAt k" "fl_deletedAt (mutableFields input k) = fl_deletedAt k"
  "fl_version (mutableFields input k) = fl_version k"
  by (simp_all add: mutableFields_def)

lemma file_step_same: "file_step T A k k' \<Longrightarrow> sameFile k k' \<and> fl_version k < fl_version k' \<and> fl_tenantId k = T \<and>
    fl_applicationId k = Some A \<and> \<not> truthy (fl_deletedAt k)"
  by (erule file_stepE) (auto simp: sameFile_def fileEdited_def fileRemoved_def)

text \<open>What the checks of an input ensure of the fields it provides.\<close>

lemma requireText_Inr: "requireText v m = Inr x \<longleftrightarrow> v = JStr x \<and> trim x \<noteq> []"
  by (auto simp: requireText_def split: jsval.splits)

lemma requireText_ok: "requireText v m = Inr x \<Longrightarrow> textOk v"
  by (simp add: requireText_Inr textOk_def)

lemma unlessUndef_Inr: "unlessUndef v c = Inr u \<longleftrightarrow> v = JUndef \<or> c v = Inr u"
  by (cases u) (simp add: unlessUndef_def)

lemma validateUpdate_fields:
  assumes "validateUpdateFile input T = Inr i"
  shows "propOf input ''id'' = JStr i"
    and "propOf input ''name'' = JUndef \<or> textOk (propOf input ''name'')"
    and "propOf input ''storageKey'' = JUndef \<or> textOk (propOf input ''storageKey'')"
    and "propOf input ''size'' = JUndef \<or> fileSizeOk (propOf input ''size'')"
    and "propOf input ''metadata'' = JUndef \<or> fileMetadataOk (propOf input ''metadata'')"
proof -
  from assms obtain j where id: "propOf input ''id'' = JStr j"
    by (cases "propOf input ''id''") (simp_all add: validateUpdateFile_def)
  note checked = assms [unfolded validateUpdateFile_def id jsval.case bindR_Inr_iff guardR_iff unlessUndef_Inr]
  show "propOf input ''id'' = JStr i" using checked id by blast
  show "propOf input ''name'' = JUndef \<or> textOk (propOf input ''name'')"
    "propOf input ''storageKey'' = JUndef \<or> textOk (propOf input ''storageKey'')"
    "propOf input ''size'' = JUndef \<or> fileSizeOk (propOf input ''size'')"
    "propOf input ''metadata'' = JUndef \<or> fileMetadataOk (propOf input ''metadata'')"
    using checked requireText_ok by blast+
qed

lemma wf_edited:
  assumes "validateUpdateFile input T = Inr i" and "wfFile k"
  shows "wfFile ((fileEdited input now k)\<lparr>fl_version := n\<rparr>)"
  using validateUpdate_fields [OF assms(1)] assms(2)
  by (auto simp: wfFile_def fileEdited_def mutableFields_def overlay_def)

lemma file_step_wf: "file_step T A k k' \<Longrightarrow> wfFile k \<Longrightarrow> wfFile k'"
  by (erule file_stepE) (auto simp: wf_edited, simp add: wfFile_def fileRemoved_def)

lemma newFile_fresh:
  assumes "validateCreateFile input T owner = Inr ownerText"
  shows "freshFile T A (newFile input T A ownerText i now)"
proof -
  note checked = assms [unfolded validateCreateFile_def bindR_Inr_iff guardR_iff]
  have "textOk (propOf input ''name'')" "textOk (propOf input ''storageKey'')" "trim ownerText \<noteq> []"
    "fileSizeOk (propOf input ''size'')" "propOf input ''metadata'' = JUndef \<or> fileMetadataOk (propOf input ''metadata'')"
    using checked requireText_ok requireText_Inr by blast+
  then show ?thesis
    by (auto simp: freshFile_def wfFile_def newFile_def mutableFields_def overlay_def textOk_def fileSizeOk_def)
qed

lemma newFile_id [simp]: "fl_id (newFile input T A owner i now) = i"
  by (simp add: newFile_def)

interpretation fileSteps: record_life fl_id fl_version "\<lambda>v. fl_version_update (\<lambda>_. v)" "file_step T A" "freshFile T A" for T A
  by unfold_locales (auto dest: file_step_same simp: sameFile_def)

sublocale platform \<subseteq> fileLife: life_collection C "''files''" FileDoc "fl_version_update (\<lambda>_. 0)" "e_files E"
    fl_version "\<lambda>v. fl_version_update (\<lambda>_. v)" fl_id "file_step T A" "freshFile T A" asFile for T A
  by (intro life_collection.intro files.versioned_collection_axioms fileSteps.record_life_axioms
      life_collection_axioms.intro projections)

section \<open>The store\<close>

definition storedFiles :: "('w \<Rightarrow> contents) \<Rightarrow> 'w sys \<Rightarrow> file_record records" where
  "storedFiles C = storedIn C FILES asFile"

lemma storedFiles_eq: "storedFiles C = storedIn C ''files'' asFile"
  by (simp add: storedFiles_def FILES_def)

context platform
begin

abbreviation F :: "'w sys \<Rightarrow> file_record records" where "F \<equiv> storedFiles C"

abbreviation fileCas :: "'w sys \<Rightarrow> 'w sys \<Rightarrow> string \<Rightarrow> int \<Rightarrow> (file_record \<Rightarrow> file_record) \<Rightarrow> bool" where
  "fileCas s t \<equiv> casRecord fl_version (\<lambda>v. fl_version_update (\<lambda>_. v)) (F s) (F t)"

lemma file_get:
  assumes "fileStoreGet E T i s = (t, r)"
  shows "F t = F s" and "r = Inr (Some k) \<Longrightarrow> F s i = Some k \<and> fl_tenantId k = T"
proof -
  obtain q where run: "ext (c_get (e_files E) i) s = (t, q)"
    and r: "r = (case q of Inl e \<Rightarrow> Inl e | Inr None \<Rightarrow> Inr None
        | Inr (Some k) \<Rightarrow> Inr (if fl_tenantId k = T then Some k else None))"
    using assms by (auto simp: fileStoreGet_def bindA_def act_simps split: prod.splits sum.splits option.splits)
  note got = files.get_stored [OF projections(8) run, folded storedFiles_eq]
  show "F t = F s" using got(1) .
  show "r = Inr (Some k) \<Longrightarrow> F s i = Some k \<and> fl_tenantId k = T"
    using got(2) r by (auto split: sum.splits option.splits if_splits)
qed

lemma file_list:
  assumes "fileStoreList E T s = (t, r)"
  shows "F t = F s" and "r = Inr ks \<Longrightarrow> k \<in> set ks \<Longrightarrow> fl_tenantId k = T \<and> (\<exists>i. F s i = Some k)"
  using files.find_stored [OF projections(8), folded storedFiles_eq, OF assms [unfolded fileStoreList_def]] by auto

text \<open>An update writes what its changes make of the stored record, or nothing.\<close>

lemma file_update:
  assumes "fileStoreUpdate E i v f s = (t, r)"
  shows "F t = F s \<or> fileCas s t i v f" and "r = Inr (Some k) \<Longrightarrow> fileCas s t i v f \<and> F t i = Some k"
proof -
  obtain s1 q where get: "ext (c_get (e_files E) i) s = (s1, q)" by (cases "ext (c_get (e_files E) i) s")
  note got = files.get_stored [OF projections(8) get, folded storedFiles_eq]
  consider (kept) "t = s1" "\<And>k. r \<noteq> Inr (Some k)"
    | (cas) c where "q = Inr (Some c)" "casItem (c_updateIfVersion (e_files E) i v (\<lambda>_. f c)) s1 = (t, r)"
    using assms get by (cases q; auto simp: fileStoreUpdate_def bindA_def act_simps split: option.splits)
  then have "(F t = F s \<or> fileCas s t i v f) \<and> (\<forall>k. r = Inr (Some k) \<longrightarrow> fileCas s t i v f \<and> F t i = Some k)"
  proof cases
    case (cas c)
    note out = files.cas_stored [OF projections(8) cas(2), folded storedFiles_eq]
    have "casRecord fl_version (\<lambda>v. fl_version_update (\<lambda>_. v)) (F s1) (F t) i v (\<lambda>_. f c) \<Longrightarrow> fileCas s t i v f"
      using got(1) got(2) [OF cas(1)] by (auto simp: casRecord_def)
    then show ?thesis using out(1,2) got(1) by metis
  qed (use got in simp)
  then show "F t = F s \<or> fileCas s t i v f" and "r = Inr (Some k) \<Longrightarrow> fileCas s t i v f \<and> F t i = Some k" by blast+
qed

lemma file_create:
  assumes "fileStoreCreate E k s = (t, r)"
  shows "F t = F s \<or> F s (fl_id k) = None \<and> F t = (F s)(fl_id k \<mapsto> k)"
  using create_stored(1) [OF projections(8) assms [unfolded fileStoreCreate_def]] by (simp add: storedFiles_def)

end

section \<open>The service on the database\<close>

locale felt_file_service = platform E C for E :: "'w env" and C :: "'w \<Rightarrow> contents" +
  fixes SV :: "'w file_service"
  assumes stores: "fv_store SV = feltDbFileStore E" "fv_auditSink SV = feltDbFileAuditSink E"
    and gateway: "fv_authority SV = Some G \<Longrightarrow> gateway_platform E C G"
begin

abbreviation along :: "string \<Rightarrow> string \<Rightarrow> 'w sys \<Rightarrow> 'w sys \<Rightarrow> bool" where
  "along T A \<equiv> evolves fl_id (file_step T A) (freshFile T A) F"

abbreviation settling :: "string \<Rightarrow> string \<Rightarrow> file_record \<Rightarrow> 'w sys \<Rightarrow> 'w sys \<Rightarrow> bool" where
  "settling T A c \<equiv> settles fl_id fl_version (file_step T A) (freshFile T A) F c"

lemma quiet: "moves (keeps C {FILES}) m \<Longrightarrow> moves (along T A) m"
  by (simp add: fileLife.kept_evolves storedFiles_eq FILES_def)

lemma quiet_settles: "moves (keeps C {FILES}) m \<Longrightarrow> moves (settling T A c) m"
  by (simp add: fileLife.kept_settles storedFiles_eq FILES_def)

lemma same_files: "keeps C {FILES} s t \<Longrightarrow> F t = F s"
  by (simp add: storedFiles_def storedIn_keeps)

lemma operation:
  assumes "fv_authority SV = Some G"
  shows "operation_frame E C G (along T A) {FILES}" and "operation_frame E C G (settling T A c) {FILES}"
  by (intro operation_frame.intro gateway assms evolves.frame_axioms settles.frame_axioms operation_frame_axioms.intro
      evolves_same fileSteps.settles_evolve same_files; simp add: FILES_def EVIDENCE_COLLECTION_def)+

lemma keeps_audit: "moves (keeps C {FILES}) (fileAudit E SV type k pid)"
  unfolding fileAudit_def stores feltDbFileAuditSink_def
  by (auto simp: FILES_def intro!: keeps.frame_rules keeps_uuid keeps_nowISO fileEvents.keeps_insert)

lemmas quiet_rules = keeps_uuid [THEN quiet] keeps_nowISO [THEN quiet] keeps_audit [THEN quiet]
lemmas settling_rules = keeps_uuid [THEN quiet_settles] keeps_nowISO [THEN quiet_settles] keeps_audit [THEN quiet_settles]

lemma storeNewFile_moves:
  assumes "validateCreateFile input T owner = Inr ownerText"
  shows "moves (along T A) (storeNewFile E SV input T A ownerText pid)"
proof -
  have "moves (along T A) (ft_create (fv_store SV) (newFile input T A ownerText i now))" for i now
  proof (rule movesI)
    fix s t r
    assume "ft_create (fv_store SV) (newFile input T A ownerText i now) s = (t, r)"
    then have "F t = F s \<or> F s i = None \<and> F t = (F s)(i \<mapsto> newFile input T A ownerText i now)"
      using file_create [of "newFile input T A ownerText i now" s t r] by (simp add: stores feltDbFileStore_def)
    then show "along T A s t"
      using fileSteps.life_new [of "F s" "newFile input T A ownerText i now" T A] newFile_fresh [OF assms]
      by (auto simp: evolves_def)
  qed
  then show ?thesis unfolding storeNewFile_def Let_def by (intro evolves.frame_rules quiet_rules)
qed

lemma update_settles:
  assumes "\<And>n. fl_version c < n \<Longrightarrow> file_step T A c ((f c)\<lparr>fl_version := n\<rparr>)"
  shows "moves (settling T A c) (ft_update (fv_store SV) (fl_id c) (fl_version c) f)"
proof (rule movesI)
  fix s t r
  assume "ft_update (fv_store SV) (fl_id c) (fl_version c) f s = (t, r)"
  then have "F t = F s \<or> fileCas s t (fl_id c) (fl_version c) f"
    by (intro file_update(1)) (simp add: stores feltDbFileStore_def)
  then show "settling T A c s t" using assms by (rule fileSteps.settles_cas)
qed

lemma applyFileUpdate_settles:
  assumes "fl_tenantId c = T" "fl_applicationId c = Some A" "\<not> truthy (fl_deletedAt c)" "validateUpdateFile input T = Inr i"
  shows "moves (settling T A c) (applyFileUpdate E SV input c pid)"
  unfolding applyFileUpdate_def
  by (intro settles.frame_rules settling_rules update_settles file_step.edited [OF _ _ _ _ assms(4)] assms(1-3))

lemma nowISO_nonempty: "nowISO E s = (t, Inr x) \<Longrightarrow> x \<noteq> []"
proof
  assume "nowISO E s = (t, Inr x)" and "x = []"
  then obtain u where "timeValue u" "isoString u = []" by (auto simp: nowISO_Inr_iff)
  then have "parseIso [] = Some u" using parseIso_isoString [of u] by simp
  moreover have "parseIso [] = None" by code_simp
  ultimately show False by simp
qed

lemma applyFileDelete_settles:
  assumes "fl_tenantId c = T" "fl_applicationId c = Some A" "\<not> truthy (fl_deletedAt c)"
  shows "moves (settling T A c) (applyFileDelete E SV c pid)"
proof -
  have rest: "moves (settling T A c) (bindA (nowISO E) (\<lambda>updatedAt.
      bindA (ft_update (fv_store SV) (fl_id c) (fl_version c) (fileRemoved deletedAt updatedAt)) (\<lambda>updated.
      case updated of None \<Rightarrow> raise (fileValidationError ''File was modified concurrently'')
        | Some k \<Rightarrow> fileAudit E SV ''file.deleted'' k pid)))" if "deletedAt \<noteq> []" for deletedAt
    by (intro settles.frame_rules settling_rules update_settles file_step.removed assms that)
  show ?thesis
    unfolding applyFileDelete_def moves_iff_At
  proof (intro allI, rule settles.movesAt_bindA)
    fix s
    show "movesAt (settling T A c) (nowISO E) s" using settling_rules(2) by (simp add: moves_iff_At)
  next
    fix s deletedAt t
    assume "nowISO E s = (t, Inr deletedAt)"
    then show "movesAt (settling T A c) (bindA (nowISO E) (\<lambda>updatedAt.
        bindA (ft_update (fv_store SV) (fl_id c) (fl_version c) (fileRemoved deletedAt updatedAt)) (\<lambda>updated.
        case updated of None \<Rightarrow> raise (fileValidationError ''File was modified concurrently'')
          | Some k \<Rightarrow> fileAudit E SV ''file.deleted'' k pid))) t"
      using rest [OF nowISO_nonempty] by (simp add: moves_iff_At)
  qed
qed

text \<open>The operations, by the principal and the gateway they run under.\<close>

lemma createFile_moves:
  assumes "quietCaller C {FILES} (Verified p)" and "fv_authority SV = Some G"
  shows "moves (along (pr_tenantId p) (gw_application G)) (createFile E SV input (Verified p))"
proof (rule movesI)
  fix s t r
  assume run: "createFile E SV input (Verified p) s = (t, r)"
  let ?owner = "if propOf input ''owner'' \<in> {JUndef, JNull} then JStr (pr_principalId p) else propOf input ''owner''"
  show "along (pr_tenantId p) (gw_application G) s t"
  proof (cases "resolveTenant (JObj input) p")
    case (Inl e)
    then have "t = s" using run by (simp add: createFile_def requireVerifiedPrincipal_def bindA_def act_simps)
    then show ?thesis by (simp add: evolves.R_refl)
  next
    case (Inr T)
    then have T: "T = pr_tenantId p" by (simp add: resolveTenant_def Let_def split: if_splits)
    show ?thesis
    proof (cases "validateCreateFile input T ?owner")
      case (Inl e)
      then have "t = s" using run Inr by (simp add: createFile_def requireVerifiedPrincipal_def bindA_def act_simps Let_def)
      then show ?thesis by (simp add: evolves.R_refl)
    next
      case valid: (Inr ownerText)
      note new = storeNewFile_moves [OF valid, of "gw_application G" "pr_principalId p"]
      have "execute E G ''files.write'' (Verified p)
         \<lparr>rs_type = ''file'', rs_tenantId = T, rs_id = None, rs_attributes = Some [(''owner'', ownerText)]\<rparr>
         (serviceOptions ''files'')
         (\<lambda>ctx. plain (storeNewFile E SV input T (gw_application G) ownerText (pr_principalId p))) s = (t, r)"
        using run Inr valid assms(2)
        by (simp add: createFile_def requireVerifiedPrincipal_def bindA_def act_simps Let_def fileGateway_def)
      then show ?thesis
        using operation_frame.execute_moves [OF operation(1) [OF assms(2)] assms(1) onSys_plain [OF new], THEN movesD] T
        by blast
    qed
  qed
qed

text \<open>An operation on a file that was read and found live.\<close>

lemma onLive_moves:
  assumes "fv_authority SV = Some G" and "quietCaller C {FILES} (Verified p)"
    and "\<And>c. fl_tenantId c = T \<Longrightarrow> fl_applicationId c = Some (gw_application G) \<Longrightarrow> \<not> truthy (fl_deletedAt c) \<Longrightarrow>
      moves (settling T (gw_application G) c) (m c)"
    and "\<And>s t r. n s = (t, r) \<Longrightarrow> t = s"
  shows "moves (along T (gw_application G))
    (bindA (ft_get (fv_store SV) T i) (\<lambda>found.
     bindA (liftR (liveFile SV found)) (\<lambda>live.
     case live of None \<Rightarrow> n
       | Some c \<Rightarrow> bindA (liftR (fileGateway SV)) (\<lambda>G.
           execute E G cap (Verified p) (fileResource c) opts (\<lambda>ctx. plain (m c))))))"
  unfolding moves_iff_At
proof (intro allI, rule evolves.movesAt_bindA)
  fix s
  show "movesAt (along T (gw_application G)) (ft_get (fv_store SV) T i) s"
    using file_get(1) by (intro movesAtI evolves_same) (simp add: stores feltDbFileStore_def)
next
  fix s found s1
  assume "ft_get (fv_store SV) T i s = (s1, Inr found)"
  then have get: "fileStoreGet E T i s = (s1, Inr found)" by (simp add: stores feltDbFileStore_def)
  have still: "movesAt (along T (gw_application G)) n s1"
  proof (rule movesAtI)
    fix t r
    assume "n s1 = (t, r)"
    then have "t = s1" by (rule assms(4))
    then show "along T (gw_application G) s1 t" by (simp add: evolves_same)
  qed
  show "movesAt (along T (gw_application G)) (bindA (liftR (liveFile SV found)) (\<lambda>live.
     case live of None \<Rightarrow> n
       | Some c \<Rightarrow> bindA (liftR (fileGateway SV)) (\<lambda>G.
           execute E G cap (Verified p) (fileResource c) opts (\<lambda>ctx. plain (m c))))) s1"
  proof (cases "liveFile SV found")
    case (Inl e)
    then show ?thesis by (simp add: bindA_def act_simps movesAt_def evolves.R_refl)
  next
    case (Inr live)
    show ?thesis
    proof (cases live)
      case None
      have eq: "bindA (liftR (liveFile SV found)) (\<lambda>live.
         case live of None \<Rightarrow> n
           | Some c \<Rightarrow> bindA (liftR (fileGateway SV)) (\<lambda>G.
               execute E G cap (Verified p) (fileResource c) opts (\<lambda>ctx. plain (m c)))) s1 = n s1"
        using Inr None by (simp add: bindA_def act_simps)
      show ?thesis unfolding movesAt_def eq by (rule still [unfolded movesAt_def])
    next
      case (Some c)
      then have c: "found = Some c" "\<not> truthy (fl_deletedAt c)" "fl_applicationId c = Some (gw_application G)"
        using Inr assms(1) by (auto simp: liveFile_def fileOwned_def fileGateway_def split: option.splits if_splits)
      have stored: "F s1 i = Some c" "fl_tenantId c = T"
        using file_get [OF get] c(1) by auto
      have run: "moves (settling T (gw_application G) c) (execute E G cap (Verified p) (fileResource c) opts (\<lambda>ctx. plain (m c)))"
        by (rule operation_frame.execute_moves [OF operation(2) [OF assms(1)] assms(2)]) (intro onSys_plain assms(3) stored c)
      have "movesAt (along T (gw_application G)) (execute E G cap (Verified p) (fileResource c) opts (\<lambda>ctx. plain (m c))) s1"
        by (rule fileSteps.settles_at [where J = F, OF run stored(1)])
      then show ?thesis using Inr Some assms(1) by (simp add: bindA_def act_simps movesAt_def fileGateway_def)
    qed
  qed
qed

lemma updateFile_moves:
  assumes "quietCaller C {FILES} (Verified p)" and "fv_authority SV = Some G"
  shows "moves (along (pr_tenantId p) (gw_application G)) (updateFile E SV input (Verified p))"
proof (rule movesI)
  fix s t r
  assume run: "updateFile E SV input (Verified p) s = (t, r)"
  show "along (pr_tenantId p) (gw_application G) s t"
  proof (cases "resolveTenant (JObj input) p")
    case (Inl e)
    then have "t = s" using run by (simp add: updateFile_def requireVerifiedPrincipal_def bindA_def act_simps)
    then show ?thesis by (simp add: evolves.R_refl)
  next
    case (Inr T)
    then have T: "T = pr_tenantId p" by (simp add: resolveTenant_def Let_def split: if_splits)
    show ?thesis
    proof (cases "validateUpdateFile input T")
      case (Inl e)
      then have "t = s" using run Inr by (simp add: updateFile_def requireVerifiedPrincipal_def bindA_def act_simps)
      then show ?thesis by (simp add: evolves.R_refl)
    next
      case valid: (Inr i)
      have "moves (along T (gw_application G))
         (bindA (ft_get (fv_store SV) T i) (\<lambda>found.
          bindA (liftR (liveFile SV found)) (\<lambda>live.
          case live of None \<Rightarrow> raise fileNotFoundError
            | Some c \<Rightarrow> bindA (liftR (fileGateway SV)) (\<lambda>G.
                execute E G ''files.write'' (Verified p) (fileResource c) (serviceOptions ''files'')
                  (\<lambda>ctx. plain (applyFileUpdate E SV input c (pr_principalId p)))))))"
        by (rule onLive_moves [OF assms(2,1)]) (rule applyFileUpdate_settles [OF _ _ _ valid], simp_all add: act_simps)
      then show ?thesis using run Inr valid T
        by (auto simp: updateFile_def requireVerifiedPrincipal_def act_simps bindA_def dest: movesD)
    qed
  qed
qed

lemma deleteFile_moves:
  assumes "quietCaller C {FILES} (Verified p)" and "fv_authority SV = Some G"
  shows "moves (along (pr_tenantId p) (gw_application G)) (deleteFile E SV tenantId i (Verified p))"
proof (cases "resolveTenant (JObj [(''tenantId'', JStr tenantId)]) p")
  case (Inl e)
  then show ?thesis
    by (intro movesI) (auto simp: deleteFile_def requireVerifiedPrincipal_def bindA_def act_simps evolves.R_refl)
next
  case (Inr T)
  then have T: "T = pr_tenantId p" by (simp add: resolveTenant_def Let_def split: if_splits)
  have "moves (along T (gw_application G))
     (bindA (ft_get (fv_store SV) T i) (\<lambda>found.
      bindA (liftR (liveFile SV found)) (\<lambda>live.
      case live of None \<Rightarrow> ret ()
        | Some c \<Rightarrow> bindA (liftR (fileGateway SV)) (\<lambda>G.
            execute E G ''files.delete'' (Verified p) (fileResource c) (serviceOptions ''files'')
              (\<lambda>ctx. plain (applyFileDelete E SV c (pr_principalId p)))))))"
    by (rule onLive_moves [OF assms(2,1)]) (rule applyFileDelete_settles, simp_all add: act_simps)
  moreover have "deleteFile E SV tenantId i (Verified p) = (bindA (ft_get (fv_store SV) T i) (\<lambda>found.
      bindA (liftR (liveFile SV found)) (\<lambda>live.
      case live of None \<Rightarrow> ret ()
        | Some c \<Rightarrow> bindA (liftR (fileGateway SV)) (\<lambda>G.
            execute E G ''files.delete'' (Verified p) (fileResource c) (serviceOptions ''files'')
              (\<lambda>ctx. plain (applyFileDelete E SV c (pr_principalId p)))))))"
    using Inr by (simp add: deleteFile_def requireVerifiedPrincipal_def bindA_def act_simps fun_eq_iff)
  ultimately show ?thesis using T by simp
qed

lemma liveFile_Some:
  assumes "fv_authority SV = Some G" and "liveFile SV found = Inr (Some k)"
  shows "found = Some k \<and> \<not> truthy (fl_deletedAt k) \<and> fl_applicationId k = Some (gw_application G)"
  using assms by (auto simp: liveFile_def fileOwned_def fileGateway_def split: option.splits if_splits)

lemma getFile_live:
  assumes "fv_authority SV = Some G" and "getFile E SV tenantId i (Verified p) s = (t, Inr k)"
  shows "pr_tenantId p = tenantId \<and> F s i = Some k \<and> fl_tenantId k = tenantId \<and> \<not> truthy (fl_deletedAt k) \<and>
    fl_applicationId k = Some (gw_application G) \<and>
    (\<exists>u s1 s2 requestId at ctx. fileStoreGet E tenantId i s = (u, Inr (Some k)) \<and>
       executeStart E (serviceOptions ''files'') u = (s1, Inr (requestId, at)) \<and>
       authorize E G ''files.read'' (Verified p) (fileResource k) requestId s1 = (s2, Inr ctx))"
proof -
  obtain T where T: "resolveTenant (JObj [(''tenantId'', JStr tenantId)]) p = Inr T"
    using assms(2) by (cases "resolveTenant (JObj [(''tenantId'', JStr tenantId)]) p")
      (simp_all add: getFile_def requireVerifiedPrincipal_def bindA_def act_simps)
  then have pT: "T = pr_tenantId p" "T = tenantId" by (auto simp: resolveTenant_def propOf_def split: if_splits)
  obtain u found where get: "ft_get (fv_store SV) T i s = (u, Inr found)"
    and rest: "bindA (liftR (liveFile SV found)) (\<lambda>live.
     case live of None \<Rightarrow> raise fileNotFoundError
     | Some k \<Rightarrow> bindA (liftR (fileGateway SV)) (\<lambda>G.
         execute E G ''files.read'' (Verified p) (fileResource k) (serviceOptions ''files'') (\<lambda>ctx. ret k))) u = (t, Inr k)"
    using assms(2) T by (auto simp: getFile_def requireVerifiedPrincipal_def bindA_Inr_iff act_simps)
  then obtain c where c: "liveFile SV found = Inr (Some c)"
    and run: "execute E G ''files.read'' (Verified p) (fileResource c) (serviceOptions ''files'') (\<lambda>ctx. ret c) u = (t, Inr k)"
    using assms(1) by (auto simp: bindA_Inr_iff act_simps fileGateway_def split: option.splits)
  have "k = c" by (rule execute_pure [OF run])
  moreover from run obtain requestId at s1 s2 ctx where "executeStart E (serviceOptions ''files'') u = (s1, Inr (requestId, at))"
      "authorize E G ''files.read'' (Verified p) (fileResource c) requestId s1 = (s2, Inr ctx)" by (rule execute_authorized)
  moreover note liveFile_Some [OF assms(1) c]
  moreover have "F s i = Some k' \<and> fl_tenantId k' = T" if "found = Some k'" for k'
    using file_get(2) [of T i s u] get that by (simp add: stores feltDbFileStore_def)
  moreover have "fileStoreGet E T i s = (u, Inr found)" using get by (simp add: stores feltDbFileStore_def)
  ultimately show ?thesis using pT by auto
qed

lemma listFiles_authorized:
  assumes "fv_authority SV = Some G" and "listFiles E SV tenantId (Verified p) owner s = (t, Inr ks)"
  shows "\<exists>s1 s2 requestId at ctx. executeStart E (serviceOptions ''files'') s = (s1, Inr (requestId, at)) \<and>
    authorize E G ''files.read'' (Verified p)
      \<lparr>rs_type = ''file'', rs_tenantId = tenantId, rs_id = None,
       rs_attributes = Some [(''owner'', case owner of None \<Rightarrow> ''*'' | Some x \<Rightarrow> x)]\<rparr> requestId s1 = (s2, Inr ctx)"
proof -
  obtain T where T: "resolveTenant (JObj [(''tenantId'', JStr tenantId)]) p = Inr T"
    using assms(2) by (cases "resolveTenant (JObj [(''tenantId'', JStr tenantId)]) p")
      (simp_all add: listFiles_def requireVerifiedPrincipal_def bindA_def act_simps)
  then have "T = tenantId" by (auto simp: resolveTenant_def propOf_def split: if_splits)
  with T have "execute E G ''files.read'' (Verified p)
      \<lparr>rs_type = ''file'', rs_tenantId = tenantId, rs_id = None,
       rs_attributes = Some [(''owner'', case owner of None \<Rightarrow> ''*'' | Some x \<Rightarrow> x)]\<rparr> (serviceOptions ''files'')
      (\<lambda>ctx. plain (listedFiles E SV T (gw_application G) owner)) s = (t, Inr ks)"
    using assms by (auto simp: listFiles_def requireVerifiedPrincipal_def bindA_Inr_iff act_simps fileGateway_def)
  then show ?thesis by (rule execute_authorized) blast
qed

lemma listFiles_live:
  assumes "fv_authority SV = Some G" and "quietCaller C {FILES} (Verified p)"
    and "listFiles E SV tenantId (Verified p) owner s = (t, Inr ks)"
  shows "pr_tenantId p = tenantId \<and> sorted_wrt (newestFile E) ks \<and>
    (\<forall>k\<in>set ks. (\<exists>i. F s i = Some k) \<and> fl_tenantId k = tenantId \<and> \<not> truthy (fl_deletedAt k) \<and>
       fl_applicationId k = Some (gw_application G) \<and> (truthy owner \<longrightarrow> owner = Some (fl_owner k)))"
proof -
  obtain T where T: "resolveTenant (JObj [(''tenantId'', JStr tenantId)]) p = Inr T"
    using assms(3) by (cases "resolveTenant (JObj [(''tenantId'', JStr tenantId)]) p")
      (simp_all add: listFiles_def requireVerifiedPrincipal_def bindA_def act_simps)
  then have pT: "T = pr_tenantId p" "T = tenantId" by (auto simp: resolveTenant_def propOf_def split: if_splits)
  obtain r where run: "execute E G ''files.read'' (Verified p) r (serviceOptions ''files'')
      (\<lambda>ctx. plain (listedFiles E SV T (gw_application G) owner)) s = (t, Inr ks)"
    using assms(1,3) T by (auto simp: listFiles_def requireVerifiedPrincipal_def bindA_Inr_iff act_simps fileGateway_def)
  have "EVIDENCE_COLLECTION \<notin> {FILES}" by (simp add: EVIDENCE_COLLECTION_def FILES_def)
  from gateway_platform.execute_effect [OF gateway [OF assms(1)] assms(2) this run] obtain ctx s3 u log where
    "keeps C {FILES} s s3"
    "plain (listedFiles E SV T (gw_application G) owner) (s3, \<lparr>tl_refs = [], tl_stored = None\<rparr>) = ((u, log), Inr ks)"
    by metis
  then obtain all where same: "F s3 = F s" and list: "fileStoreList E T s3 = (u, Inr all)"
    and ks: "ks = sortBy (newestFile E) (filter (\<lambda>k. \<not> truthy (fl_deletedAt k)
        \<and> fl_applicationId k = Some (gw_application G) \<and> (\<not> truthy owner \<or> Some (fl_owner k) = owner)) all)"
    by (auto simp: plain_Inr_iff listedFiles_def bindA_Inr_iff act_simps stores feltDbFileStore_def dest: same_files)
  have "comparator (\<lambda>a b. byThen (e_localeLeq E) (fl_createdAt a) (fl_createdAt b) (fl_id a) (fl_id b))"
    by (rule comparator_byThen) (rule locale_order)
  then have "comparator (newestFile E)" unfolding comparator_def newestFile_def by blast
  then have "sorted_wrt (newestFile E) ks" unfolding ks by (rule comparator.sorted_sortBy)
  then show ?thesis using file_list(2) [OF list refl] pT same by (auto simp: ks)
qed

end

section \<open>Operations\<close>

datatype file_op =
    CreateFile jsobj
  | GetFile string string
  | ListFiles string "string option"
  | UpdateFile jsobj
  | DeleteFile string string

fun runFileOp :: "'w env \<Rightarrow> 'w file_service \<Rightarrow> 'w caller \<Rightarrow> file_op \<Rightarrow> 'w sys \<Rightarrow> 'w sys" where
  "runFileOp E SV caller (CreateFile input) = stateOf (createFile E SV input caller)"
| "runFileOp E SV caller (GetFile tenantId i) = stateOf (getFile E SV tenantId i caller)"
| "runFileOp E SV caller (ListFiles tenantId owner) = stateOf (listFiles E SV tenantId caller owner)"
| "runFileOp E SV caller (UpdateFile input) = stateOf (updateFile E SV input caller)"
| "runFileOp E SV caller (DeleteFile tenantId i) = stateOf (deleteFile E SV tenantId i caller)"

definition runFileOps :: "'w env \<Rightarrow> 'w file_service \<Rightarrow> ('w principal \<times> file_op) list \<Rightarrow> 'w sys \<Rightarrow> 'w sys" where
  "runFileOps E SV ops s = foldl (\<lambda>s (p, op). runFileOp E SV (Verified p) op s) s ops"

definition runFiles_quiet :: "('w \<Rightarrow> contents) \<Rightarrow> ('w principal \<times> file_op) list \<Rightarrow> bool" where
  "runFiles_quiet C ops \<longleftrightarrow> list_all (\<lambda>(p, op). quietCaller C {FILES} (Verified p)) ops"

lemma plain_ret: "plain (ret x) = ret x"
  by (simp add: plain_def act_simps fun_eq_iff)

context felt_file_service
begin

lemma getFile_moves:
  assumes "quietCaller C {FILES} (Verified p)" and "fv_authority SV = Some G"
  shows "moves (along (pr_tenantId p) (gw_application G)) (getFile E SV tenantId i (Verified p))"
proof (cases "resolveTenant (JObj [(''tenantId'', JStr tenantId)]) p")
  case (Inl e)
  then show ?thesis
    by (intro movesI) (auto simp: getFile_def requireVerifiedPrincipal_def bindA_def act_simps evolves.R_refl)
next
  case (Inr T)
  then have T: "T = pr_tenantId p" by (simp add: resolveTenant_def Let_def split: if_splits)
  have "moves (along T (gw_application G))
     (bindA (ft_get (fv_store SV) T i) (\<lambda>found.
      bindA (liftR (liveFile SV found)) (\<lambda>live.
      case live of None \<Rightarrow> raise fileNotFoundError
        | Some c \<Rightarrow> bindA (liftR (fileGateway SV)) (\<lambda>G.
            execute E G ''files.read'' (Verified p) (fileResource c) (serviceOptions ''files'') (\<lambda>ctx. plain (ret c))))))"
    by (rule onLive_moves [OF assms(2,1)]) (simp_all add: settles.moves_ret act_simps)
  moreover have "getFile E SV tenantId i (Verified p) = (bindA (ft_get (fv_store SV) T i) (\<lambda>found.
      bindA (liftR (liveFile SV found)) (\<lambda>live.
      case live of None \<Rightarrow> raise fileNotFoundError
        | Some c \<Rightarrow> bindA (liftR (fileGateway SV)) (\<lambda>G.
            execute E G ''files.read'' (Verified p) (fileResource c) (serviceOptions ''files'') (\<lambda>ctx. ret c)))))"
    using Inr by (simp add: getFile_def requireVerifiedPrincipal_def bindA_def act_simps fun_eq_iff)
  ultimately show ?thesis using T unfolding plain_ret by simp
qed

lemma listFiles_moves:
  assumes "quietCaller C {FILES} (Verified p)" and "fv_authority SV = Some G"
  shows "moves (along (pr_tenantId p) (gw_application G)) (listFiles E SV tenantId (Verified p) owner)"
proof -
  have "moves (keeps C {FILES}) (listedFiles E SV T app owner)" for T app
    unfolding listedFiles_def stores feltDbFileStore_def
    by (auto simp: fileStoreList_def intro!: keeps.frame_rules files.keeps_find)
  then have run: "moves (along T A) (execute E G cap (Verified p) r opts (\<lambda>ctx. plain (listedFiles E SV T' app owner)))"
    for T A cap r opts T' app
    by (intro operation_frame.execute_moves [OF operation(1) [OF assms(2)] assms(1)] onSys_plain quiet)
  show ?thesis
    by (intro movesI) (auto simp: listFiles_def fileGateway_def assms(2) requireVerifiedPrincipal_def bindA_def act_simps
        evolves.R_refl split: sum.splits, erule movesD [OF run])
qed

lemma file_op_moves:
  assumes "quietCaller C {FILES} (Verified p)" and "fv_authority SV = Some G"
  shows "along (pr_tenantId p) (gw_application G) s (runFileOp E SV (Verified p) op s)"
  using createFile_moves [OF assms] getFile_moves [OF assms] listFiles_moves [OF assms] updateFile_moves [OF assms]
    deleteFile_moves [OF assms]
  by (cases op) (simp_all add: moves_stateOf)

text \<open>Any sequence, by any callers.\<close>

lemma runFileOps_moves:
  assumes "runFiles_quiet C ops" and "fv_authority SV = Some G"
  shows "evolves fl_id (\<lambda>k k'. \<exists>T. file_step T (gw_application G) k k') wfFile F s (runFileOps E SV ops s)"
  using assms(1)
proof (induction ops arbitrary: s)
  case (Cons q ops)
  obtain p op where q: "q = (p, op)" by (cases q)
  have "evolves fl_id (\<lambda>k k'. \<exists>T. file_step T (gw_application G) k k') wfFile F s (runFileOp E SV (Verified p) op s)"
    using Cons.prems file_op_moves [OF _ assms(2), of p s op]
    by (auto simp: runFiles_quiet_def q freshFile_def intro: evolves_mono)
  moreover have "evolves fl_id (\<lambda>k k'. \<exists>T. file_step T (gw_application G) k k') wfFile F
      (runFileOp E SV (Verified p) op s) (runFileOps E SV ops (runFileOp E SV (Verified p) op s))"
    using Cons by (simp add: runFiles_quiet_def)
  ultimately show ?case unfolding runFileOps_def foldl_Cons q prod.case by (rule evolves.R_trans)
qed (simp add: runFileOps_def evolves.R_refl)

end

lemma file_steps_same:
  assumes "(\<lambda>k k'. \<exists>T. file_step T A k k')\<^sup>*\<^sup>* k k'"
  shows "sameFile k k' \<and> (k' \<noteq> k \<longrightarrow> fl_applicationId k = Some A \<and> \<not> truthy (fl_deletedAt k) \<and> fl_version k < fl_version k')"
  using assms
proof (induction rule: rtranclp_induct)
  case (step k' k'')
  then show ?case using file_step_same by (fastforce simp: sameFile_def)
qed (simp add: sameFile_def)

lemma file_steps_any: "(file_step T A)\<^sup>*\<^sup>* k k' \<Longrightarrow> (\<lambda>k k'. \<exists>T. file_step T A k k')\<^sup>*\<^sup>* k k'"
  by (induction rule: rtranclp_induct) (auto intro: rtranclp.rtrancl_into_rtrancl)

lemma file_steps_tenant: "(file_step T A)\<^sup>*\<^sup>* k k' \<Longrightarrow> k' \<noteq> k \<Longrightarrow> fl_tenantId k = T"
  by (induction rule: converse_rtranclp_induct) (auto dest: file_step_same)

section \<open>Properties\<close>

text \<open>
  C30: an operation of the file service touches only the files of its caller's tenant and of its own
  application. Every stored file stays stored under its id with its tenant, application, owner and
  creation time; a file that changes belongs to that tenant and application, was not deleted, and
  gains a version; a new file belongs to them.
\<close>

lemma file_operations_isolated:
  assumes "felt_file_service E C SV" and "fv_authority SV = Some G" and "quietCaller C {FILES} (Verified p)"
    and "keyed fl_id (storedFiles C s)" and "t = runFileOp E SV (Verified p) op s"
  shows "keyed fl_id (storedFiles C t) \<and>
    (\<forall>i k. storedFiles C s i = Some k \<longrightarrow> (\<exists>k'. storedFiles C t i = Some k' \<and> sameFile k k' \<and>
       (k' \<noteq> k \<longrightarrow> fl_tenantId k = pr_tenantId p \<and> fl_applicationId k = Some (gw_application G)
          \<and> \<not> truthy (fl_deletedAt k) \<and> fl_version k < fl_version k'))) \<and>
    (\<forall>i k'. storedFiles C s i = None \<longrightarrow> storedFiles C t i = Some k' \<longrightarrow>
       fl_tenantId k' = pr_tenantId p \<and> fl_applicationId k' = Some (gw_application G) \<and> wfFile k')"
proof -
  let ?step = "file_step (pr_tenantId p) (gw_application G)" and ?fresh = "freshFile (pr_tenantId p) (gw_application G)"
  have move: "keyed fl_id (storedFiles C t)" "progressBy ?step ?fresh (storedFiles C s) (storedFiles C t)"
    using felt_file_service.file_op_moves [OF assms(1,3,2), of s op] assms(4,5) by (simp_all add: evolves_def)
  have same: "sameFile k k' \<and> (k' \<noteq> k \<longrightarrow> fl_tenantId k = pr_tenantId p \<and> fl_applicationId k = Some (gw_application G)
      \<and> \<not> truthy (fl_deletedAt k) \<and> fl_version k < fl_version k')" if "?step\<^sup>*\<^sup>* k k'" for k k'
    using file_steps_same [OF file_steps_any [OF that]] file_steps_tenant [OF that] by simp
  have wf: "wfFile k'" if "?step\<^sup>*\<^sup>* k k'" "wfFile k" for k k'
    using that by (induction rule: rtranclp_induct) (auto intro: file_step_wf)
  have "\<exists>k'. storedFiles C t i = Some k' \<and> ?step\<^sup>*\<^sup>* k k'" if "storedFiles C s i = Some k" for i k
    using spec [OF move(2) [unfolded progressBy_def], of i] that by simp
  moreover have "fl_tenantId k' = pr_tenantId p \<and> fl_applicationId k' = Some (gw_application G) \<and> wfFile k'"
    if absent: "storedFiles C s i = None" and new: "storedFiles C t i = Some k'" for i k'
  proof -
    obtain k where k: "?fresh k" "?step\<^sup>*\<^sup>* k k'"
      using spec [OF move(2) [unfolded progressBy_def], of i] absent new by auto
    have "wfFile k'" using k(1) by (intro wf [OF k(2)]) (simp add: freshFile_def)
    moreover have "sameFile k k'" using same [OF k(2)] by (rule conjunct1)
    ultimately show ?thesis using k(1) by (simp add: freshFile_def sameFile_def)
  qed
  ultimately show ?thesis using move(1) same by (intro conjI allI impI) blast+
qed

text \<open>
  C31: stored files stay well formed. Whatever sequence of operations any callers run, every stored
  file has a name and a storage key that are not blank, a size that is a natural number, metadata
  that is an object, and an owner, provided the files stored before had; and a file that is deleted
  is never changed again.
\<close>

lemma files_well_formed:
  assumes "felt_file_service E C SV" and "fv_authority SV = Some G" and "runFiles_quiet C ops"
    and "keyed fl_id (storedFiles C s)" and "\<forall>i k. storedFiles C s i = Some k \<longrightarrow> wfFile k"
  shows "(\<forall>i k. storedFiles C (runFileOps E SV ops s) i = Some k \<longrightarrow> wfFile k) \<and>
    (\<forall>i k. storedFiles C s i = Some k \<longrightarrow> truthy (fl_deletedAt k) \<longrightarrow> storedFiles C (runFileOps E SV ops s) i = Some k)"
proof -
  let ?step = "\<lambda>k k'. \<exists>T. file_step T (gw_application G) k k'"
  have move: "progressBy ?step wfFile (storedFiles C s) (storedFiles C (runFileOps E SV ops s))"
    using felt_file_service.runFileOps_moves [OF assms(1,3,2), of s] assms(4) by (simp add: evolves_def)
  have "wfFile k" if "storedFiles C (runFileOps E SV ops s) i = Some k" for i k
    by (rule progressBy_invariant [OF move that]) (use assms(5) file_step_wf in blast)+
  moreover have "storedFiles C (runFileOps E SV ops s) i = Some k" if "storedFiles C s i = Some k" "truthy (fl_deletedAt k)" for i k
    using spec [OF move [unfolded progressBy_def], of i] that file_steps_same by fastforce
  ultimately show ?thesis by blast
qed

text \<open>
  C32: a file that is read is live and the caller's to see: it is stored under the id asked for, of
  the caller's tenant and this application, not deleted, and after it was read from the store AuthBoundry
  allowed \<open>files.read\<close> on that file. A listing is given only after AuthBoundry allowed
  \<open>files.read\<close> on the files of that owner (or of all owners) in the tenant, and contains only live
  files of the caller's tenant and this application (of the owner asked for, if one was), newest first.
\<close>

lemma file_reads_are_live:
  assumes "felt_file_service E C SV" and "fv_authority SV = Some G" and "quietCaller C {FILES} (Verified p)"
  shows "(getFile E SV tenantId i (Verified p) s = (t, Inr k) \<longrightarrow>
      pr_tenantId p = tenantId \<and> storedFiles C s i = Some k \<and> fl_tenantId k = tenantId \<and> \<not> truthy (fl_deletedAt k) \<and>
      fl_applicationId k = Some (gw_application G) \<and>
      (\<exists>u s1 s2 requestId at ctx. fileStoreGet E tenantId i s = (u, Inr (Some k)) \<and>
         executeStart E (serviceOptions ''files'') u = (s1, Inr (requestId, at)) \<and>
         authorize E G ''files.read'' (Verified p) (fileResource k) requestId s1 = (s2, Inr ctx))) \<and>
    (listFiles E SV tenantId (Verified p) owner s = (t', Inr ks) \<longrightarrow>
      pr_tenantId p = tenantId \<and> sorted_wrt (newestFile E) ks \<and>
      (\<forall>k\<in>set ks. (\<exists>i. storedFiles C s i = Some k) \<and> fl_tenantId k = tenantId \<and> \<not> truthy (fl_deletedAt k) \<and>
         fl_applicationId k = Some (gw_application G) \<and> (truthy owner \<longrightarrow> owner = Some (fl_owner k))) \<and>
      (\<exists>s1 s2 requestId at ctx. executeStart E (serviceOptions ''files'') s = (s1, Inr (requestId, at)) \<and>
         authorize E G ''files.read'' (Verified p)
           \<lparr>rs_type = ''file'', rs_tenantId = tenantId, rs_id = None,
            rs_attributes = Some [(''owner'', case owner of None \<Rightarrow> ''*'' | Some x \<Rightarrow> x)]\<rparr> requestId s1 = (s2, Inr ctx)))"
proof (rule conjI; rule impI)
  assume "getFile E SV tenantId i (Verified p) s = (t, Inr k)"
  from felt_file_service.getFile_live [OF assms(1,2) this] show "pr_tenantId p = tenantId \<and> storedFiles C s i = Some k \<and>
      fl_tenantId k = tenantId \<and> \<not> truthy (fl_deletedAt k) \<and> fl_applicationId k = Some (gw_application G) \<and>
      (\<exists>u s1 s2 requestId at ctx. fileStoreGet E tenantId i s = (u, Inr (Some k)) \<and>
         executeStart E (serviceOptions ''files'') u = (s1, Inr (requestId, at)) \<and>
         authorize E G ''files.read'' (Verified p) (fileResource k) requestId s1 = (s2, Inr ctx))" .
next
  assume run: "listFiles E SV tenantId (Verified p) owner s = (t', Inr ks)"
  show "pr_tenantId p = tenantId \<and> sorted_wrt (newestFile E) ks \<and>
      (\<forall>k\<in>set ks. (\<exists>i. storedFiles C s i = Some k) \<and> fl_tenantId k = tenantId \<and> \<not> truthy (fl_deletedAt k) \<and>
         fl_applicationId k = Some (gw_application G) \<and> (truthy owner \<longrightarrow> owner = Some (fl_owner k))) \<and>
      (\<exists>s1 s2 requestId at ctx. executeStart E (serviceOptions ''files'') s = (s1, Inr (requestId, at)) \<and>
         authorize E G ''files.read'' (Verified p)
           \<lparr>rs_type = ''file'', rs_tenantId = tenantId, rs_id = None,
            rs_attributes = Some [(''owner'', case owner of None \<Rightarrow> ''*'' | Some x \<Rightarrow> x)]\<rparr> requestId s1 = (s2, Inr ctx))"
    using felt_file_service.listFiles_live [OF assms run]
    by (intro conjI felt_file_service.listFiles_authorized [OF assms(1,2) run]) (elim conjE, assumption)+
qed

end
