(* ===== verification/DemoRuns.thy ===== *)
theory DemoRuns
  imports Examples
begin

text \<open>
  Whole runs of authorized operations on the in-memory platform, computed once for any declared
  capability, resource of the demo tenant and effect, so that an example only runs its effect.
\<close>

lemma memView_serial [simp]: "memView (w\<lparr>m_serial := n\<rparr>) = memView w"
  by (simp add: memView_def fun_eq_iff)

lemma memPut_fields [simp]: "m_clock (memPut name i d w) = m_clock w" "m_serial (memPut name i d w) = m_serial w"
  by (simp_all add: memPut_def)

definition demoId :: "nat \<Rightarrow> string" where
  "demoId n = CHR ''u'' # natDigits n"

definition demoTime :: string where
  "demoTime = ''2023-11-14T22:13:20.000Z''"

definition demoGrant :: "capability \<Rightarrow> mem principal \<Rightarrow> resource \<Rightarrow> mem sys \<Rightarrow> mem exec_context" where
  "demoGrant c p r s =
     \<lparr>cx_ref = mintedContexts s, cx_application = ''shop'', cx_tenantId = ''acme'', cx_principal = p,
      cx_capability = cp_name c, cx_capabilityVersion = cp_version c, cx_requestId = demoId (m_serial (outside s)),
      cx_resource = r, cx_resourceUri = resourceUri ''shop'' r, cx_decisionId = ''d1'', cx_decidedAt = demoTime,
      cx_policyVersion = None, cx_reason = None, cx_expiresAt = ''2023-11-14T22:14:20.000Z''\<rparr>"

definition demoEvidence :: "capability \<Rightarrow> mem principal \<Rightarrow> resource \<Rightarrow> execute_options \<Rightarrow> mem sys \<Rightarrow> effect_evidence" where
  "demoEvidence c p r opts s =
     evidenceFor (demoGrant c p r s) opts (demoId (Suc (m_serial (outside s)))) demoTime Started"

definition demoStarted :: "capability \<Rightarrow> mem principal \<Rightarrow> resource \<Rightarrow> execute_options \<Rightarrow> mem sys \<Rightarrow> mem sys" where
  "demoStarted c p r opts s =
     s\<lparr>mintedContexts := Suc (mintedContexts s),
       outside := memPut EVIDENCE_COLLECTION (demoId (Suc (m_serial (outside s)))) (EvidenceDoc (demoEvidence c p r opts s))
         ((outside s)\<lparr>m_serial := Suc (Suc (m_serial (outside s)))\<rparr>)\<rparr>"

lemma demo_execute:
  assumes "getServiceCapability memEnv cap = Some c" and "rs_type r = cp_resource c" and "rs_tenantId r = ''acme''"
    and "eo_requestId opts = None" and "m_clock (outside s) = 1700000000000"
    and "pr_tenantId p = ''acme''" and "pr_check p = None" and "pr_verifiedBy p \<noteq> ByApiKey" and "pr_applicationId p \<in> {None, Some ''shop''}"
    and "memView (outside s) EVIDENCE_COLLECTION (demoId (Suc (m_serial (outside s)))) = None"
    and "assertEvidenceHasNoSecrets (evidenceEntries (demoEvidence c p r opts s)) = Inr ()"
  shows "execute memEnv (demoGateway True) cap (Verified p) r opts eff s =
    performEffect memEnv opts (demoId (Suc (m_serial (outside s)))) (eff (demoGrant c p r s)) (demoStarted c p r opts s)"
proof -
  let ?s1 = "s\<lparr>outside := (outside s)\<lparr>m_serial := Suc (m_serial (outside s))\<rparr>\<rparr>"
  have start: "executeStart memEnv opts s = (?s1, Inr (demoId (m_serial (outside s)), demoTime))"
    using assms by (simp add: executeStart_def run_simps demoId_def demoTime_def)
  have own: "assertOwnership (demoGateway True) p r cap' = Inr ()" for cap'
    using assms by (auto simp: assertOwnership_def demoGateway_def)
  have auth: "authorize memEnv (demoGateway True) cap (Verified p) r (demoId (m_serial (outside s))) ?s1 =
      (?s1\<lparr>mintedContexts := Suc (mintedContexts s)\<rparr>, Inr (demoGrant c p r s))"
    using assms own by (simp add: authorize_def gwCapability_def requireVerifiedPrincipal_def
        enforceCredential_def decide_def authorizationRequest_def validateDecision_def validDecision_def
        mintExecutionContext_def CONTEXT_TTL_MS_def demo_defs run_simps demoGrant_def demoTime_def)
  have check: "assertExecutionContext memEnv (Issued (demoGrant c p r s)) (claimedCapability (Issued (demoGrant c p r s))) None 1700000000000
      = Inr (demoGrant c p r s)"
    by (simp add: assertExecutionContext_def claimedCapability_def demoGrant_def dateLeq_def dateTime_def)
  have row: "evidenceFor (demoGrant c p r s) opts (demoId (Suc (m_serial (outside s)))) demoTime Started = demoEvidence c p r opts s"
    by (simp add: demoEvidence_def)
  have id: "ev_id (demoEvidence c p r opts s) = demoId (Suc (m_serial (outside s)))"
    by (simp add: demoEvidence_def evidenceFor_def)
  have run: "runEffect memEnv (Issued (demoGrant c p r s)) opts eff (Some demoTime) (?s1\<lparr>mintedContexts := Suc (mintedContexts s)\<rparr>) =
      performEffect memEnv opts (demoId (Suc (m_serial (outside s)))) (eff (demoGrant c p r s)) (demoStarted c p r opts s)"
    using assms
    by (simp add: runEffect_def run_simps check demoId_def [symmetric] row evidenceRecord_def memTransaction_def id
        demoStarted_def)
  show ?thesis using start auth run by (simp add: execute_def bindA_def catchA_def)
qed

lemma demo_evidence_stored:
  "memView (outside (demoStarted c p r opts s)) EVIDENCE_COLLECTION (demoId (Suc (m_serial (outside s)))) = Some (EvidenceDoc (demoEvidence c p r opts s))"
  by (simp add: demoStarted_def memView_memPut)

lemma demo_perform:
  assumes "m (s, \<lparr>tl_refs = [], tl_stored = None\<rparr>) = ((u, log), Inr x)" and "m_clock (outside u) = 1700000000000"
    and "memView (outside u) EVIDENCE_COLLECTION i = Some (EvidenceDoc ev)"
    and "assertEvidenceHasNoSecrets (completionEntries (succeededWith opts log demoTime)) = Inr ()"
  shows "performEffect memEnv opts i m s =
    (u\<lparr>outside := memPut EVIDENCE_COLLECTION i (EvidenceDoc (applyCompletion (succeededWith opts log demoTime) ev)) (outside u)\<rparr>, Inr x)"
  using assms
  by (simp add: performEffect_def completeEffect_def run_simps evidenceComplete_def demoTime_def memColl_def asEvidence_def
      EVIDENCE_COLLECTION_def)

text \<open>The completion of an operation that used no credential names none.\<close>

lemma demo_completion:
  assumes "eo_credentialRef opts = None"
  shows "assertEvidenceHasNoSecrets (completionEntries (succeededWith opts \<lparr>tl_refs = [], tl_stored = None\<rparr> demoTime)) = Inr ()"
  using assms demo_done by (simp add: succeededWith_def refUpdate_def demoTime_def)

text \<open>An operation whose effect returns, leaves the clock and keeps the operation's own evidence row.\<close>

lemma demo_runs:
  assumes "getServiceCapability memEnv cap = Some c" and "rs_type r = cp_resource c" and "rs_tenantId r = ''acme''"
    and "eo_requestId opts = None" and "m_clock (outside s) = 1700000000000"
    and "pr_tenantId p = ''acme''" and "pr_check p = None" and "pr_verifiedBy p \<noteq> ByApiKey" and "pr_applicationId p \<in> {None, Some ''shop''}"
    and "memView (outside s) EVIDENCE_COLLECTION (demoId (Suc (m_serial (outside s)))) = None"
    and "assertEvidenceHasNoSecrets (evidenceEntries (demoEvidence c p r opts s)) = Inr ()"
    and "eff (demoGrant c p r s) (demoStarted c p r opts s, \<lparr>tl_refs = [], tl_stored = None\<rparr>) = ((u, \<lparr>tl_refs = [], tl_stored = None\<rparr>), Inr x)"
    and "m_clock (outside u) = 1700000000000" and "eo_credentialRef opts = None"
    and "memView (outside u) EVIDENCE_COLLECTION = memView (outside (demoStarted c p r opts s)) EVIDENCE_COLLECTION"
  shows "\<exists>w. execute memEnv (demoGateway True) cap (Verified p) r opts eff s = (u\<lparr>outside := w\<rparr>, Inr x) \<and>
    (\<forall>n. n \<noteq> EVIDENCE_COLLECTION \<longrightarrow> memView w n = memView (outside u) n)"
proof -
  have "memView (outside u) EVIDENCE_COLLECTION (demoId (Suc (m_serial (outside s)))) = Some (EvidenceDoc (demoEvidence c p r opts s))"
    using assms(15) demo_evidence_stored by metis
  from demo_perform [of "eff (demoGrant c p r s)", OF assms(12,13) this demo_completion [OF assms(14)]]
  show ?thesis unfolding demo_execute [OF assms(1-11)]
    by (intro exI conjI) (simp, simp add: memView_memPut putDoc_def)
qed

lemma demoStarted_view [simp]:
  "m_clock (outside (demoStarted c p r opts s)) = m_clock (outside s)"
  "n \<noteq> EVIDENCE_COLLECTION \<Longrightarrow> memView (outside (demoStarted c p r opts s)) n = memView (outside s) n"
  by (simp_all add: demoStarted_def memView_memPut putDoc_def)

end
