(* ===== verification/FileExamples.thy ===== *)
theory FileExamples
  imports DemoRuns FileLifecycle
begin

text \<open>
  Runs of the file service on the in-memory platform, for the theorems about files.
\<close>

definition demoFiles :: "mem file_service" where
  "demoFiles = \<lparr>fv_store = feltDbFileStore memEnv, fv_auditSink = feltDbFileAuditSink memEnv,
     fv_authority = Some (demoGateway True)\<rparr>"

interpretation demoFiles: felt_file_service memEnv memView demoFiles
  by (intro felt_file_service.intro felt_file_service_axioms.intro memory.platform_axioms)
    (use demo.gateway_platform_axioms [of True] in \<open>simp_all add: demoFiles_def\<close>)

definition demoFile :: file_record where
  "demoFile =
     \<lparr>fl_id = ''f1'', fl_tenantId = ''acme'', fl_applicationId = Some ''shop'', fl_owner = ''alice'', fl_name = JStr ''a.txt'',
      fl_contentType = JUndef, fl_size = JNum 3, fl_checksum = JUndef, fl_storageKey = JStr ''k'', fl_metadata = JUndef,
      fl_createdAt = demoTime, fl_updatedAt = None, fl_deletedAt = None, fl_version = 1\<rparr>"

definition withFile :: "file_record \<Rightarrow> mem sys \<Rightarrow> mem sys" where
  "withFile k s = s\<lparr>outside := memPut ''files'' (fl_id k) (FileDoc k) (outside s)\<rparr>"

lemma stored_withFile: "storedFiles memView (withFile k s) = (storedFiles memView s)(fl_id k \<mapsto> k)"
  unfolding storedFiles_eq by (rule storedIn_put [OF projections(8)]) (simp add: withFile_def memView_memPut)

lemma no_demo_files: "storedFiles memView demoSys = Map.empty"
  by (simp add: storedFiles_def storedIn_def demoSys_def memView_def fun_eq_iff)

lemma keyed_withFile: "keyed fl_id (storedFiles memView (withFile k demoSys))"
  by (simp add: stored_withFile no_demo_files keyed_def)

lemma demo_authority [simp]: "fv_authority demoFiles = Some (demoGateway True)" "fv_store demoFiles = feltDbFileStore memEnv"
  by (simp_all add: demoFiles_def)

lemma demo_application [simp]: "gw_application (demoGateway True) = ''shop''"
  by (simp add: demoGateway_def)

lemma file_operations_isolated_witness:
  "\<exists>k'. storedFiles memView (runFileOp memEnv demoFiles (Verified demoPrincipal)
     (UpdateFile [(''id'', JStr ''f1''), (''name'', JStr ''b.txt'')]) (withFile demoFile demoSys)) ''f1'' = Some k' \<and> fl_owner k' = ''alice''"
proof -
  have "quietCaller memView {FILES} (Verified demoPrincipal)" by (simp add: demoPrincipal_def)
  from file_operations_isolated [OF demoFiles.felt_file_service_axioms demo_authority(1) this keyed_withFile refl,
      of "UpdateFile [(''id'', JStr ''f1''), (''name'', JStr ''b.txt'')]"]
  have "\<forall>i k. storedFiles memView (withFile demoFile demoSys) i = Some k \<longrightarrow>
    (\<exists>k'. storedFiles memView (runFileOp memEnv demoFiles (Verified demoPrincipal)
       (UpdateFile [(''id'', JStr ''f1''), (''name'', JStr ''b.txt'')]) (withFile demoFile demoSys)) i = Some k' \<and> sameFile k k')"
    by blast
  from spec [OF spec [OF this], of "''f1''" demoFile] show ?thesis
    by (auto simp: stored_withFile demoFile_def sameFile_def)
qed

definition goneFile :: file_record where
  "goneFile = demoFile\<lparr>fl_deletedAt := Some demoTime\<rparr>"

lemma files_well_formed_witness:
  "storedFiles memView (runFileOps memEnv demoFiles [(demoPrincipal, DeleteFile ''acme'' ''f1''), (demoPrincipal, CreateFile []),
     (demoPrincipal, UpdateFile [(''id'', JStr ''f1''), (''size'', JNum 7)])] (withFile goneFile demoSys)) ''f1'' = Some goneFile \<and> wfFile goneFile"
proof -
  have "runFiles_quiet memView [(demoPrincipal, DeleteFile ''acme'' ''f1''), (demoPrincipal, CreateFile []),
     (demoPrincipal, UpdateFile [(''id'', JStr ''f1''), (''size'', JNum 7)])]"
    by (simp add: runFiles_quiet_def demoPrincipal_def)
  moreover have wf: "wfFile goneFile" by code_simp
  then have "\<forall>i k. storedFiles memView (withFile goneFile demoSys) i = Some k \<longrightarrow> wfFile k"
    by (simp add: stored_withFile no_demo_files)
  moreover have "storedFiles memView (withFile goneFile demoSys) ''f1'' = Some goneFile" "truthy (fl_deletedAt goneFile)"
    by (simp_all add: stored_withFile goneFile_def demoFile_def demoTime_def)
  ultimately show ?thesis
    using files_well_formed [OF demoFiles.felt_file_service_axioms demo_authority(1) _ keyed_withFile] wf by blast
qed

section \<open>Reading\<close>

lemma read_capability:
  "getServiceCapability memEnv ''files.read'' = Some \<lparr>cp_name = ''files.read'', cp_version = 1, cp_service = ''files'',
     cp_operation = ''list'', cp_effect = Observation, cp_invocable = True, cp_required = True, cp_resource = ''file''\<rparr>"
  by (simp add: getServiceCapability_eq ENTRIES_def freezeCapability_def)

definition readState :: "mem sys" where
  "readState = withFile demoFile demoSys"

lemma readState_simps [simp]:
  "m_clock (outside readState) = 1700000000000" "m_serial (outside readState) = 0" "mintedContexts readState = 0"
  "memView (outside readState) name i = (if name = ''files'' \<and> i = ''f1'' then Some (FileDoc demoFile) else None)"
  by (simp_all add: readState_def withFile_def memView_memPut demoSys_def demoFile_def, simp add: memView_def)

lemma demoPrincipal_simps [simp]:
  "pr_tenantId demoPrincipal = ''acme''" "pr_check demoPrincipal = None" "pr_verifiedBy demoPrincipal \<noteq> ByApiKey"
  "pr_applicationId demoPrincipal = None" "pr_principalId demoPrincipal = ''alice''"
  by (simp_all add: demoPrincipal_def)

abbreviation readDeclared :: capability where
  "readDeclared \<equiv> \<lparr>cp_name = ''files.read'', cp_version = 1, cp_service = ''files'',
     cp_operation = ''list'', cp_effect = Observation, cp_invocable = True, cp_required = True, cp_resource = ''file''\<rparr>"

abbreviation listedResource :: resource where
  "listedResource \<equiv> \<lparr>rs_type = ''file'', rs_tenantId = ''acme'', rs_id = None, rs_attributes = Some [(''owner'', ''*'')]\<rparr>"

lemma fileResource_demo:
  "fileResource demoFile = \<lparr>rs_type = ''file'', rs_tenantId = ''acme'', rs_id = Some ''f1'', rs_attributes = Some [(''owner'', ''alice'')]\<rparr>"
  by (simp add: fileResource_def demoFile_def)

lemma read_safe:
  "assertEvidenceHasNoSecrets (evidenceEntries (demoEvidence readDeclared demoPrincipal (fileResource demoFile) (serviceOptions ''files'') readState)) = Inr ()"
  "assertEvidenceHasNoSecrets (evidenceEntries (demoEvidence readDeclared demoPrincipal listedResource (serviceOptions ''files'') readState)) = Inr ()"
  by code_simp+

lemma demo_get:
  "\<exists>t. getFile memEnv demoFiles ''acme'' ''f1'' (Verified demoPrincipal) readState = (t, Inr demoFile)"
proof -
  have "ft_get (fv_store demoFiles) ''acme'' ''f1'' readState = (readState, Inr (Some demoFile))"
    by (simp add: feltDbFileStore_def fileStoreGet_def run_simps memEnv_def memColl_def asFile_def, simp add: demoFile_def)
  then have "getFile memEnv demoFiles ''acme'' ''f1'' (Verified demoPrincipal) readState =
    execute memEnv (demoGateway True) ''files.read'' (Verified demoPrincipal) (fileResource demoFile) (serviceOptions ''files'')
      (\<lambda>ctx. ret demoFile) readState"
    by (simp add: getFile_def requireVerifiedPrincipal_def resolveTenant_def propOf_def bindA_def act_simps liveFile_def
        fileOwned_def fileGateway_def, simp add: demoFile_def)
  also have "\<exists>t. \<dots> = (t, Inr demoFile)"
  proof -
    let ?s = "demoStarted readDeclared demoPrincipal (fileResource demoFile) (serviceOptions ''files'') readState"
    have "(ret demoFile :: (mem, file_record) effect) (?s, \<lparr>tl_refs = [], tl_stored = None\<rparr>) = ((?s, \<lparr>tl_refs = [], tl_stored = None\<rparr>), Inr demoFile)"
      by (simp only: act_simps)
    from demo_runs [OF read_capability _ _ _ _ _ _ _ _ _ read_safe(1), where eff = "\<lambda>ctx. ret demoFile", OF _ _ _ _ _ _ _ _ _ this]
    show ?thesis by (auto simp: fileResource_demo EVIDENCE_COLLECTION_def)
  qed
  finally show ?thesis .
qed

lemma files_found:
  "c_find (e_files memEnv) (\<lambda>k. fl_tenantId k = ''acme'') (outside (demoStarted c p r opts readState)) =
     (outside (demoStarted c p r opts readState), Inr [demoFile])"
  by (simp add: memEnv_def memColl_def demoStarted_def memView_memPut EVIDENCE_COLLECTION_def,
      simp add: memPut_def readState_def withFile_def demoSys_def map_filter_def asFile_def, simp add: demoFile_def memView_def)

lemma demo_list:
  "\<exists>t. listFiles memEnv demoFiles ''acme'' (Verified demoPrincipal) None readState = (t, Inr [demoFile])"
proof -
  have "listFiles memEnv demoFiles ''acme'' (Verified demoPrincipal) None readState =
    execute memEnv (demoGateway True) ''files.read'' (Verified demoPrincipal) listedResource (serviceOptions ''files'')
      (\<lambda>ctx. plain (listedFiles memEnv demoFiles ''acme'' ''shop'' None)) readState"
    by (simp add: listFiles_def requireVerifiedPrincipal_def resolveTenant_def propOf_def bindA_def act_simps fileGateway_def)
  also have "\<exists>t. \<dots> = (t, Inr [demoFile])"
  proof -
    let ?s = "demoStarted readDeclared demoPrincipal listedResource (serviceOptions ''files'') readState"
    have "plain (listedFiles memEnv demoFiles ''acme'' ''shop'' None) (?s, \<lparr>tl_refs = [], tl_stored = None\<rparr>) =
        ((?s, \<lparr>tl_refs = [], tl_stored = None\<rparr>), Inr [demoFile])"
      using files_found [of readDeclared] by (simp add: plain_def listedFiles_def feltDbFileStore_def fileStoreList_def run_simps, simp add: demoFile_def)
    from demo_runs [OF read_capability _ _ _ _ _ _ _ _ _ read_safe(2), where eff = "\<lambda>ctx. plain (listedFiles memEnv demoFiles ''acme'' ''shop'' None)", OF _ _ _ _ _ _ _ _ _ this]
    show ?thesis by (auto simp: EVIDENCE_COLLECTION_def)
  qed
  finally show ?thesis .
qed

lemma file_reads_witness:
  "\<exists>t u. getFile memEnv demoFiles ''acme'' ''f1'' (Verified demoPrincipal) readState = (t, Inr demoFile) \<and> fl_tenantId demoFile = ''acme'' \<and>
     listFiles memEnv demoFiles ''acme'' (Verified demoPrincipal) None readState = (u, Inr [demoFile]) \<and> \<not> truthy (fl_deletedAt demoFile)"
proof -
  obtain t u where run: "getFile memEnv demoFiles ''acme'' ''f1'' (Verified demoPrincipal) readState = (t, Inr demoFile)"
    "listFiles memEnv demoFiles ''acme'' (Verified demoPrincipal) None readState = (u, Inr [demoFile])"
    using demo_get demo_list by blast
  have "quietCaller memView {FILES} (Verified demoPrincipal)" by simp
  from file_reads_are_live [OF demoFiles.felt_file_service_axioms demo_authority(1) this,
      of "''acme''" "''f1''" readState t demoFile None u "[demoFile]"] run show ?thesis by auto
qed

end
