(* ===== verification/Destination.thy ===== *)
theory Destination
  imports Gateway
begin

text \<open>
  The destination policy of webhooks (\<open>authority/destination.ts\<close>): textual IP addresses as
  \<open>node:net\<close> reads them, the blocked networks, and the validation of a URL and of every address
  its host resolves to. The URL parser, name resolution and the HTTP client are parameters.
\<close>

section \<open>The network\<close>

text \<open>What the code reads of a \<open>URL\<close> object.\<close>

record url =
  ur_href :: string
  ur_protocol :: string
  ur_username :: string
  ur_password :: string
  ur_hostname :: string
  ur_port :: string
  ur_pathname :: string
  ur_search :: string
  ur_origin :: string

record resolved_address =
  rd_address :: string
  rd_family :: int

text \<open>The request that is posted, and how it ends. \<open>None\<close> is a response without a status.\<close>

record http_request =
  hr_protocol :: string
  hr_hostname :: string
  hr_port :: "string option"
  hr_path :: string
  hr_connect :: resolved_address
  hr_servername :: "string option"
  hr_signature :: string
  hr_eventId :: string
  hr_body :: string
  hr_timeoutMs :: int

datatype http_outcome = HttpStatus "int option" | HttpError string | HttpTimeout

text \<open>
  \<open>nw_url\<close> is \<open>new URL(text)\<close>, \<open>None\<close> where it throws; \<open>nw_lookup\<close> resolves a host name to all its
  addresses (the system's resolver or the policy's own).
\<close>

record 'w network =
  nw_url :: "string \<Rightarrow> url option"
  nw_lookup :: "string \<Rightarrow> ('w, exn, resolved_address list) act"
  nw_post :: "http_request \<Rightarrow> ('w, exn, http_outcome) act"

section \<open>Addresses\<close>

definition decimalValue :: "string \<Rightarrow> int" where
  "decimalValue xs = foldl (\<lambda>n c. 10 * n + (int (of_char c) - 48)) 0 xs"

definition octet :: "string \<Rightarrow> int option" where
  "octet xs =
     (if xs \<noteq> [] \<and> length xs \<le> 3 \<and> list_all digitChar xs \<and> (length xs = 1 \<or> hd xs \<noteq> CHR ''0'') \<and> decimalValue xs \<le> 255
      then Some (decimalValue xs) else None)"

definition parseIPv4 :: "string \<Rightarrow> (int \<times> int \<times> int \<times> int) option" where
  "parseIPv4 xs = (case map octet (splitOn (CHR ''.'') xs) of
      [Some a, Some b, Some c, Some d] \<Rightarrow> Some (a, b, c, d)
    | _ \<Rightarrow> None)"

definition hexDigitVal :: "char \<Rightarrow> int option" where
  "hexDigitVal ch = (let n = int (of_char ch) in
     if 48 \<le> n \<and> n \<le> 57 then Some (n - 48)
     else if 97 \<le> n \<and> n \<le> 102 then Some (n - 87)
     else if 65 \<le> n \<and> n \<le> 70 then Some (n - 55) else None)"

fun hexValue :: "int \<Rightarrow> string \<Rightarrow> int option" where
  "hexValue n [] = Some n"
| "hexValue n (c # cs) = (case hexDigitVal c of None \<Rightarrow> None | Some d \<Rightarrow> hexValue (16 * n + d) cs)"

definition hexGroup :: "string \<Rightarrow> int option" where
  "hexGroup xs = (if xs \<noteq> [] \<and> length xs \<le> 4 then hexValue 0 xs else None)"

text \<open>The groups of an address; the last one may be written as an IPv4 address.\<close>

fun v6Groups :: "string list \<Rightarrow> int list option" where
  "v6Groups [] = Some []"
| "v6Groups [x] = (case hexGroup x of
      Some g \<Rightarrow> Some [g]
    | None \<Rightarrow> (case parseIPv4 x of Some (a, b, c, d) \<Rightarrow> Some [256 * a + b, 256 * c + d] | None \<Rightarrow> None))"
| "v6Groups (x # y # ys) = (case (hexGroup x, v6Groups (y # ys)) of (Some g, Some gs) \<Rightarrow> Some (g # gs) | _ \<Rightarrow> None)"

text \<open>The text before and after the first \<open>::\<close>.\<close>

fun splitDouble :: "string \<Rightarrow> (string \<times> string) option" where
  "splitDouble (x # y # ys) =
     (if x = CHR '':'' \<and> y = CHR '':'' then Some ([], ys)
      else (case splitDouble (y # ys) of None \<Rightarrow> None | Some (l, r) \<Rightarrow> Some (x # l, r)))"
| "splitDouble _ = None"

definition hexGroups :: "string \<Rightarrow> int list option" where
  "hexGroups xs =
     (if xs = [] then Some [] else
      let gs = map hexGroup (splitOn (CHR '':'') xs) in if None \<in> set gs then None else Some (map the gs))"

definition parseIPv6 :: "string \<Rightarrow> int list option" where
  "parseIPv6 xs = (case splitDouble xs of
      None \<Rightarrow> (case v6Groups (splitOn (CHR '':'') xs) of
          Some gs \<Rightarrow> if length gs = 8 then Some gs else None | None \<Rightarrow> None)
    | Some (l, r) \<Rightarrow> (case (hexGroups l, if r = [] then Some [] else v6Groups (splitOn (CHR '':'') r)) of
          (Some a, Some b) \<Rightarrow>
            if length a + length b \<le> 7 then Some (a @ replicate (8 - (length a + length b)) 0 @ b) else None
        | _ \<Rightarrow> None))"

text \<open>
  \<open>isIP\<close>. An IPv6 address may be followed by a zone (\<open>fe80::1%eth0\<close>), which changes nothing of the
  address itself. Hexadecimal digits are read in either case.
\<close>

definition zoneChar :: "char \<Rightarrow> bool" where
  "zoneChar ch \<longleftrightarrow> (let n = of_char ch :: nat in
     48 \<le> n \<and> n \<le> 57 \<or> 97 \<le> n \<and> n \<le> 122 \<or> 65 \<le> n \<and> n \<le> 90 \<or> ch \<in> {CHR ''-'', CHR ''.'', CHR '':''})"

definition withoutZone :: "string \<Rightarrow> string option" where
  "withoutZone xs = (case dropWhile (\<lambda>c. c \<noteq> CHR ''%'') xs of
      [] \<Rightarrow> Some xs
    | _ # zone \<Rightarrow> if zone \<noteq> [] \<and> list_all zoneChar zone then Some (takeWhile (\<lambda>c. c \<noteq> CHR ''%'') xs) else None)"

definition ipv6Groups :: "string \<Rightarrow> int list option" where
  "ipv6Groups xs = Option.bind (withoutZone (map lowerCase xs)) parseIPv6"

definition isIP :: "string \<Rightarrow> int" where
  "isIP xs = (if parseIPv4 xs \<noteq> None then 4 else if ipv6Groups xs \<noteq> None then 6 else 0)"

section \<open>Blocked networks\<close>

text \<open>\<open>BlockList\<close>: a network blocks the addresses that agree with it in the bits of its prefix.\<close>

definition inSubnet :: "nat \<Rightarrow> int \<Rightarrow> int \<Rightarrow> nat \<Rightarrow> bool" where
  "inSubnet bits n network prefix \<longleftrightarrow> n div 2 ^ (bits - prefix) = network div 2 ^ (bits - prefix)"

fun v4Value :: "int \<times> int \<times> int \<times> int \<Rightarrow> int" where
  "v4Value (a, b, c, d) = 16777216 * a + 65536 * b + 256 * c + d"

definition v6Value :: "int list \<Rightarrow> int" where
  "v6Value gs = foldl (\<lambda>n g. 65536 * n + g) 0 gs"

definition BLOCKED_HOSTNAMES :: "string list" where
  "BLOCKED_HOSTNAMES = [''localhost'', ''metadata'', ''metadata.google.internal'', ''metadata.goog'', ''instance-data'',
     ''instance-data.ec2.internal'']"

definition BLOCKED_IPV4 :: "((int \<times> int \<times> int \<times> int) \<times> nat) list" where
  "BLOCKED_IPV4 =
     [((0, 0, 0, 0), 8), ((10, 0, 0, 0), 8), ((100, 64, 0, 0), 10), ((127, 0, 0, 0), 8), ((169, 254, 0, 0), 16),
      ((172, 16, 0, 0), 12), ((192, 0, 0, 0), 24), ((192, 0, 2, 0), 24), ((192, 88, 99, 0), 24), ((192, 168, 0, 0), 16),
      ((198, 18, 0, 0), 15), ((198, 51, 100, 0), 24), ((203, 0, 113, 0), 24), ((224, 0, 0, 0), 4), ((240, 0, 0, 0), 4)]"

text \<open>The networks in the groups of their text: \<open>::\<close>, \<open>::1\<close>, \<open>100::\<close>, \<open>2001:db8::\<close>, \<open>fc00::\<close>, and so on.\<close>

definition BLOCKED_IPV6 :: "(int list \<times> nat) list" where
  "BLOCKED_IPV6 =
     [([0, 0, 0, 0, 0, 0, 0, 0], 128), ([0, 0, 0, 0, 0, 0, 0, 1], 128), ([0x100, 0, 0, 0, 0, 0, 0, 0], 64),
      ([0x2001, 0xdb8, 0, 0, 0, 0, 0, 0], 32), ([0xfc00, 0, 0, 0, 0, 0, 0, 0], 7), ([0xfe80, 0, 0, 0, 0, 0, 0, 0], 10),
      ([0xfec0, 0, 0, 0, 0, 0, 0, 0], 10), ([0xff00, 0, 0, 0, 0, 0, 0, 0], 8)]"

definition blockedValue4 :: "int \<Rightarrow> bool" where
  "blockedValue4 n \<longleftrightarrow> list_ex (\<lambda>(network, prefix). inSubnet 32 n (v4Value network) prefix) BLOCKED_IPV4"

definition blocked4 :: "int \<times> int \<times> int \<times> int \<Rightarrow> bool" where
  "blocked4 q \<longleftrightarrow> blockedValue4 (v4Value q)"

text \<open>An IPv6 address that maps an IPv4 address is checked against the IPv4 networks too.\<close>

definition blocked6 :: "int list \<Rightarrow> bool" where
  "blocked6 gs \<longleftrightarrow> (let n = v6Value gs in
     list_ex (\<lambda>(network, prefix). inSubnet 128 n (v6Value network) prefix) BLOCKED_IPV6 \<or>
     n div 2 ^ 32 = 0xffff \<and> blockedValue4 (n mod 2 ^ 32))"

text \<open>Four runs of digits separated by dots, and the two hexadecimal groups of the other form.\<close>

definition dottedQuad :: "string \<Rightarrow> bool" where
  "dottedQuad xs \<longleftrightarrow> (let parts = splitOn (CHR ''.'') xs in
     length parts = 4 \<and> list_all (\<lambda>x. x \<noteq> [] \<and> list_all digitChar x) parts)"

definition twoGroups :: "string \<Rightarrow> (int \<times> int) option" where
  "twoGroups xs = (case splitOn (CHR '':'') xs of
      [x, y] \<Rightarrow> if list_all hexChar x \<and> list_all hexChar y
        then (case (hexGroup x, hexGroup y) of (Some high, Some low) \<Rightarrow> Some (high, low) | _ \<Rightarrow> None) else None
    | _ \<Rightarrow> None)"

definition afterPrefix :: "string list \<Rightarrow> string \<Rightarrow> string list" where
  "afterPrefix prefixes xs = map (\<lambda>p. drop (length p) xs) (filter (startsWith xs) prefixes)"

definition embeddedIpv4 :: "string \<Rightarrow> string option" where
  "embeddedIpv4 xs = (case filter dottedQuad (afterPrefix [''::ffff:'', ''::'', ''64:ff9b::''] xs) of
      x # _ \<Rightarrow> Some x
    | [] \<Rightarrow> (case List.map_filter twoGroups (afterPrefix [''::ffff:'', ''64:ff9b::''] xs) of
          (high, low) # _ \<Rightarrow> Some (intString (high div 256) @ ''.'' @ intString (high mod 256) @ ''.'' @
            intString (low div 256) @ ''.'' @ intString (low mod 256))
        | [] \<Rightarrow> None))"

text \<open>
  The embedded address is a dotted text, so the recursive call meets an IPv4 address or none.
\<close>

definition isForbiddenAddress :: "string \<Rightarrow> bool" where
  "isForbiddenAddress xs = (case parseIPv4 xs of
      Some q \<Rightarrow> blocked4 q
    | None \<Rightarrow> (case ipv6Groups xs of
        None \<Rightarrow> True
      | Some gs \<Rightarrow> (case embeddedIpv4 (map lowerCase xs) of
          Some x \<Rightarrow> (case parseIPv4 x of Some q \<Rightarrow> blocked4 q | None \<Rightarrow> True)
        | None \<Rightarrow> blocked6 gs)))"

section \<open>Validation\<close>

definition forbidden :: "string \<Rightarrow> exn" where
  "forbidden msg = ServiceAuthorityError INVALID_REQUEST msg (noDetails\<lparr>ed_reason := Some ''destination_forbidden''\<rparr>)"

text \<open>\<open>hostname.replace(/^\[|\]$/g, '').toLowerCase().replace(/\.$/, '')\<close>\<close>

definition dropLast :: "char \<Rightarrow> string \<Rightarrow> string" where
  "dropLast c xs = (if xs \<noteq> [] \<and> last xs = c then butlast xs else xs)"

definition bareHost :: "string \<Rightarrow> string" where
  "bareHost xs = dropLast (CHR '']'') (case xs of [] \<Rightarrow> [] | c # cs \<Rightarrow> if c = CHR ''['' then cs else xs)"

definition normalHost :: "string \<Rightarrow> string" where
  "normalHost xs = dropLast (CHR ''.'') (map lowerCase (bareHost xs))"

definition endsWith :: "string \<Rightarrow> string \<Rightarrow> bool" where
  "endsWith xs ys \<longleftrightarrow> startsWith (rev xs) (rev ys)"

definition resolveHost :: "'w network \<Rightarrow> string \<Rightarrow> ('w, resolved_address list) service" where
  "resolveHost N hostname =
     catchA (ext (nw_lookup N hostname)) (\<lambda>_. raise (forbidden ''Webhook destination did not resolve''))"

text \<open>The check of the addresses a host stands for, and the choice of the first.\<close>

definition checkAddresses :: "bool \<Rightarrow> resolved_address list \<Rightarrow> exn + resolved_address" where
  "checkAddresses allowPrivate addresses =
     (if addresses = [] then Inl (forbidden ''Webhook destination did not resolve'')
      else if \<not> allowPrivate \<and> list_ex (\<lambda>e. isForbiddenAddress (rd_address e)) addresses
      then Inl (forbidden ''Webhook destination resolves to a private, loopback, link-local, or metadata address'')
      else Inr (hd addresses))"

definition validateDestination :: "'w network \<Rightarrow> bool \<Rightarrow> string \<Rightarrow> ('w, url \<times> resolved_address) service" where
  "validateDestination N allowPrivate rawUrl = (case nw_url N rawUrl of
      None \<Rightarrow> raise (forbidden ''Webhook destination is not a valid URL'')
    | Some u \<Rightarrow>
        if ur_protocol u \<noteq> ''https:'' \<and> ur_protocol u \<noteq> ''http:''
        then raise (forbidden ''Webhook destination must use http or https'')
        else if ur_username u \<noteq> [] \<or> ur_password u \<noteq> []
        then raise (forbidden ''Webhook destination must not embed credentials'')
        else let hostname = normalHost (ur_hostname u) in
        if hostname = [] then raise (forbidden ''Webhook destination host is required'')
        else if \<not> allowPrivate \<and> (hostname \<in> set BLOCKED_HOSTNAMES \<or> endsWith hostname ''.localhost'' \<or> endsWith hostname ''.internal'')
        then raise (forbidden ''Webhook destination host is not permitted'')
        else
        bindA (if isIP hostname \<noteq> 0 then ret [\<lparr>rd_address = hostname, rd_family = isIP hostname\<rparr>]
               else resolveHost N hostname) (\<lambda>addresses.
        bindA (liftR (checkAddresses allowPrivate addresses)) (\<lambda>a. ret (u, a))))"

section \<open>Public addresses\<close>

text \<open>The same networks, as ranges of the numbers a reader of an address sees.\<close>

fun publicV4 :: "int \<times> int \<times> int \<times> int \<Rightarrow> bool" where
  "publicV4 (a, b, c, d) \<longleftrightarrow>
     a \<notin> {0, 10, 127} \<and> a < 224 \<and> \<not> (a = 100 \<and> 64 \<le> b \<and> b < 128) \<and> \<not> (a = 172 \<and> 16 \<le> b \<and> b < 32) \<and>
     (a, b) \<notin> {(169, 254), (192, 168), (198, 18), (198, 19)} \<and>
     (a, b, c) \<notin> {(192, 0, 0), (192, 0, 2), (192, 88, 99), (198, 51, 100), (203, 0, 113)}"

fun octets4 :: "int \<times> int \<times> int \<times> int \<Rightarrow> bool" where
  "octets4 (a, b, c, d) \<longleftrightarrow> 0 \<le> a \<and> a < 256 \<and> 0 \<le> b \<and> b < 256 \<and> 0 \<le> c \<and> c < 256 \<and> 0 \<le> d \<and> d < 256"

lemma v4_prefixes:
  assumes "octets4 (a, b, c, d)"
  shows "v4Value (a, b, c, d) div 16777216 = a"
    and "v4Value (a, b, c, d) div 268435456 = a div 16"
    and "v4Value (a, b, c, d) div 4194304 = 4 * a + b div 64"
    and "v4Value (a, b, c, d) div 1048576 = 16 * a + b div 16"
    and "v4Value (a, b, c, d) div 131072 = 128 * a + b div 2"
    and "v4Value (a, b, c, d) div 65536 = 256 * a + b"
    and "v4Value (a, b, c, d) div 256 = 65536 * a + 256 * b + c"
  using assms by (simp_all, (linarith | presburger)+)

lemma digits_eq:
  fixes k :: int
  assumes "0 \<le> u" "u < k" "0 \<le> y" "y < k"
  shows "k * a + u = k * x + y \<longleftrightarrow> a = x \<and> u = y"
proof
  assume eq: "k * a + u = k * x + y"
  have "(k * a + u) div k = a" "(k * x + y) div k = x"
    using assms by (simp_all add: int_div_pos_eq)
  then have "a = x" using eq by simp
  then show "a = x \<and> u = y" using eq by simp
qed simp

lemma quotient_iff:
  assumes "0 < k"
  shows "(b :: int) div k = y \<longleftrightarrow> k * y \<le> b \<and> b < k * y + k"
  using minus_mod_eq_mult_div [of b k] pos_mod_bound [OF assms, of b] pos_mod_sign [OF assms, of b]
    int_div_pos_eq [of b k y "b - k * y"]
  by (auto simp del: minus_mod_eq_mult_div)

lemma v4_digits:
  assumes "octets4 (a, b, c, d)"
  shows "a div 16 = 14 \<or> a div 16 = 15 \<longleftrightarrow> 224 \<le> a"
    and "4 * a + b div 64 = 401 \<longleftrightarrow> a = 100 \<and> 64 \<le> b \<and> b < 128"
    and "16 * a + b div 16 = 2753 \<longleftrightarrow> a = 172 \<and> 16 \<le> b \<and> b < 32"
    and "128 * a + b div 2 = 25353 \<longleftrightarrow> a = 198 \<and> (b = 18 \<or> b = 19)"
    and "256 * a + b = 43518 \<longleftrightarrow> a = 169 \<and> b = 254" and "256 * a + b = 49320 \<longleftrightarrow> a = 192 \<and> b = 168"
proof -
  note o = assms [unfolded octets4.simps]
  have r: "0 \<le> b div 64" "b div 64 < 4" "0 \<le> b div 16" "b div 16 < 16" "0 \<le> b div 2" "b div 2 < 128"
    using o by (auto simp: pos_imp_zdiv_nonneg_iff)
  show "a div 16 = 14 \<or> a div 16 = 15 \<longleftrightarrow> 224 \<le> a" using o by (auto simp: quotient_iff)
  show "4 * a + b div 64 = 401 \<longleftrightarrow> a = 100 \<and> 64 \<le> b \<and> b < 128"
    using digits_eq [of "b div 64" 4 1 a 100] r by (auto simp: quotient_iff)
  show "16 * a + b div 16 = 2753 \<longleftrightarrow> a = 172 \<and> 16 \<le> b \<and> b < 32"
    using digits_eq [of "b div 16" 16 1 a 172] r by (auto simp: quotient_iff)
  show "128 * a + b div 2 = 25353 \<longleftrightarrow> a = 198 \<and> (b = 18 \<or> b = 19)"
    using digits_eq [of "b div 2" 128 9 a 198] r by (auto simp: quotient_iff)
  show "256 * a + b = 43518 \<longleftrightarrow> a = 169 \<and> b = 254" "256 * a + b = 49320 \<longleftrightarrow> a = 192 \<and> b = 168"
    using digits_eq [of b 256 254 a 169] digits_eq [of b 256 168 a 192] o by auto
qed

lemma v4_triples:
  assumes "octets4 (a, b, c, d)" and "0 \<le> y" "y < 256" "0 \<le> z" "z < 256"
  shows "65536 * a + 256 * b + c = 65536 * x + 256 * y + z \<longleftrightarrow> a = x \<and> b = y \<and> c = z"
proof -
  have "65536 * a + (256 * b + c) = 65536 * x + (256 * y + z) \<longleftrightarrow> a = x \<and> 256 * b + c = 256 * y + z"
    using assms by (intro digits_eq) simp_all
  also have "256 * b + c = 256 * y + z \<longleftrightarrow> b = y \<and> c = z" using assms by (intro digits_eq) simp_all
  finally show ?thesis by (simp only: add.assoc)
qed

lemma blocked4_iff:
  assumes "octets4 q"
  shows "blocked4 q \<longleftrightarrow> \<not> publicV4 q"
proof -
  obtain a b c d where q: "q = (a, b, c, d)" by (metis prod_cases4)
  note o = assms [unfolded q]
  have triples: "65536 * a + 256 * b + c = 12582912 \<longleftrightarrow> a = 192 \<and> b = 0 \<and> c = 0"
    "65536 * a + 256 * b + c = 12582914 \<longleftrightarrow> a = 192 \<and> b = 0 \<and> c = 2"
    "65536 * a + 256 * b + c = 12605539 \<longleftrightarrow> a = 192 \<and> b = 88 \<and> c = 99"
    "65536 * a + 256 * b + c = 12989284 \<longleftrightarrow> a = 198 \<and> b = 51 \<and> c = 100"
    "65536 * a + 256 * b + c = 13303921 \<longleftrightarrow> a = 203 \<and> b = 0 \<and> c = 113"
    using v4_triples [OF o, of 0 0 192] v4_triples [OF o, of 0 2 192] v4_triples [OF o, of 88 99 192]
      v4_triples [OF o, of 51 100 198] v4_triples [OF o, of 0 113 203] by simp_all
  have constants: "v4Value (0, 0, 0, 0) div 16777216 = 0" "v4Value (10, 0, 0, 0) div 16777216 = 10"
    "v4Value (100, 64, 0, 0) div 4194304 = 401" "v4Value (127, 0, 0, 0) div 16777216 = 127"
    "v4Value (169, 254, 0, 0) div 65536 = 43518" "v4Value (172, 16, 0, 0) div 1048576 = 2753"
    "v4Value (192, 0, 0, 0) div 256 = 12582912" "v4Value (192, 0, 2, 0) div 256 = 12582914"
    "v4Value (192, 88, 99, 0) div 256 = 12605539" "v4Value (192, 168, 0, 0) div 65536 = 49320"
    "v4Value (198, 18, 0, 0) div 131072 = 25353" "v4Value (198, 51, 100, 0) div 256 = 12989284"
    "v4Value (203, 0, 113, 0) div 256 = 13303921" "v4Value (224, 0, 0, 0) div 268435456 = 14"
    "v4Value (240, 0, 0, 0) div 268435456 = 15" by simp_all
  have "blocked4 q \<longleftrightarrow> a = 0 \<or> a = 10 \<or> (a = 100 \<and> 64 \<le> b \<and> b < 128) \<or> a = 127 \<or> (a = 169 \<and> b = 254) \<or>
      (a = 172 \<and> 16 \<le> b \<and> b < 32) \<or> (a = 192 \<and> b = 0 \<and> c = 0) \<or> (a = 192 \<and> b = 0 \<and> c = 2) \<or>
      (a = 192 \<and> b = 88 \<and> c = 99) \<or> (a = 192 \<and> b = 168) \<or> (a = 198 \<and> (b = 18 \<or> b = 19)) \<or>
      (a = 198 \<and> b = 51 \<and> c = 100) \<or> (a = 203 \<and> b = 0 \<and> c = 113) \<or> 224 \<le> a"
    by (simp add: q blocked4_def blockedValue4_def BLOCKED_IPV4_def inSubnet_def v4_prefixes [OF o] constants
        v4_digits [OF o] triples del: v4Value.simps)
  also have "\<dots> \<longleftrightarrow> \<not> publicV4 (a, b, c, d)" by (simp add: not_less [symmetric]) satx
  finally show ?thesis unfolding q .
qed

text \<open>The digits a textual address is read to.\<close>

lemma decimal_nonneg: "list_all digitChar xs \<Longrightarrow> 0 \<le> n \<Longrightarrow> 0 \<le> foldl (\<lambda>n c. 10 * n + (int (of_char c) - 48)) n xs"
proof (induction xs arbitrary: n)
  case (Cons c xs)
  have "0 \<le> int (of_char c) - 48"
    using Cons.prems(1) of_nat_mono [of 48 "of_char c :: nat", where 'a = int] by (simp add: digitChar_def Let_def)
  then have "0 \<le> 10 * n + (int (of_char c) - 48)" using Cons.prems(2) by linarith
  then show ?case using Cons.IH Cons.prems(1) by simp
qed simp

lemma octet_range: "octet xs = Some n \<Longrightarrow> 0 \<le> n \<and> n < 256"
  using decimal_nonneg [of xs 0] by (auto simp: octet_def decimalValue_def split: if_splits)

lemma parseIPv4_octets: "parseIPv4 xs = Some q \<Longrightarrow> octets4 q"
  by (cases q) (auto simp: parseIPv4_def dest!: octet_range split: list.splits option.splits)

lemma hexDigitVal_range: "hexDigitVal c = Some d \<Longrightarrow> 0 \<le> d \<and> d < 16"
  by (auto simp: hexDigitVal_def Let_def split: if_splits)

lemma hexValue_range: "hexValue n xs = Some m \<Longrightarrow> n * 16 ^ length xs \<le> m \<and> m < (n + 1) * 16 ^ length xs"
proof (induction n xs rule: hexValue.induct)
  case (2 n c cs)
  then obtain d where d: "hexDigitVal c = Some d" "hexValue (16 * n + d) cs = Some m" by (auto split: option.splits)
  have "(16 * n) * 16 ^ length cs \<le> (16 * n + d) * 16 ^ length cs"
    using hexDigitVal_range [OF d(1)] by (intro mult_right_mono) auto
  moreover have "(16 * n + d + 1) * 16 ^ length cs \<le> (16 * (n + 1)) * 16 ^ length cs"
    using hexDigitVal_range [OF d(1)] by (intro mult_right_mono) auto
  moreover note "2.IH" [OF d]
  ultimately have "(16 * n) * 16 ^ length cs \<le> m \<and> m < (16 * (n + 1)) * 16 ^ length cs" by linarith
  then show ?case by (simp add: algebra_simps)
qed simp

definition group16 :: "int \<Rightarrow> bool" where
  "group16 g \<longleftrightarrow> 0 \<le> g \<and> g < 65536"

lemma hexGroup_range:
  assumes "hexGroup xs = Some g"
  shows "group16 g"
proof -
  have "0 \<le> g" "g < 16 ^ length xs" "length xs \<le> 4"
    using assms hexValue_range [of 0 xs g] by (auto simp: hexGroup_def split: if_splits)
  moreover have "(16 :: int) ^ length xs \<le> 16 ^ 4" using \<open>length xs \<le> 4\<close> by (intro power_increasing) auto
  ultimately show ?thesis by (simp add: group16_def)
qed

lemma v6Groups_range: "v6Groups xs = Some gs \<Longrightarrow> \<forall>g\<in>set gs. group16 g"
proof (induction xs arbitrary: gs rule: v6Groups.induct)
  case (2 x)
  show ?case
  proof (cases "hexGroup x")
    case None
    then obtain a b c d where q: "parseIPv4 x = Some (a, b, c, d)" "gs = [256 * a + b, 256 * c + d]"
      using 2 by (auto split: option.splits)
    then show ?thesis using parseIPv4_octets [OF q(1)] by (simp add: group16_def)
  qed (use 2 hexGroup_range [of x] in auto)
next
  case (3 x y ys)
  then show ?case using hexGroup_range [of x] by (fastforce split: option.splits)
qed simp

lemma hexGroups_range: "hexGroups xs = Some gs \<Longrightarrow> \<forall>g\<in>set gs. group16 g"
proof -
  assume gs: "hexGroups xs = Some gs"
  show ?thesis
  proof (cases "xs = []")
    case False
    let ?ps = "splitOn (CHR '':'') xs"
    have all: "None \<notin> hexGroup ` set ?ps" and eq: "gs = map (the \<circ> hexGroup) ?ps"
      using gs False by (auto simp: hexGroups_def Let_def split: if_splits)
    have "group16 (the (hexGroup x))" if "x \<in> set ?ps" for x
      using all that by (intro hexGroup_range [of x]) (metis imageI option.collapse)
    then show ?thesis by (auto simp: eq)
  qed (use gs in \<open>simp add: hexGroups_def\<close>)
qed

lemma parseIPv6_groups: "parseIPv6 xs = Some gs \<Longrightarrow> length gs = 8 \<and> (\<forall>g\<in>set gs. group16 g)"
proof (cases "splitDouble xs")
  case None
  assume "parseIPv6 xs = Some gs"
  then have "v6Groups (splitOn (CHR '':'') xs) = Some gs" "length gs = 8"
    using None by (auto simp: parseIPv6_def split: option.splits if_splits)
  then show ?thesis using v6Groups_range by blast
next
  case (Some p)
  obtain l r where p: "p = (l, r)" by (cases p)
  assume "parseIPv6 xs = Some gs"
  then obtain a b where ab: "hexGroups l = Some a" "(if r = [] then Some [] else v6Groups (splitOn (CHR '':'') r)) = Some b"
    "length a + length b \<le> 7" "gs = a @ replicate (8 - (length a + length b)) 0 @ b"
    using Some p by (auto simp: parseIPv6_def split: option.splits if_splits)
  have "\<forall>g\<in>set b. group16 g" using ab(2) by (cases "r = []") (auto dest: v6Groups_range)
  then show ?thesis using ab hexGroups_range [OF ab(1)] by (auto simp: group16_def)
qed

text \<open>The IPv6 networks likewise; an address that maps an IPv4 address is as public as that one.\<close>

fun publicV6 :: "int list \<Rightarrow> bool" where
  "publicV6 [a, b, c, d, e, f, g, h] \<longleftrightarrow>
     (a < 0xfc00 \<or> 0xfe00 \<le> a \<and> a < 0xfe80) \<and> \<not> (a = 0x2001 \<and> b = 0xdb8) \<and>
     \<not> (a = 0x100 \<and> b = 0 \<and> c = 0 \<and> d = 0) \<and>
     \<not> (a = 0 \<and> b = 0 \<and> c = 0 \<and> d = 0 \<and> e = 0 \<and> f = 0 \<and> g = 0 \<and> (h = 0 \<or> h = 1)) \<and>
     (a = 0 \<and> b = 0 \<and> c = 0 \<and> d = 0 \<and> e = 0 \<and> f = 0xffff \<longrightarrow>
        publicV4 (g div 256, g mod 256, h div 256, h mod 256))"
| "publicV6 _ = False"

text \<open>
  The addresses that carry an IPv4 address in their last 32 bits: IPv4-compatible, IPv4-mapped and
  NAT64. They are as public as the address they carry.
\<close>

definition carriesIPv4 :: "int list \<Rightarrow> bool" where
  "carriesIPv4 gs \<longleftrightarrow> take 6 gs \<in> {[0, 0, 0, 0, 0, 0], [0, 0, 0, 0, 0, 0xffff], [0x64, 0xff9b, 0, 0, 0, 0]}"

definition lowQuad :: "int list \<Rightarrow> int \<times> int \<times> int \<times> int" where
  "lowQuad gs = (gs ! 6 div 256, gs ! 6 mod 256, gs ! 7 div 256, gs ! 7 mod 256)"

definition publicAddress :: "string \<Rightarrow> bool" where
  "publicAddress xs \<longleftrightarrow> (case parseIPv4 xs of
      Some q \<Rightarrow> publicV4 q
    | None \<Rightarrow> (case ipv6Groups xs of
        None \<Rightarrow> False
      | Some gs \<Rightarrow> publicV6 gs \<and> (carriesIPv4 gs \<longrightarrow> publicV4 (lowQuad gs))))"

text \<open>
  The texts in which the policy sees a carried address: one of three prefixes and an IPv4 address, or
  one of two prefixes and two groups.
\<close>

definition writtenIPv4 :: "string \<Rightarrow> bool" where
  "writtenIPv4 xs \<longleftrightarrow>
     (\<exists>p\<in>{''::ffff:'', ''::'', ''64:ff9b::''}. \<exists>x. map lowerCase xs = p @ x \<and> parseIPv4 x \<noteq> None) \<or>
     (\<exists>p\<in>{''::ffff:'', ''64:ff9b::''}. \<exists>x y. map lowerCase xs = p @ x @ CHR '':'' # y \<and> hexGroup x \<noteq> None \<and> hexGroup y \<noteq> None)"

text \<open>
  What it does not see: an IPv4-compatible or NAT64 address in another form. It counts as public
  when it is in none of the IPv6 networks, whatever address it carries.
\<close>

definition overlookedIPv4 :: "string \<Rightarrow> bool" where
  "overlookedIPv4 xs \<longleftrightarrow> parseIPv4 xs = None \<and> \<not> writtenIPv4 xs \<and>
     (case ipv6Groups xs of None \<Rightarrow> False
      | Some gs \<Rightarrow> take 6 gs \<in> {[0, 0, 0, 0, 0, 0], [0x64, 0xff9b, 0, 0, 0, 0]} \<and> publicV6 gs)"

lemma v6_prefixes:
  fixes a b c d e f g h :: int
  assumes "\<forall>x\<in>set [a, b, c, d, e, f, g, h]. group16 x"
  defines "V \<equiv> v6Value [a, b, c, d, e, f, g, h]"
  shows "V div 2 ^ 121 = a div 512" and "V div 2 ^ 118 = a div 64" and "V div 2 ^ 120 = a div 256"
    and "V div 2 ^ 96 = 65536 * a + b" and "V div 2 ^ 64 = 65536 * (65536 * (65536 * a + b) + c) + d"
    and "V div 2 ^ 32 = 65536 * (65536 * (65536 * (65536 * (65536 * a + b) + c) + d) + e) + f"
    and "V mod 2 ^ 32 = 65536 * g + h"
    and "V = 65536 * (65536 * (65536 * (65536 * (65536 * (65536 * (65536 * a + b) + c) + d) + e) + f) + g) + h"
proof -
  show V: "V = 65536 * (65536 * (65536 * (65536 * (65536 * (65536 * (65536 * a + b) + c) + d) + e) + f) + g) + h"
    by (simp add: V_def v6Value_def)
  note r = assms(1) [simplified, unfolded group16_def]
  show "V div 2 ^ 96 = 65536 * a + b"
    by (rule int_div_pos_eq [where r = "65536 * (65536 * (65536 * (65536 * (65536 * c + d) + e) + f) + g) + h"]; use r in \<open>simp add: V\<close>)
  show "V div 2 ^ 64 = 65536 * (65536 * (65536 * a + b) + c) + d"
    by (rule int_div_pos_eq [where r = "65536 * (65536 * (65536 * e + f) + g) + h"]; use r in \<open>simp add: V\<close>)
  show low: "V div 2 ^ 32 = 65536 * (65536 * (65536 * (65536 * (65536 * a + b) + c) + d) + e) + f"
    by (rule int_div_pos_eq [where r = "65536 * g + h"]; use r in \<open>simp add: V\<close>)
  then show "V mod 2 ^ 32 = 65536 * g + h" by (simp add: minus_div_mult_eq_mod [symmetric] V)
  have top: "V div 2 ^ 112 = a"
    by (rule int_div_pos_eq [where r = "65536 * (65536 * (65536 * (65536 * (65536 * (65536 * b + c) + d) + e) + f) + g) + h"];
        use r in \<open>simp add: V\<close>)
  have "V div 2 ^ (112 + n) = a div 2 ^ n" for n
    by (simp only: power_add zdiv_zmult2_eq [of "2 ^ n"] top zero_le_power zero_le_numeral)
  from this [of 9] this [of 6] this [of 8]
  show "V div 2 ^ 121 = a div 512" "V div 2 ^ 118 = a div 64" "V div 2 ^ 120 = a div 256" by simp_all
qed

lemma v4Value_groups: "v4Value (g div 256, g mod 256, h div 256, h mod 256) = 65536 * g + h"
proof -
  have "256 * (g div 256) + g mod 256 = g" "256 * (h div 256) + h mod 256 = h" by simp_all
  then show ?thesis unfolding v4Value.simps by linarith
qed

lemma octets4_groups: "group16 g \<Longrightarrow> group16 h \<Longrightarrow> octets4 (g div 256, g mod 256, h div 256, h mod 256)"
  by (auto simp: group16_def pos_imp_zdiv_nonneg_iff div_less_iff_less_mult)

lemma v6_digits:
  fixes a b c d e f g h :: int
  assumes "\<forall>x\<in>set [a, b, c, d, e, f, g, h]. group16 x"
  shows "a div 512 = 126 \<longleftrightarrow> 0xfc00 \<le> a \<and> a < 0xfe00" and "a div 64 = 1018 \<longleftrightarrow> 0xfe80 \<le> a \<and> a < 0xfec0"
    and "a div 64 = 1019 \<longleftrightarrow> 0xfec0 \<le> a \<and> a < 0xff00" and "a div 256 = 255 \<longleftrightarrow> 0xff00 \<le> a"
    and "65536 * a + b = 536939960 \<longleftrightarrow> a = 0x2001 \<and> b = 0xdb8"
    and "65536 * (65536 * (65536 * a + b) + c) + d = 72057594037927936 \<longleftrightarrow> a = 0x100 \<and> b = 0 \<and> c = 0 \<and> d = 0"
    and "65536 * (65536 * (65536 * (65536 * (65536 * a + b) + c) + d) + e) + f = 65535 \<longleftrightarrow>
      a = 0 \<and> b = 0 \<and> c = 0 \<and> d = 0 \<and> e = 0 \<and> f = 0xffff"
    and "65536 * (65536 * (65536 * (65536 * (65536 * (65536 * (65536 * a + b) + c) + d) + e) + f) + g) + h = 0 \<longleftrightarrow>
      a = 0 \<and> b = 0 \<and> c = 0 \<and> d = 0 \<and> e = 0 \<and> f = 0 \<and> g = 0 \<and> h = 0"
    and "65536 * (65536 * (65536 * (65536 * (65536 * (65536 * (65536 * a + b) + c) + d) + e) + f) + g) + h = 1 \<longleftrightarrow>
      a = 0 \<and> b = 0 \<and> c = 0 \<and> d = 0 \<and> e = 0 \<and> f = 0 \<and> g = 0 \<and> h = 1"
proof -
  have r: "0 \<le> a" "a < 65536" "0 \<le> b" "b < 65536" "0 \<le> c" "c < 65536" "0 \<le> d" "d < 65536" "0 \<le> e" "e < 65536"
    "0 \<le> f" "f < 65536" "0 \<le> g" "g < 65536" "0 \<le> h" "h < 65536"
    using assms by (simp_all add: group16_def)
  have digit: "65536 * x + u = y \<longleftrightarrow> x = y div 65536 \<and> u = y mod 65536" if "0 \<le> u \<and> u < 65536" for x u y :: int
    using digits_eq [of u 65536 "y mod 65536" x "y div 65536"] that by simp
  show "a div 512 = 126 \<longleftrightarrow> 0xfc00 \<le> a \<and> a < 0xfe00" "a div 64 = 1018 \<longleftrightarrow> 0xfe80 \<le> a \<and> a < 0xfec0"
    "a div 64 = 1019 \<longleftrightarrow> 0xfec0 \<le> a \<and> a < 0xff00" "a div 256 = 255 \<longleftrightarrow> 0xff00 \<le> a"
    using r by (simp_all add: quotient_iff)
  note digits = digit [OF conjI, OF r(3,4)] digit [OF conjI, OF r(5,6)] digit [OF conjI, OF r(7,8)]
    digit [OF conjI, OF r(9,10)] digit [OF conjI, OF r(11,12)] digit [OF conjI, OF r(13,14)] digit [OF conjI, OF r(15,16)]
  show "65536 * a + b = 536939960 \<longleftrightarrow> a = 0x2001 \<and> b = 0xdb8" by (simp only: digits) simp
  show "65536 * (65536 * (65536 * a + b) + c) + d = 72057594037927936 \<longleftrightarrow> a = 0x100 \<and> b = 0 \<and> c = 0 \<and> d = 0"
    by (simp only: digits) simp
  show "65536 * (65536 * (65536 * (65536 * (65536 * a + b) + c) + d) + e) + f = 65535 \<longleftrightarrow>
      a = 0 \<and> b = 0 \<and> c = 0 \<and> d = 0 \<and> e = 0 \<and> f = 0xffff" by (simp only: digits) simp
  show "65536 * (65536 * (65536 * (65536 * (65536 * (65536 * (65536 * a + b) + c) + d) + e) + f) + g) + h = 0 \<longleftrightarrow>
      a = 0 \<and> b = 0 \<and> c = 0 \<and> d = 0 \<and> e = 0 \<and> f = 0 \<and> g = 0 \<and> h = 0" by (simp only: digits) simp
  show "65536 * (65536 * (65536 * (65536 * (65536 * (65536 * (65536 * a + b) + c) + d) + e) + f) + g) + h = 1 \<longleftrightarrow>
      a = 0 \<and> b = 0 \<and> c = 0 \<and> d = 0 \<and> e = 0 \<and> f = 0 \<and> g = 0 \<and> h = 1" by (simp only: digits) simp
qed

lemma blocked6_iff:
  assumes "length gs = 8" and "\<forall>g\<in>set gs. group16 g"
  shows "blocked6 gs \<longleftrightarrow> \<not> publicV6 gs"
proof -
  obtain a b c d e f g h where gs: "gs = [a, b, c, d, e, f, g, h]"
    using assms(1) by (auto simp: numeral_eq_Suc length_Suc_conv)
  note r = assms(2) [unfolded gs]
  have networks: "list_ex (\<lambda>(network, prefix). inSubnet 128 V (v6Value network) prefix) BLOCKED_IPV6 \<longleftrightarrow>
      V = 0 \<or> V = 1 \<or> V div 2 ^ 64 = 72057594037927936 \<or> V div 2 ^ 96 = 536939960 \<or>
      V div 2 ^ 121 = 126 \<or> V div 2 ^ 118 = 1018 \<or> V div 2 ^ 118 = 1019 \<or> V div 2 ^ 120 = 255" for V
    by (simp add: BLOCKED_IPV6_def inSubnet_def v6Value_def)
  have "blocked6 gs \<longleftrightarrow>
      (a = 0 \<and> b = 0 \<and> c = 0 \<and> d = 0 \<and> e = 0 \<and> f = 0 \<and> g = 0 \<and> h = 0 \<or>
       a = 0 \<and> b = 0 \<and> c = 0 \<and> d = 0 \<and> e = 0 \<and> f = 0 \<and> g = 0 \<and> h = 1 \<or>
       a = 0x100 \<and> b = 0 \<and> c = 0 \<and> d = 0 \<or> a = 0x2001 \<and> b = 0xdb8 \<or> 0xfc00 \<le> a \<and> a < 0xfe00 \<or>
       0xfe80 \<le> a \<and> a < 0xfec0 \<or> 0xfec0 \<le> a \<and> a < 0xff00 \<or> 0xff00 \<le> a) \<or>
      (a = 0 \<and> b = 0 \<and> c = 0 \<and> d = 0 \<and> e = 0 \<and> f = 0xffff) \<and> blockedValue4 (65536 * g + h)"
    unfolding blocked6_def Let_def networks gs v6_prefixes(1-7) [OF r]
    unfolding v6_prefixes(8) [OF r] v6_digits [OF r] by (rule refl)
  moreover have "blockedValue4 (65536 * g + h) \<longleftrightarrow> \<not> publicV4 (g div 256, g mod 256, h div 256, h mod 256)"
    using blocked4_iff [OF octets4_groups [of g h]] r by (simp add: blocked4_def v4Value_groups del: v4Value.simps publicV4.simps)
  moreover have "(0xfc00 \<le> a \<and> a < 0xfe00 \<or> 0xfe80 \<le> a \<and> a < 0xfec0 \<or> 0xfec0 \<le> a \<and> a < 0xff00 \<or> 0xff00 \<le> a) \<longleftrightarrow>
      \<not> (a < 0xfc00 \<or> 0xfe00 \<le> a \<and> a < 0xfe80)" by presburger
  ultimately show ?thesis unfolding gs publicV6.simps by satx
qed

subsection \<open>Carried addresses\<close>

lemma digit_code:
  assumes "d < 10"
  shows "digitChar (char_of (48 + d))" "int (of_char (char_of (48 + d))) - 48 = int d" "char_of (48 + d) = CHR ''0'' \<longleftrightarrow> d = 0"
proof -
  have code: "of_char (char_of (48 + d)) = (48 + d :: nat)" using assms by (simp add: of_char_of)
  then show "digitChar (char_of (48 + d))" "int (of_char (char_of (48 + d))) - 48 = int d"
    using assms by (simp_all add: digitChar_def)
  have "d = 0" if "char_of (48 + d) = CHR ''0''"
    using arg_cong [OF that, of "of_char :: char \<Rightarrow> nat"] code by simp
  moreover have "char_of (48 :: nat) = CHR ''0''" by code_simp
  ultimately show "char_of (48 + d) = CHR ''0'' \<longleftrightarrow> d = 0" by auto
qed

lemma natDigits_step: "10 \<le> n \<Longrightarrow> natDigits n = natDigits (n div 10) @ [char_of (48 + n mod 10)]"
  by (subst natDigits.simps) simp

lemma natDigits_one: "n < 10 \<Longrightarrow> natDigits n = [char_of (48 + n)]"
  by (subst natDigits.simps) simp

lemma octet_digits:
  "c < 10 \<Longrightarrow> octet [char_of (48 + c)] = Some (int c)"
  "b < 10 \<Longrightarrow> b \<noteq> 0 \<Longrightarrow> c < 10 \<Longrightarrow> octet [char_of (48 + b), char_of (48 + c)] = Some (int (10 * b + c))"
  "a < 10 \<Longrightarrow> a \<noteq> 0 \<Longrightarrow> b < 10 \<Longrightarrow> c < 10 \<Longrightarrow> 10 * (10 * a + b) + c < 256 \<Longrightarrow>
     octet [char_of (48 + a), char_of (48 + b), char_of (48 + c)] = Some (int (10 * (10 * a + b) + c))"
  using digit_code [of a] digit_code [of b] digit_code [of c] by (simp_all add: octet_def decimalValue_def)

lemma octet_printed:
  assumes "0 \<le> n" "n < 256"
  shows "octet (intString n) = Some n"
proof -
  define m where "m = nat n"
  have m: "m < 256" "intString n = natDigits m" "n = int m" using assms by (auto simp: m_def intString_def)
  define b where "b = m div 10"
  define c where "c = m mod 10"
  have bc: "10 * b + c = m" "c < 10" "b < 26" using m(1) by (auto simp: b_def c_def)
  show ?thesis
  proof (cases "m < 10")
    case True
    then show ?thesis using octet_digits(1) [of m] m natDigits_one [of m] by simp
  next
    case False
    then have digits: "natDigits m = natDigits b @ [char_of (48 + c)]" using natDigits_step [of m] by (simp add: b_def c_def)
    show ?thesis
    proof (cases "b < 10")
      case True
      then show ?thesis using octet_digits(2) [of b c] digits natDigits_one [of b] bc False m by auto
    next
      case big: False
      define d where "d = b div 10"
      define e where "e = b mod 10"
      have de: "10 * d + e = b" "e < 10" "d < 3" "d \<noteq> 0" using bc(3) big by (auto simp: d_def e_def)
      have "natDigits b = [char_of (48 + d), char_of (48 + e)]"
        using natDigits_step [of b] natDigits_one [of d] big de(3) by (simp add: d_def e_def)
      then show ?thesis using octet_digits(3) [of d e c] digits de bc m by simp
    qed
  qed
qed

lemma splitOn_chars: "x \<in> set xs \<Longrightarrow> x = c \<or> (\<exists>w\<in>set (splitOn c xs). x \<in> set w)"
proof (induction xs)
  case (Cons y ys)
  then show ?case by (cases "splitOn c ys") auto
qed simp

lemma splitOn_one: "splitOn c xs = [w] \<Longrightarrow> xs = w \<and> c \<notin> set w"
proof (induction xs arbitrary: w)
  case (Cons y ys)
  then show ?case by (cases "splitOn c ys"; cases "y = c") auto
qed simp

lemma splitOn_two: "splitOn c xs = [v, w] \<Longrightarrow> xs = v @ c # w \<and> c \<notin> set v \<and> c \<notin> set w"
proof (induction xs arbitrary: v)
  case (Cons y ys)
  show ?case
  proof (cases "y = c")
    case True
    then show ?thesis using Cons.prems splitOn_one [of c ys w] by auto
  next
    case False
    then obtain v' where "splitOn c ys = [v', w]" "v = y # v'" using Cons.prems by (cases "splitOn c ys") auto
    then show ?thesis using Cons.IH False by auto
  qed
qed simp

lemma dotted_chars: "dottedQuad xs \<Longrightarrow> x \<in> set xs \<Longrightarrow> x = CHR ''.'' \<or> digitChar x"
  using splitOn_chars [of x xs "CHR ''.''"] by (auto simp: dottedQuad_def Let_def list_all_iff)

lemma dotted_parts:
  assumes "dottedQuad xs"
  shows "CHR '':'' \<notin> set xs" and "CHR ''%'' \<notin> set xs" and "hexGroup xs = None" and "xs \<noteq> []"
proof -
  show "CHR '':'' \<notin> set xs" "CHR ''%'' \<notin> set xs"
    using dotted_chars [OF assms, of "CHR '':''"] dotted_chars [OF assms, of "CHR ''%''"] by (auto simp: digitChar_def)
  have "CHR ''.'' \<in> set xs"
  proof (rule ccontr)
    assume "CHR ''.'' \<notin> set xs"
    then show False using assms by (simp add: dottedQuad_def splitOn_single)
  qed
  moreover have "hexValue n ys = None" if "CHR ''.'' \<in> set ys" for n ys
    using that by (induction n ys rule: hexValue.induct) (auto simp: hexDigitVal_def split: option.splits)
  ultimately show "hexGroup xs = None" "xs \<noteq> []" by (auto simp: hexGroup_def)
qed

lemma parse_dotted: "parseIPv4 xs \<noteq> None \<Longrightarrow> dottedQuad xs"
  by (auto simp: parseIPv4_def dottedQuad_def octet_def split: list.splits option.splits if_splits)

lemma hexValue_chars: "hexValue n xs \<noteq> None \<Longrightarrow> x \<in> set xs \<Longrightarrow> hexDigitVal x \<noteq> None"
  by (induction n xs rule: hexValue.induct) (auto split: option.splits)

lemma group_chars:
  assumes "hexGroup xs \<noteq> None"
  shows "CHR '':'' \<notin> set xs" and "CHR ''%'' \<notin> set xs" and "xs \<noteq> []"
  using assms hexValue_chars [of 0 xs "CHR '':''"] hexValue_chars [of 0 xs "CHR ''%''"]
  by (auto simp: hexGroup_def hexDigitVal_def split: if_splits)

lemma lower_hex: "hexDigitVal (lowerCase c) \<noteq> None \<Longrightarrow> hexChar (lowerCase c)"
  by (auto simp: hexDigitVal_def hexChar_def lowerCase_def upperChar_def Let_def of_char_of split: if_splits)

lemma lower_group:
  assumes "hexGroup ys \<noteq> None" and "set ys \<subseteq> lowerCase ` S"
  shows "list_all hexChar ys"
  using assms hexValue_chars [of 0 ys] lower_hex by (fastforce simp: hexGroup_def list_all_iff split: if_splits)

lemma withoutZone_plain: "CHR ''%'' \<notin> set xs \<Longrightarrow> withoutZone xs = Some xs"
proof -
  assume "CHR ''%'' \<notin> set xs"
  then have empty: "dropWhile (\<lambda>c. c \<noteq> CHR ''%'') xs = []" by (auto simp: dropWhile_eq_Nil_conv)
  show ?thesis unfolding withoutZone_def empty by simp
qed

text \<open>The groups of an address that is one of the prefixes and an IPv4 address, or two groups.\<close>

definition prefixGroups :: "string \<Rightarrow> int list" where
  "prefixGroups p = (if p = ''::'' then [0, 0, 0, 0, 0, 0] else if p = ''::ffff:'' then [0, 0, 0, 0, 0, 0xffff] else [0x64, 0xff9b, 0, 0, 0, 0])"

lemma prefix_hex: "hexGroup ''ffff'' = Some 0xffff" "hexGroup ''64'' = Some 0x64" "hexGroup ''ff9b'' = Some 0xff9b"
  by code_simp+

lemma prefix_split:
  "splitDouble (''::'' @ x) = Some ([], x)" "splitDouble (''::ffff:'' @ x) = Some ([], ''ffff:'' @ x)"
  "splitDouble (''64:ff9b::'' @ x) = Some (''64:ff9b'', x)"
  "splitOn (CHR '':'') (''ffff:'' @ x) = ''ffff'' # splitOn (CHR '':'') x" "hexGroups ''64:ff9b'' = Some [0x64, 0xff9b]" "hexGroups [] = Some []"
  using prefix_hex by (simp_all add: hexGroups_def)

lemma carried_tail:
  assumes "p \<in> {''::ffff:'', ''::'', ''64:ff9b::''}" and "x \<noteq> []"
  shows "parseIPv6 (p @ x) = (case v6Groups (splitOn (CHR '':'') x) of
      Some b \<Rightarrow> if length b = 2 then Some (prefixGroups p @ b) else parseIPv6 (p @ x) | None \<Rightarrow> None)"
proof -
  have cons: "v6Groups (''ffff'' # splitOn (CHR '':'') x) = (case v6Groups (splitOn (CHR '':'') x) of Some gs \<Rightarrow> Some (0xffff # gs) | None \<Rightarrow> None)"
    using prefix_hex(1) by (cases "splitOn (CHR '':'') x") simp_all
  from assms(1) consider (mapped) "p = ''::ffff:''" | (compatible) "p = ''::''" | (nat64) "p = ''64:ff9b::''" by blast
  then show ?thesis
  proof cases
    case mapped
    then show ?thesis
      unfolding parseIPv6_def mapped prefix_split option.case prod.case cons
      by (simp add: prefixGroups_def numeral_eq_Suc split: option.splits)
  next
    case compatible
    then show ?thesis
      unfolding parseIPv6_def compatible prefix_split option.case prod.case
      using assms(2) by (simp add: prefixGroups_def numeral_eq_Suc split: option.splits)
  next
    case nat64
    then show ?thesis
      unfolding parseIPv6_def nat64 prefix_split option.case prod.case
      using assms(2) by (simp add: prefixGroups_def numeral_eq_Suc split: option.splits)
  qed
qed

lemma carried_dotted:
  assumes "p \<in> {''::ffff:'', ''::'', ''64:ff9b::''}" and "dottedQuad x"
  shows "parseIPv6 (p @ x) = (case parseIPv4 x of Some (a, b, c, d) \<Rightarrow> Some (prefixGroups p @ [256 * a + b, 256 * c + d]) | None \<Rightarrow> None)"
proof -
  have "v6Groups (splitOn (CHR '':'') x) = (case parseIPv4 x of Some (a, b, c, d) \<Rightarrow> Some [256 * a + b, 256 * c + d] | None \<Rightarrow> None)"
    using dotted_parts [OF assms(2)] by (simp add: splitOn_single)
  then show ?thesis using carried_tail [OF assms(1) dotted_parts(4) [OF assms(2)]] by (auto split: option.splits prod.splits)
qed

lemma carried_hex:
  assumes "p \<in> {''::ffff:'', ''64:ff9b::''}" and "hexGroup x = Some g" and "hexGroup y = Some h"
  shows "parseIPv6 (p @ x @ CHR '':'' # y) = Some (prefixGroups p @ [g, h])"
proof -
  have "splitOn (CHR '':'') (x @ CHR '':'' # y) = [x, y]"
    using group_chars(1) [of x] group_chars(1) [of y] assms(2,3) by (simp add: splitOn_append splitOn_single)
  then have "v6Groups (splitOn (CHR '':'') (x @ CHR '':'' # y)) = Some [g, h]" using assms(2,3) by simp
  moreover have "p \<in> {''::ffff:'', ''::'', ''64:ff9b::''}" using assms(1) by blast
  ultimately show ?thesis using carried_tail [of p "x @ CHR '':'' # y"] by simp
qed

lemma afterPrefix_iff: "z \<in> set (afterPrefix ps xs) \<longleftrightarrow> (\<exists>p\<in>set ps. xs = p @ z)"
proof
  assume "\<exists>p\<in>set ps. xs = p @ z"
  then obtain p where "p \<in> set ps" "xs = p @ z" by blast
  then have "p \<in> set (filter (startsWith xs) ps)" "z = drop (length p) xs" by (auto simp: startsWith_iff)
  then show "z \<in> set (afterPrefix ps xs)" unfolding afterPrefix_def by auto
qed (auto simp: afterPrefix_def startsWith_iff)

lemma embeddedIpv4_Some:
  assumes "embeddedIpv4 xs = Some z"
  shows "(\<exists>p\<in>{''::ffff:'', ''::'', ''64:ff9b::''}. xs = p @ z \<and> dottedQuad z) \<or>
    (\<exists>p\<in>{''::ffff:'', ''64:ff9b::''}. \<exists>x y g h. xs = p @ x @ CHR '':'' # y \<and> hexGroup x = Some g \<and> hexGroup y = Some h \<and>
       z = intString (g div 256) @ ''.'' @ intString (g mod 256) @ ''.'' @ intString (h div 256) @ ''.'' @ intString (h mod 256))"
proof (cases "filter dottedQuad (afterPrefix [''::ffff:'', ''::'', ''64:ff9b::''] xs)")
  case (Cons y ys)
  then have z: "z \<in> set (filter dottedQuad (afterPrefix [''::ffff:'', ''::'', ''64:ff9b::''] xs))"
    using assms by (simp add: embeddedIpv4_def)
  then show ?thesis unfolding set_filter mem_Collect_eq afterPrefix_iff by simp
next
  case Nil
  then obtain g h ps where found: "List.map_filter twoGroups (afterPrefix [''::ffff:'', ''64:ff9b::''] xs) = (g, h) # ps"
    and z: "z = intString (g div 256) @ ''.'' @ intString (g mod 256) @ ''.'' @ intString (h div 256) @ ''.'' @ intString (h mod 256)"
    using assms by (auto simp: embeddedIpv4_def split: list.splits)
  have "(g, h) \<in> set (List.map_filter twoGroups (afterPrefix [''::ffff:'', ''64:ff9b::''] xs))" by (simp add: found)
  then obtain w where "w \<in> set (afterPrefix [''::ffff:'', ''64:ff9b::''] xs)" and groups: "twoGroups w = Some (g, h)"
    by (auto simp: map_filter_def)
  then obtain p where p: "p \<in> {''::ffff:'', ''64:ff9b::''}" "xs = p @ w" unfolding afterPrefix_iff by auto
  from groups obtain x y where "splitOn (CHR '':'') w = [x, y]" "hexGroup x = Some g" "hexGroup y = Some h"
    by (auto simp: twoGroups_def split: list.splits option.splits if_splits)
  moreover from this(1) have "w = x @ CHR '':'' # y" using splitOn_two by blast
  ultimately show ?thesis using p z by blast
qed

lemma written_groups: "w \<in> set ws \<Longrightarrow> twoGroups w \<noteq> None \<Longrightarrow> \<exists>g. g \<in> set (List.map_filter twoGroups ws)"
  by (auto simp: map_filter_def)

lemma written_embedded:
  assumes "writtenIPv4 xs"
  shows "embeddedIpv4 (map lowerCase xs) \<noteq> None"
  using assms unfolding writtenIPv4_def
proof (elim disjE bexE exE conjE)
  fix p x
  assume p: "p \<in> {''::ffff:'', ''::'', ''64:ff9b::''}" "map lowerCase xs = p @ x" "parseIPv4 x \<noteq> None"
  then have "x \<in> set (filter dottedQuad (afterPrefix [''::ffff:'', ''::'', ''64:ff9b::''] (map lowerCase xs)))"
    using parse_dotted [OF p(3)] unfolding set_filter mem_Collect_eq afterPrefix_iff by auto
  then obtain w ws where "filter dottedQuad (afterPrefix [''::ffff:'', ''::'', ''64:ff9b::''] (map lowerCase xs)) = w # ws"
    by (metis list.exhaust empty_iff list.set(1))
  then show ?thesis by (simp add: embeddedIpv4_def)
next
  fix p x y
  assume p: "p \<in> {''::ffff:'', ''64:ff9b::''}" "map lowerCase xs = p @ x @ CHR '':'' # y" "hexGroup x \<noteq> None" "hexGroup y \<noteq> None"
  have "set x \<union> set y \<subseteq> lowerCase ` set xs" using arg_cong [OF p(2), of set] by auto
  then have "list_all hexChar x" "list_all hexChar y" using lower_group p(3,4) by blast+
  then have "twoGroups (x @ CHR '':'' # y) \<noteq> None"
    using p(3,4) group_chars(1) by (auto simp: twoGroups_def splitOn_append splitOn_single)
  moreover have "x @ CHR '':'' # y \<in> set (afterPrefix [''::ffff:'', ''64:ff9b::''] (map lowerCase xs))"
    unfolding afterPrefix_iff using p(1,2) by auto
  ultimately obtain g where "g \<in> set (List.map_filter twoGroups (afterPrefix [''::ffff:'', ''64:ff9b::''] (map lowerCase xs)))"
    using written_groups by blast
  then obtain w ws where "List.map_filter twoGroups (afterPrefix [''::ffff:'', ''64:ff9b::''] (map lowerCase xs)) = w # ws"
    by (metis list.exhaust empty_iff list.set(1))
  then show ?thesis by (cases w) (simp add: embeddedIpv4_def split: list.splits)
qed

lemma low_quad: "octets4 (a, b, c, d) \<Longrightarrow> length gs = 6 \<Longrightarrow> lowQuad (gs @ [256 * a + b, 256 * c + d]) = (a, b, c, d)"
  by (auto simp: lowQuad_def nth_append)

lemma eight_groups:
  assumes "length gs = 8"
  obtains a b c d e f g h where "gs = [a, b, c, d, e, f, g, h]" "take 6 gs = [a, b, c, d, e, f]"
    "lowQuad gs = (g div 256, g mod 256, h div 256, h mod 256)"
proof -
  obtain a b c d e f g h where gs: "gs = [a, b, c, d, e, f, g, h]"
    using assms by (auto simp: numeral_eq_Suc length_Suc_conv)
  show thesis by (rule that [OF gs]) (simp_all add: gs lowQuad_def)
qed

lemma prefix_public:
  assumes "length gs = 8" and "publicV4 (lowQuad gs)" and "take 6 gs = prefixGroups p"
  shows "publicV6 gs"
  using assms(1)
proof (rule eight_groups)
  fix a b c d e f g h
  assume gs: "gs = [a, b, c, d, e, f, g, h]" "take 6 gs = [a, b, c, d, e, f]" "lowQuad gs = (g div 256, g mod 256, h div 256, h mod 256)"
  have "g \<noteq> 0" using assms(2) unfolding gs(3) by (cases "g = 0") simp_all
  moreover have "[a, b, c, d, e, f] = prefixGroups p" using assms(3) gs(2) by simp
  then have "a = 0 \<and> b = 0 \<and> c = 0 \<and> d = 0 \<and> e = 0 \<and> f = 0 \<or> a = 0 \<and> b = 0 \<and> c = 0 \<and> d = 0 \<and> e = 0 \<and> f = 0xffff \<or>
      a = 0x64 \<and> b = 0xff9b \<and> c = 0 \<and> d = 0 \<and> e = 0 \<and> f = 0" by (auto simp: prefixGroups_def split: if_splits)
  moreover have "publicV4 (g div 256, g mod 256, h div 256, h mod 256)" using assms(2) unfolding gs(3) .
  ultimately show ?thesis unfolding gs(1) publicV6.simps by (elim disjE conjE) (simp_all del: publicV4.simps)
qed

text \<open>A seen address is a carried one, with the octets of its last two groups.\<close>

lemma embedded_carried:
  assumes "embeddedIpv4 (map lowerCase xs) = Some z" and "ipv6Groups xs = Some gs"
  shows "carriesIPv4 gs \<and> parseIPv4 z = Some (lowQuad gs) \<and> (publicV4 (lowQuad gs) \<longrightarrow> publicV6 gs) \<and> writtenIPv4 xs"
  using embeddedIpv4_Some [OF assms(1)]
proof (elim disjE bexE exE conjE)
  fix p
  assume p: "p \<in> {''::ffff:'', ''::'', ''64:ff9b::''}" "map lowerCase xs = p @ z" "dottedQuad z"
  have "CHR ''%'' \<notin> set (p @ z)" using p(1) dotted_parts(2) [OF p(3)] by auto
  then have "parseIPv6 (p @ z) = Some gs" using assms(2) p(2) by (simp add: ipv6Groups_def withoutZone_plain)
  then obtain a b c d where q: "parseIPv4 z = Some (a, b, c, d)" and gs: "gs = prefixGroups p @ [256 * a + b, 256 * c + d]"
    using carried_dotted [OF p(1,3)] by (auto split: option.splits)
  have len: "length (prefixGroups p) = 6" by (simp add: prefixGroups_def)
  have low: "lowQuad gs = (a, b, c, d)" unfolding gs using low_quad [OF parseIPv4_octets [OF q] len] .
  moreover have "take 6 gs = prefixGroups p" by (simp add: gs len)
  moreover from this have "carriesIPv4 gs" by (auto simp: carriesIPv4_def prefixGroups_def)
  moreover have "publicV4 (lowQuad gs) \<longrightarrow> publicV6 gs"
    using prefix_public [of gs p] len by (simp add: gs)
  moreover have "writtenIPv4 xs" unfolding writtenIPv4_def using p q by blast
  ultimately show ?thesis using q by simp
next
  fix p x y g h
  assume p: "p \<in> {''::ffff:'', ''64:ff9b::''}" "map lowerCase xs = p @ x @ CHR '':'' # y" "hexGroup x = Some g" "hexGroup y = Some h"
    and z: "z = intString (g div 256) @ ''.'' @ intString (g mod 256) @ ''.'' @ intString (h div 256) @ ''.'' @ intString (h mod 256)"
  have "CHR ''%'' \<notin> set (p @ x @ CHR '':'' # y)" using p(1) group_chars(2) [of x] group_chars(2) [of y] p(3,4) by auto
  then have "parseIPv6 (p @ x @ CHR '':'' # y) = Some gs" using assms(2) p(2) by (simp add: ipv6Groups_def withoutZone_plain)
  then have gs: "gs = prefixGroups p @ [g, h]" using carried_hex [OF p(1,3,4)] by simp
  have len: "length (prefixGroups p) = 6" by (simp add: prefixGroups_def)
  have low: "lowQuad gs = (g div 256, g mod 256, h div 256, h mod 256)" by (simp add: lowQuad_def gs nth_append len)
  have octets: "octets4 (g div 256, g mod 256, h div 256, h mod 256)"
    using octets4_groups hexGroup_range p(3,4) by blast
  have "CHR ''.'' \<notin> set (intString n)" if "0 \<le> n" "n < 256" for n
    using octet_printed [OF that] by (auto simp: octet_def list_all_iff digitChar_def split: if_splits)
  then have "parseIPv4 z = Some (lowQuad gs)"
    using octets octet_printed by (simp add: z low parseIPv4_def splitOn_append splitOn_single)
  moreover have "take 6 gs = prefixGroups p" by (simp add: gs len)
  moreover from this have "carriesIPv4 gs" by (auto simp: carriesIPv4_def prefixGroups_def)
  moreover have "publicV4 (lowQuad gs) \<longrightarrow> publicV6 gs"
    using prefix_public [of gs p] len by (simp add: gs)
  moreover have "writtenIPv4 xs" unfolding writtenIPv4_def using p by blast
  ultimately show ?thesis by blast
qed

lemma ipv6Groups_range: "ipv6Groups xs = Some gs \<Longrightarrow> length gs = 8 \<and> (\<forall>g\<in>set gs. group16 g)"
  using parseIPv6_groups by (auto simp: ipv6Groups_def bind_eq_Some_conv)

lemma mapped_public: "length gs = 8 \<Longrightarrow> publicV6 gs \<Longrightarrow> take 6 gs = [0, 0, 0, 0, 0, 0xffff] \<Longrightarrow> publicV4 (lowQuad gs)"
  by (erule eight_groups) (simp del: publicV4.simps)

lemma forbidden_iff: "isForbiddenAddress xs \<longleftrightarrow> \<not> (publicAddress xs \<or> overlookedIPv4 xs)"
proof (cases "parseIPv4 xs")
  case (Some q)
  then show ?thesis
    by (simp add: isForbiddenAddress_def publicAddress_def overlookedIPv4_def blocked4_iff [OF parseIPv4_octets])
next
  case v6: None
  show ?thesis
  proof (cases "ipv6Groups xs")
    case None
    then show ?thesis using v6 by (simp add: isForbiddenAddress_def publicAddress_def overlookedIPv4_def)
  next
    case (Some gs)
    note gs = ipv6Groups_range [OF Some]
    show ?thesis
    proof (cases "embeddedIpv4 (map lowerCase xs)")
      case None
      then have "\<not> writtenIPv4 xs" using written_embedded by blast
      moreover have "publicV4 (lowQuad gs)" if "publicV6 gs" "carriesIPv4 gs" "take 6 gs \<notin> {[0, 0, 0, 0, 0, 0], [0x64, 0xff9b, 0, 0, 0, 0]}"
        using mapped_public gs that by (auto simp: carriesIPv4_def)
      ultimately show ?thesis
        using v6 Some None blocked6_iff gs by (auto simp: isForbiddenAddress_def publicAddress_def overlookedIPv4_def)
    next
      case (Some z)
      from embedded_carried [OF this \<open>ipv6Groups xs = Some gs\<close>] show ?thesis
        using v6 Some \<open>ipv6Groups xs = Some gs\<close> blocked4_iff [OF parseIPv4_octets, of z]
        by (auto simp: isForbiddenAddress_def publicAddress_def overlookedIPv4_def)
    qed
  qed
qed

section \<open>What validation ensures\<close>

text \<open>What a validated destination satisfies: \<open>as\<close> are all the addresses that were considered.\<close>

definition soundDestination :: "'w network \<Rightarrow> string \<Rightarrow> url \<Rightarrow> resolved_address \<Rightarrow> bool" where
  "soundDestination N rawUrl u a \<longleftrightarrow>
     nw_url N rawUrl = Some u \<and> ur_protocol u \<in> {''https:'', ''http:''} \<and> ur_username u = [] \<and> ur_password u = [] \<and>
     (let host = normalHost (ur_hostname u) in
        host \<notin> set BLOCKED_HOSTNAMES \<and> \<not> endsWith host ''.localhost'' \<and> \<not> endsWith host ''.internal'' \<and>
        (\<exists>as. as \<noteq> [] \<and> a = hd as \<and> list_all (\<lambda>x. publicAddress (rd_address x) \<or> overlookedIPv4 (rd_address x)) as \<and>
           (as = [\<lparr>rd_address = host, rd_family = isIP host\<rparr>] \<and> isIP host \<noteq> 0 \<or> (\<exists>w w'. nw_lookup N host w = (w', Inr as)))))"

lemma resolveHost_Inr: "resolveHost N host s = (t, Inr as) \<Longrightarrow> \<exists>w w'. nw_lookup N host w = (w', Inr as)"
  by (auto simp: resolveHost_def catchA_Inr_iff ext_eq_iff act_simps)

lemma resolveHost_Inl: "resolveHost N host s = (t, Inl e) \<Longrightarrow> \<exists>msg. e = forbidden msg"
  by (auto simp: resolveHost_def catchA_Inl_iff act_simps)

lemma validation_sound:
  shows "case snd (validateDestination N False rawUrl s) of
      Inl e \<Rightarrow> \<exists>msg. e = forbidden msg
    | Inr (u, a) \<Rightarrow> soundDestination N rawUrl u a"
proof (cases "validateDestination N False rawUrl s")
  case (Pair t r)
  show ?thesis
  proof (cases r)
    case (Inl e)
    have "\<exists>msg. e = forbidden msg"
      using Pair unfolding Inl validateDestination_def Let_def
      by (auto simp: bindA_Inl_iff act_simps checkAddresses_def dest!: resolveHost_Inl split: option.splits if_splits)
    then show ?thesis using Pair Inl by simp
  next
    case (Inr p)
    obtain u a where p: "p = (u, a)" by (cases p)
    let ?host = "normalHost (ur_hostname u)"
    from Pair obtain s1 as where
      start: "nw_url N rawUrl = Some u" "ur_protocol u \<in> {''https:'', ''http:''}" "ur_username u = []" "ur_password u = []"
        "?host \<notin> set BLOCKED_HOSTNAMES" "\<not> endsWith ?host ''.localhost''" "\<not> endsWith ?host ''.internal''"
      and origin: "(if isIP ?host \<noteq> 0 then ret [\<lparr>rd_address = ?host, rd_family = isIP ?host\<rparr>] else resolveHost N ?host) s = (s1, Inr as)"
      and all: "as \<noteq> []" "a = hd as" "\<not> list_ex (\<lambda>e. isForbiddenAddress (rd_address e)) as"
      unfolding Inr p validateDestination_def Let_def
      by (auto simp: bindA_Inr_iff act_simps checkAddresses_def split: option.splits if_splits)
    have "list_all (\<lambda>x. publicAddress (rd_address x) \<or> overlookedIPv4 (rd_address x)) as"
      using all(3) by (auto simp: list_all_iff list_ex_iff forbidden_iff)
    moreover have "as = [\<lparr>rd_address = ?host, rd_family = isIP ?host\<rparr>] \<and> isIP ?host \<noteq> 0 \<or> (\<exists>w w'. nw_lookup N ?host w = (w', Inr as))"
      using origin by (auto simp: act_simps dest: resolveHost_Inr split: if_splits)
    ultimately have "soundDestination N rawUrl u a"
      unfolding soundDestination_def Let_def using start all(1,2) by blast
    then show ?thesis using Pair Inr p by simp
  qed
qed

lemma overlooked_loopback: "\<not> isForbiddenAddress ''::7f00:1'' \<and> \<not> publicAddress ''::7f00:1'' \<and> isForbiddenAddress ''::127.0.0.1''"
proof -
  have v4: "parseIPv4 ''::7f00:1'' = None" "parseIPv4 ''::127.0.0.1'' = None" by code_simp+
  have v6: "ipv6Groups ''::7f00:1'' = Some [0, 0, 0, 0, 0, 0, 0x7f00, 1]" "ipv6Groups ''::127.0.0.1'' = Some [0, 0, 0, 0, 0, 0, 0x7f00, 1]"
    by code_simp+
  have "embeddedIpv4 (map lowerCase ''::7f00:1'') = None" "embeddedIpv4 (map lowerCase ''::127.0.0.1'') = Some ''127.0.0.1''"
      "parseIPv4 ''127.0.0.1'' = Some (127, 0, 0, 1)" "\<not> blocked6 [0, 0, 0, 0, 0, 0, 0x7f00, 1]" "blocked4 (127, 0, 0, 1)"
    by code_simp+
  with v4 v6 show ?thesis by (simp add: isForbiddenAddress_def publicAddress_def carriesIPv4_def lowQuad_def)
qed

text \<open>
  C35: a webhook is only ever sent to a public address, as far as the policy reads addresses. Without
  the host's permission for private networks, a destination that passes validation is an http or https
  URL without credentials whose host is not a reserved name, and every address the host stands for (the
  literal, or all that it resolves to, the first of which is connected to) is public: none is in a
  loopback, private, link-local, shared, test, multicast or reserved range, and none carries an IPv4
  address of these ranges in its last 32 bits. The exception are IPv4-compatible and NAT64 addresses
  that are not written with their prefix and a dotted address (or two groups, for NAT64): these are
  accepted whatever address they carry, so \<open>::7f00:1\<close>, as a URL parser writes \<open>::127.0.0.1\<close>, is not
  forbidden. Every other outcome is the error \<open>destination_forbidden\<close>.
\<close>

lemma validated_destination_public:
  shows "(case snd (validateDestination N False rawUrl s) of
      Inl e \<Rightarrow> \<exists>msg. e = forbidden msg
    | Inr (u, a) \<Rightarrow> soundDestination N rawUrl u a) \<and>
    \<not> isForbiddenAddress ''::7f00:1'' \<and> \<not> publicAddress ''::7f00:1'' \<and> isForbiddenAddress ''::127.0.0.1''"
  using validation_sound overlooked_loopback by (rule conjI)

end
