(* ===== verification/WebhookStore.thy ===== *)
theory WebhookStore
  imports Lifecycle ApiKeys
begin

text \<open>
  Storage of webhooks (\<open>storage/webhooks.ts\<close>) and their signatures (\<open>webhooks/secrets.ts\<close>):
  the interfaces as records of operations, the classes that implement them on the database, and
  the text of a delivery.
\<close>

section \<open>The interfaces\<close>

record 'w endpoint_store =
  es_create :: "webhook_endpoint \<Rightarrow> ('w, unit) service"
  es_get :: "string \<Rightarrow> ('w, webhook_endpoint option) service"
  es_list :: "string \<Rightarrow> ('w, webhook_endpoint list) service"
  es_disable :: "string \<Rightarrow> int \<Rightarrow> string \<Rightarrow> ('w, webhook_endpoint option) service"

text \<open>
  \<open>ds_page\<close> is optional. Its result is \<open>None\<close> only when the paging loop of the database query runs
  out of the rounds it is given.
\<close>

record 'w delivery_store =
  ds_create :: "webhook_delivery \<Rightarrow> ('w, unit) service"
  ds_createMultiple :: "webhook_delivery list \<Rightarrow> ('w, unit) service"
  ds_get :: "string \<Rightarrow> ('w, webhook_delivery option) service"
  ds_list :: "string \<Rightarrow> string option \<Rightarrow> int option \<Rightarrow> ('w, webhook_delivery list) service"
  ds_page :: "(string \<Rightarrow> string option \<Rightarrow> delivery_status option \<Rightarrow> int \<Rightarrow> ('w, webhook_delivery list option) service) option"
  ds_claim :: "string \<Rightarrow> int \<Rightarrow> ('w, webhook_delivery option) service"
  ds_updateDelivery :: "string \<Rightarrow> int \<Rightarrow> (webhook_delivery \<Rightarrow> webhook_delivery) \<Rightarrow> ('w, webhook_delivery option) service"

record 'w integration_store =
  is_create :: "webhook_integration \<Rightarrow> ('w, unit) service"
  is_get :: "string \<Rightarrow> ('w, webhook_integration option) service"
  is_list :: "string \<Rightarrow> ('w, webhook_integration list) service"

record 'w replay_store =
  rp_accept :: "accepted_event \<Rightarrow> ('w, bool) service"

record 'w webhook_sink =
  wk_record :: "webhook_event \<Rightarrow> ('w, unit) service"

section \<open>The implementations\<close>

definition WEBHOOK_ENDPOINTS_COLLECTION :: string where "WEBHOOK_ENDPOINTS_COLLECTION = ''webhook_endpoints''"
definition WEBHOOK_DELIVERIES_COLLECTION :: string where "WEBHOOK_DELIVERIES_COLLECTION = ''webhook_deliveries''"
definition WEBHOOK_AUDIT_COLLECTION :: string where "WEBHOOK_AUDIT_COLLECTION = ''webhook_audit_events''"
definition WEBHOOK_INTEGRATIONS_COLLECTION :: string where "WEBHOOK_INTEGRATIONS_COLLECTION = ''webhook_integrations''"
definition INBOUND_WEBHOOK_EVENTS_COLLECTION :: string where
  "INBOUND_WEBHOOK_EVENTS_COLLECTION = ''inbound_webhook_events''"

definition endpointStoreCreate :: "'w env \<Rightarrow> webhook_endpoint \<Rightarrow> ('w, unit) service" where
  "endpointStoreCreate E k =
     ext (e_transaction E [\<lparr>op_collection = WEBHOOK_ENDPOINTS_COLLECTION, op_id = wp_id k, op_requireAbsent = True,
       op_requirePresent = False, op_expectedVersion = None, op_value = EndpointDoc k\<rparr>])"

definition endpointStoreGet :: "'w env \<Rightarrow> string \<Rightarrow> ('w, webhook_endpoint option) service" where
  "endpointStoreGet E i = ext (c_get (e_endpoints E) i)"

definition endpointStoreList :: "'w env \<Rightarrow> string \<Rightarrow> ('w, webhook_endpoint list) service" where
  "endpointStoreList E tenantId = ext (c_find (e_endpoints E) (\<lambda>k. wp_tenantId k = tenantId))"

definition endpointStoreDisable :: "'w env \<Rightarrow> string \<Rightarrow> int \<Rightarrow> string \<Rightarrow> ('w, webhook_endpoint option) service" where
  "endpointStoreDisable E i expectedVersion disabledAt =
     casItem (c_updateIfVersion (e_endpoints E) i expectedVersion (\<lambda>k. k\<lparr>wp_disabledAt := Some disabledAt\<rparr>))"

definition feltDbWebhookEndpointStore :: "'w env \<Rightarrow> 'w endpoint_store" where
  "feltDbWebhookEndpointStore E =
     \<lparr>es_create = endpointStoreCreate E, es_get = endpointStoreGet E, es_list = endpointStoreList E,
      es_disable = endpointStoreDisable E\<rparr>"

definition newDeliveryOp :: "webhook_delivery \<Rightarrow> db_op" where
  "newDeliveryOp k =
     \<lparr>op_collection = WEBHOOK_DELIVERIES_COLLECTION, op_id = dv_id k, op_requireAbsent = True,
      op_requirePresent = False, op_expectedVersion = None, op_value = DeliveryDoc k\<rparr>"

definition deliveryStoreCreate :: "'w env \<Rightarrow> webhook_delivery \<Rightarrow> ('w, unit) service" where
  "deliveryStoreCreate E k = ext (e_transaction E [newDeliveryOp k])"

definition deliveryStoreCreateMultiple :: "'w env \<Rightarrow> webhook_delivery list \<Rightarrow> ('w, unit) service" where
  "deliveryStoreCreateMultiple E ks = (if ks = [] then ret () else ext (e_transaction E (map newDeliveryOp ks)))"

definition deliveryStoreGet :: "'w env \<Rightarrow> string \<Rightarrow> ('w, webhook_delivery option) service" where
  "deliveryStoreGet E i = ext (c_get (e_deliveries E) i)"

text \<open>\<open>results.slice(0, limit)\<close>, where a negative limit counts from the end and zero is no limit.\<close>

definition sliceTo :: "int option \<Rightarrow> 'a list \<Rightarrow> 'a list" where
  "sliceTo limit xs = (case limit of
      None \<Rightarrow> xs
    | Some n \<Rightarrow> if n = 0 then xs else if 0 < n then take (nat n) xs else take (length xs - nat (- n)) xs)"

definition deliveryStoreList :: "'w env \<Rightarrow> string \<Rightarrow> string option \<Rightarrow> int option \<Rightarrow> ('w, webhook_delivery list) service" where
  "deliveryStoreList E tenantId endpointId limit =
     bindA (ext (c_find (e_deliveries E) (\<lambda>k. dv_tenantId k = tenantId
              \<and> (truthy endpointId \<longrightarrow> Some (dv_endpointId k) = endpointId)))) (\<lambda>results.
     ret (sliceTo limit results))"

definition deliveryStorePage ::
  "'w env \<Rightarrow> nat \<Rightarrow> string \<Rightarrow> string option \<Rightarrow> delivery_status option \<Rightarrow> int \<Rightarrow> ('w, webhook_delivery list option) service" where
  "deliveryStorePage E fuel tenantId endpointId status limit =
     boundedFind fuel (e_deliveryQuery E)
       (\<lambda>k. dv_tenantId k = tenantId \<and> (truthy endpointId \<longrightarrow> Some (dv_endpointId k) = endpointId)
          \<and> (status \<noteq> None \<longrightarrow> Some (dv_status k) = status)) limit"

definition claimDelivery :: "string \<Rightarrow> webhook_delivery \<Rightarrow> webhook_delivery" where
  "claimDelivery now k = k\<lparr>dv_status := Delivering, dv_lastAttemptAt := Some now\<rparr>"

definition deliveryStoreClaim :: "'w env \<Rightarrow> string \<Rightarrow> int \<Rightarrow> ('w, webhook_delivery option) service" where
  "deliveryStoreClaim E i expectedVersion =
     bindA (draw (e_date E)) (\<lambda>t.
     bindA (liftR (toISOString t)) (\<lambda>now.
     casItem (c_updateIfVersion (e_deliveries E) i expectedVersion (claimDelivery now))))"

definition deliveryStoreUpdate ::
  "'w env \<Rightarrow> string \<Rightarrow> int \<Rightarrow> (webhook_delivery \<Rightarrow> webhook_delivery) \<Rightarrow> ('w, webhook_delivery option) service" where
  "deliveryStoreUpdate E i expectedVersion updates =
     casItem (c_updateIfVersion (e_deliveries E) i expectedVersion updates)"

definition feltDbWebhookDeliveryStore :: "'w env \<Rightarrow> nat \<Rightarrow> 'w delivery_store" where
  "feltDbWebhookDeliveryStore E fuel =
     \<lparr>ds_create = deliveryStoreCreate E, ds_createMultiple = deliveryStoreCreateMultiple E, ds_get = deliveryStoreGet E,
      ds_list = deliveryStoreList E, ds_page = Some (deliveryStorePage E fuel), ds_claim = deliveryStoreClaim E,
      ds_updateDelivery = deliveryStoreUpdate E\<rparr>"

definition feltDbWebhookAuditSink :: "'w env \<Rightarrow> 'w webhook_sink" where
  "feltDbWebhookAuditSink E = \<lparr>wk_record = (\<lambda>ev. ext (c_insert (e_webhookEvents E) ev (we_id ev)))\<rparr>"

definition feltDbWebhookIntegrationStore :: "'w env \<Rightarrow> 'w integration_store" where
  "feltDbWebhookIntegrationStore E =
     \<lparr>is_create = (\<lambda>k. ext (e_transaction E [\<lparr>op_collection = WEBHOOK_INTEGRATIONS_COLLECTION, op_id = ig_id k,
        op_requireAbsent = True, op_requirePresent = False, op_expectedVersion = None, op_value = IntegrationDoc k\<rparr>])),
      is_get = (\<lambda>i. ext (c_get (e_integrations E) i)),
      is_list = (\<lambda>tenantId. ext (c_find (e_integrations E) (\<lambda>k. ig_tenantId k = tenantId)))\<rparr>"

definition replayAccept :: "'w env \<Rightarrow> accepted_event \<Rightarrow> ('w, bool) service" where
  "replayAccept E k =
     catchA
       (bindA (ext (e_transaction E [\<lparr>op_collection = INBOUND_WEBHOOK_EVENTS_COLLECTION, op_id = ax_id k,
          op_requireAbsent = True, op_requirePresent = False, op_expectedVersion = None, op_value = AcceptedDoc k\<rparr>])) (\<lambda>_. ret True))
       (\<lambda>e. if isConditionalConflict e then ret False else raise e)"

definition feltDbInboundWebhookReplayStore :: "'w env \<Rightarrow> 'w replay_store" where
  "feltDbInboundWebhookReplayStore E = \<lparr>rp_accept = replayAccept E\<rparr>"

section \<open>Signatures\<close>

definition signWebhookPayload :: "'w env \<Rightarrow> string \<Rightarrow> string \<Rightarrow> string" where
  "signWebhookPayload E secret payload = hexEncode (e_hmac E (utf8 secret) (utf8 payload))"

text \<open>The comparison in constant time is a comparison of the bytes.\<close>

definition verifyWebhookSignature :: "'w env \<Rightarrow> string \<Rightarrow> string \<Rightarrow> string \<Rightarrow> bool" where
  "verifyWebhookSignature E secret payload signature \<longleftrightarrow>
     utf8 (signWebhookPayload E secret payload) = utf8 signature"

definition signingSecretValue :: "jsval \<Rightarrow> exn + string" where
  "signingSecretValue v =
     (let missing = Inl (PlainError ''Resolved credential does not contain a signing secret'');
          text = (\<lambda>x. case x of JStr y \<Rightarrow> if y \<noteq> [] then Inr y else missing | _ \<Rightarrow> missing) in
      case v of
        JObj ob \<Rightarrow> text (if propOf ob ''signingSecret'' \<in> {JUndef, JNull} then propOf ob ''secret'' else propOf ob ''signingSecret'')
      | _ \<Rightarrow> text v)"

section \<open>The text of a delivery\<close>

text \<open>\<open>JSON.stringify\<close>; \<open>None\<close> is the \<open>undefined\<close> it returns for \<open>undefined\<close>.\<close>

definition jsonChar :: "char \<Rightarrow> string" where
  "jsonChar c = (let n = (of_char c :: nat); bs = CHR 0x5C in
     if n = 34 then [bs, CHR 0x22] else if n = 92 then [bs, bs]
     else if n = 8 then bs # ''b'' else if n = 9 then bs # ''t'' else if n = 10 then bs # ''n''
     else if n = 12 then bs # ''f'' else if n = 13 then bs # ''r''
     else if n < 32 then bs # ''u00'' @ hexByte c else [c])"

definition jsonQuote :: "string \<Rightarrow> string" where
  "jsonQuote x = CHR 0x22 # concat (map jsonChar x) @ [CHR 0x22]"

fun jsonText :: "jsval \<Rightarrow> string option" where
  "jsonText JUndef = None"
| "jsonText JNull = Some ''null''"
| "jsonText (JBool b) = Some (if b then ''true'' else ''false'')"
| "jsonText (JNum n) = Some (intString n)"
| "jsonText (JFrac x) = Some (if x \<in> {''NaN'', ''Infinity'', ''-Infinity''} then ''null'' else x)"
| "jsonText (JStr x) = Some (jsonQuote x)"
| "jsonText (JDate t) = Some (case t of None \<Rightarrow> ''null'' | Some u \<Rightarrow> jsonQuote (isoString u))"
| "jsonText (JArr vs) = Some (CHR ''['' # joinWith '','' (map (\<lambda>v. case jsonText v of None \<Rightarrow> ''null'' | Some x \<Rightarrow> x) vs) @ '']'')"
| "jsonText (JObj ob) = Some (CHR 0x7B # joinWith '',''
     (concat (map (\<lambda>kv. case jsonText (snd kv) of None \<Rightarrow> [] | Some x \<Rightarrow> [jsonQuote (fst kv) @ '':'' @ x]) ob)) @ [CHR 0x7D])"

definition deliveryBody :: "webhook_delivery \<Rightarrow> string" where
  "deliveryBody k = the (jsonText (JObj
     [(''id'', JStr (dv_id k)), (''eventId'', JStr (dv_eventId k)), (''type'', JStr (dv_eventType k)),
      (''data'', dv_payload k), (''timestamp'', JStr (dv_createdAt k))]))"

end
