(* ===== verification/Webhooks.thy ===== *)
theory Webhooks
  imports Jobs WebhookStore Destination
begin

text \<open>
  The webhook service (\<open>webhooks/service.ts\<close>), every method in source order: registering
  destinations, emitting events, delivering them, and accepting inbound events.
\<close>

section \<open>Configuration and inputs\<close>

definition MAX_RETRY_ATTEMPTS :: int where "MAX_RETRY_ATTEMPTS = 5"
definition WEBHOOK_RETRY_DELAY_MS :: int where "WEBHOOK_RETRY_DELAY_MS = 5000"
definition DEFAULT_INBOUND_TOLERANCE_MS :: int where "DEFAULT_INBOUND_TOLERANCE_MS = 300000"
definition DEFAULT_WEBHOOK_DELIVERY_PAGE :: int where "DEFAULT_WEBHOOK_DELIVERY_PAGE = 50"
definition MAX_WEBHOOK_DELIVERY_PAGE :: int where "MAX_WEBHOOK_DELIVERY_PAGE = 200"

text \<open>\<open>/^[a-z][a-z0-9_-]{0,63}$/\<close>\<close>

definition providerName :: "string \<Rightarrow> bool" where
  "providerName xs = (case xs of
      [] \<Rightarrow> False
    | c # cs \<Rightarrow> lowerChar c \<and> length cs \<le> 63 \<and>
        list_all (\<lambda>x. lowerChar x \<or> digitChar x \<or> x = CHR ''_'' \<or> x = CHR ''-'') cs)"

text \<open>What a handler of the host is given, and a request from outside with the headers as received.\<close>

record inbound_event =
  ib_integrationId :: string
  ib_provider :: string
  ib_eventId :: string
  ib_timestamp :: string
  ib_payload :: jsval

record inbound_request =
  iq_integrationId :: jsval
  iq_headers :: jsobj
  iq_rawBody :: jsval

text \<open>An accepted event; \<open>ir_result\<close> is \<open>JUndef\<close> when there is no handler or it returns nothing.\<close>

record inbound_result =
  ir_eventId :: string
  ir_result :: jsval

type_synonym 'w inbound_handler = "inbound_event \<Rightarrow> 'w principal \<Rightarrow> 'w exec_context \<Rightarrow> ('w, jsval) service"

record 'w webhook_service =
  ws_endpointStore :: "'w endpoint_store"
  ws_deliveryStore :: "'w delivery_store"
  ws_auditSink :: "'w webhook_sink"
  ws_integrationStore :: "'w integration_store option"
  ws_replayStore :: "'w replay_store option"
  ws_authority :: "'w gateway option"
  ws_allowPrivate :: bool
  ws_maxRetryAttempts :: int
  ws_requestTimeoutMs :: int
  ws_allowedEvents :: "string list option"
  ws_inboundToleranceMs :: int
  ws_inboundHandlers :: "(string \<times> 'w inbound_handler) list"

text \<open>The last argument tells whether the deprecated option \<open>secretStore\<close> was passed.\<close>

definition newWebhookService ::
  "'w endpoint_store \<Rightarrow> 'w delivery_store \<Rightarrow> 'w webhook_sink \<Rightarrow> 'w integration_store option \<Rightarrow> 'w replay_store option \<Rightarrow>
   'w gateway option \<Rightarrow> bool \<Rightarrow> int option \<Rightarrow> int option \<Rightarrow> string list option \<Rightarrow> int option \<Rightarrow> bool \<Rightarrow> exn + 'w webhook_service" where
  "newWebhookService endpoints deliveries sink integrations replay authority allowPrivate maxRetry timeoutMs allowed tolerance secretStore =
     (if secretStore then Inl (ServiceMigrationError
        ''WebhookService no longer keeps signing secrets. Register them with AuthBoundry and pass signingCredentialRef per endpoint.'')
      else Inr
       \<lparr>ws_endpointStore = endpoints, ws_deliveryStore = deliveries, ws_auditSink = sink, ws_integrationStore = integrations,
        ws_replayStore = replay, ws_authority = authority, ws_allowPrivate = allowPrivate,
        ws_maxRetryAttempts = (case maxRetry of Some n \<Rightarrow> n | None \<Rightarrow> MAX_RETRY_ATTEMPTS),
        ws_requestTimeoutMs = (case timeoutMs of Some n \<Rightarrow> n | None \<Rightarrow> 30000),
        ws_allowedEvents = (case allowed of Some (x # xs) \<Rightarrow> Some (x # xs) | _ \<Rightarrow> None),
        ws_inboundToleranceMs = (case tolerance of Some n \<Rightarrow> n | None \<Rightarrow> DEFAULT_INBOUND_TOLERANCE_MS),
        ws_inboundHandlers = []\<rparr>)"

definition webhookGateway :: "'w webhook_service \<Rightarrow> exn + 'w gateway" where
  "webhookGateway SV = (case ws_authority SV of
      None \<Rightarrow> Inl (ServiceAuthorityError AUTHORITY_UNAVAILABLE ''Webhooks have no AuthBoundry authority configured'' noDetails)
    | Some G \<Rightarrow> Inr G)"

definition requireIntegrationStore :: "'w webhook_service \<Rightarrow> exn + 'w integration_store" where
  "requireIntegrationStore SV = (case ws_integrationStore SV of
      None \<Rightarrow> Inl (ServiceAuthorityError AUTHORITY_UNAVAILABLE ''Inbound webhook integrations are not configured'' noDetails)
    | Some S \<Rightarrow> Inr S)"

text \<open>An audit event before it is given an id and a time, and its recording.\<close>

definition auditFor :: "string \<Rightarrow> string \<Rightarrow> string \<Rightarrow> bool \<Rightarrow> webhook_event" where
  "auditFor type tenantId principalId success =
     \<lparr>we_id = [], we_type = type, we_endpointId = None, we_deliveryId = None, we_integrationId = None, we_tenantId = tenantId,
      we_principalId = principalId, we_timestamp = [], we_success = success, we_reason = None, we_eventType = None\<rparr>"

definition webhookAudit :: "'w env \<Rightarrow> 'w webhook_service \<Rightarrow> webhook_event \<Rightarrow> ('w, unit) service" where
  "webhookAudit E SV ev =
     bindA (draw (e_uuid E)) (\<lambda>i.
     bindA (nowISO E) (\<lambda>timestamp.
     wk_record (ws_auditSink SV) (ev\<lparr>we_id := i, we_timestamp := timestamp\<rparr>)))"

section \<open>Endpoints\<close>

definition textList :: "jsval list \<Rightarrow> string list option" where
  "textList vs = (if list_all (\<lambda>v. case v of JStr x \<Rightarrow> x \<noteq> [] | _ \<Rightarrow> False) vs
     then Some (map (\<lambda>v. the (asString v)) vs) else None)"

text \<open>The checks of a new endpoint before its destination is looked up: url, events, credential.\<close>

definition endpointInput :: "jsobj \<Rightarrow> exn + string \<times> string list \<times> string" where
  "endpointInput input = (case propOf input ''url'' of
      JStr url \<Rightarrow>
        (case (case propOf input ''events'' of JArr vs \<Rightarrow> textList vs | _ \<Rightarrow> None) of
           None \<Rightarrow> Inl (invalidRequest ''events must be an array of event names'')
         | Some events \<Rightarrow>
             bindR (requireCredentialRef (propOf input ''signingCredentialRef'') ''signingCredentialRef'') (\<lambda>ref.
             Inr (url, events, ref)))
    | _ \<Rightarrow> Inl (invalidRequest ''url must be a string''))"

definition storeNewEndpoint ::
  "'w env \<Rightarrow> 'w webhook_service \<Rightarrow> string \<Rightarrow> string \<Rightarrow> url \<Rightarrow> string list \<Rightarrow> string \<Rightarrow> string \<Rightarrow> ('w, webhook_endpoint) service" where
  "storeNewEndpoint E SV tenantId application u events ref principalId =
     bindA (nowISO E) (\<lambda>createdAt.
     bindA (draw (e_uuid E)) (\<lambda>i.
     let k = \<lparr>wp_id = i, wp_tenantId = tenantId, wp_applicationId = Some application, wp_url = ur_href u, wp_events = events,
              wp_signingCredentialRef = Some ref, wp_createdAt = createdAt, wp_createdBy = principalId, wp_disabledAt = None,
              wp_version = 1\<rparr> in
     bindA (es_create (ws_endpointStore SV) k) (\<lambda>_.
     bindA (webhookAudit E SV ((auditFor ''webhook.endpoint.created'' tenantId principalId True)\<lparr>we_endpointId := Some i\<rparr>)) (\<lambda>_.
     ret k))))"

definition registerEndpoint ::
  "'w env \<Rightarrow> 'w network \<Rightarrow> 'w webhook_service \<Rightarrow> 'w principal \<Rightarrow> string \<Rightarrow> string \<Rightarrow> string list \<Rightarrow> string \<Rightarrow>
   ('w, webhook_endpoint) service" where
  "registerEndpoint E N SV p tenantId rawUrl events ref =
     bindA (validateDestination N (ws_allowPrivate SV) rawUrl) (\<lambda>(u, a).
     bindA (liftR (webhookGateway SV)) (\<lambda>G.
     execute E G ''webhooks.register'' (Verified p)
       \<lparr>rs_type = ''webhook_endpoint'', rs_tenantId = tenantId, rs_id = None,
        rs_attributes = Some [(''destination'', ur_origin u), (''credentialRef'', ref)]\<rparr>
       ((serviceOptions ''webhooks'')\<lparr>eo_credentialRef := Some ref\<rparr>)
       (\<lambda>ctx. plain (storeNewEndpoint E SV tenantId (cx_application ctx) u events ref (pr_principalId p)))))"

definition createWebhookEndpoint ::
  "'w env \<Rightarrow> 'w network \<Rightarrow> 'w webhook_service \<Rightarrow> jsobj \<Rightarrow> 'w caller \<Rightarrow> ('w, webhook_endpoint) service" where
  "createWebhookEndpoint E N SV input caller =
     bindA (liftR (requireVerifiedPrincipal caller)) (\<lambda>p.
     bindA (liftR (guardR (propOf input ''secret'' = JUndef)
              (ServiceMigrationError ''Webhook signing secrets are not accepted; pass signingCredentialRef.''))) (\<lambda>_.
     bindA (liftR (rejectCallerActor (JObj input) p)) (\<lambda>_.
     bindA (liftR (resolveTenant (JObj input) p)) (\<lambda>tenantId.
     bindA (liftR (endpointInput input)) (\<lambda>(rawUrl, events, ref).
     registerEndpoint E N SV p tenantId rawUrl events ref)))))"

definition getWebhookEndpoint :: "'w webhook_service \<Rightarrow> string \<Rightarrow> string \<Rightarrow> ('w, webhook_endpoint option) service" where
  "getWebhookEndpoint SV tenantId i =
     bindA (es_get (ws_endpointStore SV) i) (\<lambda>found.
     ret (case found of None \<Rightarrow> None | Some k \<Rightarrow> if wp_tenantId k \<noteq> tenantId then None else Some k))"

definition listWebhookEndpoints :: "'w webhook_service \<Rightarrow> string \<Rightarrow> ('w, webhook_endpoint list) service" where
  "listWebhookEndpoints SV tenantId = es_list (ws_endpointStore SV) tenantId"

definition applyDisable :: "'w env \<Rightarrow> 'w webhook_service \<Rightarrow> webhook_endpoint \<Rightarrow> string \<Rightarrow> string \<Rightarrow> ('w, webhook_endpoint option) service" where
  "applyDisable E SV k tenantId principalId =
     bindA (nowISO E) (\<lambda>disabledAt.
     bindA (es_disable (ws_endpointStore SV) (wp_id k) (wp_version k) disabledAt) (\<lambda>updated.
     case updated of
       None \<Rightarrow> ret None
     | Some u \<Rightarrow>
         bindA (webhookAudit E SV ((auditFor ''webhook.endpoint.disabled'' tenantId principalId True)\<lparr>we_endpointId := Some (wp_id u)\<rparr>)) (\<lambda>_.
         ret updated)))"

text \<open>The input has its \<open>id\<close>, a string by its type, apart from its other properties.\<close>

definition disableWebhookEndpoint ::
  "'w env \<Rightarrow> 'w webhook_service \<Rightarrow> string \<Rightarrow> jsobj \<Rightarrow> 'w caller \<Rightarrow> ('w, webhook_endpoint option) service" where
  "disableWebhookEndpoint E SV i input caller =
     bindA (liftR (requireVerifiedPrincipal caller)) (\<lambda>p.
     bindA (liftR (rejectCallerActor (JObj input) p)) (\<lambda>_.
     bindA (liftR (resolveTenant (JObj input) p)) (\<lambda>tenantId.
     bindA (getWebhookEndpoint SV tenantId i) (\<lambda>found.
     case found of
       None \<Rightarrow> ret None
     | Some k \<Rightarrow>
         bindA (liftR (webhookGateway SV)) (\<lambda>G.
         if wp_applicationId k \<noteq> Some (gw_application G) then ret None
         else if truthy (wp_disabledAt k) then ret (Some k)
         else execute E G ''webhooks.remove'' (Verified p)
           \<lparr>rs_type = ''webhook_endpoint'', rs_tenantId = tenantId, rs_id = Some (wp_id k), rs_attributes = None\<rparr>
           (serviceOptions ''webhooks'')
           (\<lambda>ctx. plain (applyDisable E SV k tenantId (pr_principalId p))))))))"

section \<open>Emitting\<close>

text \<open>The type and the payload of an event, and the other properties its input has.\<close>

record emit_input =
  en_type :: string
  en_payload :: jsval
  en_other :: jsobj

definition EMIT_FORBIDDEN_FIELDS :: "string list" where
  "EMIT_FORBIDDEN_FIELDS = [''url'', ''destination'', ''endpointId'', ''endpointIds'', ''signingCredentialRef'', ''credentialRef'']"

fun rejectDestinationFields :: "string list \<Rightarrow> jsobj \<Rightarrow> exn + unit" where
  "rejectDestinationFields [] ob = Inr ()"
| "rejectDestinationFields (f # fs) ob =
     (if propOf ob f \<noteq> JUndef
      then Inl (invalidRequest (''\"'' @ f @
        ''\" cannot be chosen when emitting; deliveries go only to registered, credential-bound destinations''))
      else rejectDestinationFields fs ob)"

definition newDelivery ::
  "emit_input \<Rightarrow> string \<Rightarrow> 'w principal \<Rightarrow> string \<Rightarrow> string \<Rightarrow> string \<Rightarrow> string \<Rightarrow> webhook_endpoint \<Rightarrow> webhook_delivery" where
  "newDelivery input tenantId p decisionId eventId createdAt i endpoint =
     \<lparr>dv_id = i, dv_tenantId = tenantId, dv_endpointId = wp_id endpoint, dv_eventId = eventId, dv_eventType = en_type input,
      dv_payload = en_payload input, dv_status = DeliveryPending, dv_attemptCount = 0, dv_nextAttemptAt = None,
      dv_createdAt = createdAt, dv_lastAttemptAt = None, dv_deliveredAt = None, dv_lastStatusCode = None, dv_lastError = None,
      dv_principal = Some (toDurablePrincipal p None (Some decisionId)), dv_version = 1\<rparr>"

definition matchesEvent :: "string \<Rightarrow> string \<Rightarrow> webhook_endpoint \<Rightarrow> bool" where
  "matchesEvent application type k \<longleftrightarrow>
     wp_applicationId k = Some application \<and> \<not> truthy (wp_disabledAt k) \<and> type \<in> set (wp_events k)"

definition queueDeliveries ::
  "'w env \<Rightarrow> 'w webhook_service \<Rightarrow> emit_input \<Rightarrow> string \<Rightarrow> 'w principal \<Rightarrow> 'w exec_context \<Rightarrow> ('w, webhook_delivery list) service" where
  "queueDeliveries E SV input tenantId p ctx =
     bindA (es_list (ws_endpointStore SV) tenantId) (\<lambda>endpoints.
     let matching = filter (matchesEvent (cx_application ctx) (en_type input)) endpoints in
     if matching = [] then ret []
     else
     bindA (draw (e_uuid E)) (\<lambda>eventId.
     bindA (nowISO E) (\<lambda>createdAt.
     bindA (mapA (\<lambda>endpoint. bindA (draw (e_uuid E)) (\<lambda>i.
              ret (newDelivery input tenantId p (cx_decisionId ctx) eventId createdAt i endpoint))) matching) (\<lambda>deliveries.
     bindA (ds_createMultiple (ws_deliveryStore SV) deliveries) (\<lambda>_.
     bindA (mapA (\<lambda>d. webhookAudit E SV ((auditFor ''webhook.delivery.created'' tenantId (pr_principalId p) True)
              \<lparr>we_deliveryId := Some (dv_id d), we_endpointId := Some (dv_endpointId d)\<rparr>)) deliveries) (\<lambda>_.
     ret deliveries))))))"

definition emitWebhookEvent ::
  "'w env \<Rightarrow> 'w webhook_service \<Rightarrow> emit_input \<Rightarrow> 'w caller \<Rightarrow> ('w, webhook_delivery list) service" where
  "emitWebhookEvent E SV input caller =
     bindA (liftR (requireVerifiedPrincipal caller)) (\<lambda>p.
     bindA (liftR (rejectDestinationFields EMIT_FORBIDDEN_FIELDS (en_other input))) (\<lambda>_.
     bindA (liftR (resolveTenant (JObj (en_other input)) p)) (\<lambda>tenantId.
     bindA (liftR (guardR (case ws_allowedEvents SV of None \<Rightarrow> True | Some xs \<Rightarrow> en_type input \<in> set xs)
              (invalidRequest (''Webhook event \"'' @ en_type input @ ''\" is not declared in appport.toml'')))) (\<lambda>_.
     bindA (liftR (webhookGateway SV)) (\<lambda>G.
     execute E G ''webhooks.emit'' (Verified p)
       \<lparr>rs_type = ''webhook_event'', rs_tenantId = tenantId, rs_id = None,
        rs_attributes = Some [(''eventType'', en_type input)]\<rparr>
       (serviceOptions ''webhooks'')
       (\<lambda>ctx. plain (queueDeliveries E SV input tenantId p ctx)))))))"

section \<open>Reading deliveries\<close>

definition getWebhookDelivery :: "'w webhook_service \<Rightarrow> string \<Rightarrow> string \<Rightarrow> ('w, webhook_delivery option) service" where
  "getWebhookDelivery SV tenantId i =
     bindA (ds_get (ws_deliveryStore SV) i) (\<lambda>found.
     ret (case found of None \<Rightarrow> None | Some k \<Rightarrow> if dv_tenantId k \<noteq> tenantId then None else Some k))"

definition listWebhookDeliveries ::
  "'w webhook_service \<Rightarrow> string \<Rightarrow> string option \<Rightarrow> int option \<Rightarrow> ('w, webhook_delivery list) service" where
  "listWebhookDeliveries SV tenantId endpointId limit = ds_list (ws_deliveryStore SV) tenantId endpointId limit"

definition deliveryStatusName :: "delivery_status \<Rightarrow> string" where
  "deliveryStatusName st = (case st of DeliveryPending \<Rightarrow> ''pending'' | Delivering \<Rightarrow> ''delivering'' | Delivered \<Rightarrow> ''delivered''
     | DeliveryRetrying \<Rightarrow> ''retrying'' | DeliveryFailed \<Rightarrow> ''failed'')"

definition WEBHOOK_DELIVERY_STATUSES :: "delivery_status list" where
  "WEBHOOK_DELIVERY_STATUSES = [DeliveryPending, Delivering, Delivered, DeliveryRetrying, DeliveryFailed]"

record delivery_query =
  dq_endpointId :: "string option"
  dq_status :: "delivery_status option"
  dq_limit :: int

definition queryLimit :: "jsval \<Rightarrow> exn + int" where
  "queryLimit v =
     (let bad = Inl (invalidRequest (''limit must be an integer from 1 to '' @ intString MAX_WEBHOOK_DELIVERY_PAGE)) in
      case v of
        JUndef \<Rightarrow> Inr DEFAULT_WEBHOOK_DELIVERY_PAGE
      | JNull \<Rightarrow> Inr DEFAULT_WEBHOOK_DELIVERY_PAGE
      | JNum n \<Rightarrow> if n < 1 \<or> MAX_WEBHOOK_DELIVERY_PAGE < n then bad else Inr n
      | _ \<Rightarrow> bad)"

definition queryStatus :: "jsval \<Rightarrow> exn + delivery_status option" where
  "queryStatus v =
     (let bad = Inl (invalidRequest (''status must be one of '' @ joinWith '', '' (map deliveryStatusName WEBHOOK_DELIVERY_STATUSES))) in
      case v of
        JUndef \<Rightarrow> Inr None
      | JStr x \<Rightarrow> (case filter (\<lambda>st. deliveryStatusName st = x) WEBHOOK_DELIVERY_STATUSES of [] \<Rightarrow> bad | st # _ \<Rightarrow> Inr (Some st))
      | _ \<Rightarrow> bad)"

definition deliveryQuery :: "jsobj \<Rightarrow> exn + delivery_query" where
  "deliveryQuery input =
     bindR (queryLimit (propOf input ''limit'')) (\<lambda>limit.
     bindR (case propOf input ''endpointId'' of
              JUndef \<Rightarrow> Inr None
            | JStr (c # cs) \<Rightarrow> Inr (Some (c # cs))
            | _ \<Rightarrow> Inl (invalidRequest ''endpointId must be a non-empty string'')) (\<lambda>endpointId.
     bindR (queryStatus (propOf input ''status'')) (\<lambda>status.
     Inr \<lparr>dq_endpointId = endpointId, dq_status = status, dq_limit = limit\<rparr>)))"

definition ownedEndpointIds :: "'w webhook_service \<Rightarrow> string \<Rightarrow> string \<Rightarrow> ('w, string set) service" where
  "ownedEndpointIds SV tenantId application =
     bindA (es_list (ws_endpointStore SV) tenantId) (\<lambda>endpoints.
     ret (wp_id ` set (filter (\<lambda>k. wp_applicationId k = Some application) endpoints)))"

text \<open>The rows of a query, from the bounded query of the store where it has one.\<close>

definition deliveryRows :: "'w webhook_service \<Rightarrow> string \<Rightarrow> delivery_query \<Rightarrow> ('w, webhook_delivery list option) service" where
  "deliveryRows SV tenantId q = (case ds_page (ws_deliveryStore SV) of
      Some query \<Rightarrow> query tenantId (dq_endpointId q) (dq_status q) (dq_limit q)
    | None \<Rightarrow>
        bindA (ds_list (ws_deliveryStore SV) tenantId (dq_endpointId q) None) (\<lambda>all.
        ret (Some (take (nat (dq_limit q)) (filter (\<lambda>k. dq_status q = None \<or> dq_status q = Some (dv_status k)) all)))))"

definition ownDeliveries ::
  "'w webhook_service \<Rightarrow> string \<Rightarrow> delivery_query \<Rightarrow> string \<Rightarrow> ('w, webhook_delivery list option) service" where
  "ownDeliveries SV tenantId q application =
     bindA (ownedEndpointIds SV tenantId application) (\<lambda>owned.
     if (case dq_endpointId q of None \<Rightarrow> False | Some x \<Rightarrow> x \<notin> owned) then ret (Some [])
     else
     bindA (deliveryRows SV tenantId q) (\<lambda>rows.
     ret (map_option (filter (\<lambda>k. dv_endpointId k \<in> owned)) rows)))"

definition readWebhookDeliveries ::
  "'w env \<Rightarrow> 'w webhook_service \<Rightarrow> jsobj \<Rightarrow> 'w caller \<Rightarrow> ('w, webhook_delivery list option) service" where
  "readWebhookDeliveries E SV input caller =
     bindA (liftR (requireVerifiedPrincipal caller)) (\<lambda>p.
     bindA (liftR (resolveTenant (JObj input) p)) (\<lambda>tenantId.
     bindA (liftR (deliveryQuery input)) (\<lambda>q.
     bindA (liftR (webhookGateway SV)) (\<lambda>G.
     execute E G ''webhooks.deliveries.read'' (Verified p)
       \<lparr>rs_type = ''webhook_delivery'', rs_tenantId = tenantId, rs_id = None,
        rs_attributes = Some [(''endpointId'', case dq_endpointId q of None \<Rightarrow> ''*'' | Some x \<Rightarrow> x),
          (''status'', case dq_status q of None \<Rightarrow> ''*'' | Some st \<Rightarrow> deliveryStatusName st)]\<rparr>
       (serviceOptions ''webhooks'')
       (\<lambda>ctx. plain (ownDeliveries SV tenantId q (cx_application ctx)))))))"

definition ownDelivery ::
  "'w webhook_service \<Rightarrow> string \<Rightarrow> webhook_delivery option \<Rightarrow> string \<Rightarrow> ('w, webhook_delivery option) service" where
  "ownDelivery SV tenantId found application = (case found of
      None \<Rightarrow> ret None
    | Some k \<Rightarrow> bindA (ownedEndpointIds SV tenantId application) (\<lambda>owned.
        ret (if dv_endpointId k \<in> owned then Some k else None)))"

definition readWebhookDelivery ::
  "'w env \<Rightarrow> 'w webhook_service \<Rightarrow> jsobj \<Rightarrow> 'w caller \<Rightarrow> ('w, webhook_delivery option) service" where
  "readWebhookDelivery E SV input caller =
     bindA (liftR (requireVerifiedPrincipal caller)) (\<lambda>p.
     bindA (liftR (resolveTenant (JObj input) p)) (\<lambda>tenantId.
     case keepTruthy (asString (propOf input ''id'')) of
       None \<Rightarrow> raise (invalidRequest ''id must be a non-empty string'')
     | Some i \<Rightarrow>
         bindA (getWebhookDelivery SV tenantId i) (\<lambda>found.
         bindA (liftR (webhookGateway SV)) (\<lambda>G.
         execute E G ''webhooks.deliveries.read'' (Verified p)
           \<lparr>rs_type = ''webhook_delivery'', rs_tenantId = tenantId, rs_id = Some i,
            rs_attributes = Some [(''endpointId'', case found of None \<Rightarrow> ''*'' | Some k \<Rightarrow> dv_endpointId k),
              (''status'', case found of None \<Rightarrow> ''*'' | Some k \<Rightarrow> deliveryStatusName (dv_status k))]\<rparr>
           (serviceOptions ''webhooks'')
           (\<lambda>ctx. plain (ownDelivery SV tenantId found (cx_application ctx)))))))"

section \<open>Delivering\<close>

definition succeeded :: "int \<Rightarrow> delivery_result" where
  "succeeded statusCode = \<lparr>dr_success = True, dr_statusCode = Some statusCode, dr_error = None, dr_code = None\<rparr>"

definition failure :: "int option \<Rightarrow> string \<Rightarrow> failure_code \<Rightarrow> delivery_result" where
  "failure statusCode msg code = \<lparr>dr_success = False, dr_statusCode = statusCode, dr_error = Some msg, dr_code = Some code\<rparr>"

definition failureResult :: "exn \<Rightarrow> delivery_result" where
  "failureResult e = (case e of
      ServiceAuthorityError code msg d \<Rightarrow>
        (case ed_outcome d of
           Some outcome \<Rightarrow> outcome
         | None \<Rightarrow> failure None msg
             (if code = UNAUTHENTICATED \<or> code = NOT_FOUND then DENIED
              else if code = CUSTODY_READ_ONLY then AUTHORITY_UNAVAILABLE else code))
    | _ \<Rightarrow> failure None (errorMessage e) PROVIDER_ERROR)"

text \<open>What a response, or its absence, means for the delivery. A response without a status counts as 500.\<close>

definition httpOutcome :: "http_outcome \<Rightarrow> delivery_result" where
  "httpOutcome out = (case out of
      HttpStatus st \<Rightarrow>
        (let code = (case st of Some n \<Rightarrow> n | None \<Rightarrow> 500) in
         if 200 \<le> code \<and> code < 300 then succeeded code
         else if 300 \<le> code \<and> code < 400
         then failure (Some code) (''HTTP '' @ intString code @ '': redirects are not followed (destination policy)'') PROVIDER_ERROR
         else if code = 408 \<or> code = 429 \<or> 500 \<le> code
         then failure (Some code) (''HTTP '' @ intString code @ '' (retryable)'') PROVIDER_ERROR
         else failure (Some code) (''HTTP '' @ intString code) PROVIDER_ERROR)
    | HttpError msg \<Rightarrow> failure None (''Network error: '' @ msg) PROVIDER_ERROR
    | HttpTimeout \<Rightarrow> failure None ''Request timeout (retryable)'' PROVIDER_ERROR)"

text \<open>The request, pinned to the address that was validated.\<close>

definition deliveryRequest ::
  "'w webhook_service \<Rightarrow> url \<Rightarrow> resolved_address \<Rightarrow> webhook_delivery \<Rightarrow> string \<Rightarrow> string \<Rightarrow> http_request" where
  "deliveryRequest SV u a d payload signature =
     \<lparr>hr_protocol = ur_protocol u, hr_hostname = bareHost (ur_hostname u),
      hr_port = keepTruthy (Some (ur_port u)), hr_path = ur_pathname u @ ur_search u, hr_connect = a,
      hr_servername = (if ur_protocol u = ''https:'' then Some (ur_hostname u) else None),
      hr_signature = signature, hr_eventId = dv_eventId d, hr_body = payload, hr_timeoutMs = ws_requestTimeoutMs SV\<rparr>"

definition performHttpDelivery ::
  "'w network \<Rightarrow> 'w webhook_service \<Rightarrow> url \<Rightarrow> resolved_address \<Rightarrow> webhook_delivery \<Rightarrow> string \<Rightarrow> string \<Rightarrow> ('w, delivery_result) service" where
  "performHttpDelivery N SV u a d payload signature =
     bindA (ext (nw_post N (deliveryRequest SV u a d payload signature))) (\<lambda>out. ret (httpOutcome out))"

text \<open>
  The effect of a delivery: the bound destination is validated again, the payload is signed with
  the credential resolved for this effect, and posted.
\<close>

definition deliveryEffect ::
  "'w env \<Rightarrow> 'w network \<Rightarrow> 'w webhook_service \<Rightarrow> 'w gateway \<Rightarrow> execute_options \<Rightarrow> webhook_endpoint \<Rightarrow> string \<Rightarrow>
   webhook_delivery \<Rightarrow> 'w exec_context \<Rightarrow> ('w, delivery_result) effect" where
  "deliveryEffect E N SV G opts endpoint ref d ctx =
     bindA (plain (validateDestination N (ws_allowPrivate SV) (wp_url endpoint))) (\<lambda>(u, a).
     bindA (toolWithCredential E G ctx opts ref ''webhook.sign''
              (\<lambda>secret. liftR (bindR (signingSecretValue (rv_value secret)) (\<lambda>key.
                 Inr (signWebhookPayload E key (deliveryBody d)))))) (\<lambda>signature.
     bindA (plain (performHttpDelivery N SV u a d (deliveryBody d) signature)) (\<lambda>outcome.
     if dr_success outcome then ret outcome
     else raise (ServiceAuthorityError PROVIDER_ERROR
            (case dr_error outcome of Some msg \<Rightarrow> msg | None \<Rightarrow> ''Webhook delivery failed'')
            (noDetails\<lparr>ed_outcome := Some outcome\<rparr>)))))"

definition markFailed :: "string \<Rightarrow> webhook_delivery \<Rightarrow> webhook_delivery" where
  "markFailed msg k = k\<lparr>dv_status := DeliveryFailed, dv_lastError := Some msg\<rparr>"

definition markDelivered :: "string \<Rightarrow> int \<Rightarrow> int option \<Rightarrow> webhook_delivery \<Rightarrow> webhook_delivery" where
  "markDelivered now attempts statusCode k =
     k\<lparr>dv_status := Delivered, dv_deliveredAt := Some now, dv_attemptCount := attempts, dv_lastStatusCode := statusCode\<rparr>"

definition markUndecided :: "string \<Rightarrow> string \<Rightarrow> webhook_delivery \<Rightarrow> webhook_delivery" where
  "markUndecided nextAttemptAt msg k =
     k\<lparr>dv_status := DeliveryRetrying, dv_nextAttemptAt := Some nextAttemptAt, dv_lastError := Some msg\<rparr>"

definition markExhausted :: "string \<Rightarrow> int \<Rightarrow> int option \<Rightarrow> webhook_delivery \<Rightarrow> webhook_delivery" where
  "markExhausted msg attempts statusCode k =
     k\<lparr>dv_status := DeliveryFailed, dv_lastError := Some msg, dv_attemptCount := attempts, dv_lastStatusCode := statusCode\<rparr>"

definition markRetrying :: "string \<Rightarrow> string \<Rightarrow> int \<Rightarrow> int option \<Rightarrow> webhook_delivery \<Rightarrow> webhook_delivery" where
  "markRetrying nextAttemptAt msg attempts statusCode k =
     k\<lparr>dv_status := DeliveryRetrying, dv_nextAttemptAt := Some nextAttemptAt, dv_lastError := Some msg,
       dv_attemptCount := attempts, dv_lastStatusCode := statusCode\<rparr>"

definition isTerminal :: "int option \<Rightarrow> bool" where
  "isTerminal statusCode = (case statusCode of
      None \<Rightarrow> False
    | Some n \<Rightarrow> 300 \<le> n \<and> n < 400 \<or> 400 \<le> n \<and> n < 500 \<and> n \<noteq> 408 \<and> n \<noteq> 429)"

definition webhookRetryDelay :: "int \<Rightarrow> int" where
  "webhookRetryDelay attemptCount = WEBHOOK_RETRY_DELAY_MS * 2 ^ nat attemptCount"

definition deliveryEvent :: "string \<Rightarrow> webhook_delivery \<Rightarrow> string \<Rightarrow> bool \<Rightarrow> webhook_event" where
  "deliveryEvent type d principalId success =
     (auditFor type (dv_tenantId d) principalId success)\<lparr>we_deliveryId := Some (dv_id d), we_endpointId := Some (dv_endpointId d)\<rparr>"

definition resultText :: "delivery_result \<Rightarrow> string" where
  "resultText result = (case dr_error result of None \<Rightarrow> ''Unknown error'' | Some [] \<Rightarrow> ''Unknown error'' | Some msg \<Rightarrow> msg)"

definition codedText :: "delivery_result \<Rightarrow> string" where
  "codedText result = (case dr_code result of None \<Rightarrow> ''undefined'' | Some c \<Rightarrow> codeName c) @ '': '' @
     (case dr_error result of None \<Rightarrow> ''undefined'' | Some msg \<Rightarrow> msg)"

definition deliveryActor :: "webhook_delivery \<Rightarrow> string" where
  "deliveryActor d = (case dv_principal d of None \<Rightarrow> ''anonymous'' | Some dp \<Rightarrow> dp_principalId dp)"

definition updateClaimed ::
  "'w webhook_service \<Rightarrow> webhook_delivery \<Rightarrow> (webhook_delivery \<Rightarrow> webhook_delivery) \<Rightarrow> ('w, webhook_delivery option) service" where
  "updateClaimed SV d f = ds_updateDelivery (ws_deliveryStore SV) (dv_id d) (dv_version d) f"

definition recordAttempt ::
  "'w env \<Rightarrow> 'w webhook_service \<Rightarrow> webhook_delivery \<Rightarrow> delivery_result \<Rightarrow> ('w, unit) service" where
  "recordAttempt E SV claimed result =
     bindA (nowISO E) (\<lambda>now.
     let attempts = dv_attemptCount claimed + 1; principalId = deliveryActor claimed in
     if dr_success result then
       bindA (updateClaimed SV claimed (markDelivered now attempts (dr_statusCode result))) (\<lambda>_.
       webhookAudit E SV (deliveryEvent ''webhook.delivery.delivered'' claimed principalId True))
     else if dr_code result = Some DENIED \<or> dr_code result = Some INVALID_REQUEST then
       bindA (updateClaimed SV claimed (markFailed (codedText result))) (\<lambda>_.
       webhookAudit E SV ((deliveryEvent (if dr_code result = Some DENIED then ''webhook.delivery.denied'' else ''webhook.delivery.failed'')
         claimed principalId False)\<lparr>we_reason := map_option codeName (dr_code result)\<rparr>))
     else if dr_code result = Some AUTHORITY_UNAVAILABLE \<or> dr_code result = Some AUTHORIZATION_TIMEOUT then
       bindA (draw (e_now E)) (\<lambda>t.
       bindA (liftR (toISOString (t + WEBHOOK_RETRY_DELAY_MS))) (\<lambda>nextAttemptAt.
       bindA (updateClaimed SV claimed (markUndecided nextAttemptAt (codedText result))) (\<lambda>_. ret ())))
     else if isTerminal (dr_statusCode result) \<or> ws_maxRetryAttempts SV \<le> attempts then
       bindA (updateClaimed SV claimed (markExhausted (resultText result) attempts (dr_statusCode result))) (\<lambda>_.
       webhookAudit E SV ((deliveryEvent ''webhook.delivery.failed'' claimed principalId False)\<lparr>we_reason := Some ''PROVIDER_ERROR''\<rparr>))
     else
       bindA (draw (e_now E)) (\<lambda>t.
       bindA (liftR (toISOString (t + webhookRetryDelay (dv_attemptCount claimed)))) (\<lambda>nextAttemptAt.
       bindA (updateClaimed SV claimed (markRetrying nextAttemptAt (resultText result) attempts (dr_statusCode result))) (\<lambda>_. ret ()))))"

definition deliveryOptions :: "string \<Rightarrow> execute_options" where
  "deliveryOptions ref = (serviceOptions ''webhooks'')\<lparr>eo_provider := Some ''webhook'', eo_credentialRef := Some ref\<rparr>"

text \<open>
  The authorized attempt: \<open>d\<close> is the delivery as it was read, \<open>claimed\<close> as the claim returned it. A
  stored URL that does not parse is a type error of \<open>new URL\<close>.
\<close>

definition attemptDelivery ::
  "'w env \<Rightarrow> 'w network \<Rightarrow> 'w webhook_service \<Rightarrow> 'w gateway \<Rightarrow> string \<Rightarrow> webhook_endpoint \<Rightarrow> string \<Rightarrow> webhook_delivery \<Rightarrow>
   webhook_delivery \<Rightarrow> 'w principal \<Rightarrow> ('w, delivery_result) service" where
  "attemptDelivery E N SV G tenantId endpoint ref d claimed p =
     (case nw_url N (wp_url endpoint) of
        None \<Rightarrow> raise (TypeError ''Invalid URL'')
      | Some u \<Rightarrow>
          execute E G ''webhooks.deliver'' (Verified p)
            \<lparr>rs_type = ''webhook_delivery'', rs_tenantId = tenantId, rs_id = Some (dv_id d),
             rs_attributes = Some [(''endpointId'', wp_id endpoint), (''destination'', ur_origin u),
               (''eventType'', dv_eventType d), (''credentialRef'', ref)]\<rparr>
            (deliveryOptions ref)
            (deliveryEffect E N SV G (deliveryOptions ref) endpoint ref claimed))"

text \<open>From the claim on; \<open>dp\<close> is the durable principal of the delivery, which was attested.\<close>

definition deliverClaimed ::
  "'w env \<Rightarrow> 'w network \<Rightarrow> 'w webhook_service \<Rightarrow> 'w gateway \<Rightarrow> string \<Rightarrow> webhook_endpoint \<Rightarrow> string \<Rightarrow> durable_principal \<Rightarrow>
   webhook_delivery \<Rightarrow> webhook_delivery \<Rightarrow> ('w, delivery_result) service" where
  "deliverClaimed E N SV G tenantId endpoint ref dp d claimed =
     bindA (liftR (mintVerifiedPrincipal (runClaims dp (dv_id d @ '':'' @ intString (dv_attemptCount claimed + 1))) ByDelivery)) (\<lambda>p.
     bindA (settle (attemptDelivery E N SV G tenantId endpoint ref d claimed p)) (\<lambda>r.
     let result = (case r of Inl e \<Rightarrow> failureResult e | Inr x \<Rightarrow> x) in
     bindA (recordAttempt E SV claimed result) (\<lambda>_. ret result)))"

text \<open>A refusal before the claim: the delivery fails for good.\<close>

definition refuseDelivery ::
  "'w webhook_service \<Rightarrow> string \<Rightarrow> webhook_delivery \<Rightarrow> string \<Rightarrow> ('w, webhook_delivery option) service" where
  "refuseDelivery SV deliveryId d msg = ds_updateDelivery (ws_deliveryStore SV) deliveryId (dv_version d) (markFailed msg)"

definition denyDelivery ::
  "'w env \<Rightarrow> 'w webhook_service \<Rightarrow> string \<Rightarrow> webhook_endpoint \<Rightarrow> string \<Rightarrow> string \<Rightarrow> string \<Rightarrow> ('w, unit) service" where
  "denyDelivery E SV deliveryId endpoint tenantId principalId reason =
     webhookAudit E SV ((auditFor ''webhook.delivery.denied'' tenantId principalId False)
       \<lparr>we_deliveryId := Some deliveryId, we_endpointId := Some (wp_id endpoint), we_reason := Some reason\<rparr>)"

definition refuseAnonymous ::
  "'w env \<Rightarrow> 'w webhook_service \<Rightarrow> string \<Rightarrow> string \<Rightarrow> webhook_endpoint \<Rightarrow> webhook_delivery \<Rightarrow> ('w, delivery_result) service" where
  "refuseAnonymous E SV tenantId deliveryId endpoint d =
     bindA (refuseDelivery SV deliveryId d ''DENIED: delivery has no durable execution principal'') (\<lambda>_.
     bindA (denyDelivery E SV deliveryId endpoint tenantId ''anonymous'' ''anonymous'') (\<lambda>_.
     ret (failure None ''Delivery has no durable execution principal'' DENIED)))"

definition deliverAttested ::
  "'w env \<Rightarrow> 'w network \<Rightarrow> 'w webhook_service \<Rightarrow> 'w gateway \<Rightarrow> string \<Rightarrow> string \<Rightarrow> webhook_endpoint \<Rightarrow> string \<Rightarrow>
   durable_principal \<Rightarrow> webhook_delivery \<Rightarrow> ('w, delivery_result) service" where
  "deliverAttested E N SV G tenantId deliveryId endpoint ref dp d =
     bindA (settle (attest E G (Some dp) [''webhooks.emit'', ''webhooks.replay''])) (\<lambda>attested.
     case attested of
       Inl e \<Rightarrow>
         bindA (refuseDelivery SV deliveryId d (''DENIED: '' @ errorMessage e)) (\<lambda>_.
         bindA (denyDelivery E SV deliveryId endpoint tenantId (dp_principalId dp) ''unattested_principal'') (\<lambda>_.
         ret (failureResult e)))
     | Inr _ \<Rightarrow>
         bindA (ds_claim (ws_deliveryStore SV) deliveryId (dv_version d)) (\<lambda>claim.
         case claim of
           None \<Rightarrow> ret (succeeded 200)
         | Some claimed \<Rightarrow> deliverClaimed E N SV G tenantId endpoint ref dp d claimed))"

definition deliverTo ::
  "'w env \<Rightarrow> 'w network \<Rightarrow> 'w webhook_service \<Rightarrow> 'w gateway \<Rightarrow> string \<Rightarrow> string \<Rightarrow> webhook_endpoint \<Rightarrow> webhook_delivery \<Rightarrow>
   ('w, delivery_result) service" where
  "deliverTo E N SV G tenantId deliveryId endpoint d =
     (if truthy (wp_disabledAt endpoint) then
        bindA (refuseDelivery SV deliveryId d ''Endpoint is disabled'') (\<lambda>_.
        ret (failure None ''Endpoint is disabled'' INVALID_REQUEST))
      else case dv_principal d of
        None \<Rightarrow> refuseAnonymous E SV tenantId deliveryId endpoint d
      | Some dp \<Rightarrow>
          if dp_tenantId dp \<noteq> tenantId then refuseAnonymous E SV tenantId deliveryId endpoint d
          else (case keepTruthy (wp_signingCredentialRef endpoint) of
            None \<Rightarrow>
              bindA (refuseDelivery SV deliveryId d ''Endpoint has no signing credential reference; re-register it'') (\<lambda>_.
              ret (failure None ''Endpoint has no signing credential reference'' INVALID_REQUEST))
          | Some ref \<Rightarrow> deliverAttested E N SV G tenantId deliveryId endpoint ref dp d))"

definition deliverWebhook ::
  "'w env \<Rightarrow> 'w network \<Rightarrow> 'w webhook_service \<Rightarrow> string \<Rightarrow> string \<Rightarrow> ('w, delivery_result) service" where
  "deliverWebhook E N SV tenantId deliveryId =
     bindA (ds_get (ws_deliveryStore SV) deliveryId) (\<lambda>found.
     case found of
       None \<Rightarrow> ret (failure None ''Delivery not found'' INVALID_REQUEST)
     | Some d \<Rightarrow>
         if dv_tenantId d \<noteq> tenantId then ret (failure None ''Tenant mismatch'' DENIED)
         else if dv_status d = Delivered \<or> dv_status d = Delivering then ret (succeeded 200)
         else
         bindA (es_get (ws_endpointStore SV) (dv_endpointId d)) (\<lambda>foundEndpoint.
         case foundEndpoint of
           None \<Rightarrow> ret (failure None ''Endpoint not found'' INVALID_REQUEST)
         | Some endpoint \<Rightarrow>
             if wp_tenantId endpoint \<noteq> tenantId then ret (failure None ''Endpoint not found'' INVALID_REQUEST)
             else
             bindA (liftR (webhookGateway SV)) (\<lambda>G.
             if wp_applicationId endpoint \<noteq> Some (gw_application G)
             then ret (failure None ''Endpoint belongs to a different application'' DENIED)
             else deliverTo E N SV G tenantId deliveryId endpoint d)))"

text \<open>
  One round of the managed loop of the runtime (\<open>runtime/appport.ts\<close>): every delivery of the tenant
  that is pending, or retrying and due, in turn.
\<close>

definition isDueDelivery :: "string \<Rightarrow> webhook_delivery \<Rightarrow> bool" where
  "isDueDelivery now d \<longleftrightarrow> dv_status d = DeliveryPending \<or>
     dv_status d = DeliveryRetrying \<and> (case dv_nextAttemptAt d of None \<Rightarrow> True | Some at \<Rightarrow> strLeq at now)"

definition deliveryRound :: "'w env \<Rightarrow> 'w network \<Rightarrow> 'w webhook_service \<Rightarrow> string \<Rightarrow> ('w, delivery_result list) service" where
  "deliveryRound E N SV tenantId =
     bindA (listWebhookDeliveries SV tenantId None None) (\<lambda>deliveries.
     bindA (nowISO E) (\<lambda>now.
     mapA (\<lambda>d. deliverWebhook E N SV (dv_tenantId d) (dv_id d)) (filter (isDueDelivery now) deliveries)))"

section \<open>Replay\<close>

definition markReplayed :: "durable_principal \<Rightarrow> webhook_delivery \<Rightarrow> webhook_delivery" where
  "markReplayed dp k =
     k\<lparr>dv_status := DeliveryPending, dv_attemptCount := 0, dv_nextAttemptAt := None, dv_lastAttemptAt := None,
       dv_deliveredAt := None, dv_lastStatusCode := None, dv_lastError := None, dv_principal := Some dp\<rparr>"

definition applyReplay ::
  "'w env \<Rightarrow> 'w webhook_service \<Rightarrow> string \<Rightarrow> string \<Rightarrow> webhook_delivery \<Rightarrow> 'w principal \<Rightarrow> 'w exec_context \<Rightarrow>
   ('w, webhook_delivery option) service" where
  "applyReplay E SV tenantId deliveryId d p ctx =
     bindA (ds_updateDelivery (ws_deliveryStore SV) deliveryId (dv_version d)
              (markReplayed (toDurablePrincipal p None (Some (cx_decisionId ctx))))) (\<lambda>updated.
     case updated of
       None \<Rightarrow> ret None
     | Some u \<Rightarrow>
         bindA (webhookAudit E SV ((auditFor ''webhook.delivery.replayed'' tenantId (pr_principalId p) True)
                  \<lparr>we_deliveryId := Some (dv_id u), we_endpointId := Some (dv_endpointId u)\<rparr>)) (\<lambda>_.
         ret updated))"

definition replayWebhookDelivery ::
  "'w env \<Rightarrow> 'w webhook_service \<Rightarrow> string \<Rightarrow> string \<Rightarrow> 'w caller \<Rightarrow> ('w, webhook_delivery option) service" where
  "replayWebhookDelivery E SV tenantId deliveryId caller =
     bindA (liftR (requireVerifiedPrincipal caller)) (\<lambda>p.
     if pr_tenantId p \<noteq> tenantId
     then raise (ServiceAuthorityError DENIED ''Cross-tenant service operation denied''
            (noDetails\<lparr>ed_reason := Some ''tenant_mismatch''\<rparr>))
     else
     bindA (getWebhookDelivery SV tenantId deliveryId) (\<lambda>found.
     case found of
       None \<Rightarrow> ret None
     | Some d \<Rightarrow>
         bindA (es_get (ws_endpointStore SV) (dv_endpointId d)) (\<lambda>foundEndpoint.
         case foundEndpoint of
           None \<Rightarrow> ret None
         | Some endpoint \<Rightarrow>
             if truthy (wp_disabledAt endpoint) then ret None
             else
             bindA (liftR (webhookGateway SV)) (\<lambda>G.
             if wp_applicationId endpoint \<noteq> Some (gw_application G) then ret None
             else execute E G ''webhooks.replay'' (Verified p)
               \<lparr>rs_type = ''webhook_delivery'', rs_tenantId = tenantId, rs_id = Some (dv_id d),
                rs_attributes = Some [(''endpointId'', wp_id endpoint)]\<rparr>
               (serviceOptions ''webhooks'')
               (\<lambda>ctx. plain (applyReplay E SV tenantId deliveryId d p ctx))))))"

section \<open>Inbound events\<close>

definition storeNewIntegration ::
  "'w env \<Rightarrow> 'w webhook_service \<Rightarrow> 'w integration_store \<Rightarrow> string \<Rightarrow> string \<Rightarrow> string \<Rightarrow> string \<Rightarrow> string \<Rightarrow>
   ('w, webhook_integration) service" where
  "storeNewIntegration E SV S tenantId application provider ref principalId =
     bindA (draw (e_uuid E)) (\<lambda>i.
     bindA (nowISO E) (\<lambda>createdAt.
     let k = \<lparr>ig_id = i, ig_tenantId = tenantId, ig_applicationId = application, ig_provider = provider,
              ig_principalId = ''integration:'' @ provider, ig_signingCredentialRef = ref, ig_createdAt = createdAt,
              ig_createdBy = principalId, ig_disabledAt = None, ig_version = 1\<rparr> in
     bindA (is_create S k) (\<lambda>_.
     bindA (webhookAudit E SV ((auditFor ''webhook.integration.registered'' tenantId principalId True)\<lparr>we_integrationId := Some i\<rparr>)) (\<lambda>_.
     ret k))))"

definition registerIntegration :: "'w env \<Rightarrow> 'w webhook_service \<Rightarrow> jsobj \<Rightarrow> 'w caller \<Rightarrow> ('w, webhook_integration) service" where
  "registerIntegration E SV input caller =
     bindA (liftR (requireVerifiedPrincipal caller)) (\<lambda>p.
     bindA (liftR (rejectCallerActor (JObj input) p)) (\<lambda>_.
     bindA (liftR (resolveTenant (JObj input) p)) (\<lambda>tenantId.
     case asString (propOf input ''provider'') of
       None \<Rightarrow> raise (invalidRequest ''provider must be a lowercase identifier'')
     | Some provider \<Rightarrow>
         bindA (liftR (guardR (providerName provider) (invalidRequest ''provider must be a lowercase identifier''))) (\<lambda>_.
         bindA (liftR (requireCredentialRef (propOf input ''signingCredentialRef'') ''signingCredentialRef'')) (\<lambda>ref.
         bindA (liftR (requireIntegrationStore SV)) (\<lambda>S.
         bindA (liftR (webhookGateway SV)) (\<lambda>G.
         execute E G ''webhooks.integrations.register'' (Verified p)
           \<lparr>rs_type = ''webhook_integration'', rs_tenantId = tenantId, rs_id = None,
            rs_attributes = Some [(''provider'', provider), (''credentialRef'', ref)]\<rparr>
           ((serviceOptions ''webhooks'')\<lparr>eo_provider := Some provider, eo_credentialRef := Some ref\<rparr>)
           (\<lambda>ctx. plain (storeNewIntegration E SV S tenantId (cx_application ctx) provider ref (pr_principalId p))))))))))"

definition registerInboundHandler ::
  "'w webhook_service \<Rightarrow> string \<Rightarrow> 'w inbound_handler \<Rightarrow> exn + 'w webhook_service" where
  "registerInboundHandler SV provider h =
     (if \<not> providerName provider then Inl (PlainError ''provider must be a lowercase identifier'')
      else Inr (SV\<lparr>ws_inboundHandlers := (provider, h) # filter (\<lambda>e. fst e \<noteq> provider) (ws_inboundHandlers SV)\<rparr>))"

text \<open>
  A header by its name in lower case. Headers have the values \<open>string | string[] | undefined\<close>; the
  result is \<open>None\<close> for a header that is absent or empty.
\<close>

definition headerValue :: "jsval \<Rightarrow> string option" where
  "headerValue v = keepTruthy (case v of
      JStr x \<Rightarrow> Some x
    | JArr (JStr x # _) \<Rightarrow> Some x
    | _ \<Rightarrow> None)"

definition headerOf :: "jsobj \<Rightarrow> string \<Rightarrow> string option" where
  "headerOf headers name =
     headerValue (if propOf headers name \<notin> {JUndef, JNull} then propOf headers name
       else (case List.find (\<lambda>(k, v). map lowerCase k = name) headers of None \<Rightarrow> JUndef | Some (k, v) \<Rightarrow> v))"

text \<open>The identity, the time and the signature of an inbound request, with its body.\<close>

definition inboundParts :: "inbound_request \<Rightarrow> exn + string \<times> string \<times> string \<times> string" where
  "inboundParts q =
     (case (headerOf (iq_headers q) ''x-appport-event-id'', headerOf (iq_headers q) ''x-appport-timestamp'',
            headerOf (iq_headers q) ''x-appport-signature'', iq_rawBody q) of
        (Some eventId, Some timestamp, Some signature, JStr body) \<Rightarrow> Inr (eventId, timestamp, signature, body)
      | _ \<Rightarrow> Inl (invalidRequest ''Inbound webhook requires event id, timestamp, signature, and body''))"

text \<open>The time an event was sent, when it is one and lies within the tolerance of now.\<close>

definition freshTime :: "'w env \<Rightarrow> 'w webhook_service \<Rightarrow> string \<Rightarrow> ('w, int option) service" where
  "freshTime E SV timestamp = (case dateTime E timestamp of
      None \<Rightarrow> ret None
    | Some sentAt \<Rightarrow>
        bindA (draw (e_now E)) (\<lambda>now.
        ret (if ws_inboundToleranceMs SV < \<bar>now - sentAt\<bar> then None else Some sentAt)))"

definition inboundEvent :: "string \<Rightarrow> webhook_integration \<Rightarrow> string \<Rightarrow> bool \<Rightarrow> string option \<Rightarrow> webhook_event" where
  "inboundEvent type g principalId success reason =
     (auditFor type (ig_tenantId g) principalId success)\<lparr>we_integrationId := Some (ig_id g), we_reason := reason\<rparr>"

definition integrationClaims :: "webhook_integration \<Rightarrow> principal_claims" where
  "integrationClaims g =
     \<lparr>cl_principalId = JStr (ig_principalId g), cl_principalType = JStr ''integration'', cl_tenantId = JStr (ig_tenantId g),
      cl_applicationId = Some (ig_applicationId g), cl_credentialId = None, cl_delegationId = None, cl_runId = None\<rparr>"

text \<open>Handing an event that is verified and new to the application.\<close>

definition handleEvent ::
  "'w env \<Rightarrow> 'w webhook_service \<Rightarrow> webhook_integration \<Rightarrow> 'w principal \<Rightarrow> string \<Rightarrow> int \<Rightarrow> string \<Rightarrow> 'w exec_context \<Rightarrow>
   ('w, inbound_result) service" where
  "handleEvent E SV g p eventId sentAt body ctx = (case e_jsonParse E body of
      None \<Rightarrow> raise (invalidRequest ''Inbound webhook body must be JSON'')
    | Some payload \<Rightarrow>
        (case map_of (ws_inboundHandlers SV) (ig_provider g) of
           None \<Rightarrow> ret \<lparr>ir_eventId = eventId, ir_result = JUndef\<rparr>
         | Some h \<Rightarrow>
             bindA (liftR (toISOString sentAt)) (\<lambda>timestamp.
             bindA (h \<lparr>ib_integrationId = ig_id g, ib_provider = ig_provider g, ib_eventId = eventId, ib_timestamp = timestamp,
                      ib_payload = payload\<rparr> p ctx) (\<lambda>handled.
             ret \<lparr>ir_eventId = eventId, ir_result = handled\<rparr>))))"

definition acceptanceId :: "'w env \<Rightarrow> webhook_integration \<Rightarrow> string \<Rightarrow> string" where
  "acceptanceId E g eventId = hexEncode (e_sha256 E (utf8 (ig_id g @ '':'' @ eventId)))"

definition acceptOnce ::
  "'w env \<Rightarrow> 'w webhook_service \<Rightarrow> 'w replay_store \<Rightarrow> webhook_integration \<Rightarrow> 'w principal \<Rightarrow> string \<Rightarrow> int \<Rightarrow> string \<Rightarrow>
   'w exec_context \<Rightarrow> ('w, inbound_result) service" where
  "acceptOnce E SV R g p eventId sentAt body ctx =
     bindA (liftR (toISOString sentAt)) (\<lambda>eventTimestamp.
     bindA (nowISO E) (\<lambda>acceptedAt.
     bindA (rp_accept R \<lparr>ax_id = acceptanceId E g eventId, ax_integrationId = ig_id g, ax_provider = ig_provider g,
              ax_eventId = eventId, ax_eventTimestamp = eventTimestamp, ax_acceptedAt = acceptedAt, ax_tenantId = ig_tenantId g\<rparr>) (\<lambda>accepted.
     if \<not> accepted
     then raise (ServiceAuthorityError DENIED ''Inbound webhook event was already accepted''
            (noDetails\<lparr>ed_reason := Some ''replayed''\<rparr>))
     else handleEvent E SV g p eventId sentAt body ctx)))"

definition inboundEffect ::
  "'w env \<Rightarrow> 'w webhook_service \<Rightarrow> 'w gateway \<Rightarrow> 'w replay_store \<Rightarrow> execute_options \<Rightarrow> webhook_integration \<Rightarrow> 'w principal \<Rightarrow>
   string \<Rightarrow> string \<Rightarrow> int \<Rightarrow> string \<Rightarrow> string \<Rightarrow> 'w exec_context \<Rightarrow> ('w, inbound_result) effect" where
  "inboundEffect E SV G R opts g p eventId timestamp sentAt signature body ctx =
     bindA (toolWithCredential E G ctx opts (ig_signingCredentialRef g) ''webhook.verify''
              (\<lambda>secret. liftR (bindR (signingSecretValue (rv_value secret)) (\<lambda>key.
                 Inr (verifyWebhookSignature E key (timestamp @ ''.'' @ body) signature))))) (\<lambda>valid.
     if \<not> valid
     then raise (ServiceAuthorityError DENIED ''Inbound webhook signature is invalid''
            (noDetails\<lparr>ed_reason := Some ''invalid_signature''\<rparr>))
     else plain (acceptOnce E SV R g p eventId sentAt body ctx))"

definition rejectionReason :: "exn \<Rightarrow> string" where
  "rejectionReason e = (case e of
      ServiceAuthorityError code msg d \<Rightarrow> (case ed_reason d of Some x \<Rightarrow> x | None \<Rightarrow> codeName code)
    | _ \<Rightarrow> ''handler_failed'')"

definition inboundOptions :: "webhook_integration \<Rightarrow> execute_options" where
  "inboundOptions g = (serviceOptions ''webhooks'')
     \<lparr>eo_provider := Some (ig_provider g), eo_credentialRef := Some (ig_signingCredentialRef g)\<rparr>"

definition receiveAs ::
  "'w env \<Rightarrow> 'w webhook_service \<Rightarrow> 'w replay_store \<Rightarrow> webhook_integration \<Rightarrow> 'w principal \<Rightarrow> string \<Rightarrow> string \<Rightarrow> int \<Rightarrow> string \<Rightarrow> string \<Rightarrow>
   ('w, inbound_result) service" where
  "receiveAs E SV R g p eventId timestamp sentAt signature body =
     catchA
       (bindA (liftR (webhookGateway SV)) (\<lambda>G.
        bindA (execute E G ''webhooks.receive'' (Verified p)
          \<lparr>rs_type = ''webhook_integration'', rs_tenantId = ig_tenantId g, rs_id = Some (ig_id g),
           rs_attributes = Some [(''provider'', ig_provider g), (''eventId'', eventId), (''credentialRef'', ig_signingCredentialRef g)]\<rparr>
          (inboundOptions g)
          (inboundEffect E SV G R (inboundOptions g) g p eventId timestamp sentAt signature body)) (\<lambda>result.
        bindA (webhookAudit E SV (inboundEvent ''webhook.inbound.accepted'' g (pr_principalId p) True None)) (\<lambda>_.
        ret result))))
       (\<lambda>e.
        bindA (catchA (webhookAudit E SV (inboundEvent ''webhook.inbound.rejected'' g (pr_principalId p) False (Some (rejectionReason e))))
                 (\<lambda>_. ret ())) (\<lambda>_.
        raise e))"

text \<open>From the integration on: the headers and the body, the time of the event, and the principal.\<close>

definition receiveFresh ::
  "'w env \<Rightarrow> 'w webhook_service \<Rightarrow> 'w replay_store \<Rightarrow> webhook_integration \<Rightarrow> string \<Rightarrow> string \<Rightarrow> string \<Rightarrow> string \<Rightarrow>
   int option \<Rightarrow> ('w, inbound_result) service" where
  "receiveFresh E SV R g eventId timestamp signature body fresh = (case fresh of
      None \<Rightarrow>
        bindA (webhookAudit E SV (inboundEvent ''webhook.inbound.rejected'' g (ig_principalId g) False (Some ''stale_timestamp''))) (\<lambda>_.
        raise (ServiceAuthorityError DENIED ''Inbound webhook timestamp is outside the accepted window''
          (noDetails\<lparr>ed_reason := Some ''stale_timestamp''\<rparr>)))
    | Some sentAt \<Rightarrow>
        bindA (liftR (mintVerifiedPrincipal (integrationClaims g) ByIntegration)) (\<lambda>p.
        receiveAs E SV R g p eventId timestamp sentAt signature body))"

definition receiveFrom ::
  "'w env \<Rightarrow> 'w webhook_service \<Rightarrow> 'w replay_store \<Rightarrow> inbound_request \<Rightarrow> webhook_integration \<Rightarrow> ('w, inbound_result) service" where
  "receiveFrom E SV R q g =
     bindA (liftR (inboundParts q)) (\<lambda>(eventId, timestamp, signature, body).
     bindA (freshTime E SV timestamp) (receiveFresh E SV R g eventId timestamp signature body))"

definition receiveWebhook :: "'w env \<Rightarrow> 'w webhook_service \<Rightarrow> inbound_request \<Rightarrow> ('w, inbound_result) service" where
  "receiveWebhook E SV q =
     bindA (liftR (requireIntegrationStore SV)) (\<lambda>S.
     case ws_replayStore SV of
       None \<Rightarrow> raise (ServiceAuthorityError AUTHORITY_UNAVAILABLE ''Inbound webhooks require a durable replay store'' noDetails)
     | Some R \<Rightarrow>
         bindA (case iq_integrationId q of JStr i \<Rightarrow> is_get S i | _ \<Rightarrow> ret None) (\<lambda>found.
         case found of
           None \<Rightarrow> raise (ServiceAuthorityError NOT_FOUND ''Webhook integration not found'' noDetails)
         | Some g \<Rightarrow>
             if truthy (ig_disabledAt g) then raise (ServiceAuthorityError NOT_FOUND ''Webhook integration not found'' noDetails)
             else receiveFrom E SV R q g))"

end
