(* ===== verification/WebhookLifecycle.thy ===== *)
theory WebhookLifecycle
  imports Webhooks JobLifecycle
begin

text \<open>
  What the webhook service does to the stored endpoints and deliveries: the steps of each, and the
  refinement of the service's operations to them.
\<close>

section \<open>Steps of a delivery\<close>

text \<open>
  The writes of a delivery under a limit of \<open>M\<close> attempts. A delivery that is neither delivered nor
  being delivered is refused, or claimed for one attempt; a claimed delivery is settled by the
  result of its attempt; replaying starts any delivery over as another principal of its tenant.
\<close>

definition idle :: "webhook_delivery \<Rightarrow> bool" where
  "idle k \<longleftrightarrow> dv_status k \<noteq> Delivered \<and> dv_status k \<noteq> Delivering"

definition ownPrincipal :: "webhook_delivery \<Rightarrow> bool" where
  "ownPrincipal k \<longleftrightarrow> (\<exists>dp. dv_principal k = Some dp \<and> dp_tenantId dp = dv_tenantId k)"

inductive delivery_step :: "int \<Rightarrow> webhook_delivery \<Rightarrow> webhook_delivery \<Rightarrow> bool" for M where
  refused: "idle k \<Longrightarrow> dv_version k < n \<Longrightarrow> delivery_step M k ((markFailed msg k)\<lparr>dv_version := n\<rparr>)"
| claimed: "idle k \<Longrightarrow> ownPrincipal k \<Longrightarrow> dv_version k < n \<Longrightarrow> delivery_step M k ((claimDelivery at k)\<lparr>dv_version := n\<rparr>)"
| delivered: "dv_status k = Delivering \<Longrightarrow> dv_version k < n \<Longrightarrow>
    delivery_step M k ((markDelivered at (dv_attemptCount k + 1) code k)\<lparr>dv_version := n\<rparr>)"
| stopped: "dv_status k = Delivering \<Longrightarrow> dv_version k < n \<Longrightarrow> delivery_step M k ((markFailed msg k)\<lparr>dv_version := n\<rparr>)"
| undecided: "dv_status k = Delivering \<Longrightarrow> dv_version k < n \<Longrightarrow> timeValue t \<Longrightarrow>
    delivery_step M k ((markUndecided (isoString t) msg k)\<lparr>dv_version := n\<rparr>)"
| exhausted: "dv_status k = Delivering \<Longrightarrow> dv_version k < n \<Longrightarrow> isTerminal code \<or> M \<le> dv_attemptCount k + 1 \<Longrightarrow>
    delivery_step M k ((markExhausted msg (dv_attemptCount k + 1) code k)\<lparr>dv_version := n\<rparr>)"
| retrying: "dv_status k = Delivering \<Longrightarrow> dv_version k < n \<Longrightarrow> timeValue t \<Longrightarrow> \<not> isTerminal code \<Longrightarrow> dv_attemptCount k + 1 < M \<Longrightarrow>
    delivery_step M k ((markRetrying (isoString t) msg (dv_attemptCount k + 1) code k)\<lparr>dv_version := n\<rparr>)"
| replayed: "dp_tenantId dp = dv_tenantId k \<Longrightarrow> dv_version k < n \<Longrightarrow> delivery_step M k ((markReplayed dp k)\<lparr>dv_version := n\<rparr>)"

inductive_cases delivery_stepE: "delivery_step M k k'"

definition freshDelivery :: "webhook_delivery \<Rightarrow> bool" where
  "freshDelivery k \<longleftrightarrow> dv_status k = DeliveryPending \<and> dv_attemptCount k = 0 \<and> dv_version k = 1 \<and> ownPrincipal k"

text \<open>What no step changes.\<close>

definition sameDelivery :: "webhook_delivery \<Rightarrow> webhook_delivery \<Rightarrow> bool" where
  "sameDelivery k k' \<longleftrightarrow>
     dv_id k' = dv_id k \<and> dv_tenantId k' = dv_tenantId k \<and> dv_endpointId k' = dv_endpointId k \<and> dv_eventId k' = dv_eventId k \<and>
     dv_eventType k' = dv_eventType k \<and> dv_payload k' = dv_payload k \<and> dv_createdAt k' = dv_createdAt k"

lemmas mark_defs = markFailed_def markDelivered_def markUndecided_def markExhausted_def markRetrying_def markReplayed_def
  claimDelivery_def

lemma delivery_step_same: "delivery_step M k k' \<Longrightarrow> sameDelivery k k' \<and> dv_version k < dv_version k'"
  by (erule delivery_stepE) (simp_all add: sameDelivery_def mark_defs)

interpretation deliverySteps: record_life dv_id dv_version "\<lambda>v. dv_version_update (\<lambda>_. v)" "delivery_step M" freshDelivery for M
  by unfold_locales (auto dest: delivery_step_same simp: sameDelivery_def)

text \<open>What every step preserves.\<close>

definition wfDelivery :: "webhook_delivery \<Rightarrow> bool" where
  "wfDelivery k \<longleftrightarrow> ownPrincipal k \<and> 0 \<le> dv_attemptCount k \<and>
     (dv_status k = Delivered \<longrightarrow> dv_deliveredAt k \<noteq> None \<and> 0 < dv_attemptCount k) \<and>
     (dv_status k = Delivering \<longrightarrow> dv_lastAttemptAt k \<noteq> None) \<and>
     (dv_status k = DeliveryRetrying \<longrightarrow> (\<exists>t. timeValue t \<and> dv_nextAttemptAt k = Some (isoString t))) \<and>
     (dv_status k = DeliveryFailed \<longrightarrow> dv_lastError k \<noteq> None)"

lemma fresh_wf: "freshDelivery k \<Longrightarrow> wfDelivery k"
  by (simp add: freshDelivery_def wfDelivery_def)

lemma delivery_step_wf: "delivery_step M k k' \<Longrightarrow> wfDelivery k \<Longrightarrow> wfDelivery k'"
  by (erule delivery_stepE) (auto simp: wfDelivery_def ownPrincipal_def mark_defs)

section \<open>Steps of an endpoint\<close>

text \<open>An endpoint is only ever disabled, once.\<close>

inductive endpoint_step :: "webhook_endpoint \<Rightarrow> webhook_endpoint \<Rightarrow> bool" where
  disabled: "\<not> truthy (wp_disabledAt k) \<Longrightarrow> at \<noteq> [] \<Longrightarrow> wp_version k < n \<Longrightarrow>
    endpoint_step k (k\<lparr>wp_disabledAt := Some at, wp_version := n\<rparr>)"

inductive_cases endpoint_stepE: "endpoint_step k k'"

text \<open>The destination of a new endpoint was validated, and its signing credential is a reference.\<close>

definition freshEndpoint :: "'w network \<Rightarrow> bool \<Rightarrow> webhook_endpoint \<Rightarrow> bool" where
  "freshEndpoint N allowPrivate k \<longleftrightarrow> wp_disabledAt k = None \<and> wp_version k = 1 \<and>
     (\<exists>ref. wp_signingCredentialRef k = Some ref \<and> isCredentialRef (JStr ref)) \<and>
     (\<exists>rawUrl u. nw_url N rawUrl = Some u \<and> wp_url k = ur_href u \<and> (\<not> allowPrivate \<longrightarrow> (\<exists>a. soundDestination N rawUrl u a)))"

definition sameEndpoint :: "webhook_endpoint \<Rightarrow> webhook_endpoint \<Rightarrow> bool" where
  "sameEndpoint k k' \<longleftrightarrow> (\<exists>at n. k' = k\<lparr>wp_disabledAt := at, wp_version := n\<rparr>)"

lemma endpoint_step_same: "endpoint_step k k' \<Longrightarrow> sameEndpoint k k' \<and> wp_version k < wp_version k' \<and> \<not> truthy (wp_disabledAt k) \<and> truthy (wp_disabledAt k')"
  by (erule endpoint_stepE) (auto simp: sameEndpoint_def)

interpretation endpointSteps: record_life wp_id wp_version "\<lambda>v. wp_version_update (\<lambda>_. v)" endpoint_step "freshEndpoint N allowPrivate"
  for N allowPrivate
  by unfold_locales (erule endpoint_stepE, simp)+

sublocale platform \<subseteq> deliveryLife: life_collection C "''webhook_deliveries''" DeliveryDoc "dv_version_update (\<lambda>_. 0)" "e_deliveries E"
    dv_version "\<lambda>v. dv_version_update (\<lambda>_. v)" dv_id "delivery_step M" freshDelivery asDelivery for M
  by (intro life_collection.intro deliveries.versioned_collection_axioms deliverySteps.record_life_axioms
      life_collection_axioms.intro projections)

sublocale platform \<subseteq> endpointLife: life_collection C "''webhook_endpoints''" EndpointDoc "wp_version_update (\<lambda>_. 0)" "e_endpoints E"
    wp_version "\<lambda>v. wp_version_update (\<lambda>_. v)" wp_id endpoint_step "freshEndpoint N allowPrivate" asEndpoint for N allowPrivate
  by (intro life_collection.intro endpoints.versioned_collection_axioms endpointSteps.record_life_axioms
      life_collection_axioms.intro projections)

definition storedDeliveries :: "('w \<Rightarrow> contents) \<Rightarrow> 'w sys \<Rightarrow> webhook_delivery records" where
  "storedDeliveries C = storedIn C ''webhook_deliveries'' asDelivery"

definition storedEndpoints :: "('w \<Rightarrow> contents) \<Rightarrow> 'w sys \<Rightarrow> webhook_endpoint records" where
  "storedEndpoints C = storedIn C ''webhook_endpoints'' asEndpoint"

lemma storedDeliveries_eq: "storedDeliveries C = storedIn C ''webhook_deliveries'' asDelivery"
  and storedEndpoints_eq: "storedEndpoints C = storedIn C ''webhook_endpoints'' asEndpoint"
  by (simp_all add: storedDeliveries_def storedEndpoints_def)

section \<open>Storing a batch\<close>

lemma applyOps_cases:
  "applyOps m ps n i = m n i \<and> (\<forall>p\<in>set ps. op_collection p \<noteq> n \<or> op_id p \<noteq> i) \<or>
   (\<exists>p\<in>set ps. op_collection p = n \<and> op_id p = i \<and> applyOps m ps n i = Some (op_value p))"
proof (induction ps arbitrary: m)
  case (Cons p ps)
  let ?m = "putDoc m (op_collection p) (op_id p) (op_value p)"
  have eq: "applyOps m (p # ps) = applyOps ?m ps" by (simp add: applyOps_def)
  have "?m n i = m n i \<and> (op_collection p \<noteq> n \<or> op_id p \<noteq> i) \<or>
      op_collection p = n \<and> op_id p = i \<and> ?m n i = Some (op_value p)" by auto
  then show ?case using Cons [of ?m] unfolding eq set_simps by (metis insert_iff)
qed (simp add: applyOps_def)

context platform
begin

abbreviation D :: "'w sys \<Rightarrow> webhook_delivery records" where "D \<equiv> storedDeliveries C"
abbreviation W :: "'w sys \<Rightarrow> webhook_endpoint records" where "W \<equiv> storedEndpoints C"

lemma batch_evolves:
  assumes "list_all freshDelivery ks"
  shows "moves (evolves dv_id (delivery_step M) freshDelivery D) (deliveryStoreCreateMultiple E ks)"
proof (rule movesI)
  fix s t r
  assume run: "deliveryStoreCreateMultiple E ks s = (t, r)"
  show "evolves dv_id (delivery_step M) freshDelivery D s t"
  proof (cases "ks = []")
    case True
    then show ?thesis using run by (simp add: deliveryStoreCreateMultiple_def act_simps evolves.R_refl)
  next
    case False
    let ?ps = "map newDeliveryOp ks"
    obtain w where w: "e_transaction E ?ps (outside s) = (w, r)" "t = s\<lparr>outside := w\<rparr>"
      using run False by (auto simp: deliveryStoreCreateMultiple_def ext_eq_iff)
    then consider (kept) "C w = C (outside s)"
      | (written) "\<forall>p\<in>set ?ps. opHolds (C (outside s)) p" "C w = applyOps (C (outside s)) ?ps"
      using transaction_ok transaction_rejected by (cases r) blast+
    then show ?thesis
    proof cases
      case kept
      then show ?thesis using w(2) by (intro evolves_same) (simp add: storedDeliveries_def storedIn_def fun_eq_iff)
    next
      case written
      have absent: "D s (dv_id k) = None" if "k \<in> set ks" for k
        using written(1) that
        by (auto simp: opHolds_def newDeliveryOp_def WEBHOOK_DELIVERIES_COLLECTION_def storedDeliveries_def storedIn_def)
      have at: "D t i = D s i \<and> (\<forall>k\<in>set ks. dv_id k \<noteq> i) \<or> (\<exists>k\<in>set ks. dv_id k = i \<and> D t i = Some k)" for i
        using applyOps_cases [of "C (outside s)" ?ps "''webhook_deliveries''" i] written(2) w(2)
        by (auto simp: newDeliveryOp_def WEBHOOK_DELIVERIES_COLLECTION_def storedDeliveries_def storedIn_def asDelivery_def)
      have "keyed dv_id (D t)" if "keyed dv_id (D s)" using that at unfolding keyed_def by (metis option.inject)
      moreover have "progressBy (delivery_step M) freshDelivery (D s) (D t)"
        unfolding progressBy_def
      proof
        fix i
        show "case D s i of Some k \<Rightarrow> \<exists>k'. D t i = Some k' \<and> (delivery_step M)\<^sup>*\<^sup>* k k'
          | None \<Rightarrow> \<forall>k'. D t i = Some k' \<longrightarrow> (\<exists>k. freshDelivery k \<and> (delivery_step M)\<^sup>*\<^sup>* k k')"
          using at [of i] absent assms by (auto simp: list_all_iff split: option.splits)
      qed
      ultimately show ?thesis by (simp add: evolves_def)
    qed
  qed
qed

lemma delivery_get:
  assumes "deliveryStoreGet E i s = (t, r)"
  shows "D t = D s" and "r = Inr (Some k) \<Longrightarrow> D s i = Some k"
  using deliveries.get_stored [OF projections(11) assms [unfolded deliveryStoreGet_def], folded storedDeliveries_eq] .

lemma endpoint_get:
  assumes "endpointStoreGet E i s = (t, r)"
  shows "W t = W s" and "r = Inr (Some k) \<Longrightarrow> W s i = Some k"
  using endpoints.get_stored [OF projections(10) assms [unfolded endpointStoreGet_def], folded storedEndpoints_eq] .

lemma endpoint_create:
  assumes "endpointStoreCreate E k s = (t, r)"
  shows "W t = W s \<or> W s (wp_id k) = None \<and> W t = (W s)(wp_id k \<mapsto> k)"
  using create_stored(1) [OF projections(10) assms [unfolded endpointStoreCreate_def WEBHOOK_ENDPOINTS_COLLECTION_def]]
  by (simp add: storedEndpoints_eq)

text \<open>A claim that succeeds leaves the claimed delivery stored as being delivered.\<close>

lemma delivery_claim:
  assumes "deliveryStoreClaim E i v s = (t, Inr (Some k))"
  shows "D t i = Some k" and "dv_status k = Delivering"
proof -
  obtain s1 now where "casItem (c_updateIfVersion (e_deliveries E) i v (claimDelivery now)) s1 = (t, Inr (Some k))"
    using assms by (auto simp: deliveryStoreClaim_def bindA_Inr_iff)
  then have "casRecord dv_version (\<lambda>v. dv_version_update (\<lambda>_. v)) (D s1) (D t) i v (claimDelivery now) \<and> D t i = Some k"
    using deliveries.cas_stored(2) [OF projections(11)] by (simp add: storedDeliveries_eq)
  then show "D t i = Some k" "dv_status k = Delivering" by (auto simp: casRecord_def claimDelivery_def)
qed

end

section \<open>The service on the database\<close>

context frame
begin

lemma moves_prod: "(\<And>a b. x = (a, b) \<Longrightarrow> moves R (k a b)) \<Longrightarrow> moves R (case x of (a, b) \<Rightarrow> k a b)"
  by (cases x) simp

end

interpretation onKeeps: frame "onSys (keeps C N)" for C N
  by unfold_locales (auto simp: onSys_def keeps.R_refl intro: keeps.R_trans)

abbreviation WEBHOOKS :: "string set" where
  "WEBHOOKS \<equiv> {''webhook_endpoints'', ''webhook_deliveries''}"

text \<open>
  The hosts' side of the service: AuthBoundry, the custody of credentials, name resolution and the
  network write nothing to the collections of the service.
\<close>

locale felt_webhook_service = platform E C for E :: "'w env" and C :: "'w \<Rightarrow> contents" +
  fixes SV :: "'w webhook_service" and N :: "'w network" and fuel :: nat and G :: "'w gateway"
  assumes stores: "ws_endpointStore SV = feltDbWebhookEndpointStore E" "ws_deliveryStore SV = feltDbWebhookDeliveryStore E fuel"
      "ws_auditSink SV = feltDbWebhookAuditSink E" "ws_integrationStore SV = Some (feltDbWebhookIntegrationStore E)"
      "ws_replayStore SV = Some (feltDbInboundWebhookReplayStore E)"
    and authority: "ws_authority SV = Some G"
    and gateway: "gateway_platform E C G"
    and acquire_view: "gw_credentials G = Some cu \<Longrightarrow> cu_acquire cu r a w = (w', x) \<Longrightarrow> C w' = C w"
    and release_view: "gw_credentials G = Some cu \<Longrightarrow> cu_release cu r a w = (w', y) \<Longrightarrow> C w' = C w"
    and lookup_view: "nw_lookup N host w = (w', z) \<Longrightarrow> C w' = C w"
    and post_view: "nw_post N q w = (w', out) \<Longrightarrow> C w' = C w"
begin

lemma gateway_of [simp]: "webhookGateway SV = Inr G"
  by (simp add: webhookGateway_def authority)

lemma keeps_audit: "''webhook_audit_events'' \<notin> M \<Longrightarrow> moves (keeps C M) (webhookAudit E SV ev)"
  unfolding webhookAudit_def stores feltDbWebhookAuditSink_def
  by (auto intro!: keeps.frame_rules keeps_uuid keeps_nowISO webhookEvents.keeps_insert)

lemma operationKeeps: "EVIDENCE_COLLECTION \<notin> M \<Longrightarrow> operation_frame E C G (keeps C M) M"
  by (intro operation_frame.intro gateway keeps.frame_axioms operation_frame_axioms.intro)

text \<open>An operation run for a verified caller through the service's gateway.\<close>

lemma execute_guarded:
  assumes "operation_frame E C G R M" and "quietCaller C M caller" and "requireVerifiedPrincipal caller = Inr p"
    and "webhookGateway SV = Inr G'" and "\<And>ctx. moves (onSys R) (f ctx)"
  shows "moves R (execute E G' cap (Verified p) r opts f)"
proof -
  have "G' = G" "caller = Verified p" using assms(3,4) by (simp_all add: requireVerifiedPrincipal_Inr)
  then show ?thesis using operation_frame.execute_moves [OF assms(1) assms(2) assms(5)] by simp
qed

lemma keeps_validate: "moves (keeps C M) (validateDestination N allowPrivate rawUrl)"
  unfolding validateDestination_def resolveHost_def Let_def
  by (auto intro!: keeps.frame_rules keeps_ext split: option.splits dest: lookup_view)

lemma keeps_post: "moves (keeps C M) (performHttpDelivery N SV u a d payload signature)"
  unfolding performHttpDelivery_def by (auto intro!: keeps.frame_rules keeps_ext dest: post_view)

lemma keeps_custody: "moves (keeps C M) (custodyContext E v ref)"
  unfolding custodyContext_def by (auto intro!: keeps.frame_rules keeps_now)

text \<open>An effect that resolves a credential and computes with it.\<close>

lemma keeps_tool: "moves (onSys (keeps C M)) (toolWithCredential E G ctx opts ref purpose (\<lambda>secret. liftR (f secret)))"
proof -
  have note_ref: "moves (onSys (keeps C M)) (noteRef ref)"
    by (rule movesI) (auto simp: noteRef_def onSys_def keeps.R_refl)
  have custody: "moves (onSys (keeps C M)) (plain (ext (cu_acquire cu r a)))" "moves (onSys (keeps C M)) (plain (ext (cu_release cu r a)))"
    if "gw_credentials G = Some cu" for cu r a
    using that by (auto intro!: onSys_plain keeps_ext dest: acquire_view release_view)
  show ?thesis
    unfolding toolWithCredential_def withCredential_def Let_def
    by (intro onKeeps.frame_rules note_ref onSys_plain [OF keeps_custody] custody; assumption)
qed

abbreviation alongD :: "'w sys \<Rightarrow> 'w sys \<Rightarrow> bool" where
  "alongD \<equiv> evolves dv_id (delivery_step (ws_maxRetryAttempts SV)) freshDelivery D"

abbreviation settlingD :: "webhook_delivery \<Rightarrow> 'w sys \<Rightarrow> 'w sys \<Rightarrow> bool" where
  "settlingD d \<equiv> settles dv_id dv_version (delivery_step (ws_maxRetryAttempts SV)) freshDelivery D d"

abbreviation alongW :: "'w sys \<Rightarrow> 'w sys \<Rightarrow> bool" where
  "alongW \<equiv> evolves wp_id endpoint_step (freshEndpoint N (ws_allowPrivate SV)) W"

abbreviation settlingW :: "webhook_endpoint \<Rightarrow> 'w sys \<Rightarrow> 'w sys \<Rightarrow> bool" where
  "settlingW k \<equiv> settles wp_id wp_version endpoint_step (freshEndpoint N (ws_allowPrivate SV)) W k"

lemma quietD: "moves (keeps C {''webhook_deliveries''}) m \<Longrightarrow> moves alongD m"
  and quiet_settlesD: "moves (keeps C {''webhook_deliveries''}) m \<Longrightarrow> moves (settlingD d) m"
  and quietW: "moves (keeps C {''webhook_endpoints''}) m \<Longrightarrow> moves alongW m"
  and quiet_settlesW: "moves (keeps C {''webhook_endpoints''}) m \<Longrightarrow> moves (settlingW k) m"
  by (simp_all add: storedDeliveries_eq storedEndpoints_eq deliveryLife.kept_evolves deliveryLife.kept_settles
      endpointLife.kept_evolves endpointLife.kept_settles)

lemma operationD:
  "operation_frame E C G alongD {''webhook_deliveries''}" "operation_frame E C G (settlingD d) {''webhook_deliveries''}"
  by (intro operation_frame.intro gateway evolves.frame_axioms settles.frame_axioms operation_frame_axioms.intro
      evolves_same deliverySteps.settles_evolve; simp add: storedDeliveries_def storedIn_keeps EVIDENCE_COLLECTION_def)+

lemma operationW:
  "operation_frame E C G alongW {''webhook_endpoints''}" "operation_frame E C G (settlingW k) {''webhook_endpoints''}"
  by (intro operation_frame.intro gateway evolves.frame_axioms settles.frame_axioms operation_frame_axioms.intro
      evolves_same endpointSteps.settles_evolve; simp add: storedEndpoints_def storedIn_keeps EVIDENCE_COLLECTION_def)+

lemma quiet_subset: "quietCaller C WEBHOOKS caller \<Longrightarrow> M \<subseteq> WEBHOOKS \<Longrightarrow> quietCaller C M caller"
  unfolding quietCaller_def using keeps_mono by blast

subsection \<open>Reading\<close>

lemma keeps_owned: "moves (keeps C M) (ownedEndpointIds SV tenantId application)"
  unfolding ownedEndpointIds_def stores feltDbWebhookEndpointStore_def
  by (auto simp: endpointStoreList_def intro!: keeps.frame_rules endpoints.keeps_find)

lemma keeps_bounded: "moves (keeps C M) (boundedLoop n (e_deliveryQuery E) P mx cursor found)"
proof (induction n "e_deliveryQuery E" P mx cursor found rule: boundedLoop.induct)
  case (2 n P mx cursor found)
  then show ?case
    by (auto simp: Let_def intro!: keeps.frame_rules keeps_ext dest: deliveryQuery_view)
qed (simp add: keeps.moves_ret)

lemma keeps_rows: "moves (keeps C M) (ownDeliveries SV tenantId q application)"
  unfolding ownDeliveries_def deliveryRows_def stores feltDbWebhookDeliveryStore_def deliveryStorePage_def boundedFind_def
  by (auto intro!: keeps.frame_rules keeps_owned keeps_bounded)

lemma keeps_getDelivery: "moves (keeps C M) (getWebhookDelivery SV tenantId i)"
  unfolding getWebhookDelivery_def stores feltDbWebhookDeliveryStore_def
  by (auto simp: deliveryStoreGet_def intro!: keeps.frame_rules deliveries.keeps_get)

lemma keeps_getEndpoint: "moves (keeps C M) (es_get (ws_endpointStore SV) i)"
  unfolding stores feltDbWebhookEndpointStore_def by (simp add: endpointStoreGet_def endpoints.keeps_get)

lemma keeps_readDeliveries:
  assumes "quietCaller C WEBHOOKS caller"
  shows "moves (keeps C WEBHOOKS) (readWebhookDeliveries E SV input caller)"
  unfolding readWebhookDeliveries_def
  by (intro keeps.moves_lifted execute_guarded [OF operationKeeps assms])
    (auto simp: EVIDENCE_COLLECTION_def intro!: onSys_plain keeps_rows)

lemma keeps_readDelivery:
  assumes "quietCaller C WEBHOOKS caller"
  shows "moves (keeps C WEBHOOKS) (readWebhookDelivery E SV input caller)"
proof -
  have "moves (keeps C WEBHOOKS) (ownDelivery SV tenantId found application)" for tenantId found application
    unfolding ownDelivery_def by (auto intro!: keeps.frame_rules keeps_owned)
  then show ?thesis
    unfolding readWebhookDelivery_def
    by (intro keeps.moves_lifted keeps.moves_option keeps.moves_raise keeps.moves_bindA [OF keeps_getDelivery]
        execute_guarded [OF operationKeeps assms]) (auto simp: EVIDENCE_COLLECTION_def intro!: onSys_plain)
qed

subsection \<open>Endpoints\<close>

lemma storeNewEndpoint_moves:
  assumes "freshEndpoint N (ws_allowPrivate SV)
      \<lparr>wp_id = [], wp_tenantId = [], wp_applicationId = None, wp_url = ur_href u, wp_events = [],
       wp_signingCredentialRef = Some ref, wp_createdAt = [], wp_createdBy = [], wp_disabledAt = None, wp_version = 1\<rparr>"
  shows "moves alongW (storeNewEndpoint E SV tenantId application u events ref pid)"
proof -
  have create: "moves alongW (es_create (ws_endpointStore SV) k)" if "freshEndpoint N (ws_allowPrivate SV) k" for k
  proof (rule movesI)
    fix s t r
    assume "es_create (ws_endpointStore SV) k s = (t, r)"
    then have "W t = W s \<or> W s (wp_id k) = None \<and> W t = (W s)(wp_id k \<mapsto> k)"
      by (intro endpoint_create) (simp add: stores feltDbWebhookEndpointStore_def)
    then show "alongW s t" using endpointSteps.life_new [OF _ that] by (auto simp: evolves_def)
  qed
  show ?thesis
    unfolding storeNewEndpoint_def Let_def
    by (intro evolves.frame_rules quietW keeps_nowISO keeps_uuid keeps_audit create)
      (use assms in \<open>auto simp: freshEndpoint_def\<close>)
qed

lemma validated_fresh:
  assumes "endpointInput input = Inr (rawUrl, events, ref)"
    and "validateDestination N (ws_allowPrivate SV) rawUrl s = (t, Inr (u, a))"
  shows "freshEndpoint N (ws_allowPrivate SV)
      \<lparr>wp_id = [], wp_tenantId = [], wp_applicationId = None, wp_url = ur_href u, wp_events = [],
       wp_signingCredentialRef = Some ref, wp_createdAt = [], wp_createdBy = [], wp_disabledAt = None, wp_version = 1\<rparr>"
proof -
  have "isCredentialRef (JStr ref)"
    using assms(1) by (auto simp: endpointInput_def requireCredentialRef_def bindR_Inr_iff split: jsval.splits option.splits if_splits)
  moreover have "nw_url N rawUrl = Some u"
    using assms(2) by (auto simp: validateDestination_def Let_def bindA_Inr_iff act_simps split: option.splits if_splits)
  moreover have "soundDestination N rawUrl u a" if "\<not> ws_allowPrivate SV"
    using validation_sound [of N rawUrl s] that assms(2) by simp
  ultimately show ?thesis unfolding freshEndpoint_def by auto
qed

lemma createEndpoint_moves:
  assumes "quietCaller C WEBHOOKS caller"
  shows "moves alongW (createWebhookEndpoint E N SV input caller)"
proof -
  have sub: "quietCaller C {''webhook_endpoints''} caller" using assms by (rule quiet_subset) simp
  have "moves alongW (registerEndpoint E N SV p tenantId rawUrl events ref)"
    if p: "requireVerifiedPrincipal caller = Inr p" and input: "endpointInput input = Inr (rawUrl, events, ref)"
    for p tenantId rawUrl events ref
    unfolding registerEndpoint_def moves_iff_At
  proof (intro allI, rule evolves.movesAt_bindA)
    fix s
    show "movesAt alongW (validateDestination N (ws_allowPrivate SV) rawUrl) s"
      using quietW [OF keeps_validate] by (simp add: moves_iff_At)
  next
    fix s x t
    assume valid: "validateDestination N (ws_allowPrivate SV) rawUrl s = (t, Inr x)"
    obtain u a where x: "x = (u, a)" by (cases x)
    note new = storeNewEndpoint_moves [OF validated_fresh [OF input valid [unfolded x]]]
    have "moves alongW (bindA (liftR (webhookGateway SV)) (\<lambda>G.
       execute E G ''webhooks.register'' (Verified p)
         \<lparr>rs_type = ''webhook_endpoint'', rs_tenantId = tenantId, rs_id = None,
          rs_attributes = Some [(''destination'', ur_origin u), (''credentialRef'', ref)]\<rparr>
         ((serviceOptions ''webhooks'')\<lparr>eo_credentialRef := Some ref\<rparr>)
         (\<lambda>ctx. plain (storeNewEndpoint E SV tenantId (cx_application ctx) u events ref (pr_principalId p)))))"
      by (intro evolves.moves_lifted execute_guarded [OF operationW(1) sub p] onSys_plain new)
    then show "movesAt alongW (case x of (u, a) \<Rightarrow> bindA (liftR (webhookGateway SV)) (\<lambda>G.
       execute E G ''webhooks.register'' (Verified p)
         \<lparr>rs_type = ''webhook_endpoint'', rs_tenantId = tenantId, rs_id = None,
          rs_attributes = Some [(''destination'', ur_origin u), (''credentialRef'', ref)]\<rparr>
         ((serviceOptions ''webhooks'')\<lparr>eo_credentialRef := Some ref\<rparr>)
         (\<lambda>ctx. plain (storeNewEndpoint E SV tenantId (cx_application ctx) u events ref (pr_principalId p))))) t"
      by (simp add: x moves_iff_At)
  qed
  then show ?thesis
    unfolding createWebhookEndpoint_def by (intro evolves.moves_lifted evolves.moves_prod; blast)
qed

lemma createEndpoint_keeps:
  assumes "quietCaller C WEBHOOKS caller"
  shows "moves (keeps C {''webhook_deliveries''}) (createWebhookEndpoint E N SV input caller)"
proof -
  have sub: "quietCaller C {''webhook_deliveries''} caller" using assms by (rule quiet_subset) simp
  have "moves (keeps C {''webhook_deliveries''}) (storeNewEndpoint E SV tenantId application u events ref pid)"
    for tenantId application u events ref pid
    unfolding storeNewEndpoint_def Let_def stores(1) feltDbWebhookEndpointStore_def endpointStoreCreate_def
    by (auto simp: WEBHOOK_ENDPOINTS_COLLECTION_def intro!: keeps.frame_rules keeps_nowISO keeps_uuid keeps_audit keeps_transaction)
  then show ?thesis
    unfolding createWebhookEndpoint_def registerEndpoint_def
    by (intro keeps.moves_lifted keeps.moves_prod keeps.moves_bindA [OF keeps_validate] execute_guarded [OF operationKeeps sub] onSys_plain)
      (auto simp: EVIDENCE_COLLECTION_def)
qed

lemma disableEndpoint_keeps:
  assumes "quietCaller C WEBHOOKS caller"
  shows "moves (keeps C {''webhook_deliveries''}) (disableWebhookEndpoint E SV i input caller)"
proof -
  have sub: "quietCaller C {''webhook_deliveries''} caller" using assms by (rule quiet_subset) simp
  have "moves (keeps C {''webhook_deliveries''}) (casItem (c_updateIfVersion (e_endpoints E) i v f))" for i v f
    unfolding casItem_def by (auto intro!: keeps.frame_rules endpoints.keeps_cas split: prod.splits)
  then have "moves (keeps C {''webhook_deliveries''}) (applyDisable E SV k tenantId pid)" for k tenantId pid
    unfolding applyDisable_def stores(1) feltDbWebhookEndpointStore_def endpointStoreDisable_def
    by (auto intro!: keeps.frame_rules keeps_nowISO keeps_uuid keeps_audit)
  moreover have "moves (keeps C {''webhook_deliveries''}) (getWebhookEndpoint SV tenantId i)" for tenantId i
    unfolding getWebhookEndpoint_def by (intro keeps.frame_rules keeps_getEndpoint)
  ultimately show ?thesis
    unfolding disableWebhookEndpoint_def
    by (intro keeps.moves_lifted keeps.moves_bindA [of _ _ "getWebhookEndpoint SV _ i"] keeps.moves_option keeps.moves_if keeps.moves_ret
        execute_guarded [OF operationKeeps sub] onSys_plain) (auto simp: EVIDENCE_COLLECTION_def)
qed

lemma applyDisable_settles:
  assumes "\<not> truthy (wp_disabledAt k)"
  shows "moves (settlingW k) (applyDisable E SV k tenantId pid)"
proof -
  have update: "moves (settlingW k) (es_disable (ws_endpointStore SV) (wp_id k) (wp_version k) at)" if "at \<noteq> []" for at
    unfolding stores(1) feltDbWebhookEndpointStore_def endpoint_store.simps endpointStoreDisable_def storedEndpoints_eq
    by (rule endpointLife.settles_update) (use assms that in \<open>auto intro: endpoint_step.disabled\<close>)
  show ?thesis
    unfolding applyDisable_def moves_iff_At
  proof (intro allI, rule settles.movesAt_bindA)
    fix s
    show "movesAt (settlingW k) (nowISO E) s"
      using quiet_settlesW [OF keeps_nowISO] by (simp add: moves_iff_At)
  next
    fix s at t
    assume "nowISO E s = (t, Inr at)"
    then have "at \<noteq> []" by (auto simp: nowISO_Inr_iff isoString_nonempty)
    then have "moves (settlingW k) (bindA (es_disable (ws_endpointStore SV) (wp_id k) (wp_version k) at) (\<lambda>updated.
        case updated of None \<Rightarrow> ret None
          | Some u \<Rightarrow> bindA (webhookAudit E SV ((auditFor ''webhook.endpoint.disabled'' tenantId pid True)\<lparr>we_endpointId := Some (wp_id u)\<rparr>)) (\<lambda>_. ret updated)))"
      by (intro settles.frame_rules update quiet_settlesW keeps_audit) auto
    then show "movesAt (settlingW k) (bindA (es_disable (ws_endpointStore SV) (wp_id k) (wp_version k) at) (\<lambda>updated.
        case updated of None \<Rightarrow> ret None
          | Some u \<Rightarrow> bindA (webhookAudit E SV ((auditFor ''webhook.endpoint.disabled'' tenantId pid True)\<lparr>we_endpointId := Some (wp_id u)\<rparr>)) (\<lambda>_. ret updated))) t"
      by (simp add: moves_iff_At)
  qed
qed

text \<open>Work on an endpoint or a delivery that was read.\<close>

lemma on_endpoint:
  assumes "\<And>k. moves (settlingW k) (m k)" and "moves alongW n"
  shows "moves alongW (bindA (getWebhookEndpoint SV T i) (\<lambda>found. case found of None \<Rightarrow> n | Some k \<Rightarrow> m k))"
  unfolding moves_iff_At
proof (intro allI, rule evolves.movesAt_bindA)
  fix s
  show "movesAt alongW (getWebhookEndpoint SV T i) s"
    by (rule spec [OF quietW [unfolded moves_iff_At]])
      (unfold moves_iff_At [symmetric] getWebhookEndpoint_def, intro keeps.frame_rules keeps_getEndpoint)
next
  fix s found t
  assume "getWebhookEndpoint SV T i s = (t, Inr found)"
  then obtain q where get: "endpointStoreGet E i s = (t, Inr q)" and found: "\<And>k. found = Some k \<Longrightarrow> q = Some k"
    by (auto simp: getWebhookEndpoint_def stores feltDbWebhookEndpointStore_def bindA_Inr_iff act_simps split: option.splits if_splits)
  show "movesAt alongW (case found of None \<Rightarrow> n | Some k \<Rightarrow> m k) t"
  proof (cases found)
    case None
    then show ?thesis using assms(2) by (simp add: moves_iff_At)
  next
    case (Some k)
    then have "W t i = Some k" using endpoint_get [OF get] found by simp
    from endpointSteps.settles_at [OF assms(1) this] show ?thesis by (simp add: Some)
  qed
qed

lemma on_delivery:
  assumes "\<And>d. dv_id d = i \<Longrightarrow> moves (settlingD d) (m d)" and "moves alongD n"
  shows "moves alongD (bindA (ds_get (ws_deliveryStore SV) i) (\<lambda>found. case found of None \<Rightarrow> n | Some d \<Rightarrow> m d))"
  unfolding moves_iff_At
proof (intro allI, rule evolves.movesAt_bindA)
  fix s
  show "movesAt alongD (ds_get (ws_deliveryStore SV) i) s"
    using quietD [OF deliveries.keeps_get] by (simp add: moves_iff_At stores feltDbWebhookDeliveryStore_def deliveryStoreGet_def)
next
  fix s found t
  assume "ds_get (ws_deliveryStore SV) i s = (t, Inr found)"
  then have get: "deliveryStoreGet E i s = (t, Inr found)" by (simp add: stores feltDbWebhookDeliveryStore_def)
  show "movesAt alongD (case found of None \<Rightarrow> n | Some d \<Rightarrow> m d) t"
  proof (cases found)
    case None
    then show ?thesis using assms(2) by (simp add: moves_iff_At)
  next
    case (Some d)
    then have stored: "D t i = Some d" using delivery_get [OF get] by simp
    show ?thesis
    proof (cases "keyed dv_id (D t)")
      case True
      then have "dv_id d = i" using stored by (simp add: keyed_def)
      from deliverySteps.settles_at [OF assms(1) [OF this] stored] show ?thesis by (simp add: Some)
    next
      case False
      then show ?thesis by (intro movesAtI) (simp add: evolves_def)
    qed
  qed
qed

lemma disableEndpoint_moves:
  assumes "quietCaller C WEBHOOKS caller"
  shows "moves alongW (disableWebhookEndpoint E SV i input caller)"
proof -
  have sub: "quietCaller C {''webhook_endpoints''} caller" using assms by (rule quiet_subset) simp
  show ?thesis
    unfolding disableWebhookEndpoint_def
    by (intro evolves.moves_lifted on_endpoint settles.moves_lifted settles.moves_if settles.moves_ret evolves.moves_ret
        execute_guarded [OF operationW(2) sub] onSys_plain applyDisable_settles)
qed

subsection \<open>Deliveries\<close>

lemma updateClaimed_settles:
  assumes "\<And>n. dv_version d < n \<Longrightarrow> delivery_step (ws_maxRetryAttempts SV) d ((f d)\<lparr>dv_version := n\<rparr>)"
  shows "moves (settlingD d) (updateClaimed SV d f)"
  unfolding updateClaimed_def stores(2) feltDbWebhookDeliveryStore_def delivery_store.simps deliveryStoreUpdate_def storedDeliveries_eq
  by (rule deliveryLife.settles_update) (use assms in auto)

lemma recordAttempt_settles:
  assumes "dv_status d = Delivering"
  shows "moves (settlingD d) (recordAttempt E SV d result)"
  unfolding recordAttempt_def Let_def
  by (intro settles.moves_if settles.moves_lifted settles.moves_bindA settles.moves_ret updateClaimed_settles quiet_settlesD
      keeps_audit keeps_nowISO keeps_now)
    (use assms in \<open>auto simp: toISOString_Inr_iff intro: delivery_step.intros\<close>)

lemma keeps_attempt:
  assumes "quietCaller C M (Verified p)" and "EVIDENCE_COLLECTION \<notin> M"
  shows "moves (keeps C M) (attemptDelivery E N SV G tenantId endpoint ref d claimed p)"
proof -
  have "moves (onSys (keeps C M)) (deliveryEffect E N SV G opts endpoint ref claimed ctx)" for opts ctx
    unfolding deliveryEffect_def
    by (intro onKeeps.moves_bindA onKeeps.moves_prod onKeeps.moves_if onKeeps.moves_ret onKeeps.moves_raise onSys_plain
        keeps_validate keeps_post keeps_tool)
  then show ?thesis
    unfolding attemptDelivery_def
    by (intro keeps.moves_option keeps.moves_raise operation_frame.execute_moves [OF operationKeeps [OF assms(2)] assms(1)])
qed

lemma deliverClaimed_settles:
  assumes "dv_status claimed = Delivering"
  shows "moves (settlingD claimed) (deliverClaimed E N SV G tenantId endpoint ref dp d claimed)"
  unfolding deliverClaimed_def Let_def
  by (intro settles.moves_lifted settles.moves_bindA settles.moves_ret settles.moves_settle recordAttempt_settles [OF assms]
      quiet_settlesD keeps_attempt) (auto simp: EVIDENCE_COLLECTION_def intro: quiet_mint)

lemma refuse_settles:
  assumes "idle d" and "dv_id d = i"
  shows "moves (settlingD d) (refuseDelivery SV i d msg)"
  using updateClaimed_settles [of d "markFailed msg"] assms by (simp add: refuseDelivery_def updateClaimed_def delivery_step.refused)

lemma keeps_deny: "moves (keeps C {''webhook_deliveries''}) (denyDelivery E SV i endpoint tenantId pid reason)"
  unfolding denyDelivery_def by (rule keeps_audit) simp

lemma deliverAttested_settles:
  assumes "idle d" and "dv_id d = i" and "ownPrincipal d"
  shows "moves (settlingD d) (deliverAttested E N SV G tenantId i endpoint ref dp d)"
proof -
  have claim: "moves (settlingD d) (ds_claim (ws_deliveryStore SV) i (dv_version d))"
    unfolding stores(2) feltDbWebhookDeliveryStore_def delivery_store.simps deliveryStoreClaim_def
  proof (intro settles.moves_bindA settles.moves_liftR quiet_settlesD [OF keeps_date])
    fix t now
    show "moves (settlingD d) (casItem (c_updateIfVersion (e_deliveries E) i (dv_version d) (claimDelivery now)))"
      unfolding storedDeliveries_eq
      by (rule deliveryLife.settles_update) (use assms in \<open>auto intro: delivery_step.claimed\<close>)
  qed
  have "moves (settlingD d) (bindA (ds_claim (ws_deliveryStore SV) i (dv_version d)) (\<lambda>claim.
      case claim of None \<Rightarrow> ret (succeeded 200)
        | Some claimed \<Rightarrow> deliverClaimed E N SV G tenantId endpoint ref dp d claimed))"
    unfolding moves_iff_At
  proof (intro allI, rule settles.movesAt_bindA)
    fix s
    show "movesAt (settlingD d) (ds_claim (ws_deliveryStore SV) i (dv_version d)) s" using claim by (simp add: moves_iff_At)
  next
    fix s found t
    assume run: "ds_claim (ws_deliveryStore SV) i (dv_version d) s = (t, Inr found)"
    show "movesAt (settlingD d) (case found of None \<Rightarrow> ret (succeeded 200)
        | Some claimed \<Rightarrow> deliverClaimed E N SV G tenantId endpoint ref dp d claimed) t"
    proof (cases found)
      case None
      then show ?thesis by (simp add: settles.movesAt_done)
    next
      case (Some claimed)
      note at = delivery_claim [of i "dv_version d" s t claimed]
      have "D t i = Some claimed" "dv_status claimed = Delivering"
        using run Some at by (simp_all add: stores feltDbWebhookDeliveryStore_def)
      from deliverySteps.settles_at [OF deliverClaimed_settles [OF this(2)] this(1)]
      show ?thesis unfolding Some option.case movesAt_def by (rule deliverySteps.settles_evolve)
    qed
  qed
  then show ?thesis
    unfolding deliverAttested_def
    by (rule settles.moves_bindA [OF settles.moves_settle [OF quiet_settlesD [OF keeps_attest]] settles.moves_sum, rotated])
      (intro settles.moves_bindA settles.moves_ret refuse_settles assms(1,2) quiet_settlesD [OF keeps_deny])
qed

lemma deliverTo_settles:
  assumes "idle d" and "dv_id d = i" and "dv_tenantId d = tenantId"
  shows "moves (settlingD d) (deliverTo E N SV G tenantId i endpoint d)"
proof -
  have anonymous: "moves (settlingD d) (refuseAnonymous E SV tenantId i endpoint d)"
    unfolding refuseAnonymous_def
    by (intro settles.moves_bindA settles.moves_ret quiet_settlesD [OF keeps_deny] refuse_settles assms(1,2))
  have "ownPrincipal d" if "dv_principal d = Some dp" "\<not> dp_tenantId dp \<noteq> tenantId" for dp
    using that assms(3) by (simp add: ownPrincipal_def)
  then show ?thesis
    unfolding deliverTo_def
    by (intro settles.moves_if settles.moves_option settles.moves_bindA settles.moves_ret anonymous refuse_settles assms(1,2)
        deliverAttested_settles; assumption)
qed

lemma deliverWebhook_moves: "moves alongD (deliverWebhook E N SV tenantId i)"
  unfolding deliverWebhook_def
proof (rule on_delivery)
  fix d :: webhook_delivery
  assume id: "dv_id d = i"
  have "moves (settlingD d) (bindA (es_get (ws_endpointStore SV) (dv_endpointId d)) (\<lambda>foundEndpoint.
         case foundEndpoint of
           None \<Rightarrow> ret (failure None ''Endpoint not found'' INVALID_REQUEST)
         | Some endpoint \<Rightarrow>
             if wp_tenantId endpoint \<noteq> tenantId then ret (failure None ''Endpoint not found'' INVALID_REQUEST)
             else
             bindA (liftR (webhookGateway SV)) (\<lambda>G.
             if wp_applicationId endpoint \<noteq> Some (gw_application G)
             then ret (failure None ''Endpoint belongs to a different application'' DENIED)
             else deliverTo E N SV G tenantId i endpoint d)))" if "idle d" "dv_tenantId d = tenantId"
    unfolding gateway_of bindA_monad
    by (intro settles.moves_bindA settles.moves_option settles.moves_if settles.moves_ret quiet_settlesD [OF keeps_getEndpoint]
        deliverTo_settles that id)
  then show "moves (settlingD d)
     (if dv_tenantId d \<noteq> tenantId then ret (failure None ''Tenant mismatch'' DENIED)
      else if dv_status d = Delivered \<or> dv_status d = Delivering then ret (succeeded 200)
      else bindA (es_get (ws_endpointStore SV) (dv_endpointId d)) (\<lambda>foundEndpoint.
         case foundEndpoint of
           None \<Rightarrow> ret (failure None ''Endpoint not found'' INVALID_REQUEST)
         | Some endpoint \<Rightarrow>
             if wp_tenantId endpoint \<noteq> tenantId then ret (failure None ''Endpoint not found'' INVALID_REQUEST)
             else
             bindA (liftR (webhookGateway SV)) (\<lambda>G.
             if wp_applicationId endpoint \<noteq> Some (gw_application G)
             then ret (failure None ''Endpoint belongs to a different application'' DENIED)
             else deliverTo E N SV G tenantId i endpoint d)))"
    by (auto simp: idle_def settles.moves_ret)
qed (rule evolves.moves_ret)

lemma deliveryRound_moves: "moves alongD (deliveryRound E N SV tenantId)"
proof -
  have "moves (keeps C {''webhook_deliveries''}) (listWebhookDeliveries SV tenantId None None)"
    unfolding listWebhookDeliveries_def stores(2) feltDbWebhookDeliveryStore_def delivery_store.simps deliveryStoreList_def
    by (intro keeps.frame_rules deliveries.keeps_find)
  note quiet = quietD [OF this] quietD [OF keeps_nowISO]
  show ?thesis unfolding deliveryRound_def by (intro evolves.moves_bindA quiet evolves.moves_mapA deliverWebhook_moves)
qed

lemma applyReplay_settles:
  assumes "dv_id d = i" and "dv_tenantId d = pr_tenantId p"
  shows "moves (settlingD d) (applyReplay E SV tenantId i d p ctx)"
proof -
  have "moves (settlingD d) (ds_updateDelivery (ws_deliveryStore SV) i (dv_version d) (markReplayed (toDurablePrincipal p None dec)))" for dec
    using updateClaimed_settles [of d "markReplayed (toDurablePrincipal p None dec)"] assms
    by (simp add: updateClaimed_def delivery_step.replayed toDurablePrincipal_def)
  moreover have "moves (keeps C {''webhook_deliveries''}) (webhookAudit E SV ev)" for ev by (rule keeps_audit) simp
  ultimately show ?thesis
    unfolding applyReplay_def
    by (intro settles.moves_bindA settles.moves_option settles.moves_ret quiet_settlesD [of "webhookAudit E SV _"])
qed

lemma replayDelivery_moves:
  assumes "quietCaller C WEBHOOKS caller"
  shows "moves alongD (replayWebhookDelivery E SV tenantId i caller)"
proof -
  have sub: "quietCaller C {''webhook_deliveries''} caller" using assms by (rule quiet_subset) simp
  let ?rest = "\<lambda>p d. bindA (es_get (ws_endpointStore SV) (dv_endpointId d)) (\<lambda>foundEndpoint.
     case foundEndpoint of
       None \<Rightarrow> ret None
     | Some endpoint \<Rightarrow>
         if truthy (wp_disabledAt endpoint) then ret None
         else
         bindA (liftR (webhookGateway SV)) (\<lambda>G.
         if wp_applicationId endpoint \<noteq> Some (gw_application G) then ret None
         else execute E G ''webhooks.replay'' (Verified p)
           \<lparr>rs_type = ''webhook_delivery'', rs_tenantId = tenantId, rs_id = Some (dv_id d),
            rs_attributes = Some [(''endpointId'', wp_id endpoint)]\<rparr>
           (serviceOptions ''webhooks'')
           (\<lambda>ctx. plain (applyReplay E SV tenantId i d p ctx))))"
  have rest: "moves (settlingD d) (?rest p d)"
    if "requireVerifiedPrincipal caller = Inr p" "dv_id d = i" "dv_tenantId d = pr_tenantId p" for p d
    by (intro settles.moves_lifted settles.moves_bindA [OF quiet_settlesD [OF keeps_getEndpoint]] settles.moves_option
        settles.moves_if settles.moves_ret execute_guarded [OF operationD(2) sub that(1)] onSys_plain applyReplay_settles that)
  show ?thesis
    unfolding replayWebhookDelivery_def
  proof (intro evolves.moves_lifted evolves.moves_if evolves.moves_raise)
    fix p
    assume p: "requireVerifiedPrincipal caller = Inr p" and tenant: "\<not> pr_tenantId p \<noteq> tenantId"
    have eq: "bindA (getWebhookDelivery SV tenantId i) (\<lambda>found. case found of None \<Rightarrow> ret None | Some d \<Rightarrow> ?rest p d) =
      bindA (ds_get (ws_deliveryStore SV) i) (\<lambda>found. case found of None \<Rightarrow> ret None
        | Some d \<Rightarrow> if dv_tenantId d \<noteq> tenantId then ret None else ?rest p d)"
      by (auto simp: getWebhookDelivery_def bindA_def act_simps fun_eq_iff split: prod.splits sum.splits option.splits)
    show "moves alongD (bindA (getWebhookDelivery SV tenantId i) (\<lambda>found. case found of None \<Rightarrow> ret None | Some d \<Rightarrow> ?rest p d))"
      unfolding eq by (intro on_delivery settles.moves_if settles.moves_ret evolves.moves_ret rest [OF p]) (use tenant in auto)
  qed
qed

lemma mapA_all: "(\<And>x s t y. f x s = (t, Inr y) \<Longrightarrow> P y) \<Longrightarrow> mapA f xs s = (t, Inr ys) \<Longrightarrow> list_all P ys"
  by (induction xs arbitrary: s t ys) (auto simp: act_simps bindA_Inr_iff)

lemma emit_moves:
  assumes "quietCaller C WEBHOOKS caller"
  shows "moves alongD (emitWebhookEvent E SV input caller)"
proof -
  have sub: "quietCaller C {''webhook_deliveries''} caller" using assms by (rule quiet_subset) simp
  have audit: "moves (keeps C {''webhook_deliveries''}) (webhookAudit E SV ev)" for ev by (rule keeps_audit) simp
  have "moves alongD (queueDeliveries E SV input tenantId p ctx)" if "tenantId = pr_tenantId p" for tenantId p ctx
  proof -
    let ?new = "\<lambda>eventId createdAt endpoint. bindA (draw (e_uuid E)) (\<lambda>i.
        ret (newDelivery input tenantId p (cx_decisionId ctx) eventId createdAt i endpoint))"
    have list: "moves (keeps C M) (es_list (ws_endpointStore SV) tenantId)" for M
      unfolding stores(1) feltDbWebhookEndpointStore_def by (simp add: endpointStoreList_def endpoints.keeps_find)
    have new: "moves (keeps C M) (mapA (?new eventId createdAt) ks)" for M eventId createdAt ks
      by (intro keeps.moves_mapA keeps.moves_bindA keeps.moves_ret keeps_uuid)
    have store: "moves alongD (bindA (ds_createMultiple (ws_deliveryStore SV) ds) (\<lambda>_.
        bindA (mapA (\<lambda>d. webhookAudit E SV ((auditFor ''webhook.delivery.created'' tenantId (pr_principalId p) True)
              \<lparr>we_deliveryId := Some (dv_id d), we_endpointId := Some (dv_endpointId d)\<rparr>)) ds) (\<lambda>_. ret ds)))"
      if "list_all freshDelivery ds" for ds
      using batch_evolves [OF that]
      by (intro evolves.moves_bindA evolves.moves_ret evolves.moves_mapA quietD [OF audit])
        (simp add: stores feltDbWebhookDeliveryStore_def)
    have made: "moves alongD (bindA (mapA (?new eventId createdAt) ks) (\<lambda>ds.
        bindA (ds_createMultiple (ws_deliveryStore SV) ds) (\<lambda>_.
        bindA (mapA (\<lambda>d. webhookAudit E SV ((auditFor ''webhook.delivery.created'' tenantId (pr_principalId p) True)
              \<lparr>we_deliveryId := Some (dv_id d), we_endpointId := Some (dv_endpointId d)\<rparr>)) ds) (\<lambda>_. ret ds))))"
      for eventId createdAt ks
      unfolding moves_iff_At
    proof (intro allI, rule evolves.movesAt_bindA)
      fix s
      show "movesAt alongD (mapA (?new eventId createdAt) ks) s" using quietD [OF new] by (simp add: moves_iff_At)
    next
      fix s ds t
      assume "mapA (?new eventId createdAt) ks s = (t, Inr ds)"
      then have "list_all freshDelivery ds"
        by (rule mapA_all [rotated]) (use that in \<open>auto simp: bindA_Inr_iff act_simps newDelivery_def freshDelivery_def
            ownPrincipal_def toDurablePrincipal_def\<close>)
      from store [OF this] show "movesAt alongD (bindA (ds_createMultiple (ws_deliveryStore SV) ds) (\<lambda>_.
        bindA (mapA (\<lambda>d. webhookAudit E SV ((auditFor ''webhook.delivery.created'' tenantId (pr_principalId p) True)
              \<lparr>we_deliveryId := Some (dv_id d), we_endpointId := Some (dv_endpointId d)\<rparr>)) ds) (\<lambda>_. ret ds))) t"
        by (simp add: moves_iff_At)
    qed
    show ?thesis
      unfolding queueDeliveries_def Let_def
      by (rule evolves.moves_bindA [OF quietD [OF list]], rule evolves.moves_if, rule evolves.moves_ret,
          rule evolves.moves_bindA [OF quietD [OF keeps_uuid]], rule evolves.moves_bindA [OF quietD [OF keeps_nowISO]], rule made)
  qed
  note queue = this
  show ?thesis
    unfolding emitWebhookEvent_def
    by (intro evolves.moves_lifted execute_guarded [OF operationD(1) sub] onSys_plain queue)
      (auto simp: resolveTenant_def Let_def split: if_splits)
qed

text \<open>Delivering, emitting and replaying leave the endpoints alone; the rest leaves both alone.\<close>

lemma keeps_casDelivery: "moves (keeps C {''webhook_endpoints''}) (casItem (c_updateIfVersion (e_deliveries E) i v f))"
  unfolding casItem_def by (auto intro!: keeps.frame_rules deliveries.keeps_cas split: prod.splits)

lemma keeps_updateDelivery: "moves (keeps C {''webhook_endpoints''}) (ds_updateDelivery (ws_deliveryStore SV) i v f)"
  unfolding stores(2) feltDbWebhookDeliveryStore_def delivery_store.simps deliveryStoreUpdate_def by (rule keeps_casDelivery)

lemma keeps_claimDelivery: "moves (keeps C {''webhook_endpoints''}) (ds_claim (ws_deliveryStore SV) i v)"
  unfolding stores(2) feltDbWebhookDeliveryStore_def delivery_store.simps deliveryStoreClaim_def
  by (intro keeps.frame_rules keeps_casDelivery keeps_date)

lemma keeps_auditW: "moves (keeps C {''webhook_endpoints''}) (webhookAudit E SV ev)"
  by (rule keeps_audit) simp

lemma keeps_deliverClaimed: "moves (keeps C {''webhook_endpoints''}) (deliverClaimed E N SV G tenantId endpoint ref dp d claimed)"
  unfolding deliverClaimed_def Let_def recordAttempt_def updateClaimed_def
  by (rule keeps.moves_lifted) (intro keeps.moves_bindA keeps.moves_settle keeps.moves_if keeps.moves_ret keeps.moves_liftR
      keeps_attempt quiet_mint keeps_updateDelivery keeps_auditW keeps_nowISO keeps_now; simp add: EVIDENCE_COLLECTION_def quiet_mint)

lemma keeps_findDelivery: "moves (keeps C M) (ds_get (ws_deliveryStore SV) i)"
  unfolding stores(2) feltDbWebhookDeliveryStore_def by (simp add: deliveryStoreGet_def deliveries.keeps_get)

lemma keeps_deliver: "moves (keeps C {''webhook_endpoints''}) (deliverWebhook E N SV tenantId i)"
  unfolding deliverWebhook_def deliverTo_def deliverAttested_def refuseAnonymous_def refuseDelivery_def denyDelivery_def gateway_of bindA_monad
  by (intro keeps.moves_bindA keeps.moves_settle keeps.moves_if keeps.moves_option keeps.moves_sum keeps.moves_ret
      keeps_deliverClaimed keeps_claimDelivery keeps_updateDelivery keeps_auditW keeps_getEndpoint keeps_attest keeps_findDelivery)

lemma keeps_round: "moves (keeps C {''webhook_endpoints''}) (deliveryRound E N SV tenantId)"
  unfolding deliveryRound_def listWebhookDeliveries_def
  by (intro keeps.moves_bindA keeps.moves_mapA keeps_deliver keeps_nowISO)
    (simp add: stores(2) feltDbWebhookDeliveryStore_def deliveryStoreList_def keeps.frame_rules deliveries.keeps_find)

lemma keeps_replay:
  assumes "quietCaller C WEBHOOKS caller"
  shows "moves (keeps C {''webhook_endpoints''}) (replayWebhookDelivery E SV tenantId i caller)"
proof -
  have sub: "quietCaller C {''webhook_endpoints''} caller" using assms by (rule quiet_subset) simp
  have "moves (keeps C {''webhook_endpoints''}) (applyReplay E SV tenantId i d p ctx)" for d p ctx
    unfolding applyReplay_def
    by (intro keeps.moves_bindA keeps.moves_option keeps.moves_ret keeps_updateDelivery keeps_auditW)
  then show ?thesis
    unfolding replayWebhookDelivery_def
    by (intro keeps.moves_lifted keeps.moves_if keeps.moves_raise keeps.moves_option keeps.moves_ret
        keeps.moves_bindA [OF keeps_getDelivery] keeps.moves_bindA [OF keeps_getEndpoint]
        execute_guarded [OF operationKeeps sub] onSys_plain) (auto simp: EVIDENCE_COLLECTION_def)
qed

lemma keeps_emit:
  assumes "quietCaller C WEBHOOKS caller"
  shows "moves (keeps C {''webhook_endpoints''}) (emitWebhookEvent E SV input caller)"
proof -
  have sub: "quietCaller C {''webhook_endpoints''} caller" using assms by (rule quiet_subset) simp
  have "moves (keeps C {''webhook_endpoints''}) (ds_createMultiple (ws_deliveryStore SV) ds)" for ds
    unfolding stores(2) feltDbWebhookDeliveryStore_def delivery_store.simps deliveryStoreCreateMultiple_def
    by (intro keeps.moves_if keeps.moves_ret keeps_transaction) (auto simp: newDeliveryOp_def WEBHOOK_DELIVERIES_COLLECTION_def)
  moreover have "moves (keeps C M) (es_list (ws_endpointStore SV) tenantId)" for M tenantId
    unfolding stores(1) feltDbWebhookEndpointStore_def by (simp add: endpointStoreList_def endpoints.keeps_find)
  ultimately have "moves (keeps C {''webhook_endpoints''}) (queueDeliveries E SV input tenantId p ctx)" for tenantId p ctx
    unfolding queueDeliveries_def Let_def
    by (intro keeps.moves_bindA keeps.moves_if keeps.moves_ret keeps.moves_mapA keeps_uuid keeps_nowISO keeps_auditW)
  then show ?thesis
    unfolding emitWebhookEvent_def
    by (intro keeps.moves_lifted execute_guarded [OF operationKeeps sub] onSys_plain) (auto simp: EVIDENCE_COLLECTION_def)
qed

lemma keeps_registerIntegration:
  assumes "quietCaller C WEBHOOKS caller"
  shows "moves (keeps C WEBHOOKS) (registerIntegration E SV input caller)"
proof -
  have "moves (keeps C WEBHOOKS) (is_create (feltDbWebhookIntegrationStore E) k)" for k
    unfolding feltDbWebhookIntegrationStore_def integration_store.simps
    by (rule keeps_transaction) (auto simp: WEBHOOK_INTEGRATIONS_COLLECTION_def)
  moreover have "moves (keeps C WEBHOOKS) (webhookAudit E SV ev)" for ev by (rule keeps_audit) simp
  ultimately have "moves (keeps C WEBHOOKS) (storeNewIntegration E SV S tenantId application provider ref pid)"
    if "requireIntegrationStore SV = Inr S" for S tenantId application provider ref pid
    using that unfolding storeNewIntegration_def Let_def
    by (auto simp: requireIntegrationStore_def stores intro!: keeps.moves_bindA keeps.moves_ret keeps_uuid keeps_nowISO)
  then show ?thesis
    unfolding registerIntegration_def
    by (intro keeps.moves_lifted keeps.moves_option keeps.moves_raise execute_guarded [OF operationKeeps assms] onSys_plain)
      (auto simp: EVIDENCE_COLLECTION_def)
qed

end

section \<open>Inbound events\<close>

text \<open>
  A relation that ignores the collections outside \<open>M\<close> and holds for what the handlers of inbound
  events do, holds for the reception of an inbound event.
\<close>

locale inbound_frame = felt_webhook_service E C SV N fuel G + operation_frame E C G R M
  for E :: "'w env" and C SV N fuel G R M +
  assumes collections: "M \<subseteq> WEBHOOKS"
    and handled: "(provider, h) \<in> set (ws_inboundHandlers SV) \<Longrightarrow> moves R (h ev p ctx)"
begin

lemma acceptOnce_moves: "moves R (acceptOnce E SV (feltDbInboundWebhookReplayStore E) g p eventId sentAt body ctx)"
proof -
  have "moves (keeps C M) (rp_accept (feltDbInboundWebhookReplayStore E) k)" for k
    using collections unfolding feltDbInboundWebhookReplayStore_def replay_store.simps replayAccept_def
    by (intro keeps.frame_rules keeps_transaction) (auto simp: INBOUND_WEBHOOK_EVENTS_COLLECTION_def)
  then show ?thesis
    unfolding acceptOnce_def handleEvent_def
    by (intro moves_bindA moves_liftR moves_if moves_raise moves_option moves_ret kept [OF keeps_nowISO] kept [of "rp_accept _ _"]
        handled map_of_SomeD)
qed

lemma quiet_audit: "moves R (webhookAudit E SV ev)"
  by (intro kept keeps_audit) (use collections in auto)

lemma receiveAs_moves:
  assumes "mintVerifiedPrincipal (integrationClaims g) ByIntegration = Inr p"
  shows "moves R (receiveAs E SV (feltDbInboundWebhookReplayStore E) g p eventId timestamp sentAt signature body)"
proof -
  have tool: "moves (onSys R) (toolWithCredential E G ctx opts ref purpose (\<lambda>secret. liftR (f secret)))" for ctx opts ref purpose f
    by (rule onSys_weaken [OF keeps_tool unaffected])
  have on: "frame (onSys R)" by unfold_locales (auto simp: onSys_def R_refl intro: R_trans)
  have "moves (onSys R) (inboundEffect E SV G (feltDbInboundWebhookReplayStore E) opts g p eventId timestamp sentAt signature body ctx)" for opts ctx
    unfolding inboundEffect_def
    by (intro frame.moves_bindA [OF on] frame.moves_if [OF on] frame.moves_raise [OF on] tool onSys_plain acceptOnce_moves)
  note run = execute_moves [OF quiet_mint [OF assms] this]
  show ?thesis
    unfolding receiveAs_def gateway_of bindA_monad
    by (intro moves_catchA moves_bindA moves_ret moves_raise quiet_audit run)
qed

lemma receiveWebhook_moves: "moves R (receiveWebhook E SV q)"
proof -
  have get: "moves R (is_get (feltDbWebhookIntegrationStore E) i)" for i
    unfolding feltDbWebhookIntegrationStore_def integration_store.simps by (rule kept) (rule integrations.keeps_get)
  have fresh: "moves R (freshTime E SV t)" for t
    unfolding freshTime_def by (intro moves_option moves_ret moves_bindA kept [OF keeps_now])
  have "moves R (receiveFresh E SV (feltDbInboundWebhookReplayStore E) g eventId timestamp signature body time)"
    for g eventId timestamp signature body time
    unfolding receiveFresh_def by (intro moves_option moves_bindA moves_raise quiet_audit moves_lifted receiveAs_moves)
  then have "moves R (receiveFrom E SV (feltDbInboundWebhookReplayStore E) q g)" for g
    unfolding receiveFrom_def by (intro moves_lifted moves_prod moves_bindA fresh)
  then show ?thesis
    unfolding receiveWebhook_def requireIntegrationStore_def stores(4,5) option.case bindA_monad
    by (intro moves_bindA moves_option moves_raise moves_if moves_ret get) (auto split: jsval.split simp: get moves_ret)
qed

end

text \<open>
  The service with its handlers of inbound events. They are host code: what they do to the stored
  deliveries and endpoints is assumed to follow the steps that the service's own operations follow.
\<close>

locale handling_webhook_service = felt_webhook_service E C SV N fuel G
  for E :: "'w env" and C SV N fuel G +
  assumes handlers_deliveries: "(provider, h) \<in> set (ws_inboundHandlers SV) \<Longrightarrow> moves alongD (h ev p ctx)"
    and handlers_endpoints: "(provider, h) \<in> set (ws_inboundHandlers SV) \<Longrightarrow> moves alongW (h ev p ctx)"

sublocale handling_webhook_service \<subseteq> inboundD: inbound_frame E C SV N fuel G alongD "{''webhook_deliveries''}"
  by (intro inbound_frame.intro felt_webhook_service_axioms operationD(1) inbound_frame_axioms.intro handlers_deliveries) auto

sublocale handling_webhook_service \<subseteq> inboundW: inbound_frame E C SV N fuel G alongW "{''webhook_endpoints''}"
  by (intro inbound_frame.intro felt_webhook_service_axioms operationW(1) inbound_frame_axioms.intro handlers_endpoints) auto

section \<open>Operations\<close>

text \<open>
  The public operations of the service that reach the platform. Those without a caller (delivering,
  receiving) act as the principals they mint. Registering a handler only changes the service's table
  of handlers, so a run is the run of one service with the handlers it has.
\<close>

datatype webhook_op =
    CreateEndpoint jsobj
  | DisableEndpoint string jsobj
  | EmitEvent emit_input
  | ReadDeliveries jsobj
  | ReadDelivery jsobj
  | DeliverOne string string
  | DeliverDue string
  | ReplayDelivery string string
  | RegisterIntegration jsobj
  | ReceiveEvent inbound_request

fun runWebhookOp :: "'w env \<Rightarrow> 'w network \<Rightarrow> 'w webhook_service \<Rightarrow> 'w caller \<Rightarrow> webhook_op \<Rightarrow> 'w sys \<Rightarrow> 'w sys" where
  "runWebhookOp E N SV caller (CreateEndpoint input) = stateOf (createWebhookEndpoint E N SV input caller)"
| "runWebhookOp E N SV caller (DisableEndpoint i input) = stateOf (disableWebhookEndpoint E SV i input caller)"
| "runWebhookOp E N SV caller (EmitEvent input) = stateOf (emitWebhookEvent E SV input caller)"
| "runWebhookOp E N SV caller (ReadDeliveries input) = stateOf (readWebhookDeliveries E SV input caller)"
| "runWebhookOp E N SV caller (ReadDelivery input) = stateOf (readWebhookDelivery E SV input caller)"
| "runWebhookOp E N SV caller (DeliverOne tenantId i) = stateOf (deliverWebhook E N SV tenantId i)"
| "runWebhookOp E N SV caller (DeliverDue tenantId) = stateOf (deliveryRound E N SV tenantId)"
| "runWebhookOp E N SV caller (ReplayDelivery tenantId i) = stateOf (replayWebhookDelivery E SV tenantId i caller)"
| "runWebhookOp E N SV caller (RegisterIntegration input) = stateOf (registerIntegration E SV input caller)"
| "runWebhookOp E N SV caller (ReceiveEvent q) = stateOf (receiveWebhook E SV q)"

definition runWebhookOps ::
  "'w env \<Rightarrow> 'w network \<Rightarrow> 'w webhook_service \<Rightarrow> ('w caller \<times> webhook_op) list \<Rightarrow> 'w sys \<Rightarrow> 'w sys" where
  "runWebhookOps E N SV ops s = foldl (\<lambda>s (caller, op). runWebhookOp E N SV caller op s) s ops"

definition webhookCallersQuiet :: "('w \<Rightarrow> contents) \<Rightarrow> ('w caller \<times> webhook_op) list \<Rightarrow> bool" where
  "webhookCallersQuiet C ops \<longleftrightarrow> list_all (\<lambda>(caller, op). quietCaller C WEBHOOKS caller) ops"

context handling_webhook_service
begin

lemma webhookOp_moves:
  assumes "quietCaller C WEBHOOKS caller"
  shows "alongD s (runWebhookOp E N SV caller op s)" and "alongW s (runWebhookOp E N SV caller op s)"
proof -
  have both: "moves alongD m \<and> moves alongW m" if "moves (keeps C WEBHOOKS) m" for m :: "('w, 'b) service"
    using quietD [OF keeps_mono [OF that]] quietW [OF keeps_mono [OF that]] by simp
  note D_moves = createEndpoint_keeps [OF assms, THEN quietD] disableEndpoint_keeps [OF assms, THEN quietD] emit_moves [OF assms]
    keeps_readDeliveries [OF assms, THEN both, THEN conjunct1] keeps_readDelivery [OF assms, THEN both, THEN conjunct1]
    deliverWebhook_moves deliveryRound_moves replayDelivery_moves [OF assms]
    keeps_registerIntegration [OF assms, THEN both, THEN conjunct1] inboundD.receiveWebhook_moves
  note W_moves = createEndpoint_moves [OF assms] disableEndpoint_moves [OF assms] keeps_emit [OF assms, THEN quietW]
    keeps_readDeliveries [OF assms, THEN both, THEN conjunct2] keeps_readDelivery [OF assms, THEN both, THEN conjunct2]
    keeps_deliver [THEN quietW] keeps_round [THEN quietW] keeps_replay [OF assms, THEN quietW]
    keeps_registerIntegration [OF assms, THEN both, THEN conjunct2] inboundW.receiveWebhook_moves
  show "alongD s (runWebhookOp E N SV caller op s)"
    by (cases op) (simp_all add: moves_stateOf [where R = alongD] D_moves)
  show "alongW s (runWebhookOp E N SV caller op s)"
    by (cases op) (simp_all add: moves_stateOf [where R = alongW] W_moves)
qed

lemma webhookOps_move:
  "webhookCallersQuiet C ops \<Longrightarrow> alongD s (runWebhookOps E N SV ops s) \<and> alongW s (runWebhookOps E N SV ops s)"
proof (induction ops arbitrary: s)
  case (Cons q ops)
  obtain caller op where q: "q = (caller, op)" by (cases q)
  let ?s = "runWebhookOp E N SV caller op s"
  have "alongD s ?s" "alongW s ?s" using Cons.prems webhookOp_moves by (simp_all add: webhookCallersQuiet_def q)
  moreover have "alongD ?s (runWebhookOps E N SV ops ?s)" "alongW ?s (runWebhookOps E N SV ops ?s)"
    using Cons by (simp_all add: webhookCallersQuiet_def q)
  ultimately show ?case unfolding runWebhookOps_def foldl_Cons q prod.case by (blast intro: evolves.R_trans)
qed (simp add: runWebhookOps_def evolves.R_refl)

end

lemma delivery_steps_same: "(delivery_step M)\<^sup>*\<^sup>* k k' \<Longrightarrow> sameDelivery k k' \<and> (k' = k \<or> dv_version k < dv_version k')"
proof (induction rule: rtranclp_induct)
  case (step k' k'')
  then show ?case using delivery_step_same [of M k' k''] by (auto simp: sameDelivery_def)
qed (simp add: sameDelivery_def)

lemma endpoint_steps_same:
  "endpoint_step\<^sup>*\<^sup>* k k' \<Longrightarrow> sameEndpoint k k' \<and> (k' = k \<or> \<not> truthy (wp_disabledAt k) \<and> truthy (wp_disabledAt k'))"
proof (induction rule: rtranclp_induct)
  case base
  have "k = k\<lparr>wp_disabledAt := wp_disabledAt k, wp_version := wp_version k\<rparr>" by simp
  then show ?case unfolding sameEndpoint_def by blast
next
  case (step k' k'')
  have same: "sameEndpoint k k''"
    using step.IH endpoint_step_same [OF step.hyps(2)] unfolding sameEndpoint_def by force
  show ?case
  proof (cases "k' = k")
    case True
    then show ?thesis using same endpoint_step_same [OF step.hyps(2)] by blast
  next
    case False
    then show ?thesis using step.IH endpoint_step_same [OF step.hyps(2)] by blast
  qed
qed

section \<open>Properties\<close>

text \<open>
  C36: deliveries follow their life cycle. Whatever sequence of operations any callers run, inbound
  events among them whose handlers keep to the life cycle, every stored delivery stays stored and moves only along the steps of \<open>delivery_step\<close> with the service's
  limit of attempts (refused or claimed while idle, settled by the result of its attempt while being
  delivered, retried only below the limit and only after a result that may change, failed otherwise),
  and every new delivery starts pending, without attempts, as a principal of its tenant.
\<close>

lemma deliveries_follow_life_cycle:
  assumes "handling_webhook_service E C SV N fuel G" and "webhookCallersQuiet C ops" and "keyed dv_id (storedDeliveries C s)"
  shows "keyed dv_id (storedDeliveries C (runWebhookOps E N SV ops s)) \<and>
    progressBy (delivery_step (ws_maxRetryAttempts SV)) freshDelivery (storedDeliveries C s) (storedDeliveries C (runWebhookOps E N SV ops s))"
  using handling_webhook_service.webhookOps_move [OF assms(1,2), of s] assms(3) by (simp add: evolves_def)

text \<open>
  C37: stored deliveries stay sound. Whatever operations are run, inbound events among them whose
  handlers keep to the life cycle, a delivery keeps its tenant, endpoint, event and
  payload and only gains versions, its principal belongs to its tenant, a delivered one has a time and
  an attempt, one to be retried has a time for it, and a failed one has an error, provided the
  deliveries stored before were sound.
\<close>

lemma stored_deliveries_sound:
  assumes "handling_webhook_service E C SV N fuel G" and "webhookCallersQuiet C ops" and "keyed dv_id (storedDeliveries C s)"
    and "\<forall>i k. storedDeliveries C s i = Some k \<longrightarrow> wfDelivery k"
  shows "(\<forall>i k. storedDeliveries C (runWebhookOps E N SV ops s) i = Some k \<longrightarrow> wfDelivery k) \<and>
    (\<forall>i k. storedDeliveries C s i = Some k \<longrightarrow> (\<exists>k'. storedDeliveries C (runWebhookOps E N SV ops s) i = Some k' \<and>
       sameDelivery k k' \<and> (k' = k \<or> dv_version k < dv_version k')))"
proof -
  have move: "progressBy (delivery_step (ws_maxRetryAttempts SV)) freshDelivery (storedDeliveries C s) (storedDeliveries C (runWebhookOps E N SV ops s))"
    using handling_webhook_service.webhookOps_move [OF assms(1,2), of s] assms(3) by (simp add: evolves_def)
  have "wfDelivery k" if "storedDeliveries C (runWebhookOps E N SV ops s) i = Some k" for i k
    by (rule progressBy_invariant [OF move that]) (use assms(4) fresh_wf delivery_step_wf in blast)+
  moreover have "\<exists>k'. storedDeliveries C (runWebhookOps E N SV ops s) i = Some k' \<and> sameDelivery k k' \<and> (k' = k \<or> dv_version k < dv_version k')"
    if "storedDeliveries C s i = Some k" for i k
    using spec [OF move [unfolded progressBy_def], of i] that delivery_steps_same by fastforce
  ultimately show ?thesis by blast
qed

text \<open>
  C38: the destination of an endpoint is bound when it is registered. Whatever operations are run,
  inbound events among them whose handlers do not change endpoints otherwise, an endpoint that was stored is the same afterwards except that it may have been disabled, which is final; and a new
  endpoint has a signing credential reference and the URL of a destination that passed validation.
\<close>

lemma endpoints_bound_at_registration:
  assumes "handling_webhook_service E C SV N fuel G" and "webhookCallersQuiet C ops" and "keyed wp_id (storedEndpoints C s)"
  shows "(\<forall>i k. storedEndpoints C s i = Some k \<longrightarrow> (\<exists>k'. storedEndpoints C (runWebhookOps E N SV ops s) i = Some k' \<and>
       sameEndpoint k k' \<and> (k' = k \<or> \<not> truthy (wp_disabledAt k) \<and> truthy (wp_disabledAt k')))) \<and>
    (\<forall>i k'. storedEndpoints C s i = None \<longrightarrow> storedEndpoints C (runWebhookOps E N SV ops s) i = Some k' \<longrightarrow>
       (\<exists>k. freshEndpoint N (ws_allowPrivate SV) k \<and> sameEndpoint k k'))"
proof -
  have move: "progressBy endpoint_step (freshEndpoint N (ws_allowPrivate SV)) (storedEndpoints C s) (storedEndpoints C (runWebhookOps E N SV ops s))"
    using handling_webhook_service.webhookOps_move [OF assms(1,2), of s] assms(3) by (simp add: evolves_def)
  have "\<exists>k'. storedEndpoints C (runWebhookOps E N SV ops s) i = Some k' \<and> sameEndpoint k k' \<and>
      (k' = k \<or> \<not> truthy (wp_disabledAt k) \<and> truthy (wp_disabledAt k'))" if "storedEndpoints C s i = Some k" for i k
    using spec [OF move [unfolded progressBy_def], of i] that endpoint_steps_same by fastforce
  moreover have "\<exists>k. freshEndpoint N (ws_allowPrivate SV) k \<and> sameEndpoint k k'"
    if "storedEndpoints C s i = None" "storedEndpoints C (runWebhookOps E N SV ops s) i = Some k'" for i k'
    using spec [OF move [unfolded progressBy_def], of i] that endpoint_steps_same by fastforce
  ultimately show ?thesis by blast
qed

end
