(* ===== verification/WebhookRuns.thy ===== *)
theory WebhookRuns
  imports WebhookLifecycle
begin

text \<open>
  What a run of the webhook service can do outside: which requests a delivery posts, and when an
  inbound event reaches its handler.
\<close>

section \<open>Where two runs differ\<close>

lemma bindA_differs: "bindA m k s \<noteq> bindA m k' s \<Longrightarrow> \<exists>t x. m s = (t, Inr x) \<and> k x t \<noteq> k' x t"
  by (auto simp: bindA_def split: prod.splits sum.splits)

lemma bindA_differs_first: "bindA m k s \<noteq> bindA m' k s \<Longrightarrow> m s \<noteq> m' s"
  by (auto simp: bindA_def)

lemma settle_differs: "settle m s \<noteq> settle m' s \<Longrightarrow> m s \<noteq> m' s"
  by (auto simp: settle_def)

lemma bindA_lifted: "bindA (liftR r) k s \<noteq> bindA (liftR r) k' s \<Longrightarrow> \<exists>x. r = Inr x \<and> k x s \<noteq> k' x s"
  by (drule bindA_differs) (auto simp: act_simps)

lemma catchA_differs: "catchA m h s \<noteq> catchA m' h s \<Longrightarrow> m s \<noteq> m' s"
  by (auto simp: catchA_def)

text \<open>
  Two operations that differ only in their effects differ in a run of the effect, which is authorized
  and recorded.
\<close>

lemma execute_effects_differ:
  assumes "execute E G cap caller r opts f s \<noteq> execute E G cap caller r opts g s"
  obtains requestId startedAt s1 s2 ctx u1 now u2 i s3 where
    "executeStart E opts s = (s1, Inr (requestId, startedAt))"
    "authorize E G cap caller r requestId s1 = (s2, Inr ctx)"
    "draw (e_now E) s2 = (u1, Inr now)" "draw (e_uuid E) u1 = (u2, Inr i)"
    "evidenceRecord E (evidenceFor ctx opts i startedAt Started) u2 = (s3, Inr ())"
    "f ctx (s3, \<lparr>tl_refs = [], tl_stored = None\<rparr>) \<noteq> g ctx (s3, \<lparr>tl_refs = [], tl_stored = None\<rparr>)"
proof -
  from bindA_differs [OF assms [unfolded execute_def]] obtain s1 requestId startedAt where
    start: "executeStart E opts s = (s1, Inr (requestId, startedAt))" and rest:
    "bindA (catchA (authorize E G cap caller r requestId)
       (\<lambda>e. bindA (recordRefusal E G cap caller r opts requestId startedAt e) (\<lambda>_. raise e)))
       (\<lambda>ctx. runEffect E (Issued ctx) opts f (Some startedAt)) s1 \<noteq>
     bindA (catchA (authorize E G cap caller r requestId)
       (\<lambda>e. bindA (recordRefusal E G cap caller r opts requestId startedAt e) (\<lambda>_. raise e)))
       (\<lambda>ctx. runEffect E (Issued ctx) opts g (Some startedAt)) s1"
    by (auto simp: case_prod_beta)
  from bindA_differs [OF rest] obtain s2 ctx where
    auth: "authorize E G cap caller r requestId s1 = (s2, Inr ctx)"
    and run: "runEffect E (Issued ctx) opts f (Some startedAt) s2 \<noteq> runEffect E (Issued ctx) opts g (Some startedAt) s2"
    by (auto simp: catchA_Inr_iff bindA_Inr_iff act_simps)
  from run obtain u1 now c u2 i s3 where steps: "draw (e_now E) s2 = (u1, Inr now)"
      "assertExecutionContext E (Issued ctx) (claimedCapability (Issued ctx)) None now = Inr c"
      "draw (e_uuid E) u1 = (u2, Inr i)" "evidenceRecord E (evidenceFor c opts i startedAt Started) u2 = (s3, Inr ())"
    and perf: "performEffect E opts i (f c) s3 \<noteq> performEffect E opts i (g c) s3"
    unfolding runEffect_def option.case bindA_monad
    by (auto dest!: bindA_differs simp: act_simps)
  have "c = ctx" using steps(2) by (auto simp: assertExecutionContext_def split: if_splits)
  moreover have "f c (s3, \<lparr>tl_refs = [], tl_stored = None\<rparr>) \<noteq> g c (s3, \<lparr>tl_refs = [], tl_stored = None\<rparr>)"
    using perf by (auto simp: performEffect_def)
  ultimately show thesis using that start auth steps by blast
qed

context gateway_platform
begin

text \<open>The effect runs on collections that only the evidence and the caller's credential check have touched.\<close>

lemma execute_effects_differ_from:
  assumes "execute E G cap caller r opts f s \<noteq> execute E G cap caller r opts g s"
    and "quietCaller C N caller" and "EVIDENCE_COLLECTION \<notin> N"
  obtains requestId s1 s2 ctx s3 where "authorize E G cap caller r requestId s1 = (s2, Inr ctx)" "keeps C N s s3"
    "f ctx (s3, \<lparr>tl_refs = [], tl_stored = None\<rparr>) \<noteq> g ctx (s3, \<lparr>tl_refs = [], tl_stored = None\<rparr>)"
  using assms(1)
proof (rule execute_effects_differ)
  fix requestId startedAt s1 s2 ctx u1 now u2 i s3
  assume steps: "executeStart E opts s = (s1, Inr (requestId, startedAt))" "authorize E G cap caller r requestId s1 = (s2, Inr ctx)"
    "draw (e_now E) s2 = (u1, Inr now)" "draw (e_uuid E) u1 = (u2, Inr i)"
    "evidenceRecord E (evidenceFor ctx opts i startedAt Started) u2 = (s3, Inr ())"
    and diff: "f ctx (s3, \<lparr>tl_refs = [], tl_stored = None\<rparr>) \<noteq> g ctx (s3, \<lparr>tl_refs = [], tl_stored = None\<rparr>)"
  have "keeps C N s s1" "keeps C N s1 s2" "keeps C N s2 u1" "keeps C N u1 u2" "keeps C N u2 s3"
    using movesD [OF keeps_executeStart steps(1)] movesD [OF keeps_quiet_authorize [OF assms(2)] steps(2)]
      movesD [OF keeps_now steps(3)] movesD [OF keeps_uuid steps(4)] movesD [OF keeps_evidenceRecord [OF assms(3)] steps(5)] .
  then have "keeps C N s s3" by (metis keeps.R_trans)
  then show thesis using that steps(2) diff by blast
qed

end

section \<open>Requests\<close>

abbreviation posting :: "'w network \<Rightarrow> (http_request \<Rightarrow> ('w, exn, http_outcome) act) \<Rightarrow> 'w network" where
  "posting N post \<equiv> N\<lparr>nw_post := post\<rparr>"

lemma validate_posting [simp]: "validateDestination (posting N post) = validateDestination N"
  by (intro ext) (simp add: validateDestination_def resolveHost_def cong: option.case_cong if_cong)

lemma post_differs:
  assumes "performHttpDelivery N SV u a d payload signature s \<noteq> performHttpDelivery (posting N post) SV u a d payload signature s"
  shows "\<exists>w. nw_post N (deliveryRequest SV u a d payload signature) w \<noteq> post (deliveryRequest SV u a d payload signature) w"
proof (rule ccontr)
  assume "\<not> ?thesis"
  then have "ext (nw_post N (deliveryRequest SV u a d payload signature)) s =
      ext (nw_post (posting N post) (deliveryRequest SV u a d payload signature)) s"
    by (simp add: ext_def)
  then show False using assms by (simp add: performHttpDelivery_def bindA_def)
qed

text \<open>A credential that was used was resolved by the custody for the context, and bound to its resource.\<close>

lemma tool_resolved:
  assumes "toolWithCredential E G ctx opts ref purpose (\<lambda>secret. liftR (f secret)) \<sigma> = (\<tau>, Inr x)"
  shows "\<exists>cu w w' secret. gw_credentials G = Some cu \<and> attribute (cx_resource ctx) ''credentialRef'' = Some ref \<and>
    cu_acquire cu (credentialReference ref (cx_tenantId ctx) (eo_provider opts)) (custodyAccess ctx purpose) w = (w', Inr secret) \<and>
    f secret = Inr x"
proof -
  obtain s log where \<sigma>: "\<sigma> = (s, log)" by (cases \<sigma>)
  from assms obtain \<sigma>1 where run: "withCredential E G (Issued ctx) ref purpose (\<lambda>secret. liftR (f secret)) (eo_provider opts) \<sigma>1 = (\<tau>, Inr x)"
    by (auto simp: toolWithCredential_def bindA_Inr_iff)
  then obtain s1 log1 s2 c where "custodyContext E (Issued ctx) ref s1 = (s2, Inr c)"
    and rest: "(case gw_credentials G of
       None \<Rightarrow> raise (ServiceAuthorityError AUTHORITY_UNAVAILABLE
         ''No AuthBoundry credential resolver is configured'' (noDetails\<lparr>ed_capability := Some (cx_capability c)\<rparr>))
     | Some cu \<Rightarrow>
         let reference = credentialReference ref (cx_tenantId c) (eo_provider opts); access = custodyAccess c purpose;
             failed = (\<lambda>e. raise (mapCredentialFailure e (cx_capability c) False))
         in bindA (settle (plain (ext (cu_acquire cu reference access)))) (\<lambda>acquired.
            case acquired of
              Inl e \<Rightarrow> failed e
            | Inr secret \<Rightarrow>
                bindA (settle (liftR (f secret))) (\<lambda>used.
                bindA (settle (plain (ext (cu_release cu reference access)))) (\<lambda>released.
                case used of
                  Inl e \<Rightarrow> raise e
                | Inr x \<Rightarrow> (case released of Inl e \<Rightarrow> failed e | Inr _ \<Rightarrow> ret x))))) (s2, log1) = (\<tau>, Inr x)"
    by (cases \<sigma>1) (auto simp: withCredential_def bindA_Inr_iff plain_Inr_iff)
  then have c: "c = ctx" "attribute (cx_resource ctx) ''credentialRef'' = Some ref"
    by (auto simp: custodyContext_def bindA_Inr_iff act_simps assertExecutionContext_def split: if_splits)
  obtain cu where cu: "gw_credentials G = Some cu" using rest by (cases "gw_credentials G") (simp_all add: act_simps)
  with rest obtain secret where "f secret = Inr x"
      "\<exists>w w'. cu_acquire cu (credentialReference ref (cx_tenantId c) (eo_provider opts)) (custodyAccess c purpose) w = (w', Inr secret)"
    by (auto simp: Let_def bindA_Inr_iff settle_iff act_simps plain_def ext_eq_iff split: prod.splits sum.splits)
  then show ?thesis using cu c by blast
qed

section \<open>What a delivery posts\<close>

text \<open>The effect of a delivery posts one request, signed for the body it carries.\<close>

lemma effect_differs:
  assumes "deliveryEffect E N SV G opts endpoint ref d ctx \<sigma> \<noteq> deliveryEffect E (posting N post) SV G opts endpoint ref d ctx \<sigma>"
  shows "\<exists>v v' u a w1 w2 cu secret key w. validateDestination N (ws_allowPrivate SV) (wp_url endpoint) v = (v', Inr (u, a)) \<and>
    gw_credentials G = Some cu \<and> attribute (cx_resource ctx) ''credentialRef'' = Some ref \<and>
    cu_acquire cu (credentialReference ref (cx_tenantId ctx) (eo_provider opts)) (custodyAccess ctx ''webhook.sign'') w1 = (w2, Inr secret) \<and>
    signingSecretValue (rv_value secret) = Inr key \<and>
    nw_post N (deliveryRequest SV u a d (deliveryBody d) (signWebhookPayload E key (deliveryBody d))) w \<noteq>
      post (deliveryRequest SV u a d (deliveryBody d) (signWebhookPayload E key (deliveryBody d))) w"
proof -
  from bindA_differs [OF assms [unfolded deliveryEffect_def validate_posting]] obtain \<sigma>1 u a where
    valid: "plain (validateDestination N (ws_allowPrivate SV) (wp_url endpoint)) \<sigma> = (\<sigma>1, Inr (u, a))"
    and rest: "bindA (toolWithCredential E G ctx opts ref ''webhook.sign''
        (\<lambda>secret. liftR (bindR (signingSecretValue (rv_value secret)) (\<lambda>key. Inr (signWebhookPayload E key (deliveryBody d))))))
      (\<lambda>signature. bindA (plain (performHttpDelivery N SV u a d (deliveryBody d) signature)) (\<lambda>outcome.
        if dr_success outcome then ret outcome
        else raise (ServiceAuthorityError PROVIDER_ERROR
            (case dr_error outcome of Some msg \<Rightarrow> msg | None \<Rightarrow> ''Webhook delivery failed'') (noDetails\<lparr>ed_outcome := Some outcome\<rparr>)))) \<sigma>1 \<noteq>
      bindA (toolWithCredential E G ctx opts ref ''webhook.sign''
        (\<lambda>secret. liftR (bindR (signingSecretValue (rv_value secret)) (\<lambda>key. Inr (signWebhookPayload E key (deliveryBody d))))))
      (\<lambda>signature. bindA (plain (performHttpDelivery (posting N post) SV u a d (deliveryBody d) signature)) (\<lambda>outcome.
        if dr_success outcome then ret outcome
        else raise (ServiceAuthorityError PROVIDER_ERROR
            (case dr_error outcome of Some msg \<Rightarrow> msg | None \<Rightarrow> ''Webhook delivery failed'') (noDetails\<lparr>ed_outcome := Some outcome\<rparr>)))) \<sigma>1"
    by (auto simp: case_prod_beta)
  from bindA_differs [OF rest] obtain \<sigma>2 signature where
    tool: "toolWithCredential E G ctx opts ref ''webhook.sign''
        (\<lambda>secret. liftR (bindR (signingSecretValue (rv_value secret)) (\<lambda>key. Inr (signWebhookPayload E key (deliveryBody d))))) \<sigma>1 = (\<sigma>2, Inr signature)"
    and last: "plain (performHttpDelivery N SV u a d (deliveryBody d) signature) \<sigma>2 \<noteq>
      plain (performHttpDelivery (posting N post) SV u a d (deliveryBody d) signature) \<sigma>2"
    by (auto dest: bindA_differs_first)
  obtain v log where v: "\<sigma> = (v, log)" by (cases \<sigma>)
  obtain v' where v': "validateDestination N (ws_allowPrivate SV) (wp_url endpoint) v = (v', Inr (u, a))"
    using valid v by (auto simp: plain_Inr_iff)
  from tool_resolved [OF tool] obtain cu w1 w2 secret where
    cu: "gw_credentials G = Some cu" "attribute (cx_resource ctx) ''credentialRef'' = Some ref"
      "cu_acquire cu (credentialReference ref (cx_tenantId ctx) (eo_provider opts)) (custodyAccess ctx ''webhook.sign'') w1 = (w2, Inr secret)"
    and sign: "bindR (signingSecretValue (rv_value secret)) (\<lambda>key. Inr (signWebhookPayload E key (deliveryBody d))) = Inr signature"
    by blast
  then obtain key where key: "signingSecretValue (rv_value secret) = Inr key" "signature = signWebhookPayload E key (deliveryBody d)"
    by (auto simp: bindR_Inr_iff)
  have "performHttpDelivery N SV u a d (deliveryBody d) signature (fst \<sigma>2) \<noteq> performHttpDelivery (posting N post) SV u a d (deliveryBody d) signature (fst \<sigma>2)"
    using last by (cases \<sigma>2) (auto simp: plain_def)
  from post_differs [OF this] show ?thesis using v' cu key by blast
qed

lemma attempt_differs:
  assumes "attemptDelivery E N SV G tenantId endpoint ref d claimed p s \<noteq> attemptDelivery E (posting N post) SV G tenantId endpoint ref d claimed p s"
  shows "\<exists>u requestId s1 s2 ctx \<sigma>. nw_url N (wp_url endpoint) = Some u \<and>
    authorize E G ''webhooks.deliver'' (Verified p)
      \<lparr>rs_type = ''webhook_delivery'', rs_tenantId = tenantId, rs_id = Some (dv_id d),
       rs_attributes = Some [(''endpointId'', wp_id endpoint), (''destination'', ur_origin u),
         (''eventType'', dv_eventType d), (''credentialRef'', ref)]\<rparr> requestId s1 = (s2, Inr ctx) \<and>
    deliveryEffect E N SV G (deliveryOptions ref) endpoint ref claimed ctx \<sigma> \<noteq>
      deliveryEffect E (posting N post) SV G (deliveryOptions ref) endpoint ref claimed ctx \<sigma>"
proof (cases "nw_url N (wp_url endpoint)")
  case (Some u)
  have "execute E G ''webhooks.deliver'' (Verified p)
      \<lparr>rs_type = ''webhook_delivery'', rs_tenantId = tenantId, rs_id = Some (dv_id d),
       rs_attributes = Some [(''endpointId'', wp_id endpoint), (''destination'', ur_origin u),
         (''eventType'', dv_eventType d), (''credentialRef'', ref)]\<rparr> (deliveryOptions ref)
      (deliveryEffect E N SV G (deliveryOptions ref) endpoint ref claimed) s \<noteq>
    execute E G ''webhooks.deliver'' (Verified p)
      \<lparr>rs_type = ''webhook_delivery'', rs_tenantId = tenantId, rs_id = Some (dv_id d),
       rs_attributes = Some [(''endpointId'', wp_id endpoint), (''destination'', ur_origin u),
         (''eventType'', dv_eventType d), (''credentialRef'', ref)]\<rparr> (deliveryOptions ref)
      (deliveryEffect E (posting N post) SV G (deliveryOptions ref) endpoint ref claimed) s"
    using assms Some by (simp add: attemptDelivery_def)
  from this show ?thesis by (rule execute_effects_differ) (use Some in blast)
qed (use assms in \<open>simp add: attemptDelivery_def\<close>)

text \<open>The stages of a delivery before its effect.\<close>

lemma claimed_differs:
  assumes "deliverClaimed E N SV G tenantId endpoint ref dp d claimed s \<noteq> deliverClaimed E (posting N post) SV G tenantId endpoint ref dp d claimed s"
  shows "\<exists>p. mintVerifiedPrincipal (runClaims dp (dv_id d @ '':'' @ intString (dv_attemptCount claimed + 1))) ByDelivery = Inr p \<and>
    attemptDelivery E N SV G tenantId endpoint ref d claimed p s \<noteq> attemptDelivery E (posting N post) SV G tenantId endpoint ref d claimed p s"
proof -
  from bindA_lifted [OF assms [unfolded deliverClaimed_def]] obtain p where
    "mintVerifiedPrincipal (runClaims dp (dv_id d @ '':'' @ intString (dv_attemptCount claimed + 1))) ByDelivery = Inr p"
    and rest: "bindA (settle (attemptDelivery E N SV G tenantId endpoint ref d claimed p)) (\<lambda>r.
       let result = (case r of Inl e \<Rightarrow> failureResult e | Inr x \<Rightarrow> x) in
       bindA (recordAttempt E SV claimed result) (\<lambda>_. ret result)) s \<noteq>
     bindA (settle (attemptDelivery E (posting N post) SV G tenantId endpoint ref d claimed p)) (\<lambda>r.
       let result = (case r of Inl e \<Rightarrow> failureResult e | Inr x \<Rightarrow> x) in
       bindA (recordAttempt E SV claimed result) (\<lambda>_. ret result)) s"
    by blast
  then show ?thesis using settle_differs [OF bindA_differs_first [OF rest]] by blast
qed

lemma attested_differs:
  assumes "deliverAttested E N SV G tenantId i endpoint ref dp d s \<noteq> deliverAttested E (posting N post) SV G tenantId i endpoint ref dp d s"
  shows "\<exists>s1 s2 claimed. attest E G (Some dp) [''webhooks.emit'', ''webhooks.replay''] s = (s1, Inr ()) \<and>
    ds_claim (ws_deliveryStore SV) i (dv_version d) s1 = (s2, Inr (Some claimed)) \<and>
    deliverClaimed E N SV G tenantId endpoint ref dp d claimed s2 \<noteq> deliverClaimed E (posting N post) SV G tenantId endpoint ref dp d claimed s2"
proof -
  from bindA_differs [OF assms [unfolded deliverAttested_def]] obtain s1 where
    "attest E G (Some dp) [''webhooks.emit'', ''webhooks.replay''] s = (s1, Inr ())"
    and rest: "bindA (ds_claim (ws_deliveryStore SV) i (dv_version d))
        (\<lambda>claim. case claim of None \<Rightarrow> ret (succeeded 200)
          | Some claimed \<Rightarrow> deliverClaimed E N SV G tenantId endpoint ref dp d claimed) s1 \<noteq>
      bindA (ds_claim (ws_deliveryStore SV) i (dv_version d))
        (\<lambda>claim. case claim of None \<Rightarrow> ret (succeeded 200)
          | Some claimed \<Rightarrow> deliverClaimed E (posting N post) SV G tenantId endpoint ref dp d claimed) s1"
    by (auto simp: settle_iff split: sum.splits) (metis (full_types) old.unit.exhaust sum.exhaust_sel)
  moreover from bindA_differs [OF rest] obtain s2 claimed where
    "ds_claim (ws_deliveryStore SV) i (dv_version d) s1 = (s2, Inr (Some claimed))"
    "deliverClaimed E N SV G tenantId endpoint ref dp d claimed s2 \<noteq> deliverClaimed E (posting N post) SV G tenantId endpoint ref dp d claimed s2"
    by (auto split: option.splits)
  ultimately show ?thesis by blast
qed

lemma to_differs:
  assumes "deliverTo E N SV G tenantId i endpoint d s \<noteq> deliverTo E (posting N post) SV G tenantId i endpoint d s"
  shows "\<exists>dp ref. \<not> truthy (wp_disabledAt endpoint) \<and> dv_principal d = Some dp \<and> dp_tenantId dp = tenantId \<and>
    keepTruthy (wp_signingCredentialRef endpoint) = Some ref \<and>
    deliverAttested E N SV G tenantId i endpoint ref dp d s \<noteq> deliverAttested E (posting N post) SV G tenantId i endpoint ref dp d s"
  using assms by (auto simp: deliverTo_def split: option.splits if_splits)

lemma deliver_differs:
  assumes "deliverWebhook E N SV tenantId i s \<noteq> deliverWebhook E (posting N post) SV tenantId i s"
  shows "\<exists>s1 d s2 endpoint G. ds_get (ws_deliveryStore SV) i s = (s1, Inr (Some d)) \<and> dv_tenantId d = tenantId \<and> idle d \<and>
    es_get (ws_endpointStore SV) (dv_endpointId d) s1 = (s2, Inr (Some endpoint)) \<and> wp_tenantId endpoint = tenantId \<and>
    webhookGateway SV = Inr G \<and> wp_applicationId endpoint = Some (gw_application G) \<and>
    deliverTo E N SV G tenantId i endpoint d s2 \<noteq> deliverTo E (posting N post) SV G tenantId i endpoint d s2"
proof -
  from bindA_differs [OF assms [unfolded deliverWebhook_def]] obtain s1 d where
    first: "ds_get (ws_deliveryStore SV) i s = (s1, Inr (Some d))" "dv_tenantId d = tenantId" "idle d"
    and rest: "bindA (es_get (ws_endpointStore SV) (dv_endpointId d)) (\<lambda>foundEndpoint.
         case foundEndpoint of
           None \<Rightarrow> ret (failure None ''Endpoint not found'' INVALID_REQUEST)
         | Some endpoint \<Rightarrow>
             if wp_tenantId endpoint \<noteq> tenantId then ret (failure None ''Endpoint not found'' INVALID_REQUEST)
             else bindA (liftR (webhookGateway SV)) (\<lambda>G.
               if wp_applicationId endpoint \<noteq> Some (gw_application G)
               then ret (failure None ''Endpoint belongs to a different application'' DENIED)
               else deliverTo E N SV G tenantId i endpoint d)) s1 \<noteq>
       bindA (es_get (ws_endpointStore SV) (dv_endpointId d)) (\<lambda>foundEndpoint.
         case foundEndpoint of
           None \<Rightarrow> ret (failure None ''Endpoint not found'' INVALID_REQUEST)
         | Some endpoint \<Rightarrow>
             if wp_tenantId endpoint \<noteq> tenantId then ret (failure None ''Endpoint not found'' INVALID_REQUEST)
             else bindA (liftR (webhookGateway SV)) (\<lambda>G.
               if wp_applicationId endpoint \<noteq> Some (gw_application G)
               then ret (failure None ''Endpoint belongs to a different application'' DENIED)
               else deliverTo E (posting N post) SV G tenantId i endpoint d)) s1"
    by (auto simp: idle_def split: option.splits if_splits)
  from bindA_differs [OF rest] obtain s2 endpoint where
    second: "es_get (ws_endpointStore SV) (dv_endpointId d) s1 = (s2, Inr (Some endpoint))" "wp_tenantId endpoint = tenantId"
    and last: "bindA (liftR (webhookGateway SV)) (\<lambda>G.
               if wp_applicationId endpoint \<noteq> Some (gw_application G)
               then ret (failure None ''Endpoint belongs to a different application'' DENIED)
               else deliverTo E N SV G tenantId i endpoint d) s2 \<noteq>
      bindA (liftR (webhookGateway SV)) (\<lambda>G.
               if wp_applicationId endpoint \<noteq> Some (gw_application G)
               then ret (failure None ''Endpoint belongs to a different application'' DENIED)
               else deliverTo E (posting N post) SV G tenantId i endpoint d) s2"
    by (auto split: option.splits if_splits)
  from bindA_lifted [OF last] obtain G where "webhookGateway SV = Inr G" "wp_applicationId endpoint = Some (gw_application G)"
    "deliverTo E N SV G tenantId i endpoint d s2 \<noteq> deliverTo E (posting N post) SV G tenantId i endpoint d s2"
    by (auto split: if_splits)
  with first second show ?thesis by blast
qed

lemma body_claimed: "deliveryBody ((claimDelivery at d)\<lparr>dv_version := n\<rparr>) = deliveryBody d"
  by (cases d) (simp add: deliveryBody_def claimDelivery_def)

context felt_webhook_service
begin

lemma get_delivery:
  assumes "ds_get (ws_deliveryStore SV) i s = (t, Inr (Some d))"
  shows "D s i = Some d" and "keeps C UNIV s t"
proof -
  have get: "deliveryStoreGet E i s = (t, Inr (Some d))" using assms by (simp add: stores feltDbWebhookDeliveryStore_def)
  show "D s i = Some d" using delivery_get [OF get] by simp
  show "keeps C UNIV s t" using movesD [OF deliveries.keeps_get get [unfolded deliveryStoreGet_def]] .
qed

lemma get_endpoint:
  assumes "es_get (ws_endpointStore SV) i s = (t, Inr (Some k))"
  shows "W s i = Some k" and "keeps C UNIV s t"
proof -
  have get: "endpointStoreGet E i s = (t, Inr (Some k))" using assms by (simp add: stores feltDbWebhookEndpointStore_def)
  show "W s i = Some k" using endpoint_get [OF get] by simp
  show "keeps C UNIV s t" using movesD [OF endpoints.keeps_get get [unfolded endpointStoreGet_def]] .
qed

text \<open>What a claim returns is the delivery that was claimed, being delivered, in its next version.\<close>

lemma claim_returns:
  assumes "ds_claim (ws_deliveryStore SV) i v s = (t, Inr (Some claimed))" and "D s i = Some d"
  shows "\<exists>at n. claimed = (claimDelivery at d)\<lparr>dv_version := n\<rparr> \<and> dv_version d = v \<and> v < n"
proof -
  have "deliveryStoreClaim E i v s = (t, Inr (Some claimed))" using assms(1) by (simp add: stores feltDbWebhookDeliveryStore_def)
  then obtain x s1 now where "draw (e_date E) s = (s1, Inr x)"
    "casItem (c_updateIfVersion (e_deliveries E) i v (claimDelivery now)) s1 = (t, Inr (Some claimed))"
    by (auto simp: deliveryStoreClaim_def bindA_Inr_iff liftR_iff)
  then have "casRecord dv_version (\<lambda>v. dv_version_update (\<lambda>_. v)) (D s1) (D t) i v (claimDelivery now) \<and> D t i = Some claimed" "D s1 = D s"
    using deliveries.cas_stored(2) [OF projections(11)] keepsD [OF keeps_date [of "{''webhook_deliveries''}"]]
    by (simp_all add: storedDeliveries_eq storedIn_def fun_eq_iff)
  then show ?thesis using assms(2) by (auto simp: casRecord_def) blast
qed

lemma posts_authorized:
  assumes "deliverWebhook E N SV tenantId i s \<noteq> deliverWebhook E (posting N post) SV tenantId i s"
  shows "\<exists>d endpoint dp ref. D s i = Some d \<and> dv_tenantId d = tenantId \<and> idle d \<and> W s (dv_endpointId d) = Some endpoint \<and>
    wp_tenantId endpoint = tenantId \<and> wp_applicationId endpoint = Some (gw_application G) \<and> \<not> truthy (wp_disabledAt endpoint) \<and>
    wp_signingCredentialRef endpoint = Some ref \<and> dv_principal d = Some dp \<and> dp_tenantId dp = tenantId \<and>
    (\<exists>decisionId j row. dp_authorizedBy dp = Some decisionId \<and> C (outside s) EVIDENCE_COLLECTION j = Some (EvidenceDoc row) \<and>
      ev_decisionId row = Some decisionId \<and> ev_decision row = DecisionAllow \<and> ev_application row = gw_application G \<and>
      ev_tenantId row = tenantId \<and> ev_principalId row = dp_principalId dp \<and>
      ev_capability row \<in> {''webhooks.emit'', ''webhooks.replay''}) \<and>
    (\<exists>p u requestId s1 s2 ctx q w cu w1 w2 secret key.
      pr_principalId p = dp_principalId dp \<and> pr_verifiedBy p = ByDelivery \<and> nw_url N (wp_url endpoint) = Some u \<and>
      authorize E G ''webhooks.deliver'' (Verified p)
        \<lparr>rs_type = ''webhook_delivery'', rs_tenantId = tenantId, rs_id = Some (dv_id d),
         rs_attributes = Some [(''endpointId'', wp_id endpoint), (''destination'', ur_origin u),
           (''eventType'', dv_eventType d), (''credentialRef'', ref)]\<rparr> requestId s1 = (s2, Inr ctx) \<and>
      nw_post N q w \<noteq> post q w \<and>
      (\<not> ws_allowPrivate SV \<longrightarrow> soundDestination N (wp_url endpoint) u (hr_connect q)) \<and>
      gw_credentials G = Some cu \<and>
      cu_acquire cu (credentialReference ref tenantId (Some ''webhook'')) (custodyAccess ctx ''webhook.sign'') w1 = (w2, Inr secret) \<and>
      signingSecretValue (rv_value secret) = Inr key \<and>
      hr_body q = deliveryBody d \<and> hr_signature q = signWebhookPayload E key (deliveryBody d))"
proof -
  from deliver_differs [OF assms] obtain s1 d s2 endpoint where
    first: "ds_get (ws_deliveryStore SV) i s = (s1, Inr (Some d))" "dv_tenantId d = tenantId" "idle d"
    and second: "es_get (ws_endpointStore SV) (dv_endpointId d) s1 = (s2, Inr (Some endpoint))" "wp_tenantId endpoint = tenantId"
      "wp_applicationId endpoint = Some (gw_application G)"
    and to: "deliverTo E N SV G tenantId i endpoint d s2 \<noteq> deliverTo E (posting N post) SV G tenantId i endpoint d s2"
    by auto
  from to_differs [OF to] obtain dp ref where
    bound: "\<not> truthy (wp_disabledAt endpoint)" "dv_principal d = Some dp" "dp_tenantId dp = tenantId"
      "keepTruthy (wp_signingCredentialRef endpoint) = Some ref"
    and att: "deliverAttested E N SV G tenantId i endpoint ref dp d s2 \<noteq> deliverAttested E (posting N post) SV G tenantId i endpoint ref dp d s2"
    by blast
  from attested_differs [OF att] obtain s3 s4 claimed where
    attest: "attest E G (Some dp) [''webhooks.emit'', ''webhooks.replay''] s2 = (s3, Inr ())"
    and claim: "ds_claim (ws_deliveryStore SV) i (dv_version d) s3 = (s4, Inr (Some claimed))"
    and cl: "deliverClaimed E N SV G tenantId endpoint ref dp d claimed s4 \<noteq> deliverClaimed E (posting N post) SV G tenantId endpoint ref dp d claimed s4"
    by blast
  from claimed_differs [OF cl] obtain p where
    mint: "mintVerifiedPrincipal (runClaims dp (dv_id d @ '':'' @ intString (dv_attemptCount claimed + 1))) ByDelivery = Inr p"
    and run: "attemptDelivery E N SV G tenantId endpoint ref d claimed p s4 \<noteq> attemptDelivery E (posting N post) SV G tenantId endpoint ref d claimed p s4"
    by blast
  from attempt_differs [OF run] obtain u requestId s5 s6 ctx \<sigma> where
    url: "nw_url N (wp_url endpoint) = Some u"
    and auth: "authorize E G ''webhooks.deliver'' (Verified p)
      \<lparr>rs_type = ''webhook_delivery'', rs_tenantId = tenantId, rs_id = Some (dv_id d),
       rs_attributes = Some [(''endpointId'', wp_id endpoint), (''destination'', ur_origin u),
         (''eventType'', dv_eventType d), (''credentialRef'', ref)]\<rparr> requestId s5 = (s6, Inr ctx)"
    and eff: "deliveryEffect E N SV G (deliveryOptions ref) endpoint ref claimed ctx \<sigma> \<noteq>
      deliveryEffect E (posting N post) SV G (deliveryOptions ref) endpoint ref claimed ctx \<sigma>"
    by blast
  from effect_differs [OF eff] obtain v v' u' a w1 w2 cu secret key w where
    valid: "validateDestination N (ws_allowPrivate SV) (wp_url endpoint) v = (v', Inr (u', a))"
    and cu: "gw_credentials G = Some cu"
      "cu_acquire cu (credentialReference ref (cx_tenantId ctx) (eo_provider (deliveryOptions ref))) (custodyAccess ctx ''webhook.sign'') w1 = (w2, Inr secret)"
      "signingSecretValue (rv_value secret) = Inr key"
    and post: "nw_post N (deliveryRequest SV u' a claimed (deliveryBody claimed) (signWebhookPayload E key (deliveryBody claimed))) w \<noteq>
      post (deliveryRequest SV u' a claimed (deliveryBody claimed) (signWebhookPayload E key (deliveryBody claimed))) w"
    by blast
  have stored: "D s i = Some d" "W s (dv_endpointId d) = Some endpoint" "C (outside s2) = C (outside s)" "C (outside s3) = C (outside s)"
    using get_delivery [OF first(1)] get_endpoint [OF second(1)] movesD [OF keeps_attest [where N = UNIV] attest]
    by (auto simp: keeps_def storedEndpoints_def storedIn_def fun_eq_iff)
  have "D s3 i = Some d" using stored by (simp add: storedDeliveries_def storedIn_def)
  from claim_returns [OF claim this] have body: "deliveryBody claimed = deliveryBody d"
    by (auto simp: body_claimed)
  have pr: "pr_principalId p = dp_principalId dp" "pr_verifiedBy p = ByDelivery"
    using mint by (auto simp: mintVerifiedPrincipal_def runClaims_def bindR_Inr_iff claimedText_def split: if_splits)
  have tenant: "cx_tenantId ctx = tenantId" using auth by (rule authorize_Inr) (simp add: grantedContext_def)
  have sound: "\<not> ws_allowPrivate SV \<longrightarrow> soundDestination N (wp_url endpoint) u a"
  proof
    assume "\<not> ws_allowPrivate SV"
    then have "soundDestination N (wp_url endpoint) u' a" using validation_sound [of N "wp_url endpoint" v] valid by simp
    moreover have "u' = u" using valid url by (auto simp: validateDestination_def Let_def bindA_Inr_iff act_simps split: if_splits)
    ultimately show "soundDestination N (wp_url endpoint) u a" by simp
  qed
  have backed: "\<exists>decisionId j row. dp_authorizedBy dp = Some decisionId \<and> C (outside s) EVIDENCE_COLLECTION j = Some (EvidenceDoc row) \<and>
      ev_decisionId row = Some decisionId \<and> ev_decision row = DecisionAllow \<and> ev_application row = gw_application G \<and>
      ev_tenantId row = tenantId \<and> ev_principalId row = dp_principalId dp \<and>
      ev_capability row \<in> {''webhooks.emit'', ''webhooks.replay''}"
    using attest_backed [OF platform_axioms attest] bound(3) stored(3) by auto
  have ref: "wp_signingCredentialRef endpoint = Some ref" using bound(4) by (simp add: keepTruthy_eq_Some)
  let ?q = "deliveryRequest SV u' a claimed (deliveryBody claimed) (signWebhookPayload E key (deliveryBody claimed))"
  have q: "hr_connect ?q = a" "hr_body ?q = deliveryBody d" "hr_signature ?q = signWebhookPayload E key (deliveryBody d)"
    by (simp_all add: deliveryRequest_def body)
  have "eo_provider (deliveryOptions ref) = Some ''webhook''" by (simp add: deliveryOptions_def)
  then have acquired: "cu_acquire cu (credentialReference ref tenantId (Some ''webhook'')) (custodyAccess ctx ''webhook.sign'') w1 = (w2, Inr secret)"
    using cu(2) tenant by simp
  have attempt: "\<exists>p u requestId s1 s2 ctx q w cu w1 w2 secret key.
      pr_principalId p = dp_principalId dp \<and> pr_verifiedBy p = ByDelivery \<and> nw_url N (wp_url endpoint) = Some u \<and>
      authorize E G ''webhooks.deliver'' (Verified p)
        \<lparr>rs_type = ''webhook_delivery'', rs_tenantId = tenantId, rs_id = Some (dv_id d),
         rs_attributes = Some [(''endpointId'', wp_id endpoint), (''destination'', ur_origin u),
           (''eventType'', dv_eventType d), (''credentialRef'', ref)]\<rparr> requestId s1 = (s2, Inr ctx) \<and>
      nw_post N q w \<noteq> post q w \<and>
      (\<not> ws_allowPrivate SV \<longrightarrow> soundDestination N (wp_url endpoint) u (hr_connect q)) \<and>
      gw_credentials G = Some cu \<and>
      cu_acquire cu (credentialReference ref tenantId (Some ''webhook'')) (custodyAccess ctx ''webhook.sign'') w1 = (w2, Inr secret) \<and>
      signingSecretValue (rv_value secret) = Inr key \<and>
      hr_body q = deliveryBody d \<and> hr_signature q = signWebhookPayload E key (deliveryBody d)"
    using pr url auth post sound cu(1,3) acquired q
    by (intro exI [of _ p] exI [of _ u] exI [of _ requestId] exI [of _ s5] exI [of _ s6] exI [of _ ctx] exI [of _ ?q] exI [of _ w]
        exI [of _ cu] exI [of _ w1] exI [of _ w2] exI [of _ secret] exI [of _ key]) (simp only: simp_thms)
  show ?thesis
    using stored first(2,3) second(2,3) bound(1-3) ref backed attempt
    by - (rule exI [of _ d], rule exI [of _ endpoint], rule exI [of _ dp], rule exI [of _ ref], simp only: simp_thms)
qed

end

section \<open>Properties\<close>

text \<open>
  C33: nothing is posted without authority. What the network does with a posted request can matter to
  \<open>deliverWebhook\<close> only when the delivery is stored for the tenant and idle, its endpoint is an active
  one of that tenant and application with a signing credential, a stored row of an allowed emit or
  replay backs the delivery's principal, and the gateway authorized \<open>webhooks.deliver\<close> on exactly this
  delivery, destination and credential for it. The request then goes to an address that passed the
  destination policy in the same attempt, carries the delivery's body, and is signed for that body with
  the secret the custody released for this context.
\<close>

lemma webhook_posts_authorized:
  assumes "felt_webhook_service E C SV N fuel G"
    and "deliverWebhook E N SV tenantId i s \<noteq> deliverWebhook E (posting N post) SV tenantId i s"
  shows "\<exists>d endpoint dp ref. storedDeliveries C s i = Some d \<and> dv_tenantId d = tenantId \<and> idle d \<and> storedEndpoints C s (dv_endpointId d) = Some endpoint \<and>
    wp_tenantId endpoint = tenantId \<and> wp_applicationId endpoint = Some (gw_application G) \<and> \<not> truthy (wp_disabledAt endpoint) \<and>
    wp_signingCredentialRef endpoint = Some ref \<and> dv_principal d = Some dp \<and> dp_tenantId dp = tenantId \<and>
    (\<exists>decisionId j row. dp_authorizedBy dp = Some decisionId \<and> C (outside s) EVIDENCE_COLLECTION j = Some (EvidenceDoc row) \<and>
      ev_decisionId row = Some decisionId \<and> ev_decision row = DecisionAllow \<and> ev_application row = gw_application G \<and>
      ev_tenantId row = tenantId \<and> ev_principalId row = dp_principalId dp \<and>
      ev_capability row \<in> {''webhooks.emit'', ''webhooks.replay''}) \<and>
    (\<exists>p u requestId s1 s2 ctx q w cu w1 w2 secret key.
      pr_principalId p = dp_principalId dp \<and> pr_verifiedBy p = ByDelivery \<and> nw_url N (wp_url endpoint) = Some u \<and>
      authorize E G ''webhooks.deliver'' (Verified p)
        \<lparr>rs_type = ''webhook_delivery'', rs_tenantId = tenantId, rs_id = Some (dv_id d),
         rs_attributes = Some [(''endpointId'', wp_id endpoint), (''destination'', ur_origin u),
           (''eventType'', dv_eventType d), (''credentialRef'', ref)]\<rparr> requestId s1 = (s2, Inr ctx) \<and>
      nw_post N q w \<noteq> post q w \<and>
      (\<not> ws_allowPrivate SV \<longrightarrow> soundDestination N (wp_url endpoint) u (hr_connect q)) \<and>
      gw_credentials G = Some cu \<and>
      cu_acquire cu (credentialReference ref tenantId (Some ''webhook'')) (custodyAccess ctx ''webhook.sign'') w1 = (w2, Inr secret) \<and>
      signingSecretValue (rv_value secret) = Inr key \<and>
      hr_body q = deliveryBody d \<and> hr_signature q = signWebhookPayload E key (deliveryBody d))"
  by (rule felt_webhook_service.posts_authorized [OF assms])

end
