(* ===== verification/WebhookExamples.thy ===== *)
theory WebhookExamples
  imports WebhookLifecycle DemoRuns JobExamples
begin

text \<open>
  Runs of the webhook service on the in-memory platform, for the theorems about webhooks.
\<close>

section \<open>A service and its network\<close>

definition demoUrl :: url where
  "demoUrl = \<lparr>ur_href = ''https://hooks.example/in'', ur_protocol = ''https:'',
     ur_username = [], ur_password = [], ur_hostname = ''hooks.example'', ur_port = [], ur_pathname = ''/in'', ur_search = [],
     ur_origin = ''https://hooks.example''\<rparr>"

definition demoAddress :: resolved_address where
  "demoAddress = \<lparr>rd_address = ''93.184.216.34'', rd_family = 4\<rparr>"

text \<open>A network that knows one URL and one host, and accepts every request.\<close>

definition demoNetwork :: "mem network" where
  "demoNetwork =
     \<lparr>nw_url = (\<lambda>x. if x = ''https://hooks.example/in'' then Some demoUrl else None),
      nw_lookup = (\<lambda>host w. (w, Inr (if host = ''hooks.example'' then [demoAddress] else []))),
      nw_post = (\<lambda>q w. (w, Inr (HttpStatus (Some 200))))\<rparr>"

definition demoWebhooks :: "mem webhook_service" where
  "demoWebhooks =
     \<lparr>ws_endpointStore = feltDbWebhookEndpointStore memEnv, ws_deliveryStore = feltDbWebhookDeliveryStore memEnv 1002,
      ws_auditSink = feltDbWebhookAuditSink memEnv, ws_integrationStore = Some (feltDbWebhookIntegrationStore memEnv),
      ws_replayStore = Some (feltDbInboundWebhookReplayStore memEnv), ws_authority = Some (demoGateway True),
      ws_allowPrivate = False, ws_maxRetryAttempts = 5, ws_requestTimeoutMs = 30000, ws_allowedEvents = None,
      ws_inboundToleranceMs = 300000, ws_inboundHandlers = []\<rparr>"

interpretation demoWebhooks: felt_webhook_service memEnv memView demoWebhooks demoNetwork 1002 "demoGateway True"
  by (intro felt_webhook_service.intro felt_webhook_service_axioms.intro memory.platform_axioms demo.gateway_platform_axioms)
    (auto simp: demoWebhooks_def demoNetwork_def demoGateway_def demoCustody_def)

definition demoEndpoint :: webhook_endpoint where
  "demoEndpoint =
     \<lparr>wp_id = ''e1'', wp_tenantId = ''acme'', wp_applicationId = Some ''shop'', wp_url = ''https://hooks.example/in'',
      wp_events = [''order.paid''], wp_signingCredentialRef = Some ''credential-ref:hook'', wp_createdAt = demoTime,
      wp_createdBy = ''alice'', wp_disabledAt = None, wp_version = 1\<rparr>"

definition demoDelivery :: webhook_delivery where
  "demoDelivery =
     \<lparr>dv_id = ''w1'', dv_tenantId = ''acme'', dv_endpointId = ''e1'', dv_eventId = ''v1'', dv_eventType = ''order.paid'',
      dv_payload = JNull, dv_status = DeliveryPending, dv_attemptCount = 0, dv_nextAttemptAt = None, dv_createdAt = demoTime,
      dv_lastAttemptAt = None, dv_deliveredAt = None, dv_lastStatusCode = None, dv_lastError = None,
      dv_principal = Some demoDurable, dv_version = 1\<rparr>"

definition withEndpoint :: "webhook_endpoint \<Rightarrow> mem sys \<Rightarrow> mem sys" where
  "withEndpoint k s = s\<lparr>outside := memPut ''webhook_endpoints'' (wp_id k) (EndpointDoc k) (outside s)\<rparr>"

definition withDelivery :: "webhook_delivery \<Rightarrow> mem sys \<Rightarrow> mem sys" where
  "withDelivery k s = s\<lparr>outside := memPut ''webhook_deliveries'' (dv_id k) (DeliveryDoc k) (outside s)\<rparr>"

lemma stored_withEndpoint: "storedEndpoints memView (withEndpoint k s) = (storedEndpoints memView s)(wp_id k \<mapsto> k)"
  unfolding storedEndpoints_eq by (rule storedIn_put [OF projections(10)]) (simp add: withEndpoint_def memView_memPut)

lemma stored_withDelivery: "storedDeliveries memView (withDelivery k s) = (storedDeliveries memView s)(dv_id k \<mapsto> k)"
  unfolding storedDeliveries_eq by (rule storedIn_put [OF projections(11)]) (simp add: withDelivery_def memView_memPut)

section \<open>An inbound event and its handler\<close>

definition demoIntegration :: webhook_integration where
  "demoIntegration =
     \<lparr>ig_id = ''g1'', ig_tenantId = ''acme'', ig_applicationId = ''shop'', ig_provider = ''crm'', ig_principalId = ''crm-bot'',
      ig_signingCredentialRef = ''credential-ref:hook'', ig_createdAt = demoTime, ig_createdBy = ''alice'', ig_disabledAt = None,
      ig_version = 1\<rparr>"

definition inboundSignature :: string where
  "inboundSignature = signWebhookPayload memEnv ''hunter2'' (demoTime @ ''.'' @ ''{}'')"

definition demoInbound :: inbound_request where
  "demoInbound =
     \<lparr>iq_integrationId = JStr ''g1'',
      iq_headers = [(''x-appport-event-id'', JStr ''v1''), (''x-appport-timestamp'', JStr demoTime), (''x-appport-signature'', JStr inboundSignature)],
      iq_rawBody = JStr ''{}''\<rparr>"

definition integratedSys :: "mem sys" where
  "integratedSys = demoSys\<lparr>outside := memPut ''webhook_integrations'' ''g1'' (IntegrationDoc demoIntegration) (outside demoSys)\<rparr>"

text \<open>A handler that has a delivery of its tenant made.\<close>

definition deliveringHandler :: "mem inbound_handler" where
  "deliveringHandler ev p ctx = bindA (deliverWebhook memEnv demoNetwork demoWebhooks (pr_tenantId p) ''w1'') (\<lambda>_. ret (ib_payload ev))"

definition handlingWebhooks :: "mem webhook_service" where
  "handlingWebhooks = demoWebhooks\<lparr>ws_inboundHandlers := [(''crm'', deliveringHandler)]\<rparr>"

interpretation handlingWebhooks: handling_webhook_service memEnv memView handlingWebhooks demoNetwork 1002 "demoGateway True"
proof (intro handling_webhook_service.intro handling_webhook_service_axioms.intro)
  show "felt_webhook_service memEnv memView handlingWebhooks demoNetwork 1002 (demoGateway True)"
    by (intro felt_webhook_service.intro felt_webhook_service_axioms.intro memory.platform_axioms demo.gateway_platform_axioms)
      (auto simp: handlingWebhooks_def demoWebhooks_def demoNetwork_def demoGateway_def demoCustody_def)
next
  fix provider h ev p ctx
  assume "(provider, h) \<in> set (ws_inboundHandlers handlingWebhooks)"
  then have h: "h = deliveringHandler" by (simp add: handlingWebhooks_def)
  have same: "ws_maxRetryAttempts handlingWebhooks = ws_maxRetryAttempts demoWebhooks"
      "ws_allowPrivate handlingWebhooks = ws_allowPrivate demoWebhooks" by (simp_all add: handlingWebhooks_def)
  show "moves (evolves dv_id (delivery_step (ws_maxRetryAttempts handlingWebhooks)) freshDelivery (storedDeliveries memView)) (h ev p ctx)"
    unfolding h same deliveringHandler_def by (intro evolves.moves_bindA evolves.moves_ret demoWebhooks.deliverWebhook_moves)
  show "moves (evolves wp_id endpoint_step (freshEndpoint demoNetwork (ws_allowPrivate handlingWebhooks)) (storedEndpoints memView)) (h ev p ctx)"
    unfolding h same deliveringHandler_def
    by (intro evolves.moves_bindA evolves.moves_ret demoWebhooks.quietW demoWebhooks.keeps_deliver)
qed

section \<open>Witnesses\<close>

lemma integrated_webhooks: "storedEndpoints memView integratedSys = Map.empty" "storedDeliveries memView integratedSys = Map.empty"
  by (simp_all add: storedEndpoints_def storedDeliveries_def storedIn_def integratedSys_def demoSys_def memView_memPut fun_eq_iff,
      simp_all add: memView_def)

lemma keyed_webhooks:
  "keyed wp_id (storedEndpoints memView (withEndpoint k integratedSys))"
  "keyed dv_id (storedDeliveries memView (withDelivery d integratedSys))"
  by (simp_all add: stored_withEndpoint stored_withDelivery integrated_webhooks keyed_def)

definition demoOps :: "(mem caller \<times> webhook_op) list" where
  "demoOps =
     [(Verified demoPrincipal, EmitEvent \<lparr>en_type = ''order.paid'', en_payload = JNull, en_other = []\<rparr>),
      (Verified demoPrincipal, ReceiveEvent demoInbound),
      (Verified demoPrincipal, ReplayDelivery ''acme'' ''w1''),
      (Verified demoPrincipal, DeliverDue ''acme'')]"

lemma demoOps_quiet: "webhookCallersQuiet memView demoOps"
  by (simp add: webhookCallersQuiet_def demoOps_def demoPrincipal_def)

lemma deliveries_follow_life_cycle_witness:
  "\<exists>k. storedDeliveries memView (runWebhookOps memEnv demoNetwork handlingWebhooks demoOps (withDelivery demoDelivery integratedSys)) ''w1'' = Some k \<and>
     (delivery_step 5)\<^sup>*\<^sup>* demoDelivery k"
proof -
  have "ws_maxRetryAttempts handlingWebhooks = 5" by (simp add: handlingWebhooks_def demoWebhooks_def)
  with deliveries_follow_life_cycle [OF handlingWebhooks.handling_webhook_service_axioms demoOps_quiet keyed_webhooks(2), of demoDelivery]
  have "progressBy (delivery_step 5) freshDelivery (storedDeliveries memView (withDelivery demoDelivery integratedSys))
      (storedDeliveries memView (runWebhookOps memEnv demoNetwork handlingWebhooks demoOps (withDelivery demoDelivery integratedSys)))"
    by simp
  from spec [OF this [unfolded progressBy_def], of "''w1''"] show ?thesis
    by (simp add: stored_withDelivery, simp add: demoDelivery_def)
qed

lemma stored_deliveries_sound_witness:
  "\<exists>k. storedDeliveries memView (runWebhookOps memEnv demoNetwork handlingWebhooks demoOps (withDelivery demoDelivery integratedSys)) ''w1'' = Some k \<and>
     wfDelivery k \<and> sameDelivery demoDelivery k"
proof -
  have "wfDelivery demoDelivery" by (simp add: wfDelivery_def ownPrincipal_def demoDelivery_def demoDurable_def)
  then have wf: "\<forall>i k. storedDeliveries memView (withDelivery demoDelivery integratedSys) i = Some k \<longrightarrow> wfDelivery k"
    by (simp add: stored_withDelivery integrated_webhooks)
  have "storedDeliveries memView (withDelivery demoDelivery integratedSys) ''w1'' = Some demoDelivery"
    by (simp add: stored_withDelivery, simp add: demoDelivery_def)
  with stored_deliveries_sound [OF handlingWebhooks.handling_webhook_service_axioms demoOps_quiet keyed_webhooks(2) wf] show ?thesis by blast
qed

definition endpointOps :: "(mem caller \<times> webhook_op) list" where
  "endpointOps =
     [(Verified demoPrincipal, CreateEndpoint [(''url'', JStr ''https://hooks.example/in''), (''events'', JArr []),
         (''signingCredentialRef'', JStr ''credential-ref:hook'')]),
      (Verified demoPrincipal, DisableEndpoint ''e1'' []),
      (Verified demoPrincipal, ReceiveEvent demoInbound)]"

lemma demo_endpoint_stored: "storedEndpoints memView (withEndpoint demoEndpoint s) ''e1'' = Some demoEndpoint"
  by (simp add: stored_withEndpoint, simp add: demoEndpoint_def)

lemma endpoints_bound_witness:
  "\<exists>k. storedEndpoints memView (runWebhookOps memEnv demoNetwork handlingWebhooks endpointOps (withEndpoint demoEndpoint integratedSys)) ''e1'' = Some k \<and>
     wp_url k = ''https://hooks.example/in''"
proof -
  have "webhookCallersQuiet memView endpointOps"
    by (simp add: webhookCallersQuiet_def endpointOps_def demoPrincipal_def)
  from conjunct1 [OF endpoints_bound_at_registration [OF handlingWebhooks.handling_webhook_service_axioms this keyed_webhooks(1)], of demoEndpoint]
  obtain k where "storedEndpoints memView (runWebhookOps memEnv demoNetwork handlingWebhooks endpointOps (withEndpoint demoEndpoint integratedSys)) ''e1'' = Some k"
      "sameEndpoint demoEndpoint k"
    using demo_endpoint_stored by blast
  then show ?thesis by (auto simp: sameEndpoint_def demoEndpoint_def)
qed

end
