(* ===== verification/WebhookInbound.thy ===== *)
theory WebhookInbound
  imports WebhookRuns WebhookExamples
begin

text \<open>
  Inbound events: what has to hold before a handler of the application sees one.
\<close>

section \<open>Where two runs with different handlers differ\<close>

abbreviation handling :: "'w webhook_service \<Rightarrow> (string \<times> 'w inbound_handler) list \<Rightarrow> 'w webhook_service" where
  "handling SV hs \<equiv> SV\<lparr>ws_inboundHandlers := hs\<rparr>"

lemma handling_same [simp]:
  "webhookAudit E (handling SV hs) = webhookAudit E SV" "webhookGateway (handling SV hs) = webhookGateway SV"
  "requireIntegrationStore (handling SV hs) = requireIntegrationStore SV" "freshTime E (handling SV hs) = freshTime E SV"
  by (simp_all add: webhookAudit_def webhookGateway_def requireIntegrationStore_def freshTime_def fun_eq_iff split: option.split)

lemma handle_differs:
  assumes "handleEvent E SV g p eventId sentAt body ctx s \<noteq> handleEvent E (handling SV hs) g p eventId sentAt body ctx s"
  shows "\<exists>payload. e_jsonParse E body = Some payload"
  using assms by (auto simp: handleEvent_def split: option.splits)

lemma plain_differs: "plain m (s, log) \<noteq> plain m' (s, log) \<Longrightarrow> m s \<noteq> m' s"
  by (auto simp: plain_def)

lemma accept_differs:
  assumes "acceptOnce E SV R g p eventId sentAt body ctx s \<noteq> acceptOnce E (handling SV hs) R g p eventId sentAt body ctx s"
  shows "\<exists>k s1 at s2. ax_id k = acceptanceId E g eventId \<and> ax_eventId k = eventId \<and> nowISO E s = (s1, Inr at) \<and>
    rp_accept R k s1 = (s2, Inr True) \<and> (\<exists>payload. e_jsonParse E body = Some payload)"
proof -
  from bindA_lifted [OF assms [unfolded acceptOnce_def]] obtain sentText where
    "bindA (nowISO E) (\<lambda>acceptedAt.
     bindA (rp_accept R \<lparr>ax_id = acceptanceId E g eventId, ax_integrationId = ig_id g, ax_provider = ig_provider g,
              ax_eventId = eventId, ax_eventTimestamp = sentText, ax_acceptedAt = acceptedAt, ax_tenantId = ig_tenantId g\<rparr>) (\<lambda>accepted.
     if \<not> accepted
     then raise (ServiceAuthorityError DENIED ''Inbound webhook event was already accepted''
            (noDetails\<lparr>ed_reason := Some ''replayed''\<rparr>))
     else handleEvent E SV g p eventId sentAt body ctx)) s \<noteq>
     bindA (nowISO E) (\<lambda>acceptedAt.
     bindA (rp_accept R \<lparr>ax_id = acceptanceId E g eventId, ax_integrationId = ig_id g, ax_provider = ig_provider g,
              ax_eventId = eventId, ax_eventTimestamp = sentText, ax_acceptedAt = acceptedAt, ax_tenantId = ig_tenantId g\<rparr>) (\<lambda>accepted.
     if \<not> accepted
     then raise (ServiceAuthorityError DENIED ''Inbound webhook event was already accepted''
            (noDetails\<lparr>ed_reason := Some ''replayed''\<rparr>))
     else handleEvent E (handling SV hs) g p eventId sentAt body ctx)) s"
    by blast
  from bindA_differs [OF this] obtain s1 at where now: "nowISO E s = (s1, Inr at)" and
    rest: "bindA (rp_accept R \<lparr>ax_id = acceptanceId E g eventId, ax_integrationId = ig_id g, ax_provider = ig_provider g,
              ax_eventId = eventId, ax_eventTimestamp = sentText, ax_acceptedAt = at, ax_tenantId = ig_tenantId g\<rparr>) (\<lambda>accepted.
     if \<not> accepted
     then raise (ServiceAuthorityError DENIED ''Inbound webhook event was already accepted''
            (noDetails\<lparr>ed_reason := Some ''replayed''\<rparr>))
     else handleEvent E SV g p eventId sentAt body ctx) s1 \<noteq>
     bindA (rp_accept R \<lparr>ax_id = acceptanceId E g eventId, ax_integrationId = ig_id g, ax_provider = ig_provider g,
              ax_eventId = eventId, ax_eventTimestamp = sentText, ax_acceptedAt = at, ax_tenantId = ig_tenantId g\<rparr>) (\<lambda>accepted.
     if \<not> accepted
     then raise (ServiceAuthorityError DENIED ''Inbound webhook event was already accepted''
            (noDetails\<lparr>ed_reason := Some ''replayed''\<rparr>))
     else handleEvent E (handling SV hs) g p eventId sentAt body ctx) s1"
    by blast
  let ?k = "\<lparr>ax_id = acceptanceId E g eventId, ax_integrationId = ig_id g, ax_provider = ig_provider g,
              ax_eventId = eventId, ax_eventTimestamp = sentText, ax_acceptedAt = at, ax_tenantId = ig_tenantId g\<rparr>"
  from bindA_differs [OF rest] obtain s2 where "rp_accept R ?k s1 = (s2, Inr True)"
    "handleEvent E SV g p eventId sentAt body ctx s2 \<noteq> handleEvent E (handling SV hs) g p eventId sentAt body ctx s2"
    by (auto split: if_splits)
  then show ?thesis using now handle_differs by (intro exI [of _ ?k] exI [of _ s1] exI [of _ at] exI [of _ s2]) auto
qed

lemma inbound_differs:
  assumes "inboundEffect E SV G R opts g p eventId timestamp sentAt signature body ctx \<sigma> \<noteq>
    inboundEffect E (handling SV hs) G R opts g p eventId timestamp sentAt signature body ctx \<sigma>"
  shows "\<exists>s log cu w w' secret key. 
    toolWithCredential E G ctx opts (ig_signingCredentialRef g) ''webhook.verify''
      (\<lambda>secret. liftR (bindR (signingSecretValue (rv_value secret)) (\<lambda>key.
         Inr (verifyWebhookSignature E key (timestamp @ ''.'' @ body) signature)))) \<sigma> = ((s, log), Inr True) \<and>
    gw_credentials G = Some cu \<and>
    cu_acquire cu (credentialReference (ig_signingCredentialRef g) (cx_tenantId ctx) (eo_provider opts)) (custodyAccess ctx ''webhook.verify'') w = (w', Inr secret) \<and>
    signingSecretValue (rv_value secret) = Inr key \<and> verifyWebhookSignature E key (timestamp @ ''.'' @ body) signature \<and>
    acceptOnce E SV R g p eventId sentAt body ctx s \<noteq> acceptOnce E (handling SV hs) R g p eventId sentAt body ctx s"
proof -
  from bindA_differs [OF assms [unfolded inboundEffect_def]] obtain s log where
    tool: "toolWithCredential E G ctx opts (ig_signingCredentialRef g) ''webhook.verify''
      (\<lambda>secret. liftR (bindR (signingSecretValue (rv_value secret)) (\<lambda>key.
         Inr (verifyWebhookSignature E key (timestamp @ ''.'' @ body) signature)))) \<sigma> = ((s, log), Inr True)"
    and last: "acceptOnce E SV R g p eventId sentAt body ctx s \<noteq> acceptOnce E (handling SV hs) R g p eventId sentAt body ctx s"
    by (auto split: if_splits dest!: plain_differs)
  from tool_resolved [OF tool] obtain cu w w' secret where
    "gw_credentials G = Some cu"
    "cu_acquire cu (credentialReference (ig_signingCredentialRef g) (cx_tenantId ctx) (eo_provider opts)) (custodyAccess ctx ''webhook.verify'') w = (w', Inr secret)"
    and sign: "bindR (signingSecretValue (rv_value secret)) (\<lambda>key. Inr (verifyWebhookSignature E key (timestamp @ ''.'' @ body) signature)) = Inr True"
    by blast
  moreover obtain key where "signingSecretValue (rv_value secret) = Inr key" "verifyWebhookSignature E key (timestamp @ ''.'' @ body) signature"
    using sign by (auto simp: bindR_Inr_iff)
  ultimately show ?thesis using tool last by blast
qed

lemma receiveAs_differs:
  assumes "receiveAs E SV R g p eventId timestamp sentAt signature body s \<noteq> receiveAs E (handling SV hs) R g p eventId timestamp sentAt signature body s"
  shows "\<exists>G. webhookGateway SV = Inr G \<and>
    execute E G ''webhooks.receive'' (Verified p)
      \<lparr>rs_type = ''webhook_integration'', rs_tenantId = ig_tenantId g, rs_id = Some (ig_id g),
       rs_attributes = Some [(''provider'', ig_provider g), (''eventId'', eventId), (''credentialRef'', ig_signingCredentialRef g)]\<rparr>
      (inboundOptions g) (inboundEffect E SV G R (inboundOptions g) g p eventId timestamp sentAt signature body) s \<noteq>
    execute E G ''webhooks.receive'' (Verified p)
      \<lparr>rs_type = ''webhook_integration'', rs_tenantId = ig_tenantId g, rs_id = Some (ig_id g),
       rs_attributes = Some [(''provider'', ig_provider g), (''eventId'', eventId), (''credentialRef'', ig_signingCredentialRef g)]\<rparr>
      (inboundOptions g) (inboundEffect E (handling SV hs) G R (inboundOptions g) g p eventId timestamp sentAt signature body) s"
proof -
  from bindA_lifted [OF catchA_differs [OF assms [unfolded receiveAs_def handling_same]]] obtain G where
    G: "webhookGateway SV = Inr G" and
    rest: "bindA (execute E G ''webhooks.receive'' (Verified p)
      \<lparr>rs_type = ''webhook_integration'', rs_tenantId = ig_tenantId g, rs_id = Some (ig_id g),
       rs_attributes = Some [(''provider'', ig_provider g), (''eventId'', eventId), (''credentialRef'', ig_signingCredentialRef g)]\<rparr>
      (inboundOptions g) (inboundEffect E SV G R (inboundOptions g) g p eventId timestamp sentAt signature body)) (\<lambda>result.
        bindA (webhookAudit E SV (inboundEvent ''webhook.inbound.accepted'' g (pr_principalId p) True None)) (\<lambda>_. ret result)) s \<noteq>
     bindA (execute E G ''webhooks.receive'' (Verified p)
      \<lparr>rs_type = ''webhook_integration'', rs_tenantId = ig_tenantId g, rs_id = Some (ig_id g),
       rs_attributes = Some [(''provider'', ig_provider g), (''eventId'', eventId), (''credentialRef'', ig_signingCredentialRef g)]\<rparr>
      (inboundOptions g) (inboundEffect E (handling SV hs) G R (inboundOptions g) g p eventId timestamp sentAt signature body)) (\<lambda>result.
        bindA (webhookAudit E SV (inboundEvent ''webhook.inbound.accepted'' g (pr_principalId p) True None)) (\<lambda>_. ret result)) s"
    by blast
  show ?thesis by (rule exI [of _ G], rule conjI, rule G, rule bindA_differs_first [OF rest])
qed

lemma fresh_differs:
  assumes "receiveFresh E SV R g eventId timestamp signature body fresh s \<noteq> receiveFresh E (handling SV hs) R g eventId timestamp signature body fresh s"
  shows "\<exists>sentAt p. fresh = Some sentAt \<and> mintVerifiedPrincipal (integrationClaims g) ByIntegration = Inr p \<and>
    receiveAs E SV R g p eventId timestamp sentAt signature body s \<noteq> receiveAs E (handling SV hs) R g p eventId timestamp sentAt signature body s"
  using assms by (cases fresh) (auto simp: receiveFresh_def dest!: bindA_lifted)

lemma from_differs:
  assumes "receiveFrom E SV R q g s \<noteq> receiveFrom E (handling SV hs) R q g s"
  shows "\<exists>eventId timestamp signature body t fresh. inboundParts q = Inr (eventId, timestamp, signature, body) \<and>
    freshTime E SV timestamp s = (t, Inr fresh) \<and>
    receiveFresh E SV R g eventId timestamp signature body fresh t \<noteq> receiveFresh E (handling SV hs) R g eventId timestamp signature body fresh t"
proof -
  from bindA_lifted [OF assms [unfolded receiveFrom_def handling_same]] obtain eventId timestamp signature body where
    parts: "inboundParts q = Inr (eventId, timestamp, signature, body)" and
    rest: "bindA (freshTime E SV timestamp) (receiveFresh E SV R g eventId timestamp signature body) s \<noteq>
      bindA (freshTime E SV timestamp) (receiveFresh E (handling SV hs) R g eventId timestamp signature body) s"
    by (auto simp: case_prod_beta)
  from bindA_differs [OF rest] parts show ?thesis by blast
qed

lemma receive_differs:
  assumes "receiveWebhook E SV q s \<noteq> receiveWebhook E (handling SV hs) q s"
  shows "\<exists>S R i s1 g. requireIntegrationStore SV = Inr S \<and> ws_replayStore SV = Some R \<and>
    iq_integrationId q = JStr i \<and> is_get S i s = (s1, Inr (Some g)) \<and> \<not> truthy (ig_disabledAt g) \<and>
    receiveFrom E SV R q g s1 \<noteq> receiveFrom E (handling SV hs) R q g s1"
proof -
  let ?found = "\<lambda>S. case iq_integrationId q of JStr i \<Rightarrow> is_get S i | _ \<Rightarrow> ret None"
  let ?next = "\<lambda>SV R found. case found of
      None \<Rightarrow> raise (ServiceAuthorityError NOT_FOUND ''Webhook integration not found'' noDetails)
    | Some g \<Rightarrow> if truthy (ig_disabledAt g) then raise (ServiceAuthorityError NOT_FOUND ''Webhook integration not found'' noDetails)
        else receiveFrom E SV R q g"
  from bindA_lifted [OF assms [unfolded receiveWebhook_def handling_same]] obtain S R where
    stores: "requireIntegrationStore SV = Inr S" "ws_replayStore SV = Some R" and
    rest: "bindA (?found S) (?next SV R) s \<noteq> bindA (?found S) (?next (handling SV hs) R) s"
    by (auto split: option.splits)
  from bindA_differs [OF rest] obtain s1 found where
    found: "?found S s = (s1, Inr found)" and last: "?next SV R found s1 \<noteq> ?next (handling SV hs) R found s1"
    by blast
  obtain g where g: "found = Some g" "\<not> truthy (ig_disabledAt g)" "receiveFrom E SV R q g s1 \<noteq> receiveFrom E (handling SV hs) R q g s1"
    using last by (cases found) (auto split: if_splits)
  moreover obtain i where "iq_integrationId q = JStr i" "is_get S i s = (s1, Inr (Some g))"
    using found g(1) by (cases "iq_integrationId q") (auto simp: act_simps)
  ultimately show ?thesis using stores by blast
qed

section \<open>Accepting an event\<close>

context felt_webhook_service
begin

lemma get_integration:
  assumes "is_get (feltDbWebhookIntegrationStore E) i s = (t, Inr (Some g))"
  shows "storedIn C ''webhook_integrations'' asIntegration s i = Some g" and "keeps C UNIV s t"
proof -
  have get: "ext (c_get (e_integrations E) i) s = (t, Inr (Some g))" using assms by (simp add: feltDbWebhookIntegrationStore_def)
  show "storedIn C ''webhook_integrations'' asIntegration s i = Some g" using integrations.get_stored [OF projections(12) get] by simp
  show "keeps C UNIV s t" using movesD [OF integrations.keeps_get get] .
qed

lemma keeps_fresh: "moves (keeps C M) (freshTime E SV timestamp)"
  unfolding freshTime_def by (intro keeps.moves_option keeps.moves_bindA keeps.moves_ret keeps_now)

lemma accept_recorded:
  assumes "replayAccept E k s = (t, Inr True)"
  shows "C (outside s) ''inbound_webhook_events'' (ax_id k) = None" and "C (outside t) ''inbound_webhook_events'' (ax_id k) = Some (AcceptedDoc k)"
proof -
  let ?ps = "[\<lparr>op_collection = INBOUND_WEBHOOK_EVENTS_COLLECTION, op_id = ax_id k,
     op_requireAbsent = True, op_requirePresent = False, op_expectedVersion = None, op_value = AcceptedDoc k\<rparr>]"
  obtain w u where "e_transaction E ?ps (outside s) = (w, Inr u)" "t = s\<lparr>outside := w\<rparr>"
    using assms by (auto simp: replayAccept_def catchA_Inr_iff bindA_Inr_iff ext_eq_iff act_simps split: if_splits)
  then show "C (outside s) ''inbound_webhook_events'' (ax_id k) = None" "C (outside t) ''inbound_webhook_events'' (ax_id k) = Some (AcceptedDoc k)"
    using transaction_ok [of ?ps "outside s" w u]
    by (auto simp: opHolds_def applyOps_def INBOUND_WEBHOOK_EVENTS_COLLECTION_def)
qed

lemma inbound_verified:
  assumes "receiveWebhook E SV q s \<noteq> receiveWebhook E (handling SV hs) q s"
  shows "\<exists>i g eventId timestamp signature body sentAt now p requestId s1 s2 ctx cu w w' secret key k v1 v2.
    iq_integrationId q = JStr i \<and> storedIn C ''webhook_integrations'' asIntegration s i = Some g \<and> \<not> truthy (ig_disabledAt g) \<and>
    inboundParts q = Inr (eventId, timestamp, signature, body) \<and>
    dateTime E timestamp = Some sentAt \<and> (\<exists>u u'. e_now E u = (u', now)) \<and> \<bar>now - sentAt\<bar> \<le> ws_inboundToleranceMs SV \<and>
    pr_principalId p = ig_principalId g \<and> pr_tenantId p = ig_tenantId g \<and> pr_verifiedBy p = ByIntegration \<and>
    authorize E G ''webhooks.receive'' (Verified p)
      \<lparr>rs_type = ''webhook_integration'', rs_tenantId = ig_tenantId g, rs_id = Some (ig_id g),
       rs_attributes = Some [(''provider'', ig_provider g), (''eventId'', eventId), (''credentialRef'', ig_signingCredentialRef g)]\<rparr>
      requestId s1 = (s2, Inr ctx) \<and>
    gw_credentials G = Some cu \<and>
    cu_acquire cu (credentialReference (ig_signingCredentialRef g) (ig_tenantId g) (Some (ig_provider g))) (custodyAccess ctx ''webhook.verify'') w = (w', Inr secret) \<and>
    signingSecretValue (rv_value secret) = Inr key \<and> verifyWebhookSignature E key (timestamp @ ''.'' @ body) signature \<and>
    C (outside s) ''inbound_webhook_events'' (acceptanceId E g eventId) = None \<and>
    replayAccept E k v1 = (v2, Inr True) \<and> C (outside v2) ''inbound_webhook_events'' (acceptanceId E g eventId) = Some (AcceptedDoc k) \<and>
    (\<exists>payload. e_jsonParse E body = Some payload)"
proof -
  let ?I = "{''inbound_webhook_events''}"
  from receive_differs [OF assms] obtain S R i s1 g where
    start: "requireIntegrationStore SV = Inr S" "ws_replayStore SV = Some R" "iq_integrationId q = JStr i"
      "is_get S i s = (s1, Inr (Some g))" "\<not> truthy (ig_disabledAt g)"
    and next1: "receiveFrom E SV R q g s1 \<noteq> receiveFrom E (handling SV hs) R q g s1"
    by blast
  from from_differs [OF next1] obtain eventId timestamp signature body s2 fresh where
    parts: "inboundParts q = Inr (eventId, timestamp, signature, body)" and time: "freshTime E SV timestamp s1 = (s2, Inr fresh)"
    and next2: "receiveFresh E SV R g eventId timestamp signature body fresh s2 \<noteq> receiveFresh E (handling SV hs) R g eventId timestamp signature body fresh s2"
    by blast
  from fresh_differs [OF next2] obtain sentAt p where
    fresh: "fresh = Some sentAt" and mint: "mintVerifiedPrincipal (integrationClaims g) ByIntegration = Inr p"
    and next3: "receiveAs E SV R g p eventId timestamp sentAt signature body s2 \<noteq> receiveAs E (handling SV hs) R g p eventId timestamp sentAt signature body s2"
    by blast
  from receiveAs_differs [OF next3] have next4: "execute E G ''webhooks.receive'' (Verified p)
      \<lparr>rs_type = ''webhook_integration'', rs_tenantId = ig_tenantId g, rs_id = Some (ig_id g),
       rs_attributes = Some [(''provider'', ig_provider g), (''eventId'', eventId), (''credentialRef'', ig_signingCredentialRef g)]\<rparr>
      (inboundOptions g) (inboundEffect E SV G R (inboundOptions g) g p eventId timestamp sentAt signature body) s2 \<noteq>
    execute E G ''webhooks.receive'' (Verified p)
      \<lparr>rs_type = ''webhook_integration'', rs_tenantId = ig_tenantId g, rs_id = Some (ig_id g),
       rs_attributes = Some [(''provider'', ig_provider g), (''eventId'', eventId), (''credentialRef'', ig_signingCredentialRef g)]\<rparr>
      (inboundOptions g) (inboundEffect E (handling SV hs) G R (inboundOptions g) g p eventId timestamp sentAt signature body) s2"
    by simp
  have no_evidence: "EVIDENCE_COLLECTION \<notin> ?I" by (simp add: EVIDENCE_COLLECTION_def)
  obtain requestId s3 s4 ctx s5 where
    auth: "authorize E G ''webhooks.receive'' (Verified p)
      \<lparr>rs_type = ''webhook_integration'', rs_tenantId = ig_tenantId g, rs_id = Some (ig_id g),
       rs_attributes = Some [(''provider'', ig_provider g), (''eventId'', eventId), (''credentialRef'', ig_signingCredentialRef g)]\<rparr>
      requestId s3 = (s4, Inr ctx)" and kept: "keeps C ?I s2 s5"
    and next5: "inboundEffect E SV G R (inboundOptions g) g p eventId timestamp sentAt signature body ctx (s5, \<lparr>tl_refs = [], tl_stored = None\<rparr>) \<noteq>
      inboundEffect E (handling SV hs) G R (inboundOptions g) g p eventId timestamp sentAt signature body ctx (s5, \<lparr>tl_refs = [], tl_stored = None\<rparr>)"
    by (rule gateway_platform.execute_effects_differ_from [OF gateway next4 quiet_mint [OF mint] no_evidence])
  from inbound_differs [OF next5] obtain s6 log cu w w' secret key where
    tool: "toolWithCredential E G ctx (inboundOptions g) (ig_signingCredentialRef g) ''webhook.verify''
      (\<lambda>secret. liftR (bindR (signingSecretValue (rv_value secret)) (\<lambda>key.
         Inr (verifyWebhookSignature E key (timestamp @ ''.'' @ body) signature)))) (s5, \<lparr>tl_refs = [], tl_stored = None\<rparr>) = ((s6, log), Inr True)"
    and cu: "gw_credentials G = Some cu"
      "cu_acquire cu (credentialReference (ig_signingCredentialRef g) (cx_tenantId ctx) (eo_provider (inboundOptions g))) (custodyAccess ctx ''webhook.verify'') w = (w', Inr secret)"
      "signingSecretValue (rv_value secret) = Inr key" "verifyWebhookSignature E key (timestamp @ ''.'' @ body) signature"
    and next6: "acceptOnce E SV R g p eventId sentAt body ctx s6 \<noteq> acceptOnce E (handling SV hs) R g p eventId sentAt body ctx s6"
    by blast
  from accept_differs [OF next6] obtain k v1 at v2 where
    k: "ax_id k = acceptanceId E g eventId" and at: "nowISO E s6 = (v1, Inr at)" and acc: "rp_accept R k v1 = (v2, Inr True)"
    and json: "\<exists>payload. e_jsonParse E body = Some payload"
    by blast
  have S: "S = feltDbWebhookIntegrationStore E" and R: "R = feltDbInboundWebhookReplayStore E"
    using start(1,2) stores(4,5) by (simp_all add: requireIntegrationStore_def)
  have stored: "storedIn C ''webhook_integrations'' asIntegration s i = Some g" and first: "keeps C UNIV s s1"
    using get_integration [OF start(4) [unfolded S]] .
  obtain now u u' where now: "dateTime E timestamp = Some sentAt" "e_now E u = (u', now)" "\<bar>now - sentAt\<bar> \<le> ws_inboundToleranceMs SV"
    using time fresh by (auto simp: freshTime_def bindA_Inr_iff act_simps draw_eq_iff split: option.splits if_splits)
  have second: "keeps C ?I s1 s2"
    using movesD [OF keeps_fresh time] .
  have third: "keeps C ?I s5 s6" using movesD [OF keeps_tool tool] by (simp add: onSys_def)
  have fourth: "keeps C ?I s6 v1" using movesD [OF keeps_nowISO at] .
  have accept: "replayAccept E k v1 = (v2, Inr True)" using acc R by (simp add: feltDbInboundWebhookReplayStore_def)
  have absent: "C (outside s) ''inbound_webhook_events'' (acceptanceId E g eventId) = None"
    using accept_recorded(1) [OF accept] first second kept third fourth by (simp add: keeps_def k)
  have recorded: "C (outside v2) ''inbound_webhook_events'' (acceptanceId E g eventId) = Some (AcceptedDoc k)"
    using accept_recorded(2) [OF accept] by (simp add: k)
  have pr: "pr_principalId p = ig_principalId g" "pr_tenantId p = ig_tenantId g" "pr_verifiedBy p = ByIntegration"
    using mint by (auto simp: mintVerifiedPrincipal_def integrationClaims_def bindR_Inr_iff claimedText_def split: if_splits)
  have tenant: "cx_tenantId ctx = ig_tenantId g" using auth by (rule authorize_Inr) (simp add: grantedContext_def)
  have "eo_provider (inboundOptions g) = Some (ig_provider g)" by (simp add: inboundOptions_def)
  then have acquired: "cu_acquire cu (credentialReference (ig_signingCredentialRef g) (ig_tenantId g) (Some (ig_provider g)))
      (custodyAccess ctx ''webhook.verify'') w = (w', Inr secret)"
    using cu(2) tenant by simp
  show ?thesis
    using start(3,5) stored parts now pr auth cu(1,3,4) acquired absent accept recorded json
    by - (rule exI [of _ i], rule exI [of _ g], rule exI [of _ eventId], rule exI [of _ timestamp], rule exI [of _ signature],
      rule exI [of _ body], rule exI [of _ sentAt], rule exI [of _ now], rule exI [of _ p], rule exI [of _ requestId], rule
      exI [of _ s3], rule exI [of _ s4], rule exI [of _ ctx], rule exI [of _ cu], rule exI [of _ w], rule exI [of _ w'],
      rule exI [of _ secret], rule exI [of _ key], rule exI [of _ k], rule exI [of _ v1], rule exI [of _ v2],
      simp only: simp_thms, blast)
qed

end

section \<open>Properties\<close>

text \<open>
  C34: what the application's handlers do can matter to an inbound request only when it names a stored,
  active integration, was sent within the tolerance, runs as that integration's principal under an
  authorized \<open>webhooks.receive\<close> for exactly this event, carries a signature of its timestamp and body
  under the secret the custody released for this context, and its identity was not accepted before; the
  acceptance is then stored before any handler runs. So an event that was accepted is never handled
  again, whatever the handlers are.
\<close>

lemma inbound_events_verified_once:
  assumes "felt_webhook_service E C SV N fuel G" and "receiveWebhook E SV q s \<noteq> receiveWebhook E (handling SV hs) q s"
  shows "\<exists>i g eventId timestamp signature body sentAt now p requestId s1 s2 ctx cu w w' secret key k v1 v2.
    iq_integrationId q = JStr i \<and> storedIn C ''webhook_integrations'' asIntegration s i = Some g \<and> \<not> truthy (ig_disabledAt g) \<and>
    inboundParts q = Inr (eventId, timestamp, signature, body) \<and>
    dateTime E timestamp = Some sentAt \<and> (\<exists>u u'. e_now E u = (u', now)) \<and> \<bar>now - sentAt\<bar> \<le> ws_inboundToleranceMs SV \<and>
    pr_principalId p = ig_principalId g \<and> pr_tenantId p = ig_tenantId g \<and> pr_verifiedBy p = ByIntegration \<and>
    authorize E G ''webhooks.receive'' (Verified p)
      \<lparr>rs_type = ''webhook_integration'', rs_tenantId = ig_tenantId g, rs_id = Some (ig_id g),
       rs_attributes = Some [(''provider'', ig_provider g), (''eventId'', eventId), (''credentialRef'', ig_signingCredentialRef g)]\<rparr>
      requestId s1 = (s2, Inr ctx) \<and>
    gw_credentials G = Some cu \<and>
    cu_acquire cu (credentialReference (ig_signingCredentialRef g) (ig_tenantId g) (Some (ig_provider g))) (custodyAccess ctx ''webhook.verify'') w = (w', Inr secret) \<and>
    signingSecretValue (rv_value secret) = Inr key \<and> verifyWebhookSignature E key (timestamp @ ''.'' @ body) signature \<and>
    C (outside s) ''inbound_webhook_events'' (acceptanceId E g eventId) = None \<and>
    replayAccept E k v1 = (v2, Inr True) \<and> C (outside v2) ''inbound_webhook_events'' (acceptanceId E g eventId) = Some (AcceptedDoc k) \<and>
    (\<exists>payload. e_jsonParse E body = Some payload)"
  by (rule felt_webhook_service.inbound_verified [OF assms])

end
