(* ===== verification/DeliveryExamples.thy ===== *)
theory DeliveryExamples
  imports WebhookExamples WebhookInbound
begin

text \<open>
  Whole runs of a delivery and of an inbound request on the in-memory platform, for the theorems about
  what they can do.
\<close>

section \<open>Steps of any run\<close>

definition atNoon :: "mem sys \<Rightarrow> bool" where
  "atNoon s \<longleftrightarrow> m_clock (outside s) = 1700000000000"

lemma noon_now: "atNoon s \<Longrightarrow> nowISO memEnv s = (s, Inr demoTime)"
  by (simp add: atNoon_def run_simps demoTime_def)

text \<open>Writing through the in-memory collections never rejects and leaves the clock.\<close>

lemma noon_insert:
  assumes "atNoon s"
  shows "\<exists>t. webhookAudit memEnv demoWebhooks ev s = (t, Inr ()) \<and> atNoon t"
  using assms
  by (simp add: webhookAudit_def demoWebhooks_def feltDbWebhookAuditSink_def run_simps atNoon_def, simp add: memEnv_def memColl_def)

lemma noon_update:
  assumes "atNoon s"
  shows "\<exists>t x. updateClaimed demoWebhooks d f s = (t, Inr x) \<and> atNoon t"
  using assms
  by (auto simp: updateClaimed_def demoWebhooks_def feltDbWebhookDeliveryStore_def deliveryStoreUpdate_def casItem_def run_simps atNoon_def,
      auto simp: memEnv_def memColl_def ret_def split: option.split)

lemma noon_recorded:
  assumes "atNoon s" and "dr_success result"
  shows "\<exists>t. recordAttempt memEnv demoWebhooks d result s = (t, Inr ())"
proof -
  obtain t x where "updateClaimed demoWebhooks d (markDelivered demoTime (dv_attemptCount d + 1) (dr_statusCode result)) s = (t, Inr x)"
    and t: "atNoon t" using noon_update [OF assms(1)] by blast
  moreover obtain u where "webhookAudit memEnv demoWebhooks (deliveryEvent ''webhook.delivery.delivered'' d (deliveryActor d) True) t = (u, Inr ())"
    using noon_insert [OF t] by blast
  ultimately show ?thesis using assms noon_now [OF assms(1)] by (simp add: recordAttempt_def bindA_def Let_def)
qed

text \<open>An effect that rejects makes the operation reject with its error, whatever becomes of the evidence.\<close>

lemma noon_fails:
  assumes "m (s, \<lparr>tl_refs = [], tl_stored = None\<rparr>) = ((u, log), Inl e)" and "atNoon u"
  shows "\<exists>t. performEffect memEnv opts i m s = (t, Inl e)"
proof -
  obtain v q where "catchA (evidenceComplete memEnv i (failedWith opts log e demoTime)) (\<lambda>_. ret ()) u = (v, q)"
    by (cases "catchA (evidenceComplete memEnv i (failedWith opts log e demoTime)) (\<lambda>_. ret ()) u")
  moreover from this have "q = Inr ()" by (auto simp: catchA_def act_simps split: prod.splits sum.splits)
  ultimately show ?thesis
    using assms(1) noon_now [OF assms(2)] by (simp add: performEffect_def completeEffect_def bindA_def catchA_def act_simps)
qed

section \<open>A delivery\<close>

definition hookRow :: effect_evidence where
  "hookRow = demoRow\<lparr>ev_capability := ''webhooks.emit''\<rparr>"

definition readyHooks :: "mem sys" where
  "readyHooks = withDelivery demoDelivery (withEndpoint demoEndpoint
     (demoSys\<lparr>outside := memPut EVIDENCE_COLLECTION ''x1'' (EvidenceDoc hookRow) (outside demoSys)\<rparr>))"

definition claimedDelivery :: webhook_delivery where
  "claimedDelivery = demoDelivery\<lparr>dv_status := Delivering, dv_lastAttemptAt := Some demoTime, dv_version := 2\<rparr>"

definition claimedHooks :: "mem sys" where
  "claimedHooks = readyHooks\<lparr>outside := memPut ''webhook_deliveries'' ''w1'' (DeliveryDoc claimedDelivery) (outside readyHooks)\<rparr>"

lemma demo_endpoint_fields [simp]:
  "wp_id demoEndpoint = ''e1''" "wp_tenantId demoEndpoint = ''acme''" "wp_applicationId demoEndpoint = Some ''shop''"
  "wp_url demoEndpoint = ''https://hooks.example/in''" "wp_signingCredentialRef demoEndpoint = Some ''credential-ref:hook''"
  "wp_disabledAt demoEndpoint = None"
  by (simp_all add: demoEndpoint_def)

lemma demo_delivery_fields [simp]:
  "dv_id demoDelivery = ''w1''" "dv_tenantId demoDelivery = ''acme''" "dv_endpointId demoDelivery = ''e1''"
  "dv_eventType demoDelivery = ''order.paid''" "dv_status demoDelivery = DeliveryPending" "dv_version demoDelivery = 1"
  "dv_principal demoDelivery = Some demoDurable" "dv_attemptCount claimedDelivery = 0" "dv_attemptCount demoDelivery = 0"
  by (simp_all add: demoDelivery_def claimedDelivery_def)

lemma ready_view [simp]:
  "memView (outside readyHooks) name i =
     (if name = ''webhook_deliveries'' \<and> i = ''w1'' then Some (DeliveryDoc demoDelivery)
      else if name = ''webhook_endpoints'' \<and> i = ''e1'' then Some (EndpointDoc demoEndpoint)
      else if name = EVIDENCE_COLLECTION \<and> i = ''x1'' then Some (EvidenceDoc hookRow) else None)"
  by (simp add: readyHooks_def withDelivery_def withEndpoint_def memView_memPut demoSys_def, simp add: memView_def)

lemma ready_fields [simp]:
  "m_clock (outside readyHooks) = 1700000000000" "m_serial (outside readyHooks) = 0" "mintedContexts readyHooks = 0"
  by (simp_all add: readyHooks_def withDelivery_def withEndpoint_def demoSys_def)

lemma claimed_fields [simp]:
  "m_clock (outside claimedHooks) = 1700000000000" "m_serial (outside claimedHooks) = 0" "mintedContexts claimedHooks = 0"
  by (simp_all add: claimedHooks_def)

lemma ready_get:
  "ds_get (ws_deliveryStore demoWebhooks) ''w1'' readyHooks = (readyHooks, Inr (Some demoDelivery))"
  "es_get (ws_endpointStore demoWebhooks) ''e1'' readyHooks = (readyHooks, Inr (Some demoEndpoint))"
  by (simp_all add: demoWebhooks_def feltDbWebhookDeliveryStore_def feltDbWebhookEndpointStore_def deliveryStoreGet_def
      endpointStoreGet_def run_simps memEnv_def memColl_def asDelivery_def asEndpoint_def)

lemma hooks_attested:
  "attest memEnv (demoGateway True) (Some demoDurable) [''webhooks.emit'', ''webhooks.replay''] readyHooks = (readyHooks, Inr ())"
proof -
  have "c_find (e_evidence memEnv) (\<lambda>ev. ev_decisionId ev = Some ''d1'') (outside readyHooks) = (outside readyHooks, Inr [hookRow])"
    by (simp add: memEnv_def memColl_def, simp add: readyHooks_def withDelivery_def withEndpoint_def demoSys_def memPut_def
        EVIDENCE_COLLECTION_def map_filter_def asEvidence_def hookRow_def demoRow_def)
  then show ?thesis
    by (simp add: attest_def findByDecision_def run_simps demoDurable_def demoGateway_def hookRow_def demoRow_def)
qed

lemma ready_claimed: "ds_claim (ws_deliveryStore demoWebhooks) ''w1'' 1 readyHooks = (claimedHooks, Inr (Some claimedDelivery))"
  by (simp add: demoWebhooks_def feltDbWebhookDeliveryStore_def deliveryStoreClaim_def casItem_def run_simps memEnv_def memColl_def
      asDelivery_def claimedHooks_def claimedDelivery_def claimDelivery_def demoTime_def)

definition hookPrincipal :: "mem principal" where
  "hookPrincipal = \<lparr>pr_principalId = ''alice'', pr_principalType = ''user'', pr_tenantId = ''acme'', pr_applicationId = None,
      pr_credentialId = None, pr_delegationId = None, pr_runId = Some ''w1:1'', pr_verifiedBy = ByDelivery, pr_check = None\<rparr>"

lemma hook_minted: "mintVerifiedPrincipal (runClaims demoDurable ''w1:1'') ByDelivery = Inr hookPrincipal"
  by (simp add: mintVerifiedPrincipal_def runClaims_def demoDurable_def claimedText_def trim_def isWhite_def hookPrincipal_def)

abbreviation deliverDeclared :: capability where
  "deliverDeclared \<equiv> \<lparr>cp_name = ''webhooks.deliver'', cp_version = 1, cp_service = ''webhooks'',
     cp_operation = ''deliverWebhook'', cp_effect = Consequential, cp_invocable = False, cp_required = True, cp_resource = ''webhook_delivery''\<rparr>"

lemma deliver_capability: "getServiceCapability memEnv ''webhooks.deliver'' = Some deliverDeclared"
  by (simp add: getServiceCapability_eq ENTRIES_def freezeCapability_def)

abbreviation hookResource :: resource where
  "hookResource \<equiv> \<lparr>rs_type = ''webhook_delivery'', rs_tenantId = ''acme'', rs_id = Some ''w1'',
     rs_attributes = Some [(''endpointId'', ''e1''), (''destination'', ''https://hooks.example''), (''eventType'', ''order.paid''),
       (''credentialRef'', ''credential-ref:hook'')]\<rparr>"

abbreviation hookOptions :: execute_options where
  "hookOptions \<equiv> deliveryOptions ''credential-ref:hook''"

lemma hook_safe:
  "assertEvidenceHasNoSecrets (evidenceEntries (demoEvidence deliverDeclared hookPrincipal hookResource hookOptions claimedHooks)) = Inr ()"
  "assertEvidenceHasNoSecrets (completionEntries (succeededWith hookOptions \<lparr>tl_refs = [''credential-ref:hook''], tl_stored = None\<rparr> demoTime)) = Inr ()"
  by code_simp+

abbreviation hookGrant :: "mem exec_context" where
  "hookGrant \<equiv> demoGrant deliverDeclared hookPrincipal hookResource claimedHooks"

abbreviation hookStarted :: "mem sys" where
  "hookStarted \<equiv> demoStarted deliverDeclared hookPrincipal hookResource hookOptions claimedHooks"

lemma hook_valid:
  "validateDestination demoNetwork False ''https://hooks.example/in'' s = (s, Inr (demoUrl, demoAddress))"
proof -
  have "normalHost (ur_hostname demoUrl) = ''hooks.example''" "\<not> isForbiddenAddress ''93.184.216.34''" "isIP ''hooks.example'' = 0"
    by code_simp+
  moreover have "''hooks.example'' \<notin> set BLOCKED_HOSTNAMES" "\<not> endsWith ''hooks.example'' ''.localhost''" "\<not> endsWith ''hooks.example'' ''.internal''"
    by code_simp+
  ultimately show ?thesis
    by (simp add: validateDestination_def Let_def resolveHost_def checkAddresses_def run_simps demoNetwork_def demoAddress_def,
        simp add: demoUrl_def)
qed

definition hookSignature :: string where
  "hookSignature = signWebhookPayload memEnv ''hunter2'' (deliveryBody claimedDelivery)"

lemma hook_signed:
  assumes "atNoon s"
  shows "toolWithCredential memEnv (demoGateway True) hookGrant hookOptions ''credential-ref:hook'' ''webhook.sign''
      (\<lambda>secret. liftR (bindR (signingSecretValue (rv_value secret)) (\<lambda>key. Inr (signWebhookPayload memEnv key (deliveryBody claimedDelivery)))))
      (s, \<lparr>tl_refs = [], tl_stored = None\<rparr>) = ((s, \<lparr>tl_refs = [''credential-ref:hook''], tl_stored = None\<rparr>), Inr hookSignature)"
proof -
  have "custodyContext memEnv (Issued hookGrant) ''credential-ref:hook'' s = (s, Inr hookGrant)"
    using assms by (simp add: custodyContext_def assertExecutionContext_def claimedCapability_def attribute_def demoGrant_def run_simps
        dateLeq_def dateTime_def atNoon_def)
  then show ?thesis
    by (simp add: toolWithCredential_def withCredential_def noteRef_def bindA_def plain_def Let_def settle_def act_simps demoGateway_def demoCustody_def
        ext_def signingSecretValue_def hookSignature_def)
qed

abbreviation hookLog :: tool_log where
  "hookLog \<equiv> \<lparr>tl_refs = [''credential-ref:hook''], tl_stored = None\<rparr>"

abbreviation replying :: "int \<Rightarrow> http_request \<Rightarrow> (mem, exn, http_outcome) act" where
  "replying status \<equiv> \<lambda>q w. (w, Inr (HttpStatus (Some status)))"

lemma hook_effect:
  assumes "atNoon s"
  shows "deliveryEffect memEnv (posting demoNetwork (replying status)) demoWebhooks (demoGateway True) hookOptions demoEndpoint
      ''credential-ref:hook'' claimedDelivery hookGrant (s, \<lparr>tl_refs = [], tl_stored = None\<rparr>) =
    ((s, hookLog), if dr_success (httpOutcome (HttpStatus (Some status))) then Inr (httpOutcome (HttpStatus (Some status)))
       else Inl (ServiceAuthorityError PROVIDER_ERROR
         (case dr_error (httpOutcome (HttpStatus (Some status))) of Some msg \<Rightarrow> msg | None \<Rightarrow> ''Webhook delivery failed'')
         (noDetails\<lparr>ed_outcome := Some (httpOutcome (HttpStatus (Some status)))\<rparr>)))"
proof -
  have "ws_allowPrivate demoWebhooks = False" by (simp add: demoWebhooks_def)
  then show ?thesis
    using hook_valid [of s] hook_signed [OF assms]
    by (simp add: deliveryEffect_def bindA_def plain_def performHttpDelivery_def ext_def act_simps)
qed

lemma noon_started: "atNoon hookStarted"
  by (simp add: atNoon_def demoStarted_def)

lemma demo_answers: "posting demoNetwork (replying 200) = demoNetwork"
  by (simp add: demoNetwork_def)

lemma hook_attempt:
  "attemptDelivery memEnv (posting demoNetwork post) demoWebhooks (demoGateway True) ''acme'' demoEndpoint ''credential-ref:hook'' demoDelivery
     claimedDelivery hookPrincipal claimedHooks =
   performEffect memEnv hookOptions (demoId 1)
     (deliveryEffect memEnv (posting demoNetwork post) demoWebhooks (demoGateway True) hookOptions demoEndpoint ''credential-ref:hook''
        claimedDelivery hookGrant) hookStarted"
proof -
  have "nw_url demoNetwork ''https://hooks.example/in'' = Some demoUrl" "ur_origin demoUrl = ''https://hooks.example''"
    by (simp_all add: demoNetwork_def demoUrl_def)
  moreover have "memView (outside claimedHooks) EVIDENCE_COLLECTION (demoId 1) = None"
    by (simp add: claimedHooks_def memView_memPut EVIDENCE_COLLECTION_def demoId_def)
  ultimately show ?thesis
    using demo_execute [where s = claimedHooks and p = hookPrincipal and r = hookResource and opts = hookOptions, OF deliver_capability]
      hook_safe(1)
    by (simp add: attemptDelivery_def deliveryOptions_def hookPrincipal_def)
qed

lemma hook_claimed:
  "deliverWebhook memEnv (posting demoNetwork post) demoWebhooks ''acme'' ''w1'' readyHooks =
   deliverClaimed memEnv (posting demoNetwork post) demoWebhooks (demoGateway True) ''acme'' demoEndpoint ''credential-ref:hook'' demoDurable
     demoDelivery claimedDelivery claimedHooks"
proof -
  have "webhookGateway demoWebhooks = Inr (demoGateway True)" "gw_application (demoGateway True) = ''shop''" "dp_tenantId demoDurable = ''acme''"
    by (simp_all add: webhookGateway_def demoWebhooks_def demoGateway_def demoDurable_def)
  then show ?thesis
    using ready_get hooks_attested ready_claimed
    by (simp add: deliverWebhook_def deliverTo_def deliverAttested_def bindA_def settle_def act_simps)
qed

lemma hook_delivered:
  assumes "attemptDelivery memEnv (posting demoNetwork post) demoWebhooks (demoGateway True) ''acme'' demoEndpoint ''credential-ref:hook''
      demoDelivery claimedDelivery hookPrincipal claimedHooks = (t, r)"
  shows "deliverWebhook memEnv (posting demoNetwork post) demoWebhooks ''acme'' ''w1'' readyHooks =
    (let result = (case r of Inl e \<Rightarrow> failureResult e | Inr x \<Rightarrow> x) in bindA (recordAttempt memEnv demoWebhooks claimedDelivery result) (\<lambda>_. ret result)) t"
proof -
  have "intString 1 = ''1''" "dv_attemptCount demoDelivery = 0" by code_simp+
  then show ?thesis
    using hook_minted assms unfolding hook_claimed deliverClaimed_def
    by (simp only: bindA_def settle_def liftR_def, simp add: act_simps Let_def)
qed

lemma hook_succeeds:
  "\<exists>t. deliverWebhook memEnv demoNetwork demoWebhooks ''acme'' ''w1'' readyHooks = (t, Inr (succeeded 200))"
proof -
  have outcome: "httpOutcome (HttpStatus (Some 200)) = succeeded 200" "dr_success (succeeded 200)"
    by (simp_all add: httpOutcome_def succeeded_def)
  let ?t = "hookStarted\<lparr>outside := memPut EVIDENCE_COLLECTION (demoId 1)
      (EvidenceDoc (applyCompletion (succeededWith hookOptions hookLog demoTime) (demoEvidence deliverDeclared hookPrincipal hookResource hookOptions claimedHooks)))
      (outside hookStarted)\<rparr>"
  have "attemptDelivery memEnv demoNetwork demoWebhooks (demoGateway True) ''acme'' demoEndpoint ''credential-ref:hook''
      demoDelivery claimedDelivery hookPrincipal claimedHooks = (?t, Inr (succeeded 200))"
    using hook_attempt [of "replying 200"] hook_effect [OF noon_started, of 200] outcome unfolding demo_answers
    by (simp only:, intro demo_perform) (simp_all add: hook_safe(2) noon_started [unfolded atNoon_def] demo_evidence_stored [of _ _ _ _ claimedHooks, simplified])
  moreover have "atNoon ?t" using noon_started by (simp add: atNoon_def)
  with noon_recorded [of ?t "succeeded 200" claimedDelivery] outcome(2)
  obtain u where "recordAttempt memEnv demoWebhooks claimedDelivery (succeeded 200) ?t = (u, Inr ())" by blast
  ultimately show ?thesis
    using hook_delivered [of "replying 200", unfolded demo_answers] by (simp add: bindA_def ret_def Let_def)
qed

lemma hook_breaks:
  "snd (deliverWebhook memEnv (posting demoNetwork (replying 500)) demoWebhooks ''acme'' ''w1'' readyHooks) \<noteq> Inr (succeeded 200)"
proof -
  let ?e = "ServiceAuthorityError PROVIDER_ERROR
         (case dr_error (httpOutcome (HttpStatus (Some 500))) of Some msg \<Rightarrow> msg | None \<Rightarrow> ''Webhook delivery failed'')
         (noDetails\<lparr>ed_outcome := Some (httpOutcome (HttpStatus (Some 500)))\<rparr>)"
  have broken: "\<not> dr_success (httpOutcome (HttpStatus (Some 500)))" by (simp add: httpOutcome_def failure_def)
  from noon_fails [OF _ noon_started] hook_effect [OF noon_started, of 500] broken
  obtain t where "performEffect memEnv hookOptions (demoId 1)
     (deliveryEffect memEnv (posting demoNetwork (replying 500)) demoWebhooks (demoGateway True) hookOptions demoEndpoint ''credential-ref:hook''
        claimedDelivery hookGrant) hookStarted = (t, Inl ?e)" by (simp only: if_False) blast
  then have attempt: "attemptDelivery memEnv (posting demoNetwork (replying 500)) demoWebhooks (demoGateway True) ''acme'' demoEndpoint
      ''credential-ref:hook'' demoDelivery claimedDelivery hookPrincipal claimedHooks = (t, Inl ?e)"
    by (simp only: hook_attempt)
  have "failureResult ?e \<noteq> succeeded 200" using broken by (simp add: failureResult_def noDetails_def succeeded_def) auto
  then show ?thesis
    using hook_delivered [OF attempt] by (simp add: bindA_def ret_def Let_def split: prod.splits sum.splits)
qed

lemma webhook_posts_authorized_witness:
  "(\<exists>t. deliverWebhook memEnv demoNetwork demoWebhooks ''acme'' ''w1'' readyHooks = (t, Inr (succeeded 200))) \<and>
   (\<exists>p requestId s1 s2 ctx. pr_principalId p = ''alice'' \<and> pr_verifiedBy p = ByDelivery \<and>
     authorize memEnv (demoGateway True) ''webhooks.deliver'' (Verified p) hookResource requestId s1 = (s2, Inr ctx))"
proof
  have "deliverWebhook memEnv demoNetwork demoWebhooks ''acme'' ''w1'' readyHooks \<noteq>
      deliverWebhook memEnv (posting demoNetwork (replying 500)) demoWebhooks ''acme'' ''w1'' readyHooks"
    using hook_succeeds hook_breaks by auto
  from webhook_posts_authorized [OF demoWebhooks.felt_webhook_service_axioms this]
  obtain d endpoint dp ref p u requestId s1 s2 ctx where
    d: "storedDeliveries memView readyHooks ''w1'' = Some d" "dv_principal d = Some dp" and
    endpoint: "storedEndpoints memView readyHooks (dv_endpointId d) = Some endpoint" "wp_signingCredentialRef endpoint = Some ref" and
    p: "pr_principalId p = dp_principalId dp" "pr_verifiedBy p = ByDelivery" and u: "nw_url demoNetwork (wp_url endpoint) = Some u" and
    auth: "authorize memEnv (demoGateway True) ''webhooks.deliver'' (Verified p)
      \<lparr>rs_type = ''webhook_delivery'', rs_tenantId = ''acme'', rs_id = Some (dv_id d),
       rs_attributes = Some [(''endpointId'', wp_id endpoint), (''destination'', ur_origin u),
         (''eventType'', dv_eventType d), (''credentialRef'', ref)]\<rparr> requestId s1 = (s2, Inr ctx)"
    by blast
  have "d = demoDelivery" using d by (simp add: storedDeliveries_def storedIn_def asDelivery_def)
  moreover from this have "endpoint = demoEndpoint" using endpoint by (simp add: storedEndpoints_def storedIn_def asEndpoint_def)
  moreover from this have "u = demoUrl" using u by (simp add: demoNetwork_def split: if_splits)
  ultimately have "authorize memEnv (demoGateway True) ''webhooks.deliver'' (Verified p) hookResource requestId s1 = (s2, Inr ctx)"
    and "pr_principalId p = ''alice''"
    using auth p d endpoint by (auto simp: demoUrl_def demoDurable_def)
  then show "\<exists>p requestId s1 s2 ctx. pr_principalId p = ''alice'' \<and> pr_verifiedBy p = ByDelivery \<and>
     authorize memEnv (demoGateway True) ''webhooks.deliver'' (Verified p) hookResource requestId s1 = (s2, Inr ctx)"
    using p(2) by blast
qed (rule hook_succeeds)

end
