(* ===== verification/InboundExamples.thy ===== *)
theory InboundExamples
  imports DeliveryExamples
begin

text \<open>
  An inbound event on the in-memory platform, and the witness of the theorem about inbound events.
\<close>

definition refusing :: "mem inbound_handler" where
  "refusing event p ctx = raise (PlainError ''not now'')"

lemma integrated_view [simp]:
  "memView (outside integratedSys) name i = (if name = ''webhook_integrations'' \<and> i = ''g1'' then Some (IntegrationDoc demoIntegration) else None)"
  by (simp add: integratedSys_def memView_memPut demoSys_def, simp add: memView_def)

lemma integrated_fields [simp]:
  "m_clock (outside integratedSys) = 1700000000000" "m_serial (outside integratedSys) = 0" "mintedContexts integratedSys = 0"
  by (simp_all add: integratedSys_def demoSys_def)

lemma demo_integration_fields [simp]:
  "ig_id demoIntegration = ''g1''" "ig_tenantId demoIntegration = ''acme''" "ig_provider demoIntegration = ''crm''"
  "ig_signingCredentialRef demoIntegration = ''credential-ref:hook''" "ig_disabledAt demoIntegration = None"
  by (simp_all add: demoIntegration_def)

definition inboundPrincipal :: "mem principal" where
  "inboundPrincipal = \<lparr>pr_principalId = ''crm-bot'', pr_principalType = ''integration'', pr_tenantId = ''acme'', pr_applicationId = Some ''shop'',
      pr_credentialId = None, pr_delegationId = None, pr_runId = None, pr_verifiedBy = ByIntegration, pr_check = None\<rparr>"

lemma inbound_minted: "mintVerifiedPrincipal (integrationClaims demoIntegration) ByIntegration = Inr inboundPrincipal"
  by (simp add: mintVerifiedPrincipal_def integrationClaims_def demoIntegration_def claimedText_def trim_def isWhite_def inboundPrincipal_def)

abbreviation receiveDeclared :: capability where
  "receiveDeclared \<equiv> \<lparr>cp_name = ''webhooks.receive'', cp_version = 1, cp_service = ''webhooks'',
     cp_operation = ''receiveWebhook'', cp_effect = Consequential, cp_invocable = False, cp_required = True, cp_resource = ''webhook_integration''\<rparr>"

lemma receive_capability: "getServiceCapability memEnv ''webhooks.receive'' = Some receiveDeclared"
  by (simp add: getServiceCapability_eq ENTRIES_def freezeCapability_def)

abbreviation inboundResource :: resource where
  "inboundResource \<equiv> \<lparr>rs_type = ''webhook_integration'', rs_tenantId = ''acme'', rs_id = Some ''g1'',
     rs_attributes = Some [(''provider'', ''crm''), (''eventId'', ''v1''), (''credentialRef'', ''credential-ref:hook'')]\<rparr>"

abbreviation receiveOptions :: execute_options where
  "receiveOptions \<equiv> inboundOptions demoIntegration"

lemma inbound_safe:
  "assertEvidenceHasNoSecrets (evidenceEntries (demoEvidence receiveDeclared inboundPrincipal inboundResource receiveOptions integratedSys)) = Inr ()"
  "assertEvidenceHasNoSecrets (completionEntries (succeededWith receiveOptions hookLog demoTime)) = Inr ()"
  by code_simp+

abbreviation inboundGrant :: "mem exec_context" where
  "inboundGrant \<equiv> demoGrant receiveDeclared inboundPrincipal inboundResource integratedSys"

abbreviation inboundStarted :: "mem sys" where
  "inboundStarted \<equiv> demoStarted receiveDeclared inboundPrincipal inboundResource receiveOptions integratedSys"

lemma inbound_verified_sig:
  assumes "atNoon s"
  shows "toolWithCredential memEnv (demoGateway True) inboundGrant receiveOptions ''credential-ref:hook'' ''webhook.verify''
      (\<lambda>secret. liftR (bindR (signingSecretValue (rv_value secret)) (\<lambda>key.
         Inr (verifyWebhookSignature memEnv key (demoTime @ ''.'' @ ''{}'') inboundSignature))))
      (s, \<lparr>tl_refs = [], tl_stored = None\<rparr>) = ((s, hookLog), Inr True)"
proof -
  have "custodyContext memEnv (Issued inboundGrant) ''credential-ref:hook'' s = (s, Inr inboundGrant)"
    using assms by (simp add: custodyContext_def assertExecutionContext_def claimedCapability_def attribute_def demoGrant_def run_simps
        dateLeq_def dateTime_def atNoon_def)
  then show ?thesis
    by (simp add: toolWithCredential_def withCredential_def noteRef_def bindA_def plain_def Let_def settle_def act_simps demoGateway_def demoCustody_def
        ext_def signingSecretValue_def inboundSignature_def verifyWebhookSignature_def)
qed

definition demoAccepted :: accepted_event where
  "demoAccepted =
     \<lparr>ax_id = acceptanceId memEnv demoIntegration ''v1'', ax_integrationId = ''g1'', ax_provider = ''crm'', ax_eventId = ''v1'',
      ax_eventTimestamp = demoTime, ax_acceptedAt = demoTime, ax_tenantId = ''acme''\<rparr>"

definition acceptedSys :: "mem sys" where
  "acceptedSys = inboundStarted\<lparr>outside := memPut ''inbound_webhook_events'' (ax_id demoAccepted) (AcceptedDoc demoAccepted) (outside inboundStarted)\<rparr>"

lemma noon_inbound: "atNoon inboundStarted" "atNoon acceptedSys"
  by (simp_all add: atNoon_def acceptedSys_def demoStarted_def)

lemma inbound_accepted: "replayAccept memEnv demoAccepted inboundStarted = (acceptedSys, Inr True)"
proof -
  have "memView (outside inboundStarted) ''inbound_webhook_events'' i = None" for i
    by (simp add: demoStarted_def memView_memPut EVIDENCE_COLLECTION_def)
  then show ?thesis
    by (simp add: replayAccept_def run_simps catchA_def, simp add: memEnv_def memTransaction_def acceptedSys_def INBOUND_WEBHOOK_EVENTS_COLLECTION_def opHolds_def)
qed

lemma demo_sent: "toISOString 1700000000000 = Inr demoTime" "dateTime memEnv demoTime = Some 1700000000000"
  by code_simp+

abbreviation inboundRun :: "mem webhook_service \<Rightarrow> (mem, inbound_result) effect" where
  "inboundRun SV \<equiv> inboundEffect memEnv SV (demoGateway True) (feltDbInboundWebhookReplayStore memEnv) receiveOptions demoIntegration
     inboundPrincipal ''v1'' demoTime 1700000000000 inboundSignature ''{}'' inboundGrant"

lemma inbound_run:
  "inboundRun SV (inboundStarted, \<lparr>tl_refs = [], tl_stored = None\<rparr>) =
    (let (t, r) = handleEvent memEnv SV demoIntegration inboundPrincipal ''v1'' 1700000000000 ''{}'' inboundGrant acceptedSys in ((t, hookLog), r))"
  using inbound_verified_sig [OF noon_inbound(1)] inbound_accepted noon_now [OF noon_inbound(1)] demo_sent
  by (simp add: inboundEffect_def bindA_def plain_def acceptOnce_def act_simps feltDbInboundWebhookReplayStore_def demoAccepted_def split: prod.splits)

abbreviation inboundExecuted :: "mem webhook_service \<Rightarrow> (mem, inbound_result) service" where
  "inboundExecuted SV \<equiv> execute memEnv (demoGateway True) ''webhooks.receive'' (Verified inboundPrincipal) inboundResource receiveOptions (\<lambda>ctx.
     inboundEffect memEnv SV (demoGateway True) (feltDbInboundWebhookReplayStore memEnv) receiveOptions demoIntegration
       inboundPrincipal ''v1'' demoTime 1700000000000 inboundSignature ''{}'' ctx)"

lemma inbound_executed: "inboundExecuted SV integratedSys = performEffect memEnv receiveOptions (demoId 1) (inboundRun SV) inboundStarted"
  using demo_execute [where s = integratedSys and p = inboundPrincipal and r = inboundResource and opts = receiveOptions, OF receive_capability]
    inbound_safe(1)
  by (simp add: inboundOptions_def inboundPrincipal_def EVIDENCE_COLLECTION_def)

lemma inbound_json: "e_jsonParse memEnv x = Some (JStr x)"
  by (simp add: memEnv_def)

lemma inbound_received:
  assumes "webhookGateway SV = Inr (demoGateway True)" and "requireIntegrationStore SV = Inr (feltDbWebhookIntegrationStore memEnv)"
    and "ws_replayStore SV = Some (feltDbInboundWebhookReplayStore memEnv)" and "ws_inboundToleranceMs SV = 300000"
  shows "receiveWebhook memEnv SV demoInbound integratedSys =
    receiveAs memEnv SV (feltDbInboundWebhookReplayStore memEnv) demoIntegration inboundPrincipal ''v1'' demoTime 1700000000000 inboundSignature ''{}''
      integratedSys"
proof -
  have got: "is_get (feltDbWebhookIntegrationStore memEnv) ''g1'' integratedSys = (integratedSys, Inr (Some demoIntegration))"
    by (simp add: feltDbWebhookIntegrationStore_def run_simps memEnv_def memColl_def asIntegration_def)
  have "inboundSignature \<noteq> []" "demoTime \<noteq> []" by code_simp+
  then have parts: "inboundParts demoInbound = Inr (''v1'', demoTime, inboundSignature, ''{}'')"
    by (simp add: inboundParts_def demoInbound_def headerOf_def propOf_def headerValue_def keepTruthy_def)
  have fresh: "freshTime memEnv SV demoTime integratedSys = (integratedSys, Inr (Some 1700000000000))"
    using demo_sent(2) assms(4) by (simp add: freshTime_def run_simps)
  show ?thesis
    using assms got parts fresh inbound_minted
    by (simp add: receiveWebhook_def receiveFrom_def receiveFresh_def bindA_def act_simps demoInbound_def)
qed

lemma inbound_succeeds:
  "\<exists>t. receiveWebhook memEnv demoWebhooks demoInbound integratedSys = (t, Inr \<lparr>ir_eventId = ''v1'', ir_result = JUndef\<rparr>)"
proof -
  let ?x = "\<lparr>ir_eventId = ''v1'', ir_result = JUndef\<rparr>"
  have "inboundRun demoWebhooks (inboundStarted, \<lparr>tl_refs = [], tl_stored = None\<rparr>) = ((acceptedSys, hookLog), Inr ?x)"
    by (simp add: inbound_run handleEvent_def inbound_json demoWebhooks_def act_simps)
  moreover have "memView (outside acceptedSys) EVIDENCE_COLLECTION (demoId 1) =
      Some (EvidenceDoc (demoEvidence receiveDeclared inboundPrincipal inboundResource receiveOptions integratedSys))"
    using demo_evidence_stored [of receiveDeclared inboundPrincipal inboundResource receiveOptions integratedSys]
    by (simp add: acceptedSys_def memView_memPut EVIDENCE_COLLECTION_def)
  ultimately obtain u where run: "inboundExecuted demoWebhooks integratedSys = (u, Inr ?x)" and u: "atNoon u"
    using demo_perform [of "inboundRun demoWebhooks" inboundStarted acceptedSys hookLog ?x "demoId 1"] inbound_safe(2) noon_inbound(2)
    by (simp add: inbound_executed atNoon_def)
  from noon_insert [OF u] obtain v where
    "webhookAudit memEnv demoWebhooks (inboundEvent ''webhook.inbound.accepted'' demoIntegration ''crm-bot'' True None) u = (v, Inr ())" by blast
  moreover have "webhookGateway demoWebhooks = Inr (demoGateway True)" "requireIntegrationStore demoWebhooks = Inr (feltDbWebhookIntegrationStore memEnv)"
    "ws_replayStore demoWebhooks = Some (feltDbInboundWebhookReplayStore memEnv)" "ws_inboundToleranceMs demoWebhooks = 300000"
    "pr_principalId inboundPrincipal = ''crm-bot''"
    by (simp_all add: webhookGateway_def requireIntegrationStore_def demoWebhooks_def inboundPrincipal_def)
  ultimately show ?thesis
    using run by (simp add: inbound_received receiveAs_def catchA_def bindA_def act_simps)
qed

lemma inbound_refused:
  "\<exists>t. receiveWebhook memEnv (handling demoWebhooks [(''crm'', refusing)]) demoInbound integratedSys = (t, Inl (PlainError ''not now''))"
proof -
  let ?SV = "handling demoWebhooks [(''crm'', refusing)]"
  have "inboundRun ?SV (inboundStarted, \<lparr>tl_refs = [], tl_stored = None\<rparr>) = ((acceptedSys, hookLog), Inl (PlainError ''not now''))"
    using demo_sent(1) by (simp add: inbound_run handleEvent_def inbound_json act_simps refusing_def)
  from noon_fails [where m = "inboundRun ?SV" and s = inboundStarted, OF this noon_inbound(2)] obtain u where run: "inboundExecuted ?SV integratedSys = (u, Inl (PlainError ''not now''))"
    unfolding inbound_executed by blast
  have "webhookGateway ?SV = Inr (demoGateway True)" "requireIntegrationStore ?SV = Inr (feltDbWebhookIntegrationStore memEnv)"
    "ws_replayStore ?SV = Some (feltDbInboundWebhookReplayStore memEnv)" "ws_inboundToleranceMs ?SV = 300000"
    by (simp_all add: webhookGateway_def requireIntegrationStore_def demoWebhooks_def)
  then show ?thesis
    using run by (simp add: inbound_received receiveAs_def catchA_def bindA_def act_simps split: prod.splits sum.splits)
qed

lemma inbound_events_verified_once_witness:
  "(\<exists>t. receiveWebhook memEnv demoWebhooks demoInbound integratedSys = (t, Inr \<lparr>ir_eventId = ''v1'', ir_result = JUndef\<rparr>)) \<and>
   (\<exists>k v1 v2. replayAccept memEnv k v1 = (v2, Inr True) \<and>
     memView (outside v2) ''inbound_webhook_events'' (acceptanceId memEnv demoIntegration ''v1'') = Some (AcceptedDoc k))"
proof
  have "receiveWebhook memEnv demoWebhooks demoInbound integratedSys \<noteq>
      receiveWebhook memEnv (handling demoWebhooks [(''crm'', refusing)]) demoInbound integratedSys"
    using inbound_succeeds inbound_refused by auto
  from inbound_events_verified_once [OF demoWebhooks.felt_webhook_service_axioms this]
  obtain i g eventId k v1 v2 rest where
    g: "iq_integrationId demoInbound = JStr i" "storedIn memView ''webhook_integrations'' asIntegration integratedSys i = Some g" and
    parts: "inboundParts demoInbound = Inr (eventId, rest)" and
    k: "replayAccept memEnv k v1 = (v2, Inr True)" "memView (outside v2) ''inbound_webhook_events'' (acceptanceId memEnv g eventId) = Some (AcceptedDoc k)"
    by blast
  have "inboundSignature \<noteq> []" "demoTime \<noteq> []" by code_simp+
  then have "eventId = ''v1''" using parts
    by (simp add: inboundParts_def demoInbound_def headerOf_def propOf_def headerValue_def keepTruthy_def)
  moreover have "g = demoIntegration" using g by (auto simp: demoInbound_def storedIn_def asIntegration_def)
  ultimately show "\<exists>k v1 v2. replayAccept memEnv k v1 = (v2, Inr True) \<and>
     memView (outside v2) ''inbound_webhook_events'' (acceptanceId memEnv demoIntegration ''v1'') = Some (AcceptedDoc k)"
    using k by blast
qed (rule inbound_succeeds)

end
