(* ===== verification/Sensitive.thy ===== *)
theory Sensitive
  imports Evidence
begin

text \<open>
  The credential boundary of notification content (\<open>notifications/sensitive.ts\<close>): keys and values
  that are credentials, and the check of a structured value.
\<close>

section \<open>Keys\<close>

definition SENSITIVE_KEYS :: "string list" where
  "SENSITIVE_KEYS =
     [''password'', ''passwd'', ''pwd'', ''passphrase'',
      ''cookie'', ''cookies'', ''setcookie'', ''sessioncookie'', ''sessionid'', ''sid'',
      ''authorization'', ''proxyauthorization'', ''auth'', ''bearer'',
      ''refreshtoken'', ''accesstoken'', ''idtoken'', ''sessiontoken'', ''authtoken'', ''csrftoken'', ''xsrftoken'', ''token'',
      ''apikey'', ''xapikey'', ''apisecret'', ''clientsecret'', ''secret'', ''secretkey'',
      ''privatekey'', ''signingkey'', ''signingsecret'', ''credential'', ''credentials'']"

definition SENSITIVE_KEY_SUFFIXES :: "string list" where
  "SENSITIVE_KEY_SUFFIXES =
     [''password'', ''passwd'', ''token'', ''secret'', ''apikey'', ''cookie'', ''cookies'', ''privatekey'', ''signingkey'',
      ''authorization'', ''credential'', ''credentials'']"

definition normalizeKey :: "string \<Rightarrow> string" where
  "normalizeKey key = filter (\<lambda>c. lowerChar c \<or> digitChar c) (map lowerCase key)"

definition isSensitiveKey :: "string \<Rightarrow> bool" where
  "isSensitiveKey key = (let normalized = normalizeKey key in
     normalized \<in> set SENSITIVE_KEYS \<or> list_ex (\<lambda>x. startsWith (rev normalized) (rev x)) SENSITIVE_KEY_SUFFIXES)"

section \<open>Values\<close>

definition alphaNum :: "char \<Rightarrow> bool" where
  "alphaNum c \<longleftrightarrow> upperChar c \<or> lowerChar c \<or> digitChar c"

definition wordChar :: "char \<Rightarrow> bool" where
  "wordChar c \<longleftrightarrow> alphaNum c \<or> c = CHR ''_''"

definition urlChar :: "char \<Rightarrow> bool" where
  "urlChar c \<longleftrightarrow> wordChar c \<or> c = CHR ''-''"

text \<open>
  A search with a test that is told whether the character before is a word character, for \<open>\b\<close>.
\<close>

fun searchBy :: "(bool \<Rightarrow> string \<Rightarrow> bool) \<Rightarrow> bool \<Rightarrow> string \<Rightarrow> bool" where
  "searchBy here prev [] = here prev []"
| "searchBy here prev (x # xs) = (here prev (x # xs) \<or> searchBy here (wordChar x) xs)"

text \<open>What follows a fixed text, and the length of the run of a class of characters.\<close>

definition after :: "string \<Rightarrow> string \<Rightarrow> string option" where
  "after w xs = (if startsWith xs w then Some (drop (length w) xs) else None)"

definition run :: "(char \<Rightarrow> bool) \<Rightarrow> nat \<Rightarrow> string \<Rightarrow> bool" where
  "run P n xs \<longleftrightarrow> n \<le> length (takeWhile P xs)"

definition follows :: "string option \<Rightarrow> (string \<Rightarrow> bool) \<Rightarrow> bool" where
  "follows rest P = (case rest of None \<Rightarrow> False | Some xs \<Rightarrow> P xs)"

definition spaced :: "(string \<Rightarrow> bool) \<Rightarrow> string \<Rightarrow> bool" where
  "spaced P xs \<longleftrightarrow> run isWhite 1 xs \<and> P (dropWhile isWhite xs)"

definition bearerHere :: "bool \<Rightarrow> string \<Rightarrow> bool" where
  "bearerHere prev xs \<longleftrightarrow> \<not> prev \<and> startsWith (map lowerCase xs) ''bearer'' \<and>
     spaced (run (\<lambda>c. urlChar c \<or> c \<in> set ''.~+/'') 8) (drop 6 xs)"

text \<open>The optional padding after the run and the look-ahead always match: the run is the longest.\<close>

definition basicHere :: "bool \<Rightarrow> string \<Rightarrow> bool" where
  "basicHere prev xs \<longleftrightarrow> \<not> prev \<and> follows (after ''Basic'' xs) (spaced (run (\<lambda>c. alphaNum c \<or> c \<in> set ''+/'') 8))"

definition pemHere :: "bool \<Rightarrow> string \<Rightarrow> bool" where
  "pemHere prev xs \<longleftrightarrow> follows (after ''-----BEGIN '' xs) (\<lambda>ys.
     let label = takeWhile (\<lambda>c. upperChar c \<or> c = CHR '' '') ys in
     startsWith (rev label) (rev ''PRIVATE KEY'') \<and> startsWith (drop (length label) ys) ''-----'')"

definition jwtHere :: "bool \<Rightarrow> string \<Rightarrow> bool" where
  "jwtHere prev xs \<longleftrightarrow> \<not> prev \<and> follows (after ''eyJ'' xs) (\<lambda>ys. run urlChar 8 ys \<and>
     follows (after ''.eyJ'' (dropWhile urlChar ys)) (\<lambda>zs. run urlChar 8 zs \<and>
     follows (after ''.'' (dropWhile urlChar zs)) (run urlChar 8)))"

definition appKeyHere :: "bool \<Rightarrow> string \<Rightarrow> bool" where
  "appKeyHere prev xs \<longleftrightarrow> \<not> prev \<and> follows (after ''app_live_'' xs) (\<lambda>ys.
     run hexChar 6 ys \<and> follows (after ''_'' (drop 6 ys)) (run urlChar 16))"

definition stripeHere :: "bool \<Rightarrow> string \<Rightarrow> bool" where
  "stripeHere prev xs \<longleftrightarrow> \<not> prev \<and>
     list_ex (\<lambda>w. follows (after w xs) (run alphaNum 16)) [''sk_live_'', ''sk_test_'', ''rk_live_'', ''rk_test_'']"

definition githubHere :: "bool \<Rightarrow> string \<Rightarrow> bool" where
  "githubHere prev xs \<longleftrightarrow> \<not> prev \<and>
     list_ex (\<lambda>w. follows (after w xs) (run alphaNum 30)) [''ghp_'', ''gho_'', ''ghu_'', ''ghs_'', ''ghr_'']"

definition slackHere :: "bool \<Rightarrow> string \<Rightarrow> bool" where
  "slackHere prev xs \<longleftrightarrow> \<not> prev \<and>
     list_ex (\<lambda>w. follows (after w xs) (run (\<lambda>c. alphaNum c \<or> c = CHR ''-'') 10)) [''xoxa-'', ''xoxb-'', ''xoxp-'', ''xoxr-'', ''xoxs-'']"

definition awsHere :: "bool \<Rightarrow> string \<Rightarrow> bool" where
  "awsHere prev xs \<longleftrightarrow> \<not> prev \<and> follows (after ''AKIA'' xs) (\<lambda>ys.
     run (\<lambda>c. digitChar c \<or> upperChar c) 16 ys \<and> (case drop 16 ys of [] \<Rightarrow> True | c # cs \<Rightarrow> \<not> wordChar c))"

definition cookieHere :: "bool \<Rightarrow> string \<Rightarrow> bool" where
  "cookieHere prev xs \<longleftrightarrow> \<not> prev \<and> (let lower = map lowerCase xs; val = run (\<lambda>c. c \<noteq> CHR '';'' \<and> \<not> isWhite c) 8 in
     list_ex (\<lambda>w. follows (after w lower) (\<lambda>ys. follows (after ''='' ys) val)) [''session'', ''sessionid'', ''sid'', ''connect.sid''] \<or>
     list_ex (\<lambda>w. follows (after w lower) (\<lambda>ys. run urlChar 1 ys \<and> follows (after ''='' (dropWhile urlChar ys)) val))
       [''__secure-'', ''__host-''])"

definition SENSITIVE_VALUE_PATTERNS :: "(bool \<Rightarrow> string \<Rightarrow> bool) list" where
  "SENSITIVE_VALUE_PATTERNS = [bearerHere, basicHere, pemHere, jwtHere, appKeyHere, stripeHere, githubHere, slackHere, awsHere, cookieHere]"

definition isSensitiveValue :: "string \<Rightarrow> bool" where
  "isSensitiveValue val = list_ex (\<lambda>here. searchBy here False val) SENSITIVE_VALUE_PATTERNS"

section \<open>Structured values\<close>

definition sensitiveData :: "string \<Rightarrow> exn" where
  "sensitiveData path = DomainError ''NotificationSensitiveDataError''
     (''Notification content at \"'' @ path @ ''\" looks like a credential; credentials cannot be sent in notifications'')"

definition emptyEntry :: "jsval \<Rightarrow> bool" where
  "emptyEntry v \<longleftrightarrow> v = JNull \<or> v = JUndef \<or> v = JStr [] \<or> v = JBool False"

text \<open>
  The check, entry by entry. A value that occurs twice in a structure is checked at its first place
  only, which accepts the same values; a structure that contains itself has no counterpart here.
\<close>

fun assertNoCredentials :: "jsval \<Rightarrow> string \<Rightarrow> exn + unit"
  and assertElements :: "jsval list \<Rightarrow> nat \<Rightarrow> string \<Rightarrow> exn + unit"
  and assertEntries :: "(string \<times> jsval) list \<Rightarrow> string \<Rightarrow> exn + unit" where
  "assertNoCredentials (JStr x) path = (if isSensitiveValue x then Inl (sensitiveData path) else Inr ())"
| "assertNoCredentials (JArr vs) path = assertElements vs 0 path"
| "assertNoCredentials (JObj ob) path = assertEntries ob path"
| "assertNoCredentials v path = Inr ()"
| "assertElements [] i path = Inr ()"
| "assertElements (v # vs) i path =
     bindR (assertNoCredentials v (path @ ''['' @ natDigits i @ '']'')) (\<lambda>_. assertElements vs (Suc i) path)"
| "assertEntries [] path = Inr ()"
| "assertEntries ((key, v) # ob) path =
     (if isSensitiveKey key \<and> \<not> emptyEntry v then Inl (sensitiveData (path @ ''.'' @ key))
      else bindR (assertNoCredentials v (path @ ''.'' @ key)) (\<lambda>_. assertEntries ob path))"

section \<open>What is accepted\<close>

text \<open>A value holds a credential when a string in it is one, or when a key for credentials has a value.\<close>

inductive holdsCredential :: "jsval \<Rightarrow> bool" where
  credential: "isSensitiveValue x \<Longrightarrow> holdsCredential (JStr x)"
| element: "v \<in> set vs \<Longrightarrow> holdsCredential v \<Longrightarrow> holdsCredential (JArr vs)"
| key: "(k, v) \<in> set ob \<Longrightarrow> isSensitiveKey k \<Longrightarrow> \<not> emptyEntry v \<Longrightarrow> holdsCredential (JObj ob)"
| entry: "(k, v) \<in> set ob \<Longrightarrow> holdsCredential v \<Longrightarrow> holdsCredential (JObj ob)"

inductive_simps holdsCredential_simps [simp]:
  "holdsCredential (JStr x)" "holdsCredential (JArr vs)" "holdsCredential (JObj ob)" "holdsCredential JUndef"
  "holdsCredential JNull" "holdsCredential (JBool b)" "holdsCredential (JNum n)" "holdsCredential (JFrac q)" "holdsCredential (JDate d)"

text \<open>The places of a value: their names are made of keys and positions only.\<close>

inductive placeIn :: "jsval \<Rightarrow> string \<Rightarrow> string \<Rightarrow> bool" where
  here: "placeIn v path path"
| element: "i < length vs \<Longrightarrow> placeIn (vs ! i) (path @ ''['' @ natDigits i @ '']'') q \<Longrightarrow> placeIn (JArr vs) path q"
| entry: "(k, v) \<in> set ob \<Longrightarrow> placeIn v (path @ ''.'' @ k) q \<Longrightarrow> placeIn (JObj ob) path q"

lemma check_exact:
  "(assertNoCredentials v path = Inr () \<longleftrightarrow> \<not> holdsCredential v)"
  "(assertElements vs i path = Inr () \<longleftrightarrow> (\<forall>v\<in>set vs. \<not> holdsCredential v))"
  "(assertEntries ob path = Inr () \<longleftrightarrow> (\<forall>(k, v)\<in>set ob. \<not> holdsCredential v \<and> \<not> (isSensitiveKey k \<and> \<not> emptyEntry v)))"
  by (induction v path and vs i path and ob path rule: assertNoCredentials_assertElements_assertEntries.induct)
    (auto simp: bindR_Inr_iff)

lemma check_elements_place:
  assumes "j < length vs" and "placeIn (vs ! j) (path @ ''['' @ natDigits j @ '']'') q"
  shows "\<exists>q'. placeIn (JArr vs) path q' \<and> sensitiveData q = sensitiveData q'"
  using assms placeIn.element [of j vs path q] by auto

lemma check_entries_place:
  assumes "(k, v) \<in> set ob" and "placeIn v (path @ ''.'' @ k) q"
  shows "\<exists>q'. placeIn (JObj ob) path q' \<and> sensitiveData q = sensitiveData q'"
  using assms placeIn.entry [of k v ob path q] by auto

lemma check_names_place:
  "assertNoCredentials v path = Inl e \<Longrightarrow> \<exists>q. placeIn v path q \<and> e = sensitiveData q"
  "assertElements vs i path = Inl e \<Longrightarrow> \<exists>j q. j < length vs \<and> placeIn (vs ! j) (path @ ''['' @ natDigits (i + j) @ '']'') q \<and> e = sensitiveData q"
  "assertEntries ob path = Inl e \<Longrightarrow> \<exists>k v q. (k, v) \<in> set ob \<and> placeIn v (path @ ''.'' @ k) q \<and> e = sensitiveData q"
proof (induction v path and vs i path and ob path rule: assertNoCredentials_assertElements_assertEntries.induct)
  case (6 v vs i path)
  then consider "assertNoCredentials v (path @ ''['' @ natDigits i @ '']'') = Inl e" | "assertElements vs (Suc i) path = Inl e"
    "assertNoCredentials v (path @ ''['' @ natDigits i @ '']'') = Inr ()"
    by (auto simp: bindR_Inl_iff)
  then show ?case
  proof cases
    case 1
    from "6.IH"(1) [OF this] show ?thesis by (intro exI [of _ 0]) simp
  next
    case 2
    from "6.IH"(2) [OF 2(1)] obtain j q where "j < length vs" "placeIn (vs ! j) (path @ ''['' @ natDigits (Suc i + j) @ '']'') q" "e = sensitiveData q"
      by blast
    then show ?thesis by (intro exI [of _ "Suc j"] exI [of _ q]) simp
  qed
qed (auto simp: bindR_Inl_iff split: if_splits intro: placeIn.here dest: check_elements_place check_entries_place)

text \<open>
  C39: notification content is accepted exactly when no string anywhere in it is a credential and no key
  for credentials has a value, and the error for refused content is determined by the name of a place
  in it, which is made of keys and positions, never of values.
\<close>

lemma content_check_exact:
  "case assertNoCredentials v path of
     Inr _ \<Rightarrow> \<not> holdsCredential v
   | Inl e \<Rightarrow> holdsCredential v \<and> (\<exists>q. placeIn v path q \<and> e = sensitiveData q)"
  using check_exact(1) [of v path] check_names_place(1) [of v path] by (auto split: sum.split)

end
