(* ===== verification/JobWorker.thy ===== *)
theory JobWorker
  imports Jobs
begin

text \<open>
  The worker that polls for due jobs (\<open>jobs/worker.ts\<close>). Its methods are interleaved at the
  places where they wait: the listing of the due jobs, the timer, and the runs it has launched, which
  it does not wait for. Anything may happen in between, a stop and another start included.
\<close>

section \<open>State\<close>

record worker =
  wk_workerId :: string
  wk_concurrency :: int
  wk_pollIntervalMs :: int
  wk_tenantId :: string
  wk_running :: bool
  wk_activeJobs :: int
  wk_pollTimer :: "nat option"

text \<open>
  A call of \<open>work\<close> waits for the jobs due at a time, or has ended and its continuation is to
  set the timer.
\<close>

datatype work_loop = Listing string | Ended

text \<open>The worker with the calls of \<open>work\<close>, the timers and the runs that are outstanding.\<close>

record worker_host =
  wh_worker :: worker
  wh_loops :: "work_loop list"
  wh_timers :: "nat list"
  wh_timersMade :: nat
  wh_runs :: "string list"

definition DEFAULT_CONCURRENCY :: int where "DEFAULT_CONCURRENCY = 10"
definition DEFAULT_POLL_INTERVAL_MS :: int where "DEFAULT_POLL_INTERVAL_MS = 5000"

definition newJobWorker :: "string \<Rightarrow> int option \<Rightarrow> int option \<Rightarrow> string \<Rightarrow> worker" where
  "newJobWorker workerId concurrency pollIntervalMs tenantId =
     \<lparr>wk_workerId = workerId,
      wk_concurrency = (case concurrency of Some n \<Rightarrow> n | None \<Rightarrow> DEFAULT_CONCURRENCY),
      wk_pollIntervalMs = (case pollIntervalMs of Some n \<Rightarrow> n | None \<Rightarrow> DEFAULT_POLL_INTERVAL_MS),
      wk_tenantId = tenantId, wk_running = False, wk_activeJobs = 0, wk_pollTimer = None\<rparr>"

definition newWorkerHost :: "worker \<Rightarrow> worker_host" where
  "newWorkerHost w = \<lparr>wh_worker = w, wh_loops = [], wh_timers = [], wh_timersMade = 0, wh_runs = []\<rparr>"

section \<open>Operations\<close>

text \<open>
  The loop of \<open>work\<close> from its condition to the listing it waits for. A clock that shows no
  date ends it.
\<close>

definition workLoop :: "'w env \<Rightarrow> worker \<Rightarrow> ('w, work_loop) service" where
  "workLoop E w =
     (if wk_running w \<and> wk_activeJobs w < wk_concurrency w
      then bindA (settle (nowISO E)) (\<lambda>now. ret (case now of Inl _ \<Rightarrow> Ended | Inr x \<Rightarrow> Listing x))
      else ret Ended)"

definition pollWorker :: "'w env \<Rightarrow> worker_host \<Rightarrow> ('w, worker_host) service" where
  "pollWorker E h =
     (if \<not> wk_running (wh_worker h) then ret h
      else bindA (workLoop E (wh_worker h)) (\<lambda>l. ret (h\<lparr>wh_loops := wh_loops h @ [l]\<rparr>)))"

definition startWorker :: "'w env \<Rightarrow> worker_host \<Rightarrow> ('w, worker_host) service" where
  "startWorker E h =
     (if wk_running (wh_worker h) then ret h
      else pollWorker E (h\<lparr>wh_worker := (wh_worker h)\<lparr>wk_running := True\<rparr>\<rparr>))"

definition stopWorker :: "worker_host \<Rightarrow> worker_host" where
  "stopWorker h = (case wk_pollTimer (wh_worker h) of
      None \<Rightarrow> h\<lparr>wh_worker := (wh_worker h)\<lparr>wk_running := False\<rparr>\<rparr>
    | Some n \<Rightarrow> h\<lparr>wh_worker := (wh_worker h)\<lparr>wk_running := False, wk_pollTimer := None\<rparr>,
        wh_timers := filter (\<lambda>m. m \<noteq> n) (wh_timers h)\<rparr>)"

definition scheduleNextPoll :: "worker_host \<Rightarrow> worker_host" where
  "scheduleNextPoll h =
     (if \<not> wk_running (wh_worker h) then h
      else h\<lparr>wh_worker := (wh_worker h)\<lparr>wk_pollTimer := Some (wh_timersMade h)\<rparr>,
        wh_timers := wh_timers h @ [wh_timersMade h], wh_timersMade := Suc (wh_timersMade h)\<rparr>)"

definition timerFires :: "'w env \<Rightarrow> nat \<Rightarrow> worker_host \<Rightarrow> ('w, worker_host) service" where
  "timerFires E n h =
     (if n \<in> set (wh_timers h) then pollWorker E (h\<lparr>wh_timers := filter (\<lambda>m. m \<noteq> n) (wh_timers h)\<rparr>) else ret h)"

text \<open>
  The listing of a loop returns: the first due job is run, whatever became of the worker meanwhile, and
  the loop goes on. The run is not awaited, and the job is due until its run has claimed it.
\<close>

definition launchJob :: "string \<Rightarrow> worker_host \<Rightarrow> worker_host" where
  "launchJob i h = h\<lparr>wh_worker := (wh_worker h)\<lparr>wk_activeJobs := wk_activeJobs (wh_worker h) + 1\<rparr>,
     wh_runs := wh_runs h @ [i]\<rparr>"

definition jobsListed :: "'w env \<Rightarrow> 'w job_store \<Rightarrow> nat \<Rightarrow> worker_host \<Rightarrow> ('w, worker_host) service" where
  "jobsListed E S n h =
     (if n < length (wh_loops h) then
       (case wh_loops h ! n of
          Ended \<Rightarrow> ret h
        | Listing now \<Rightarrow>
            bindA (settle (jt_listDue S (wk_tenantId (wh_worker h)) now)) (\<lambda>dueJobs.
            case dueJobs of
              Inr (k # _) \<Rightarrow>
                (let h = launchJob (jb_id k) h in
                 bindA (workLoop E (wh_worker h)) (\<lambda>l. ret (h\<lparr>wh_loops := (wh_loops h)[n := l]\<rparr>)))
            | _ \<Rightarrow> ret (h\<lparr>wh_loops := (wh_loops h)[n := Ended]\<rparr>)))
      else ret h)"

definition loopEnds :: "nat \<Rightarrow> worker_host \<Rightarrow> worker_host" where
  "loopEnds n h =
     (if n < length (wh_loops h) \<and> wh_loops h ! n = Ended
      then scheduleNextPoll (h\<lparr>wh_loops := take n (wh_loops h) @ drop (Suc n) (wh_loops h)\<rparr>) else h)"

definition runSettles :: "nat \<Rightarrow> worker_host \<Rightarrow> worker_host" where
  "runSettles n h =
     (if n < length (wh_runs h)
      then h\<lparr>wh_worker := (wh_worker h)\<lparr>wk_activeJobs := wk_activeJobs (wh_worker h) - 1\<rparr>,
        wh_runs := take n (wh_runs h) @ drop (Suc n) (wh_runs h)\<rparr> else h)"

section \<open>Everything that can happen to a worker\<close>

datatype worker_event = Start | Stop | TimerFires nat | JobsListed nat | LoopEnds nat | RunSettles nat

fun workerEvent :: "'w env \<Rightarrow> 'w job_store \<Rightarrow> worker_event \<Rightarrow> worker_host \<Rightarrow> ('w, worker_host) service" where
  "workerEvent E S Start h = startWorker E h"
| "workerEvent E S Stop h = ret (stopWorker h)"
| "workerEvent E S (TimerFires n) h = timerFires E n h"
| "workerEvent E S (JobsListed n) h = jobsListed E S n h"
| "workerEvent E S (LoopEnds n) h = ret (loopEnds n h)"
| "workerEvent E S (RunSettles n) h = ret (runSettles n h)"

text \<open>A start that finds a loop or a timer of an earlier one.\<close>

definition overlapping :: "worker_event \<Rightarrow> worker_host \<Rightarrow> bool" where
  "overlapping ev h \<longleftrightarrow> ev = Start \<and> \<not> wk_running (wh_worker h) \<and> (wh_loops h \<noteq> [] \<or> wh_timers h \<noteq> [])"

text \<open>
  The states a worker reaches, each event with the state of the system at its time, and the number of
  overlapping starts.
\<close>

inductive workerReaches :: "'w env \<Rightarrow> 'w job_store \<Rightarrow> worker \<Rightarrow> nat \<Rightarrow> worker_host \<Rightarrow> bool" for E S w where
  created: "workerReaches E S w 0 (newWorkerHost w)"
| happened: "workerReaches E S w p h \<Longrightarrow> workerEvent E S ev h s = (t, Inr h') \<Longrightarrow>
    workerReaches E S w (if overlapping ev h then Suc p else p) h'"

section \<open>The bound\<close>

definition listings :: "worker_host \<Rightarrow> nat" where
  "listings h = length (filter (\<lambda>l. l \<noteq> Ended) (wh_loops h))"

definition workerBound :: "int \<Rightarrow> nat \<Rightarrow> worker_host \<Rightarrow> bool" where
  "workerBound n p h \<longleftrightarrow>
     wk_concurrency (wh_worker h) = n \<and> wk_activeJobs (wh_worker h) = int (length (wh_runs h)) \<and>
     length (wh_loops h) + length (wh_timers h) \<le> Suc p \<and> wk_activeJobs (wh_worker h) + int (listings h) \<le> n + int p"

lemma listings_le: "listings h \<le> length (wh_loops h)"
  by (simp add: listings_def)

lemma workLoop_result:
  assumes "workLoop E w s = (t, Inr l)"
  shows "l = Ended \<or> wk_running w \<and> wk_activeJobs w < wk_concurrency w"
  using assms by (auto simp: workLoop_def act_simps split: if_splits)

lemma filter_at:
  "n < length xs \<Longrightarrow> filter P xs = filter P (take n xs) @ (if P (xs ! n) then [xs ! n] else []) @ filter P (drop (Suc n) xs)"
  by (subst (1) id_take_nth_drop [of n xs]) auto

lemma listings_update:
  "n < length xs \<Longrightarrow> length (filter P (xs[n := l])) + (if P (xs ! n) then 1 else 0) = length (filter P xs) + (if P l then 1 else 0)"
  by (simp add: upd_conv_take_nth_drop filter_at [of n xs])

lemma listings_removed: "length (filter P (take n xs @ drop (Suc n) xs)) \<le> length (filter P xs)"
  by (cases "n < length xs") (simp_all add: filter_at [of n xs])

lemma filter_one: "n \<in> set xs \<Longrightarrow> Suc (length (filter (\<lambda>m. m \<noteq> n) xs)) \<le> length xs"
  by (induction xs) (auto simp: le_SucI intro: le_trans [OF length_filter_le])

lemma polled_bound:
  assumes "pollWorker E h s = (t, Inr h')" and "wk_concurrency (wh_worker h) = n"
    and "wk_activeJobs (wh_worker h) = int (length (wh_runs h))"
    and "Suc (length (wh_loops h) + length (wh_timers h)) \<le> Suc p" and "wk_activeJobs (wh_worker h) + int (listings h) \<le> n + int p"
  shows "workerBound n p h'"
proof (cases "wk_running (wh_worker h)")
  case True
  then obtain l where l: "workLoop E (wh_worker h) s = (t, Inr l)" and h': "h' = h\<lparr>wh_loops := wh_loops h @ [l]\<rparr>"
    using assms(1) by (auto simp: pollWorker_def bindA_Inr_iff act_simps)
  have "listings h' = listings h + (if l = Ended then 0 else 1)" by (simp add: h' listings_def)
  then show ?thesis
    using workLoop_result [OF l] listings_le [of h] assms(2-5) by (auto simp: workerBound_def h')
next
  case False
  then show ?thesis using assms by (simp add: pollWorker_def workerBound_def act_simps)
qed

lemma listed_bound:
  assumes "jobsListed E S n h s = (t, Inr h')" and "workerBound m p h"
  shows "workerBound m p h'"
proof (cases "n < length (wh_loops h) \<and> wh_loops h ! n \<noteq> Ended")
  case False
  then show ?thesis using assms by (auto simp: jobsListed_def act_simps split: if_splits work_loop.splits)
next
  case True
  then obtain now where now: "wh_loops h ! n = Listing now" by (cases "wh_loops h ! n") auto
  obtain u due where due: "settle (jt_listDue S (wk_tenantId (wh_worker h)) now) s = (u, Inr due)"
    by (cases "jt_listDue S (wk_tenantId (wh_worker h)) now s") (simp add: settle_def)
  consider (ended) "h' = h\<lparr>wh_loops := (wh_loops h)[n := Ended]\<rparr>"
    | (launched) i l u where "workLoop E (wh_worker (launchJob i h)) u = (t, Inr l)"
        "h' = (launchJob i h)\<lparr>wh_loops := (wh_loops h)[n := l]\<rparr>"
  proof (cases "\<exists>k ks. due = Inr (k # ks)")
    case True
    then obtain k ks where "due = Inr (k # ks)" by blast
    then have "bindA (workLoop E (wh_worker (launchJob (jb_id k) h)))
        (\<lambda>l. ret ((launchJob (jb_id k) h)\<lparr>wh_loops := (wh_loops (launchJob (jb_id k) h))[n := l]\<rparr>)) u = (t, Inr h')"
      using assms(1) \<open>n < length (wh_loops h) \<and> _\<close> now due by (simp add: jobsListed_def bindA_def Let_def)
    then show ?thesis using launched by (auto simp: bindA_Inr_iff act_simps launchJob_def)
  next
    case False
    then have "h' = h\<lparr>wh_loops := (wh_loops h)[n := Ended]\<rparr>"
      using assms(1) \<open>n < length (wh_loops h) \<and> _\<close> now due
      by (cases due; cases "projr due") (simp_all add: jobsListed_def bindA_def act_simps)
    then show ?thesis using ended by blast
  qed
  then show ?thesis
  proof cases
    case ended
    then have "Suc (listings h') = listings h"
      using True listings_update [of n "wh_loops h" "\<lambda>l. l \<noteq> Ended" Ended] by (simp add: listings_def)
    then show ?thesis using assms(2) by (simp add: workerBound_def ended)
  next
    case launched
    have "listings h' + 1 = listings h + (if l = Ended then 0 else 1)"
      using True listings_update [of n "wh_loops h" "\<lambda>l. l \<noteq> Ended" l] by (simp add: launched listings_def)
    then show ?thesis
      using assms(2) workLoop_result [OF launched(1)] listings_le [of h]
      by (auto simp: workerBound_def launched(2) launchJob_def split: if_splits)
  qed
qed

lemma event_bound:
  assumes "workerEvent E S ev h s = (t, Inr h')" and "workerBound n p h"
  shows "workerBound n (if overlapping ev h then Suc p else p) h'"
proof (cases ev)
  case Start
  show ?thesis
  proof (cases "wk_running (wh_worker h)")
    case True
    then show ?thesis using assms Start by (simp add: startWorker_def overlapping_def act_simps)
  next
    case False
    then have "pollWorker E (h\<lparr>wh_worker := (wh_worker h)\<lparr>wk_running := True\<rparr>\<rparr>) s = (t, Inr h')"
      using assms(1) Start by (simp add: startWorker_def)
    then show ?thesis
      by (rule polled_bound) (use assms(2) Start False in \<open>auto simp: workerBound_def overlapping_def listings_def\<close>)
  qed
next
  case Stop
  have "length (filter (\<lambda>m. m \<noteq> x) (wh_timers h)) \<le> length (wh_timers h)" for x by (rule length_filter_le)
  then have "length (wh_timers (stopWorker h)) \<le> length (wh_timers h)"
    by (simp add: stopWorker_def split: option.splits)
  moreover have "wh_loops (stopWorker h) = wh_loops h" "wh_runs (stopWorker h) = wh_runs h"
      "wk_concurrency (wh_worker (stopWorker h)) = wk_concurrency (wh_worker h)"
      "wk_activeJobs (wh_worker (stopWorker h)) = wk_activeJobs (wh_worker h)"
    by (simp_all add: stopWorker_def split: option.splits)
  ultimately show ?thesis using assms Stop by (simp add: workerBound_def overlapping_def listings_def act_simps)
next
  case (TimerFires i)
  show ?thesis
  proof (cases "i \<in> set (wh_timers h)")
    case True
    then have "pollWorker E (h\<lparr>wh_timers := filter (\<lambda>m. m \<noteq> i) (wh_timers h)\<rparr>) s = (t, Inr h')"
      using assms(1) TimerFires by (simp add: timerFires_def)
    then show ?thesis
      by (rule polled_bound)
        (use assms(2) TimerFires filter_one [OF True] in \<open>auto simp: workerBound_def overlapping_def listings_def\<close>)
  next
    case False
    then show ?thesis using assms TimerFires by (simp add: timerFires_def overlapping_def act_simps)
  qed
next
  case (JobsListed i)
  then show ?thesis using assms listed_bound by (auto simp: overlapping_def)
next
  case (LoopEnds i)
  have "length (filter (\<lambda>l. l \<noteq> Ended) (take i (wh_loops h) @ drop (Suc i) (wh_loops h))) \<le> listings h"
    unfolding listings_def by (rule listings_removed)
  then show ?thesis using assms LoopEnds
    by (auto simp: workerBound_def loopEnds_def scheduleNextPoll_def overlapping_def listings_def act_simps)
next
  case (RunSettles i)
  then show ?thesis using assms
    by (auto simp: workerBound_def runSettles_def overlapping_def listings_def act_simps)
qed

lemma reached_bound:
  "workerReaches E S w p h \<Longrightarrow> w = newJobWorker workerId concurrency pollMs tenantId \<Longrightarrow> \<forall>n. concurrency = Some n \<longrightarrow> 0 \<le> n \<Longrightarrow>
   workerBound (case concurrency of Some n \<Rightarrow> n | None \<Rightarrow> 10) p h"
proof (induction rule: workerReaches.induct)
  case created
  then show ?case
    by (auto simp: workerBound_def newWorkerHost_def newJobWorker_def listings_def DEFAULT_CONCURRENCY_def split: option.splits)
next
  case (happened p h ev s t h')
  then show ?case using event_bound by blast
qed

text \<open>
  C29: a worker counts its runs, and restarts are what exceeds its concurrency. Whatever the order of
  starts, stops, timers, listings and settlements, \<open>activeJobs\<close> is the number of runs launched
  and not yet settled. Together with the listings that are pending it never exceeds the concurrency by
  more than the number of starts that found a loop or a timer of an earlier start; without such a start
  it never exceeds the concurrency.
\<close>

lemma worker_bounded:
  assumes "workerReaches E S (newJobWorker workerId concurrency pollMs tenantId) p h"
    and "\<forall>n. concurrency = Some n \<longrightarrow> 0 \<le> n"
  shows "wk_activeJobs (wh_worker h) = int (length (wh_runs h)) \<and>
    wk_activeJobs (wh_worker h) + int (listings h) \<le> (case concurrency of Some n \<Rightarrow> n | None \<Rightarrow> 10) + int p"
  using reached_bound [OF assms(1) refl assms(2)] by (simp add: workerBound_def)

end
