(* ===== verification/WorkerExamples.thy ===== *)
theory WorkerExamples
  imports JobExamples JobWorker
begin

text \<open>A worker that is stopped and started again while its listing is pending.\<close>

definition dueJobs :: "mem sys" where
  "dueJobs = withJob demoJob demoSys"

definition smallWorker :: worker where
  "smallWorker = newJobWorker ''w'' (Some 1) None ''acme''"

abbreviation (input) listedLoop :: work_loop where
  "listedLoop \<equiv> Listing ''2023-11-14T22:13:20.000Z''"

lemma due_now: "nowISO memEnv dueJobs = (dueJobs, Inr ''2023-11-14T22:13:20.000Z'')"
  by (simp add: dueJobs_def withJob_def demoJob_def demoSys_def run_simps memPut_def)

lemma due_listed:
  "jt_listDue (feltDbJobStore memEnv) ''acme'' ''2023-11-14T22:13:20.000Z'' dueJobs = (dueJobs, Inr [demoJob])"
  by (simp add: feltDbJobStore_def jobListDue_def dueJobs_def withJob_def demoJob_def demoSys_def run_simps memEnv_def memColl_def
      memView_def memPut_def asJob_def map_filter_def isDue_def reached_def strLeq_def)

text \<open>The worker while the calls of \<open>work\<close> in \<open>ls\<close> and the runs \<open>rs\<close> are outstanding.\<close>

definition workerAt :: "bool \<Rightarrow> work_loop list \<Rightarrow> string list \<Rightarrow> worker_host" where
  "workerAt running ls rs = \<lparr>wh_worker = smallWorker\<lparr>wk_running := running, wk_activeJobs := int (length rs)\<rparr>,
     wh_loops = ls, wh_timers = [], wh_timersMade = 0, wh_runs = rs\<rparr>"

lemma worker_start:
  "workerEvent memEnv S Start (workerAt False ls []) dueJobs = (dueJobs, Inr (workerAt True (ls @ [listedLoop]) []))"
  by (simp add: startWorker_def pollWorker_def workLoop_def workerAt_def smallWorker_def newJobWorker_def bindA_def settle_def act_simps due_now)

lemma worker_stop: "workerEvent memEnv S Stop (workerAt True ls rs) dueJobs = (dueJobs, Inr (workerAt False ls rs))"
  by (simp add: stopWorker_def workerAt_def smallWorker_def newJobWorker_def act_simps)

lemma worker_lists:
  assumes "n < length ls" and "ls ! n = listedLoop"
  shows "workerEvent memEnv (feltDbJobStore memEnv) (JobsListed n) (workerAt running ls rs) dueJobs =
    (dueJobs, Inr (workerAt running (ls[n := Ended]) (rs @ [''j1''])))"
proof -
  have "wk_tenantId (wh_worker (workerAt running ls rs)) = ''acme''" "wh_loops (workerAt running ls rs) = ls"
      "workLoop memEnv (wh_worker (launchJob ''j1'' (workerAt running ls rs))) s = (s, Inr Ended)"
      "(launchJob ''j1'' (workerAt running ls rs))\<lparr>wh_loops := ls'\<rparr> = workerAt running ls' (rs @ [''j1''])"
      "wh_loops (launchJob ''j1'' (workerAt running ls rs)) = ls" "jb_id demoJob = ''j1''" for s ls'
    by (simp_all add: workerAt_def smallWorker_def newJobWorker_def launchJob_def workLoop_def act_simps demoJob_def)
  then show ?thesis
    using assms by (simp add: jobsListed_def bindA_def settle_def due_listed Let_def act_simps)
qed

lemma worker_restarted:
  "workerReaches memEnv (feltDbJobStore memEnv) smallWorker 0 (workerAt False [Ended] [''j1''])"
  "workerReaches memEnv (feltDbJobStore memEnv) smallWorker 1 (workerAt True [Ended, Ended] [''j1'', ''j1''])"
proof -
  let ?R = "workerReaches memEnv (feltDbJobStore memEnv) smallWorker"
  have idle: "newWorkerHost smallWorker = workerAt False [] []"
    by (simp add: newWorkerHost_def workerAt_def smallWorker_def newJobWorker_def)
  have over: "overlapping ev (workerAt running ls rs) \<longleftrightarrow> ev = Start \<and> \<not> running \<and> ls \<noteq> []" for ev running ls rs
    by (simp add: overlapping_def workerAt_def)
  have "?R 0 (workerAt False [] [])" using workerReaches.created [of _ _ smallWorker] unfolding idle .
  from workerReaches.happened [OF this worker_start] have "?R 0 (workerAt True [listedLoop] [])" by (simp add: over)
  from workerReaches.happened [OF this worker_stop] have stopped: "?R 0 (workerAt False [listedLoop] [])" by (simp add: over)
  from workerReaches.happened [OF stopped worker_lists [of 0]] show "?R 0 (workerAt False [Ended] [''j1''])" by (simp add: over)
  from workerReaches.happened [OF stopped worker_start] have "?R 1 (workerAt True [listedLoop, listedLoop] [])" by (simp add: over)
  from workerReaches.happened [OF this worker_lists [of 0]] have "?R 1 (workerAt True [Ended, listedLoop] [''j1''])" by (simp add: over)
  from workerReaches.happened [OF this worker_lists [of 1]] show "?R 1 (workerAt True [Ended, Ended] [''j1'', ''j1''])"
    by (simp add: over)
qed

text \<open>
  With a concurrency of one, a round that was pending at the stop still launches its job, and after a
  restart two jobs run: the bound is attained.
\<close>

lemma worker_witness:
  "\<exists>h h'. workerReaches memEnv (feltDbJobStore memEnv) smallWorker 0 h \<and> \<not> wk_running (wh_worker h) \<and> wh_runs h = [''j1''] \<and>
     wk_activeJobs (wh_worker h) = 1 \<and> workerReaches memEnv (feltDbJobStore memEnv) smallWorker 1 h' \<and>
     wk_concurrency (wh_worker h') = 1 \<and> wk_activeJobs (wh_worker h') = 2 \<and> wk_activeJobs (wh_worker h') + int (listings h') \<le> 1 + 1"
proof -
  have one: "\<forall>n. Some (1 :: int) = Some n \<longrightarrow> 0 \<le> n" by simp
  have "wk_activeJobs (wh_worker (workerAt False [Ended] [''j1''])) = int (length (wh_runs (workerAt False [Ended] [''j1''])))"
    using worker_bounded [OF worker_restarted(1) [unfolded smallWorker_def] one] by blast
  moreover have "wk_activeJobs (wh_worker (workerAt True [Ended, Ended] [''j1'', ''j1''])) + int (listings (workerAt True [Ended, Ended] [''j1'', ''j1''])) \<le> 1 + 1"
    using worker_bounded [OF worker_restarted(2) [unfolded smallWorker_def] one] by simp
  ultimately show ?thesis
    by (intro exI [of _ "workerAt False [Ended] [''j1'']"] exI [of _ "workerAt True [Ended, Ended] [''j1'', ''j1'']"])
      (use worker_restarted in \<open>simp add: workerAt_def smallWorker_def newJobWorker_def\<close>)
qed

end
