(* ===== verification/KeyAccessExamples.thy ===== *)
theory KeyAccessExamples
  imports KeyExamples DemoRuns
begin

text \<open>
  Runs of authentication, of the live check and of revocation on the in-memory platform, for the
  theorems about what a key can still do.
\<close>

section \<open>The principal of a key\<close>

definition keyPrincipal :: "mem principal" where
  "keyPrincipal =
     \<lparr>pr_principalId = ''k1'', pr_principalType = ''api_key'', pr_tenantId = ''acme'', pr_applicationId = Some ''shop'',
      pr_credentialId = Some ''k1'', pr_delegationId = None, pr_runId = None, pr_verifiedBy = ByApiKey,
      pr_check = Some (credentialCheck memEnv demoService ''k1'' ''acme'')\<rparr>"

lemma demo_key_fields [simp]:
  "ak_id demoKey = ''k1''" "ak_tenantId demoKey = ''acme''" "ak_applicationId demoKey = Some ''shop''" "ak_version demoKey = 1"
  "ak_restrictions demoKey = None" "ak_expiresAt demoKey = None" "ak_revokedAt demoKey = None" "ak_secretHash demoKey = demoHash"
  "ak_keyPrefix demoKey = ''app_live_0a1b2c''" "ak_lastUsedAt demoKey = None"
  by (simp_all add: demoKey_def)

lemma demo_to_principal:
  assumes "ak_id k = ''k1''" "ak_tenantId k = ''acme''" "ak_applicationId k = Some ''shop''"
  shows "toPrincipal memEnv demoService k = Inr keyPrincipal"
  using assms
  by (simp add: toPrincipal_def mintVerifiedPrincipal_def claimedText_def trim_def isWhite_def bindCredentialCheck_def keyPrincipal_def)

section \<open>The live check\<close>

lemma key_stored: "memView (outside demoKeys) ''api_keys'' ''k1'' = Some (KeyDoc demoKey)"
  by (simp add: demoKeys_def memView_memPut API_KEYS_COLLECTION_def API_KEY_PREFIXES_COLLECTION_def)

lemma demo_keys_fields [simp]:
  "m_clock (outside demoKeys) = 1700000000000" "m_serial (outside demoKeys) = 0"
  by (simp_all add: demoKeys_def demoSys_def)

lemma demo_keys_evidence [simp]: "memView (outside demoKeys) EVIDENCE_COLLECTION i = None"
  by (simp add: demoKeys_def demoSys_def memView_memPut EVIDENCE_COLLECTION_def API_KEYS_COLLECTION_def API_KEY_PREFIXES_COLLECTION_def,
      simp add: memView_def)

lemma key_got: "ks_get (sv_store demoService) ''k1'' demoKeys = (demoKeys, Inr (Some demoKey))"
  by (simp add: demoService_def feltDbApiKeyStore_def storeGet_def run_simps memEnv_def memColl_def key_stored asKey_def)

lemma key_live: "credentialCheck memEnv demoService ''k1'' ''acme'' cap r demoKeys = (demoKeys, Inr ())"
proof -
  have "m_clock (outside demoKeys) = 1700000000000" "sv_applicationId demoService = ''shop''"
    by (simp_all add: demoKeys_def demoSys_def demoService_def feltDbKeyService_def)
  then show ?thesis
    using key_got by (simp add: credentialCheck_def Let_def bindA_def act_simps draw_def memNow_def keyStatus_def restrictionsPermit_def)
qed

lemma key_authorized:
  "\<exists>t ctx. authorize memEnv (demoGateway True) ''apikeys.create'' (Verified keyPrincipal) demoResource ''r1'' demoKeys = (t, Inr ctx)"
proof -
  have "enforceCredential keyPrincipal cap r demoKeys = (demoKeys, Inr ())" for cap r
    using key_live by (simp add: enforceCredential_def keyPrincipal_def catchA_def)
  moreover have "assertOwnership (demoGateway True) keyPrincipal demoResource cap = Inr ()" for cap
    by (simp add: assertOwnership_def keyPrincipal_def demoResource_def demoGateway_def)
  moreover have "rs_type demoResource = ''api_key''" "rs_tenantId demoResource = ''acme''" by (simp_all add: demoResource_def)
  ultimately show ?thesis
    by (simp add: authorize_def gwCapability_def demo_capabilities requireVerifiedPrincipal_def bindA_def act_simps,
        simp add: demo_defs keyPrincipal_def demoKeys_def decide_def run_simps authorizationRequest_def validateDecision_def
        validDecision_def mintExecutionContext_def CONTEXT_TTL_MS_def)
qed

lemma key_principal_needs_live_key_witness:
  "\<exists>k' now. storedKeys memView demoKeys ''k1'' = Some k' \<and> keyStatus memEnv k' now = KeyActive"
proof -
  from key_authorized obtain t ctx where
    run: "authorize memEnv (demoGateway True) ''apikeys.create'' (Verified keyPrincipal) demoResource ''r1'' demoKeys = (t, Inr ctx)" by blast
  from key_principal_needs_live_key [OF demo_gateway demoService_def demo_to_principal [of demoKey] run]
  show ?thesis by auto
qed

section \<open>A revoked key\<close>

definition revokedKey :: api_key where
  "revokedKey = demoKey\<lparr>ak_revokedAt := Some demoTime, ak_revokedBy := Some ''alice'', ak_version := 2\<rparr>"

definition revokedKeys :: "mem sys" where
  "revokedKeys = demoSys\<lparr>outside := memPut API_KEYS_COLLECTION ''k1'' (KeyDoc revokedKey) (outside demoSys)\<rparr>"

lemma stored_revoked: "storedKeys memView revokedKeys = [''k1'' \<mapsto> revokedKey]"
  by (auto simp: storedKeys_def revokedKeys_def demoSys_def memView_def memPut_def API_KEYS_COLLECTION_def fun_eq_iff)

lemma revoked_key_authorizes_nothing_witness:
  "\<exists>t e. authorize memEnv (demoGateway True) ''apikeys.create'' (Verified keyPrincipal) demoResource ''r1''
     (runKeyOps memEnv demoService [UpdateKey [(''id'', JStr ''k1''), (''name'', JStr ''ci'')] (Verified demoPrincipal)] revokedKeys) = (t, Inl e)"
proof -
  have "wfKeys (storedKeys memView revokedKeys)" "isRevoked revokedKey"
    by (simp_all add: stored_revoked wfKeys_def revokedKey_def isRevoked_def truthy_def demoTime_def)
  then show ?thesis
    using revoked_key_authorizes_nothing [OF demo_gateway demoService_def demo_to_principal [of demoKey], where s = revokedKeys and k' = revokedKey]
    by (simp add: stored_revoked no_check demo_check)
qed

section \<open>Revoking\<close>

abbreviation revokeDeclared :: capability where
  "revokeDeclared \<equiv> \<lparr>cp_name = ''apikeys.revoke'', cp_version = 1, cp_service = ''api-keys'',
     cp_operation = ''revokeApiKey'', cp_effect = Consequential, cp_invocable = True, cp_required = True, cp_resource = ''api_key''\<rparr>"

lemma revoke_capability: "getServiceCapability memEnv ''apikeys.revoke'' = Some revokeDeclared"
  by (simp add: getServiceCapability_eq ENTRIES_def freezeCapability_def)

abbreviation keyRevocation :: resource where
  "keyRevocation \<equiv> keyResource ''acme'' (Some ''k1'')"

abbreviation revokeStarted :: "mem sys" where
  "revokeStarted \<equiv> demoStarted revokeDeclared demoPrincipal keyRevocation (serviceOptions ''api-keys'') demoKeys"

lemma revoke_safe:
  "assertEvidenceHasNoSecrets (evidenceEntries (demoEvidence revokeDeclared demoPrincipal keyRevocation (serviceOptions ''api-keys'') demoKeys)) = Inr ()"
  by code_simp

lemma revoke_started [simp]:
  "memView (outside revokeStarted) ''api_keys'' ''k1'' = Some (KeyDoc demoKey)" "m_clock (outside revokeStarted) = 1700000000000"
  "m_serial (outside revokeStarted) = 2"
  by (simp_all add: demoStarted_def memView_memPut EVIDENCE_COLLECTION_def key_stored)

lemma demo_collections:
  "e_keys memEnv = memColl ''api_keys'' KeyDoc asKey ak_version (\<lambda>v. ak_version_update (\<lambda>_. v))"
  "e_keyEvents memEnv = memColl ''api_key_audit_events'' KeyEventDoc asKeyEvent (\<lambda>_. 0) (\<lambda>_ x. x)"
  by (simp_all add: memEnv_def)

lemma demo_store:
  "sv_store demoService = feltDbApiKeyStore memEnv" "sv_auditSink demoService = feltDbAuditSink memEnv"
  "sv_applicationId demoService = ''shop''" "\<not> sv_local demoService"
  by (simp_all add: demoService_def feltDbKeyService_def)

lemma demo_key_writes:
  assumes "memView (outside s) ''api_keys'' i = Some (KeyDoc k)"
  shows "ks_get (sv_store demoService) i s = (s, Inr (Some k))"
    and "\<exists>u k'. ks_revoke (sv_store demoService) i (ak_version k) at by s = (u, Inr (Some k')) \<and> m_clock (outside u) = m_clock (outside s) \<and>
      memView (outside u) EVIDENCE_COLLECTION = memView (outside s) EVIDENCE_COLLECTION"
  using assms
  by (auto simp: demo_store demo_collections feltDbApiKeyStore_def storeGet_def storeRevoke_def casItem_def run_simps memColl_def asKey_def
      memView_memPut EVIDENCE_COLLECTION_def fun_eq_iff)

lemma demo_audit:
  "\<exists>u. audit memEnv demoService type k pid at changes related s = (u, Inr ()) \<and> m_clock (outside u) = m_clock (outside s) \<and>
     memView (outside u) EVIDENCE_COLLECTION = memView (outside s) EVIDENCE_COLLECTION"
  by (auto simp: audit_def auditEvent_def demo_store demo_collections feltDbAuditSink_def run_simps memColl_def memView_memPut EVIDENCE_COLLECTION_def)

lemma revoke_loop:
  "\<exists>u v. revokeLoop MAX_UPDATE_ATTEMPTS memEnv demoService ''acme'' ''k1'' ''alice'' revokeStarted = (u, Inr (Some v)) \<and>
     m_clock (outside u) = 1700000000000 \<and> memView (outside u) EVIDENCE_COLLECTION = memView (outside revokeStarted) EVIDENCE_COLLECTION"
proof -
  have owned: "owns demoService demoKey ''acme'' True" by (simp add: owns_def demo_store)
  obtain u k where revoked: "ks_revoke (sv_store demoService) ''k1'' 1 demoTime (Some ''alice'') revokeStarted = (u, Inr (Some k))"
      "m_clock (outside u) = 1700000000000" "memView (outside u) EVIDENCE_COLLECTION = memView (outside revokeStarted) EVIDENCE_COLLECTION"
    using demo_key_writes(2) [OF revoke_started(1), of demoTime "Some ''alice''"] by auto
  let ?k = "demoKey\<lparr>ak_revokedAt := Some demoTime, ak_revokedBy := Some ''alice'', ak_version := ak_version k\<rparr>"
  obtain w where audited: "audit memEnv demoService KeyRevokedEvent ?k ''alice'' demoTime None None u = (w, Inr ())"
      "m_clock (outside w) = 1700000000000" "memView (outside w) EVIDENCE_COLLECTION = memView (outside revokeStarted) EVIDENCE_COLLECTION"
    using demo_audit [of KeyRevokedEvent ?k "''alice''" demoTime None None u] revoked by auto
  have now: "nowISO memEnv revokeStarted = (revokeStarted, Inr demoTime)" by (simp add: run_simps demoTime_def)
  have rounds: "MAX_UPDATE_ATTEMPTS = Suc 9" by (simp add: MAX_UPDATE_ATTEMPTS_def)
  show ?thesis
    unfolding rounds revokeLoop.simps
    using demo_key_writes(1) [OF revoke_started(1)] owned now revoked audited
    by (simp del: mem_env add: bindA_def act_simps rememberLocal_def Let_def, simp add: draw_def memNow_def)
qed

lemma revoke_run:
  "\<exists>t v. revokeApiKey memEnv demoService ''k1'' [] (Verified demoPrincipal) demoKeys = (t, Inr (Some v))"
proof -
  obtain u v where loop: "revokeLoop MAX_UPDATE_ATTEMPTS memEnv demoService ''acme'' ''k1'' ''alice'' revokeStarted = (u, Inr (Some v))"
    and u: "m_clock (outside u) = 1700000000000" "memView (outside u) EVIDENCE_COLLECTION = memView (outside revokeStarted) EVIDENCE_COLLECTION"
    using revoke_loop by blast
  let ?eff = "\<lambda>ctx. plain (revokeLoop MAX_UPDATE_ATTEMPTS memEnv demoService ''acme'' ''k1'' ''alice'')"
  have run: "?eff ctx (revokeStarted, log) = ((u, log), Inr (Some v))" for ctx log
    using loop by (simp add: plain_def)
  have "\<exists>t. execute memEnv (demoGateway True) ''apikeys.revoke'' (Verified demoPrincipal) keyRevocation (serviceOptions ''api-keys'') ?eff demoKeys = (t, Inr (Some v))"
    using demo_runs [where s = demoKeys and p = demoPrincipal and r = keyRevocation and opts = "serviceOptions ''api-keys''" and eff = ?eff,
        OF revoke_capability _ _ _ _ _ _ _ _ _ revoke_safe run u(1) _ u(2)]
    by (fastforce simp: keyResource_def demoPrincipal_def)
  moreover have "gatewayOf demoService = Inr (demoGateway True)" "pr_tenantId demoPrincipal = ''acme''" "pr_principalId demoPrincipal = ''alice''"
    by (simp_all add: gatewayOf_def demoService_def feltDbKeyService_def demoPrincipal_def)
  moreover have "rejectCallerActor (JObj [(''revokedBy'', JUndef)]) demoPrincipal = Inr ()" "resolveTenant (JObj []) demoPrincipal = Inr ''acme''"
    by code_simp+
  ultimately show ?thesis
    by (auto simp: revokeApiKey_def requireVerifiedPrincipal_def propOf_def)
qed

lemma revocation_revokes_witness:
  "\<exists>t v. revokeApiKey memEnv demoService ''k1'' [] (Verified demoPrincipal) demoKeys = (t, Inr (Some v)) \<and> av_status v = KeyRevoked \<and>
     (\<exists>k. storedKeys memView t ''k1'' = Some k \<and> isRevoked k)"
proof -
  from revoke_run obtain t v where run: "revokeApiKey memEnv demoService ''k1'' [] (Verified demoPrincipal) demoKeys = (t, Inr (Some v))" by blast
  from revocation_revokes [OF demo_gateway demoService_def no_check [OF demo_check] wf_demo run] run show ?thesis by blast
qed

section \<open>Authenticating\<close>

lemma prefix_stored: "memView (outside demoKeys) ''api_key_prefixes'' ''app_live_0a1b2c'' = Some (PrefixDoc \<lparr>kp_id = ''app_live_0a1b2c'',
    kp_apiKeyId = ''k1'', kp_tenantId = ''acme'', kp_createdAt = ''2023-11-14T22:13:20.000Z'', kp_version = 1\<rparr>)"
  by (simp add: demoKeys_def memView_memPut API_KEYS_COLLECTION_def API_KEY_PREFIXES_COLLECTION_def)

lemma known_key_found:
  "\<exists>s. findApiKeyByPrefix demoService ''app_live_0a1b2c'' demoKeys = (s, Inr (Some demoKey)) \<and> outside s = outside demoKeys"
proof -
  have "rememberPrefix ''app_live_0a1b2c'' ''k1'' demoKeys =
      (demoKeys\<lparr>knownPrefixes := knownPrefixes (fst (rememberPrefix ''app_live_0a1b2c'' ''k1'' demoKeys))\<rparr>, Inr ())"
    by (simp add: rememberPrefix_def)
  then obtain s where "rememberPrefix ''app_live_0a1b2c'' ''k1'' demoKeys = (s, Inr ())" "outside s = outside demoKeys"
    by (metis (no_types, lifting) sys.select_convs(1) sys.surjective sys.update_convs(2))
  moreover have "ks_findByPrefix (sv_store demoService) ''app_live_0a1b2c'' demoKeys = (demoKeys, Inr (Some demoKey))"
    by (simp add: demo_store demo_collections feltDbApiKeyStore_def storeFindByPrefix_def run_simps, simp add: memEnv_def memColl_def ext_def prefix_stored
        asPrefix_def key_stored asKey_def)
  moreover have "knownPrefixes demoKeys = []" by (simp add: demoKeys_def demoSys_def)
  ultimately show ?thesis by (simp add: findApiKeyByPrefix_def Let_def bindA_def act_simps)
qed

lemma demo_used:
  assumes "outside s = outside demoKeys"
  shows "\<exists>u k. ks_recordLastUsed (sv_store demoService) ''k1'' 1 at s = (u, Inr (Some k))"
  using assms
  by (auto simp: demo_store demo_collections feltDbApiKeyStore_def storeRecordLastUsed_def casItem_def run_simps memColl_def asKey_def key_stored)

lemma demo_success: "\<exists>u. recordSuccessfulAuthEvent memEnv demoService k at s = (u, Inr ())"
  by (auto simp: recordSuccessfulAuthEvent_def recordAuthEvent_def auditEvent_def demo_store demo_collections feltDbAuditSink_def run_simps memColl_def)

lemma demo_authenticated:
  "\<exists>t. authenticateApiKey memEnv demoService (JStr demoSecret) demoKeys = (t, Inr (Some keyPrincipal))"
proof -
  obtain s where found: "findApiKeyByPrefix demoService ''app_live_0a1b2c'' demoKeys = (s, Inr (Some demoKey))" and s: "outside s = outside demoKeys"
    using known_key_found by blast
  have now: "draw (e_now memEnv) s = (s, Inr 1700000000000)" using s by (simp add: draw_def memNow_def)
  have admitted: "authenticationFailure memEnv demoService demoKey demoSecret 1700000000000 = None"
    using demo_verified by (simp add: authenticationFailure_def demo_store, simp add: demoService_def feltDbKeyService_def)
  have at: "toISOString 1700000000000 = Inr demoTime" by code_simp
  obtain u k where used: "ks_recordLastUsed (sv_store demoService) ''k1'' 1 demoTime s = (u, Inr (Some k))" using demo_used [OF s] by blast
  let ?k = "demoKey\<lparr>ak_lastUsedAt := Some (case ak_lastUsedAt k of None \<Rightarrow> demoTime | Some x \<Rightarrow> x), ak_version := ak_version k\<rparr>"
  obtain w where recorded: "recordSuccessfulAuthEvent memEnv demoService ?k demoTime u = (w, Inr ())" using demo_success by blast
  obtain v where remembered: "rememberLocal ?k w = (v, Inr ())" by (cases "rememberLocal ?k w") (auto simp: rememberLocal_def split: if_splits)
  have rounds: "MAX_UPDATE_ATTEMPTS = Suc 9" by (simp add: MAX_UPDATE_ATTEMPTS_def)
  show ?thesis
    unfolding authenticateApiKey_def jsval.case demo_parsed option.case rounds authenticateLoop.simps Let_def
    using found now admitted at used recorded remembered demo_to_principal [of ?k]
    by (simp del: mem_env add: bindA_def settle_def act_simps)
qed

lemma authentication_sound_witness:
  "\<exists>t. authenticateApiKey memEnv demoService (JStr demoSecret) demoKeys = (t, Inr (Some keyPrincipal)) \<and>
     (\<exists>i k. storedKeys memView demoKeys i = Some k \<and> pr_principalId keyPrincipal = ak_id k \<and> \<not> isRevoked k)"
proof -
  obtain t where run: "authenticateApiKey memEnv demoService (JStr demoSecret) demoKeys = (t, Inr (Some keyPrincipal))"
    using demo_authenticated by blast
  from authentication_sound [OF demo_gateway demoService_def run, of keyPrincipal] run show ?thesis by blast
qed

end
