(* ===== verification/Transactions.thy ===== *)
theory Transactions
  imports Webhooks JobStore Sensitive
begin

text \<open>
  Atomic composition of application state with the services (\<open>runtime/transaction.ts\<close>,
  \<open>runtime/transaction-services.ts\<close>): the operations a callback may queue, the validations that run
  beside it, and the commit.
\<close>

section \<open>State\<close>

record emitted_event =
  em_tenantId :: string
  em_type :: string
  em_payload :: jsval

record job_request =
  jq_tenantId :: string
  jq_type :: string
  jq_payload :: jsval
  jq_maxAttempts :: "int option"
  jq_runAt :: "string option"
  jq_delegationId :: "string option"

record note_request =
  nq_tenantId :: string
  nq_recipient :: string
  nq_type :: string
  nq_title :: string
  nq_body :: "string option"
  nq_data :: jsval
  nq_source :: "notification_source option"
  nq_priority :: "notification_priority option"

text \<open>
  A queued validation is a promise: it waits for the lookup of the endpoints (for these ids, this event
  and this context), has their list and waits for its turn, or has settled.
\<close>

datatype 'w pending_work =
    Waiting "string list" emitted_event "'w exec_context"
  | Listed "string list" emitted_event "'w exec_context" "webhook_endpoint list"
  | Fulfilled
  | Rejected exn

text \<open>The operations of the builder and the pending promises.\<close>

record 'w tx_state =
  tx_operations :: "db_op list"
  tx_pending :: "'w pending_work list"

definition newTransaction :: "'w tx_state" where
  "newTransaction = \<lparr>tx_operations = [], tx_pending = []\<rparr>"

record 'w transaction_host =
  th_gateway :: "'w gateway option"
  th_endpoints :: "(string \<Rightarrow> ('w, webhook_endpoint list) service) option"

type_synonym ('w, 'a) transacting = "('w sys \<times> 'w tx_state, exn, 'a) act"

definition inTransaction :: "('w, 'a) service \<Rightarrow> ('w, 'a) transacting" where
  "inTransaction m = (\<lambda>(s, x). case m s of (t, r) \<Rightarrow> ((t, x), r))"

text \<open>\<open>new Date().toISOString()\<close>\<close>

definition dateISO :: "'w env \<Rightarrow> ('w, string) service" where
  "dateISO E = bindA (draw (e_date E)) (\<lambda>t. liftR (toISOString t))"

definition addOp :: "db_op \<Rightarrow> ('w, unit) transacting" where
  "addOp p = (\<lambda>(s, x). ((s, x\<lparr>tx_operations := tx_operations x @ [p]\<rparr>), Inr ()))"

definition insertion :: "string \<Rightarrow> string \<Rightarrow> doc \<Rightarrow> db_op" where
  "insertion name i d =
     \<lparr>op_collection = name, op_id = i, op_requireAbsent = True, op_requirePresent = False, op_expectedVersion = None, op_value = d\<rparr>"

section \<open>Operations of the application\<close>

text \<open>
  The code keeps the object that the application passes, and checks its collection once. Here the
  operation is a value: the application does not change the object after it has passed it.
\<close>

definition addOperation :: "string \<Rightarrow> string \<Rightarrow> jsval \<Rightarrow> bool \<Rightarrow> bool \<Rightarrow> int option \<Rightarrow> ('w, unit) transacting" where
  "addOperation name i v requireAbsent requirePresent expectedVersion =
     bindA (liftR (assertApplicationCollection name)) (\<lambda>_.
     addOp \<lparr>op_collection = name, op_id = i, op_requireAbsent = requireAbsent, op_requirePresent = requirePresent,
       op_expectedVersion = expectedVersion, op_value = AppDoc v\<rparr>)"

text \<open>The two methods of the collection view; obtaining the view checks the name.\<close>

definition collectionInsert :: "string \<Rightarrow> jsval \<Rightarrow> string \<Rightarrow> ('w, unit) transacting" where
  "collectionInsert name v i =
     bindA (liftR (assertApplicationCollection name)) (\<lambda>_. addOp (insertion name i (AppDoc v)))"

definition collectionUpdateIfVersion :: "string \<Rightarrow> string \<Rightarrow> int \<Rightarrow> jsval \<Rightarrow> ('w, unit) transacting" where
  "collectionUpdateIfVersion name i expectedVersion updates =
     bindA (liftR (assertApplicationCollection name)) (\<lambda>_.
     addOp \<lparr>op_collection = name, op_id = i, op_requireAbsent = False, op_requirePresent = False,
       op_expectedVersion = Some expectedVersion, op_value = AppDoc updates\<rparr>)"

section \<open>Operations of the services\<close>

text \<open>
  A queued effect consumes its context, which must be issued for the capability, the tenant and the
  type of resource, and puts the row of its evidence into the transaction.
\<close>

definition authorizedEffect ::
  "'w env \<Rightarrow> 'w transaction_host \<Rightarrow> 'w context_value \<Rightarrow> string \<Rightarrow> string \<Rightarrow> string \<Rightarrow> ('w, 'w exec_context) transacting" where
  "authorizedEffect E T v capability tenantId resourceType = (case th_gateway T of
      None \<Rightarrow> raise (ServiceAuthorityError AUTHORITY_UNAVAILABLE ''Transactions have no AuthBoundry authority configured'' noDetails)
    | Some G \<Rightarrow>
        bindA (inTransaction (consumeExecutionContext E v capability (Some tenantId))) (\<lambda>c.
        if rs_type (cx_resource c) \<noteq> resourceType
        then raise (ServiceAuthorityError DENIED (''Execution context was issued for a '' @ rs_type (cx_resource c) @
               '', not a '' @ resourceType) noDetails)
        else
          bindA (inTransaction (draw (e_uuid E))) (\<lambda>i.
          bindA (inTransaction (dateISO E)) (\<lambda>at.
          bindA (addOp (insertion EVIDENCE_COLLECTION i (EvidenceDoc (evidenceFor c (serviceOptions ''transaction'') i at Succeeded)))) (\<lambda>_.
          ret c)))))"

definition queueWebhookDeliveries ::
  "'w env \<Rightarrow> 'w transaction_host \<Rightarrow> string list \<Rightarrow> emitted_event \<Rightarrow> 'w context_value \<Rightarrow> ('w, unit) transacting" where
  "queueWebhookDeliveries E T endpointIds ev v =
     bindA (authorizedEffect E T v ''webhooks.emit'' (em_tenantId ev) ''webhook_event'') (\<lambda>c.
     if attribute (cx_resource c) ''eventType'' \<noteq> Some (em_type ev)
     then raise (ServiceAuthorityError DENIED (''Execution context was not issued for event '' @ em_type ev) noDetails)
     else case th_endpoints T of
       None \<Rightarrow> raise (ServiceAuthorityError AUTHORITY_UNAVAILABLE
         ''Transactions cannot validate webhook endpoints without the webhook service'' noDetails)
     | Some lookup \<Rightarrow> (\<lambda>(s, x). ((s, x\<lparr>tx_pending := tx_pending x @ [Waiting endpointIds ev c]\<rparr>), Inr ())))"

text \<open>The validation of the endpoint ids, against the endpoints the service lists.\<close>

definition validTarget :: "webhook_endpoint list \<Rightarrow> emitted_event \<Rightarrow> string \<Rightarrow> string \<Rightarrow> bool" where
  "validTarget registered ev application i = (case List.find (\<lambda>k. wp_id k = i) registered of
      None \<Rightarrow> False
    | Some k \<Rightarrow> wp_tenantId k = em_tenantId ev \<and> wp_applicationId k = Some application \<and>
        \<not> truthy (wp_disabledAt k) \<and> em_type ev \<in> set (wp_events k))"

fun checkTargets :: "webhook_endpoint list \<Rightarrow> emitted_event \<Rightarrow> string \<Rightarrow> string list \<Rightarrow> exn + unit" where
  "checkTargets registered ev application [] = Inr ()"
| "checkTargets registered ev application (i # ids) =
     (if validTarget registered ev application i then checkTargets registered ev application ids
      else Inl (ServiceAuthorityError DENIED (''Endpoint '' @ i @ '' is not a registered, enabled subscriber to '' @ em_type ev @
             '' for this tenant'') noDetails))"

definition queuedDelivery :: "string \<Rightarrow> string \<Rightarrow> string \<Rightarrow> string \<Rightarrow> emitted_event \<Rightarrow> 'w exec_context \<Rightarrow> webhook_delivery" where
  "queuedDelivery i endpointId eventId createdAt ev c =
     \<lparr>dv_id = i, dv_tenantId = em_tenantId ev, dv_endpointId = endpointId, dv_eventId = eventId, dv_eventType = em_type ev,
      dv_payload = em_payload ev, dv_status = DeliveryPending, dv_attemptCount = 0, dv_nextAttemptAt = Some createdAt,
      dv_createdAt = createdAt, dv_lastAttemptAt = None, dv_deliveredAt = None, dv_lastStatusCode = None, dv_lastError = None,
      dv_principal = Some (toDurablePrincipal (cx_principal c) None (Some (cx_decisionId c))), dv_version = 1\<rparr>"

definition queuedWebhookEvent :: "string \<Rightarrow> string \<Rightarrow> emitted_event \<Rightarrow> 'w exec_context \<Rightarrow> webhook_event" where
  "queuedWebhookEvent i createdAt ev c =
     \<lparr>we_id = i, we_type = ''webhook.event.emitted'', we_endpointId = None, we_deliveryId = None, we_integrationId = None,
      we_tenantId = em_tenantId ev, we_principalId = pr_principalId (cx_principal c), we_timestamp = createdAt, we_success = True,
      we_reason = None, we_eventType = Some (em_type ev)\<rparr>"

definition addDelivery :: "'w env \<Rightarrow> string \<Rightarrow> string \<Rightarrow> emitted_event \<Rightarrow> 'w exec_context \<Rightarrow> string \<Rightarrow> ('w, unit) transacting" where
  "addDelivery E eventId createdAt ev c endpointId =
     bindA (inTransaction (draw (e_uuid E))) (\<lambda>i.
     addOp (insertion WEBHOOK_DELIVERIES_COLLECTION i (DeliveryDoc (queuedDelivery i endpointId eventId createdAt ev c))))"

definition addDeliveries :: "'w env \<Rightarrow> string list \<Rightarrow> emitted_event \<Rightarrow> 'w exec_context \<Rightarrow> ('w, unit) transacting" where
  "addDeliveries E endpointIds ev c =
     bindA (inTransaction (draw (e_uuid E))) (\<lambda>eventId.
     bindA (inTransaction (dateISO E)) (\<lambda>createdAt.
     bindA (mapA (addDelivery E eventId createdAt ev c) endpointIds) (\<lambda>_.
     bindA (inTransaction (draw (e_uuid E))) (\<lambda>i.
     addOp (insertion WEBHOOK_AUDIT_COLLECTION i (WebhookEventDoc (queuedWebhookEvent i createdAt ev c)))))))"

definition validateDeliveries ::
  "'w env \<Rightarrow> string list \<Rightarrow> emitted_event \<Rightarrow> 'w exec_context \<Rightarrow> webhook_endpoint list \<Rightarrow> ('w, unit) transacting" where
  "validateDeliveries E endpointIds ev c registered =
     bindA (liftR (checkTargets registered ev (cx_application c) endpointIds)) (\<lambda>_. addDeliveries E endpointIds ev c)"

definition setWork :: "nat \<Rightarrow> 'w pending_work \<Rightarrow> 'w tx_state \<Rightarrow> 'w tx_state" where
  "setWork n work x = x\<lparr>tx_pending := (tx_pending x)[n := work]\<rparr>"

text \<open>
  The event loop goes on with the \<open>n\<close>-th promise: the lookup reads the endpoints, and later, when
  other code may have run, the rest validates the ids against what it read and adds the deliveries.
\<close>

definition resumeWork :: "'w env \<Rightarrow> 'w transaction_host \<Rightarrow> nat \<Rightarrow> ('w, unit) transacting" where
  "resumeWork E T n = (\<lambda>(s, x).
     if n < length (tx_pending x) then
       (case tx_pending x ! n of
          Waiting endpointIds ev c \<Rightarrow>
            (case th_endpoints T of
               None \<Rightarrow> ((s, x), Inr ())
             | Some lookup \<Rightarrow>
                 (case lookup (em_tenantId ev) s of
                    (t, Inl e) \<Rightarrow> ((t, setWork n (Rejected e) x), Inr ())
                  | (t, Inr registered) \<Rightarrow> ((t, setWork n (Listed endpointIds ev c registered) x), Inr ())))
        | Listed endpointIds ev c registered \<Rightarrow>
            (case validateDeliveries E endpointIds ev c registered (s, x) of
               ((t, y), Inl e) \<Rightarrow> ((t, setWork n (Rejected e) y), Inr ())
             | ((t, y), Inr _) \<Rightarrow> ((t, setWork n Fulfilled y), Inr ()))
        | _ \<Rightarrow> ((s, x), Inr ()))
     else ((s, x), Inr ()))"

definition queuedJob :: "string \<Rightarrow> string \<Rightarrow> job_request \<Rightarrow> string option \<Rightarrow> 'w exec_context \<Rightarrow> job" where
  "queuedJob i now q delegationId c =
     (let runAt = (case jq_runAt q of Some at \<Rightarrow> at | None \<Rightarrow> now) in
      \<lparr>jb_id = i, jb_tenantId = jq_tenantId q, jb_applicationId = Some (cx_application c), jb_type = jq_type q,
       jb_payload = jq_payload q, jb_status = (if strLeq runAt now then JobPending else JobScheduled), jb_runAt = runAt,
       jb_attemptCount = 0, jb_maxAttempts = (case jq_maxAttempts q of Some n \<Rightarrow> n | None \<Rightarrow> 3), jb_createdAt = now,
       jb_startedAt = None, jb_completedAt = None, jb_nextAttemptAt = Some runAt, jb_leaseOwner = None, jb_leaseExpiresAt = None,
       jb_lastError = None, jb_principal = Some (toDurablePrincipal (cx_principal c) delegationId (Some (cx_decisionId c))),
       jb_version = 1\<rparr>)"

definition queuedJobEvent :: "string \<Rightarrow> string \<Rightarrow> string \<Rightarrow> job_request \<Rightarrow> 'w exec_context \<Rightarrow> job_event" where
  "queuedJobEvent i jobId now q c =
     \<lparr>je_id = i, je_type = ''job.enqueued'', je_jobId = Some jobId, je_scheduleId = None, je_tenantId = jq_tenantId q,
      je_principalId = pr_principalId (cx_principal c), je_timestamp = now, je_success = True, je_details = None,
      je_jobType = Some (jq_type q)\<rparr>"

text \<open>The delegation of the job is the one that was authorized; a caller may name it, but no other.\<close>

definition queueJob :: "'w env \<Rightarrow> 'w transaction_host \<Rightarrow> job_request \<Rightarrow> 'w context_value \<Rightarrow> ('w, string) transacting" where
  "queueJob E T q v =
     bindA (authorizedEffect E T v ''jobs.create'' (jq_tenantId q) ''job'') (\<lambda>c.
     if attribute (cx_resource c) ''jobType'' \<noteq> Some (jq_type q)
     then raise (ServiceAuthorityError DENIED (''Execution context was not issued for job type '' @ jq_type q) noDetails)
     else if jq_delegationId q \<noteq> None \<and> jq_delegationId q \<noteq> effectiveDelegation c
     then raise (ServiceAuthorityError DENIED ''Execution context was not issued for this delegation'' noDetails)
     else
       bindA (inTransaction (draw (e_uuid E))) (\<lambda>i.
       bindA (inTransaction (dateISO E)) (\<lambda>now.
       bindA (addOp (insertion JOBS_COLLECTION i (JobDoc (queuedJob i now q (effectiveDelegation c) c)))) (\<lambda>_.
       bindA (inTransaction (draw (e_uuid E))) (\<lambda>j.
       bindA (addOp (insertion JOB_AUDIT_COLLECTION j (JobEventDoc (queuedJobEvent j i now q c)))) (\<lambda>_.
       ret i))))))"

definition sourceValue :: "notification_source \<Rightarrow> jsval" where
  "sourceValue src = JObj [(''type'', JStr (ns_type src)),
     (''id'', case ns_id src of Some x \<Rightarrow> JStr x | None \<Rightarrow> JUndef),
     (''eventId'', case ns_eventId src of Some x \<Rightarrow> JStr x | None \<Rightarrow> JUndef)]"

definition checkNoteContent :: "note_request \<Rightarrow> exn + unit" where
  "checkNoteContent q =
     bindR (assertNoCredentials (JStr (nq_title q)) ''title'') (\<lambda>_.
     bindR (case nq_body q of Some x \<Rightarrow> assertNoCredentials (JStr x) ''body'' | None \<Rightarrow> Inr ()) (\<lambda>_.
     bindR (assertNoCredentials (nq_data q) ''data'') (\<lambda>_.
     (case nq_source q of Some src \<Rightarrow> assertNoCredentials (sourceValue src) ''source'' | None \<Rightarrow> Inr ()))))"

definition queuedNotification :: "string \<Rightarrow> string \<Rightarrow> note_request \<Rightarrow> 'w exec_context \<Rightarrow> notification" where
  "queuedNotification i now q c =
     \<lparr>nt_id = i, nt_tenantId = nq_tenantId q, nt_applicationId = Some (cx_application c), nt_recipient = nq_recipient q,
      nt_type = nq_type q, nt_title = nq_title q, nt_body = nq_body q, nt_data = nq_data q, nt_source = nq_source q,
      nt_priority = (case nq_priority q of Some pr \<Rightarrow> pr | None \<Rightarrow> PriorityNormal), nt_channels = [''in-app''],
      nt_status = NoteDelivered, nt_idempotencyKey = None, nt_createdAt = now, nt_createdBy = Some (pr_principalId (cx_principal c)),
      nt_expiresAt = None, nt_deliveredAt = Some now, nt_failedAt = None, nt_expiredAt = None, nt_readAt = None,
      nt_acknowledgedAt = None, nt_dismissedAt = None, nt_version = 1\<rparr>"

definition queuedNoteDelivery :: "string \<Rightarrow> string \<Rightarrow> string \<Rightarrow> note_request \<Rightarrow> note_delivery" where
  "queuedNoteDelivery j i now q =
     \<lparr>nd_id = j, nd_tenantId = nq_tenantId q, nd_notificationId = i, nd_recipient = nq_recipient q, nd_channel = ''in-app'',
      nd_status = SendDelivered, nd_idempotencyKey = i @ '':in-app'', nd_attemptCount = 1, nd_maxAttempts = 1, nd_createdAt = now,
      nd_lastAttemptAt = Some now, nd_nextAttemptAt = None, nd_deliveredAt = Some now, nd_failedAt = None, nd_failureReason = None,
      nd_externalId = None, nd_version = 1\<rparr>"

definition queuedNoteEvent :: "string \<Rightarrow> string \<Rightarrow> string \<Rightarrow> note_request \<Rightarrow> 'w exec_context \<Rightarrow> note_event" where
  "queuedNoteEvent j i now q c =
     \<lparr>ne_id = j, ne_type = ''notification.created'', ne_notificationId = i, ne_tenantId = nq_tenantId q, ne_recipient = nq_recipient q,
      ne_principalId = pr_principalId (cx_principal c), ne_timestamp = now, ne_success = True, ne_channel = None, ne_deliveryId = None\<rparr>"

definition queueNotification :: "'w env \<Rightarrow> 'w transaction_host \<Rightarrow> note_request \<Rightarrow> 'w context_value \<Rightarrow> ('w, string) transacting" where
  "queueNotification E T q v =
     bindA (authorizedEffect E T v ''notifications.send'' (nq_tenantId q) ''notification'') (\<lambda>c.
     if attribute (cx_resource c) ''recipient'' \<noteq> Some (nq_recipient q)
     then raise (ServiceAuthorityError DENIED ''Execution context was not issued for this recipient'' noDetails)
     else
       bindA (liftR (checkNoteContent q)) (\<lambda>_.
       bindA (inTransaction (draw (e_uuid E))) (\<lambda>i.
       bindA (inTransaction (dateISO E)) (\<lambda>now.
       bindA (addOp (insertion ''notifications'' i (NotificationDoc (queuedNotification i now q c)))) (\<lambda>_.
       bindA (inTransaction (draw (e_uuid E))) (\<lambda>j.
       bindA (addOp (insertion ''notification_deliveries'' j (NoteDeliveryDoc (queuedNoteDelivery j i now q)))) (\<lambda>_.
       bindA (inTransaction (draw (e_uuid E))) (\<lambda>k.
       bindA (addOp (insertion ''notification_audit_events'' k (NoteEventDoc (queuedNoteEvent k i now q c)))) (\<lambda>_.
       ret i)))))))))"

section \<open>A transaction\<close>

text \<open>
  What happens while the callback runs: its calls of the context, the event loop going on with a promise,
  and whatever else the application does in between, as a change of the state. A call that throws is
  thrown to the callback, which may go on; which calls it makes, and what it returns or throws in the
  end, is its own.
\<close>

datatype 'w tx_event =
    AddOperation string string jsval bool bool "int option"
  | CollectionInsert string jsval string
  | CollectionUpdate string string int jsval
  | QueueDeliveries "string list" emitted_event "'w context_value"
  | QueueJob job_request "'w context_value"
  | QueueNotification note_request "'w context_value"
  | Resumes nat
  | HostDoes "'w sys \<Rightarrow> 'w sys"

definition tried :: "('w, 'a) transacting \<Rightarrow> 'w sys \<times> 'w tx_state \<Rightarrow> 'w sys \<times> 'w tx_state" where
  "tried m \<sigma> = fst (m \<sigma>)"

fun txEvent :: "'w env \<Rightarrow> 'w transaction_host \<Rightarrow> 'w tx_event \<Rightarrow> 'w sys \<times> 'w tx_state \<Rightarrow> 'w sys \<times> 'w tx_state" where
  "txEvent E T (AddOperation name i v ra rp ver) \<sigma> = tried (addOperation name i v ra rp ver) \<sigma>"
| "txEvent E T (CollectionInsert name v i) \<sigma> = tried (collectionInsert name v i) \<sigma>"
| "txEvent E T (CollectionUpdate name i ver v) \<sigma> = tried (collectionUpdateIfVersion name i ver v) \<sigma>"
| "txEvent E T (QueueDeliveries ids ev v) \<sigma> = tried (queueWebhookDeliveries E T ids ev v) \<sigma>"
| "txEvent E T (QueueJob q v) \<sigma> = tried (queueJob E T q v) \<sigma>"
| "txEvent E T (QueueNotification q v) \<sigma> = tried (queueNotification E T q v) \<sigma>"
| "txEvent E T (Resumes n) \<sigma> = tried (resumeWork E T n) \<sigma>"
| "txEvent E T (HostDoes f) \<sigma> = (f (fst \<sigma>), snd \<sigma>)"

definition runCallback :: "'w env \<Rightarrow> 'w transaction_host \<Rightarrow> 'w tx_event list \<Rightarrow> 'w sys \<Rightarrow> 'w sys \<times> 'w tx_state" where
  "runCallback E T events s = fold (txEvent E T) events (s, newTransaction)"

text \<open>
  \<open>_settle\<close>: the promises that still wait go on, in some order, until all are settled or one is
  rejected; two steps of each are enough.
  \<open>Promise.all\<close> rejects with the first rejection in the list when there is one, else with the next.
\<close>

definition rejections :: "'w tx_state \<Rightarrow> exn list" where
  "rejections x = List.map_filter (\<lambda>w. case w of Rejected e \<Rightarrow> Some e | _ \<Rightarrow> None) (tx_pending x)"

fun settleAll :: "'w env \<Rightarrow> 'w transaction_host \<Rightarrow> nat list \<Rightarrow> ('w, unit) transacting" where
  "settleAll E T [] \<sigma> = (\<sigma>, case rejections (snd \<sigma>) of [] \<Rightarrow> Inr () | e # _ \<Rightarrow> Inl e)"
| "settleAll E T (n # ns) \<sigma> = (case rejections (snd \<sigma>) of
      [] \<Rightarrow> settleAll E T ns (tried (resumeWork E T n) \<sigma>)
    | e # _ \<Rightarrow> (\<sigma>, Inl e))"

definition settlePending :: "'w env \<Rightarrow> 'w transaction_host \<Rightarrow> nat list \<Rightarrow> ('w, unit) transacting" where
  "settlePending E T order = (\<lambda>(s, x). settleAll E T (order @ [0..<length (tx_pending x)] @ [0..<length (tx_pending x)]) (s, x))"

definition commit :: "'w env \<Rightarrow> db_op list \<Rightarrow> ('w, unit) service" where
  "commit E ops = (if ops = [] then ret () else ext (e_transaction E ops))"

text \<open>
  The transaction of a callback that goes through \<open>events\<close> and ends with \<open>outcome\<close>; \<open>order\<close> is the
  order in which promises go on afterwards.
\<close>

definition transaction ::
  "'w env \<Rightarrow> 'w transaction_host \<Rightarrow> 'w tx_event list \<Rightarrow> nat list \<Rightarrow> exn + 'a \<Rightarrow> ('w, 'a) service" where
  "transaction E T events order outcome = (\<lambda>s.
     case runCallback E T events s of (u, x) \<Rightarrow>
       (case outcome of
          Inl e \<Rightarrow> (u, Inl e)
        | Inr result \<Rightarrow>
            (case settlePending E T order (u, x) of
               ((t, y), Inl e) \<Rightarrow> (t, Inl e)
             | ((t, y), Inr _) \<Rightarrow> bindA (commit E (tx_operations y)) (\<lambda>_. ret result) t)))"

end
