(* ===== verification/TransactionRuns.thy ===== *)
theory TransactionRuns
  imports Transactions
begin

text \<open>
  What a transaction commits: every operation on a collection of the services is accounted for by an
  execution context that this transaction consumed, with its evidence in the same batch.
\<close>

section \<open>Accounts\<close>

definition grantedFor :: "'w exec_context \<Rightarrow> string \<Rightarrow> string \<Rightarrow> string \<Rightarrow> bool" where
  "grantedFor c capability tenantId resourceType \<longleftrightarrow>
     cx_capability c = capability \<and> cx_tenantId c = tenantId \<and> rs_type (cx_resource c) = resourceType"

definition evidenceOf :: "'w exec_context \<Rightarrow> db_op \<Rightarrow> bool" where
  "evidenceOf c p \<longleftrightarrow> (\<exists>i at. p = insertion EVIDENCE_COLLECTION i (EvidenceDoc (evidenceFor c (serviceOptions ''transaction'') i at Succeeded)))"

definition emits :: "'w exec_context \<Rightarrow> emitted_event \<Rightarrow> bool" where
  "emits c ev \<longleftrightarrow> grantedFor c ''webhooks.emit'' (em_tenantId ev) ''webhook_event'' \<and>
     attribute (cx_resource c) ''eventType'' = Some (em_type ev)"

definition creates :: "'w exec_context \<Rightarrow> job_request \<Rightarrow> bool" where
  "creates c q \<longleftrightarrow> grantedFor c ''jobs.create'' (jq_tenantId q) ''job'' \<and> attribute (cx_resource c) ''jobType'' = Some (jq_type q) \<and>
     jq_delegationId q \<in> {None, effectiveDelegation c}"

definition notifies :: "'w exec_context \<Rightarrow> note_request \<Rightarrow> bool" where
  "notifies c q \<longleftrightarrow> grantedFor c ''notifications.send'' (nq_tenantId q) ''notification'' \<and>
     attribute (cx_resource c) ''recipient'' = Some (nq_recipient q) \<and> checkNoteContent q = Inr ()"

text \<open>The operations a context of the services can stand for, besides its evidence.\<close>

inductive queuedUnder :: "'w transaction_host \<Rightarrow> 'w exec_context \<Rightarrow> db_op \<Rightarrow> bool" for T :: "'w transaction_host" and c :: "'w exec_context" where
  delivery: "emits c ev \<Longrightarrow> th_endpoints T = Some lookup \<Longrightarrow> lookup (em_tenantId ev) s = (t, Inr registered) \<Longrightarrow>
     validTarget registered ev (cx_application c) endpointId \<Longrightarrow>
     queuedUnder T c (insertion WEBHOOK_DELIVERIES_COLLECTION i (DeliveryDoc (queuedDelivery i endpointId eventId at ev c)))"
| emission: "emits c ev \<Longrightarrow> queuedUnder T c (insertion WEBHOOK_AUDIT_COLLECTION i (WebhookEventDoc (queuedWebhookEvent i at ev c)))"
| job: "creates c q \<Longrightarrow> queuedUnder T c (insertion JOBS_COLLECTION i (JobDoc (queuedJob i now q (effectiveDelegation c) c)))"
| creation: "creates c q \<Longrightarrow> queuedUnder T c (insertion JOB_AUDIT_COLLECTION i (JobEventDoc (queuedJobEvent i j now q c)))"
| notification: "notifies c q \<Longrightarrow> queuedUnder T c (insertion ''notifications'' i (NotificationDoc (queuedNotification i now q c)))"
| note_delivery: "notifies c q \<Longrightarrow> queuedUnder T c (insertion ''notification_deliveries'' i (NoteDeliveryDoc (queuedNoteDelivery i j now q)))"
| notice: "notifies c q \<Longrightarrow> queuedUnder T c (insertion ''notification_audit_events'' i (NoteEventDoc (queuedNoteEvent i j now q c)))"

text \<open>A batch is accounted for by the contexts \<open>gs\<close>: one row of evidence for each, and nothing else of the services.\<close>

definition accountedBatch :: "'w transaction_host \<Rightarrow> 'w exec_context list \<Rightarrow> db_op list \<Rightarrow> bool" where
  "accountedBatch T gs ops \<longleftrightarrow>
     list_all2 evidenceOf gs (filter (\<lambda>p. op_collection p = EVIDENCE_COLLECTION) ops) \<and>
     (\<forall>p\<in>set ops. op_collection p \<in> set SERVICE_OWNED_COLLECTIONS \<longrightarrow>
        op_collection p = EVIDENCE_COLLECTION \<or> (\<exists>c\<in>set gs. queuedUnder T c p))"

text \<open>Contexts consumed between two states, each once.\<close>

definition consumedSince :: "'w sys \<Rightarrow> 'w sys \<Rightarrow> 'w exec_context list \<Rightarrow> bool" where
  "consumedSince s t gs \<longleftrightarrow> set (consumedContexts s) \<subseteq> set (consumedContexts t) \<and> distinct (map cx_ref gs) \<and>
     (\<forall>c\<in>set gs. cx_ref c \<in> set (consumedContexts t) \<and> cx_ref c \<notin> set (consumedContexts s))"

fun tracked :: "'w transaction_host \<Rightarrow> 'w exec_context list \<Rightarrow> 'w pending_work \<Rightarrow> bool" where
  "tracked T gs (Waiting ids ev c) \<longleftrightarrow> c \<in> set gs \<and> emits c ev"
| "tracked T gs (Listed ids ev c registered) \<longleftrightarrow> c \<in> set gs \<and> emits c ev \<and>
     (\<exists>lookup s t. th_endpoints T = Some lookup \<and> lookup (em_tenantId ev) s = (t, Inr registered))"
| "tracked T gs _ \<longleftrightarrow> True"

lemma tracked_more: "list_all (tracked T gs) ws \<Longrightarrow> list_all (tracked T (gs @ [c])) ws"
proof (erule list.pred_mono_strong)
  fix w
  assume "tracked T gs w"
  then show "tracked T (gs @ [c]) w" by (cases w) auto
qed

definition accounted :: "'w transaction_host \<Rightarrow> 'w sys \<Rightarrow> 'w exec_context list \<Rightarrow> 'w sys \<times> 'w tx_state \<Rightarrow> bool" where
  "accounted T s0 gs \<sigma> \<longleftrightarrow> consumedSince s0 (fst \<sigma>) gs \<and> accountedBatch T gs (tx_operations (snd \<sigma>)) \<and>
     list_all (tracked T gs) (tx_pending (snd \<sigma>))"

text \<open>What the transaction takes from outside: other code never unconsumes a context.\<close>

definition quietHost :: "'w tx_event list \<Rightarrow> bool" where
  "quietHost events \<longleftrightarrow> (\<forall>f s. HostDoes f \<in> set events \<longrightarrow> set (consumedContexts s) \<subseteq> set (consumedContexts (f s)))"

section \<open>Steps\<close>

locale transactions =
  fixes E :: "'w env" and T :: "'w transaction_host"
  assumes lookup_quiet: "th_endpoints T = Some lookup \<Longrightarrow> moves (\<lambda>s t. consumedContexts t = consumedContexts s) (lookup tenantId)"
begin

abbreviation accountedBy :: "'w sys \<Rightarrow> 'w exec_context list \<Rightarrow> 'w sys \<times> 'w tx_state \<Rightarrow> 'w sys \<times> 'w tx_state \<Rightarrow> bool" where
  "accountedBy s0 gs \<sigma> \<tau> \<equiv> accounted T s0 gs \<sigma> \<longrightarrow> accounted T s0 gs \<tau>"

lemma accounted_frame: "frame (accountedBy s0 gs)"
  by unfold_locales auto

lemmas accounted_rules = frame.frame_rules [OF accounted_frame]

lemma quiet_in:
  assumes "moves (\<lambda>s t. consumedContexts t = consumedContexts s) m"
  shows "moves (accountedBy s0 gs) (inTransaction m)"
proof (rule movesI)
  fix \<sigma> \<tau> r
  assume "inTransaction m \<sigma> = (\<tau>, r)"
  then obtain t where "m (fst \<sigma>) = (t, r)" "\<tau> = (t, snd \<sigma>)" by (cases \<sigma>) (auto simp: inTransaction_def split: prod.splits)
  with movesD [OF assms this(1)] show "accountedBy s0 gs \<sigma> \<tau>" by (auto simp: accounted_def consumedSince_def)
qed

lemma quiet_draw: "moves (\<lambda>s t. consumedContexts t = consumedContexts s) (draw m)"
  by (rule movesI) (auto simp: draw_eq_iff)

lemma quiet_date: "moves (\<lambda>s t. consumedContexts t = consumedContexts s) (dateISO E)"
  by (rule movesI) (auto simp: dateISO_def bindA_def liftR_def draw_def split: prod.splits sum.splits)

lemmas quiet_calls = quiet_in [OF quiet_draw] quiet_in [OF quiet_date] quiet_in [OF lookup_quiet]

lemma addOp_moves:
  assumes "op_collection p \<noteq> EVIDENCE_COLLECTION" and "op_collection p \<notin> set SERVICE_OWNED_COLLECTIONS \<or> (\<exists>c\<in>set gs. queuedUnder T c p)"
  shows "moves (accountedBy s0 gs) (addOp p)"
  using assms by (intro movesI) (auto simp: addOp_def accounted_def accountedBatch_def split: prod.splits)

lemma queued_collection: "queuedUnder T c p \<Longrightarrow> op_collection p \<noteq> EVIDENCE_COLLECTION"
  by (auto elim!: queuedUnder.cases simp: insertion_def EVIDENCE_COLLECTION_def WEBHOOK_DELIVERIES_COLLECTION_def
      WEBHOOK_AUDIT_COLLECTION_def JOBS_COLLECTION_def JOB_AUDIT_COLLECTION_def)

lemma queued_moves: "c \<in> set gs \<Longrightarrow> queuedUnder T c p \<Longrightarrow> moves (accountedBy s0 gs) (addOp p)"
  using queued_collection by (intro addOp_moves) blast+

lemma application_moves:
  "moves (accountedBy s0 gs) (addOperation name i v ra rp ver)"
  "moves (accountedBy s0 gs) (collectionInsert name v i)"
  "moves (accountedBy s0 gs) (collectionUpdateIfVersion name i ver' v)"
  unfolding addOperation_def collectionInsert_def collectionUpdateIfVersion_def
  by (intro frame.moves_lifted [OF accounted_frame] addOp_moves;
      auto simp: assertApplicationCollection_def insertion_def SERVICE_OWNED_COLLECTIONS_def EVIDENCE_COLLECTION_def split: if_splits)+

lemma consumed:
  assumes "consumeExecutionContext E v capability (Some tenantId) s = (t, r)"
  shows "case r of Inl e \<Rightarrow> consumedContexts t = consumedContexts s
    | Inr c \<Rightarrow> v = Issued c \<and> cx_capability c = capability \<and> cx_tenantId c = tenantId \<and> cx_ref c \<notin> set (consumedContexts s) \<and>
        consumedContexts t = cx_ref c # consumedContexts s"
  using assms
  by (auto simp: consumeExecutionContext_def bindA_def draw_def liftR_def assertExecutionContext_def
      split: prod.splits sum.splits if_splits context_value.splits)

lemma authorized:
  assumes "authorizedEffect E T v capability tenantId resourceType \<sigma> = (\<tau>, r)" and "accounted T s0 gs \<sigma>"
  shows "case r of Inl e \<Rightarrow> accounted T s0 gs \<tau>
    | Inr c \<Rightarrow> accounted T s0 (gs @ [c]) \<tau> \<and> grantedFor c capability tenantId resourceType"
proof (cases "th_gateway T")
  case (Some G)
  obtain s x where \<sigma>: "\<sigma> = (s, x)" by (cases \<sigma>)
  obtain t q where step: "consumeExecutionContext E v capability (Some tenantId) s = (t, q)" by (cases "consumeExecutionContext E v capability (Some tenantId) s")
  show ?thesis
  proof (cases q)
    case (Inl e)
    then show ?thesis using assms Some \<sigma> consumed [OF step] step
      by (auto simp: authorizedEffect_def bindA_def inTransaction_def accounted_def consumedSince_def)
  next
    case (Inr c)
    have c: "cx_capability c = capability" "cx_tenantId c = tenantId" "cx_ref c \<notin> set (consumedContexts s)"
      "consumedContexts t = cx_ref c # consumedContexts s"
      using consumed [OF step] Inr by auto
    have kept: "accounted T s0 gs (t', x)" if "consumedContexts t' = consumedContexts t" for t'
      using assms(2) \<sigma> c that by (auto simp: accounted_def consumedSince_def)
    have added: "accounted T s0 (gs @ [c]) (t', x\<lparr>tx_operations := tx_operations x @ [p]\<rparr>)"
      if "consumedContexts t' = consumedContexts t" "evidenceOf c p" "op_collection p = EVIDENCE_COLLECTION" for t' p
      using assms(2) \<sigma> c that by (auto simp: accounted_def consumedSince_def accountedBatch_def list_all2_appendI tracked_more)
    show ?thesis
    proof (cases "rs_type (cx_resource c) = resourceType")
      case False
      then show ?thesis using assms(1) Some \<sigma> step Inr kept [of t]
        by (auto simp: authorizedEffect_def bindA_def inTransaction_def raise_def)
    next
      case True
      obtain w i where uuid: "e_uuid E (outside t) = (w, i)" by (cases "e_uuid E (outside t)")
      obtain w' n where date: "e_date E w = (w', n)" by (cases "e_date E w")
      let ?row = "\<lambda>at. insertion EVIDENCE_COLLECTION i (EvidenceDoc (evidenceFor c (serviceOptions ''transaction'') i at Succeeded))"
      have rowed: "accounted T s0 (gs @ [c]) (t\<lparr>outside := w'\<rparr>, x\<lparr>tx_operations := tx_operations x @ [?row at]\<rparr>)" for at
        by (rule added) (auto simp: evidenceOf_def insertion_def)
      show ?thesis
        using assms(1) Some \<sigma> step Inr True uuid date c kept rowed
        by (cases "toISOString n")
          (auto simp: authorizedEffect_def bindA_def inTransaction_def draw_def dateISO_def liftR_def addOp_def ret_def
            grantedFor_def)
    qed
  qed
qed (use assms in \<open>auto simp: authorizedEffect_def raise_def\<close>)

text \<open>An authorized call whose continuation keeps the accounts that include the new context.\<close>

lemma authorized_bind:
  assumes "accounted T s0 gs \<sigma>"
    and "\<And>c. grantedFor c capability tenantId resourceType \<Longrightarrow> moves (accountedBy s0 (gs @ [c])) (k c)"
  shows "\<exists>gs'. accounted T s0 gs' (tried (bindA (authorizedEffect E T v capability tenantId resourceType) k) \<sigma>)"
proof -
  obtain \<tau> r where step: "authorizedEffect E T v capability tenantId resourceType \<sigma> = (\<tau>, r)"
    by (cases "authorizedEffect E T v capability tenantId resourceType \<sigma>")
  show ?thesis
  proof (cases r)
    case (Inl e)
    then show ?thesis using authorized [OF step assms(1)] step by (auto simp: tried_def bindA_def)
  next
    case (Inr c)
    then have c: "accounted T s0 (gs @ [c]) \<tau>" "grantedFor c capability tenantId resourceType"
      using authorized [OF step assms(1)] by auto
    with assms(2) [OF c(2)] have "accounted T s0 (gs @ [c]) (fst (k c \<tau>))" unfolding moves_def by blast
    then show ?thesis using step Inr by (auto simp: tried_def bindA_def)
  qed
qed

lemma deliveries_accounted:
  assumes "accounted T s0 gs \<sigma>"
  shows "\<exists>gs'. accounted T s0 gs' (tried (queueWebhookDeliveries E T ids ev v) \<sigma>)"
  unfolding queueWebhookDeliveries_def
proof (rule authorized_bind [OF assms])
  fix c :: "'w exec_context"
  assume granted: "grantedFor c ''webhooks.emit'' (em_tenantId ev) ''webhook_event''"
  have "moves (accountedBy s0 (gs @ [c])) (\<lambda>(s, x). ((s, x\<lparr>tx_pending := tx_pending x @ [Waiting ids ev c]\<rparr>), Inr ()))"
    if "attribute (cx_resource c) ''eventType'' = Some (em_type ev)"
  proof (rule movesI, rule impI)
    fix \<sigma> \<tau> r
    assume step: "(\<lambda>(s, x). ((s, x\<lparr>tx_pending := tx_pending x @ [Waiting ids ev c]\<rparr>), Inr ())) \<sigma> = (\<tau>, r)" and before: "accounted T s0 (gs @ [c]) \<sigma>"
    have "emits c ev" using granted that by (simp add: emits_def)
    moreover obtain s x where "\<sigma> = (s, x)" by (cases \<sigma>)
    moreover from this have "\<tau> = (s, x\<lparr>tx_pending := tx_pending x @ [Waiting ids ev c]\<rparr>)" using step by simp
    ultimately show "accounted T s0 (gs @ [c]) \<tau>" using before unfolding accounted_def by auto
  qed
  then show "moves (accountedBy s0 (gs @ [c])) (if attribute (cx_resource c) ''eventType'' \<noteq> Some (em_type ev)
     then raise (ServiceAuthorityError DENIED (''Execution context was not issued for event '' @ em_type ev) noDetails)
     else case th_endpoints T of
       None \<Rightarrow> raise (ServiceAuthorityError AUTHORITY_UNAVAILABLE
         ''Transactions cannot validate webhook endpoints without the webhook service'' noDetails)
     | Some lookup \<Rightarrow> (\<lambda>(s, x). ((s, x\<lparr>tx_pending := tx_pending x @ [Waiting ids ev c]\<rparr>), Inr ())))"
    by (intro accounted_rules) auto
qed

lemma job_accounted:
  assumes "accounted T s0 gs \<sigma>"
  shows "\<exists>gs'. accounted T s0 gs' (tried (queueJob E T q v) \<sigma>)"
  unfolding queueJob_def
  by (rule authorized_bind [OF assms], intro accounted_rules quiet_calls queued_moves)
    (auto simp: creates_def intro: queuedUnder.intros)

lemma notification_accounted:
  assumes "accounted T s0 gs \<sigma>"
  shows "\<exists>gs'. accounted T s0 gs' (tried (queueNotification E T q v) \<sigma>)"
  unfolding queueNotification_def
  by (rule authorized_bind [OF assms], intro accounted_rules frame.moves_lifted [OF accounted_frame] quiet_calls queued_moves)
    (auto simp: notifies_def intro: queuedUnder.intros)

lemma mapA_moves: "(\<And>x. x \<in> set xs \<Longrightarrow> moves (accountedBy s0 gs) (f x)) \<Longrightarrow> moves (accountedBy s0 gs) (mapA f xs)"
  by (induction xs) (auto intro!: accounted_rules)

lemma checkTargets_iff: "checkTargets registered ev app ids = Inr () \<longleftrightarrow> (\<forall>i\<in>set ids. validTarget registered ev app i)"
  by (induction ids) auto

lemma validated_moves:
  assumes "tracked T gs (Listed ids ev c registered)"
  shows "moves (accountedBy s0 gs) (validateDeliveries E ids ev c registered)"
proof -
  obtain lookup s t where c: "c \<in> set gs" "emits c ev" "th_endpoints T = Some lookup" "lookup (em_tenantId ev) s = (t, Inr registered)"
    using assms by auto
  have "moves (accountedBy s0 gs) (addDeliveries E ids ev c)" if "\<forall>i\<in>set ids. validTarget registered ev (cx_application c) i"
    unfolding addDeliveries_def addDelivery_def
    using that c by (intro accounted_rules mapA_moves quiet_calls queued_moves [of c]) (auto intro: queuedUnder.intros)
  then show ?thesis
    unfolding validateDeliveries_def by (intro frame.moves_lifted [OF accounted_frame]) (simp add: checkTargets_iff)
qed

lemma setWork_accounted:
  assumes "accounted T s0 gs (t, y)" and "tracked T gs work"
  shows "accounted T s0 gs (t, setWork n work y)"
  using assms by (auto simp: accounted_def setWork_def list_all_iff dest!: set_update_subset_insert [THEN subsetD])

lemma resumed_accounted:
  assumes "accounted T s0 gs \<sigma>"
  shows "accounted T s0 gs (tried (resumeWork E T n) \<sigma>)"
proof -
  obtain s x where \<sigma>: "\<sigma> = (s, x)" by (cases \<sigma>)
  show ?thesis
  proof (cases "n < length (tx_pending x)")
    case True
    then have tracked: "tracked T gs (tx_pending x ! n)" using assms by (simp add: \<sigma> accounted_def list_all_length)
    show ?thesis
    proof (cases "tx_pending x ! n")
      case (Waiting ids ev c)
      then show ?thesis
      proof (cases "th_endpoints T")
        case (Some lookup)
        obtain t r where step: "lookup (em_tenantId ev) s = (t, r)" by (cases "lookup (em_tenantId ev) s")
        have "consumedContexts t = consumedContexts s" using movesD [OF lookup_quiet [OF Some] step] .
        then have "accounted T s0 gs (t, x)" using assms by (simp add: \<sigma> accounted_def consumedSince_def)
        moreover have "tracked T gs (case r of Inl e \<Rightarrow> Rejected e | Inr registered \<Rightarrow> Listed ids ev c registered)"
          using tracked Waiting Some step by (cases r) auto
        ultimately show ?thesis
          using True Waiting Some step setWork_accounted [of s0 gs t x]
          by (cases r) (simp_all add: \<sigma> resumeWork_def tried_def)
      qed (use True Waiting assms in \<open>simp add: \<sigma> resumeWork_def tried_def\<close>)
    next
      case (Listed ids ev c registered)
      obtain t y r where step: "validateDeliveries E ids ev c registered (s, x) = ((t, y), r)" by (metis surj_pair)
      have "accounted T s0 gs (t, y)"
        using movesD [OF validated_moves step] tracked assms by (simp add: \<sigma> Listed)
      from setWork_accounted [OF this] show ?thesis
        using True Listed step by (cases r) (simp_all add: \<sigma> resumeWork_def tried_def)
    qed (use True assms in \<open>simp_all add: \<sigma> resumeWork_def tried_def\<close>)
  qed (use assms in \<open>simp add: \<sigma> resumeWork_def tried_def\<close>)
qed

lemma tried_accounted: "moves (accountedBy s0 gs) m \<Longrightarrow> accounted T s0 gs \<sigma> \<Longrightarrow> accounted T s0 gs (tried m \<sigma>)"
  unfolding moves_def tried_def by blast

lemma event_accounted:
  assumes "accounted T s0 gs \<sigma>" and "\<And>f s. event = HostDoes f \<Longrightarrow> set (consumedContexts s) \<subseteq> set (consumedContexts (f s))"
  shows "\<exists>gs'. accounted T s0 gs' (txEvent E T event \<sigma>)"
proof (cases event)
  case (HostDoes f)
  then have "set (consumedContexts (fst \<sigma>)) \<subseteq> set (consumedContexts (f (fst \<sigma>)))" using assms(2) by blast
  then show ?thesis using assms(1) HostDoes by (intro exI [of _ gs]) (auto simp: accounted_def consumedSince_def)
next
  case Resumes
  then show ?thesis using resumed_accounted [OF assms(1)] by auto
next
  case AddOperation
  then show ?thesis using tried_accounted [OF application_moves(1) assms(1)] by (simp only: txEvent.simps) blast
next
  case CollectionInsert
  then show ?thesis using tried_accounted [OF application_moves(2) assms(1)] by (simp only: txEvent.simps) blast
next
  case CollectionUpdate
  then show ?thesis using tried_accounted [OF application_moves(3) assms(1)] by (simp only: txEvent.simps) blast
qed (use deliveries_accounted [OF assms(1)] job_accounted [OF assms(1)] notification_accounted [OF assms(1)] in auto)

lemma events_accounted:
  assumes "accounted T s0 gs \<sigma>" and "quietHost events"
  shows "\<exists>gs'. accounted T s0 gs' (fold (txEvent E T) events \<sigma>)"
  using assms
proof (induction events arbitrary: gs \<sigma>)
  case (Cons event events)
  then obtain gs' where "accounted T s0 gs' (txEvent E T event \<sigma>)"
    using event_accounted [of s0 gs \<sigma> event] by (auto simp: quietHost_def)
  then show ?case using Cons by (auto simp: quietHost_def)
qed auto

lemma settleAll_accounted: "accounted T s0 gs \<sigma> \<Longrightarrow> accounted T s0 gs (fst (settleAll E T ns \<sigma>))"
  by (induction ns arbitrary: \<sigma>) (simp_all add: resumed_accounted split: list.split)

lemma callback_accounted:
  assumes "quietHost events" and "settlePending E T order (runCallback E T events s) = ((u, y), q)"
  shows "\<exists>gs. accounted T s gs (u, y)"
proof -
  have "accounted T s [] (s, newTransaction)"
    by (simp add: accounted_def consumedSince_def accountedBatch_def newTransaction_def)
  from events_accounted [OF this assms(1)] obtain gs where "accounted T s gs (runCallback E T events s)"
    by (auto simp: runCallback_def)
  moreover obtain v x where run: "runCallback E T events s = (v, x)" by (cases "runCallback E T events s")
  moreover from this have "(u, y) = fst (settleAll E T (order @ [0..<length (tx_pending x)] @ [0..<length (tx_pending x)]) (v, x))"
    using assms(2) by (simp add: settlePending_def)
  ultimately show ?thesis using settleAll_accounted by (metis (no_types))
qed

end

section \<open>The application's transactions\<close>

text \<open>How \<open>runtime/unified-services.ts\<close> and \<open>runtime/appport.ts\<close> set a transaction up.\<close>

definition applicationTransactions :: "'w gateway option \<Rightarrow> 'w webhook_service option \<Rightarrow> 'w transaction_host" where
  "applicationTransactions G SV = \<lparr>th_gateway = G, th_endpoints = map_option listWebhookEndpoints SV\<rparr>"

lemma application_transactions:
  assumes "\<And>W. SV = Some W \<Longrightarrow> ws_endpointStore W = feltDbWebhookEndpointStore E"
  shows "transactions (applicationTransactions G SV)"
proof
  fix lookup tenantId
  assume "th_endpoints (applicationTransactions G SV) = Some lookup"
  then show "moves (\<lambda>s t. consumedContexts t = consumedContexts s) (lookup tenantId)"
    using assms by (intro movesI) (auto simp: applicationTransactions_def listWebhookEndpoints_def feltDbWebhookEndpointStore_def
        endpointStoreList_def ext_eq_iff)
qed

interpretation managed: transactions E "applicationTransactions G (map_option (\<lambda>W. W\<lparr>ws_endpointStore := feltDbWebhookEndpointStore E\<rparr>) SV)"
  for E G SV
  by (rule application_transactions) auto



end
