(* ===== verification/TransactionExamples.thy ===== *)
theory TransactionExamples
  imports TransactionRuns WebhookExamples
begin


definition jobContext :: "mem exec_context" where
  "jobContext = demoGrant \<lparr>cp_name = ''jobs.create'', cp_version = 1, cp_service = ''jobs'', cp_operation = ''enqueue'',
       cp_effect = Consequential, cp_invocable = True, cp_required = True, cp_resource = ''job''\<rparr> demoPrincipal
     \<lparr>rs_type = ''job'', rs_tenantId = ''acme'', rs_id = None, rs_attributes = Some [(''jobType'', ''report'')]\<rparr> demoSys"




lemma job_context_fields [simp]:
  "cx_capability jobContext = ''jobs.create''" "cx_tenantId jobContext = ''acme''" "rs_type (cx_resource jobContext) = ''job''"
  "attribute (cx_resource jobContext) ''jobType'' = Some ''report''" "effectiveDelegation jobContext = None" "cx_ref jobContext = 0"
  by (simp_all add: jobContext_def demoGrant_def attribute_def effectiveDelegation_def orElse_def demoPrincipal_def demoSys_def)









end
