(* ===== verification/Spec2Isabelle.thy ===== *)
theory Spec2Isabelle
  imports Prelude IsoTime Models Platform Authority Evidence Gateway Memory Restrictions Encoding
    ApiKeyStore Examples ApiKeys ApiKeyLifecycle ApiKeyAccess ApiKeyPages KeyExamples Operations JobStore Jobs
    JobLifecycle JobRuns JobExamples Lifecycle Files FileLifecycle DemoRuns FileExamples
    Destination WebhookStore Webhooks WebhookLifecycle WebhookRuns WebhookExamples WebhookInbound DeliveryExamples InboundExamples Sensitive
    JobWorker WorkerExamples KeyAccessExamples Transactions TransactionRuns TransactionExamples
begin

text \<open>
  A verification of the AppPort services.
\<close>

end
